(* ===== verification/Prelude.thy ===== *)
theory Prelude
  imports Complex_Main "HOL-Library.AList"
begin

text \<open>
  Shared vocabulary of the development: Python values that cross JSON
  boundaries, exceptions as values, validation chains, database sessions as
  explicit state passing, transactions with rollback, tables as lists of rows,
  and the generic lemmas on them.
\<close>

named_theorems outcome_simps \<open>unfolding rules of results, checks and session programs\<close>

section \<open>Strings, times and JSON values\<close>

text \<open>A Python str is a list of characters; a date-time is an aware UTC instant in microseconds.\<close>

type_synonym time = int

definition seconds :: "int \<Rightarrow> time" where
  "seconds n = n * 1000000"

datatype json =
    JNull
  | JBool bool
  | JInt int
  | JFloat rat
  | JStr string
  | JTime time
  | JArr "json list"
  | JObj "(string \<times> json) list"

type_synonym jobject = "(string \<times> json) list"

text \<open>\<open>str | None\<close> truthiness: \<open>None\<close> and the empty string are falsy.\<close>

definition truthy :: "string option \<Rightarrow> bool" where
  "truthy s = (case s of None \<Rightarrow> False | Some t \<Rightarrow> t \<noteq> [])"

lemma truthy_simps [simp]: "\<not> truthy None" "truthy (Some t) \<longleftrightarrow> t \<noteq> []"
  by (simp_all add: truthy_def)

definition jstr_opt :: "string option \<Rightarrow> json" where
  "jstr_opt s = (case s of None \<Rightarrow> JNull | Some t \<Rightarrow> JStr t)"

text \<open>Python's \<open>str(int)\<close>, and its inverse on decimal digits.\<close>

fun show_nat :: "nat \<Rightarrow> string" where
  "show_nat n = (if n < 10 then [char_of (48 + n)]
                 else show_nat (n div 10) @ [char_of (48 + n mod 10)])"

declare show_nat.simps [simp del]

definition show_int :: "int \<Rightarrow> string" where
  "show_int i = (if i < 0 then CHR ''-'' # show_nat (nat (- i)) else show_nat (nat i))"

definition parse_nat :: "string \<Rightarrow> nat" where
  "parse_nat s = foldl (\<lambda>n c. 10 * n + (of_char c - 48)) 0 s"

lemma parse_show_nat: "parse_nat (show_nat n) = n"
proof (induction n rule: show_nat.induct)
  case (1 n)
  have digit: "of_char (char_of (48 + d) :: char) - 48 = d" if "d < 10" for d :: nat
    using that by simp
  show ?case
  proof (cases "n < 10")
    case True
    with digit show ?thesis by (simp add: parse_nat_def show_nat.simps)
  next
    case False
    with "1.IH" digit [of "n mod 10"] show ?thesis
      by (simp add: parse_nat_def show_nat.simps [of n])
  qed
qed

lemma show_nat_inject: "show_nat m = show_nat n \<longleftrightarrow> m = n"
  by (metis parse_show_nat)

text \<open>
  Building a dict from pairs in order: a repeated key keeps its place and takes
  the later value.
\<close>

definition dict_of :: "('k \<times> 'v) list \<Rightarrow> ('k \<times> 'v) list" where
  "dict_of kvs = fold (\<lambda>(k, v) d. AList.update k v d) kvs []"

lemma dict_of_Nil [simp]: "dict_of [] = []"
  by (simp add: dict_of_def)

lemma dict_of_snoc: "dict_of (kvs @ [(k, v)]) = AList.update k v (dict_of kvs)"
  by (simp add: dict_of_def)

lemma map_of_dict_of: "map_of (dict_of kvs) = map_of (rev kvs)"
proof (induction kvs rule: rev_induct)
  case (snoc x xs)
  then show ?case by (cases x) (simp add: dict_of_snoc update_conv')
qed simp

lemma map_of_key: "map_of kvs k = Some v \<Longrightarrow> k \<in> fst ` set kvs"
  by (metis domI dom_map_of_conv_image_fst)

lemma distinct_dict_of: "distinct (map fst (dict_of kvs))"
proof (induction kvs rule: rev_induct)
  case (snoc x xs)
  then show ?case by (cases x) (simp add: dict_of_snoc distinct_update)
qed simp

text \<open>\<open>obj.get(k)\<close>\<close>

definition get_value :: "jobject \<Rightarrow> string \<Rightarrow> json" where
  "get_value obj k = (case map_of obj k of None \<Rightarrow> JNull | Some v \<Rightarrow> v)"

section \<open>Exceptions as values\<close>

text \<open>The exception classes the modelled code raises, and Python's subclass relation on them.\<close>

datatype exc_class =
    ValueError | TypeError | KeyError | LookupError | RuntimeError | PermissionError
  | AssertionError | IntegrityError | OtherException
  | PermitValidationError | ExecutionProfileRejected
  | ExecutionAttemptError | ExecutionAttemptRecoveryRequired
  | PendingActionError | ApprovalPauseError | ApprovalPersistenceError
  | ResumeExecutionError | ExecutionAuthorizationError | GovernanceBatchError
  | PlannerOutputError | GovernedPlanError | PackLifecycleError
  | DomainPackContractNotInstallable | TaskAdmissionConflict
  | TaskAdmissionRecoveryRequired | PersistedExecutionError
  | BrowserRuntimeError bool | StaleObservationError
  | AgentRunError nat | TimeoutError | JWTError | HTTPException nat | AttributeError | PlannerProviderError
  | IndexError | SyntheticPaymentError | DefiniteSubmissionFailure | AmbiguousSubmissionFailure | StripeProbeError
  | GovernedDryRunError | DetachedInstanceError

datatype exn = Exc exc_class string

fun exc_of :: "exn \<Rightarrow> exc_class" where
  "exc_of (Exc c m) = c"

fun message :: "exn \<Rightarrow> string" where
  "message (Exc c m) = m"

text \<open>\<open>except ValueError\<close> catches exactly these classes.\<close>

definition is_value_error :: "exn \<Rightarrow> bool" where
  "is_value_error e = (exc_of e \<in>
     {ValueError, PermitValidationError, ExecutionAttemptError, ExecutionAttemptRecoveryRequired,
      PendingActionError, ApprovalPauseError, ApprovalPersistenceError, ResumeExecutionError,
      ExecutionAuthorizationError, GovernanceBatchError, PlannerOutputError,
      DomainPackContractNotInstallable, TaskAdmissionConflict,
      SyntheticPaymentError, DefiniteSubmissionFailure, AmbiguousSubmissionFailure, GovernedDryRunError})"

type_synonym 'a res = "exn + 'a"

abbreviation Raise :: "exc_class \<Rightarrow> string \<Rightarrow> 'a res" where
  "Raise c m \<equiv> Inl (Exc c m)"

abbreviation Ok :: "'a \<Rightarrow> 'a res" where
  "Ok x \<equiv> Inr x"

definition is_ok :: "'a res \<Rightarrow> bool" where
  "is_ok r = (case r of Inl _ \<Rightarrow> False | Inr _ \<Rightarrow> True)"

lemma is_ok_simps [simp]: "\<not> is_ok (Inl e)" "is_ok (Inr x)"
  by (simp_all add: is_ok_def)

lemma is_ok_iff: "is_ok r \<longleftrightarrow> (\<exists>x. r = Inr x)"
  by (cases r) auto

definition res_bind :: "'a res \<Rightarrow> ('a \<Rightarrow> 'b res) \<Rightarrow> 'b res" where
  "res_bind r f = (case r of Inl e \<Rightarrow> Inl e | Inr x \<Rightarrow> f x)"

lemma res_bind_simps [simp]: "res_bind (Inl e) f = Inl e" "res_bind (Inr x) f = f x"
  by (simp_all add: res_bind_def)

lemma res_bind_ok: "res_bind r f = Inr y \<longleftrightarrow> (\<exists>x. r = Inr x \<and> f x = Inr y)"
  by (cases r) simp_all

section \<open>Validation chains\<close>

text \<open>
  A chain of \<open>if bad: raise E\<close> statements followed by the rest of the body:
  the first failing guard decides.
\<close>

fun checks :: "(bool \<times> exn) list \<Rightarrow> 'a res \<Rightarrow> 'a res" where
  "checks [] r = r"
| "checks ((bad, e) # cs) r = (if bad then Inl e else checks cs r)"

lemma checks_ok [outcome_simps]:
  "checks cs r = Inr x \<longleftrightarrow> (\<forall>c \<in> set cs. \<not> fst c) \<and> r = Inr x"
  by (induction cs) (auto split: if_splits)

lemma checks_first_error:
  assumes "checks cs r = Inl e"
  shows "(\<exists>pre c post. cs = pre @ (True, e) # post \<and> (\<forall>c \<in> set pre. \<not> fst c)) \<or>
         ((\<forall>c \<in> set cs. \<not> fst c) \<and> r = Inl e)"
  using assms
proof (induction cs)
  case (Cons c cs)
  obtain bad e' where c: "c = (bad, e')" by (cases c)
  show ?case
  proof (cases bad)
    case True
    with Cons.prems c have "c # cs = [] @ (True, e) # cs" by simp
    then show ?thesis by fastforce
  next
    case False
    with Cons c consider
        (guard) pre post where "cs = pre @ (True, e) # post" "\<forall>c \<in> set pre. \<not> fst c"
      | (rest) "\<forall>c \<in> set cs. \<not> fst c" "r = Inl e"
      by auto
    then show ?thesis
    proof cases
      case guard
      with False c have "c # cs = (c # pre) @ (True, e) # post \<and> (\<forall>c \<in> set (c # pre). \<not> fst c)" by simp
      then show ?thesis by blast
    next
      case rest
      with False c show ?thesis by simp
    qed
  qed
qed simp

text \<open>The classes an outcome may raise.\<close>

definition raises_only :: "exc_class set \<Rightarrow> 'a res \<Rightarrow> bool" where
  "raises_only K r = (\<forall>e. r = Inl e \<longrightarrow> exc_of e \<in> K)"

lemma raises_only_simps [simp]: "raises_only K (Inr x)" "raises_only K (Inl e) \<longleftrightarrow> exc_of e \<in> K"
  by (simp_all add: raises_only_def)

lemma raises_only_checks:
  "list_all (\<lambda>c. exc_of (snd c) \<in> K) cs \<Longrightarrow> raises_only K r \<Longrightarrow> raises_only K (checks cs r)"
  by (induction cs) auto

lemma raises_only_bind:
  "raises_only K r \<Longrightarrow> (\<And>x. r = Inr x \<Longrightarrow> raises_only K (f x)) \<Longrightarrow> raises_only K (res_bind r f)"
  by (cases r) simp_all

lemma raises_only_mono: "raises_only K r \<Longrightarrow> K \<subseteq> K' \<Longrightarrow> raises_only K' r"
  by (auto simp: raises_only_def)

text \<open>A \<open>for\<close> loop whose body only validates: the first raising element decides.\<close>

fun each :: "('a \<Rightarrow> unit res) \<Rightarrow> 'a list \<Rightarrow> unit res" where
  "each f [] = Inr ()"
| "each f (x # xs) = res_bind (f x) (\<lambda>_. each f xs)"

lemma each_ok [outcome_simps]: "each f xs = Inr u \<longleftrightarrow> (\<forall>x \<in> set xs. f x = Inr ())"
  by (induction xs) (auto simp: res_bind_ok)

text \<open>Building a list element by element, stopping at the first exception.\<close>

fun map_res :: "('a \<Rightarrow> 'b res) \<Rightarrow> 'a list \<Rightarrow> 'b list res" where
  "map_res f [] = Inr []"
| "map_res f (x # xs) = res_bind (f x) (\<lambda>y. res_bind (map_res f xs) (\<lambda>ys. Inr (y # ys)))"

lemma map_res_ok: "map_res f xs = Inr ys \<longleftrightarrow> list_all2 (\<lambda>x y. f x = Inr y) xs ys"
  by (induction xs arbitrary: ys) (auto simp: res_bind_ok list_all2_Cons1)

text \<open>\<open>next(x for x in xs if p(x))\<close>\<close>

lemma find_mem: "List.find P xs = Some x \<Longrightarrow> x \<in> set xs \<and> P x"
  by (induction xs) (auto split: if_splits)

lemma find_exists: "(\<exists>x. List.find P xs = Some x) \<longleftrightarrow> (\<exists>x \<in> set xs. P x)"
  by (induction xs) auto

section \<open>Session programs\<close>

text \<open>
  Code working on a database session takes the session state and returns the
  result with the state it leaves, also when it raises: what a handler wrote
  before an exception is still in the session until its owner rolls back.
\<close>

type_synonym ('s, 'a) prog = "'s \<Rightarrow> 'a res \<times> 's"

definition prog_bind :: "('s, 'a) prog \<Rightarrow> ('a \<Rightarrow> ('s, 'b) prog) \<Rightarrow> ('s, 'b) prog" where
  "prog_bind m f s = (case m s of (Inl e, t) \<Rightarrow> (Inl e, t) | (Inr x, t) \<Rightarrow> f x t)"

text \<open>\<open>async with session.begin()\<close>: commit on normal exit, roll back when the body raises.\<close>

definition transaction :: "('s, 'a) prog \<Rightarrow> ('s, 'a) prog" where
  "transaction m s = (case m s of (Inl e, t) \<Rightarrow> (Inl e, s) | (Inr x, t) \<Rightarrow> (Inr x, t))"

lemma prog_bind_ok:
  "prog_bind m f s = (Inr y, u) \<longleftrightarrow> (\<exists>x t. m s = (Inr x, t) \<and> f x t = (Inr y, u))"
  by (auto simp: prog_bind_def split: prod.splits sum.splits)

lemma prog_bind_cases:
  assumes "prog_bind m f s = (r, u)"
  obtains (raised) e where "m s = (Inl e, u)" "r = Inl e"
    | (returned) x t where "m s = (Inr x, t)" "f x t = (r, u)"
  using assms by (auto simp: prog_bind_def split: prod.splits sum.splits)

lemma transaction_ok: "transaction m s = (Inr x, t) \<longleftrightarrow> m s = (Inr x, t)"
  by (auto simp: transaction_def split: prod.splits sum.splits)

lemma transaction_raise: "transaction m s = (Inl e, t) \<longleftrightarrow> t = s \<and> (\<exists>u. m s = (Inl e, u))"
  by (auto simp: transaction_def split: prod.splits sum.splits)

text \<open>
  An invariant of the session state is kept by a program when every exit, also
  an exceptional one, keeps it; a transaction only needs the normal exits.
\<close>

definition keeps :: "('s \<Rightarrow> bool) \<Rightarrow> ('s, 'a) prog \<Rightarrow> bool" where
  "keeps I m = (\<forall>s. I s \<longrightarrow> I (snd (m s)))"

lemma keepsI: "(\<And>s. I s \<Longrightarrow> I (snd (m s))) \<Longrightarrow> keeps I m"
  by (simp add: keeps_def)

lemma keepsD: "keeps I m \<Longrightarrow> m s = (r, t) \<Longrightarrow> I s \<Longrightarrow> I t"
  by (metis keeps_def snd_conv)

lemma keeps_bind: "keeps I m \<Longrightarrow> (\<And>x. keeps I (f x)) \<Longrightarrow> keeps I (prog_bind m f)"
  unfolding keeps_def prog_bind_def
  by (fastforce split: prod.splits sum.splits)

lemma keeps_transaction: "keeps I m \<Longrightarrow> keeps I (transaction m)"
  unfolding keeps_def transaction_def
  by (fastforce split: prod.splits sum.splits)

text \<open>Raising unless a condition holds, reading, and returning a value inside a program.\<close>

definition demand :: "bool \<Rightarrow> exn \<Rightarrow> ('s, unit) prog" where
  "demand b e s = (if b then Ok () else Inl e, s)"

definition lift_read :: "('s \<Rightarrow> 'a res) \<Rightarrow> ('s, 'a) prog" where
  "lift_read f s = (f s, s)"

definition lift_res :: "'a res \<Rightarrow> ('s, 'a) prog" where
  "lift_res r s = (r, s)"

definition catching :: "(exn \<Rightarrow> exn) \<Rightarrow> ('s, 'a) prog \<Rightarrow> ('s, 'a) prog" where
  "catching f m s = (case m s of (Inl e, t) \<Rightarrow> (Inl (f e), t) | (Inr x, t) \<Rightarrow> (Ok x, t))"

text \<open>\<open>try: m, except Exception: h, else: f\<close>, the else branch outside the handler.\<close>

definition trying :: "('s, 'a) prog \<Rightarrow> (exn \<Rightarrow> ('s, 'b) prog) \<Rightarrow> ('a \<Rightarrow> ('s, 'b) prog) \<Rightarrow> ('s, 'b) prog" where
  "trying m h f s = (case m s of (Inl e, t) \<Rightarrow> h e t | (Inr x, t) \<Rightarrow> f x t)"

lemma trying_cases:
  assumes "trying m h f s = (r, u)"
  obtains (raised) e t where "m s = (Inl e, t)" "h e t = (r, u)"
    | (returned) x t where "m s = (Inr x, t)" "f x t = (r, u)"
  using assms by (auto simp: trying_def split: prod.splits sum.splits)

lemma keeps_trying:
  assumes "keeps I m" and "\<And>e. keeps I (h e)" and "\<And>x. keeps I (f x)"
  shows "keeps I (trying m h f)"
  using assms unfolding keeps_def trying_def by (fastforce split: prod.splits sum.splits)

lemma keeps_lift [simp]: "keeps I (lift_res r)" "keeps I (lift_read f)" "keeps I (demand b e)"
  by (simp_all add: keeps_def lift_res_def lift_read_def demand_def)

text \<open>
  A relation between the states before and after holds of every run; for a
  reflexive and transitive relation it is enough that each part guarantees it.
\<close>

definition guarantees :: "('s \<Rightarrow> 's \<Rightarrow> bool) \<Rightarrow> ('s, 'a) prog \<Rightarrow> bool" where
  "guarantees R m = (\<forall>s. R s (snd (m s)))"

lemma guaranteesI: "(\<And>s r t. m s = (r, t) \<Longrightarrow> R s t) \<Longrightarrow> guarantees R m"
  unfolding guarantees_def by (metis prod.collapse)

lemma guaranteesD: "guarantees R m \<Longrightarrow> m s = (r, t) \<Longrightarrow> R s t"
  by (metis guarantees_def snd_conv)

lemma guarantees_bind:
  assumes "transp R" and "guarantees R m" and "\<And>x. guarantees R (f x)"
  shows "guarantees R (prog_bind m f)"
proof (rule guaranteesI)
  fix s r u assume "prog_bind m f s = (r, u)"
  then show "R s u"
  proof (cases rule: prog_bind_cases)
    case (raised e)
    with assms(2) show ?thesis by (auto dest: guaranteesD)
  next
    case (returned x t)
    with assms show ?thesis by (meson guaranteesD transpD)
  qed
qed

lemma guarantees_transaction:
  assumes "reflp R" and "guarantees R m"
  shows "guarantees R (transaction m)"
proof (rule guaranteesI)
  fix s r t assume "transaction m s = (r, t)"
  then have "t = s \<or> (\<exists>x. m s = (Inr x, t))"
    by (auto simp: transaction_def split: prod.splits sum.splits)
  with assms show "R s t" by (auto dest: guaranteesD reflpD)
qed

end
