(* ===== verification/Contracts.thy ===== *)
theory Contracts
  imports Prelude
begin

text \<open>
  The Phase 2 contracts of \<open>enterprise/governance/contracts.py\<close>: enumerations with
  their wire values, and one record per pydantic model. Sets of strings stay
  sets, dictionaries are association lists, floats are rationals, date-times
  are instants (\<open>time\<close>).
\<close>

section \<open>Enumerations\<close>

datatype governance_mode = GMode_OFF | GMode_AUDIT | GMode_ENFORCE

datatype page_readiness = LOADING | READY | TRANSITIONING | BLOCKED | Readiness_UNKNOWN

fun readiness_value :: "page_readiness \<Rightarrow> string" where
  "readiness_value LOADING = ''loading''"
| "readiness_value READY = ''ready''"
| "readiness_value TRANSITIONING = ''transitioning''"
| "readiness_value BLOCKED = ''blocked''"
| "readiness_value Readiness_UNKNOWN = ''unknown''"

datatype execution_effect = NONE | READ | INTERNAL_WRITE | EXTERNAL_WRITE

fun effect_value :: "execution_effect \<Rightarrow> string" where
  "effect_value NONE = ''none''"
| "effect_value READ = ''read''"
| "effect_value INTERNAL_WRITE = ''internal_write''"
| "effect_value EXTERNAL_WRITE = ''external_write''"

text \<open>The call \<open>ExecutionEffect(text)\<close>: \<open>ValueError\<close> outside the four values.\<close>

definition effect_of_value :: "string \<Rightarrow> execution_effect res" where
  "effect_of_value v =
     (if v = ''none'' then Ok NONE
      else if v = ''read'' then Ok READ
      else if v = ''internal_write'' then Ok INTERNAL_WRITE
      else if v = ''external_write'' then Ok EXTERNAL_WRITE
      else Raise ValueError ''not a valid ExecutionEffect'')"

lemma effect_of_value_value [simp]: "effect_of_value (effect_value e) = Ok e"
  by (cases e) (simp_all add: effect_of_value_def)

datatype decision_outcome = ALLOW | REQUIRE_APPROVAL | DENY | NEEDS_HUMAN

fun outcome_value :: "decision_outcome \<Rightarrow> string" where
  "outcome_value ALLOW = ''allow''"
| "outcome_value REQUIRE_APPROVAL = ''require_approval''"
| "outcome_value DENY = ''deny''"
| "outcome_value NEEDS_HUMAN = ''needs_human''"

datatype attempt_status = AUTHORIZED | EXECUTING | CONFIRMED | UNKNOWN | FAILED

fun attempt_status_value :: "attempt_status \<Rightarrow> string" where
  "attempt_status_value AUTHORIZED = ''authorized''"
| "attempt_status_value EXECUTING = ''executing''"
| "attempt_status_value CONFIRMED = ''confirmed''"
| "attempt_status_value UNKNOWN = ''unknown''"
| "attempt_status_value FAILED = ''failed''"

lemma attempt_status_value_inject [simp]:
  "attempt_status_value a = attempt_status_value b \<longleftrightarrow> a = b"
  by (cases a; cases b) simp_all

datatype pending_status = PENDING | APPROVED | REJECTED | EXPIRED | INVALIDATED

datatype risk_level = Risk_low | Risk_medium | Risk_high | Risk_critical | Risk_unknown

fun risk_value :: "risk_level \<Rightarrow> string" where
  "risk_value Risk_low = ''low''"
| "risk_value Risk_medium = ''medium''"
| "risk_value Risk_high = ''high''"
| "risk_value Risk_critical = ''critical''"
| "risk_value Risk_unknown = ''unknown''"

section \<open>Contract models\<close>

record task_contract =
  tc_contract_id :: string
  tc_task_id :: string
  tc_organization_id :: string
  tc_initiator_id :: "string option"
  tc_service_principal_id :: "string option"
  tc_department_id :: "string option"
  tc_business_line_id :: "string option"
  tc_goal :: string
  tc_allowed_operations :: "string set"
  tc_data_scope :: jobject
  tc_authorization_snapshot :: jobject
  tc_policy_profile :: string
  tc_policy_version :: string
  tc_success_criteria :: "string list"
  tc_expires_at :: "time option"
  tc_version :: int
  tc_mode :: governance_mode

record observation_context =
  oc_observation_id :: string
  oc_task_id :: string
  oc_step_id :: string
  oc_page_url :: string
  oc_snapshot_hash :: string
  oc_page_title :: "string option"
  oc_screenshot_artifact_id :: "string option"
  oc_page_type :: "string option"
  oc_semantic_summary :: string
  oc_readiness :: page_readiness
  oc_readiness_confidence :: rat
  oc_dom_signals :: jobject
  oc_visual_signals :: jobject
  oc_target_evidence :: jobject
  oc_captured_at :: time

record action_intent =
  ai_intent_id :: string
  ai_task_id :: string
  ai_step_id :: string
  ai_action_fingerprint :: string
  ai_observation_id :: string
  ai_operation :: string
  ai_effect :: execution_effect
  ai_target :: jobject
  ai_sensitive_data_types :: "string set"
  ai_extracted_facts :: jobject
  ai_confidence :: rat
  ai_evidence :: "string list"
  ai_expected_outcome :: jobject

record policy_decision =
  pd_decision_id :: string
  pd_intent_id :: string
  pd_outcome :: decision_outcome
  pd_risk_level :: risk_level
  pd_reasons :: "string list"
  pd_matched_rules :: "string list"
  pd_required_approver :: "jobject option"
  pd_policy_version :: string

record execution_permit =
  ep_permit_id :: string
  ep_task_id :: string
  ep_step_id :: string
  ep_action_fingerprint :: string
  ep_observation_id :: string
  ep_policy_decision_id :: string
  ep_issued_at :: time
  ep_expires_at :: time
  ep_used_at :: "time option"

definition permit_matches :: "execution_permit \<Rightarrow> string \<Rightarrow> string \<Rightarrow> time \<Rightarrow> bool" where
  "permit_matches p action_fingerprint observation_id now \<longleftrightarrow>
     ep_used_at p = None \<and>
     ep_action_fingerprint p = action_fingerprint \<and>
     ep_observation_id p = observation_id \<and>
     now \<le> ep_expires_at p"

record execution_authorization =
  ea_permit_id :: string
  ea_action_fingerprint :: string
  ea_observation_hash :: string
  ea_idempotency_key :: string
  ea_effect :: execution_effect

record execution_attempt =
  xa_attempt_id :: string
  xa_task_id :: string
  xa_step_id :: string
  xa_contract_id :: string
  xa_permit_id :: "string option"
  xa_action_fingerprint :: string
  xa_observation_hash :: string
  xa_idempotency_key :: string
  xa_idempotency_key_digest :: "string option"
  xa_execution_effect :: "execution_effect option"
  xa_result_probe_ref :: "string option"
  xa_status :: attempt_status
  xa_started_at :: "time option"
  xa_completed_at :: "time option"
  xa_result_probe :: "jobject option"
  xa_error_message :: "string option"

record pending_action =
  pa_pending_action_id :: string
  pa_task_id :: string
  pa_step_id :: string
  pa_contract_id :: string
  pa_organization_id :: string
  pa_action_fingerprint :: string
  pa_observation_hash :: string
  pa_status :: pending_status
  pa_approval_id :: "string option"
  pa_row_version :: int
  pa_expires_at :: "time option"

definition is_write :: "execution_effect \<Rightarrow> bool" where
  "is_write e = (e \<in> {INTERNAL_WRITE, EXTERNAL_WRITE})"

end
