(* ===== verification/Profiles.thy ===== *)
theory Profiles
  imports Contracts
begin

text \<open>
  \<open>enterprise/governance/execution_profiles.py\<close>: which browser mechanism a governed
  attempt may reach, the evidence a CUA engine must bring, and the ContextVar
  that carries the active profile.
\<close>

section \<open>Mechanisms, evidence and profiles\<close>

datatype execution_mechanism = LOCATOR | LABEL | COORDINATE | JAVASCRIPT | CUA_COORDINATE

fun mechanism_value :: "execution_mechanism \<Rightarrow> string" where
  "mechanism_value LOCATOR = ''locator''"
| "mechanism_value LABEL = ''label''"
| "mechanism_value COORDINATE = ''coordinate''"
| "mechanism_value JAVASCRIPT = ''javascript''"
| "mechanism_value CUA_COORDINATE = ''cua_coordinate''"

datatype cua_engine = CUA_OPENAI | CUA_ANTHROPIC | CUA_UI_TARS

record cua_execution_evidence =
  cua_engine_of :: cua_engine
  cua_action_fingerprint :: string
  cua_observation_hash :: string
  cua_evidence_refs :: "string list"
  cua_captured_at :: time

text \<open>Pydantic's \<open>min_length=1\<close> constraints on the evidence model.\<close>

definition cua_evidence_valid :: "cua_execution_evidence \<Rightarrow> bool" where
  "cua_evidence_valid e \<longleftrightarrow>
     cua_action_fingerprint e \<noteq> [] \<and> cua_observation_hash e \<noteq> [] \<and> cua_evidence_refs e \<noteq> []"

text \<open>The handler's fallback chain; CUA has no rank in it (\<open>KeyError\<close> on lookup).\<close>

fun handler_fallback_order :: "execution_mechanism \<Rightarrow> int option" where
  "handler_fallback_order LOCATOR = Some 0"
| "handler_fallback_order LABEL = Some 1"
| "handler_fallback_order COORDINATE = Some 2"
| "handler_fallback_order JAVASCRIPT = Some 3"
| "handler_fallback_order CUA_COORDINATE = None"

fun profile_fallback_rank :: "execution_mechanism \<Rightarrow> int" where
  "profile_fallback_rank CUA_COORDINATE = 0"
| "profile_fallback_rank LOCATOR = 0"
| "profile_fallback_rank LABEL = 1"
| "profile_fallback_rank COORDINATE = 2"
| "profile_fallback_rank JAVASCRIPT = 3"

record execution_profile =
  prf_mechanism :: execution_mechanism
  prf_fallback_rank :: int
  prf_evidence_refs :: "string list"

text \<open>Construction: pydantic's \<open>ge=0\<close> and the model validator.\<close>

definition make_profile :: "execution_mechanism \<Rightarrow> int \<Rightarrow> string list \<Rightarrow> execution_profile res" where
  "make_profile m rank refs =
     (if rank < 0 \<or> rank \<noteq> profile_fallback_rank m
      then Raise ValueError (''fallback_rank for '' @ mechanism_value m @ '' must be '' @
             show_int (profile_fallback_rank m))
      else Ok \<lparr>prf_mechanism = m, prf_fallback_rank = rank, prf_evidence_refs = refs\<rparr>)"

definition profile_valid :: "execution_profile \<Rightarrow> bool" where
  "profile_valid p \<longleftrightarrow> prf_fallback_rank p = profile_fallback_rank (prf_mechanism p)"

lemma make_profile_valid: "make_profile m rank refs = Ok p \<Longrightarrow> profile_valid p"
  by (auto simp: make_profile_def profile_valid_def split: if_splits)

record profile_decision =
  pfd_allowed :: bool
  pfd_requires_reobservation :: bool
  pfd_reason :: string

section \<open>Eligibility\<close>

definition weak_mechanisms :: "execution_mechanism set" where
  "weak_mechanisms = {COORDINATE, JAVASCRIPT, CUA_COORDINATE}"

definition decide_profile :: "execution_effect \<Rightarrow> execution_profile \<Rightarrow> profile_decision" where
  "decide_profile effect profile =
     (if effect = EXTERNAL_WRITE \<and> prf_mechanism profile \<in> weak_mechanisms
      then \<lparr>pfd_allowed = False, pfd_requires_reobservation = True,
            pfd_reason = ''Weak fallback cannot auto-cross an external commit boundary''\<rparr>
      else if prf_evidence_refs profile = []
      then \<lparr>pfd_allowed = False, pfd_requires_reobservation = True,
            pfd_reason = ''ExecutionProfile requires evidence references''\<rparr>
      else \<lparr>pfd_allowed = True, pfd_requires_reobservation = False,
            pfd_reason = ''ExecutionProfile is policy-eligible''\<rparr>)"

definition require_allowed_profile ::
  "execution_effect \<Rightarrow> execution_profile \<Rightarrow> profile_decision res" where
  "require_allowed_profile effect profile =
     (let decision = decide_profile effect profile
      in if \<not> pfd_allowed decision then Raise ExecutionProfileRejected (pfd_reason decision)
         else Ok decision)"

lemma require_allowed_profile_ok:
  "(\<exists>d. require_allowed_profile effect profile = Ok d) \<longleftrightarrow>
     prf_evidence_refs profile \<noteq> [] \<and>
     (effect = EXTERNAL_WRITE \<longrightarrow> prf_mechanism profile \<in> {LOCATOR, LABEL})"
  by (cases "prf_mechanism profile")
     (auto simp: require_allowed_profile_def decide_profile_def weak_mechanisms_def Let_def)

section \<open>CUA evidence\<close>

definition CUA_EVIDENCE_MAX_AGE :: time where
  "CUA_EVIDENCE_MAX_AGE = seconds 30"

definition require_cua_execution_evidence ::
  "execution_profile \<Rightarrow> cua_execution_evidence option \<Rightarrow> string \<Rightarrow> string \<Rightarrow> time \<Rightarrow> unit res" where
  "require_cua_execution_evidence profile evidence action_fingerprint observation_hash current =
     (if prf_mechanism profile \<noteq> CUA_COORDINATE then
        (if evidence \<noteq> None
         then Raise ExecutionProfileRejected
                ''CUA evidence cannot authorize a non-CUA execution profile''
         else Ok ())
      else (case evidence of
        None \<Rightarrow> Raise ExecutionProfileRejected ''CUA execution profile requires fresh engine evidence''
      | Some ev \<Rightarrow>
          checks
            [(\<not> (cua_action_fingerprint ev = action_fingerprint \<and>
                 cua_observation_hash ev = observation_hash),
              Exc ExecutionProfileRejected
                ''CUA engine evidence does not match the authorized Action and observation''),
             (cua_captured_at ev > current + seconds 5,
              Exc ExecutionProfileRejected ''CUA engine evidence timestamp is in the future''),
             (current - cua_captured_at ev > CUA_EVIDENCE_MAX_AGE,
              Exc ExecutionProfileRejected
                ''CUA engine evidence is stale and requires fresh observation'')]
            (Ok ())))"

text \<open>What accepted CUA evidence guarantees.\<close>

lemma require_cua_execution_evidence_ok:
  "require_cua_execution_evidence profile evidence af oh current = Ok () \<longleftrightarrow>
     (if prf_mechanism profile = CUA_COORDINATE
      then (\<exists>ev. evidence = Some ev \<and> cua_action_fingerprint ev = af \<and>
               cua_observation_hash ev = oh \<and>
               cua_captured_at ev \<le> current + seconds 5 \<and>
               current - cua_captured_at ev \<le> CUA_EVIDENCE_MAX_AGE)
      else evidence = None)"
  by (auto simp: require_cua_execution_evidence_def split: option.splits)

section \<open>The active profile of an attempt\<close>

text \<open>
  The ContextVar \<open>_ACTIVE_EXECUTION_PROFILE\<close> is the argument \<open>active\<close>; the
  context manager binds it around its body and restores the previous value on
  every exit.
\<close>

definition governed_execution_profile ::
  "execution_profile \<Rightarrow> (execution_profile option, 'a) prog \<Rightarrow> (execution_profile option, 'a) prog" where
  "governed_execution_profile profile body token = (fst (body (Some profile)), token)"

definition execution_mechanism_is_allowed ::
  "execution_profile option \<Rightarrow> execution_mechanism \<Rightarrow> bool" where
  "execution_mechanism_is_allowed active mechanism =
     (case active of
        None \<Rightarrow> True
      | Some profile \<Rightarrow>
          if prf_mechanism profile = CUA_COORDINATE
          then mechanism \<in> {CUA_COORDINATE, COORDINATE}
          else if mechanism = CUA_COORDINATE then False
          else the (handler_fallback_order mechanism)
                 \<le> the (handler_fallback_order (prf_mechanism profile)))"

definition require_execution_mechanism ::
  "execution_profile option \<Rightarrow> execution_mechanism \<Rightarrow> unit res" where
  "require_execution_mechanism active mechanism =
     (if \<not> execution_mechanism_is_allowed active mechanism then
        (case active of
           None \<Rightarrow> Raise AssertionError []
         | Some profile \<Rightarrow> Raise ExecutionProfileRejected
             (''Execution mechanism '' @ mechanism_value mechanism @
              '' exceeds governed profile '' @ mechanism_value (prf_mechanism profile)))
      else Ok ())"

definition require_single_state_change :: "action_intent list \<Rightarrow> unit res" where
  "require_single_state_change intents =
     (let changing = filter (\<lambda>i. ai_effect i \<in> {INTERNAL_WRITE, EXTERNAL_WRITE}) intents
      in if length changing > 1
         then Raise ValueError
           ''Re-observation and reauthorization are required after one state-changing action''
         else Ok ())"

text \<open>
  A profile eligible for an external commit confines the handler to the
  grounded mechanisms.
\<close>

lemma external_write_profile_mechanisms:
  assumes "require_allowed_profile EXTERNAL_WRITE profile = Ok d"
    and "execution_mechanism_is_allowed (Some profile) m"
  shows "m \<in> {LOCATOR, LABEL}"
proof -
  from assms(1) require_allowed_profile_ok [of EXTERNAL_WRITE profile]
  have "prf_mechanism profile \<in> {LOCATOR, LABEL}" by blast
  with assms(2) show ?thesis
    by (cases m) (auto simp: execution_mechanism_is_allowed_def)
qed

text \<open>The assertion of \<open>require_execution_mechanism\<close> never fails.\<close>

lemma require_execution_mechanism_no_assert:
  "require_execution_mechanism active m \<noteq> Raise AssertionError msg"
  by (auto simp: require_execution_mechanism_def execution_mechanism_is_allowed_def
           split: option.splits)

end
