(* ===== verification/Store.thy ===== *)
theory Store
  imports Profiles
begin

text \<open>
  The governance tables of \<open>enterprise/governance/models.py\<close>, the approval table
  of \<open>enterprise/approval/models.py\<close> and the columns of Skyvern's \<open>tasks\<close> and
  \<open>steps\<close> that governance reads. A table is a list of rows in insertion order;
  a status column is the datatype its CHECK constraint allows. Interface
  \<open>row_store\<close> states what the services rely on: primary-key lookup, in-place
  update of a loaded row, and \<open>session.add\<close> followed by \<open>flush\<close>. Columns no modelled
  code reads (\<open>modified_at\<close>, \<open>created_at\<close> where nothing orders by it) are left out.
\<close>

section \<open>Rows\<close>

datatype permit_status = Permit_issued | Permit_consumed | Permit_revoked | Permit_expired

record permit_payload =
  pp_policy_decision :: policy_decision
  pp_execution_effect :: string
  pp_execution_profile :: execution_profile
  pp_cua_execution_evidence :: "cua_execution_evidence option"

text \<open>
  The JSON column \<open>decision_payload\<close>: the document \<open>issue_permit\<close> writes, a JSON
  object that lacks one of its parts, or a document that is no object at all.
\<close>

datatype decision_document =
    PermitContext permit_payload
  | MalformedObject
  | NotAnObject

record permit_row =
  pm_permit_id :: string
  pm_task_id :: string
  pm_step_id :: string
  pm_contract_id :: string
  pm_action_fingerprint :: string
  pm_observation_hash :: string
  pm_policy_decision_id :: string
  pm_decision_payload :: decision_document
  pm_status :: permit_status
  pm_issued_at :: time
  pm_expires_at :: time
  pm_used_at :: "time option"

record pending_row =
  pn_pending_action_id :: string
  pn_task_id :: string
  pn_step_id :: string
  pn_contract_id :: string
  pn_organization_id :: string
  pn_action_fingerprint :: string
  pn_observation_hash :: string
  pn_action_payload :: json
  pn_intent_payload :: json
  pn_decision_payload :: json
  pn_approval_id :: "string option"
  pn_status :: pending_status
  pn_row_version :: int
  pn_expires_at :: "time option"
  pn_created_at :: time

record attempt_row =
  at_attempt_id :: string
  at_task_id :: string
  at_step_id :: string
  at_contract_id :: string
  at_permit_id :: "string option"
  at_pending_action_id :: "string option"
  at_action_fingerprint :: string
  at_observation_hash :: string
  at_status :: attempt_status
  at_idempotency_key :: "string option"
  at_idempotency_key_digest :: "string option"
  at_execution_effect :: "string option"
  at_result_probe_ref :: "string option"
  at_result_probe :: "jobject option"
  at_error_message :: "string option"
  at_started_at :: "time option"
  at_completed_at :: "time option"
  at_created_at :: time

datatype approval_status = Approval_PENDING | Approval_APPROVED | Approval_REJECTED | Approval_TIMEOUT

record approval_row =
  ar_approval_id :: string
  ar_task_id :: string
  ar_organization_id :: string
  ar_department_id :: string
  ar_business_line_id :: "string option"
  ar_requester_user_id :: "string option"
  ar_risk_level :: string
  ar_risk_reason :: string
  ar_operation_description :: "string option"
  ar_screenshot_path :: "string option"
  ar_approver_department_id :: string
  ar_approver_role :: string
  ar_notify_department_ids :: "string option"
  ar_status :: approval_status
  ar_requested_at :: time
  ar_approver_user_id :: "string option"
  ar_decided_at :: "time option"
  ar_decision_note :: "string option"
  ar_timeout_seconds :: int

text \<open>\<open>TaskStatus\<close> and \<open>StepStatus\<close> with the native state machines' transition tables.\<close>

datatype task_status =
    Task_created | Task_queued | Task_running | Task_pending_approval | Task_resuming
  | Task_needs_human | Task_pending_result_probe | Task_timed_out | Task_failed
  | Task_terminated | Task_completed | Task_canceled

definition task_is_final :: "task_status \<Rightarrow> bool" where
  "task_is_final s = (s \<in> {Task_failed, Task_terminated, Task_completed, Task_timed_out, Task_canceled})"

fun task_allowed_transitions :: "task_status \<Rightarrow> task_status set" where
  "task_allowed_transitions Task_created =
     {Task_queued, Task_running, Task_timed_out, Task_failed, Task_canceled}"
| "task_allowed_transitions Task_queued =
     {Task_running, Task_timed_out, Task_failed, Task_canceled}"
| "task_allowed_transitions Task_running =
     {Task_pending_approval, Task_needs_human, Task_pending_result_probe, Task_completed,
      Task_failed, Task_terminated, Task_timed_out, Task_canceled}"
| "task_allowed_transitions Task_pending_approval =
     {Task_resuming, Task_failed, Task_timed_out, Task_canceled}"
| "task_allowed_transitions Task_resuming =
     {Task_running, Task_failed, Task_timed_out, Task_canceled}"
| "task_allowed_transitions Task_needs_human = {Task_resuming, Task_terminated, Task_canceled}"
| "task_allowed_transitions Task_pending_result_probe = {Task_completed, Task_failed}"
| "task_allowed_transitions Task_failed = {}"
| "task_allowed_transitions Task_terminated = {}"
| "task_allowed_transitions Task_completed = {}"
| "task_allowed_transitions Task_timed_out = {}"
| "task_allowed_transitions Task_canceled = {Task_completed}"

definition task_can_update_to :: "task_status \<Rightarrow> task_status \<Rightarrow> bool" where
  "task_can_update_to s new_status = (new_status \<in> task_allowed_transitions s)"

datatype step_status =
    Step_created | Step_running | Step_pending_approval | Step_resuming | Step_needs_human
  | Step_pending_result_probe | Step_failed | Step_completed | Step_canceled

fun step_allowed_transitions :: "step_status \<Rightarrow> step_status set" where
  "step_allowed_transitions Step_created =
     {Step_running, Step_failed, Step_canceled, Step_completed}"
| "step_allowed_transitions Step_running =
     {Step_completed, Step_failed, Step_canceled, Step_pending_approval, Step_needs_human,
      Step_pending_result_probe}"
| "step_allowed_transitions Step_pending_approval = {Step_resuming, Step_failed, Step_canceled}"
| "step_allowed_transitions Step_resuming = {Step_running, Step_failed, Step_canceled}"
| "step_allowed_transitions Step_needs_human = {Step_resuming, Step_failed, Step_canceled}"
| "step_allowed_transitions Step_pending_result_probe = {Step_completed, Step_failed}"
| "step_allowed_transitions Step_failed = {}"
| "step_allowed_transitions Step_completed = {}"
| "step_allowed_transitions Step_canceled = {}"

definition step_can_update_to :: "step_status \<Rightarrow> step_status \<Rightarrow> bool" where
  "step_can_update_to s new_status = (new_status \<in> step_allowed_transitions s)"

definition step_is_terminal :: "step_status \<Rightarrow> bool" where
  "step_is_terminal s = (s \<in> {Step_failed, Step_completed, Step_canceled})"

record task_row =
  tk_task_id :: string
  tk_organization_id :: "string option"
  tk_status :: task_status
  tk_application :: "string option"
  tk_created_at :: time

record step_row =
  st_step_id :: string
  st_organization_id :: "string option"
  st_task_id :: "string option"
  st_status :: step_status
  st_created_at :: time

record db =
  execution_permits :: "permit_row list"
  execution_attempts :: "attempt_row list"
  pending_actions :: "pending_row list"
  approval_requests :: "approval_row list"
  tasks :: "task_row list"
  steps :: "step_row list"

section \<open>Queries\<close>

text \<open>\<open>(await session.scalars(select(T).where(P))).first()\<close>, and a write to a loaded row.\<close>

definition first_where :: "('r \<Rightarrow> bool) \<Rightarrow> 'r list \<Rightarrow> 'r option" where
  "first_where p rows = List.find p rows"

definition write_row :: "('r \<Rightarrow> 'k) \<Rightarrow> 'r \<Rightarrow> 'r list \<Rightarrow> 'r list" where
  "write_row key r rows = map (\<lambda>x. if key x = key r then r else x) rows"

lemma first_where_Some:
  "first_where p rows = Some r \<Longrightarrow> r \<in> set rows \<and> p r"
  unfolding first_where_def by (induction rows) (auto split: if_splits)

lemma first_where_None: "first_where p rows = None \<longleftrightarrow> (\<forall>r \<in> set rows. \<not> p r)"
  unfolding first_where_def by (induction rows) auto

lemma first_where_append:
  "first_where p (rows @ [r]) =
     (case first_where p rows of Some x \<Rightarrow> Some x | None \<Rightarrow> if p r then Some r else None)"
  unfolding first_where_def by (induction rows) auto

lemma set_write_row:
  "x \<in> set (write_row key r rows) \<Longrightarrow> x = r \<or> (x \<in> set rows \<and> key x \<noteq> key r)"
  by (auto simp: write_row_def)

lemma write_row_other: "x \<in> set rows \<Longrightarrow> key x \<noteq> key r \<Longrightarrow> x \<in> set (write_row key r rows)"
  by (force simp: write_row_def)

lemma map_key_write_row: "map key (write_row key r rows) = map key rows"
  by (simp add: write_row_def)

lemma first_where_key_write_same:
  assumes "first_where (\<lambda>x. key x = key r) rows = Some r0"
  shows "first_where (\<lambda>x. key x = key r) (write_row key r rows) = Some r"
  using assms unfolding first_where_def write_row_def by (induction rows) auto

lemma first_where_key_write_other:
  assumes "k \<noteq> key r"
  shows "first_where (\<lambda>x. key x = k) (write_row key r rows) = first_where (\<lambda>x. key x = k) rows"
  using assms unfolding first_where_def write_row_def by (induction rows) auto

lemma first_where_key_append_same:
  "first_where (\<lambda>x. key x = key r) rows = None \<Longrightarrow>
   first_where (\<lambda>x. key x = key r) (rows @ [r]) = Some r"
  by (simp add: first_where_append)

lemma first_where_key_append_other:
  "k \<noteq> key r \<Longrightarrow> first_where (\<lambda>x. key x = k) (rows @ [r]) = first_where (\<lambda>x. key x = k) rows"
  by (auto simp: first_where_append split: option.splits)

section \<open>The interface of a table\<close>

locale row_store =
  fixes key :: "'r \<Rightarrow> 'k"
    and lookup :: "'k \<Rightarrow> 's \<Rightarrow> 'r option"
    and store :: "'r \<Rightarrow> 's \<Rightarrow> 's"
    and insert_row :: "'r \<Rightarrow> 's \<Rightarrow> 's"
    and rows :: "'s \<Rightarrow> 'r set"
  assumes lookup_key: "lookup k s = Some r \<Longrightarrow> key r = k"
    and lookup_row: "lookup k s = Some r \<Longrightarrow> r \<in> rows s"
    and lookup_none: "lookup k s = None \<Longrightarrow> r \<in> rows s \<Longrightarrow> key r \<noteq> k"
    and lookup_store_same: "lookup (key r) s = Some r0 \<Longrightarrow> lookup (key r) (store r s) = Some r"
    and lookup_store_other: "k \<noteq> key r \<Longrightarrow> lookup k (store r s) = lookup k s"
    and lookup_insert_same: "lookup (key r) s = None \<Longrightarrow> lookup (key r) (insert_row r s) = Some r"
    and lookup_insert_other: "k \<noteq> key r \<Longrightarrow> lookup k (insert_row r s) = lookup k s"
    and rows_store: "x \<in> rows (store r s) \<Longrightarrow> x = r \<or> (x \<in> rows s \<and> key x \<noteq> key r)"
    and rows_insert: "rows (insert_row r s) = insert r (rows s)"
begin

text \<open>A property of every row survives a write of a row that has it, and an insert of one.\<close>

lemma all_rows_store:
  assumes "\<forall>x \<in> rows s. P x" and "P r"
  shows "\<forall>x \<in> rows (store r s). P x"
  using assms rows_store by blast

lemma all_rows_insert:
  assumes "\<forall>x \<in> rows s. P x" and "P r"
  shows "\<forall>x \<in> rows (insert_row r s). P x"
  using assms by (simp add: rows_insert)

text \<open>Writing a loaded row keeps every other key's row, and presence of each key.\<close>

lemma lookup_store:
  assumes "lookup (key r) s = Some r0"
  shows "lookup k (store r s) = (if k = key r then Some r else lookup k s)"
  using assms by (simp add: lookup_store_same lookup_store_other)

lemma lookup_insert:
  assumes "lookup (key r) s = None"
  shows "lookup k (insert_row r s) = (if k = key r then Some r else lookup k s)"
  using assms by (simp add: lookup_insert_same lookup_insert_other)

lemma store_found: "lookup k s = Some r0 \<Longrightarrow> key r = key r0 \<Longrightarrow> lookup k (store r s) = Some r"
  using lookup_key lookup_store_same by metis

lemma store_keeps_presence:
  assumes "lookup (key r) s = Some r0"
  shows "lookup k (store r s) = None \<longleftrightarrow> lookup k s = None"
  using assms by (auto simp: lookup_store)

end

text \<open>The tables the services work on.\<close>

definition find_permit :: "string \<Rightarrow> db \<Rightarrow> permit_row option" where
  "find_permit i s = first_where (\<lambda>r. pm_permit_id r = i) (execution_permits s)"

definition write_permit :: "permit_row \<Rightarrow> db \<Rightarrow> db" where
  "write_permit r s = s\<lparr>execution_permits := write_row pm_permit_id r (execution_permits s)\<rparr>"

definition add_permit :: "permit_row \<Rightarrow> db \<Rightarrow> db" where
  "add_permit r s = s\<lparr>execution_permits := execution_permits s @ [r]\<rparr>"

definition find_attempt :: "string \<Rightarrow> db \<Rightarrow> attempt_row option" where
  "find_attempt i s = first_where (\<lambda>r. at_attempt_id r = i) (execution_attempts s)"

definition write_attempt :: "attempt_row \<Rightarrow> db \<Rightarrow> db" where
  "write_attempt r s = s\<lparr>execution_attempts := write_row at_attempt_id r (execution_attempts s)\<rparr>"

definition add_attempt :: "attempt_row \<Rightarrow> db \<Rightarrow> db" where
  "add_attempt r s = s\<lparr>execution_attempts := execution_attempts s @ [r]\<rparr>"

definition find_pending :: "string \<Rightarrow> db \<Rightarrow> pending_row option" where
  "find_pending i s = first_where (\<lambda>r. pn_pending_action_id r = i) (pending_actions s)"

definition write_pending :: "pending_row \<Rightarrow> db \<Rightarrow> db" where
  "write_pending r s = s\<lparr>pending_actions := write_row pn_pending_action_id r (pending_actions s)\<rparr>"

definition add_pending :: "pending_row \<Rightarrow> db \<Rightarrow> db" where
  "add_pending r s = s\<lparr>pending_actions := pending_actions s @ [r]\<rparr>"

definition find_approval :: "string \<Rightarrow> db \<Rightarrow> approval_row option" where
  "find_approval i s = first_where (\<lambda>r. ar_approval_id r = i) (approval_requests s)"

definition write_approval :: "approval_row \<Rightarrow> db \<Rightarrow> db" where
  "write_approval r s = s\<lparr>approval_requests := write_row ar_approval_id r (approval_requests s)\<rparr>"

definition add_approval :: "approval_row \<Rightarrow> db \<Rightarrow> db" where
  "add_approval r s = s\<lparr>approval_requests := approval_requests s @ [r]\<rparr>"

lemmas row_store_laws =
  first_where_key_append_same first_where_key_append_other
  first_where_key_write_same first_where_key_write_other

interpretation permits: row_store pm_permit_id find_permit write_permit add_permit
  "\<lambda>s. set (execution_permits s)"
  by unfold_locales
     (auto simp: find_permit_def write_permit_def add_permit_def row_store_laws
           dest: first_where_Some first_where_None [THEN iffD1] set_write_row)

interpretation attempts: row_store at_attempt_id find_attempt write_attempt add_attempt
  "\<lambda>s. set (execution_attempts s)"
  by unfold_locales
     (auto simp: find_attempt_def write_attempt_def add_attempt_def row_store_laws
           dest: first_where_Some first_where_None [THEN iffD1] set_write_row)

interpretation pendings: row_store pn_pending_action_id find_pending write_pending add_pending
  "\<lambda>s. set (pending_actions s)"
  by unfold_locales
     (auto simp: find_pending_def write_pending_def add_pending_def row_store_laws
           dest: first_where_Some first_where_None [THEN iffD1] set_write_row)

interpretation approvals: row_store ar_approval_id find_approval write_approval add_approval
  "\<lambda>s. set (approval_requests s)"
  by unfold_locales
     (auto simp: find_approval_def write_approval_def add_approval_def row_store_laws
           dest: first_where_Some first_where_None [THEN iffD1] set_write_row)

end
