(* ===== verification/Permits.thy ===== *)
theory Permits
  imports Store
begin

text \<open>
  \<open>enterprise/governance/permit_service.py\<close>: issuing and consuming one-time
  permits. Wall-clock readings and the generated primary key are arguments.
\<close>

section \<open>Issuing\<close>

definition permit_to_contract :: "permit_row \<Rightarrow> execution_permit" where
  "permit_to_contract m =
     \<lparr>ep_permit_id = pm_permit_id m, ep_task_id = pm_task_id m, ep_step_id = pm_step_id m,
      ep_action_fingerprint = pm_action_fingerprint m, ep_observation_id = pm_observation_hash m,
      ep_policy_decision_id = pm_policy_decision_id m, ep_issued_at = pm_issued_at m,
      ep_expires_at = pm_expires_at m, ep_used_at = pm_used_at m\<rparr>"

definition issued_row ::
  "string \<Rightarrow> time \<Rightarrow> string \<Rightarrow> string \<Rightarrow> string \<Rightarrow> string \<Rightarrow> string \<Rightarrow> policy_decision \<Rightarrow>
   execution_effect \<Rightarrow> execution_profile \<Rightarrow> cua_execution_evidence option \<Rightarrow> int \<Rightarrow> permit_row" where
  "issued_row new_id now task_id step_id contract_id action_fingerprint observation_hash
              decision effect profile evidence ttl_seconds =
     \<lparr>pm_permit_id = new_id, pm_task_id = task_id, pm_step_id = step_id,
      pm_contract_id = contract_id, pm_action_fingerprint = action_fingerprint,
      pm_observation_hash = observation_hash, pm_policy_decision_id = pd_decision_id decision,
      pm_decision_payload = PermitContext
        \<lparr>pp_policy_decision = decision, pp_execution_effect = effect_value effect,
         pp_execution_profile = profile, pp_cua_execution_evidence = evidence\<rparr>,
      pm_status = Permit_issued, pm_issued_at = now,
      pm_expires_at = now + seconds ttl_seconds, pm_used_at = None\<rparr>"

definition issue_permit ::
  "string \<Rightarrow> time \<Rightarrow> string \<Rightarrow> string \<Rightarrow> string \<Rightarrow> string \<Rightarrow> string \<Rightarrow> policy_decision \<Rightarrow>
   execution_effect \<Rightarrow> execution_profile \<Rightarrow> cua_execution_evidence option \<Rightarrow> int \<Rightarrow>
   (db, execution_permit) prog" where
  "issue_permit new_id now task_id step_id contract_id action_fingerprint observation_hash
                decision effect profile evidence ttl_seconds s =
     (if pd_outcome decision \<noteq> ALLOW
      then (Raise PermitValidationError ''Only allow decisions can issue execution permits'', s)
      else if ttl_seconds \<le> 0
      then (Raise PermitValidationError ''Execution permit TTL must be positive'', s)
      else (case require_allowed_profile effect profile of
        Inl e \<Rightarrow> (Inl e, s)
      | Inr _ \<Rightarrow>
         (case require_cua_execution_evidence profile evidence action_fingerprint
                 observation_hash now of
            Inl e \<Rightarrow> (Inl e, s)
          | Inr _ \<Rightarrow>
              (let model = issued_row new_id now task_id step_id contract_id action_fingerprint
                     observation_hash decision effect profile evidence ttl_seconds
               in if find_permit new_id s \<noteq> None
                  then (Raise IntegrityError ''execution_permits_pkey'', s)
                  else (Ok (permit_to_contract model), add_permit model s)))))"

section \<open>Consuming\<close>

definition consume_permit_model ::
  "string \<Rightarrow> string \<Rightarrow> string \<Rightarrow> time \<Rightarrow> (db, permit_row) prog" where
  "consume_permit_model permit_id action_fingerprint observation_hash now s =
     (case find_permit permit_id s of
        None \<Rightarrow> (Raise PermitValidationError ''Execution permit does not exist'', s)
      | Some model \<Rightarrow>
          if pm_status model \<noteq> Permit_issued
          then (Raise PermitValidationError ''Execution permit is not available'', s)
          else if \<not> (pm_action_fingerprint model = action_fingerprint \<and>
                     pm_observation_hash model = observation_hash)
          then (Raise PermitValidationError
                  ''Execution permit does not match action or observation'', s)
          else if now > pm_expires_at model
          then (Raise PermitValidationError ''Execution permit has expired'',
                write_permit (model\<lparr>pm_status := Permit_expired\<rparr>) s)
          else (let used = model\<lparr>pm_status := Permit_consumed, pm_used_at := Some now\<rparr>
                in (Ok used, write_permit used s)))"

definition consume_permit ::
  "string \<Rightarrow> string \<Rightarrow> string \<Rightarrow> time \<Rightarrow> (db, execution_permit) prog" where
  "consume_permit permit_id action_fingerprint observation_hash now =
     prog_bind (consume_permit_model permit_id action_fingerprint observation_hash now)
       (\<lambda>model s. (Ok (permit_to_contract model), s))"

section \<open>Laws of the service\<close>

lemma issue_permit_cases:
  assumes "issue_permit i now t st c af oh d eff prf ev ttl s = (r, s')"
  obtains (refused) e where "r = Inl e" "s' = s"
    | (issued) "r = Inr (permit_to_contract (issued_row i now t st c af oh d eff prf ev ttl))"
        "s' = add_permit (issued_row i now t st c af oh d eff prf ev ttl) s"
        "pd_outcome d = ALLOW" "0 < ttl" "find_permit i s = None"
        "\<exists>pd. require_allowed_profile eff prf = Ok pd"
        "require_cua_execution_evidence prf ev af oh now = Ok ()"
  using assms unfolding issue_permit_def
  by (auto simp: Let_def split: if_splits sum.splits)

lemma consume_permit_model_cases:
  assumes "consume_permit_model i af oh now s = (r, s')"
  obtains (refused) e where "r = Inl e" "s' = s"
    | (expired) m where "r = Raise PermitValidationError ''Execution permit has expired''"
        "find_permit i s = Some m" "pm_status m = Permit_issued" "pm_expires_at m < now"
        "pm_action_fingerprint m = af" "pm_observation_hash m = oh"
        "s' = write_permit (m\<lparr>pm_status := Permit_expired\<rparr>) s"
    | (consumed) m where "r = Inr (m\<lparr>pm_status := Permit_consumed, pm_used_at := Some now\<rparr>)"
        "find_permit i s = Some m" "pm_status m = Permit_issued" "now \<le> pm_expires_at m"
        "pm_action_fingerprint m = af" "pm_observation_hash m = oh"
        "s' = write_permit (m\<lparr>pm_status := Permit_consumed, pm_used_at := Some now\<rparr>) s"
  using assms unfolding consume_permit_model_def
  by (auto simp: Let_def not_less split: if_splits option.splits)

text \<open>Abstractly a permit is a token: consuming it is possible exactly when its contract matches.\<close>

lemma consume_iff_matches:
  assumes "find_permit i s = Some m" and "pm_status m = Permit_issued" and "pm_used_at m = None"
  shows "is_ok (fst (consume_permit_model i af oh now s)) \<longleftrightarrow>
         permit_matches (permit_to_contract m) af oh now"
  using assms
  by (auto simp: consume_permit_model_def permit_matches_def permit_to_contract_def Let_def)

section \<open>Properties\<close>

text \<open>
  C15. A permit is issued only on an ALLOW decision; it is consumed exactly by
  presenting its action and its observation before it expires, and once consumed no further
  presentation succeeds. A permit for an external write confines the handler to the grounded
  locator and label mechanisms.
\<close>

theorem permit_single_use:
  assumes issued: "issue_permit i now t st c af oh d eff prf ev ttl s = (Ok p, s1)"
  shows "pd_outcome d = ALLOW \<and>
     (\<forall>af' oh' w. is_ok (fst (consume_permit i af' oh' w s1)) \<longleftrightarrow>
        af' = af \<and> oh' = oh \<and> w \<le> now + seconds ttl) \<and>
     (\<forall>w q s2. consume_permit i af oh w s1 = (Ok q, s2) \<longrightarrow> ep_used_at q = Some w \<and>
        (\<forall>af' oh' w'. \<not> is_ok (fst (consume_permit i af' oh' w' s2)) \<and>
                       snd (consume_permit i af' oh' w' s2) = s2)) \<and>
     (\<forall>m. eff = EXTERNAL_WRITE \<longrightarrow> is_ok (require_execution_mechanism (Some prf) m) \<longrightarrow>
        m \<in> {LOCATOR, LABEL})"
  using issued
proof (cases rule: issue_permit_cases)
  case issued
  let ?row = "issued_row i now t st c af oh d eff prf ev ttl"
  have key: "pm_permit_id ?row = i" by (simp add: issued_row_def)
  have found: "find_permit i s1 = Some ?row"
    using issued(2,5) key by (simp add: permits.lookup_insert)
  have fresh: "pm_status ?row = Permit_issued" "pm_used_at ?row = None"
    "pm_action_fingerprint ?row = af" "pm_observation_hash ?row = oh" "pm_expires_at ?row = now + seconds ttl"
    by (simp_all add: issued_row_def)
  have same: "is_ok (fst (consume_permit i a b x u)) = is_ok (fst (consume_permit_model i a b x u))" for a b x u
    by (auto simp: consume_permit_def prog_bind_def split: prod.splits sum.splits)
  have exactly: "is_ok (fst (consume_permit i af' oh' w s1)) \<longleftrightarrow> af' = af \<and> oh' = oh \<and> w \<le> now + seconds ttl"
    for af' oh' w
    unfolding same consume_iff_matches [OF found fresh(1,2)]
    using fresh by (auto simp: permit_matches_def permit_to_contract_def)
  have once: "ep_used_at q = Some w \<and> \<not> is_ok (fst (consume_permit i af' oh' w' s2)) \<and>
      snd (consume_permit i af' oh' w' s2) = s2"
    if run: "consume_permit i af oh w s1 = (Ok q, s2)" for w q s2 af' oh' w'
  proof -
    let ?used = "?row\<lparr>pm_status := Permit_consumed, pm_used_at := Some w\<rparr>"
    from run have "s2 = write_permit ?used s1" and q: "q = permit_to_contract ?used"
      using found fresh
      by (auto simp: consume_permit_def prog_bind_def consume_permit_model_def Let_def split: if_splits)
    then have "find_permit i s2 = Some ?used" using found by (simp add: permits.store_found)
    then show ?thesis
      by (simp add: q consume_permit_def prog_bind_def consume_permit_model_def permit_to_contract_def)
  qed
  have confined: "m \<in> {LOCATOR, LABEL}" if "eff = EXTERNAL_WRITE" "is_ok (require_execution_mechanism (Some prf) m)" for m
  proof -
    have "execution_mechanism_is_allowed (Some prf) m"
      using that(2) by (simp add: require_execution_mechanism_def split: if_splits)
    with issued(6) that(1) show ?thesis using external_write_profile_mechanisms by blast
  qed
  show ?thesis
    by (intro conjI allI impI issued(3) exactly; (rule confined | rule once [THEN conjunct1]
        | rule once [THEN conjunct2, THEN conjunct1] | rule once [THEN conjunct2, THEN conjunct2]); assumption)
qed simp

definition allow_decision :: policy_decision where
  "allow_decision = \<lparr>pd_decision_id = ''d'', pd_intent_id = ''i'', pd_outcome = ALLOW,
     pd_risk_level = Risk_low, pd_reasons = [], pd_matched_rules = [], pd_required_approver = None,
     pd_policy_version = ''v''\<rparr>"

definition locator_profile :: execution_profile where
  "locator_profile = \<lparr>prf_mechanism = LOCATOR, prf_fallback_rank = 0, prf_evidence_refs = [''dom'']\<rparr>"

definition empty_db :: db where
  "empty_db = \<lparr>execution_permits = [], execution_attempts = [], pending_actions = [],
     approval_requests = [], tasks = [], steps = []\<rparr>"

theorem permit_single_use_witness:
  "\<exists>p s1. issue_permit ''p'' 0 ''t'' ''s'' ''c'' ''af'' ''oh'' allow_decision EXTERNAL_WRITE locator_profile None
      60 empty_db = (Ok p, s1) \<and>
     is_ok (fst (consume_permit ''p'' ''af'' ''oh'' 0 s1)) \<and> \<not> is_ok (fst (consume_permit ''p'' ''af'' ''zz'' 0 s1))"
proof -
  have "\<exists>d. require_allowed_profile EXTERNAL_WRITE locator_profile = Ok d"
    unfolding require_allowed_profile_ok by (simp add: locator_profile_def)
  moreover have "require_cua_execution_evidence locator_profile None ''af'' ''oh'' 0 = Ok ()"
    unfolding require_cua_execution_evidence_ok by (simp add: locator_profile_def)
  ultimately have "\<exists>p s1. issue_permit ''p'' 0 ''t'' ''s'' ''c'' ''af'' ''oh'' allow_decision EXTERNAL_WRITE
      locator_profile None 60 empty_db = (Ok p, s1)"
    by (auto simp: issue_permit_def allow_decision_def empty_db_def find_permit_def first_where_def Let_def)
  then obtain p s1 where run: "issue_permit ''p'' 0 ''t'' ''s'' ''c'' ''af'' ''oh'' allow_decision EXTERNAL_WRITE
      locator_profile None 60 empty_db = (Ok p, s1)" by blast
  from permit_single_use [OF run] run show ?thesis by (auto simp: seconds_def)
qed

end
