(* ===== verification/Lifecycle.thy ===== *)
theory Lifecycle
  imports Prelude
begin

text \<open>
  The contract shared by the durable status machines: each legal move climbs a
  rank. A record that follows such a machine never revisits a status, so its
  history is bounded and no phase is ever replayed.
\<close>

locale lifecycle =
  fixes moves :: "'st \<Rightarrow> 'st \<Rightarrow> bool"
    and rank :: "'st \<Rightarrow> nat"
    and top :: nat
  assumes climbs: "moves s t \<Longrightarrow> rank s < rank t"
    and bounded: "rank s \<le> top"
begin

lemma run_climbs: "moves\<^sup>+\<^sup>+ s t \<Longrightarrow> rank s < rank t"
  by (induction rule: tranclp_induct) (use climbs less_trans in blast)+

lemma never_revisits: "\<not> moves\<^sup>+\<^sup>+ s s"
  using run_climbs by blast

lemma runs_climb: "moves\<^sup>*\<^sup>* s t \<Longrightarrow> s = t \<or> rank s < rank t"
  by (metis rtranclpD run_climbs)

lemma antisymmetric_runs: "moves\<^sup>*\<^sup>* s t \<Longrightarrow> moves\<^sup>*\<^sup>* t s \<Longrightarrow> s = t"
  by (metis runs_climb less_asym)

text \<open>A history is a list of statuses, each a legal move from the one before.\<close>

fun history :: "'st \<Rightarrow> 'st list \<Rightarrow> bool" where
  "history s [] = True"
| "history s (t # ts) = (moves s t \<and> history t ts)"

lemma history_length: "history s ts \<Longrightarrow> rank s + length ts \<le> top"
proof (induction ts arbitrary: s)
  case Nil
  then show ?case by (simp add: bounded)
next
  case (Cons t ts)
  then have "moves s t" and "rank t + length ts \<le> top" by simp_all
  with climbs [of s t] show ?case by simp
qed

lemma history_distinct: "history s ts \<Longrightarrow> distinct (s # ts)"
proof -
  have above: "history s ts \<Longrightarrow> t \<in> set ts \<Longrightarrow> rank s < rank t" for s t ts
    by (induction ts arbitrary: s) (auto dest: climbs intro: less_trans)
  show "history s ts \<Longrightarrow> distinct (s # ts)"
  proof (induction ts arbitrary: s)
    case (Cons t ts)
    with above [of s "t # ts"] show ?case by fastforce
  qed simp
qed

end

end
