(* ===== verification/Hashing.thy ===== *)
theory Hashing
  imports Prelude "HOL-Library.Word"
begin

text \<open>
  What the code uses of Python's \<open>hashlib\<close>, \<open>hmac\<close>, \<open>uuid\<close> and \<open>json\<close>: SHA-256,
  uuid5 and HMAC-SHA-256 hex digests on UTF-8 text, and \<open>json.dumps\<close> with sorted keys
  and compact separators. A Python str is represented by its UTF-8 bytes, so
  \<open>encode("utf-8")\<close> is the identity. Nothing below needs these functions
  evaluated; integrity theorems conclude "equal, or a SHA-256 collision".
\<close>

unbundle bit_operations_syntax

section \<open>SHA-256\<close>

type_synonym u32 = "32 word"

definition sha_k :: "u32 list" where
  "sha_k =
    [1116352408, 1899447441, 3049323471, 3921009573, 961987163, 1508970993, 2453635748, 2870763221,
     3624381080, 310598401, 607225278, 1426881987, 1925078388, 2162078206, 2614888103, 3248222580,
     3835390401, 4022224774, 264347078, 604807628, 770255983, 1249150122, 1555081692, 1996064986,
     2554220882, 2821834349, 2952996808, 3210313671, 3336571891, 3584528711, 113926993, 338241895,
     666307205, 773529912, 1294757372, 1396182291, 1695183700, 1986661051, 2177026350, 2456956037,
     2730485921, 2820302411, 3259730800, 3345764771, 3516065817, 3600352804, 4094571909, 275423344,
     430227734, 506948616, 659060556, 883997877, 958139571, 1322822218, 1537002063, 1747873779,
     1955562222, 2024104815, 2227730452, 2361852424, 2428436474, 2756734187, 3204031479, 3329325298]"

definition sha_init :: "u32 list" where
  "sha_init = [1779033703, 3144134277, 1013904242, 2773480762,
               1359893119, 2600822924, 528734635, 1541459225]"

definition sha_pad :: "nat list \<Rightarrow> nat list" where
  "sha_pad m =
     (let n = length m; bits = 8 * n
      in m @ [128] @ replicate ((119 - n mod 64) mod 64) 0 @
         map (\<lambda>i. bits div 256 ^ (7 - i) mod 256) [0..<8])"

definition sha_word :: "nat list \<Rightarrow> u32" where
  "sha_word bs = foldl (\<lambda>w b. push_bit 8 w OR of_nat b) 0 bs"

fun chunks :: "nat \<Rightarrow> nat \<Rightarrow> 'a list \<Rightarrow> 'a list list" where
  "chunks 0 w xs = []"
| "chunks (Suc k) w xs = take w xs # chunks k w (drop w xs)"

text \<open>The message schedule, latest word first.\<close>

fun sha_expand :: "nat \<Rightarrow> u32 list \<Rightarrow> u32 list" where
  "sha_expand 0 ws = ws"
| "sha_expand (Suc n) ws =
     (let a = ws ! 14; b = ws ! 1;
          s0 = word_rotr 7 a XOR word_rotr 18 a XOR drop_bit 3 a;
          s1 = word_rotr 17 b XOR word_rotr 19 b XOR drop_bit 10 b
      in sha_expand n ((s1 + ws ! 6 + s0 + ws ! 15) # ws))"

definition sha_round :: "u32 list \<Rightarrow> u32 \<times> u32 \<Rightarrow> u32 list" where
  "sha_round st kw =
     (let a = st ! 0; b = st ! 1; c = st ! 2; d = st ! 3;
          e = st ! 4; f = st ! 5; g = st ! 6; h = st ! 7;
          t1 = h + (word_rotr 6 e XOR word_rotr 11 e XOR word_rotr 25 e) +
               ((e AND f) XOR (NOT e AND g)) + fst kw + snd kw;
          t2 = (word_rotr 2 a XOR word_rotr 13 a XOR word_rotr 22 a) +
               ((a AND b) XOR (a AND c) XOR (b AND c))
      in [t1 + t2, a, b, c, d + t1, e, f, g])"

definition sha_block :: "u32 list \<Rightarrow> nat list \<Rightarrow> u32 list" where
  "sha_block st block =
     (let ws = rev (sha_expand 48 (rev (map sha_word (chunks 16 4 block))))
      in map2 (+) st (foldl sha_round st (zip sha_k ws)))"

definition sha256_bytes :: "nat list \<Rightarrow> nat list" where
  "sha256_bytes m =
     (let p = sha_pad m
      in concat (map (\<lambda>w. map (\<lambda>i. unat (drop_bit (8 * (3 - i)) w AND 255)) [0..<4])
           (foldl sha_block sha_init (chunks (length p div 64) 64 p))))"

definition hex_digit :: "nat \<Rightarrow> char" where
  "hex_digit d = (if d < 10 then char_of (48 + d) else char_of (87 + d))"

definition hexdigest :: "nat list \<Rightarrow> string" where
  "hexdigest bs = concat (map (\<lambda>b. [hex_digit (b div 16), hex_digit (b mod 16)]) bs)"

definition utf8 :: "string \<Rightarrow> nat list" where
  "utf8 s = map of_char s"

definition sha256 :: "string \<Rightarrow> string" where
  "sha256 s = hexdigest (sha256_bytes (utf8 s))"

section \<open>SHA-1 and uuid5\<close>

definition sha1_expand :: "u32 list \<Rightarrow> u32 list" where
  "sha1_expand ws = rev (foldl (\<lambda>r _. word_rotl 1 (r ! 2 XOR r ! 7 XOR r ! 13 XOR r ! 15) # r) (rev ws) [0..<64])"

definition sha1_round :: "u32 list \<Rightarrow> nat \<times> u32 \<Rightarrow> u32 list" where
  "sha1_round st iw =
     (let a = st ! 0; b = st ! 1; c = st ! 2; d = st ! 3; e = st ! 4; i = fst iw;
          f = (if i < 20 then (b AND c) OR (NOT b AND d)
               else if i < 40 then b XOR c XOR d
               else if i < 60 then (b AND c) OR (b AND d) OR (c AND d)
               else b XOR c XOR d);
          k = (if i < 20 then 1518500249 else if i < 40 then 1859775393
               else if i < 60 then 2400959708 else 3395469782)
      in [word_rotl 5 a + f + e + k + snd iw, a, word_rotl 30 b, c, d])"

definition sha1_block :: "u32 list \<Rightarrow> nat list \<Rightarrow> u32 list" where
  "sha1_block st block =
     map2 (+) st (foldl sha1_round st (zip [0..<80] (sha1_expand (map sha_word (chunks 16 4 block)))))"

definition sha1_bytes :: "nat list \<Rightarrow> nat list" where
  "sha1_bytes m =
     (let p = sha_pad m
      in concat (map (\<lambda>w. map (\<lambda>i. unat (drop_bit (8 * (3 - i)) w AND 255)) [0..<4])
           (foldl sha1_block [1732584193, 4023233417, 2562383102, 271733878, 3285377520]
             (chunks (length p div 64) 64 p))))"

text \<open>\<open>uuid5(NAMESPACE_URL, name).hex\<close>\<close>

definition namespace_url :: "nat list" where
  "namespace_url = [107, 167, 184, 17, 157, 173, 17, 209, 128, 180, 0, 192, 79, 212, 48, 200]"

definition uuid5_url :: "string \<Rightarrow> string" where
  "uuid5_url name =
     (let d = take 16 (sha1_bytes (namespace_url @ utf8 name))
      in hexdigest (d[6 := d ! 6 mod 16 + 80, 8 := d ! 8 mod 64 + 128]))"

section \<open>HMAC-SHA-256\<close>

definition hmac_key :: "nat list \<Rightarrow> nat list" where
  "hmac_key k = (let k' = (if length k > 64 then sha256_bytes k else k)
                 in k' @ replicate (64 - length k') 0)"

definition xor_byte :: "nat \<Rightarrow> nat \<Rightarrow> nat" where
  "xor_byte a b = unat ((of_nat a :: 8 word) XOR of_nat b)"

definition hmac_sha256 :: "string \<Rightarrow> string \<Rightarrow> string" where
  "hmac_sha256 secret msg =
     (let k = hmac_key (utf8 secret)
      in hexdigest (sha256_bytes (map (xor_byte 92) k @
           sha256_bytes (map (xor_byte 54) k @ utf8 msg))))"

section \<open>ISO 8601 and json.dumps\<close>

text \<open>Proleptic Gregorian date of a day number counted from 1970-01-01.\<close>

definition civil_from_days :: "int \<Rightarrow> int \<times> int \<times> int" where
  "civil_from_days z0 =
     (let z = z0 + 719468; era = z div 146097; doe = z - era * 146097;
          yoe = (doe - doe div 1460 + doe div 36524 - doe div 146096) div 365;
          doy = doe - (365 * yoe + yoe div 4 - yoe div 100);
          mp = (5 * doy + 2) div 153;
          d = doy - (153 * mp + 2) div 5 + 1;
          m = (if mp < 10 then mp + 3 else mp - 9);
          y = yoe + era * 400 + (if m \<le> 2 then 1 else 0)
      in (y, m, d))"

definition pad_int :: "nat \<Rightarrow> int \<Rightarrow> string" where
  "pad_int w i = (let s = show_int i in replicate (w - length s) CHR ''0'' @ s)"

definition iso8601 :: "time \<Rightarrow> string" where
  "iso8601 t =
     (let day = t div 86400000000; us = t mod 86400000000;
          (y, m, d) = civil_from_days day;
          sec = us div 1000000; frac = us mod 1000000
      in pad_int 4 y @ ''-'' @ pad_int 2 m @ ''-'' @ pad_int 2 d @ ''T'' @
         pad_int 2 (sec div 3600) @ '':'' @ pad_int 2 (sec div 60 mod 60) @ '':'' @
         pad_int 2 (sec mod 60) @
         (if frac = 0 then [] else ''.'' @ pad_int 6 frac) @ ''Z'')"

text \<open>Code points of UTF-8 text, for the \<open>ensure_ascii=True\<close> escapes.\<close>

fun code_points :: "nat list \<Rightarrow> nat list" where
  "code_points [] = []"
| "code_points (a # bs) =
     (if a < 128 then a # code_points bs
      else if a < 224 then (case bs of b # r \<Rightarrow> ((a mod 32) * 64 + b mod 64) # code_points r | _ \<Rightarrow> [a])
      else if a < 240 then (case bs of b # c # r \<Rightarrow>
          ((a mod 16) * 4096 + (b mod 64) * 64 + c mod 64) # code_points r | _ \<Rightarrow> [a])
      else (case bs of b # c # d # r \<Rightarrow>
          ((a mod 8) * 262144 + (b mod 64) * 4096 + (c mod 64) * 64 + d mod 64) # code_points r
        | _ \<Rightarrow> [a]))"

definition u_escape :: "nat \<Rightarrow> string" where
  "u_escape n = CHR 0x5C # CHR ''u'' # map (\<lambda>i. hex_digit (n div 16 ^ (3 - i) mod 16)) [0..<4]"

definition escape_point :: "bool \<Rightarrow> nat \<Rightarrow> string" where
  "escape_point ascii n =
     (if n = 34 then [CHR 0x5C, CHR 0x22]
      else if n = 92 then [CHR 0x5C, CHR 0x5C]
      else if n = 10 then [CHR 0x5C, CHR ''n'']
      else if n = 13 then [CHR 0x5C, CHR ''r'']
      else if n = 9 then [CHR 0x5C, CHR ''t'']
      else if n = 8 then [CHR 0x5C, CHR ''b'']
      else if n = 12 then [CHR 0x5C, CHR ''f'']
      else if n < 32 then u_escape n
      else if ascii \<and> 65536 \<le> n
        then u_escape (55296 + (n - 65536) div 1024) @ u_escape (56320 + (n - 65536) mod 1024)
      else if ascii \<and> 127 < n then u_escape n
      else [char_of n])"

definition dump_string :: "bool \<Rightarrow> string \<Rightarrow> string" where
  "dump_string ascii s =
     CHR 0x22 # concat (map (escape_point ascii) (if ascii then code_points (utf8 s) else utf8 s)) @
     [CHR 0x22]"

fun join_with :: "string \<Rightarrow> string list \<Rightarrow> string" where
  "join_with sep [] = []"
| "join_with sep [x] = x"
| "join_with sep (x # xs) = x @ sep @ join_with sep xs"

text \<open>Python orders str keys by code point, which is the order of their UTF-8 bytes.\<close>

fun str_le :: "string \<Rightarrow> string \<Rightarrow> bool" where
  "str_le [] t = True"
| "str_le (c # s) [] = False"
| "str_le (c # s) (d # t) =
     ((of_char c :: nat) < of_char d \<or> (c = d \<and> str_le s t))"

fun insort_by :: "('a \<Rightarrow> 'a \<Rightarrow> bool) \<Rightarrow> 'a \<Rightarrow> 'a list \<Rightarrow> 'a list" where
  "insort_by le x [] = [x]"
| "insort_by le x (y # ys) = (if le x y then x # y # ys else y # insort_by le x ys)"

definition sort_by :: "('a \<Rightarrow> 'a \<Rightarrow> bool) \<Rightarrow> 'a list \<Rightarrow> 'a list" where
  "sort_by le xs = foldr (insort_by le) xs []"

text \<open>
  \<open>json.dumps(v, sort_keys=True, separators=(",", ":"))\<close> with either setting of
  \<open>ensure_ascii\<close>. A date-time prints as the ISO text that pydantic's JSON mode
  produced; a float prints as its exact quotient.
\<close>

fun dumps :: "bool \<Rightarrow> json \<Rightarrow> string" where
  "dumps ascii JNull = ''null''"
| "dumps ascii (JBool b) = (if b then ''true'' else ''false'')"
| "dumps ascii (JInt i) = show_int i"
| "dumps ascii (JFloat r) =
     (case quotient_of r of (p, q) \<Rightarrow> show_int p @ ''/'' @ show_int q)"
| "dumps ascii (JStr s) = dump_string ascii s"
| "dumps ascii (JTime t) = dump_string ascii (iso8601 t)"
| "dumps ascii (JArr vs) = ''['' @ join_with '','' (map (dumps ascii) vs) @ '']''"
| "dumps ascii (JObj kvs) =
     CHR 0x7B # join_with '',''
       (map (\<lambda>(k, s). dump_string ascii k @ '':'' @ s)
         (sort_by (\<lambda>a b. str_le (fst a) (fst b)) (map (\<lambda>(k, v). (k, dumps ascii v)) kvs))) @
     [CHR 0x7D]"

lemma set_insort_by [simp]: "set (insort_by le x ys) = insert x (set ys)"
  by (induction ys) auto

lemma set_sort_by [simp]: "set (sort_by le xs) = set xs"
  by (induction xs) (simp_all add: sort_by_def)

lemma length_sort_by [simp]: "length (sort_by le xs) = length xs"
proof -
  have "length (insort_by le x ys) = Suc (length ys)" for x ys
    by (induction ys) auto
  then show ?thesis by (induction xs) (simp_all add: sort_by_def)
qed

lemma distinct_sort_by [simp]: "distinct (sort_by le xs) \<longleftrightarrow> distinct xs"
  by (metis card_distinct distinct_card length_sort_by set_sort_by)

text \<open>Digests are 64 characters.\<close>

lemma length_hexdigest: "length (hexdigest bs) = 2 * length bs"
  by (induction bs) (simp_all add: hexdigest_def)

lemma length_sha_block:
  assumes "length st = 8"
  shows "length (sha_block st b) = 8"
proof -
  have round: "length (sha_round u kw) = 8" for u kw
    by (simp add: sha_round_def Let_def)
  have "length u = 8 \<Longrightarrow> length (foldl sha_round u kws) = 8" for u kws
    by (induction kws arbitrary: u) (simp_all add: round)
  with assms show ?thesis by (simp add: sha_block_def Let_def)
qed

lemma length_sha256_bytes: "length (sha256_bytes m) = 32"
proof -
  have "length st = 8 \<Longrightarrow> length (foldl sha_block st bs) = 8" for st bs
    by (induction bs arbitrary: st) (simp_all add: length_sha_block)
  then have words: "length (foldl sha_block sha_init bs) = 8" for bs
    by (simp add: sha_init_def)
  have "length (concat (map (\<lambda>w. map (g w) [0..<4]) ws)) = 4 * length ws" for g :: "u32 \<Rightarrow> nat \<Rightarrow> nat" and ws
    by (induction ws) simp_all
  with words show ?thesis by (simp add: sha256_bytes_def Let_def)
qed

lemma length_sha256: "length (sha256 s) = 64"
  by (simp add: sha256_def length_hexdigest length_sha256_bytes)

lemma length_hmac_sha256: "length (hmac_sha256 k s) = 64"
  by (simp add: hmac_sha256_def Let_def length_hexdigest length_sha256_bytes)

lemma sha256_nonempty: "sha256 s \<noteq> []"
  using length_sha256 [of s] by auto

lemma hmac_nonempty: "hmac_sha256 k s \<noteq> []"
  using length_hmac_sha256 [of k s] by auto

end
