(* ===== verification/Attempts.thy ===== *)
theory Attempts
  imports Permits Lifecycle Hashing
begin

text \<open>
  \<open>enterprise/governance/execution_attempt_service.py\<close>: the crash-aware state
  machine around one permit-authorized browser side effect. \<open>clock\<close> holds the
  successive readings of \<open>datetime.now\<close>, used where the caller passes no \<open>now\<close>.
\<close>

section \<open>Authorizing an attempt\<close>

definition missing_context :: exn where
  "missing_context = Exc ExecutionAttemptError
     ''Execution permit is missing its governed execution context''"

definition verify_permit_execution_context ::
  "permit_row \<Rightarrow> execution_effect \<Rightarrow> execution_profile \<Rightarrow> cua_execution_evidence option \<Rightarrow>
   string \<Rightarrow> string \<Rightarrow> time \<Rightarrow> unit res" where
  "verify_permit_execution_context permit effect profile evidence action_fingerprint
       observation_hash now =
     (case pm_decision_payload permit of
        NotAnObject \<Rightarrow> Inl missing_context
      | MalformedObject \<Rightarrow> Inl missing_context
      | PermitContext payload \<Rightarrow>
          (case effect_of_value (pp_execution_effect payload) of
             Inl _ \<Rightarrow> Inl missing_context
           | Inr permitted_effect \<Rightarrow>
               checks
                 [(\<not> profile_valid (pp_execution_profile payload), missing_context),
                  (\<exists>ev. pp_cua_execution_evidence payload = Some ev \<and> \<not> cua_evidence_valid ev,
                   missing_context),
                  (permitted_effect \<noteq> effect \<or> pp_execution_profile payload \<noteq> profile,
                   Exc ExecutionAttemptError
                     ''Execution permit does not match the authorized effect and profile''),
                  (pp_cua_execution_evidence payload \<noteq> evidence,
                   Exc ExecutionAttemptError
                     ''Execution permit does not match the authorized CUA engine evidence'')]
                 (case require_cua_execution_evidence profile evidence action_fingerprint
                         observation_hash now of
                    Inl e \<Rightarrow> Raise ExecutionAttemptError (message e)
                  | Inr u \<Rightarrow> Ok u)))"

text \<open>\<open>_to_contract\<close>: pydantic rejects a row without a key or with an unknown effect.\<close>

definition attempt_to_contract :: "attempt_row \<Rightarrow> execution_attempt res" where
  "attempt_to_contract m =
     res_bind (if truthy (at_execution_effect m)
               then res_bind (effect_of_value (the (at_execution_effect m))) (\<lambda>e. Ok (Some e))
               else Ok None)
     (\<lambda>effect. case at_idempotency_key m of
        None \<Rightarrow> Raise ValueError ''idempotency_key''
      | Some key \<Rightarrow> Ok
         \<lparr>xa_attempt_id = at_attempt_id m, xa_task_id = at_task_id m, xa_step_id = at_step_id m,
          xa_contract_id = at_contract_id m, xa_permit_id = at_permit_id m,
          xa_action_fingerprint = at_action_fingerprint m,
          xa_observation_hash = at_observation_hash m, xa_idempotency_key = key,
          xa_idempotency_key_digest = at_idempotency_key_digest m,
          xa_execution_effect = effect, xa_result_probe_ref = at_result_probe_ref m,
          xa_status = at_status m, xa_started_at = at_started_at m,
          xa_completed_at = at_completed_at m, xa_result_probe = at_result_probe m,
          xa_error_message = at_error_message m\<rparr>)"

definition authorized_row ::
  "string \<Rightarrow> time \<Rightarrow> permit_row \<Rightarrow> string \<Rightarrow> execution_effect \<Rightarrow> string option \<Rightarrow> attempt_row" where
  "authorized_row new_id created permit key effect probe_ref =
     \<lparr>at_attempt_id = new_id, at_task_id = pm_task_id permit, at_step_id = pm_step_id permit,
      at_contract_id = pm_contract_id permit, at_permit_id = Some (pm_permit_id permit),
      at_pending_action_id = None, at_action_fingerprint = pm_action_fingerprint permit,
      at_observation_hash = pm_observation_hash permit, at_status = AUTHORIZED,
      at_idempotency_key = Some key, at_idempotency_key_digest = Some (sha256 key),
      at_execution_effect = Some (effect_value effect), at_result_probe_ref = probe_ref,
      at_result_probe = None, at_error_message = None, at_started_at = None,
      at_completed_at = None, at_created_at = created\<rparr>"

text \<open>Flushing a new attempt: the primary key and the two unique constraints.\<close>

definition attempt_conflicts :: "attempt_row \<Rightarrow> db \<Rightarrow> bool" where
  "attempt_conflicts m s \<longleftrightarrow> (\<exists>r \<in> set (execution_attempts s).
     at_attempt_id r = at_attempt_id m \<or>
     (at_permit_id m \<noteq> None \<and> at_permit_id r = at_permit_id m) \<or>
     (at_idempotency_key m \<noteq> None \<and> at_task_id r = at_task_id m \<and>
      at_idempotency_key r = at_idempotency_key m))"

definition find_attempt_by_key :: "string \<Rightarrow> string \<Rightarrow> db \<Rightarrow> attempt_row option" where
  "find_attempt_by_key task_id key s =
     first_where (\<lambda>r. at_task_id r = task_id \<and> at_idempotency_key r = Some key)
       (execution_attempts s)"

definition authorize_execution_attempt ::
  "string \<Rightarrow> (nat \<Rightarrow> time) \<Rightarrow> string \<Rightarrow> string \<Rightarrow> string \<Rightarrow> string \<Rightarrow> execution_effect \<Rightarrow>
   execution_profile \<Rightarrow> cua_execution_evidence option \<Rightarrow> string option \<Rightarrow> time option \<Rightarrow>
   (db, execution_attempt) prog" where
  "authorize_execution_attempt new_id clock permit_id action_fingerprint observation_hash
       idempotency_key effect profile evidence probe_ref now s =
     (let at_time = (\<lambda>i. case now of Some t \<Rightarrow> t | None \<Rightarrow> clock i)
      in if idempotency_key = []
      then (Raise ExecutionAttemptError ''Execution attempt requires an idempotency key'', s)
      else (case find_permit permit_id s of
        None \<Rightarrow> (Raise ExecutionAttemptError ''Execution permit does not exist'', s)
      | Some permit \<Rightarrow>
         (case verify_permit_execution_context permit effect profile evidence
                 action_fingerprint observation_hash (at_time 0) of
            Inl e \<Rightarrow> (Inl e, s)
          | Inr _ \<Rightarrow>
             (case find_attempt_by_key (pm_task_id permit) idempotency_key s of
                Some existing \<Rightarrow>
                  (Raise ExecutionAttemptRecoveryRequired
                     (''Execution attempt already exists with status '' @
                      attempt_status_value (at_status existing) @
                      ''; recovery probe is required''), s)
              | None \<Rightarrow>
                  prog_bind (consume_permit_model permit_id action_fingerprint observation_hash
                               (at_time 1))
                   (\<lambda>consumed t.
                     (let model = authorized_row new_id (clock 2) consumed idempotency_key
                            effect probe_ref
                      in if attempt_conflicts model t
                         then (Raise IntegrityError ''execution_attempts'', t)
                         else (attempt_to_contract model, add_attempt model t))) s))))"

section \<open>Transitions\<close>

definition transitioned_row ::
  "attempt_status \<Rightarrow> time \<Rightarrow> jobject option \<Rightarrow> string option \<Rightarrow> attempt_row \<Rightarrow> attempt_row" where
  "transitioned_row to_status timestamp result_probe error_message m =
     (if to_status = EXECUTING
      then m\<lparr>at_status := to_status, at_started_at := Some timestamp\<rparr>
      else m\<lparr>at_status := to_status, at_completed_at := Some timestamp,
             at_result_probe := result_probe, at_error_message := error_message\<rparr>)"

definition transition_attempt ::
  "string \<Rightarrow> attempt_status \<Rightarrow> attempt_status \<Rightarrow> jobject option \<Rightarrow> string option \<Rightarrow> time \<Rightarrow>
   (db, execution_attempt) prog" where
  "transition_attempt attempt_id from_status to_status result_probe error_message timestamp s =
     (case find_attempt attempt_id s of
        None \<Rightarrow> (Raise ExecutionAttemptError ''Execution attempt does not exist'', s)
      | Some model \<Rightarrow>
          if at_status model \<noteq> from_status
          then (Raise ExecutionAttemptError
                  (''Execution attempt cannot transition from '' @
                   attempt_status_value (at_status model) @ '' to '' @
                   attempt_status_value to_status), s)
          else (let moved = transitioned_row to_status timestamp result_probe error_message model
                in (attempt_to_contract moved, write_attempt moved s)))"

definition mark_execution_attempt_executing :: "string \<Rightarrow> time \<Rightarrow> (db, execution_attempt) prog" where
  "mark_execution_attempt_executing attempt_id now =
     transition_attempt attempt_id AUTHORIZED EXECUTING None None now"

definition default_abandon_message :: string where
  "default_abandon_message = ''Authorized execution was abandoned before browser invocation''"

definition abandon_authorized_execution_attempt ::
  "string \<Rightarrow> string \<Rightarrow> time \<Rightarrow> (db, execution_attempt) prog" where
  "abandon_authorized_execution_attempt attempt_id error_message now =
     transition_attempt attempt_id AUTHORIZED FAILED None (Some error_message) now"

definition confirm_execution_attempt ::
  "string \<Rightarrow> jobject option \<Rightarrow> time \<Rightarrow> (db, execution_attempt) prog" where
  "confirm_execution_attempt attempt_id result_probe now =
     transition_attempt attempt_id EXECUTING CONFIRMED result_probe None now"

definition fail_execution_attempt ::
  "string \<Rightarrow> string \<Rightarrow> jobject option \<Rightarrow> time \<Rightarrow> (db, execution_attempt) prog" where
  "fail_execution_attempt attempt_id error_message result_probe now =
     transition_attempt attempt_id EXECUTING FAILED result_probe (Some error_message) now"

definition mark_execution_attempt_unknown ::
  "string \<Rightarrow> string \<Rightarrow> jobject option \<Rightarrow> time \<Rightarrow> (db, execution_attempt) prog" where
  "mark_execution_attempt_unknown attempt_id error_message result_probe now =
     transition_attempt attempt_id EXECUTING UNKNOWN result_probe (Some error_message) now"

definition resolve_unknown_execution_attempt ::
  "string \<Rightarrow> bool \<Rightarrow> jobject \<Rightarrow> time \<Rightarrow> (db, execution_attempt) prog" where
  "resolve_unknown_execution_attempt attempt_id confirmed result_probe now s =
     (if result_probe = []
      then (Raise ExecutionAttemptError
              ''Resolving an unknown attempt requires result-probe evidence'', s)
      else transition_attempt attempt_id UNKNOWN (if confirmed then CONFIRMED else FAILED)
             (Some result_probe) None now s)"

lemmas transition_services =
  mark_execution_attempt_executing_def abandon_authorized_execution_attempt_def
  confirm_execution_attempt_def fail_execution_attempt_def mark_execution_attempt_unknown_def

section \<open>The attempt lifecycle\<close>

inductive attempt_moves :: "attempt_status \<Rightarrow> attempt_status \<Rightarrow> bool" where
  start: "attempt_moves AUTHORIZED EXECUTING"
| abandon: "attempt_moves AUTHORIZED FAILED"
| confirm: "attempt_moves EXECUTING CONFIRMED"
| fail: "attempt_moves EXECUTING FAILED"
| lose: "attempt_moves EXECUTING UNKNOWN"
| resolve_confirmed: "attempt_moves UNKNOWN CONFIRMED"
| resolve_failed: "attempt_moves UNKNOWN FAILED"

inductive_simps attempt_moves_from [simp]:
  "attempt_moves AUTHORIZED t" "attempt_moves EXECUTING t" "attempt_moves UNKNOWN t"
  "attempt_moves CONFIRMED t" "attempt_moves FAILED t"

code_pred attempt_moves .

fun attempt_rank :: "attempt_status \<Rightarrow> nat" where
  "attempt_rank AUTHORIZED = 0"
| "attempt_rank EXECUTING = 1"
| "attempt_rank UNKNOWN = 2"
| "attempt_rank CONFIRMED = 3"
| "attempt_rank FAILED = 3"

interpretation attempt_life: lifecycle attempt_moves attempt_rank 3
proof unfold_locales
  fix s t
  show "attempt_rank s < attempt_rank t" if "attempt_moves s t"
    using that by cases simp_all
  show "attempt_rank s \<le> 3" by (cases s) simp_all
qed

section \<open>Laws of the service\<close>

lemma transitioned_row_fields [simp]:
  "at_attempt_id (transitioned_row st t rp em m) = at_attempt_id m"
  "at_task_id (transitioned_row st t rp em m) = at_task_id m"
  "at_step_id (transitioned_row st t rp em m) = at_step_id m"
  "at_permit_id (transitioned_row st t rp em m) = at_permit_id m"
  "at_idempotency_key (transitioned_row st t rp em m) = at_idempotency_key m"
  "at_idempotency_key_digest (transitioned_row st t rp em m) = at_idempotency_key_digest m"
  "at_action_fingerprint (transitioned_row st t rp em m) = at_action_fingerprint m"
  "at_observation_hash (transitioned_row st t rp em m) = at_observation_hash m"
  "at_execution_effect (transitioned_row st t rp em m) = at_execution_effect m"
  "at_result_probe_ref (transitioned_row st t rp em m) = at_result_probe_ref m"
  "at_contract_id (transitioned_row st t rp em m) = at_contract_id m"
  "at_created_at (transitioned_row st t rp em m) = at_created_at m"
  "at_status (transitioned_row st t rp em m) = st"
  by (simp_all add: transitioned_row_def)

lemma transition_attempt_cases:
  assumes "transition_attempt i f t rp em now s = (r, s')"
  obtains (refused) e where "r = Inl e" "s' = s" "exc_of e = ExecutionAttemptError"
      "\<nexists>m. find_attempt i s = Some m \<and> at_status m = f"
    | (moved) m where "find_attempt i s = Some m" "at_status m = f"
        "r = attempt_to_contract (transitioned_row t now rp em m)"
        "s' = write_attempt (transitioned_row t now rp em m) s"
  using assms unfolding transition_attempt_def
  by (auto simp: Let_def split: if_splits option.splits)

lemma resolve_unknown_cases:
  assumes "resolve_unknown_execution_attempt i c rp now s = (r, s')"
  obtains (no_evidence) e where "rp = []" "r = Inl e" "s' = s"
    | (refused) e where "r = Inl e" "s' = s"
    | (moved) m where "rp \<noteq> []" "find_attempt i s = Some m" "at_status m = UNKNOWN"
        "s' = write_attempt
           (transitioned_row (if c then CONFIRMED else FAILED) now (Some rp) None m) s"
proof (cases "rp = []")
  case True
  with assms that(1) show ?thesis by (auto simp: resolve_unknown_execution_attempt_def)
next
  case False
  with assms have "transition_attempt i UNKNOWN (if c then CONFIRMED else FAILED) (Some rp) None now s
      = (r, s')"
    by (simp add: resolve_unknown_execution_attempt_def)
  then show ?thesis
    by (cases rule: transition_attempt_cases) (use False that(2,3) in auto)
qed

lemma authorize_cases:
  assumes "authorize_execution_attempt i clock p af oh key eff prf ev pr now s = (r, s')"
  obtains (refused) e where "r = Inl e" "s' = s"
    | (expired) m where "find_permit p s = Some m" "pm_status m = Permit_issued"
        "r = Raise PermitValidationError ''Execution permit has expired''"
        "s' = write_permit (m\<lparr>pm_status := Permit_expired\<rparr>) s"
    | (conflict) m t where "r = Raise IntegrityError ''execution_attempts''"
        "find_permit p s = Some m" "pm_status m = Permit_issued"
        "s' = write_permit (m\<lparr>pm_status := Permit_consumed, pm_used_at := Some t\<rparr>) s"
        "attempt_conflicts (authorized_row i (clock 2)
            (m\<lparr>pm_status := Permit_consumed, pm_used_at := Some t\<rparr>) key eff pr) s'"
    | (authorized) m t where "find_permit p s = Some m" "pm_status m = Permit_issued"
        "key \<noteq> []" "t \<le> pm_expires_at m" "pm_action_fingerprint m = af"
        "pm_observation_hash m = oh"
        "find_attempt_by_key (pm_task_id m) key s = None"
        "\<exists>now0. verify_permit_execution_context m eff prf ev af oh now0 = Ok ()"
        "let c = m\<lparr>pm_status := Permit_consumed, pm_used_at := Some t\<rparr>;
             u = write_permit c s; a = authorized_row i (clock 2) c key eff pr
         in \<not> attempt_conflicts a u \<and> r = attempt_to_contract a \<and> s' = add_attempt a u"
proof (cases "key = [] \<or> find_permit p s = None")
  case True
  with assms that(1) show ?thesis
    by (auto simp: authorize_execution_attempt_def Let_def split: if_splits)
next
  case False
  then obtain m where m: "find_permit p s = Some m" "key \<noteq> []" by auto
  let ?at = "\<lambda>k. case now of Some t \<Rightarrow> t | None \<Rightarrow> clock k"
  show ?thesis
  proof (cases "\<exists>e. verify_permit_execution_context m eff prf ev af oh (?at 0) = Inl e \<or>
      find_attempt_by_key (pm_task_id m) key s \<noteq> None")
    case True
    with assms m that(1) show ?thesis
      by (auto simp: authorize_execution_attempt_def Let_def split: sum.splits option.splits)
  next
    case ok: False
    then have ver: "verify_permit_execution_context m eff prf ev af oh (?at 0) = Ok ()"
      by (metis (full_types) old.unit.exhaust sum.exhaust)
    let ?body = "\<lambda>consumed t. let model = authorized_row i (clock 2) consumed key eff pr
        in if attempt_conflicts model t then (Raise IntegrityError ''execution_attempts'', t)
           else (attempt_to_contract model, add_attempt model t)"
    from assms m ok ver
    have bind: "prog_bind (consume_permit_model p af oh (?at 1)) ?body s = (r, s')"
      by (simp add: authorize_execution_attempt_def Let_def)
    show ?thesis
    proof (cases "consume_permit_model p af oh (?at 1) s")
      case (Pair q u)
      from Pair show ?thesis
      proof (cases rule: consume_permit_model_cases)
        case (refused e)
        with bind Pair that(1) show ?thesis by (auto simp: prog_bind_def)
      next
        case (expired m')
        with bind Pair m that(2) show ?thesis by (simp add: prog_bind_def)
      next
        case (consumed m')
        define now1 where "now1 = ?at 1"
        define a where "a = authorized_row i (clock 2)
          (m\<lparr>pm_status := Permit_consumed, pm_used_at := Some now1\<rparr>) key eff pr"
        have mm: "m' = m" using consumed(2) m(1) by simp
        with bind Pair consumed(1) have body: "(if attempt_conflicts a u
            then (Raise IntegrityError ''execution_attempts'', u)
            else (attempt_to_contract a, add_attempt a u)) = (r, s')"
          unfolding a_def now1_def by (auto simp: prog_bind_def Let_def split: if_splits)
        have u: "u = write_permit (m\<lparr>pm_status := Permit_consumed, pm_used_at := Some now1\<rparr>) s"
          using consumed(7) mm by (simp add: now1_def)
        have key_free: "find_attempt_by_key (pm_task_id m) key s = None" using ok by simp
        show ?thesis
        proof (cases "attempt_conflicts a u")
          case True
          with body have "r = Raise IntegrityError ''execution_attempts''" "s' = u" by simp_all
          with True u consumed(3) mm m(1) show ?thesis
            by (intro that(3) [of m now1]) (simp_all add: a_def)
        next
          case False
          with body have "r = attempt_to_contract a" "s' = add_attempt a u" by simp_all
          with False u consumed(3-6) mm m key_free ver show ?thesis
            by (intro that(4) [of m now1]) (auto simp: a_def now1_def Let_def)
        qed
      qed
    qed
  qed
qed

end
