(* ===== verification/ExecutionSafety.thy ===== *)
theory ExecutionSafety
  imports Attempts
begin

text \<open>
  The safety invariant of permits and attempts, and its consequences over every
  sequence of permit and attempt services: each attempt is backed by a permit of
  its own that was consumed for it, permits carry an ALLOW decision and an
  eligible profile, and attempts follow their lifecycle.
\<close>

section \<open>The invariant\<close>

definition permit_grounded :: "permit_row \<Rightarrow> bool" where
  "permit_grounded m \<longleftrightarrow>
     (\<exists>payload e d. pm_decision_payload m = PermitContext payload \<and>
        pd_outcome (pp_policy_decision payload) = ALLOW \<and>
        pp_execution_effect payload = effect_value e \<and>
        require_allowed_profile e (pp_execution_profile payload) = Ok d) \<and>
     pm_issued_at m < pm_expires_at m"

definition backs :: "permit_row \<Rightarrow> attempt_row \<Rightarrow> bool" where
  "backs m a \<longleftrightarrow>
     pm_status m = Permit_consumed \<and> pm_used_at m \<noteq> None \<and> at_permit_id a = Some (pm_permit_id m) \<and>
     at_task_id a = pm_task_id m \<and> at_step_id a = pm_step_id m \<and> at_contract_id a = pm_contract_id m \<and>
     at_action_fingerprint a = pm_action_fingerprint m \<and>
     at_observation_hash a = pm_observation_hash m \<and>
     (\<exists>key. key \<noteq> [] \<and> at_idempotency_key a = Some key \<and>
        at_idempotency_key_digest a = Some (sha256 key)) \<and>
     (\<exists>payload. pm_decision_payload m = PermitContext payload \<and>
        at_execution_effect a = Some (pp_execution_effect payload))"

definition exec_inv :: "db \<Rightarrow> bool" where
  "exec_inv s \<longleftrightarrow>
     distinct (map pm_permit_id (execution_permits s)) \<and>
     distinct (map at_attempt_id (execution_attempts s)) \<and>
     distinct (map at_permit_id (execution_attempts s)) \<and>
     distinct (map (\<lambda>a. (at_task_id a, at_idempotency_key a)) (execution_attempts s)) \<and>
     (\<forall>m \<in> set (execution_permits s). permit_grounded m) \<and>
     (\<forall>a \<in> set (execution_attempts s). \<exists>m \<in> set (execution_permits s). backs m a)"

lemma find_permit_mem:
  assumes "distinct (map pm_permit_id (execution_permits s))" and "m \<in> set (execution_permits s)"
  shows "find_permit (pm_permit_id m) s = Some m"
proof (cases "find_permit (pm_permit_id m) s")
  case None
  with permits.lookup_none [OF None assms(2)] show ?thesis by simp
next
  case (Some m')
  with permits.lookup_row [OF Some] permits.lookup_key [OF Some] assms show ?thesis
    by (auto dest: inj_onD [OF distinct_map [THEN iffD1, THEN conjunct2]])
qed

lemma find_attempt_mem:
  assumes "distinct (map at_attempt_id (execution_attempts s))" and "a \<in> set (execution_attempts s)"
  shows "find_attempt (at_attempt_id a) s = Some a"
proof (cases "find_attempt (at_attempt_id a) s")
  case None
  with attempts.lookup_none [OF None assms(2)] show ?thesis by simp
next
  case (Some a')
  with attempts.lookup_row [OF Some] attempts.lookup_key [OF Some] assms show ?thesis
    by (auto dest: inj_onD [OF distinct_map [THEN iffD1, THEN conjunct2]])
qed

lemma exec_tables [simp]:
  "execution_attempts (write_permit m s) = execution_attempts s"
  "execution_attempts (add_permit m s) = execution_attempts s"
  "execution_permits (write_attempt a s) = execution_permits s"
  "execution_permits (add_attempt a s) = execution_permits s"
  "execution_permits (write_permit m s) = write_row pm_permit_id m (execution_permits s)"
  "execution_permits (add_permit m s) = execution_permits s @ [m]"
  "execution_attempts (write_attempt a s) = write_row at_attempt_id a (execution_attempts s)"
  "execution_attempts (add_attempt a s) = execution_attempts s @ [a]"
  by (simp_all add: write_permit_def add_permit_def write_attempt_def add_attempt_def)

section \<open>Each operation keeps it\<close>

lemma inv_add_permit:
  assumes "exec_inv s" and "find_permit (pm_permit_id m) s = None" and "permit_grounded m"
  shows "exec_inv (add_permit m s)"
proof -
  have "pm_permit_id m \<notin> pm_permit_id ` set (execution_permits s)"
    using permits.lookup_none [OF assms(2)] by force
  with assms(1,3) show ?thesis by (auto simp: exec_inv_def)
qed

text \<open>Writing a permit that is still issued: no attempt rests on it yet.\<close>

lemma inv_write_permit:
  assumes inv: "exec_inv s" and m: "find_permit i s = Some m" "pm_status m = Permit_issued"
    and m': "pm_permit_id m' = pm_permit_id m" "permit_grounded m'"
  shows "exec_inv (write_permit m' s)"
proof -
  have dist: "distinct (map pm_permit_id (execution_permits s))" using inv by (simp add: exec_inv_def)
  have only: "m1 = m" if "m1 \<in> set (execution_permits s)" "pm_permit_id m1 = pm_permit_id m" for m1
    using that find_permit_mem [OF dist] m(1) permits.lookup_key [OF m(1)] by (metis option.inject)
  have "\<exists>m1 \<in> set (write_row pm_permit_id m' (execution_permits s)). backs m1 a"
    if "a \<in> set (execution_attempts s)" for a
  proof -
    from inv that obtain m1 where m1: "m1 \<in> set (execution_permits s)" "backs m1 a"
      by (auto simp: exec_inv_def)
    then have "pm_status m1 = Permit_consumed" by (simp add: backs_def)
    then have "pm_permit_id m1 \<noteq> pm_permit_id m'"
      using only [OF m1(1)] m(2) m'(1) by fastforce
    with m1 show ?thesis by (blast intro: write_row_other)
  qed
  with inv m'(2) show ?thesis
    by (auto simp: exec_inv_def map_key_write_row dest!: set_write_row)
qed

lemma inv_write_attempt:
  assumes inv: "exec_inv s" and a: "find_attempt i s = Some a"
    and same: "at_attempt_id a' = at_attempt_id a" "at_permit_id a' = at_permit_id a"
      "at_task_id a' = at_task_id a" "at_idempotency_key a' = at_idempotency_key a"
      "\<And>m. backs m a \<Longrightarrow> backs m a'"
  shows "exec_inv (write_attempt a' s)"
proof -
  have dist: "distinct (map at_attempt_id (execution_attempts s))" using inv by (simp add: exec_inv_def)
  have row: "a \<in> set (execution_attempts s)" using a by (rule attempts.lookup_row)
  have only: "x = a" if "x \<in> set (execution_attempts s)" "at_attempt_id x = at_attempt_id a" for x
    using that row inj_onD [OF dist [unfolded distinct_map, THEN conjunct2]] by blast
  have cong2: "map f (write_row at_attempt_id a' (execution_attempts s)) = map f (execution_attempts s)"
    if "f a' = f a" for f :: "attempt_row \<Rightarrow> string \<times> string option"
    using that only same(1) by (auto simp: write_row_def)
  have cong3: "map f (write_row at_attempt_id a' (execution_attempts s)) = map f (execution_attempts s)"
    if "f a' = f a" for f :: "attempt_row \<Rightarrow> string option"
    using that only same(1) by (auto simp: write_row_def)
  have "\<exists>m \<in> set (execution_permits s). backs m x"
    if "x \<in> set (write_row at_attempt_id a' (execution_attempts s))" for x
    using inv row that same(5) unfolding exec_inv_def by (blast dest: set_write_row)
  with inv same show ?thesis
    by (simp add: exec_inv_def map_key_write_row cong2 cong3)
qed

lemma grounded_status:
  "permit_grounded (m\<lparr>pm_status := st, pm_used_at := u\<rparr>) = permit_grounded m"
  "permit_grounded (m\<lparr>pm_status := st\<rparr>) = permit_grounded m"
  by (simp_all add: permit_grounded_def)

lemma found_grounded: "exec_inv s \<Longrightarrow> find_permit i s = Some m \<Longrightarrow> permit_grounded m"
  by (auto simp: exec_inv_def dest: permits.lookup_row)

lemma issue_keeps: "keeps exec_inv (issue_permit i now t st c af oh d eff prf ev ttl)"
proof (rule keepsI)
  fix s assume inv: "exec_inv s"
  obtain r u where run: "issue_permit i now t st c af oh d eff prf ev ttl s = (r, u)" by fastforce
  then have "exec_inv u"
  proof (cases rule: issue_permit_cases)
    case issued
    then have "permit_grounded (issued_row i now t st c af oh d eff prf ev ttl)"
      by (auto simp: permit_grounded_def issued_row_def seconds_def)
    with inv issued show ?thesis by (auto intro!: inv_add_permit simp: issued_row_def)
  qed (use inv in simp)
  with run show "exec_inv (snd (issue_permit i now t st c af oh d eff prf ev ttl s))" by simp
qed

lemma consume_keeps: "keeps exec_inv (consume_permit_model i af oh now)"
proof (rule keepsI)
  fix s assume inv: "exec_inv s"
  obtain r u where run: "consume_permit_model i af oh now s = (r, u)" by fastforce
  then have "exec_inv u"
    by (cases rule: consume_permit_model_cases)
       (use inv in \<open>auto intro!: inv_write_permit simp: grounded_status intro: found_grounded\<close>)
  with run show "exec_inv (snd (consume_permit_model i af oh now s))" by simp
qed

lemma effect_of_value_inv: "effect_of_value v = Ok e \<Longrightarrow> v = effect_value e"
  by (auto simp: effect_of_value_def split: if_splits)

text \<open>What the authorization check of the stored context establishes.\<close>

lemma verify_context_ok:
  assumes "verify_permit_execution_context m eff prf ev af oh now = Ok u"
  shows "\<exists>payload. pm_decision_payload m = PermitContext payload \<and>
           pp_execution_effect payload = effect_value eff \<and> pp_execution_profile payload = prf \<and>
           pp_cua_execution_evidence payload = ev \<and> profile_valid prf \<and>
           require_cua_execution_evidence prf ev af oh now = Ok ()"
  using assms
  by (auto simp: verify_permit_execution_context_def checks_ok
           split: decision_document.splits sum.splits if_splits dest: effect_of_value_inv)

lemma backs_moved: "backs m a \<Longrightarrow> backs m (transitioned_row st t rp em a)"
  by (auto simp: backs_def)

lemma transition_keeps: "keeps exec_inv (transition_attempt i f t rp em now)"
proof (rule keepsI)
  fix s assume inv: "exec_inv s"
  obtain r u where run: "transition_attempt i f t rp em now s = (r, u)" by fastforce
  then have "exec_inv u"
    by (cases rule: transition_attempt_cases)
       (use inv in \<open>auto intro!: inv_write_attempt [OF inv] intro: backs_moved\<close>)
  with run show "exec_inv (snd (transition_attempt i f t rp em now s))" by simp
qed

lemma authorize_keeps:
  "keeps exec_inv (authorize_execution_attempt i clock p af oh key eff prf ev pr now)"
proof (rule keepsI)
  fix s assume inv: "exec_inv s"
  obtain r u where run: "authorize_execution_attempt i clock p af oh key eff prf ev pr now s = (r, u)"
    by fastforce
  then have "exec_inv u"
  proof (cases rule: authorize_cases)
    case (expired m)
    with inv show ?thesis by (auto intro!: inv_write_permit simp: grounded_status intro: found_grounded)
  next
    case (conflict m t)
    with inv show ?thesis by (auto intro!: inv_write_permit simp: grounded_status intro: found_grounded)
  next
    case (authorized m t)
    let ?c = "m\<lparr>pm_status := Permit_consumed, pm_used_at := Some t\<rparr>"
    let ?a = "authorized_row i (clock 2) ?c key eff pr"
    have u: "u = add_attempt ?a (write_permit ?c s)" and free: "\<not> attempt_conflicts ?a (write_permit ?c s)"
      using authorized(9) by (auto simp: Let_def)
    have inv1: "exec_inv (write_permit ?c s)"
      using inv authorized(1,2)
      by (auto intro!: inv_write_permit simp: grounded_status intro: found_grounded)
    obtain payload where payload: "pm_decision_payload m = PermitContext payload"
      "pp_execution_effect payload = effect_value eff"
      using authorized(8) verify_context_ok by blast
    have "backs ?c ?a"
      using payload authorized(3) by (simp add: backs_def authorized_row_def)
    moreover have "?c \<in> set (execution_permits (write_permit ?c s))"
      using permits.store_found [OF authorized(1), of ?c] by (auto dest: permits.lookup_row)
    ultimately show ?thesis
      using inv1 free unfolding u
      by (auto simp: exec_inv_def attempt_conflicts_def authorized_row_def)
  qed (use inv in simp)
  with run show "exec_inv (snd (authorize_execution_attempt i clock p af oh key eff prf ev pr now s))" by simp
qed

section \<open>Runs of the execution services\<close>

inductive execution_step :: "db \<Rightarrow> db \<Rightarrow> bool" where
  issue: "issue_permit i now t st c af oh d eff prf ev ttl s = (r1, s') \<Longrightarrow> execution_step s s'"
| consume: "consume_permit i af oh now s = (r1, s') \<Longrightarrow> execution_step s s'"
| authorize: "authorize_execution_attempt i clock p af oh key eff prf ev pr nw s = (r2, s') \<Longrightarrow>
    execution_step s s'"
| executing: "mark_execution_attempt_executing i now s = (r2, s') \<Longrightarrow> execution_step s s'"
| abandon: "abandon_authorized_execution_attempt i em now s = (r2, s') \<Longrightarrow> execution_step s s'"
| confirm: "confirm_execution_attempt i rp now s = (r2, s') \<Longrightarrow> execution_step s s'"
| failing: "fail_execution_attempt i em rp now s = (r2, s') \<Longrightarrow> execution_step s s'"
| unknown: "mark_execution_attempt_unknown i em rp now s = (r2, s') \<Longrightarrow> execution_step s s'"
| resolve: "resolve_unknown_execution_attempt i confirmed evidence now s = (r2, s') \<Longrightarrow> execution_step s s'"

lemma resolve_keeps: "keeps exec_inv (resolve_unknown_execution_attempt i c rp now)"
proof (rule keepsI)
  fix s assume inv: "exec_inv s"
  obtain r u where run: "resolve_unknown_execution_attempt i c rp now s = (r, u)" by fastforce
  then have "exec_inv u"
    by (cases rule: resolve_unknown_cases)
       (use inv in \<open>auto intro!: inv_write_attempt [OF inv] intro: backs_moved\<close>)
  with run show "exec_inv (snd (resolve_unknown_execution_attempt i c rp now s))" by simp
qed

lemma execution_step_inv:
  assumes "execution_step s t" and "exec_inv s"
  shows "exec_inv t"
  using assms(1)
proof (cases rule: execution_step.cases)
  case (consume i af oh now r1)
  have "keeps exec_inv (consume_permit i af oh now)"
    unfolding consume_permit_def by (intro keeps_bind consume_keeps) (simp add: keeps_def)
  with consume assms(2) show ?thesis by (blast dest: keepsD)
qed (use assms(2) in \<open>auto simp: transition_services dest: keepsD [OF issue_keeps] keepsD [OF authorize_keeps]
       keepsD [OF transition_keeps] keepsD [OF resolve_keeps]\<close>)

lemma execution_run_inv: "execution_step\<^sup>*\<^sup>* s t \<Longrightarrow> exec_inv s \<Longrightarrow> exec_inv t"
  by (induction rule: rtranclp_induct) (auto intro: execution_step_inv)

section \<open>Evolution of attempts\<close>

definition attempt_evolved :: "attempt_row \<Rightarrow> attempt_row \<Rightarrow> bool" where
  "attempt_evolved a b \<longleftrightarrow> b = a \<or>
     (attempt_moves\<^sup>+\<^sup>+ (at_status a) (at_status b) \<and> at_attempt_id b = at_attempt_id a \<and>
      at_permit_id b = at_permit_id a \<and> at_task_id b = at_task_id a \<and>
      at_action_fingerprint b = at_action_fingerprint a \<and>
      at_observation_hash b = at_observation_hash a \<and> at_idempotency_key b = at_idempotency_key a \<and>
      (at_status a = UNKNOWN \<longrightarrow> (\<exists>evidence. evidence \<noteq> [] \<and> at_result_probe b = Some evidence)))"

lemma terminal_attempt:
  assumes "attempt_moves\<^sup>+\<^sup>+ x y"
  shows "x \<in> {AUTHORIZED, EXECUTING, UNKNOWN}"
  using assms by (cases rule: tranclp.cases [OF assms]; cases x) (auto dest: tranclpD)

lemma moves_from_unknown: "attempt_moves\<^sup>+\<^sup>+ UNKNOWN y \<Longrightarrow> y \<in> {CONFIRMED, FAILED}"
  by (induction rule: tranclp_induct) auto

lemma attempt_evolved_trans:
  assumes ab: "attempt_evolved a b" and bc: "attempt_evolved b c"
  shows "attempt_evolved a c"
proof (cases "b = a \<or> c = b")
  case True
  with ab bc show ?thesis by auto
next
  case False
  with ab bc have moves: "attempt_moves\<^sup>+\<^sup>+ (at_status a) (at_status b)"
    "attempt_moves\<^sup>+\<^sup>+ (at_status b) (at_status c)" by (simp_all add: attempt_evolved_def)
  then have "at_status a \<noteq> UNKNOWN" using moves_from_unknown terminal_attempt by fastforce
  with False ab bc moves show ?thesis
    unfolding attempt_evolved_def by (auto intro: tranclp_trans)
qed

definition attempts_evolve :: "db \<Rightarrow> db \<Rightarrow> bool" where
  "attempts_evolve s t \<longleftrightarrow>
     (\<forall>i a. find_attempt i s = Some a \<longrightarrow> (\<exists>b. find_attempt i t = Some b \<and> attempt_evolved a b))"

lemma attempts_evolve_trans: "attempts_evolve s t \<Longrightarrow> attempts_evolve t u \<Longrightarrow> attempts_evolve s u"
  unfolding attempts_evolve_def by (meson attempt_evolved_trans)

lemma attempts_same: "execution_attempts t = execution_attempts s \<Longrightarrow> attempts_evolve s t"
  by (auto simp: attempts_evolve_def find_attempt_def attempt_evolved_def)

lemma attempts_write:
  assumes "find_attempt i s = Some a" and "attempt_evolved a b" and "at_attempt_id b = at_attempt_id a"
  shows "attempts_evolve s (write_attempt b s)"
proof -
  have "find_attempt (at_attempt_id b) s = Some a" using assms attempts.lookup_key by metis
  then show ?thesis
    using assms by (auto simp: attempts_evolve_def attempts.lookup_store attempt_evolved_def)
qed

lemma transition_evolves:
  assumes "transition_attempt i f t rp em now s = (r, u)" and "attempt_moves f t" and "f \<noteq> UNKNOWN"
  shows "attempts_evolve s u"
  using assms(1)
proof (cases rule: transition_attempt_cases)
  case (moved m)
  with assms(2,3) have "attempt_evolved m (transitioned_row t now rp em m)"
    by (auto simp: attempt_evolved_def)
  with moved show ?thesis by (auto intro: attempts_write)
qed (simp add: attempts_same)

lemma resolve_evolves:
  assumes "resolve_unknown_execution_attempt i c rp now s = (r, u)"
  shows "attempts_evolve s u"
  using assms
proof (cases rule: resolve_unknown_cases)
  case (moved m)
  have "attempt_moves UNKNOWN (if c then CONFIRMED else FAILED)" by simp
  with moved have "attempt_evolved m
      (transitioned_row (if c then CONFIRMED else FAILED) now (Some rp) None m)"
    by (auto simp: attempt_evolved_def transitioned_row_def)
  with moved show ?thesis by (auto intro: attempts_write)
qed (simp_all add: attempts_same)

lemma authorize_evolves:
  assumes "authorize_execution_attempt i clock p af oh key eff prf ev pr now s = (r, u)"
  shows "attempts_evolve s u"
  using assms
proof (cases rule: authorize_cases)
  case (authorized m t)
  let ?c = "m\<lparr>pm_status := Permit_consumed, pm_used_at := Some t\<rparr>"
  let ?a = "authorized_row i (clock 2) ?c key eff pr"
  have u: "u = add_attempt ?a (write_permit ?c s)" and free: "\<not> attempt_conflicts ?a (write_permit ?c s)"
    using authorized(9) by (auto simp: Let_def)
  have "attempts_evolve s (write_permit ?c s)" by (simp add: attempts_same)
  moreover have "find_attempt (at_attempt_id ?a) (write_permit ?c s) = None"
    using free attempts.lookup_row attempts.lookup_key
    by (cases "find_attempt (at_attempt_id ?a) (write_permit ?c s)") (fastforce simp: attempt_conflicts_def)+
  then have "attempts_evolve (write_permit ?c s) u"
    unfolding u by (auto simp: attempts_evolve_def attempts.lookup_insert attempt_evolved_def)
  ultimately show ?thesis by (rule attempts_evolve_trans)
qed (simp_all add: attempts_same)

lemma permit_services_evolve:
  "issue_permit i now t st c af oh d eff prf ev ttl s = (r, u) \<Longrightarrow> attempts_evolve s u"
  "consume_permit i af oh now s = (r', u) \<Longrightarrow> attempts_evolve s u"
proof -
  show "issue_permit i now t st c af oh d eff prf ev ttl s = (r, u) \<Longrightarrow> attempts_evolve s u"
    by (erule issue_permit_cases) (simp_all add: attempts_same)
  show "consume_permit i af oh now s = (r', u) \<Longrightarrow> attempts_evolve s u"
    unfolding consume_permit_def
    by (elim prog_bind_cases consume_permit_model_cases) (auto simp: attempts_same)
qed

lemma execution_step_evolves:
  assumes "execution_step s t"
  shows "attempts_evolve s t"
  using assms
  by (cases rule: execution_step.cases)
     (auto simp: transition_services intro: permit_services_evolve authorize_evolves resolve_evolves
           elim!: transition_evolves)

lemma execution_run_evolves: "execution_step\<^sup>*\<^sup>* s t \<Longrightarrow> attempts_evolve s t"
proof (induction rule: rtranclp_induct)
  case base
  then show ?case by (simp add: attempts_same)
next
  case (step t u)
  then show ?case using execution_step_evolves attempts_evolve_trans by blast
qed

section \<open>When an authorization succeeds\<close>

lemma attempt_to_contract_authorized:
  "\<exists>x. attempt_to_contract (authorized_row i now m key eff pr) = Ok x \<and> xa_attempt_id x = i \<and>
       xa_status x = AUTHORIZED \<and> xa_execution_effect x = Some eff"
  by (cases eff) (simp_all add: attempt_to_contract_def authorized_row_def effect_of_value_def)

lemma verify_context_iff:
  "verify_permit_execution_context m eff prf ev af oh now = Ok () \<longleftrightarrow>
     (\<exists>payload. pm_decision_payload m = PermitContext payload \<and>
        pp_execution_effect payload = effect_value eff \<and> pp_execution_profile payload = prf \<and>
        pp_cua_execution_evidence payload = ev \<and> profile_valid prf \<and>
        (\<forall>e. ev = Some e \<longrightarrow> cua_evidence_valid e) \<and>
        require_cua_execution_evidence prf ev af oh now = Ok ())"
proof
  assume "verify_permit_execution_context m eff prf ev af oh now = Ok ()"
  then show "\<exists>payload. pm_decision_payload m = PermitContext payload \<and>
        pp_execution_effect payload = effect_value eff \<and> pp_execution_profile payload = prf \<and>
        pp_cua_execution_evidence payload = ev \<and> profile_valid prf \<and>
        (\<forall>e. ev = Some e \<longrightarrow> cua_evidence_valid e) \<and>
        require_cua_execution_evidence prf ev af oh now = Ok ()"
    by (auto simp: verify_permit_execution_context_def checks_ok
             split: decision_document.splits sum.splits if_splits dest: effect_of_value_inv)
qed (auto simp: verify_permit_execution_context_def checks_ok)

lemma authorize_succeeds:
  assumes "key \<noteq> []" and m: "find_permit p s = Some m" "pm_status m = Permit_issued"
    "pm_action_fingerprint m = af" "pm_observation_hash m = oh" "now \<le> pm_expires_at m"
    and ctx: "verify_permit_execution_context m eff prf ev af oh now = Ok ()"
    and free: "find_attempt_by_key (pm_task_id m) key s = None" "find_attempt i s = None"
      "\<forall>a \<in> set (execution_attempts s). at_permit_id a \<noteq> Some p"
  shows "\<exists>x u. authorize_execution_attempt i clock p af oh key eff prf ev pr (Some now) s = (Ok x, u) \<and>
     xa_attempt_id x = i \<and> xa_status x = AUTHORIZED \<and> xa_execution_effect x = Some eff \<and>
     u = add_attempt (authorized_row i (clock 2)
           (m\<lparr>pm_status := Permit_consumed, pm_used_at := Some now\<rparr>) key eff pr)
         (write_permit (m\<lparr>pm_status := Permit_consumed, pm_used_at := Some now\<rparr>) s)"
proof -
  let ?c = "m\<lparr>pm_status := Permit_consumed, pm_used_at := Some now\<rparr>"
  let ?a = "authorized_row i (clock 2) ?c key eff pr"
  have pid: "pm_permit_id m = p" using m(1) by (rule permits.lookup_key)
  have "\<not> attempt_conflicts ?a (write_permit ?c s)"
    using free attempts.lookup_none [OF free(2)] pid
    by (auto simp: attempt_conflicts_def authorized_row_def find_attempt_by_key_def first_where_None)
  with assms attempt_to_contract_authorized [of i "clock 2" ?c key eff pr] show ?thesis
    by (auto simp: authorize_execution_attempt_def consume_permit_model_def prog_bind_def Let_def)
qed

section \<open>A concrete run\<close>

definition issued_db :: db where
  "issued_db = add_permit (issued_row ''p'' 0 ''t'' ''s'' ''c'' ''f'' ''h'' allow_decision EXTERNAL_WRITE
     locator_profile None 60) empty_db"

lemma issued_db_run:
  "issue_permit ''p'' 0 ''t'' ''s'' ''c'' ''f'' ''h'' allow_decision EXTERNAL_WRITE locator_profile None 60
     empty_db = (Ok (permit_to_contract (issued_row ''p'' 0 ''t'' ''s'' ''c'' ''f'' ''h'' allow_decision
       EXTERNAL_WRITE locator_profile None 60)), issued_db)"
  by (simp add: issue_permit_def issued_db_def allow_decision_def locator_profile_def
        require_allowed_profile_def decide_profile_def weak_mechanisms_def Let_def
        require_cua_execution_evidence_def find_permit_def first_where_def empty_db_def)

section \<open>Properties\<close>

text \<open>
  C2. Over every sequence of permit and attempt service calls from
  empty tables, each execution attempt has a permit of its own: consumed, issued for the same
  task, step, contract, action and observation under an ALLOW decision with a finite lifetime,
  and with a profile eligible for the effect, so an external write is always bound to a locator
  or label. No permit authorizes two attempts, no idempotency key is used twice in a task, and
  every attempt carries a non-empty key with its digest.
\<close>

theorem attempts_backed_by_permits:
  assumes run: "execution_step\<^sup>*\<^sup>* s t" and start: "execution_permits s = []" "execution_attempts s = []"
  shows "distinct (map at_permit_id (execution_attempts t)) \<and>
     distinct (map (\<lambda>a. (at_task_id a, at_idempotency_key a)) (execution_attempts t)) \<and>
     (\<forall>a \<in> set (execution_attempts t). \<exists>m payload e d key.
        find_permit (pm_permit_id m) t = Some m \<and> backs m a \<and>
        pm_decision_payload m = PermitContext payload \<and>
        pd_outcome (pp_policy_decision payload) = ALLOW \<and> pm_issued_at m < pm_expires_at m \<and>
        at_execution_effect a = Some (effect_value e) \<and>
        require_allowed_profile e (pp_execution_profile payload) = Ok d \<and>
        (e = EXTERNAL_WRITE \<longrightarrow> prf_mechanism (pp_execution_profile payload) \<in> {LOCATOR, LABEL}) \<and>
        key \<noteq> [] \<and> at_idempotency_key a = Some key \<and> at_idempotency_key_digest a = Some (sha256 key))"
proof -
  have inv: "exec_inv t"
    using start by (intro execution_run_inv [OF run]) (simp add: exec_inv_def)
  have "\<exists>m payload e d key.
        find_permit (pm_permit_id m) t = Some m \<and> backs m a \<and>
        pm_decision_payload m = PermitContext payload \<and>
        pd_outcome (pp_policy_decision payload) = ALLOW \<and> pm_issued_at m < pm_expires_at m \<and>
        at_execution_effect a = Some (effect_value e) \<and>
        require_allowed_profile e (pp_execution_profile payload) = Ok d \<and>
        (e = EXTERNAL_WRITE \<longrightarrow> prf_mechanism (pp_execution_profile payload) \<in> {LOCATOR, LABEL}) \<and>
        key \<noteq> [] \<and> at_idempotency_key a = Some key \<and> at_idempotency_key_digest a = Some (sha256 key)"
    if a: "a \<in> set (execution_attempts t)" for a
  proof -
    from inv a obtain m where m: "m \<in> set (execution_permits t)" "backs m a" "permit_grounded m"
      by (auto simp: exec_inv_def)
    from m(3) obtain payload e d where g: "pm_decision_payload m = PermitContext payload"
      "pd_outcome (pp_policy_decision payload) = ALLOW" "pp_execution_effect payload = effect_value e"
      "require_allowed_profile e (pp_execution_profile payload) = Ok d" "pm_issued_at m < pm_expires_at m"
      by (auto simp: permit_grounded_def)
    moreover have "find_permit (pm_permit_id m) t = Some m"
      using inv m(1) by (intro find_permit_mem) (auto simp: exec_inv_def)
    moreover have "e = EXTERNAL_WRITE \<longrightarrow> prf_mechanism (pp_execution_profile payload) \<in> {LOCATOR, LABEL}"
      using g(4) require_allowed_profile_ok by blast
    moreover have "at_execution_effect a = Some (effect_value e)"
      using m(2) g(1,3) by (auto simp: backs_def)
    moreover obtain key where "key \<noteq> []" "at_idempotency_key a = Some key"
      "at_idempotency_key_digest a = Some (sha256 key)" using m(2) by (auto simp: backs_def)
    ultimately show ?thesis using m(2) by blast
  qed
  with inv show ?thesis by (simp add: exec_inv_def)
qed

text \<open>
  A permit just issued for an allowed decision authorizes exactly
  the attempt it was issued for: with the same action, observation, effect, profile and evidence,
  any moment until the permit expires and while its evidence is fresh, under a new key, the
  attempt is authorized; and after that no attempt is ever authorized with the same permit,
  whatever the key, the profile or the time.
\<close>

theorem authorization_roundtrip:
  assumes issued: "issue_permit p t0 t st c af oh d eff prf ev ttl s = (Ok permit, s1)"
    and inv: "exec_inv s" "profile_valid prf" "\<forall>e. ev = Some e \<longrightarrow> cua_evidence_valid e"
    and live: "now \<le> t0 + seconds ttl" "require_cua_execution_evidence prf ev af oh now = Ok ()"
    and fresh: "key \<noteq> []" "find_attempt_by_key t key s = None" "find_attempt i s = None"
  shows "\<exists>x u. authorize_execution_attempt i clock p af oh key eff prf ev pr (Some now) s1 = (Ok x, u) \<and>
     xa_attempt_id x = i \<and> xa_status x = AUTHORIZED \<and> xa_execution_effect x = Some eff \<and>
     (\<forall>i' clock' af' oh' key' eff' prf' ev' pr' now'.
        \<not> is_ok (fst (authorize_execution_attempt i' clock' p af' oh' key' eff' prf' ev' pr' now' u)))"
proof -
  let ?m = "issued_row p t0 t st c af oh d eff prf ev ttl"
  from issued have s1: "s1 = add_permit ?m s" and none: "find_permit p s = None"
    by (auto elim: issue_permit_cases)
  have key: "pm_permit_id ?m = p" by (simp add: issued_row_def)
  have m: "find_permit p s1 = Some ?m"
    using permits.lookup_insert [of ?m s p] none unfolding s1 key by simp
  have unused: "\<forall>a \<in> set (execution_attempts s1). at_permit_id a \<noteq> Some p"
  proof
    fix a assume "a \<in> set (execution_attempts s1)"
    with inv(1) s1 obtain m1 where "m1 \<in> set (execution_permits s)" "backs m1 a"
      by (auto simp: exec_inv_def)
    with permits.lookup_none [OF none] show "at_permit_id a \<noteq> Some p" by (auto simp: backs_def)
  qed
  have ctx: "verify_permit_execution_context ?m eff prf ev af oh now = Ok ()"
    using inv(2,3) live(2) by (simp add: verify_context_iff issued_row_def)
  obtain x u where ok: "authorize_execution_attempt i clock p af oh key eff prf ev pr (Some now) s1 = (Ok x, u)"
    "xa_attempt_id x = i" "xa_status x = AUTHORIZED" "xa_execution_effect x = Some eff"
    and u: "u = add_attempt (authorized_row i (clock 2)
           (?m\<lparr>pm_status := Permit_consumed, pm_used_at := Some now\<rparr>) key eff pr)
         (write_permit (?m\<lparr>pm_status := Permit_consumed, pm_used_at := Some now\<rparr>) s1)"
    using authorize_succeeds [OF fresh(1) m _ _ _ _ ctx _ _ unused, of i clock pr] live(1) fresh(2,3)
    by (auto simp: issued_row_def s1 find_attempt_by_key_def find_attempt_def add_permit_def)
  have used: "find_permit p u = Some (?m\<lparr>pm_status := Permit_consumed, pm_used_at := Some now\<rparr>)"
    using permits.store_found [OF m, of "?m\<lparr>pm_status := Permit_consumed, pm_used_at := Some now\<rparr>"]
    by (simp add: u find_permit_def add_attempt_def)
  have "\<not> is_ok (fst (authorize_execution_attempt i' clock' p af' oh' key' eff' prf' ev' pr' now' u))"
    for i' clock' af' oh' key' eff' prf' ev' pr' now'
  proof -
    obtain r w where run: "authorize_execution_attempt i' clock' p af' oh' key' eff' prf' ev' pr' now' u = (r, w)"
      by fastforce
    then show ?thesis
      by (cases rule: authorize_cases) (use used run in auto)
  qed
  with ok show ?thesis by blast
qed

theorem authorization_roundtrip_witness:
  "\<exists>x u. authorize_execution_attempt ''a'' (\<lambda>_. 5) ''p'' ''f'' ''h'' ''key'' EXTERNAL_WRITE locator_profile None
      None (Some 5) issued_db = (Ok x, u) \<and> xa_status x = AUTHORIZED"
proof -
  have pre: "exec_inv empty_db" "profile_valid locator_profile"
    "require_cua_execution_evidence locator_profile None ''f'' ''h'' 5 = Ok ()"
    "find_attempt_by_key ''t'' ''key'' empty_db = None" "find_attempt ''a'' empty_db = None"
    by (simp_all add: exec_inv_def empty_db_def profile_valid_def locator_profile_def
         require_cua_execution_evidence_def find_attempt_by_key_def
         find_attempt_def first_where_def)
  have now: "(5 :: time) \<le> 0 + seconds 60" by (simp add: seconds_def)
  from authorization_roundtrip [OF issued_db_run pre(1,2) _ now pre(3) _ pre(4,5), of "\<lambda>_. 5" None]
  show ?thesis by auto
qed

theorem attempts_backed_by_permits_witness:
  "\<exists>u a m. execution_step\<^sup>*\<^sup>* empty_db u \<and> a \<in> set (execution_attempts u) \<and> backs m a \<and>
     at_permit_id a = Some ''p''"
proof -
  let ?m = "issued_row ''p'' 0 ''t'' ''s'' ''c'' ''f'' ''h'' allow_decision EXTERNAL_WRITE locator_profile None 60"
  have m: "find_permit ''p'' issued_db = Some ?m"
    by (simp add: find_permit_def first_where_def issued_db_def add_permit_def empty_db_def issued_row_def)
  have ctx: "verify_permit_execution_context ?m EXTERNAL_WRITE locator_profile None ''f'' ''h'' 5 = Ok ()"
    by (simp add: verify_context_iff issued_row_def profile_valid_def locator_profile_def
          require_cua_execution_evidence_def)
  obtain x u where run: "authorize_execution_attempt ''a'' (\<lambda>_. 5) ''p'' ''f'' ''h'' ''key'' EXTERNAL_WRITE
      locator_profile None None (Some 5) issued_db = (Ok x, u)"
    and u: "u = add_attempt (authorized_row ''a'' 5 (?m\<lparr>pm_status := Permit_consumed, pm_used_at := Some 5\<rparr>)
        ''key'' EXTERNAL_WRITE None) (write_permit (?m\<lparr>pm_status := Permit_consumed, pm_used_at := Some 5\<rparr>) issued_db)"
    using authorize_succeeds [of "''key''" "''p''" issued_db ?m "''f''" "''h''" 5 EXTERNAL_WRITE locator_profile
        None "''a''" "\<lambda>_. 5" None] m ctx
    by (auto simp: issued_db_def empty_db_def issued_row_def find_attempt_by_key_def
          find_attempt_def first_where_def add_permit_def seconds_def)
  have steps: "execution_step\<^sup>*\<^sup>* empty_db u"
    using execution_step.issue [OF issued_db_run] execution_step.authorize [OF run]
    by (rule converse_rtranclp_into_rtranclp [OF _ r_into_rtranclp])
  let ?a = "authorized_row ''a'' 5 (?m\<lparr>pm_status := Permit_consumed, pm_used_at := Some 5\<rparr>)
        ''key'' EXTERNAL_WRITE None"
  have a: "?a \<in> set (execution_attempts u)" "at_permit_id ?a = Some ''p''"
    by (simp_all add: u authorized_row_def issued_row_def)
  from attempts_backed_by_permits [OF steps] a steps show ?thesis
    unfolding empty_db_def by (simp, blast)
qed

text \<open>
  C16. Whatever the services do, an attempt keeps its identity (permit,
  task, action, observation and key) and its status only moves along the attempt lifecycle, so it
  is never executed twice and a final status never changes; and it leaves UNKNOWN only with
  non-empty result-probe evidence, which is then stored on it.
\<close>

theorem attempts_never_replayed:
  assumes "execution_step\<^sup>*\<^sup>* s t" and "find_attempt i s = Some a"
  shows "\<exists>b. find_attempt i t = Some b \<and> attempt_moves\<^sup>*\<^sup>* (at_status a) (at_status b) \<and>
     at_permit_id b = at_permit_id a \<and> at_task_id b = at_task_id a \<and>
     at_action_fingerprint b = at_action_fingerprint a \<and>
     at_observation_hash b = at_observation_hash a \<and> at_idempotency_key b = at_idempotency_key a \<and>
     (at_status b = at_status a \<longrightarrow> b = a) \<and>
     (at_status a \<in> {CONFIRMED, FAILED} \<longrightarrow> b = a) \<and>
     (at_status a = UNKNOWN \<and> at_status b \<noteq> UNKNOWN \<longrightarrow>
        at_status b \<in> {CONFIRMED, FAILED} \<and>
        (\<exists>evidence. evidence \<noteq> [] \<and> at_result_probe b = Some evidence))"
proof -
  from execution_run_evolves [OF assms(1)] assms(2) obtain b where
    b: "find_attempt i t = Some b" "attempt_evolved a b" by (auto simp: attempts_evolve_def)
  show ?thesis
  proof (cases "b = a")
    case True
    with b show ?thesis by auto
  next
    case False
    with b(2) have moved: "attempt_moves\<^sup>+\<^sup>+ (at_status a) (at_status b)" by (simp add: attempt_evolved_def)
    then have "at_status b \<noteq> at_status a" using attempt_life.never_revisits by metis
    moreover have "at_status a \<notin> {CONFIRMED, FAILED}" using terminal_attempt [OF moved] by auto
    moreover have "at_status a = UNKNOWN \<longrightarrow> at_status b \<in> {CONFIRMED, FAILED}"
      using moved moves_from_unknown by metis
    ultimately show ?thesis
      using b False moved by (auto simp: attempt_evolved_def intro: tranclp_into_rtranclp)
  qed
qed

definition unknown_attempt :: attempt_row where
  "unknown_attempt = (authorized_row ''a'' 0 (issued_row ''p'' 0 ''t'' ''s'' ''c'' ''f'' ''h'' allow_decision
     EXTERNAL_WRITE locator_profile None 60) ''key'' EXTERNAL_WRITE None)\<lparr>at_status := UNKNOWN\<rparr>"

theorem attempts_never_replayed_witness:
  "\<exists>u b. execution_step (add_attempt unknown_attempt empty_db) u \<and>
     find_attempt ''a'' u = Some b \<and> at_status b = CONFIRMED \<and>
     (\<exists>evidence. evidence \<noteq> [] \<and> at_result_probe b = Some evidence)"
proof -
  let ?s = "add_attempt unknown_attempt empty_db"
  have a: "find_attempt ''a'' ?s = Some unknown_attempt"
    by (simp add: find_attempt_def first_where_def add_attempt_def empty_db_def unknown_attempt_def
          authorized_row_def)
  obtain r u where run: "resolve_unknown_execution_attempt ''a'' True [(''ref'', JNull)] 9 ?s = (r, u)"
    by fastforce
  then have step: "execution_step ?s u" by (rule execution_step.resolve)
  have "find_attempt ''a'' u = Some (transitioned_row CONFIRMED 9 (Some [(''ref'', JNull)]) None unknown_attempt)"
    using run a by (auto simp: resolve_unknown_execution_attempt_def transition_attempt_def Let_def
        unknown_attempt_def attempts.store_found)
  with attempts_never_replayed [OF r_into_rtranclp [of execution_step, OF step] a] step
  show ?thesis
    by (intro exI [of _ u]) (auto simp: unknown_attempt_def)
qed

end
