(* ===== verification/Strings.thy ===== *)
theory Strings
  imports Prelude
begin

text \<open>
  The string operations the code uses: lower-casing, stripping, substring and
  prefix tests, and the three regular expressions of \<open>classification.py\<close> as
  matchers. A string is its UTF-8 bytes. Case, digits and blanks are those of
  ASCII; a byte of a non-ASCII character counts as a word character (what
  \<open>\w\<close> says of letters of every script).
\<close>

section \<open>Characters\<close>

definition code :: "char \<Rightarrow> nat" where
  "code c = of_char c"

definition is_digit :: "char \<Rightarrow> bool" where
  "is_digit c = (48 \<le> code c \<and> code c \<le> 57)"

definition is_word :: "char \<Rightarrow> bool" where
  "is_word c = (is_digit c \<or> (65 \<le> code c \<and> code c \<le> 90) \<or> (97 \<le> code c \<and> code c \<le> 122) \<or>
                c = CHR ''_'' \<or> 128 \<le> code c)"

definition is_blank :: "char \<Rightarrow> bool" where
  "is_blank c = (code c = 32 \<or> (9 \<le> code c \<and> code c \<le> 13) \<or> (28 \<le> code c \<and> code c \<le> 31))"

definition lower_char :: "char \<Rightarrow> char" where
  "lower_char c = (if 65 \<le> code c \<and> code c \<le> 90 then char_of (code c + 32) else c)"

definition lower :: "string \<Rightarrow> string" where
  "lower s = map lower_char s"

lemma lower_char_idem [simp]: "lower_char (lower_char c) = lower_char c"
proof (cases "65 \<le> code c \<and> code c \<le> 90")
  case True
  then have "code (lower_char c) = code c + 32"
    by (simp add: lower_char_def code_def)
  with True show ?thesis by (simp add: lower_char_def)
qed (auto simp: lower_char_def)

lemma lower_lower [simp]: "lower (lower s) = lower s"
  by (simp add: lower_def)

section \<open>Substrings\<close>

text \<open>\<open>s.startswith(p)\<close>, \<open>n in s\<close>, \<open>s.removeprefix(p)\<close>, \<open>s.strip()\<close>, \<open>s.replace(a, b)\<close> on one character.\<close>

definition starts_with :: "string \<Rightarrow> string \<Rightarrow> bool" where
  "starts_with p s = (take (length p) s = p)"

fun contains :: "string \<Rightarrow> string \<Rightarrow> bool" where
  "contains n [] = (n = [])"
| "contains n (c # s) = (starts_with n (c # s) \<or> contains n s)"

definition removeprefix :: "string \<Rightarrow> string \<Rightarrow> string" where
  "removeprefix p s = (if starts_with p s then drop (length p) s else s)"

definition lstrip :: "string \<Rightarrow> string" where
  "lstrip s = dropWhile is_blank s"

definition strip :: "string \<Rightarrow> string" where
  "strip s = rev (lstrip (rev (lstrip s)))"

definition replace_char :: "char \<Rightarrow> char \<Rightarrow> string \<Rightarrow> string" where
  "replace_char a b s = map (\<lambda>c. if c = a then b else c) s"

text \<open>\<open>s.split(sep)\<close> on a one-character separator.\<close>

fun split_on :: "char \<Rightarrow> string \<Rightarrow> string list" where
  "split_on sep [] = [[]]"
| "split_on sep (c # s) =
     (if c = sep then [] # split_on sep s
      else (case split_on sep s of [] \<Rightarrow> [[c]] | w # ws \<Rightarrow> (c # w) # ws))"

lemma contains_append: "contains n (pre @ n @ post)"
proof (induction pre)
  case Nil
  have "take (length n) (n @ post) = n" by simp
  then show ?case by (cases "n @ post") (simp_all add: starts_with_def)
qed simp

lemma contains_iff: "contains n s \<longleftrightarrow> (\<exists>pre post. s = pre @ n @ post)"
proof
  show "contains n s \<Longrightarrow> \<exists>pre post. s = pre @ n @ post"
  proof (induction s)
    case Nil
    then show ?case by simp
  next
    case (Cons c s)
    show ?case
    proof (cases "starts_with n (c # s)")
      case True
      then have "c # s = [] @ n @ drop (length n) (c # s)"
        by (metis append_Nil append_take_drop_id starts_with_def)
      then show ?thesis by blast
    next
      case False
      with Cons obtain pre post where "s = pre @ n @ post" by auto
      then have "c # s = (c # pre) @ n @ post" by simp
      then show ?thesis by blast
    qed
  qed
qed (auto simp: contains_append)

section \<open>Regular expressions\<close>

text \<open>\<open>\b\<close> between the previous character and the rest of the text.\<close>

definition at_boundary :: "char option \<Rightarrow> string \<Rightarrow> bool" where
  "at_boundary prev rest =
     ((case prev of None \<Rightarrow> False | Some c \<Rightarrow> is_word c) \<noteq>
      (case rest of [] \<Rightarrow> False | c # _ \<Rightarrow> is_word c))"

text \<open>\<open>r.search(text)\<close> for a matcher of one position.\<close>

fun search :: "(char option \<Rightarrow> string \<Rightarrow> bool) \<Rightarrow> char option \<Rightarrow> string \<Rightarrow> bool" where
  "search m prev [] = m prev []"
| "search m prev (c # s) = (m prev (c # s) \<or> search m (Some c) s)"

text \<open>\<open>\b\d{6}\b\<close> matched against the whole text.\<close>

definition otp_fullmatch :: "string \<Rightarrow> bool" where
  "otp_fullmatch s = (length s = 6 \<and> list_all is_digit s)"

text \<open>\<open>\b1[3-9]\d{9}\b\<close>\<close>

definition phone_at :: "char option \<Rightarrow> string \<Rightarrow> bool" where
  "phone_at prev s =
     (at_boundary prev s \<and> 11 \<le> length s \<and> list_all is_digit (take 11 s) \<and>
      s ! 0 = CHR ''1'' \<and> 51 \<le> code (s ! 1) \<and>
      at_boundary (Some (s ! 10)) (drop 11 s))"

text \<open>\<open>\b[3-6]\d{3}(?:[ -]?\d{4}){3}\b\<close>\<close>

definition card_group :: "string \<Rightarrow> string option" where
  "card_group s =
     (let t = (case s of c # r \<Rightarrow> if c = CHR '' '' \<or> c = CHR ''-'' then r else s | [] \<Rightarrow> s)
      in if 4 \<le> length t \<and> list_all is_digit (take 4 t) then Some (drop 4 t) else None)"

definition card_at :: "char option \<Rightarrow> string \<Rightarrow> bool" where
  "card_at prev s =
     (at_boundary prev s \<and> 4 \<le> length s \<and> list_all is_digit (take 4 s) \<and>
      51 \<le> code (s ! 0) \<and> code (s ! 0) \<le> 54 \<and>
      (case card_group (drop 4 s) of None \<Rightarrow> False
       | Some s1 \<Rightarrow> (case card_group s1 of None \<Rightarrow> False
       | Some s2 \<Rightarrow> (case card_group s2 of None \<Rightarrow> False
       | Some s3 \<Rightarrow> at_boundary (Some CHR ''0'') s3))))"

section \<open>Keys and codes of requests\<close>

definition alnum :: "char \<Rightarrow> bool" where
  "alnum c = (let n = of_char c :: nat in 48 \<le> n \<and> n \<le> 57 \<or> 65 \<le> n \<and> n \<le> 90 \<or> 97 \<le> n \<and> n \<le> 122)"

definition key_char :: "char \<Rightarrow> bool" where
  "key_char c = (alnum c \<or> c \<in> set ''._:-'')"

text \<open>The pattern \<open>^[A-Za-z0-9][A-Za-z0-9._:-]*$\<close> with the length bounds.\<close>

definition key_ok :: "string \<Rightarrow> bool" where
  "key_ok k = (1 \<le> length k \<and> length k \<le> 128 \<and> alnum (hd k) \<and> list_all key_char k)"

definition upper_letters :: string where
  "upper_letters = ''ABCDEFGHIJKLMNOPQRSTUVWXYZ''"

text \<open>The pattern \<open>^[A-Z][A-Z0-9_]*$\<close> of reason and event codes, with at most 128 characters.\<close>

definition event_code_ok :: "string \<Rightarrow> bool" where
  "event_code_ok c = (1 \<le> length c \<and> length c \<le> 128 \<and> hd c \<in> set upper_letters \<and>
     set c \<subseteq> set upper_letters \<union> set ''0123456789_'')"

text \<open>
  \<open>hmac.compare_digest\<close> of two str values compares them when both are ASCII and raises otherwise.
\<close>

definition ascii_text :: "string \<Rightarrow> bool" where
  "ascii_text s = list_all (\<lambda>c. (of_char c :: nat) < 128) s"

definition compare_digest :: "string \<Rightarrow> string \<Rightarrow> bool res" where
  "compare_digest a b =
     (if ascii_text a \<and> ascii_text b then Ok (a = b)
      else Raise TypeError ''comparing strings with non-ASCII characters is not supported'')"

lemma compare_digest_ok: "compare_digest a b = Ok r \<longleftrightarrow> ascii_text a \<and> ascii_text b \<and> r = (a = b)"
  by (auto simp: compare_digest_def)

end
