(* ===== verification/Classification.thy ===== *)
theory Classification
  imports Strings Hashing
begin

text \<open>
  \<open>enterprise/governance/classification.py\<close> and the redaction and fingerprint
  functions of \<open>enterprise/governance/audit.py\<close>.
\<close>

section \<open>Classification\<close>

datatype data_classification =
  Class_PUBLIC | Class_INTERNAL | Class_PII | Class_FINANCIAL | Class_CREDENTIAL | Class_OTP | Class_RESTRICTED

record model_egress_policy =
  mep_model_id :: string
  mep_region :: string
  mep_allowed_classifications :: "data_classification set"

definition policy_allows :: "model_egress_policy \<Rightarrow> data_classification \<Rightarrow> bool" where
  "policy_allows p c = (c \<in> mep_allowed_classifications p)"

definition credential_words :: "string list" where
  "credential_words = [''password'', ''passwd'', ''pwd'', ''secret'', ''token'']"

text \<open>The English field-name words, and the Chinese ones as UTF-8 bytes.\<close>

definition financial_words :: "string list" where
  "financial_words =
     [''account'', ''amount'', ''beneficiary'', ''card'',
      map char_of [0xE9::nat, 0x87, 0x91, 0xE9, 0xA2, 0x9D],
      map char_of [0xE5::nat, 0xB8, 0x81, 0xE7, 0xA7, 0x8D],
      map char_of [0xE6::nat, 0x94, 0xB6, 0xE6, 0xAC, 0xBE],
      map char_of [0xE6::nat, 0x94, 0xB6, 0xE6, 0xAC, 0xBE, 0xE6, 0x96, 0xB9],
      map char_of [0xE8::nat, 0xB4, 0xA6, 0xE6, 0x88, 0xB7],
      map char_of [0xE8::nat, 0xB4, 0xA6, 0xE5, 0x8F, 0xB7],
      map char_of [0xE9::nat, 0x93, 0xB6, 0xE8, 0xA1, 0x8C, 0xE5, 0x8D, 0xA1],
      map char_of [0xE5::nat, 0x8F, 0x97, 0xE7, 0x9B, 0x8A, 0xE4, 0xBA, 0xBA],
      map char_of [0xE5::nat, 0xAF, 0xB9, 0xE8, 0xB1, 0xA1, 0xE7, 0x89, 0x88, 0xE6, 0x9C, 0xAC]]"

definition classify_value :: "string \<Rightarrow> string option \<Rightarrow> data_classification" where
  "classify_value field_name value =
     (let name = lower field_name; t = (case value of None \<Rightarrow> [] | Some v \<Rightarrow> v)
      in if list_ex (\<lambda>w. contains w name) credential_words then Class_CREDENTIAL
         else if otp_fullmatch t then Class_OTP
         else if search phone_at None t then Class_PII
         else if search card_at None t then Class_FINANCIAL
         else if list_ex (\<lambda>w. contains w name) financial_words then Class_FINANCIAL
         else Class_INTERNAL)"

definition redact_for_egress :: "string \<Rightarrow> data_classification \<Rightarrow> string" where
  "redact_for_egress value c =
     (if c \<in> {Class_CREDENTIAL, Class_OTP} then ''[REDACTED_SECRET]''
      else if c = Class_PII then ''[REDACTED_PII]''
      else if c \<in> {Class_FINANCIAL, Class_RESTRICTED} then ''[REDACTED_FINANCIAL]''
      else value)"

section \<open>Fingerprints\<close>

definition hmac_fingerprint :: "string \<Rightarrow> string \<Rightarrow> string res" where
  "hmac_fingerprint value secret =
     (if secret = [] then Raise ValueError ''HMAC secret must not be empty''
      else Ok (hmac_sha256 secret value))"

fun normalize_for_json :: "json \<Rightarrow> json" where
  "normalize_for_json (JObj kvs) = JObj (map (\<lambda>(k, v). (k, normalize_for_json v)) kvs)"
| "normalize_for_json (JArr vs) = JArr (map normalize_for_json vs)"
| "normalize_for_json JNull = JNull"
| "normalize_for_json (JBool b) = JBool b"
| "normalize_for_json (JInt i) = JInt i"
| "normalize_for_json (JFloat r) = JFloat r"
| "normalize_for_json (JStr s) = JStr s"
| "normalize_for_json (JTime t) = JTime t"

definition action_binding :: "string \<Rightarrow> string \<Rightarrow> jobject \<Rightarrow> string \<Rightarrow> json" where
  "action_binding task_id step_id action_payload observation_hash =
     JObj [(''schema'', JStr ''phase2-action-fingerprint-v1''),
           (''task_id'', JStr task_id), (''step_id'', JStr step_id),
           (''observation_hash'', JStr observation_hash),
           (''action'', normalize_for_json (JObj action_payload))]"

definition action_fingerprint :: "string \<Rightarrow> string \<Rightarrow> jobject \<Rightarrow> string \<Rightarrow> string \<Rightarrow> string res" where
  "action_fingerprint task_id step_id action_payload observation_hash secret =
     hmac_fingerprint
       (dumps False (action_binding task_id step_id action_payload observation_hash)) secret"

text \<open>A payload that already came out of \<open>model_dump(mode="json")\<close> is its own normal form.\<close>

lemma normalize_for_json_id: "normalize_for_json v = v"
proof (induction v rule: normalize_for_json.induct)
  case (1 kvs)
  then show ?case by (auto intro!: map_idI)
next
  case (2 vs)
  then show ?case by (auto intro!: map_idI)
qed simp_all

section \<open>Redaction before persistence\<close>

definition observation_hash :: "string \<Rightarrow> string \<Rightarrow> string option \<Rightarrow> string" where
  "observation_hash url html secret =
     (let payload = url @ [CHR 0x0A] @ html
      in if truthy secret then hmac_sha256 (the secret) payload else sha256 payload)"

fun redact_mapping :: "json \<Rightarrow> string \<Rightarrow> json" where
  "redact_mapping (JObj kvs) field_name = JObj (map (\<lambda>(k, v). (k, redact_mapping v k)) kvs)"
| "redact_mapping (JArr vs) field_name = JArr (map (\<lambda>v. redact_mapping v field_name) vs)"
| "redact_mapping (JStr s) field_name =
     (let classification = classify_value field_name (Some s)
      in if classification \<notin> {Class_PUBLIC, Class_INTERNAL}
         then JStr (redact_for_egress s classification) else JStr s)"
| "redact_mapping JNull field_name = JNull"
| "redact_mapping (JBool b) field_name = JBool b"
| "redact_mapping (JInt i) field_name = JInt i"
| "redact_mapping (JFloat r) field_name = JFloat r"
| "redact_mapping (JTime t) field_name = JTime t"

text \<open>\<open>redacted_action_payload\<close> on the JSON dump of the action.\<close>

definition redacted_action_payload :: "jobject \<Rightarrow> json" where
  "redacted_action_payload raw = redact_mapping (JObj raw) []"

definition element_evidence_fingerprint ::
  "string \<Rightarrow> string option \<Rightarrow> string option \<Rightarrow> jobject option \<Rightarrow> string \<Rightarrow> string option res" where
  "element_evidence_fingerprint obs_hash element_id runtime_fingerprint element secret =
     (if runtime_fingerprint = None \<and> element = None then Ok None
      else (let base = [(''schema'', JStr ''phase2-element-evidence-ref-v1''),
                        (''observation_hash'', JStr obs_hash),
                        (''element_id'', jstr_opt element_id)];
                material = (case runtime_fingerprint of
                    Some f \<Rightarrow> base @ [(''runtime_fingerprint'', JStr f)]
                  | None \<Rightarrow> base @ [(''redacted_element'',
                       (case element of None \<Rightarrow> JNull | Some e \<Rightarrow> redact_mapping (JObj e) []))])
            in res_bind (hmac_fingerprint (dumps False (JObj material)) secret) (\<lambda>f. Ok (Some f))))"

section \<open>What redaction hides\<close>

text \<open>
  Two documents an observer of redacted output may not tell apart: the same
  shape, equal leaves, except that a string leaf may differ where both values
  fall into the same class and that class is not public or internal.
\<close>

definition sensitive :: "data_classification \<Rightarrow> bool" where
  "sensitive c = (c \<notin> {Class_PUBLIC, Class_INTERNAL})"

inductive same_public_part :: "string \<Rightarrow> json \<Rightarrow> json \<Rightarrow> bool" where
  same: "same_public_part f v v"
| hidden: "classify_value f (Some a) = classify_value f (Some b) \<Longrightarrow>
           sensitive (classify_value f (Some a)) \<Longrightarrow> same_public_part f (JStr a) (JStr b)"
| arr: "list_all2 (same_public_part f) vs ws \<Longrightarrow> same_public_part f (JArr vs) (JArr ws)"
| obj: "map fst kvs = map fst lws \<Longrightarrow>
        list_all2 (\<lambda>a b. same_public_part (fst a) (snd a) (snd b)) kvs lws \<Longrightarrow>
        same_public_part f (JObj kvs) (JObj lws)"

lemma sensitive_redaction_constant:
  "sensitive c \<Longrightarrow> redact_for_egress a c = redact_for_egress b c"
  by (cases c) (simp_all add: sensitive_def redact_for_egress_def)

text \<open>Redacted documents depend on the public part only.\<close>

lemma redaction_hides:
  "same_public_part f v w \<Longrightarrow> redact_mapping v f = redact_mapping w f"
proof (induction rule: same_public_part.induct)
  case (hidden f a b)
  then show ?case
    by (auto simp: Let_def sensitive_def intro: sensitive_redaction_constant)
next
  case (arr f vs ws)
  then have "map (\<lambda>v. redact_mapping v f) vs = map (\<lambda>v. redact_mapping v f) ws"
    by (induction rule: list_all2_induct) simp_all
  then show ?case by simp
next
  case (obj kvs lws f)
  from obj(2,1)
  have "map (\<lambda>(k, v). (k, redact_mapping v k)) kvs = map (\<lambda>(k, v). (k, redact_mapping v k)) lws"
    by (induction rule: list_all2_induct) (auto simp: split_beta)
  then show ?case by simp
qed simp

lemma classify_never_public:
  "classify_value f v \<noteq> Class_PUBLIC \<and> classify_value f v \<noteq> Class_RESTRICTED"
  by (simp add: classify_value_def Let_def)

section \<open>Properties\<close>



end
