(* ===== verification/Analysis.thy ===== *)
theory Analysis
  imports Contracts Classification
begin

text \<open>
  \<open>enterprise/governance/analysis.py\<close>, \<open>governor.py\<close> and \<open>execution_guard.py\<close>:
  from a typed browser action to its intent, the policy decision on it, the plan
  for all actions proposed from one page, and the integrity check at the
  execution boundary. An action is the JSON object its \<open>model_dump\<close> yields;
  generated identifiers and the clock are arguments. A float literal is the
  exact value of the double it denotes.
\<close>

section \<open>Constants\<close>

definition float_0_6 :: rat where
  "float_0_6 = 5404319552844595 / 9007199254740992"

definition float_0_7 :: rat where
  "float_0_7 = 6305039478318694 / 9007199254740992"

definition float_0_45 :: rat where
  "float_0_45 = 8106479329266893 / 18014398509481984"

definition CRITICAL_WORDS :: "string list" where
  "CRITICAL_WORDS = [''transfer'', ''payment'', ''wire'', ''delete'']"

definition READ_WORDS :: "string list" where
  "READ_WORDS = [''download'', ''export'', ''extract'', ''read'', ''search'', ''navigate'', ''query'']"

definition SENSITIVE_DOWNLOAD_WORDS :: "string list" where
  "SENSITIVE_DOWNLOAD_WORDS = [''customer'', ''statement'', ''account'', ''transaction'', ''beneficiary'']"

definition MIN_READINESS_CONFIDENCE :: rat where
  "MIN_READINESS_CONFIDENCE = float_0_6"

definition SUPPORTED_TYPED_ACTION_TYPES :: "string list" where
  "SUPPORTED_TYPED_ACTION_TYPES =
     [''checkbox'', ''click'', ''close_page'', ''complete'', ''download_file'', ''drag'', ''extract'',
      ''goto_url'', ''hover'', ''input_text'', ''keypress'', ''left_mouse'', ''move'', ''null_action'',
      ''reload_page'', ''scroll'', ''select_option'', ''solve_captcha'', ''terminate'', ''upload_file'',
      ''verification_code'', ''wait'']"

section \<open>Reading a scraped element\<close>

text \<open>\<open>str(v)\<close>; a container or float, which no scraped attribute is, prints as its JSON text.\<close>

definition py_str :: "json \<Rightarrow> string" where
  "py_str v = (case v of JStr s \<Rightarrow> s | JNull \<Rightarrow> ''None''
     | JBool b \<Rightarrow> (if b then ''True'' else ''False'') | JInt i \<Rightarrow> show_int i | _ \<Rightarrow> dumps True v)"

definition json_truthy :: "json \<Rightarrow> bool" where
  "json_truthy v = (case v of JNull \<Rightarrow> False | JBool b \<Rightarrow> b | JInt i \<Rightarrow> i \<noteq> 0 | JFloat r \<Rightarrow> r \<noteq> 0
     | JStr s \<Rightarrow> s \<noteq> [] | JTime t \<Rightarrow> True | JArr vs \<Rightarrow> vs \<noteq> [] | JObj kvs \<Rightarrow> kvs \<noteq> [])"

text \<open>\<open>element.get("attributes") or {}\<close>; the scraper writes an object there.\<close>

definition element_attributes :: "jobject \<Rightarrow> jobject" where
  "element_attributes e = (case get_value e ''attributes'' of JObj kvs \<Rightarrow> kvs | _ \<Rightarrow> [])"

definition element_text :: "jobject option \<Rightarrow> string" where
  "element_text element =
     (case element of None \<Rightarrow> [] | Some e \<Rightarrow>
        if e = [] then []
        else (let attributes = element_attributes e
              in join_with '' '' (map py_str (filter json_truthy
                   [get_value e ''text'', get_value attributes ''aria-label'',
                    get_value attributes ''title'', get_value attributes ''value'']))))"

definition element_facts :: "jobject option \<Rightarrow> jobject" where
  "element_facts element =
     (case element of None \<Rightarrow> [] | Some e \<Rightarrow>
        if e = [] then []
        else fold (\<lambda>(key, value) facts.
               (let normalized_key = lower key
                in if \<not> starts_with ''data-'' normalized_key then facts
                   else (let field_name = replace_char CHR ''-'' CHR ''_''
                               (removeprefix ''data-'' normalized_key)
                         in if starts_with ''governance_'' field_name then facts
                            else AList.update field_name value facts)))
             (element_attributes e) [])"

section \<open>Operation, effect and sensitivity\<close>

definition mentions :: "string list \<Rightarrow> string \<Rightarrow> bool" where
  "mentions words s = list_ex (\<lambda>w. contains w s) words"

definition normalize_typed_action_type :: "json \<Rightarrow> string" where
  "normalize_typed_action_type value =
     (let normalized = lower (strip (if json_truthy value then py_str value else []))
      in if normalized \<in> set SUPPORTED_TYPED_ACTION_TYPES then normalized else ''unknown'')"

definition operation_of :: "string \<Rightarrow> string \<Rightarrow> string" where
  "operation_of action_type target_text =
     (let combined = action_type @ '' '' @ target_text
      in if contains ''approve'' combined then ''approve''
         else if mentions CRITICAL_WORDS combined
         then (if mentions [''transfer'', ''payment'', ''wire'', ''pay''] combined
               then ''payment'' else ''delete'')
         else if contains ''submit'' combined \<or> contains ''confirm'' combined then ''submit''
         else if mentions READ_WORDS combined
         then (if mentions [''download'', ''export''] combined then ''download'' else ''read'')
         else action_type)"

definition effect_of_operation :: "string \<Rightarrow> execution_effect" where
  "effect_of_operation operation =
     (if operation \<in> {''payment'', ''delete''} then EXTERNAL_WRITE
      else if operation \<in> {''approve'', ''submit'', ''input_text'', ''click'', ''select_option''}
      then INTERNAL_WRITE
      else if operation \<in> {''download'', ''read'', ''navigate'', ''extract''} then READ
      else NONE)"

definition sensitive_data_types :: "string \<Rightarrow> string \<Rightarrow> string set" where
  "sensitive_data_types operation target_text =
     (if operation = ''download'' \<and> mentions SENSITIVE_DOWNLOAD_WORDS (lower target_text)
      then {''financial''}
      else if contains ''password'' (lower target_text) then {''credential''} else {})"

section \<open>Observation, intent and decision\<close>

definition build_observation ::
  "string \<Rightarrow> time \<Rightarrow> string \<Rightarrow> string \<Rightarrow> string \<Rightarrow> string \<Rightarrow> page_readiness \<Rightarrow> rat option \<Rightarrow>
   string option \<Rightarrow> observation_context res" where
  "build_observation new_id now task_id step_id url html readiness readiness_confidence snapshot =
     (let hash = (if truthy snapshot then the snapshot else sha256 (url @ [CHR 0x0A] @ html));
          confidence = (case readiness_confidence of Some c \<Rightarrow> c
                        | None \<Rightarrow> if readiness = READY then 1 else 0)
      in if confidence < 0 \<or> 1 < confidence then Raise ValueError ''readiness_confidence''
         else Ok \<lparr>oc_observation_id = ''obs_'' @ new_id, oc_task_id = task_id, oc_step_id = step_id,
           oc_page_url = url, oc_snapshot_hash = hash, oc_page_title = None,
           oc_screenshot_artifact_id = None, oc_page_type = None, oc_semantic_summary = [],
           oc_readiness = readiness, oc_readiness_confidence = confidence, oc_dom_signals = [],
           oc_visual_signals = [], oc_target_evidence = [], oc_captured_at = now\<rparr>)"

definition analyze_action ::
  "string \<Rightarrow> string \<Rightarrow> string \<Rightarrow> jobject \<Rightarrow> observation_context \<Rightarrow> jobject option \<Rightarrow> string \<Rightarrow>
   action_intent res" where
  "analyze_action new_id task_id step_id payload observation element hmac_secret =
     (let action_type = normalize_typed_action_type (get_value payload ''action_type'');
          txt = lower (element_text element);
          operation = operation_of action_type txt
      in res_bind (action_fingerprint task_id step_id payload (oc_snapshot_hash observation) hmac_secret)
         (\<lambda>fingerprint. Ok
           \<lparr>ai_intent_id = ''intent_'' @ new_id, ai_task_id = task_id, ai_step_id = step_id,
            ai_action_fingerprint = fingerprint, ai_observation_id = oc_observation_id observation,
            ai_operation = operation, ai_effect = effect_of_operation operation,
            ai_target = [(''element_id'', get_value payload ''element_id''),
                         (''text'', JStr (element_text element))],
            ai_sensitive_data_types = sensitive_data_types operation txt,
            ai_extracted_facts = element_facts element,
            ai_confidence = (case element of None \<Rightarrow> float_0_45
                             | Some e \<Rightarrow> if e = [] then float_0_45 else float_0_7),
            ai_evidence = [''action_type='' @ action_type,
                           ''target_text='' @ take 120 (element_text element)],
            ai_expected_outcome = [(''page_url'', JStr (oc_page_url observation))]\<rparr>))"

definition policy_verdict ::
  "action_intent \<Rightarrow> observation_context option \<Rightarrow> task_contract option \<Rightarrow> time \<Rightarrow>
   decision_outcome \<times> risk_level \<times> string list" where
  "policy_verdict intent observation contract now =
     (if \<exists>c \<in> set_option contract. \<exists>t \<in> set_option (tc_expires_at c). t \<le> now
      then (DENY, Risk_high, [''Task contract has expired''])
      else if \<exists>c \<in> set_option contract. tc_allowed_operations c \<noteq> {} \<and>
                ai_operation intent \<notin> tc_allowed_operations c
      then (DENY, Risk_high,
            [''Operation '' @ ai_operation intent @ '' is outside the task contract''])
      else if \<exists>ob \<in> set_option observation. oc_readiness ob \<in> {LOADING, TRANSITIONING, BLOCKED}
      then (NEEDS_HUMAN, Risk_unknown,
            [''Page readiness is '' @ readiness_value (oc_readiness (the observation))])
      else if \<exists>ob \<in> set_option observation. oc_readiness ob = Readiness_UNKNOWN
      then (NEEDS_HUMAN, Risk_unknown, [''Page readiness is unknown''])
      else if \<exists>ob \<in> set_option observation. oc_readiness_confidence ob < MIN_READINESS_CONFIDENCE
      then (NEEDS_HUMAN, Risk_unknown,
            [''Page readiness confidence is below the governed minimum of 0.60''])
      else if ai_effect intent = EXTERNAL_WRITE \<and> ai_confidence intent < float_0_6
      then (NEEDS_HUMAN, Risk_unknown,
            [''External state change has insufficient grounded target evidence''])
      else if ai_operation intent \<in> {''payment'', ''approve'', ''delete''}
      then (REQUIRE_APPROVAL,
            (if ai_operation intent \<in> {''payment'', ''delete''} then Risk_critical else Risk_high),
            [''High-impact operation classified as '' @ ai_operation intent])
      else if ai_operation intent = ''submit''
      then (REQUIRE_APPROVAL, Risk_high, [''Submit operation may cross a business commit boundary''])
      else if ai_operation intent = ''download'' \<and> ''financial'' \<in> ai_sensitive_data_types intent
      then (REQUIRE_APPROVAL, Risk_high,
            [''Download target appears to contain financial customer data''])
      else (ALLOW, Risk_low, [''Audit-only baseline rule'']))"

definition evaluate_audit_policy ::
  "string \<Rightarrow> action_intent \<Rightarrow> observation_context option \<Rightarrow> task_contract option \<Rightarrow> string \<Rightarrow>
   time \<Rightarrow> policy_decision" where
  "evaluate_audit_policy new_id intent observation contract policy_version now =
     (case policy_verdict intent observation contract now of (outcome, risk, reasons) \<Rightarrow>
        \<lparr>pd_decision_id = ''decision_'' @ new_id, pd_intent_id = ai_intent_id intent,
         pd_outcome = outcome, pd_risk_level = risk, pd_reasons = reasons,
         pd_matched_rules = [''audit:'' @ ai_operation intent @ '':'' @ effect_value (ai_effect intent)],
         pd_required_approver = None, pd_policy_version = policy_version\<rparr>)"

section \<open>The plan for one observation\<close>

record governed_candidate =
  gc_action_index :: nat
  gc_intent :: action_intent
  gc_decision :: policy_decision

record batch_plan =
  bp_observation :: observation_context
  bp_candidates :: "governed_candidate list"

definition external_write_candidates :: "batch_plan \<Rightarrow> governed_candidate list" where
  "external_write_candidates p =
     filter (\<lambda>c. ai_effect (gc_intent c) = EXTERNAL_WRITE) (bp_candidates p)"

definition require_single_external_write :: "batch_plan \<Rightarrow> unit res" where
  "require_single_external_write p =
     (let external_writes = external_write_candidates p
      in if length external_writes > 1
         then Raise GovernanceBatchError
           (''A single observation cannot authorize multiple external writes; re-observe before candidates ['' @
            join_with '', '' (map (\<lambda>c. show_nat (gc_action_index c)) external_writes) @ '']'')
         else Ok ())"

text \<open>\<open>(element_lookup or {}).get(str(action.element_id))\<close>\<close>

definition looked_up_element :: "(string \<times> jobject) list \<Rightarrow> jobject \<Rightarrow> jobject option" where
  "looked_up_element element_lookup payload =
     (case get_value payload ''element_id'' of JNull \<Rightarrow> None
      | v \<Rightarrow> map_of element_lookup (py_str v))"

definition plan_candidate ::
  "(nat \<Rightarrow> string) \<Rightarrow> (nat \<Rightarrow> string) \<Rightarrow> (nat \<Rightarrow> time) \<Rightarrow> string \<Rightarrow> string \<Rightarrow> observation_context \<Rightarrow>
   (string \<times> jobject) list \<Rightarrow> string \<Rightarrow> task_contract option \<Rightarrow> time option \<Rightarrow>
   nat \<times> jobject \<Rightarrow> governed_candidate res" where
  "plan_candidate intent_ids decision_ids clock task_id step_id observation element_lookup
       hmac_secret contract now ia =
     (case ia of (action_index, action) \<Rightarrow>
        res_bind (analyze_action (intent_ids action_index) task_id step_id action observation
                    (looked_up_element element_lookup action) hmac_secret)
          (\<lambda>intent. Ok
             \<lparr>gc_action_index = action_index, gc_intent = intent,
              gc_decision = evaluate_audit_policy (decision_ids action_index) intent
                (Some observation) contract ''phase2-v1''
                (case now of Some t \<Rightarrow> t | None \<Rightarrow> clock action_index)\<rparr>))"

definition build_governance_batch_plan ::
  "string \<Rightarrow> (nat \<Rightarrow> string) \<Rightarrow> (nat \<Rightarrow> string) \<Rightarrow> time \<Rightarrow> (nat \<Rightarrow> time) \<Rightarrow> string \<Rightarrow> string \<Rightarrow>
   jobject list \<Rightarrow> string \<Rightarrow> string \<Rightarrow> (string \<times> jobject) list \<Rightarrow> string option \<Rightarrow>
   page_readiness \<Rightarrow> rat \<Rightarrow> task_contract option \<Rightarrow> time option \<Rightarrow> batch_plan res" where
  "build_governance_batch_plan obs_id intent_ids decision_ids captured clock task_id step_id actions
       page_url page_html element_lookup hmac_secret readiness readiness_confidence contract now =
     (if \<not> truthy hmac_secret
      then Raise GovernanceBatchError ''Governance planning requires GOVERNANCE_AUDIT_HMAC_SECRET''
      else res_bind (build_observation obs_id captured task_id step_id page_url page_html readiness
                       (Some readiness_confidence)
                       (Some (observation_hash page_url page_html hmac_secret)))
        (\<lambda>observation.
           res_bind (map_res (plan_candidate intent_ids decision_ids clock task_id step_id observation
                                element_lookup (the hmac_secret) contract now)
                       (List.enumerate 0 actions))
             (\<lambda>candidates.
                (let plan = \<lparr>bp_observation = observation, bp_candidates = candidates\<rparr>
                 in res_bind (require_single_external_write plan) (\<lambda>_. Ok plan)))))"

section \<open>The execution boundary\<close>

definition verify_execution_authorization ::
  "execution_authorization \<Rightarrow> string \<Rightarrow> string \<Rightarrow> jobject \<Rightarrow> string \<Rightarrow> string \<Rightarrow> string option \<Rightarrow>
   unit res" where
  "verify_execution_authorization authorization task_id step_id payload page_url page_html hmac_secret =
     (if \<not> truthy hmac_secret
      then Raise ExecutionAuthorizationError
             ''Governed execution requires GOVERNANCE_AUDIT_HMAC_SECRET''
      else if ea_idempotency_key authorization = []
      then Raise ExecutionAuthorizationError ''Governed execution requires an idempotency key''
      else (let current_observation_hash = observation_hash page_url page_html hmac_secret
            in res_bind (action_fingerprint task_id step_id payload current_observation_hash
                           (the hmac_secret))
               (\<lambda>current_action_fingerprint.
                  checks
                    [(ea_observation_hash authorization \<noteq> current_observation_hash,
                      Exc ExecutionAuthorizationError
                        ''Execution authorization does not match the current page observation''),
                     (ea_action_fingerprint authorization \<noteq> current_action_fingerprint,
                      Exc ExecutionAuthorizationError
                        ''Execution authorization does not match the current action'')]
                    (Ok ()))))"

section \<open>Laws\<close>

lemma action_fingerprint_ok:
  "secret \<noteq> [] \<Longrightarrow> action_fingerprint t st p oh secret =
     Ok (hmac_sha256 secret (dumps False (action_binding t st p oh)))"
  by (simp add: action_fingerprint_def hmac_fingerprint_def)

text \<open>The fields of an analysed intent that decisions and permits depend on.\<close>

lemma analyze_action_ok:
  assumes "analyze_action i t st p ob el secret = Ok intent"
  shows "action_fingerprint t st p (oc_snapshot_hash ob) secret = Ok (ai_action_fingerprint intent)"
    and "ai_effect intent = effect_of_operation (ai_operation intent)"
    and "ai_observation_id intent = oc_observation_id ob"
    and "ai_task_id intent = t" and "ai_step_id intent = st"
  using assms by (auto simp: analyze_action_def Let_def res_bind_ok)

lemma effect_of_operation_external:
  "effect_of_operation op = EXTERNAL_WRITE \<longleftrightarrow> op = ''payment'' \<or> op = ''delete''"
  by (simp add: effect_of_operation_def)

text \<open>What an ALLOW of the deterministic policy implies.\<close>

lemma policy_allow:
  assumes "pd_outcome (evaluate_audit_policy i intent observation contract v now) = ALLOW"
  shows "ai_operation intent \<notin> {''payment'', ''approve'', ''delete'', ''submit''}"
    and "\<forall>ob. observation = Some ob \<longrightarrow> oc_readiness ob = READY \<and>
           MIN_READINESS_CONFIDENCE \<le> oc_readiness_confidence ob"
    and "\<forall>c. contract = Some c \<longrightarrow> (\<forall>t. tc_expires_at c = Some t \<longrightarrow> now < t) \<and>
           (tc_allowed_operations c = {} \<or> ai_operation intent \<in> tc_allowed_operations c)"
    and "\<not> (ai_operation intent = ''download'' \<and> ''financial'' \<in> ai_sensitive_data_types intent)"
proof -
  from assms have *: "fst (policy_verdict intent observation contract now) = ALLOW"
    by (simp add: evaluate_audit_policy_def split: prod.splits)
  note v = * [unfolded policy_verdict_def]
  from v show "ai_operation intent \<notin> {''payment'', ''approve'', ''delete'', ''submit''}"
    by (simp split: if_splits)
  show "\<forall>ob. observation = Some ob \<longrightarrow> oc_readiness ob = READY \<and>
      MIN_READINESS_CONFIDENCE \<le> oc_readiness_confidence ob"
  proof (intro allI impI)
    fix ob assume "observation = Some ob"
    with v have "oc_readiness ob \<notin> {LOADING, TRANSITIONING, BLOCKED}"
      "oc_readiness ob \<noteq> Readiness_UNKNOWN"
      "MIN_READINESS_CONFIDENCE \<le> oc_readiness_confidence ob"
      by (simp_all split: if_splits)
    then show "oc_readiness ob = READY \<and> MIN_READINESS_CONFIDENCE \<le> oc_readiness_confidence ob"
      by (cases "oc_readiness ob") simp_all
  qed
  show "\<forall>c. contract = Some c \<longrightarrow> (\<forall>t. tc_expires_at c = Some t \<longrightarrow> now < t) \<and>
      (tc_allowed_operations c = {} \<or> ai_operation intent \<in> tc_allowed_operations c)"
    using v by (auto split: if_splits)
  show "\<not> (ai_operation intent = ''download'' \<and> ''financial'' \<in> ai_sensitive_data_types intent)"
    using v by (simp split: if_splits)
qed

lemma plan_candidate_ok:
  assumes "plan_candidate ii di clk t st ob el secret c now (k, a) = Ok cand"
  shows "gc_action_index cand = k"
    and "\<exists>i. analyze_action i t st a ob (looked_up_element el a) secret = Ok (gc_intent cand)"
    and "gc_decision cand = evaluate_audit_policy (di k) (gc_intent cand) (Some ob) c ''phase2-v1''
           (case now of Some n \<Rightarrow> n | None \<Rightarrow> clk k)"
  using assms by (auto simp: plan_candidate_def res_bind_ok)

lemma build_plan_ok:
  assumes "build_governance_batch_plan oi ii di cap clk t st actions url html el secret rd rc c now
             = Ok plan"
  shows "truthy secret"
    and "oc_snapshot_hash (bp_observation plan) = observation_hash url html secret"
    and "list_all2 (\<lambda>ka cand. plan_candidate ii di clk t st (bp_observation plan) el (the secret) c now ka
            = Ok cand) (List.enumerate 0 actions) (bp_candidates plan)"
    and "length (external_write_candidates plan) \<le> 1"
    and "oc_task_id (bp_observation plan) = t" and "oc_step_id (bp_observation plan) = st"
proof -
  from assms show sec: "truthy secret"
    by (auto simp: build_governance_batch_plan_def split: if_splits)
  from assms sec obtain ob cands where
    ob: "build_observation oi cap t st url html rd (Some rc)
           (Some (observation_hash url html secret)) = Ok ob"
    and cs: "map_res (plan_candidate ii di clk t st ob el (the secret) c now)
           (List.enumerate 0 actions) = Ok cands"
    and one: "require_single_external_write \<lparr>bp_observation = ob, bp_candidates = cands\<rparr> = Ok ()"
    and plan: "plan = \<lparr>bp_observation = ob, bp_candidates = cands\<rparr>"
    by (auto simp: build_governance_batch_plan_def res_bind_ok Let_def)
  have "observation_hash url html secret \<noteq> []"
    by (simp add: observation_hash_def Let_def sha256_nonempty hmac_nonempty)
  with ob plan show "oc_snapshot_hash (bp_observation plan) = observation_hash url html secret"
    and "oc_task_id (bp_observation plan) = t" and "oc_step_id (bp_observation plan) = st"
    by (auto simp: build_observation_def Let_def split: if_splits)
  from cs plan show "list_all2 (\<lambda>ka cand. plan_candidate ii di clk t st (bp_observation plan) el
      (the secret) c now ka = Ok cand) (List.enumerate 0 actions) (bp_candidates plan)"
    by (simp add: map_res_ok)
  from one plan show "length (external_write_candidates plan) \<le> 1"
    by (auto simp: require_single_external_write_def Let_def split: if_splits)
qed

text \<open>Every candidate of a plan comes from the action at its index.\<close>

lemma build_plan_candidate:
  assumes "build_governance_batch_plan oi ii di cap clk t st actions url html el secret rd rc c now
             = Ok plan" and "k < length actions"
  shows "k < length (bp_candidates plan)"
    and "plan_candidate ii di clk t st (bp_observation plan) el (the secret) c now (k, actions ! k)
           = Ok (bp_candidates plan ! k)"
proof -
  from build_plan_ok(3) [OF assms(1)]
  have len: "length actions = length (bp_candidates plan)"
    by (metis length_enumerate list_all2_lengthD)
  with assms(2) show "k < length (bp_candidates plan)" by simp
  have "List.enumerate 0 actions ! k = (k, actions ! k)"
    using assms(2) by (simp add: nth_enumerate_eq)
  with list_all2_nthD [OF build_plan_ok(3) [OF assms(1)], of k] assms(2)
  show "plan_candidate ii di clk t st (bp_observation plan) el (the secret) c now (k, actions ! k)
      = Ok (bp_candidates plan ! k)" by simp
qed

lemma build_plan_length:
  assumes "build_governance_batch_plan oi ii di cap clk t st actions url html el secret rd rc c now
             = Ok plan"
  shows "length (bp_candidates plan) = length actions"
  using build_plan_ok(3) [OF assms] by (metis length_enumerate list_all2_lengthD)

lemma verify_execution_authorization_ok:
  "verify_execution_authorization a t st p url html secret = Ok () \<longleftrightarrow>
     truthy secret \<and> ea_idempotency_key a \<noteq> [] \<and>
     ea_observation_hash a = observation_hash url html secret \<and>
     ea_action_fingerprint a =
       hmac_sha256 (the secret) (dumps False (action_binding t st p (observation_hash url html secret)))"
  by (cases secret)
     (auto simp: verify_execution_authorization_def Let_def res_bind_ok checks_ok action_fingerprint_ok)

text \<open>
  The word "pay" is tested only after a critical word matched: a button labelled
  "Pay now" is classified as a plain click.
\<close>

lemma pay_label_is_a_click: "operation_of ''click'' ''pay now'' = ''click''"
  by code_simp

section \<open>Properties\<close>


text \<open>
  C20. The fingerprints a plan computes for an action are the
  ones the execution boundary derives again: an authorization built from the candidate passes
  for the same action on the same page, and any page and action it passes for has the same
  observation digest and the same keyed action digest.
\<close>

theorem planned_action_passes_boundary:
  assumes plan: "build_governance_batch_plan obs_id intent_ids decision_ids captured clock t st
             actions url html lookup secret readiness confidence contract now = Ok plan"
    and k: "k < length actions"
    and auth: "ea_observation_hash auth = oc_snapshot_hash (bp_observation plan)"
      "ea_action_fingerprint auth = ai_action_fingerprint (gc_intent (bp_candidates plan ! k))"
      "ea_idempotency_key auth \<noteq> []"
  shows "verify_execution_authorization auth t st (actions ! k) url html secret = Ok () \<and>
         (\<forall>t' st' action' url' html'.
            verify_execution_authorization auth t' st' action' url' html' secret = Ok () \<longrightarrow>
              observation_hash url' html' secret = observation_hash url html secret \<and>
              action_fingerprint t' st' action' (observation_hash url html secret) (the secret) =
              action_fingerprint t st (actions ! k) (observation_hash url html secret) (the secret))"
proof -
  note cand = plan_candidate_ok [OF build_plan_candidate(2) [OF plan k]]
  have sec: "the secret \<noteq> []" using build_plan_ok(1) [OF plan] by (cases secret) simp_all
  from cand(2) obtain i where an: "analyze_action i t st (actions ! k) (bp_observation plan)
      (looked_up_element lookup (actions ! k)) (the secret)
      = Ok (gc_intent (bp_candidates plan ! k))" by blast
  from analyze_action_ok(1) [OF an] sec have fp:
    "ai_action_fingerprint (gc_intent (bp_candidates plan ! k)) = hmac_sha256 (the secret)
       (dumps False (action_binding t st (actions ! k) (observation_hash url html secret)))"
    by (simp add: action_fingerprint_ok build_plan_ok(2) [OF plan])
  show ?thesis
    using build_plan_ok(1,2) [OF plan] auth fp sec
    by (auto simp: verify_execution_authorization_ok action_fingerprint_ok)
qed

text \<open>A concrete plan: one click on a ready page.\<close>

definition sample_actions :: "jobject list" where
  "sample_actions = [[(''action_type'', JStr ''click''), (''element_id'', JStr ''AAA'')]]"

definition sample_plan :: "batch_plan res" where
  "sample_plan =
     build_governance_batch_plan ''o'' show_nat show_nat 0 (\<lambda>_. 0) ''task'' ''step'' sample_actions
       ''http://bank'' ''<html>'' [(''AAA'', [(''text'', JStr ''Next'')])] (Some ''key'') READY 1 None None"

lemma sample_plan_ok: "\<exists>plan. sample_plan = Ok plan"
  by (simp add: sample_plan_def sample_actions_def build_governance_batch_plan_def build_observation_def
        plan_candidate_def analyze_action_def action_fingerprint_ok Let_def
        require_single_external_write_def external_write_candidates_def)


theorem planned_action_passes_boundary_witness:
  "\<exists>auth. verify_execution_authorization auth ''task'' ''step'' (sample_actions ! 0)
      ''http://bank'' ''<html>'' (Some ''key'') = Ok ()"
proof -
  obtain plan where plan: "sample_plan = Ok plan" using sample_plan_ok by blast
  define auth where "auth = \<lparr>ea_permit_id = ''p'',
    ea_action_fingerprint = ai_action_fingerprint (gc_intent (bp_candidates plan ! 0)),
    ea_observation_hash = oc_snapshot_hash (bp_observation plan),
    ea_idempotency_key = ''k'', ea_effect = INTERNAL_WRITE\<rparr>"
  from planned_action_passes_boundary [OF plan [unfolded sample_plan_def], of 0 auth]
  show ?thesis by (auto simp: auth_def sample_actions_def)
qed

end
