(* ===== verification/Recovery.thy ===== *)
theory Recovery
  imports Classification Contracts
begin

text \<open>
  \<open>enterprise/governance/recovery.py\<close>, \<open>result_probes.py\<close> and
  \<open>observation_evidence.py\<close>: the L0 to L4 recovery decision on a failure, the
  evidence a business result probe returns, and the gate on observation evidence.
\<close>

section \<open>Recovery decisions\<close>

datatype failure_class =
    Failure_TECHNICAL_TRANSIENT | Failure_PAGE_LOCATOR | Failure_BROWSER_ENVIRONMENT
  | Failure_BUSINESS_STATE_MISMATCH | Failure_POLICY_OR_PERMISSION | Failure_UNKNOWN
  | Failure_MANUAL_BLOCKER

datatype recovery_level = L0 | L1 | L2 | L3 | L4

record failure_event =
  fe_task_id :: string
  fe_step_id :: string
  fe_action_fingerprint :: "string option"
  fe_observation_id :: "string option"
  fe_attempt_status :: "attempt_status option"
  fe_effect :: execution_effect
  fe_failure_class :: failure_class
  fe_message :: string
  fe_contract_scope_unchanged :: bool
  fe_result_evidence_available :: bool
  fe_metadata :: jobject

record recovery_decision =
  rd_failure_class :: failure_class
  rd_level :: recovery_level
  rd_action :: string
  rd_max_attempts :: nat
  rd_requires_reauthorization :: bool
  rd_requires_result_probe :: bool
  rd_reason :: string

definition recovery_outcome ::
  "failure_class \<Rightarrow> recovery_level \<Rightarrow> string \<Rightarrow> nat \<Rightarrow> bool \<Rightarrow> bool \<Rightarrow> string \<Rightarrow> recovery_decision" where
  "recovery_outcome fc level action attempts reauth probe reason =
     \<lparr>rd_failure_class = fc, rd_level = level, rd_action = action, rd_max_attempts = attempts,
      rd_requires_reauthorization = reauth, rd_requires_result_probe = probe, rd_reason = reason\<rparr>"

definition decide_recovery :: "failure_event \<Rightarrow> recovery_decision" where
  "decide_recovery event =
     (let fc = fe_failure_class event
      in if fc = Failure_UNKNOWN \<or> fe_attempt_status event = Some UNKNOWN
         then recovery_outcome Failure_UNKNOWN L4 ''pause_for_result_probe'' 0 False True
           ''Unknown side-effect outcome must be resolved by result evidence, never replayed''
         else if fc \<in> {Failure_POLICY_OR_PERMISSION, Failure_MANUAL_BLOCKER}
         then recovery_outcome fc L4 ''pause_for_human_or_reauthorization'' 0
           (fc = Failure_POLICY_OR_PERMISSION) False
           ''Policy, permission, or manual blockers cannot be retried by the browser''
         else if fc = Failure_BUSINESS_STATE_MISMATCH
         then (if fe_contract_scope_unchanged event
               then recovery_outcome fc L3 ''request_constrained_replan'' 0 False False
                 ''Business state changed within the existing Contract scope''
               else recovery_outcome fc L4 ''invalidate_and_reauthorize'' 0 True False
                 ''Business state change expands or changes Contract scope'')
         else if fc = Failure_TECHNICAL_TRANSIENT
         then recovery_outcome fc L0 ''retry_same_action'' 1 False False ''Bounded technical retry''
         else if fc = Failure_PAGE_LOCATOR
         then recovery_outcome fc L1 ''reobserve_and_redecide'' 0 False False
           ''Page evidence must be refreshed''
         else recovery_outcome fc L2 ''create_new_step_after_rescrape'' 1 False False
           ''Browser environment recovery is delegated to the Skyvern step boundary'')"

lemmas recovery_defs = decide_recovery_def recovery_outcome_def Let_def

section \<open>Result probes\<close>

datatype probe_status = Probe_CONFIRMED | Probe_NOT_CONFIRMED | Probe_UNKNOWN

fun probe_status_value :: "probe_status \<Rightarrow> string" where
  "probe_status_value Probe_CONFIRMED = ''confirmed''"
| "probe_status_value Probe_NOT_CONFIRMED = ''not_confirmed''"
| "probe_status_value Probe_UNKNOWN = ''unknown''"

record probe_evidence =
  pe_probe_ref :: string
  pe_status :: probe_status
  pe_resource_id :: string
  pe_checked_at :: time
  pe_observed_version :: "int option"
  pe_business_reference :: "string option"
  pe_facts_hash :: "string option"
  pe_reasons :: "string list"
  pe_metadata :: jobject

section \<open>Observation evidence\<close>

datatype observation_mode = DOM_ONLY | VISION_ONLY | HYBRID

datatype evidence_consistency = CONSISTENT | CONFLICTING | INSUFFICIENT

datatype artifact_kind = Artifact_DOM | Artifact_SCREENSHOT | Artifact_PROMPT | Artifact_AUDIT

record field_control =
  fc_field_name :: string
  fc_classification :: data_classification
  fc_redact_before_egress :: bool
  fc_retention_days :: nat
  fc_access_roles :: "string set"

record observation_artifact =
  oa_artifact_id :: string
  oa_kind :: artifact_kind
  oa_fields :: "field_control list"
  oa_model_policy :: "model_egress_policy option"
  oa_redacted_field_names :: "string set"

definition permits_egress :: "observation_artifact \<Rightarrow> bool" where
  "permits_egress a =
     (case oa_model_policy a of
        None \<Rightarrow> False
      | Some p \<Rightarrow> list_all (\<lambda>control. policy_allows p (fc_classification control) \<or>
            (fc_redact_before_egress control \<and>
             fc_field_name control \<in> oa_redacted_field_names a)) (oa_fields a))"

record evidence_bundle =
  eb_observation_id :: string
  eb_mode :: observation_mode
  eb_consistency :: evidence_consistency
  eb_artifacts :: "observation_artifact list"

record evidence_decision =
  ed_allow_automatic_progress :: bool
  ed_requires_human :: bool
  ed_reason :: string

definition assess_evidence :: "execution_effect \<Rightarrow> evidence_bundle \<Rightarrow> evidence_decision" where
  "assess_evidence effect bundle =
     (if effect \<in> {INTERNAL_WRITE, EXTERNAL_WRITE} \<and> eb_consistency bundle \<noteq> CONSISTENT
      then \<lparr>ed_allow_automatic_progress = False, ed_requires_human = True,
            ed_reason = ''State-changing action requires consistent observation evidence''\<rparr>
      else if list_ex (\<lambda>a. \<not> permits_egress a) (eb_artifacts bundle)
      then \<lparr>ed_allow_automatic_progress = False, ed_requires_human = True,
            ed_reason = ''Observation artifact violates its model-egress policy''\<rparr>
      else \<lparr>ed_allow_automatic_progress = True, ed_requires_human = False,
            ed_reason = ''Observation evidence satisfies the declared policy''\<rparr>)"

section \<open>Properties\<close>

text \<open>
  An attempt or failure of unknown outcome is only ever
  paused for a result probe, whatever else the event says; a browser retry is granted, once,
  for transient technical and browser-environment failures only; and every decision is either
  a bounded retry or one that grants none.
\<close>

theorem recovery_never_replays_unknown:
  "(fe_failure_class e = Failure_UNKNOWN \<or> fe_attempt_status e = Some UNKNOWN
      \<longleftrightarrow> rd_requires_result_probe (decide_recovery e)) \<and>
   (rd_requires_result_probe (decide_recovery e)
      \<longrightarrow> rd_level (decide_recovery e) = L4 \<and> rd_max_attempts (decide_recovery e) = 0 \<and>
          rd_action (decide_recovery e) = ''pause_for_result_probe'') \<and>
   (0 < rd_max_attempts (decide_recovery e)
      \<longleftrightarrow> fe_attempt_status e \<noteq> Some UNKNOWN \<and>
          fe_failure_class e \<in> {Failure_TECHNICAL_TRANSIENT, Failure_BROWSER_ENVIRONMENT}) \<and>
   rd_max_attempts (decide_recovery e) \<le> 1 \<and>
   (rd_requires_reauthorization (decide_recovery e)
      \<longrightarrow> rd_level (decide_recovery e) = L4 \<and> rd_max_attempts (decide_recovery e) = 0)"
  by (cases "fe_failure_class e") (auto simp: recovery_defs)

theorem recovery_never_replays_unknown_witness:
  "let e = \<lparr>fe_task_id = ''t'', fe_step_id = ''s'', fe_action_fingerprint = None,
            fe_observation_id = None, fe_attempt_status = Some UNKNOWN, fe_effect = EXTERNAL_WRITE,
            fe_failure_class = Failure_TECHNICAL_TRANSIENT, fe_message = [],
            fe_contract_scope_unchanged = True, fe_result_evidence_available = False,
            fe_metadata = []\<rparr>
   in rd_action (decide_recovery e) = ''pause_for_result_probe'' \<and>
      rd_max_attempts (decide_recovery e) = 0"
  unfolding Let_def by (intro conjI; rule recovery_never_replays_unknown
    [THEN conjunct2, THEN conjunct1, THEN mp, THEN conjunct2, THEN conjunct2]
    recovery_never_replays_unknown
    [THEN conjunct2, THEN conjunct1, THEN mp, THEN conjunct2, THEN conjunct1];
    simp add: recovery_defs)

text \<open>
  Automatic progress is granted exactly when a
  state-changing action has consistent evidence and every artifact names a model policy under
  which each of its fields is allowed or was redacted first; otherwise a human is required.
\<close>

theorem automatic_progress_needs_evidence:
  "(ed_allow_automatic_progress (assess_evidence effect bundle) \<longleftrightarrow>
      (is_write effect \<longrightarrow> eb_consistency bundle = CONSISTENT) \<and>
      (\<forall>a \<in> set (eb_artifacts bundle). \<exists>p. oa_model_policy a = Some p \<and>
         (\<forall>c \<in> set (oa_fields a). fc_classification c \<in> mep_allowed_classifications p \<or>
            (fc_redact_before_egress c \<and> fc_field_name c \<in> oa_redacted_field_names a)))) \<and>
   ed_requires_human (assess_evidence effect bundle) =
      (\<not> ed_allow_automatic_progress (assess_evidence effect bundle))"
proof -
  have "permits_egress a \<longleftrightarrow> (\<exists>p. oa_model_policy a = Some p \<and>
      (\<forall>c \<in> set (oa_fields a). fc_classification c \<in> mep_allowed_classifications p \<or>
         (fc_redact_before_egress c \<and> fc_field_name c \<in> oa_redacted_field_names a)))" for a
    by (auto simp: permits_egress_def list_all_iff policy_allows_def split: option.splits)
  then show ?thesis
    by (auto simp: assess_evidence_def list_ex_iff is_write_def)
qed

theorem automatic_progress_needs_evidence_witness:
  "ed_allow_automatic_progress (assess_evidence INTERNAL_WRITE
     \<lparr>eb_observation_id = ''o'', eb_mode = HYBRID, eb_consistency = CONSISTENT, eb_artifacts = []\<rparr>)"
  by (simp add: automatic_progress_needs_evidence [THEN conjunct1])

end
