(* ===== verification/Auth.thy ===== *)
theory Auth
  imports Strings "HOL-Library.Countable"
begin

text \<open>
  \<open>enterprise/auth/\<close> (schemas, permission, constraints, jwt_service, dependencies,
  routes, bridge) and the approver check of \<open>enterprise/approval/routes.py\<close>: users
  and roles, permission levels, tokens, and the guards in front of the routes.
  \<open>jose.jwt\<close> and \<open>bcrypt.verify\<close> are parameters.
\<close>

section \<open>Users and roles\<close>

record department_role =
  dr_department_id :: string
  dr_department_name :: string
  dr_role :: string

record token_payload =
  tp_sub :: string
  tp_org_id :: string
  tp_exp :: int
  tp_department_roles :: "department_role list"
  tp_business_line_ids :: "string list"
  tp_has_cross_org_read :: bool
  tp_has_cross_org_approve :: bool

record user_context =
  uc_user_id :: string
  uc_org_id :: string
  uc_department_roles :: "department_role list"
  uc_business_line_ids :: "string list"
  uc_has_cross_org_read :: bool
  uc_has_cross_org_approve :: bool

definition has_role_in :: "string list \<Rightarrow> user_context \<Rightarrow> bool" where
  "has_role_in roles u = list_ex (\<lambda>dr. dr_role dr \<in> set roles) (uc_department_roles u)"

definition is_super_admin :: "user_context \<Rightarrow> bool" where
  "is_super_admin u = has_role_in [''super_admin''] u"

definition is_org_admin :: "user_context \<Rightarrow> bool" where
  "is_org_admin u = has_role_in [''super_admin'', ''org_admin''] u"

definition is_any_operator :: "user_context \<Rightarrow> bool" where
  "is_any_operator u = has_role_in [''super_admin'', ''org_admin'', ''operator''] u"

definition is_any_approver :: "user_context \<Rightarrow> bool" where
  "is_any_approver u = has_role_in [''super_admin'', ''org_admin'', ''approver''] u"

definition department_ids :: "user_context \<Rightarrow> string list" where
  "department_ids u = map dr_department_id (uc_department_roles u)"

definition get_role_in_department :: "user_context \<Rightarrow> string \<Rightarrow> string option" where
  "get_role_in_department u department_id =
     map_option dr_role (List.find (\<lambda>dr. dr_department_id dr = department_id) (uc_department_roles u))"

definition has_business_line :: "user_context \<Rightarrow> string \<Rightarrow> bool" where
  "has_business_line u business_line_id = (business_line_id \<in> set (uc_business_line_ids u))"

section \<open>Permission levels\<close>

datatype permission_level = Perm_NONE | Perm_READ | Perm_OPERATE | Perm_APPROVE

definition role_permission :: "string \<Rightarrow> permission_level" where
  "role_permission role =
     (if role \<in> {''super_admin'', ''org_admin'', ''approver''} then Perm_APPROVE
      else if role = ''operator'' then Perm_OPERATE
      else if role = ''viewer'' then Perm_READ
      else Perm_NONE)"

fun permission_order :: "permission_level \<Rightarrow> nat" where
  "permission_order Perm_NONE = 0"
| "permission_order Perm_READ = 1"
| "permission_order Perm_OPERATE = 2"
| "permission_order Perm_APPROVE = 3"

definition higher_permission :: "permission_level \<Rightarrow> permission_level \<Rightarrow> permission_level" where
  "higher_permission a b = (if permission_order b \<le> permission_order a then a else b)"

text \<open>The loop over department roles, returning early for an administrator.\<close>

fun scan_roles ::
  "user_context \<Rightarrow> string \<Rightarrow> string option \<Rightarrow> permission_level \<Rightarrow> department_role list \<Rightarrow>
   permission_level + permission_level" where
  "scan_roles user department_id business_line_id effective [] = Inr effective"
| "scan_roles user department_id business_line_id effective (dr # drs) =
     (if dr_role dr \<in> {''super_admin'', ''org_admin''} then Inl Perm_APPROVE
      else if dr_department_id dr = department_id
        \<or> (truthy business_line_id \<and> has_business_line user (the business_line_id))
      then scan_roles user department_id business_line_id
             (higher_permission effective (role_permission (dr_role dr))) drs
      else scan_roles user department_id business_line_id effective drs)"

definition resolve_permission ::
  "user_context \<Rightarrow> string \<Rightarrow> string \<Rightarrow> string option \<Rightarrow> permission_level" where
  "resolve_permission user resource_org_id resource_department_id resource_business_line_id =
     (if uc_org_id user \<noteq> resource_org_id then Perm_NONE
      else (case scan_roles user resource_department_id resource_business_line_id Perm_NONE
                   (uc_department_roles user) of
              Inl early \<Rightarrow> early
            | Inr effective \<Rightarrow>
                if uc_has_cross_org_approve user then higher_permission effective Perm_APPROVE
                else if uc_has_cross_org_read user then higher_permission effective Perm_READ
                else effective))"

section \<open>Tokens\<close>

text \<open>
  \<open>expires_delta\<close> is in microseconds. \<open>datetime.utcnow()\<close> is naive, so
  \<open>timestamp()\<close> reads it in the server's local zone, \<open>tz_offset\<close> microseconds
  east of UTC.
\<close>

definition create_enterprise_token ::
  "(token_payload \<Rightarrow> string) \<Rightarrow> int \<Rightarrow> time \<Rightarrow> time \<Rightarrow> string \<Rightarrow> string \<Rightarrow> department_role list \<Rightarrow>
   string list \<Rightarrow> bool \<Rightarrow> bool \<Rightarrow> time option \<Rightarrow> string" where
  "create_enterprise_token jwt_encode expire_minutes tz_offset utcnow user_id org_id department_roles
       business_line_ids has_cross_org_read has_cross_org_approve expires_delta =
     (let expire = (case expires_delta of
            Some d \<Rightarrow> if d \<noteq> 0 then utcnow + d else utcnow + seconds (60 * expire_minutes)
          | None \<Rightarrow> utcnow + seconds (60 * expire_minutes))
      in jwt_encode
           \<lparr>tp_sub = user_id, tp_org_id = org_id, tp_exp = (expire - tz_offset) div 1000000,
            tp_department_roles = department_roles, tp_business_line_ids = business_line_ids,
            tp_has_cross_org_read = has_cross_org_read,
            tp_has_cross_org_approve = has_cross_org_approve\<rparr>)"

definition decode_enterprise_token ::
  "(string \<Rightarrow> token_payload res) \<Rightarrow> time \<Rightarrow> string \<Rightarrow> user_context res" where
  "decode_enterprise_token jwt_decode now token =
     res_bind (jwt_decode token) (\<lambda>token_data.
       if seconds (tp_exp token_data) < now then Raise ValueError ''Token has expired''
       else Ok \<lparr>uc_user_id = tp_sub token_data, uc_org_id = tp_org_id token_data,
                uc_department_roles = tp_department_roles token_data,
                uc_business_line_ids = tp_business_line_ids token_data,
                uc_has_cross_org_read = tp_has_cross_org_read token_data,
                uc_has_cross_org_approve = tp_has_cross_org_approve token_data\<rparr>)"

section \<open>Request guards\<close>

text \<open>\<open>authorization.split(" ", 1)\<close>\<close>

fun split_once :: "char \<Rightarrow> string \<Rightarrow> string \<times> string option" where
  "split_once sep [] = ([], None)"
| "split_once sep (c # s) =
     (if c = sep then ([], Some s)
      else (case split_once sep s of (a, r) \<Rightarrow> (c # a, r)))"

definition bearer_token :: "string \<Rightarrow> string option" where
  "bearer_token authorization =
     (case split_once CHR '' '' authorization of
        (scheme, Some token) \<Rightarrow> if lower scheme = ''bearer'' then Some token else None
      | (_, None) \<Rightarrow> None)"

definition get_current_user ::
  "(string \<Rightarrow> user_context res) \<Rightarrow> string option \<Rightarrow> user_context res" where
  "get_current_user decode authorization =
     (if \<not> truthy authorization
      then Raise (HTTPException 401) ''Authorization header required''
      else (case bearer_token (the authorization) of
        None \<Rightarrow> Raise (HTTPException 401)
          ''Invalid authorization header format. Expected: Bearer <token>''
      | Some token \<Rightarrow>
          (case decode token of
             Inr user \<Rightarrow> Ok user
           | Inl e \<Rightarrow>
               if exc_of e = JWTError then Raise (HTTPException 401) ''Invalid or malformed token''
               else if is_value_error e then Raise (HTTPException 401) (message e)
               else Inl e)))"

definition require_any_operator :: "user_context \<Rightarrow> user_context res" where
  "require_any_operator user =
     (if \<not> is_any_operator user then Raise (HTTPException 403) ''Operator role or higher required''
      else Ok user)"

definition require_approver :: "user_context \<Rightarrow> user_context res" where
  "require_approver user =
     (if \<not> is_any_approver user then Raise (HTTPException 403) ''Approver role or higher required''
      else Ok user)"

definition require_cross_org_viewer :: "user_context \<Rightarrow> user_context res" where
  "require_cross_org_viewer user =
     (if \<not> (uc_has_cross_org_read user \<or> is_org_admin user)
      then Raise (HTTPException 403) ''Cross-organization read permission required'' else Ok user)"

definition require_admin :: "user_context \<Rightarrow> user_context res" where
  "require_admin user =
     (if \<not> is_org_admin user then Raise (HTTPException 403) ''Admin role required'' else Ok user)"

definition require_department_operator :: "string \<Rightarrow> user_context \<Rightarrow> user_context res" where
  "require_department_operator department_id user =
     (case get_role_in_department user department_id of
        None \<Rightarrow> Raise (HTTPException 403) (''No role assigned in department '' @ department_id)
      | Some role \<Rightarrow>
          if role \<notin> {''super_admin'', ''org_admin'', ''operator''}
          then Raise (HTTPException 403)
                 (''Operator role or higher required in department '' @ department_id)
          else Ok user)"

definition role_order :: "string \<Rightarrow> int option" where
  "role_order = map_of [(''viewer'', 0), (''operator'', 1), (''approver'', 2), (''org_admin'', 3),
                        (''super_admin'', 4)]"

definition require_department_role :: "string \<Rightarrow> string \<Rightarrow> user_context \<Rightarrow> user_context res" where
  "require_department_role department_id min_role user =
     (if is_org_admin user then Ok user
      else (case get_role_in_department user department_id of
        None \<Rightarrow>
          if min_role = ''viewer'' \<and> uc_has_cross_org_read user then Ok user
          else Raise (HTTPException 403) (''No role assigned in department '' @ department_id)
      | Some role \<Rightarrow>
          if (case role_order role of None \<Rightarrow> -1 | Some n \<Rightarrow> n)
               < (case role_order min_role of None \<Rightarrow> 0 | Some n \<Rightarrow> n)
          then Raise (HTTPException 403)
                 (min_role @ '' role or higher required in department '' @ department_id)
          else Ok user))"

text \<open>\<open>approval/routes.py: _user_can_approve\<close>\<close>

definition user_can_approve :: "user_context \<Rightarrow> string \<Rightarrow> bool" where
  "user_can_approve user approval_dept_id =
     (if is_org_admin user \<or> uc_has_cross_org_approve user then True
      else get_role_in_department user approval_dept_id
             \<in> {Some ''approver'', Some ''org_admin'', Some ''super_admin''})"

section \<open>The directory tables and login\<close>

record enterprise_user_row =
  eu_user_id :: string
  eu_organization_id :: string
  eu_username :: string
  eu_password_hash :: string
  eu_display_name :: string
  eu_is_active :: bool

record user_role_row =
  ur_user_id :: string
  ur_department_id :: string
  ur_role :: string

record department_row =
  dp_department_id :: string
  dp_department_name :: string
  dp_organization_id :: string

record business_line_row =
  bl_business_line_id :: string
  bl_line_name :: string
  bl_organization_id :: string

record special_permission_row =
  sp_user_id :: string
  sp_permission_type :: string
  sp_granted_by :: string

record directory =
  enterprise_users :: "enterprise_user_row list"
  user_department_roles :: "user_role_row list"
  departments :: "department_row list"
  business_lines :: "business_line_row list"
  user_business_lines :: "(string \<times> string) list"
  special_permissions :: "special_permission_row list"

definition roles_of :: "directory \<Rightarrow> string \<Rightarrow> user_role_row list" where
  "roles_of d user_id = filter (\<lambda>r. ur_user_id r = user_id) (user_department_roles d)"

definition business_lines_of :: "directory \<Rightarrow> string \<Rightarrow> string list" where
  "business_lines_of d user_id = map snd (filter (\<lambda>p. fst p = user_id) (user_business_lines d))"

definition special_permissions_of :: "directory \<Rightarrow> string \<Rightarrow> special_permission_row list" where
  "special_permissions_of d user_id = filter (\<lambda>r. sp_user_id r = user_id) (special_permissions d)"

definition department_label :: "directory \<Rightarrow> string \<Rightarrow> string" where
  "department_label d department_id =
     (case List.find (\<lambda>r. dp_department_id r = department_id) (departments d) of
        None \<Rightarrow> department_id
      | Some r \<Rightarrow> if dp_department_name r = [] then department_id else dp_department_name r)"

text \<open>\<open>validate_role_exclusion\<close>\<close>

definition validate_role_exclusion :: "directory \<Rightarrow> string \<Rightarrow> string \<Rightarrow> string \<Rightarrow> unit res" where
  "validate_role_exclusion d user_id department_id new_role =
     (if new_role \<notin> {''operator'', ''approver''} then Ok ()
      else (let conflicting = (if new_role = ''operator'' then ''approver'' else ''operator'')
            in if list_ex (\<lambda>r. ur_department_id r = department_id \<and> ur_role r = conflicting)
                    (roles_of d user_id)
               then Raise ValueError
                 (''Dual control violation: user '' @ user_id @
                  '' cannot hold both operator and approver roles in department '' @ department_id)
               else Ok ()))"

record login_response =
  lr_access_token :: string
  lr_token_type :: string
  lr_expires_in :: int
  lr_user_id :: string
  lr_display_name :: string

definition login ::
  "(string \<Rightarrow> string \<Rightarrow> bool) \<Rightarrow> (token_payload \<Rightarrow> string) \<Rightarrow> int \<Rightarrow> time \<Rightarrow> time \<Rightarrow> directory \<Rightarrow>
   string \<Rightarrow> string \<Rightarrow> string \<Rightarrow> login_response res" where
  "login bcrypt_verify jwt_encode expire_minutes tz_offset utcnow d organization_id username password =
     (case List.find (\<lambda>u. eu_organization_id u = organization_id \<and> eu_username u = username)
             (enterprise_users d) of
        None \<Rightarrow> Raise (HTTPException 401) ''Invalid username or password''
      | Some user \<Rightarrow>
          if \<not> eu_is_active user then Raise (HTTPException 403) ''Account is disabled''
          else if \<not> bcrypt_verify password (eu_password_hash user)
          then Raise (HTTPException 401) ''Invalid username or password''
          else (let uid = eu_user_id user;
                    roles = map (\<lambda>r. \<lparr>dr_department_id = ur_department_id r,
                                  dr_department_name = department_label d (ur_department_id r),
                                  dr_role = ur_role r\<rparr>) (roles_of d uid);
                    perms = map sp_permission_type (special_permissions_of d uid)
                in Ok \<lparr>lr_access_token = create_enterprise_token jwt_encode expire_minutes tz_offset
                         utcnow uid (eu_organization_id user) roles (business_lines_of d uid)
                         (''cross_org_read'' \<in> set perms) (''cross_org_approve'' \<in> set perms) None,
                       lr_token_type = ''bearer'', lr_expires_in = expire_minutes * 60,
                       lr_user_id = uid, lr_display_name = eu_display_name user\<rparr>))"

text \<open>\<open>bridge.py: authenticate_enterprise_user\<close>, \<open>authenticate_enterprise_token\<close>\<close>

definition authenticate_enterprise_user ::
  "(string \<Rightarrow> user_context res) \<Rightarrow> string \<Rightarrow> string option res" where
  "authenticate_enterprise_user decode token =
     (case decode token of
        Inr user \<Rightarrow> Ok (Some (uc_user_id user))
      | Inl e \<Rightarrow> if exc_of e = JWTError \<or> is_value_error e then Ok None else Inl e)"

definition authenticate_enterprise_token ::
  "(string \<Rightarrow> user_context res) \<Rightarrow> (string \<Rightarrow> 'org option) \<Rightarrow> string \<Rightarrow> 'org option res" where
  "authenticate_enterprise_token decode get_organization token =
     (case decode token of
        Inr user \<Rightarrow> Ok (get_organization (uc_org_id user))
      | Inl e \<Rightarrow> if exc_of e = JWTError \<or> is_value_error e then Ok None else Inl e)"

section \<open>Laws\<close>

lemma permission_order_inject: "permission_order a = permission_order b \<longleftrightarrow> a = b"
  by (cases a; cases b) simp_all

lemma permission_order_le_3: "permission_order p \<le> 3"
  by (cases p) simp_all

lemma higher_permission_order:
  "permission_order (higher_permission a b) = max (permission_order a) (permission_order b)"
  by (simp add: higher_permission_def)

lemma higher_permission_NONE [simp]: "higher_permission Perm_NONE p = p" "higher_permission p Perm_NONE = p"
  by (cases p; simp add: higher_permission_def)+

text \<open>The role of a department that reaches the resource: its own, or one sharing a business line.\<close>

definition role_reaches :: "user_context \<Rightarrow> string \<Rightarrow> string option \<Rightarrow> department_role \<Rightarrow> bool" where
  "role_reaches user department_id business_line_id dr \<longleftrightarrow>
     dr_department_id dr = department_id \<or>
     (truthy business_line_id \<and> has_business_line user (the business_line_id))"

lemma scan_roles_outcome:
  "scan_roles user d b eff drs =
     (if \<exists>dr \<in> set drs. dr_role dr \<in> {''super_admin'', ''org_admin''} then Inl Perm_APPROVE
      else Inr (foldl (\<lambda>e dr. if role_reaches user d b dr
                 then higher_permission e (role_permission (dr_role dr)) else e) eff drs))"
  by (induction drs arbitrary: eff) (auto simp: role_reaches_def)

lemma scanned_order:
  "permission_order (foldl (\<lambda>e dr. if P dr then higher_permission e (f dr) else e) eff drs) \<ge> n \<longleftrightarrow>
     permission_order eff \<ge> n \<or> (\<exists>dr \<in> set drs. P dr \<and> permission_order (f dr) \<ge> n)"
  by (induction drs arbitrary: eff) (auto simp: higher_permission_order le_max_iff_disj)

text \<open>A decoded token yields the context it was issued for, until it expires.\<close>

lemma decode_created_token:
  assumes "\<And>p. jwt_decode (jwt_encode p) = Ok p"
  shows "decode_enterprise_token jwt_decode now (create_enterprise_token jwt_encode minutes tz_offset
           issued uid org roles bls rd ap None) =
         (if seconds ((issued + seconds (60 * minutes) - tz_offset) div 1000000) < now
          then Raise ValueError ''Token has expired''
          else Ok \<lparr>uc_user_id = uid, uc_org_id = org, uc_department_roles = roles,
            uc_business_line_ids = bls, uc_has_cross_org_read = rd, uc_has_cross_org_approve = ap\<rparr>)"
  using assms by (simp add: create_enterprise_token_def decode_enterprise_token_def Let_def)

section \<open>Properties\<close>

text \<open>
  The permission level on a resource: none in another
  organization; in the user's own, APPROVE for administrators, otherwise at least level n
  exactly when a role that reaches the resource grants n or a cross-organization permission
  does.
\<close>

theorem resolve_permission_spec:
  "permission_order (resolve_permission user org dept bl) \<ge> n \<longleftrightarrow>
     n = 0 \<or>
     (uc_org_id user = org \<and> n \<le> 3 \<and>
      (is_org_admin user \<or>
       (\<exists>dr \<in> set (uc_department_roles user). role_reaches user dept bl dr \<and>
          permission_order (role_permission (dr_role dr)) \<ge> n) \<or>
       uc_has_cross_org_approve user \<or>
       (uc_has_cross_org_read user \<and> n \<le> 1)))"
proof (cases "uc_org_id user = org \<and> n \<noteq> 0")
  case False
  then show ?thesis by (auto simp: resolve_permission_def)
next
  case same: True
  have admin: "is_org_admin user \<longleftrightarrow>
      (\<exists>dr \<in> set (uc_department_roles user). dr_role dr \<in> {''super_admin'', ''org_admin''})"
    by (auto simp: is_org_admin_def has_role_in_def list_ex_iff)
  have top: "n \<le> permission_order p \<Longrightarrow> n \<le> 3" for p
    using permission_order_le_3 [of p] by simp
  show ?thesis
    using same top admin
    by (auto simp: resolve_permission_def scan_roles_outcome higher_permission_order scanned_order
          le_max_iff_disj)
qed

text \<open>
  A successful login answers with a token that the request guard
  turns back into exactly the stored identity: the user's organization, one entry per stored
  department role, the stored business lines and special permissions, as long as the encoded
  expiry has not passed. The encoded expiry is the intended one minus the server's offset from
  UTC, so the full lifetime is granted on a server that runs in UTC.
\<close>

theorem login_token_roundtrip:
  assumes jwt: "\<And>p. jwt_decode (jwt_encode p) = Ok p"
    and ok: "login verify_pw jwt_encode minutes tz_offset issued d org name pw = Ok response"
    and bearer: "bearer_token header = Some (lr_access_token response)" "header \<noteq> []"
    and live: "now \<le> seconds ((issued + seconds (60 * minutes) - tz_offset) div 1000000)"
  shows "\<exists>user \<in> set (enterprise_users d).
     eu_organization_id user = org \<and> eu_username user = name \<and> eu_is_active user \<and>
     verify_pw pw (eu_password_hash user) \<and>
     (\<exists>ctx. get_current_user (decode_enterprise_token jwt_decode now) (Some header) = Ok ctx \<and>
        uc_user_id ctx = eu_user_id user \<and> uc_org_id ctx = org \<and>
        map (\<lambda>r. (dr_department_id r, dr_role r)) (uc_department_roles ctx) =
          map (\<lambda>r. (ur_department_id r, ur_role r)) (roles_of d (eu_user_id user)) \<and>
        uc_business_line_ids ctx = business_lines_of d (eu_user_id user) \<and>
        uc_has_cross_org_approve ctx =
           (''cross_org_approve'' \<in> sp_permission_type ` set (special_permissions_of d (eu_user_id user))))"
proof -
  from ok obtain user where user: "List.find (\<lambda>u. eu_organization_id u = org \<and> eu_username u = name)
      (enterprise_users d) = Some user" "eu_is_active user" "verify_pw pw (eu_password_hash user)"
    by (auto simp: login_def split: option.splits if_splits)
  then have row: "user \<in> set (enterprise_users d)" "eu_organization_id user = org" "eu_username user = name"
    by (auto simp: find_Some_iff)
  from ok user have token: "lr_access_token response = create_enterprise_token jwt_encode minutes
      tz_offset issued (eu_user_id user) (eu_organization_id user)
      (map (\<lambda>r. \<lparr>dr_department_id = ur_department_id r,
          dr_department_name = department_label d (ur_department_id r), dr_role = ur_role r\<rparr>)
        (roles_of d (eu_user_id user))) (business_lines_of d (eu_user_id user))
      (''cross_org_read'' \<in> set (map sp_permission_type (special_permissions_of d (eu_user_id user))))
      (''cross_org_approve'' \<in> set (map sp_permission_type (special_permissions_of d (eu_user_id user)))) None"
    by (auto simp: login_def Let_def)
  show ?thesis
    using row user bearer live
    by (intro bexI [of _ user] conjI exI)
       (auto simp: get_current_user_def token decode_created_token [OF jwt] not_less)
qed

text \<open>A concrete token format: the decimal number of the payload in an enumeration.\<close>

definition sample_encode :: "token_payload \<Rightarrow> string" where
  "sample_encode p = show_nat (to_nat
     (tp_sub p, tp_org_id p, tp_exp p,
      map (\<lambda>r. (dr_department_id r, dr_department_name r, dr_role r)) (tp_department_roles p),
      tp_business_line_ids p, tp_has_cross_org_read p, tp_has_cross_org_approve p))"

definition sample_decode :: "string \<Rightarrow> token_payload res" where
  "sample_decode s =
     (case from_nat (parse_nat s) of (sub, org, ex, roles, bls, rd, ap) \<Rightarrow> Ok
        \<lparr>tp_sub = sub, tp_org_id = org, tp_exp = ex,
         tp_department_roles = map (\<lambda>(i, n, r).
            \<lparr>dr_department_id = i, dr_department_name = n, dr_role = r\<rparr>) roles,
         tp_business_line_ids = bls, tp_has_cross_org_read = rd, tp_has_cross_org_approve = ap\<rparr>)"

lemma sample_decode_encode: "sample_decode (sample_encode p) = Ok p"
  by (cases p) (auto simp: sample_decode_def sample_encode_def parse_show_nat o_def intro!: map_idI)

lemma bearer_header: "bearer_token (''Bearer '' @ token) = Some token"
proof -
  have "lower ''Bearer'' = ''bearer''" by code_simp
  then show ?thesis by (simp add: bearer_token_def)
qed

definition sample_directory :: directory where
  "sample_directory =
     \<lparr>enterprise_users = [\<lparr>eu_user_id = ''u1'', eu_organization_id = ''org'', eu_username = ''ann'',
        eu_password_hash = ''pw'', eu_display_name = ''Ann'', eu_is_active = True\<rparr>],
      user_department_roles = [\<lparr>ur_user_id = ''u1'', ur_department_id = ''d'', ur_role = ''approver''\<rparr>],
      departments = [], business_lines = [], user_business_lines = [(''u1'', ''b'')],
      special_permissions = []\<rparr>"

theorem login_token_roundtrip_witness:
  "\<exists>response ctx. login (\<lambda>a b. a = b) sample_encode 30 0 0 sample_directory ''org'' ''ann'' ''pw'' = Ok response \<and>
     get_current_user (decode_enterprise_token sample_decode 1000000)
       (Some (''Bearer '' @ lr_access_token response)) = Ok ctx \<and>
     uc_user_id ctx = ''u1'' \<and> uc_business_line_ids ctx = [''b'']"
proof -
  have "\<exists>response. login (\<lambda>a b. a = b) sample_encode 30 0 0 sample_directory ''org'' ''ann'' ''pw''
      = Ok response"
    by (simp add: login_def sample_directory_def Let_def)
  then obtain response where ok:
    "login (\<lambda>a b. a = b) sample_encode 30 0 0 sample_directory ''org'' ''ann'' ''pw'' = Ok response"
    by blast
  from login_token_roundtrip [OF sample_decode_encode ok bearer_header, of 1000000] ok
  show ?thesis by (auto simp: sample_directory_def seconds_def business_lines_of_def)
qed

text \<open>
  A server an hour or more east of UTC issues tokens of half an hour that are expired already.
\<close>

lemma token_born_expired:
  assumes "\<And>p. jwt_decode (jwt_encode p) = Ok p" and "0 \<le> issued"
  shows "decode_enterprise_token jwt_decode issued (create_enterprise_token jwt_encode 30 (seconds 3600)
           issued uid org roles bls rd ap None) = Raise ValueError ''Token has expired''"
proof -
  have "seconds ((issued + seconds 1800 - seconds 3600) div 1000000) < issued"
    by (simp add: seconds_def) 
  then show ?thesis by (simp add: decode_created_token [OF assms(1)])
qed

text \<open>
  The levels of permission as the resolver documents them do not include cross-organization
  access: the special permissions act inside the user's own organization only.
\<close>

lemma cross_org_permission_stays_inside:
  "uc_has_cross_org_approve user \<Longrightarrow> uc_org_id user \<noteq> org \<Longrightarrow>
   resolve_permission user org dept bl = Perm_NONE"
  by (simp add: resolve_permission_def)

end
