(* ===== verification/Tenant.thy ===== *)
theory Tenant
  imports Auth
begin

text \<open>
  \<open>enterprise/tenant/\<close>: the request-scoped tenant context, the middleware that
  binds it, the query filter, and the two routes. The ContextVar is the state of
  a request program; a query on \<open>task_extensions\<close> is its list of rows.
\<close>

section \<open>The context variable\<close>

record tenant_context =
  tn_org_id :: string
  tn_user_id :: string
  tn_visible_department_ids :: "string list"
  tn_visible_business_line_ids :: "string list"
  tn_has_full_org_visibility :: bool

definition is_restricted :: "tenant_context \<Rightarrow> bool" where
  "is_restricted ctx = (\<not> tn_has_full_org_visibility ctx)"

type_synonym 'a request_prog = "(tenant_context option, 'a) prog"

definition require_tenant_context :: "tenant_context request_prog" where
  "require_tenant_context ctx =
     (case ctx of
        None \<Rightarrow> (Raise RuntimeError ''Tenant context not available. This code must run within a request that passed tenant middleware.'', ctx)
      | Some c \<Rightarrow> (Ok c, ctx))"

section \<open>The query filter\<close>

record task_extension_row =
  te_extension_id :: string
  te_task_id :: string
  te_organization_id :: string
  te_department_id :: string
  te_business_line_id :: "string option"
  te_risk_level :: string
  te_created_by :: string

text \<open>The \<open>or_(*conditions)\<close> of the visibility filter; SQL's \<open>NULL IN (...)\<close> does not hold.\<close>

definition visible_row :: "tenant_context \<Rightarrow> task_extension_row \<Rightarrow> bool" where
  "visible_row ctx r \<longleftrightarrow>
     (tn_visible_department_ids ctx \<noteq> [] \<and> te_department_id r \<in> set (tn_visible_department_ids ctx)) \<or>
     (tn_visible_business_line_ids ctx \<noteq> [] \<and>
      (case te_business_line_id r of None \<Rightarrow> False
       | Some b \<Rightarrow> b \<in> set (tn_visible_business_line_ids ctx)))"

definition apply_tenant_filter ::
  "tenant_context option \<Rightarrow> task_extension_row list \<Rightarrow> task_extension_row list" where
  "apply_tenant_filter ctx_var query =
     (case ctx_var of
        None \<Rightarrow> query
      | Some ctx \<Rightarrow>
          (let in_org = filter (\<lambda>r. te_organization_id r = tn_org_id ctx) query
           in if tn_has_full_org_visibility ctx then in_org
              else if tn_visible_department_ids ctx \<noteq> [] \<or> tn_visible_business_line_ids ctx \<noteq> []
              then filter (visible_row ctx) in_org
              else filter (\<lambda>r. te_organization_id r = ''__no_access__'') in_org))"

definition list_tasks ::
  "tenant_context option \<Rightarrow> task_extension_row list \<Rightarrow> (task_extension_row list \<times> nat) res" where
  "list_tasks ctx_var query =
     (case ctx_var of
        None \<Rightarrow> Raise (HTTPException 500) ''Tenant context not available''
      | Some ctx \<Rightarrow>
          (let in_org = filter (\<lambda>r. te_organization_id r = tn_org_id ctx) query
           in if tn_has_full_org_visibility ctx then Ok (in_org, length in_org)
              else if tn_visible_department_ids ctx \<noteq> [] \<or> tn_visible_business_line_ids ctx \<noteq> []
              then (let rows = filter (visible_row ctx) in_org in Ok (rows, length rows))
              else Ok ([], 0)))"

section \<open>The middleware\<close>

definition WHITELIST_PREFIXES :: "string list" where
  "WHITELIST_PREFIXES =
     [''/api/v1/enterprise/auth/login'', ''/health'', ''/docs'', ''/openapi.json'', ''/redoc'']"

definition is_whitelisted :: "string \<Rightarrow> bool" where
  "is_whitelisted path = list_ex (\<lambda>prefix. starts_with prefix path) WHITELIST_PREFIXES"

definition tenant_of_user :: "user_context \<Rightarrow> tenant_context" where
  "tenant_of_user u =
     \<lparr>tn_org_id = uc_org_id u, tn_user_id = uc_user_id u,
      tn_visible_department_ids = department_ids u,
      tn_visible_business_line_ids = uc_business_line_ids u,
      tn_has_full_org_visibility = (is_org_admin u \<or> uc_has_cross_org_read u)\<rparr>"

definition dispatch ::
  "(string \<Rightarrow> user_context res) \<Rightarrow> string \<Rightarrow> string option \<Rightarrow> 'a request_prog \<Rightarrow> 'a request_prog" where
  "dispatch decode path authorization call_next ctx =
     (if is_whitelisted path then call_next ctx
      else if \<not> truthy authorization then call_next ctx
      else (case bearer_token (the authorization) of
        None \<Rightarrow> call_next ctx
      | Some token \<Rightarrow>
          (case decode token of
             Inl e \<Rightarrow> if exc_of e = JWTError \<or> is_value_error e then call_next ctx else (Inl e, ctx)
           | Inr user \<Rightarrow> (fst (call_next (Some (tenant_of_user user))), ctx))))"

section \<open>The visibility diagnosis\<close>

record visibility_report =
  vr_user_id :: string
  vr_display_name :: string
  vr_organization_id :: string
  vr_is_active :: bool
  vr_department_roles :: "department_role list"
  vr_business_lines :: "(string \<times> string) list"
  vr_special_permissions :: "(string \<times> string) list"
  vr_has_full_org_visibility :: bool
  vr_is_admin :: bool
  vr_has_cross_org_read :: bool
  vr_has_cross_org_approve :: bool
  vr_visible_departments :: "(string \<times> string) list"
  vr_visible_business_lines :: "(string \<times> string) list"

definition get_or :: "('a \<times> 'b) list \<Rightarrow> 'a \<Rightarrow> 'b \<Rightarrow> 'b" where
  "get_or d k v = (case map_of d k of None \<Rightarrow> v | Some x \<Rightarrow> x)"

text \<open>The route runs for the admin that \<open>require_admin\<close> let through.\<close>

definition diagnose_visibility :: "directory \<Rightarrow> string \<Rightarrow> user_context \<Rightarrow> visibility_report res" where
  "diagnose_visibility d user_id current_user =
     res_bind (require_admin current_user) (\<lambda>admin.
       case List.find (\<lambda>u. eu_user_id u = user_id) (enterprise_users d) of
         None \<Rightarrow> Raise (HTTPException 404) (''User '' @ user_id @ '' not found'')
       | Some target_user \<Rightarrow>
          (let dept_roles = roles_of d user_id;
               dept_ids = map ur_department_id dept_roles;
               dept_names = dict_of (map (\<lambda>r. (dp_department_id r, dp_department_name r))
                 (filter (\<lambda>r. dp_department_id r \<in> set dept_ids) (departments d)));
               bl_ids = business_lines_of d user_id;
               bl_names = dict_of (map (\<lambda>r. (bl_business_line_id r, bl_line_name r))
                 (filter (\<lambda>r. bl_business_line_id r \<in> set bl_ids) (business_lines d)));
               special_perms = special_permissions_of d user_id;
               cross_read = list_ex (\<lambda>sp. sp_permission_type sp = ''cross_org_read'') special_perms;
               cross_approve = list_ex (\<lambda>sp. sp_permission_type sp = ''cross_org_approve'') special_perms;
               is_admin_role = list_ex (\<lambda>r. ur_role r \<in> {''super_admin'', ''org_admin''}) dept_roles;
               full = is_admin_role \<or> cross_read;
               org = eu_organization_id target_user
           in Ok \<lparr>vr_user_id = user_id, vr_display_name = eu_display_name target_user,
                  vr_organization_id = org, vr_is_active = eu_is_active target_user,
                  vr_department_roles = map (\<lambda>r. \<lparr>dr_department_id = ur_department_id r,
                     dr_department_name = get_or dept_names (ur_department_id r) (ur_department_id r),
                     dr_role = ur_role r\<rparr>) dept_roles,
                  vr_business_lines = map (\<lambda>b. (b, get_or bl_names b b)) bl_ids,
                  vr_special_permissions =
                    map (\<lambda>sp. (sp_permission_type sp, sp_granted_by sp)) special_perms,
                  vr_has_full_org_visibility = full, vr_is_admin = is_admin_role,
                  vr_has_cross_org_read = cross_read, vr_has_cross_org_approve = cross_approve,
                  vr_visible_departments =
                    (if full then dict_of (map (\<lambda>r. (dp_department_id r, dp_department_name r))
                       (filter (\<lambda>r. dp_organization_id r = org) (departments d)))
                     else dict_of (map (\<lambda>i. (i, get_or dept_names i i)) dept_ids)),
                  vr_visible_business_lines =
                    (if full then dict_of (map (\<lambda>r. (bl_business_line_id r, bl_line_name r))
                       (filter (\<lambda>r. bl_organization_id r = org) (business_lines d)))
                     else dict_of (map (\<lambda>i. (i, get_or bl_names i i)) bl_ids))\<rparr>))"

section \<open>Laws\<close>

text \<open>Whatever the handler does with its context, the caller's is restored.\<close>

lemma dispatch_restores_context:
  assumes "\<And>c. snd (call_next c) = c"
  shows "snd (dispatch decode path authorization call_next ctx) = ctx"
  using assms by (auto simp: dispatch_def split: option.splits sum.splits)

lemma apply_tenant_filter_Some:
  "r \<in> set (apply_tenant_filter (Some ctx) rows) \<longleftrightarrow>
     r \<in> set rows \<and> te_organization_id r = tn_org_id ctx \<and>
     (tn_has_full_org_visibility ctx \<or> visible_row ctx r \<or>
      (tn_visible_department_ids ctx = [] \<and> tn_visible_business_line_ids ctx = [] \<and>
       tn_org_id ctx = ''__no_access__''))"
  by (auto simp: apply_tenant_filter_def Let_def visible_row_def)

section \<open>Properties\<close>

text \<open>
  C22. A route behind the middleware, called with a valid token outside the
  whitelist, sees exactly the rows of the token's own organization that are in one of the
  user's departments or business lines, or all of them for an administrator or a
  cross-organization reader; the listing route and the query filter agree, and the context of
  the surrounding request is restored. (The organization id the filter reserves for "no
  access" is excluded.)
\<close>

theorem tenant_isolation:
  assumes valid: "decode token = Ok user" "bearer_token header = Some token" "header \<noteq> []"
    and route: "\<not> is_whitelisted path" "uc_org_id user \<noteq> ''__no_access__''"
  shows "\<exists>rows.
     dispatch decode path (Some header) (\<lambda>c. (Ok (apply_tenant_filter c table), c)) outer
       = (Ok rows, outer) \<and>
     dispatch decode path (Some header) (\<lambda>c. (list_tasks c table, c)) outer
       = (Ok (rows, length rows), outer) \<and>
     set rows = {r \<in> set table. te_organization_id r = uc_org_id user \<and>
        (is_org_admin user \<or> uc_has_cross_org_read user \<or>
         te_department_id r \<in> set (department_ids user) \<or>
         (\<exists>b. te_business_line_id r = Some b \<and> has_business_line user b))}"
proof -
  let ?ctx = "tenant_of_user user"
  let ?rows = "apply_tenant_filter (Some ?ctx) table"
  have listing: "list_tasks (Some ?ctx) table = Ok (?rows, length ?rows)"
    using route(2) by (auto simp: list_tasks_def apply_tenant_filter_def Let_def tenant_of_user_def filter_empty_conv)
  have "set ?rows = {r \<in> set table. te_organization_id r = uc_org_id user \<and>
        (is_org_admin user \<or> uc_has_cross_org_read user \<or>
         te_department_id r \<in> set (department_ids user) \<or>
         (\<exists>b. te_business_line_id r = Some b \<and> has_business_line user b))}"
    unfolding set_eq_iff apply_tenant_filter_Some using route(2)
    by (auto simp: tenant_of_user_def visible_row_def has_business_line_def
             split: option.splits)
  with listing valid route show ?thesis
    by (intro exI [of _ ?rows]) (simp add: dispatch_def)
qed

text \<open>A user with one department, and a table with a row of it and two rows the user may not see.\<close>

definition sample_user :: user_context where
  "sample_user = \<lparr>uc_user_id = ''u'', uc_org_id = ''org1'',
     uc_department_roles = [\<lparr>dr_department_id = ''d1'', dr_department_name = ''D'', dr_role = ''operator''\<rparr>],
     uc_business_line_ids = [], uc_has_cross_org_read = False, uc_has_cross_org_approve = False\<rparr>"

definition sample_extension :: "string \<Rightarrow> string \<Rightarrow> string \<Rightarrow> task_extension_row" where
  "sample_extension i org dept = \<lparr>te_extension_id = i, te_task_id = i, te_organization_id = org,
     te_department_id = dept, te_business_line_id = None, te_risk_level = ''low'', te_created_by = ''u''\<rparr>"

definition sample_extensions :: "task_extension_row list" where
  "sample_extensions = [sample_extension ''e1'' ''org1'' ''d1'',
     sample_extension ''e2'' ''org1'' ''d2'', sample_extension ''e3'' ''org2'' ''d1'']"

theorem tenant_isolation_witness:
  "\<exists>rows. dispatch (\<lambda>_. Ok sample_user) ''/tasks'' (Some ''Bearer t'')
       (\<lambda>c. (Ok (apply_tenant_filter c sample_extensions), c)) None = (Ok rows, None) \<and>
     set rows = {sample_extension ''e1'' ''org1'' ''d1''}"
proof -
  have bearer: "bearer_token ''Bearer t'' = Some ''t''" by code_simp
  have path: "\<not> is_whitelisted ''/tasks''" by code_simp
  have org: "uc_org_id sample_user \<noteq> ''__no_access__''" by (simp add: sample_user_def)
  have visible: "{r \<in> set sample_extensions. te_organization_id r = uc_org_id sample_user \<and>
      (is_org_admin sample_user \<or> uc_has_cross_org_read sample_user \<or>
       te_department_id r \<in> set (department_ids sample_user) \<or>
       (\<exists>b. te_business_line_id r = Some b \<and> has_business_line sample_user b))}
      = {sample_extension ''e1'' ''org1'' ''d1''}"
    by (auto simp: sample_user_def sample_extensions_def sample_extension_def is_org_admin_def
          has_role_in_def department_ids_def)
  from tenant_isolation [of "\<lambda>_. Ok sample_user" "''t''" sample_user "''Bearer t''" "''/tasks''"
      sample_extensions None, OF refl bearer _ path org, unfolded visible]
  show ?thesis by blast
qed

text \<open>
  The diagnosis route checks the caller's role only: an administrator of one organization is
  given the department directory of another.
\<close>

definition two_tenants :: directory where
  "two_tenants =
     \<lparr>enterprise_users = [\<lparr>eu_user_id = ''victim'', eu_organization_id = ''org2'', eu_username = ''v'',
        eu_password_hash = ''h'', eu_display_name = ''V'', eu_is_active = True\<rparr>],
      user_department_roles = [\<lparr>ur_user_id = ''victim'', ur_department_id = ''d2'', ur_role = ''org_admin''\<rparr>],
      departments = [\<lparr>dp_department_id = ''d2'', dp_department_name = ''Treasury'', dp_organization_id = ''org2''\<rparr>],
      business_lines = [], user_business_lines = [], special_permissions = []\<rparr>"

definition org1_admin :: user_context where
  "org1_admin = \<lparr>uc_user_id = ''admin'', uc_org_id = ''org1'',
     uc_department_roles = [\<lparr>dr_department_id = ''d1'', dr_department_name = ''D'', dr_role = ''org_admin''\<rparr>],
     uc_business_line_ids = [], uc_has_cross_org_read = False, uc_has_cross_org_approve = False\<rparr>"

lemma diagnosis_crosses_tenants:
  "\<exists>report. diagnose_visibility two_tenants ''victim'' org1_admin = Ok report \<and>
     vr_organization_id report \<noteq> uc_org_id org1_admin \<and>
     vr_visible_departments report = [(''d2'', ''Treasury'')]"
  by (simp add: diagnose_visibility_def two_tenants_def org1_admin_def require_admin_def
        is_org_admin_def has_role_in_def roles_of_def Let_def dict_of_def)

end
