(* ===== verification/Pending.thy ===== *)
theory Pending
  imports Store Lifecycle Classification "HOL-Library.List_Lexorder" "HOL-Library.Char_ord"
begin

text \<open>
  \<open>enterprise/governance/pending_action_service.py\<close>, and approval requests:
  \<open>enterprise/approval/models.py\<close>, \<open>routing.py\<close>, \<open>requests.py\<close> and
  \<open>persistence.py\<close>. Row versions implement optimistic concurrency; generated keys
  and clock readings are arguments.
\<close>

section \<open>JSON dumps of intent and decision\<close>

text \<open>A set of strings dumps as a list; its order, unspecified in Python, is the sorted one here.\<close>

definition set_dump :: "string set \<Rightarrow> json" where
  "set_dump A = JArr (map JStr (sorted_list_of_set A))"

definition intent_dump :: "action_intent \<Rightarrow> json" where
  "intent_dump i = JObj
     [(''intent_id'', JStr (ai_intent_id i)), (''task_id'', JStr (ai_task_id i)),
      (''step_id'', JStr (ai_step_id i)),
      (''action_fingerprint'', JStr (ai_action_fingerprint i)),
      (''observation_id'', JStr (ai_observation_id i)), (''operation'', JStr (ai_operation i)),
      (''effect'', JStr (effect_value (ai_effect i))), (''target'', JObj (ai_target i)),
      (''sensitive_data_types'', set_dump (ai_sensitive_data_types i)),
      (''extracted_facts'', JObj (ai_extracted_facts i)), (''confidence'', JFloat (ai_confidence i)),
      (''evidence'', JArr (map JStr (ai_evidence i))),
      (''expected_outcome'', JObj (ai_expected_outcome i))]"

definition decision_dump :: "policy_decision \<Rightarrow> json" where
  "decision_dump d = JObj
     [(''decision_id'', JStr (pd_decision_id d)), (''intent_id'', JStr (pd_intent_id d)),
      (''outcome'', JStr (outcome_value (pd_outcome d))),
      (''risk_level'', JStr (risk_value (pd_risk_level d))),
      (''reasons'', JArr (map JStr (pd_reasons d))),
      (''matched_rules'', JArr (map JStr (pd_matched_rules d))),
      (''required_approver'', case pd_required_approver d of None \<Rightarrow> JNull | Some a \<Rightarrow> JObj a),
      (''policy_version'', JStr (pd_policy_version d))]"

section \<open>Pending actions\<close>

definition pending_to_contract :: "pending_row \<Rightarrow> pending_action" where
  "pending_to_contract m =
     \<lparr>pa_pending_action_id = pn_pending_action_id m, pa_task_id = pn_task_id m,
      pa_step_id = pn_step_id m, pa_contract_id = pn_contract_id m,
      pa_organization_id = pn_organization_id m, pa_action_fingerprint = pn_action_fingerprint m,
      pa_observation_hash = pn_observation_hash m, pa_status = pn_status m,
      pa_approval_id = pn_approval_id m, pa_row_version = pn_row_version m,
      pa_expires_at = pn_expires_at m\<rparr>"

definition unresolved :: "pending_row \<Rightarrow> bool" where
  "unresolved r = (pn_status r \<in> {PENDING, APPROVED})"

definition create_pending_action ::
  "string \<Rightarrow> time \<Rightarrow> time \<Rightarrow> string \<Rightarrow> string \<Rightarrow> string \<Rightarrow> string \<Rightarrow> jobject \<Rightarrow> action_intent \<Rightarrow> string \<Rightarrow>
   policy_decision \<Rightarrow> int \<Rightarrow> (db, pending_action) prog" where
  "create_pending_action new_id now created task_id step_id contract_id organization_id action intent
       obs_hash decision ttl_seconds s =
     (if pd_outcome decision \<noteq> REQUIRE_APPROVAL
      then (Raise PendingActionError ''Only approval-required decisions can create pending actions'', s)
      else if ttl_seconds \<le> 0
      then (Raise PendingActionError ''Pending action TTL must be positive'', s)
      else if obs_hash = []
      then (Raise PendingActionError ''Pending action requires an observation hash'', s)
      else (case first_where (\<lambda>r. pn_task_id r = task_id \<and> pn_step_id r = step_id \<and> unresolved r)
                   (pending_actions s) of
        Some existing \<Rightarrow>
          (Raise PendingActionError ''Task step already has a pending approval action'', s)
      | None \<Rightarrow>
          (let model =
             \<lparr>pn_pending_action_id = new_id, pn_task_id = task_id, pn_step_id = step_id,
              pn_contract_id = contract_id, pn_organization_id = organization_id,
              pn_action_fingerprint = ai_action_fingerprint intent, pn_observation_hash = obs_hash,
              pn_action_payload = redacted_action_payload action,
              pn_intent_payload = redact_mapping (intent_dump intent) [],
              pn_decision_payload = redact_mapping (decision_dump decision) [],
              pn_approval_id = None, pn_status = PENDING, pn_row_version = 1,
              pn_expires_at = Some (now + seconds ttl_seconds), pn_created_at = created\<rparr>
           in if find_pending new_id s \<noteq> None
              then (Raise IntegrityError ''pending_actions_pkey'', s)
              else (Ok (pending_to_contract model), add_pending model s))))"

definition get_pending_for_update :: "string \<Rightarrow> (db, pending_row) prog" where
  "get_pending_for_update pending_action_id s =
     (case find_pending pending_action_id s of
        None \<Rightarrow> (Raise PendingActionError ''Pending action does not exist'', s)
      | Some model \<Rightarrow> (Ok model, s))"

definition expired_row :: "pending_row \<Rightarrow> pending_row" where
  "expired_row m = m\<lparr>pn_status := EXPIRED, pn_row_version := pn_row_version m + 1\<rparr>"

definition require_pending :: "pending_row \<Rightarrow> int \<Rightarrow> time \<Rightarrow> (db, unit) prog" where
  "require_pending model expected_row_version timestamp s =
     (if pn_status model \<noteq> PENDING
      then (Raise PendingActionError ''Pending action is not available for this transition'', s)
      else if pn_row_version model \<noteq> expected_row_version
      then (Raise PendingActionError ''Pending action version conflict'', s)
      else (case pn_expires_at model of
        None \<Rightarrow> (Raise AttributeError ''expires_at'', s)
      | Some expiry \<Rightarrow>
          if expiry < timestamp
          then (Raise PendingActionError ''Pending action has expired'',
                write_pending (expired_row model) s)
          else (Ok (), s)))"

definition attach_approval :: "time \<Rightarrow> string \<Rightarrow> string \<Rightarrow> int \<Rightarrow> (db, pending_action) prog" where
  "attach_approval now pending_action_id approval_id expected_row_version =
     (if approval_id = [] then (\<lambda>s. (Raise PendingActionError ''Approval id is required'', s))
      else prog_bind (get_pending_for_update pending_action_id) (\<lambda>model.
           prog_bind (require_pending model expected_row_version now) (\<lambda>_ s.
             if pn_approval_id model \<noteq> None
             then (Raise PendingActionError ''Pending action already has an approval request'', s)
             else if \<exists>r \<in> set (pending_actions s). pn_approval_id r = Some approval_id
             then (Raise IntegrityError ''pending_actions_approval_id_key'', s)
             else (let linked = model\<lparr>pn_approval_id := Some approval_id,
                                      pn_row_version := pn_row_version model + 1\<rparr>
                   in (Ok (pending_to_contract linked), write_pending linked s)))))"

definition record_approval_decision ::
  "string \<Rightarrow> string \<Rightarrow> bool \<Rightarrow> int \<Rightarrow> time \<Rightarrow> (db, pending_action) prog" where
  "record_approval_decision pending_action_id approval_id approved expected_row_version now =
     prog_bind (get_pending_for_update pending_action_id) (\<lambda>model.
     prog_bind (require_pending model expected_row_version now) (\<lambda>_ s.
       if pn_approval_id model \<noteq> Some approval_id
       then (Raise PendingActionError ''Approval decision does not match the pending action'', s)
       else (let decided = model\<lparr>pn_status := (if approved then APPROVED else REJECTED),
                                 pn_row_version := pn_row_version model + 1\<rparr>
             in (Ok (pending_to_contract decided), write_pending decided s))))"

definition invalidate_approved_action_for_reobservation ::
  "string \<Rightarrow> int \<Rightarrow> (db, pending_action) prog" where
  "invalidate_approved_action_for_reobservation pending_action_id expected_row_version =
     prog_bind (get_pending_for_update pending_action_id) (\<lambda>model s.
       if pn_status model \<noteq> APPROVED
       then (Raise PendingActionError ''Only approved actions can be invalidated for re-observation'', s)
       else if pn_row_version model \<noteq> expected_row_version
       then (Raise PendingActionError ''Pending action version conflict'', s)
       else (let used = model\<lparr>pn_status := INVALIDATED, pn_row_version := pn_row_version model + 1\<rparr>
             in (Ok (pending_to_contract used), write_pending used s)))"

section \<open>Approval requests\<close>

record approval_route =
  rt_requires_approval :: bool
  rt_approver_department_id :: "string option"
  rt_approver_role :: string
  rt_notify_department_ids :: "string list"
  rt_notify_roles :: "string list"
  rt_description :: string

definition DEFAULT_TIMEOUTS :: "string \<Rightarrow> int option" where
  "DEFAULT_TIMEOUTS = map_of [(''high'', 3600), (''critical'', 1800)]"

definition build_approval_request ::
  "string \<Rightarrow> time \<Rightarrow> string \<Rightarrow> string \<Rightarrow> string \<Rightarrow> string \<Rightarrow> string \<Rightarrow> approval_route \<Rightarrow>
   string option \<Rightarrow> string option \<Rightarrow> string option \<Rightarrow> string option \<Rightarrow> int option \<Rightarrow> approval_row" where
  "build_approval_request new_id utcnow task_id org_id department_id risk_level risk_reason route
       requester_user_id business_line_id operation_description screenshot_path timeout_override =
     (let timeout = (case timeout_override of
            Some t \<Rightarrow> if t \<noteq> 0 then t
                      else (case DEFAULT_TIMEOUTS risk_level of Some d \<Rightarrow> d | None \<Rightarrow> 3600)
          | None \<Rightarrow> (case DEFAULT_TIMEOUTS risk_level of Some d \<Rightarrow> d | None \<Rightarrow> 3600));
          notify = (if rt_notify_department_ids route \<noteq> []
                    then Some (join_with '','' (rt_notify_department_ids route)) else None)
      in \<lparr>ar_approval_id = ''apr_'' @ new_id, ar_task_id = task_id, ar_organization_id = org_id,
          ar_department_id = department_id, ar_business_line_id = business_line_id,
          ar_requester_user_id = requester_user_id, ar_risk_level = risk_level,
          ar_risk_reason = risk_reason, ar_operation_description = operation_description,
          ar_screenshot_path = screenshot_path,
          ar_approver_department_id =
            (if truthy (rt_approver_department_id route) then the (rt_approver_department_id route)
             else department_id),
          ar_approver_role = rt_approver_role route, ar_notify_department_ids = notify,
          ar_status = Approval_PENDING, ar_requested_at = utcnow, ar_approver_user_id = None,
          ar_decided_at = None, ar_decision_note = None, ar_timeout_seconds = timeout\<rparr>)"

definition decided_request :: "bool \<Rightarrow> string \<Rightarrow> string \<Rightarrow> time \<Rightarrow> approval_row \<Rightarrow> approval_row" where
  "decided_request approved approver_user_id decision_note timestamp a =
     a\<lparr>ar_status := (if approved then Approval_APPROVED else Approval_REJECTED),
       ar_approver_user_id := Some approver_user_id, ar_decision_note := Some decision_note,
       ar_decided_at := Some timestamp\<rparr>"

definition decide_approval_request ::
  "string \<Rightarrow> string \<Rightarrow> string \<Rightarrow> bool \<Rightarrow> string \<Rightarrow> time \<Rightarrow> (db, approval_row) prog" where
  "decide_approval_request approval_id organization_id approver_user_id approved decision_note
       timestamp s =
     (case find_approval approval_id s of
        None \<Rightarrow> (Raise ApprovalPersistenceError ''Approval request does not exist'', s)
      | Some approval \<Rightarrow>
          if ar_organization_id approval \<noteq> organization_id
          then (Raise ApprovalPersistenceError ''Approval request belongs to another organization'', s)
          else if ar_status approval \<noteq> Approval_PENDING
          then (Raise ApprovalPersistenceError ''Approval request is not pending'', s)
          else if ar_requester_user_id approval = Some approver_user_id
          then (Raise ApprovalPersistenceError ''Requester cannot approve their own request'', s)
          else (let decided = decided_request approved approver_user_id decision_note timestamp approval;
                    t = write_approval decided s
                in (case first_where (\<lambda>r. pn_approval_id r = Some approval_id) (pending_actions s) of
                      None \<Rightarrow> (Ok decided, t)
                    | Some pending \<Rightarrow>
                        prog_bind (record_approval_decision (pn_pending_action_id pending) approval_id
                                     approved (pn_row_version pending) timestamp)
                          (\<lambda>_ u. (Ok decided, u)) t)))"

section \<open>The pending-action lifecycle\<close>

inductive pending_moves :: "pending_status \<Rightarrow> pending_status \<Rightarrow> bool" where
  approve: "pending_moves PENDING APPROVED"
| reject: "pending_moves PENDING REJECTED"
| expire: "pending_moves PENDING EXPIRED"
| reobserve: "pending_moves APPROVED INVALIDATED"

inductive_simps pending_moves_from [simp]:
  "pending_moves PENDING t" "pending_moves APPROVED t" "pending_moves REJECTED t"
  "pending_moves EXPIRED t" "pending_moves INVALIDATED t"

code_pred pending_moves .

fun pending_rank :: "pending_status \<Rightarrow> nat" where
  "pending_rank PENDING = 0"
| "pending_rank APPROVED = 1"
| "pending_rank REJECTED = 2"
| "pending_rank EXPIRED = 2"
| "pending_rank INVALIDATED = 2"

interpretation pending_life: lifecycle pending_moves pending_rank 2
proof unfold_locales
  fix s t
  show "pending_rank s < pending_rank t" if "pending_moves s t"
    using that by cases simp_all
  show "pending_rank s \<le> 2" by (cases s) simp_all
qed

end
