(* ===== verification/Pauses.thy ===== *)
theory Pauses
  imports Pending
begin

text \<open>
  The services that move Skyvern's native task and step state machines:
  \<open>approval_pause_service.py\<close>, \<open>approval_orchestrator.py\<close>,
  \<open>approval_recovery_service.py\<close>, \<open>resume_execution_service.py\<close> and one cycle of
  \<open>approval_recovery_scheduler.py\<close>. \<open>execute_step\<close> and the other calls into Skyvern's
  agent are outside the model: a cycle returns the list of tasks it hands over.
\<close>

section \<open>Tasks and steps\<close>

definition find_task :: "string \<Rightarrow> string \<Rightarrow> db \<Rightarrow> task_row option" where
  "find_task task_id organization_id s =
     first_where (\<lambda>t. tk_task_id t = task_id \<and> tk_organization_id t = Some organization_id) (tasks s)"

definition find_step :: "string \<Rightarrow> string \<Rightarrow> string \<Rightarrow> db \<Rightarrow> step_row option" where
  "find_step task_id step_id organization_id s =
     first_where (\<lambda>t. st_step_id t = step_id \<and> st_task_id t = Some task_id \<and>
                      st_organization_id t = Some organization_id) (steps s)"

definition set_task_status :: "task_row \<Rightarrow> task_status \<Rightarrow> db \<Rightarrow> db" where
  "set_task_status t st s = s\<lparr>tasks := write_row tk_task_id (t\<lparr>tk_status := st\<rparr>) (tasks s)\<rparr>"

definition set_step_status :: "step_row \<Rightarrow> step_status \<Rightarrow> db \<Rightarrow> db" where
  "set_step_status p st s = s\<lparr>steps := write_row st_step_id (p\<lparr>st_status := st\<rparr>) (steps s)\<rparr>"

definition load_task_and_step ::
  "string \<Rightarrow> string \<Rightarrow> string \<Rightarrow> (db, task_row \<times> step_row) prog" where
  "load_task_and_step task_id step_id organization_id s =
     (case (find_task task_id organization_id s, find_step task_id step_id organization_id s) of
        (Some t, Some p) \<Rightarrow> (Ok (t, p), s)
      | _ \<Rightarrow> (Raise ApprovalPauseError ''Task or step does not exist'', s))"

section \<open>Pausing for approval\<close>

record pause_state =
  ps_task_id :: string
  ps_step_id :: string
  ps_task_status :: task_status
  ps_step_status :: step_status
  ps_pending_action :: pending_action

definition require_matching_pending_action :: "pending_action \<Rightarrow> string \<Rightarrow> string \<Rightarrow> unit res" where
  "require_matching_pending_action pending task_id step_id =
     checks
       [(pa_task_id pending \<noteq> task_id \<or> pa_step_id pending \<noteq> step_id,
         Exc ApprovalPauseError ''Pending action does not belong to this task step''),
        (pa_status pending \<noteq> PENDING,
         Exc ApprovalPauseError ''Pending action is not in a pause-compatible state'')]
       (Ok ())"

definition pause_for_approval ::
  "string \<Rightarrow> string \<Rightarrow> string \<Rightarrow> pending_action \<Rightarrow> (db, pause_state) prog" where
  "pause_for_approval task_id step_id organization_id pending s =
     (case require_matching_pending_action pending task_id step_id of
        Inl e \<Rightarrow> (Inl e, s)
      | Inr _ \<Rightarrow> prog_bind (load_task_and_step task_id step_id organization_id) (\<lambda>(t, p) u.
          if tk_status t \<noteq> Task_running \<or> st_status p \<noteq> Step_running
          then (Raise ApprovalPauseError ''Only running task and step can enter pending approval'', u)
          else (Ok \<lparr>ps_task_id = task_id, ps_step_id = step_id,
                    ps_task_status = Task_pending_approval, ps_step_status = Step_pending_approval,
                    ps_pending_action = pending\<rparr>,
                set_step_status p Step_pending_approval
                  (set_task_status t Task_pending_approval u))) s)"

definition begin_reobservation_after_approval ::
  "string \<Rightarrow> string \<Rightarrow> string \<Rightarrow> string \<Rightarrow> int \<Rightarrow> (db, pause_state) prog" where
  "begin_reobservation_after_approval task_id step_id organization_id pending_action_id
       expected_row_version s =
     (case find_pending pending_action_id s of
        None \<Rightarrow> (Raise ApprovalPauseError
                  ''Approved pending action is not available for re-observation'', s)
      | Some model \<Rightarrow>
          if pn_status model \<noteq> APPROVED \<or> pn_row_version model \<noteq> expected_row_version
          then (Raise ApprovalPauseError
                  ''Approved pending action is not available for re-observation'', s)
          else if pn_task_id model \<noteq> task_id \<or> pn_step_id model \<noteq> step_id
          then (Raise ApprovalPauseError ''Pending action does not belong to this task step'', s)
          else prog_bind (load_task_and_step task_id step_id organization_id) (\<lambda>(t, p) u.
            if tk_status t \<noteq> Task_pending_approval \<or> st_status p \<noteq> Step_pending_approval
            then (Raise ApprovalPauseError ''Only pending-approval task and step can resume'', u)
            else prog_bind (invalidate_approved_action_for_reobservation pending_action_id
                              expected_row_version)
              (\<lambda>pending v.
                 (Ok \<lparr>ps_task_id = task_id, ps_step_id = step_id, ps_task_status = Task_resuming,
                      ps_step_status = Step_resuming, ps_pending_action = pending\<rparr>,
                  set_step_status p Step_resuming (set_task_status t Task_resuming v))) u) s)"

section \<open>Creating a complete pause\<close>

definition create_approval_pause ::
  "string \<Rightarrow> string \<Rightarrow> time \<Rightarrow> time \<Rightarrow> time \<Rightarrow> string \<Rightarrow> string \<Rightarrow> string \<Rightarrow> string \<Rightarrow> string \<Rightarrow> jobject \<Rightarrow>
   action_intent \<Rightarrow> string \<Rightarrow> policy_decision \<Rightarrow> approval_route \<Rightarrow> string option \<Rightarrow> string option \<Rightarrow>
   string option \<Rightarrow> int \<Rightarrow> (db, pause_state) prog" where
  "create_approval_pause pending_id approval_key now created attach_now task_id step_id organization_id
       contract_id source_department_id action intent obs_hash decision route requester_user_id
       business_line_id screenshot_path ttl_seconds =
     prog_bind (create_pending_action pending_id now created task_id step_id contract_id
                  organization_id action intent obs_hash decision ttl_seconds) (\<lambda>pending.
     let reason = join_with ''; '' (pd_reasons decision);
         approval = build_approval_request approval_key now task_id organization_id
           source_department_id (risk_value (pd_risk_level decision))
           (if reason = [] then ''Governance policy requires approval'' else reason) route
           requester_user_id business_line_id (Some (ai_operation intent)) screenshot_path
           (Some ttl_seconds)
     in prog_bind (\<lambda>s. if find_approval (ar_approval_id approval) s \<noteq> None
                      then (Raise IntegrityError ''approval_requests_pkey'', s)
                      else (Ok (), add_approval approval s)) (\<lambda>_.
        prog_bind (attach_approval attach_now (pa_pending_action_id pending)
                     (ar_approval_id approval) (pa_row_version pending)) (\<lambda>linked.
        pause_for_approval task_id step_id organization_id linked)))"

section \<open>Recovery of approved pauses\<close>

text \<open>
  \<open>order_by(created_at).limit(n)\<close>: ascending creation time. Rows created at the same instant
  come in table order here; the database may return them in any order.
\<close>

definition oldest_first :: "('r \<Rightarrow> time) \<Rightarrow> nat \<Rightarrow> 'r list \<Rightarrow> 'r list" where
  "oldest_first created limit rows = take limit (sort_key created rows)"

fun resume_each :: "pending_row list \<Rightarrow> (db, pause_state list) prog" where
  "resume_each [] s = (Ok [], s)"
| "resume_each (p # ps) s =
     (case begin_reobservation_after_approval (pn_task_id p) (pn_step_id p) (pn_organization_id p)
             (pn_pending_action_id p) (pn_row_version p) s of
        (Inr state, t) \<Rightarrow>
          (case resume_each ps t of (Inl e, u) \<Rightarrow> (Inl e, u) | (Inr states, u) \<Rightarrow> (Ok (state # states), u))
      | (Inl e, t) \<Rightarrow>
          if exc_of e = ApprovalPauseError then resume_each ps t else (Inl e, t))"

definition prepare_approved_pauses_for_reobservation ::
  "string option \<Rightarrow> int \<Rightarrow> (db, pause_state list) prog" where
  "prepare_approved_pauses_for_reobservation organization_id limit s =
     (if limit \<le> 0 then (Raise ValueError ''Recovery scan limit must be positive'', s)
      else resume_each (oldest_first pn_created_at (nat limit)
             (filter (\<lambda>p. pn_status p = APPROVED \<and>
                (case organization_id of None \<Rightarrow> True | Some org \<Rightarrow> pn_organization_id p = org))
                (pending_actions s))) s)"

section \<open>Resuming\<close>

record resuming_task =
  rs_task_id :: "string option"
  rs_step_id :: string
  rs_organization_id :: "string option"

text \<open>A comparison with a Python \<open>None\<close> is SQL's \<open>IS NULL\<close>.\<close>

definition step_task :: "step_row \<Rightarrow> db \<Rightarrow> task_row option" where
  "step_task p s =
     first_where (\<lambda>t. st_task_id p = Some (tk_task_id t) \<and>
                      tk_organization_id t = st_organization_id p) (tasks s)"

definition discover_resuming_tasks :: "int \<Rightarrow> db \<Rightarrow> resuming_task list res" where
  "discover_resuming_tasks limit s =
     (if limit \<le> 0 then Raise ValueError ''Resume discovery limit must be positive''
      else Ok (List.map_filter
        (\<lambda>p. case step_task p s of
               None \<Rightarrow> None
             | Some t \<Rightarrow>
                 if tk_status t \<in> {Task_resuming, Task_running}
                 then Some \<lparr>rs_task_id = st_task_id p, rs_step_id = st_step_id p,
                            rs_organization_id = st_organization_id p\<rparr>
                 else None)
        (oldest_first st_created_at (nat limit)
           (filter (\<lambda>p. st_status p = Step_resuming) (steps s)))))"

definition claim_resuming_task_for_execution ::
  "string \<Rightarrow> string \<Rightarrow> string \<Rightarrow> (db, unit) prog" where
  "claim_resuming_task_for_execution task_id step_id organization_id s =
     (case (find_task task_id organization_id s, find_step task_id step_id organization_id s) of
        (Some t, Some p) \<Rightarrow>
          if st_status p \<noteq> Step_resuming
          then (Raise ResumeExecutionError ''Only a resuming step may enter fresh Agent execution'', s)
          else if tk_status t \<notin> {Task_resuming, Task_running}
          then (Raise ResumeExecutionError ''Task is not eligible for approval recovery'', s)
          else (Ok (), set_task_status t Task_running s)
      | _ \<Rightarrow> (Raise ResumeExecutionError ''Task or step does not exist'', s))"

text \<open>\<open>pack_runtime.ExecutionCheckpoint\<close>\<close>

record execution_checkpoint =
  ck_attempt_id :: string
  ck_permit_id :: string
  ck_task_id :: string
  ck_step_id :: string
  ck_action_fingerprint :: string
  ck_observation_hash :: string
  ck_idempotency_key_digest :: string
  ck_execution_effect :: string
  ck_result_probe_ref :: string
  ck_attempt_status :: string

definition checkpoint_substituted :: "attempt_row \<Rightarrow> execution_checkpoint \<Rightarrow> bool" where
  "checkpoint_substituted attempt checkpoint \<longleftrightarrow>
     at_status attempt \<noteq> UNKNOWN \<or>
     at_permit_id attempt \<noteq> Some (ck_permit_id checkpoint) \<or>
     at_task_id attempt \<noteq> ck_task_id checkpoint \<or>
     at_step_id attempt \<noteq> ck_step_id checkpoint \<or>
     at_action_fingerprint attempt \<noteq> ck_action_fingerprint checkpoint \<or>
     at_observation_hash attempt \<noteq> ck_observation_hash checkpoint \<or>
     at_idempotency_key_digest attempt \<noteq> Some (ck_idempotency_key_digest checkpoint) \<or>
     at_execution_effect attempt \<noteq> Some (ck_execution_effect checkpoint) \<or>
     at_result_probe_ref attempt \<noteq> Some (ck_result_probe_ref checkpoint) \<or>
     ck_attempt_status checkpoint \<noteq> attempt_status_value UNKNOWN"

definition suspend_unknown_execution_for_probe ::
  "string \<Rightarrow> execution_checkpoint \<Rightarrow> (db, unit) prog" where
  "suspend_unknown_execution_for_probe organization_id checkpoint s =
     (case (find_task (ck_task_id checkpoint) organization_id s,
            find_step (ck_task_id checkpoint) (ck_step_id checkpoint) organization_id s,
            find_attempt (ck_attempt_id checkpoint) s) of
        (Some t, Some p, Some attempt) \<Rightarrow>
          if checkpoint_substituted attempt checkpoint
          then (Raise ResumeExecutionError ''Result-probe suspension checkpoint was substituted'', s)
          else if tk_status t \<noteq> Task_running \<or> st_status p \<noteq> Step_running
          then (Raise ResumeExecutionError
                  ''Only a running task and step may suspend for a result probe'', s)
          else (Ok (), set_step_status p Step_pending_result_probe
                         (set_task_status t Task_pending_result_probe s))
      | _ \<Rightarrow> (Raise ResumeExecutionError
              ''Result-probe suspension is missing exact correlated state'', s))"

text \<open>
  One scheduler cycle up to the hand-over: the scan is committed as one transaction, then the
  work is listed; with execution disabled nothing is handed over. \<open>batch\<close> and \<open>enabled\<close> are
  the two settings.
\<close>

definition run_approval_recovery_cycle :: "int \<Rightarrow> bool \<Rightarrow> (db, resuming_task list) prog" where
  "run_approval_recovery_cycle batch enabled =
     prog_bind (transaction (prepare_approved_pauses_for_reobservation None batch)) (\<lambda>_ s.
       (case discover_resuming_tasks batch s of
          Inl e \<Rightarrow> (Inl e, s)
        | Inr work \<Rightarrow> (Ok (if enabled then work else []), s)))"

end
