(* ===== verification/ApprovalLaws.thy ===== *)
theory ApprovalLaws
  imports Pauses
begin

text \<open>
  What the approval services guarantee: a pending action only moves along its
  lifecycle and each change raises its row version, decisions and claims are
  made once, native task and step statuses move along Skyvern's transition
  tables, and the recovery scan consumes what it resumes.
\<close>

section \<open>Evolution of pending actions\<close>

definition evolved :: "pending_row \<Rightarrow> pending_row \<Rightarrow> bool" where
  "evolved m m' \<longleftrightarrow>
     pn_pending_action_id m' = pn_pending_action_id m \<and> pn_task_id m' = pn_task_id m \<and>
     pn_step_id m' = pn_step_id m \<and> pn_organization_id m' = pn_organization_id m \<and>
     pn_action_fingerprint m' = pn_action_fingerprint m \<and>
     pn_observation_hash m' = pn_observation_hash m \<and>
     pending_moves\<^sup>*\<^sup>* (pn_status m) (pn_status m') \<and>
     (\<forall>a. pn_approval_id m = Some a \<longrightarrow> pn_approval_id m' = Some a) \<and>
     (m' = m \<or> pn_row_version m < pn_row_version m')"

lemma evolved_refl [simp]: "evolved m m"
  by (simp add: evolved_def)

lemma evolved_trans: "evolved a b \<Longrightarrow> evolved b c \<Longrightarrow> evolved a c"
  unfolding evolved_def by (auto intro: rtranclp_trans)

definition pendings_evolve :: "db \<Rightarrow> db \<Rightarrow> bool" where
  "pendings_evolve s t \<longleftrightarrow>
     (\<forall>i m. find_pending i s = Some m \<longrightarrow> (\<exists>m'. find_pending i t = Some m' \<and> evolved m m'))"

lemma reflp_pendings_evolve: "reflp pendings_evolve"
  by (auto simp: reflp_def pendings_evolve_def)

lemma transp_pendings_evolve: "transp pendings_evolve"
proof (rule transpI)
  fix a b c
  assume ab: "pendings_evolve a b" and bc: "pendings_evolve b c"
  show "pendings_evolve a c"
    unfolding pendings_evolve_def
  proof (intro allI impI)
    fix i m assume "find_pending i a = Some m"
    with ab obtain m1 where "find_pending i b = Some m1" "evolved m m1"
      by (auto simp: pendings_evolve_def)
    with bc obtain m2 where "find_pending i c = Some m2" "evolved m1 m2"
      by (auto simp: pendings_evolve_def)
    with \<open>evolved m m1\<close> show "\<exists>m'. find_pending i c = Some m' \<and> evolved m m'"
      by (blast intro: evolved_trans)
  qed
qed

lemma evolve_same: "pending_actions t = pending_actions s \<Longrightarrow> pendings_evolve s t"
  by (auto simp: pendings_evolve_def find_pending_def)

lemma evolve_write:
  assumes "find_pending i s = Some m" and "evolved m m'"
  shows "pendings_evolve s (write_pending m' s)"
proof -
  have key: "pn_pending_action_id m' = i"
    using assms pendings.lookup_key by (simp add: evolved_def)
  show ?thesis
    using assms key unfolding pendings_evolve_def by (auto simp: pendings.lookup_store)
qed

lemma evolve_add:
  assumes "find_pending (pn_pending_action_id m) s = None"
  shows "pendings_evolve s (add_pending m s)"
  using assms unfolding pendings_evolve_def by (auto simp: pendings.lookup_insert)

lemma other_tables_pendings [simp]:
  "pending_actions (write_approval a s) = pending_actions s"
  "pending_actions (add_approval a s) = pending_actions s"
  "pending_actions (set_task_status t st s) = pending_actions s"
  "pending_actions (set_step_status p sp s) = pending_actions s"
  by (simp_all add: write_approval_def add_approval_def set_task_status_def set_step_status_def)

lemma find_pending_other_tables [simp]:
  "find_pending i (write_approval a s) = find_pending i s"
  "find_pending i (add_approval a s) = find_pending i s"
  "find_pending i (set_task_status t st s) = find_pending i s"
  "find_pending i (set_step_status p sp s) = find_pending i s"
  by (simp_all add: find_pending_def)

section \<open>Case analyses of the services\<close>

lemma create_pending_cases:
  assumes "create_pending_action i now cr t st c org a intent oh d ttl s = (r, s')"
  obtains (refused) e where "r = Inl e" "s' = s"
    | (created) m where "s' = add_pending m s" "r = Inr (pending_to_contract m)"
        "find_pending i s = None" "pn_pending_action_id m = i" "pn_task_id m = t" "pn_step_id m = st"
        "pn_organization_id m = org" "pn_contract_id m = c"
        "pn_action_fingerprint m = ai_action_fingerprint intent"
        "pn_observation_hash m = oh" "pn_status m = PENDING" "pn_row_version m = 1"
        "pn_approval_id m = None" "pn_action_payload m = redacted_action_payload a"
        "pn_expires_at m = Some (now + seconds ttl)"
        "pd_outcome d = REQUIRE_APPROVAL" "0 < ttl" "oh \<noteq> []"
        "\<forall>x \<in> set (pending_actions s). \<not> (pn_task_id x = t \<and> pn_step_id x = st \<and> unresolved x)"
  using assms unfolding create_pending_action_def
  by (auto simp: Let_def first_where_None split: if_splits option.splits)

lemma require_pending_cases:
  assumes "require_pending m v now s = (r, s')"
  obtains (refused) e where "r = Inl e" "s' = s"
    | (expired) x where "r = Raise PendingActionError ''Pending action has expired''"
        "s' = write_pending (expired_row m) s" "pn_status m = PENDING" "pn_row_version m = v"
        "pn_expires_at m = Some x" "x < now"
    | (live) x where "r = Ok ()" "s' = s" "pn_status m = PENDING" "pn_row_version m = v"
        "pn_expires_at m = Some x" "now \<le> x"
  using assms unfolding require_pending_def
  by (auto simp: not_less split: if_splits option.splits)

lemma get_pending_cases:
  assumes "get_pending_for_update i s = (r, s')"
  obtains (missing) "find_pending i s = None" "\<exists>msg. r = Raise PendingActionError msg" "s' = s"
    | (found) m where "find_pending i s = Some m" "r = Ok m" "s' = s"
  using assms unfolding get_pending_for_update_def by (auto split: option.splits)

text \<open>The three transitions share one shape: refused, expired on the way, or one write.\<close>

lemma attach_cases:
  assumes "attach_approval now i a v s = (r, s')"
  obtains (refused) e where "r = Inl e" "s' = s"
    | (expired) m e where "r = Inl e" "find_pending i s = Some m" "pn_status m = PENDING"
        "s' = write_pending (expired_row m) s"
    | (attached) m where "find_pending i s = Some m" "pn_status m = PENDING" "pn_row_version m = v"
        "pn_approval_id m = None" "a \<noteq> []" "\<forall>x \<in> set (pending_actions s). pn_approval_id x \<noteq> Some a"
        "s' = write_pending (m\<lparr>pn_approval_id := Some a, pn_row_version := v + 1\<rparr>) s"
        "r = Ok (pending_to_contract (m\<lparr>pn_approval_id := Some a, pn_row_version := v + 1\<rparr>))"
proof -
  note run = assms [unfolded attach_approval_def prog_bind_def get_pending_for_update_def]
  show ?thesis
  proof (cases "find_pending i s")
    case None
    with run have "(\<exists>e. r = Inl e) \<and> s' = s" by (auto split: if_splits)
    with that(1) show ?thesis by blast
  next
    case (Some m)
    obtain q w where req: "require_pending m v now s = (q, w)" by fastforce
    from req show ?thesis
    proof (cases rule: require_pending_cases)
      case (refused e)
      with run Some req have "(\<exists>e. r = Inl e) \<and> s' = s" by (auto split: if_splits)
      with that(1) show ?thesis by blast
    next
      case (expired x)
      with run Some req have "(\<exists>e. r = Inl e) \<and> (s' = s \<or> s' = write_pending (expired_row m) s)"
        by (auto split: if_splits)
      with Some expired that(1,2) show ?thesis by blast
    next
      case (live x)
      show ?thesis
      proof (cases "a = [] \<or> pn_approval_id m \<noteq> None \<or>
          (\<exists>r \<in> set (pending_actions s). pn_approval_id r = Some a)")
        case True
        with run Some req live have "(\<exists>e. r = Inl e) \<and> s' = s" by (auto split: if_splits)
        with that(1) show ?thesis by blast
      next
        case False
        with run Some req live show ?thesis by (intro that(3)) (auto simp: Let_def)
      qed
    qed
  qed
qed

lemma record_cases:
  assumes "record_approval_decision i a ok v now s = (r, s')"
  obtains (refused) e where "r = Inl e" "s' = s"
    | (expired) m e where "r = Inl e" "find_pending i s = Some m" "pn_status m = PENDING"
        "s' = write_pending (expired_row m) s"
    | (decided) m x where "find_pending i s = Some m" "pn_status m = PENDING" "pn_row_version m = v"
        "pn_approval_id m = Some a" "pn_expires_at m = Some x" "now \<le> x"
        "s' = write_pending (m\<lparr>pn_status := (if ok then APPROVED else REJECTED),
                pn_row_version := v + 1\<rparr>) s"
        "r = Ok (pending_to_contract (m\<lparr>pn_status := (if ok then APPROVED else REJECTED),
                pn_row_version := v + 1\<rparr>))"
proof -
  note run = assms [unfolded record_approval_decision_def prog_bind_def get_pending_for_update_def]
  show ?thesis
  proof (cases "find_pending i s")
    case None
    with run have "(\<exists>e. r = Inl e) \<and> s' = s" by auto
    with that(1) show ?thesis by blast
  next
    case (Some m)
    obtain q w where req: "require_pending m v now s = (q, w)" by fastforce
    from req show ?thesis
    proof (cases rule: require_pending_cases)
      case (refused e)
      with run Some req have "(\<exists>e. r = Inl e) \<and> s' = s" by auto
      with that(1) show ?thesis by blast
    next
      case (expired x)
      with run Some req have "(\<exists>e. r = Inl e) \<and> s' = write_pending (expired_row m) s" by auto
      with Some expired that(2) show ?thesis by blast
    next
      case (live x)
      show ?thesis
      proof (cases "pn_approval_id m = Some a")
        case False
        with run Some req live have "(\<exists>e. r = Inl e) \<and> s' = s" by auto
        with that(1) show ?thesis by blast
      next
        case True
        with run Some req live show ?thesis by (intro that(3)) (auto simp: Let_def)
      qed
    qed
  qed
qed

lemma invalidate_cases:
  assumes "invalidate_approved_action_for_reobservation i v s = (r, s')"
  obtains (refused) msg where "r = Raise PendingActionError msg" "s' = s"
      "\<nexists>m. find_pending i s = Some m \<and> pn_status m = APPROVED \<and> pn_row_version m = v"
    | (consumed) m where "find_pending i s = Some m" "pn_status m = APPROVED" "pn_row_version m = v"
        "s' = write_pending (m\<lparr>pn_status := INVALIDATED, pn_row_version := v + 1\<rparr>) s"
        "r = Ok (pending_to_contract (m\<lparr>pn_status := INVALIDATED, pn_row_version := v + 1\<rparr>))"
  using assms unfolding invalidate_approved_action_for_reobservation_def prog_bind_def
    get_pending_for_update_def
  by (auto simp: Let_def split: if_splits option.splits)

section \<open>Every service lets pending actions evolve\<close>

lemma evolved_expired: "pn_status m = PENDING \<Longrightarrow> evolved m (expired_row m)"
  by (auto simp: evolved_def expired_row_def)

lemma evolved_decided:
  "pn_status m = PENDING \<Longrightarrow>
   evolved m (m\<lparr>pn_status := (if ok then APPROVED else REJECTED), pn_row_version := pn_row_version m + 1\<rparr>)"
  by (auto simp: evolved_def)

lemma evolved_attached:
  "pn_approval_id m = None \<Longrightarrow>
   evolved m (m\<lparr>pn_approval_id := Some a, pn_row_version := pn_row_version m + 1\<rparr>)"
  by (auto simp: evolved_def)

lemma evolved_consumed:
  "pn_status m = APPROVED \<Longrightarrow>
   evolved m (m\<lparr>pn_status := INVALIDATED, pn_row_version := pn_row_version m + 1\<rparr>)"
  by (auto simp: evolved_def)

lemmas evolve_intros =
  evolve_write evolve_add evolved_expired evolved_decided evolved_attached evolved_consumed

lemma create_pending_evolves:
  "guarantees pendings_evolve (create_pending_action i now cr t st c org a intent oh d ttl)"
proof (rule guaranteesI)
  fix s r u assume "create_pending_action i now cr t st c org a intent oh d ttl s = (r, u)"
  then show "pendings_evolve s u"
    by (cases rule: create_pending_cases) (auto simp: evolve_same intro: evolve_add)
qed

lemma attach_evolves: "guarantees pendings_evolve (attach_approval now i a v)"
proof (rule guaranteesI)
  fix s r u assume "attach_approval now i a v s = (r, u)"
  then show "pendings_evolve s u"
    by (cases rule: attach_cases) (auto simp: evolve_same intro: evolve_intros)
qed

lemma record_evolves: "guarantees pendings_evolve (record_approval_decision i a ok v now)"
proof (rule guaranteesI)
  fix s r u assume "record_approval_decision i a ok v now s = (r, u)"
  then show "pendings_evolve s u"
  proof (cases rule: record_cases)
    case (decided m x)
    with evolved_decided [of m ok] show ?thesis by (auto intro: evolve_write)
  qed (auto simp: evolve_same intro: evolve_intros)
qed

lemma invalidate_evolves:
  "guarantees pendings_evolve (invalidate_approved_action_for_reobservation i v)"
proof (rule guaranteesI)
  fix s r u assume "invalidate_approved_action_for_reobservation i v s = (r, u)"
  then show "pendings_evolve s u"
    by (cases rule: invalidate_cases) (auto simp: evolve_same intro: evolve_intros)
qed

lemma decide_request_cases:
  assumes "decide_approval_request a org u ok note now s = (r, s')"
  obtains (refused) e where "r = Inl e" "s' = s"
    | (unlinked) ap where "find_approval a s = Some ap" "ar_organization_id ap = org"
        "ar_status ap = Approval_PENDING" "ar_requester_user_id ap \<noteq> Some u"
        "\<forall>x \<in> set (pending_actions s). pn_approval_id x \<noteq> Some a"
        "r = Ok (decided_request ok u note now ap)"
        "s' = write_approval (decided_request ok u note now ap) s"
    | (linked) ap p q where "find_approval a s = Some ap" "ar_organization_id ap = org"
        "ar_status ap = Approval_PENDING" "ar_requester_user_id ap \<noteq> Some u"
        "p \<in> set (pending_actions s)" "pn_approval_id p = Some a"
        "record_approval_decision (pn_pending_action_id p) a ok (pn_row_version p) now
           (write_approval (decided_request ok u note now ap) s) = (q, s')"
        "r = (case q of Inl e \<Rightarrow> Inl e | Inr _ \<Rightarrow> Ok (decided_request ok u note now ap))"
proof (cases "find_approval a s")
  case None
  with assms that(1) show ?thesis by (auto simp: decide_approval_request_def)
next
  case (Some ap)
  show ?thesis
  proof (cases "ar_organization_id ap = org \<and> ar_status ap = Approval_PENDING \<and>
      ar_requester_user_id ap \<noteq> Some u")
    case False
    with assms Some that(1) show ?thesis
      by (auto simp: decide_approval_request_def split: if_splits)
  next
    case guards: True
    let ?t = "write_approval (decided_request ok u note now ap) s"
    show ?thesis
    proof (cases "first_where (\<lambda>r. pn_approval_id r = Some a) (pending_actions s)")
      case None
      with assms Some guards have "r = Ok (decided_request ok u note now ap)" "s' = ?t"
        by (auto simp: decide_approval_request_def Let_def)
      with Some guards None show ?thesis
        by (intro that(2)) (auto simp: first_where_None)
    next
      case found: (Some p)
      obtain q w where q: "record_approval_decision (pn_pending_action_id p) a ok (pn_row_version p) now ?t
          = (q, w)" by (cases "record_approval_decision (pn_pending_action_id p) a ok (pn_row_version p) now ?t")
      with assms Some guards found have
        "r = (case q of Inl e \<Rightarrow> Inl e | Inr _ \<Rightarrow> Ok (decided_request ok u note now ap))" "s' = w"
        by (auto simp: decide_approval_request_def Let_def prog_bind_def split: sum.splits)
      with Some guards found q show ?thesis
        by (intro that(3)) (auto dest: first_where_Some)
    qed
  qed
qed

lemma decide_request_evolves: "guarantees pendings_evolve (decide_approval_request a org u ok note now)"
proof (rule guaranteesI)
  fix s r t assume "decide_approval_request a org u ok note now s = (r, t)"
  then show "pendings_evolve s t"
  proof (cases rule: decide_request_cases)
    case (linked ap p q)
    let ?w = "write_approval (decided_request ok u note now ap) s"
    have "pendings_evolve s ?w" by (simp add: evolve_same)
    moreover have "pendings_evolve ?w t"
      using linked(7) record_evolves by (rule guaranteesD [rotated])
    ultimately show ?thesis using transp_pendings_evolve by (blast dest: transpD)
  qed (simp_all add: evolve_same)
qed

section \<open>Native task and step statuses\<close>

lemma load_cases:
  assumes "load_task_and_step t st org s = (r, s')"
  obtains (missing) msg where "r = Raise ApprovalPauseError msg" "s' = s"
    | (loaded) tk p where "find_task t org s = Some tk" "find_step t st org s = Some p"
        "r = Ok (tk, p)" "s' = s"
  using assms unfolding load_task_and_step_def by (auto split: option.splits)

lemma pause_cases:
  assumes "pause_for_approval t st org pend s = (r, s')"
  obtains (refused) msg where "r = Raise ApprovalPauseError msg" "s' = s"
    | (paused) tk p where "find_task t org s = Some tk" "find_step t st org s = Some p"
        "tk_status tk = Task_running" "st_status p = Step_running"
        "pa_task_id pend = t" "pa_step_id pend = st" "pa_status pend = PENDING"
        "s' = set_step_status p Step_pending_approval (set_task_status tk Task_pending_approval s)"
        "r = Ok \<lparr>ps_task_id = t, ps_step_id = st, ps_task_status = Task_pending_approval,
               ps_step_status = Step_pending_approval, ps_pending_action = pend\<rparr>"
proof (cases "pa_task_id pend \<noteq> t \<or> pa_step_id pend \<noteq> st \<or> pa_status pend \<noteq> PENDING")
  case True
  with assms that(1) show ?thesis
    by (auto simp: pause_for_approval_def require_matching_pending_action_def split: if_splits)
next
  case False
  then have "require_matching_pending_action pend t st = Ok ()"
    by (simp add: require_matching_pending_action_def)
  with assms have "prog_bind (load_task_and_step t st org) (\<lambda>(tk, p) u.
          if tk_status tk \<noteq> Task_running \<or> st_status p \<noteq> Step_running
          then (Raise ApprovalPauseError ''Only running task and step can enter pending approval'', u)
          else (Ok \<lparr>ps_task_id = t, ps_step_id = st,
                    ps_task_status = Task_pending_approval, ps_step_status = Step_pending_approval,
                    ps_pending_action = pend\<rparr>,
                set_step_status p Step_pending_approval
                  (set_task_status tk Task_pending_approval u))) s = (r, s')"
    by (simp add: pause_for_approval_def)
  then show ?thesis
  proof (cases rule: prog_bind_cases)
    case (raised e)
    from raised(1) show ?thesis
      by (cases rule: load_cases) (use raised that(1) in auto)
  next
    case (returned x u)
    from returned(1) obtain tk p where ld: "find_task t org s = Some tk" "find_step t st org s = Some p"
      "x = (tk, p)" "u = s" by (auto elim: load_cases)
    with returned(2) False that show ?thesis by (auto split: if_splits)
  qed
qed

lemma begin_cases:
  assumes "begin_reobservation_after_approval t st org i v s = (r, s')"
  obtains (refused) msg where "r = Raise ApprovalPauseError msg" "s' = s"
      "\<nexists>m tk p. find_pending i s = Some m \<and> pn_status m = APPROVED \<and> pn_row_version m = v \<and>
        pn_task_id m = t \<and> pn_step_id m = st \<and>
        find_task t org s = Some tk \<and> find_step t st org s = Some p \<and>
        tk_status tk = Task_pending_approval \<and> st_status p = Step_pending_approval"
    | (resumed) m tk p where "find_pending i s = Some m" "pn_status m = APPROVED"
        "pn_row_version m = v" "pn_task_id m = t" "pn_step_id m = st"
        "find_task t org s = Some tk" "find_step t st org s = Some p"
        "tk_status tk = Task_pending_approval" "st_status p = Step_pending_approval"
        "s' = set_step_status p Step_resuming (set_task_status tk Task_resuming
           (write_pending (m\<lparr>pn_status := INVALIDATED, pn_row_version := v + 1\<rparr>) s))"
        "r = Ok \<lparr>ps_task_id = t, ps_step_id = st, ps_task_status = Task_resuming,
           ps_step_status = Step_resuming,
           ps_pending_action = pending_to_contract (m\<lparr>pn_status := INVALIDATED, pn_row_version := v + 1\<rparr>)\<rparr>"
proof (cases "\<exists>m. find_pending i s = Some m \<and> pn_status m = APPROVED \<and> pn_row_version m = v \<and>
    pn_task_id m = t \<and> pn_step_id m = st")
  case False
  with assms that(1) show ?thesis
    by (auto simp: begin_reobservation_after_approval_def split: if_splits option.splits)
next
  case True
  then obtain m where m: "find_pending i s = Some m" "pn_status m = APPROVED" "pn_row_version m = v"
    "pn_task_id m = t" "pn_step_id m = st" by blast
  obtain q w where load: "load_task_and_step t st org s = (q, w)" by fastforce
  from load show ?thesis
  proof (cases rule: load_cases)
    case (missing msg)
    with assms m load show ?thesis
      by (intro that(1))
         (auto simp: begin_reobservation_after_approval_def prog_bind_def load_task_and_step_def
               split: option.splits)
  next
    case (loaded tk p)
    have inv: "invalidate_approved_action_for_reobservation i v s =
        (Ok (pending_to_contract (m\<lparr>pn_status := INVALIDATED, pn_row_version := v + 1\<rparr>)),
         write_pending (m\<lparr>pn_status := INVALIDATED, pn_row_version := v + 1\<rparr>) s)"
      using m by (simp add: invalidate_approved_action_for_reobservation_def prog_bind_def
          get_pending_for_update_def Let_def)
    show ?thesis
    proof (cases "tk_status tk = Task_pending_approval \<and> st_status p = Step_pending_approval")
      case True
      with assms m load loaded inv show ?thesis
        by (intro that(2)) (auto simp: begin_reobservation_after_approval_def prog_bind_def)
    next
      case False
      with assms m load loaded show ?thesis
        by (intro that(1)) (auto simp: begin_reobservation_after_approval_def prog_bind_def)
    qed
  qed
qed

lemma pause_evolves: "guarantees pendings_evolve (pause_for_approval t st org pend)"
proof (rule guaranteesI)
  fix s r u assume "pause_for_approval t st org pend s = (r, u)"
  then show "pendings_evolve s u"
    by (cases rule: pause_cases) (auto simp: evolve_same)
qed

lemma begin_evolves: "guarantees pendings_evolve (begin_reobservation_after_approval t st org i v)"
proof (rule guaranteesI)
  fix s r u assume "begin_reobservation_after_approval t st org i v s = (r, u)"
  then show "pendings_evolve s u"
  proof (cases rule: begin_cases)
    case (resumed m tk p)
    let ?w = "write_pending (m\<lparr>pn_status := INVALIDATED, pn_row_version := v + 1\<rparr>) s"
    have "pendings_evolve s ?w"
      using resumed(1-3) evolved_consumed [of m] by (auto intro: evolve_write)
    moreover have "pendings_evolve ?w u" using resumed(10) by (simp add: evolve_same)
    ultimately show ?thesis using transp_pendings_evolve by (blast dest: transpD)
  qed (simp add: evolve_same)
qed

lemma create_pause_evolves:
  "guarantees pendings_evolve (create_approval_pause pid ak now cr an t st org c dept a intent oh d rt ru bl sp ttl)"
  unfolding create_approval_pause_def Let_def
  by (intro guarantees_bind transp_pendings_evolve create_pending_evolves attach_evolves pause_evolves)
     (auto intro!: guaranteesI evolve_same split: if_splits)

lemma resume_each_evolves: "guarantees pendings_evolve (resume_each ps)"
proof (induction ps)
  case Nil
  then show ?case by (auto intro!: guaranteesI evolve_same)
next
  case (Cons p ps)
  show ?case
  proof (rule guaranteesI)
    fix s r u assume run: "resume_each (p # ps) s = (r, u)"
    obtain q t where b: "begin_reobservation_after_approval (pn_task_id p) (pn_step_id p)
        (pn_organization_id p) (pn_pending_action_id p) (pn_row_version p) s = (q, t)" by fastforce
    have st: "pendings_evolve s t" using guaranteesD [OF begin_evolves b] .
    obtain q' u' where rest: "resume_each ps t = (q', u')" by fastforce
    have tu: "pendings_evolve t u'" using guaranteesD [OF Cons.IH rest] .
    from run b rest have "u = t \<or> u = u'"
      by (auto split: sum.splits if_splits)
    with st tu transp_pendings_evolve show "pendings_evolve s u" by (blast dest: transpD)
  qed
qed

lemma prepare_evolves: "guarantees pendings_evolve (prepare_approved_pauses_for_reobservation org n)"
proof (rule guaranteesI)
  fix s r u assume "prepare_approved_pauses_for_reobservation org n s = (r, u)"
  then show "pendings_evolve s u"
    by (auto simp: prepare_approved_pauses_for_reobservation_def evolve_same
             split: if_splits dest: guaranteesD [OF resume_each_evolves])
qed

section \<open>Native status machines\<close>

definition native_step :: "db \<Rightarrow> db \<Rightarrow> bool" where
  "native_step s t \<longleftrightarrow>
     list_all2 (\<lambda>a b. tk_task_id b = tk_task_id a \<and> tk_organization_id b = tk_organization_id a \<and>
                  task_can_update_to\<^sup>*\<^sup>* (tk_status a) (tk_status b)) (tasks s) (tasks t) \<and>
     list_all2 (\<lambda>a b. st_step_id b = st_step_id a \<and> st_organization_id b = st_organization_id a \<and>
                  st_task_id b = st_task_id a \<and>
                  step_can_update_to\<^sup>*\<^sup>* (st_status a) (st_status b)) (steps s) (steps t)"

text \<open>Primary keys of Skyvern's tables are unique, and no service adds or renames a row.\<close>

definition native_keys :: "db \<Rightarrow> bool" where
  "native_keys s = (distinct (map tk_task_id (tasks s)) \<and> distinct (map st_step_id (steps s)))"

definition native_legal :: "db \<Rightarrow> db \<Rightarrow> bool" where
  "native_legal s t = (native_keys s \<longrightarrow> native_keys t \<and> native_step s t)"

lemma native_step_refl: "native_step s s"
  by (auto simp: native_step_def intro: list_all2_refl)

lemma native_step_trans: "native_step a b \<Longrightarrow> native_step b c \<Longrightarrow> native_step a c"
  unfolding native_step_def
  by (elim conjE, intro conjI; erule (1) list_all2_trans [rotated])
     (auto intro: rtranclp_trans)

lemma transp_native_legal: "transp native_legal"
  unfolding native_legal_def by (auto intro!: transpI intro: native_step_trans)

lemma reflp_native_legal: "reflp native_legal"
  by (simp add: reflp_def native_legal_def native_step_refl)

lemma native_same: "tasks t = tasks s \<Longrightarrow> steps t = steps s \<Longrightarrow> native_legal s t"
  using native_step_refl [of s] by (simp add: native_legal_def native_keys_def native_step_def)

lemma list_all2_write_row:
  assumes "distinct (map key rows)" and "r0 \<in> set rows" and "key r = key r0"
    and "P r0 r" and "\<And>x. P x x"
  shows "list_all2 P rows (write_row key r rows)"
  unfolding write_row_def list_all2_map2
proof (rule list.rel_refl_strong)
  fix x assume "x \<in> set rows"
  with assms show "P x (if key x = key r then r else x)"
    by (auto dest: inj_onD [OF distinct_map [THEN iffD1, THEN conjunct2]])
qed

lemma find_task_row: "find_task t org s = Some tk \<Longrightarrow>
    tk \<in> set (tasks s) \<and> tk_task_id tk = t \<and> tk_organization_id tk = Some org"
  unfolding find_task_def by (drule first_where_Some) simp

lemma find_step_row: "find_step t st org s = Some p \<Longrightarrow>
    p \<in> set (steps s) \<and> st_step_id p = st \<and> st_task_id p = Some t \<and> st_organization_id p = Some org"
  unfolding find_step_def by (drule first_where_Some) simp

text \<open>A pair of status writes along the transition tables.\<close>

lemma native_pair:
  assumes "tk \<in> set (tasks s)" and "p \<in> set (steps s)"
    and "task_can_update_to\<^sup>*\<^sup>* (tk_status tk) a" and "step_can_update_to\<^sup>*\<^sup>* (st_status p) b"
    and "tasks w = tasks s" and "steps w = steps s"
  shows "native_legal s (set_step_status p b (set_task_status tk a w))"
  unfolding native_legal_def
proof
  assume keys: "native_keys s"
  let ?t = "set_step_status p b (set_task_status tk a w)"
  have tables: "tasks ?t = write_row tk_task_id (tk\<lparr>tk_status := a\<rparr>) (tasks s)"
    "steps ?t = write_row st_step_id (p\<lparr>st_status := b\<rparr>) (steps s)"
    using assms by (simp_all add: set_step_status_def set_task_status_def)
  have "native_keys ?t" using keys by (simp add: native_keys_def tables map_key_write_row)
  moreover have "native_step s ?t"
    unfolding native_step_def tables
    using keys assms(1-4) unfolding native_keys_def
    by (intro conjI list_all2_write_row [where ?r0.0 = tk] list_all2_write_row [where ?r0.0 = p]) auto
  ultimately show "native_keys ?t \<and> native_step s ?t" by simp
qed

lemma native_task:
  assumes "tk \<in> set (tasks s)" and "task_can_update_to\<^sup>*\<^sup>* (tk_status tk) a"
  shows "native_legal s (set_task_status tk a s)"
  unfolding native_legal_def
proof
  assume keys: "native_keys s"
  let ?t = "set_task_status tk a s"
  have tables: "tasks ?t = write_row tk_task_id (tk\<lparr>tk_status := a\<rparr>) (tasks s)" "steps ?t = steps s"
    by (simp_all add: set_task_status_def)
  have "native_keys ?t" using keys by (simp add: native_keys_def tables map_key_write_row)
  moreover have "native_step s ?t"
    unfolding native_step_def tables
    using keys assms unfolding native_keys_def
    by (intro conjI list_all2_write_row [where ?r0.0 = tk]) (auto intro: list_all2_refl)
  ultimately show "native_keys ?t \<and> native_step s ?t" by simp
qed

lemma native_tables [simp]:
  "tasks (write_pending m s) = tasks s" "steps (write_pending m s) = steps s"
  "tasks (add_pending m s) = tasks s" "steps (add_pending m s) = steps s"
  "tasks (write_approval a s) = tasks s" "steps (write_approval a s) = steps s"
  "tasks (add_approval a s) = tasks s" "steps (add_approval a s) = steps s"
  by (simp_all add: write_pending_def add_pending_def write_approval_def add_approval_def)

lemmas pair_moves = r_into_rtranclp [of task_can_update_to] r_into_rtranclp [of step_can_update_to]

lemma pause_native: "guarantees native_legal (pause_for_approval t st org pend)"
proof (rule guaranteesI)
  fix s r u assume "pause_for_approval t st org pend s = (r, u)"
  then show "native_legal s u"
  proof (cases rule: pause_cases)
    case (paused tk p)
    then show ?thesis
      by (auto intro!: native_pair pair_moves simp: task_can_update_to_def step_can_update_to_def
               dest: find_task_row find_step_row)
  qed (simp add: native_same)
qed

lemma begin_native: "guarantees native_legal (begin_reobservation_after_approval t st org i v)"
proof (rule guaranteesI)
  fix s r u assume "begin_reobservation_after_approval t st org i v s = (r, u)"
  then show "native_legal s u"
  proof (cases rule: begin_cases)
    case (resumed m tk p)
    then show ?thesis
      by (auto intro!: native_pair pair_moves simp: task_can_update_to_def step_can_update_to_def
               dest: find_task_row find_step_row)
  qed (simp add: native_same)
qed

lemma claim_cases:
  assumes "claim_resuming_task_for_execution t st org s = (r, s')"
  obtains (refused) msg where "r = Raise ResumeExecutionError msg" "s' = s"
    | (claimed) tk p where "find_task t org s = Some tk" "find_step t st org s = Some p"
        "st_status p = Step_resuming" "tk_status tk \<in> {Task_resuming, Task_running}"
        "r = Ok ()" "s' = set_task_status tk Task_running s"
  using assms unfolding claim_resuming_task_for_execution_def
  by (auto split: option.splits if_splits)

lemma suspend_cases:
  assumes "suspend_unknown_execution_for_probe org ck s = (r, s')"
  obtains (refused) msg where "r = Raise ResumeExecutionError msg" "s' = s"
    | (suspended) tk p a where "find_task (ck_task_id ck) org s = Some tk"
        "find_step (ck_task_id ck) (ck_step_id ck) org s = Some p"
        "find_attempt (ck_attempt_id ck) s = Some a" "\<not> checkpoint_substituted a ck"
        "tk_status tk = Task_running" "st_status p = Step_running" "r = Ok ()"
        "s' = set_step_status p Step_pending_result_probe (set_task_status tk Task_pending_result_probe s)"
  using assms unfolding suspend_unknown_execution_for_probe_def
  by (auto split: option.splits if_splits)

lemma claim_native: "guarantees native_legal (claim_resuming_task_for_execution t st org)"
proof (rule guaranteesI)
  fix s r u assume "claim_resuming_task_for_execution t st org s = (r, u)"
  then show "native_legal s u"
  proof (cases rule: claim_cases)
    case (claimed tk p)
    then have "task_can_update_to\<^sup>*\<^sup>* (tk_status tk) Task_running"
      by (auto intro: r_into_rtranclp simp: task_can_update_to_def)
    with claimed show ?thesis by (auto intro: native_task dest: find_task_row)
  qed (simp add: native_same)
qed

lemma suspend_native: "guarantees native_legal (suspend_unknown_execution_for_probe org ck)"
proof (rule guaranteesI)
  fix s r u assume "suspend_unknown_execution_for_probe org ck s = (r, u)"
  then show "native_legal s u"
  proof (cases rule: suspend_cases)
    case (suspended tk p a)
    then show ?thesis
      by (auto intro!: native_pair pair_moves simp: task_can_update_to_def step_can_update_to_def
               dest: find_task_row find_step_row)
  qed (simp add: native_same)
qed

section \<open>Runs of the approval services\<close>

text \<open>One call of any service, with any arguments, returning or raising.\<close>

inductive approval_step :: "db \<Rightarrow> db \<Rightarrow> bool" where
  create: "create_pending_action i now cr t st c org a intent oh d ttl s = (r1, s') \<Longrightarrow> approval_step s s'"
| attach: "attach_approval now i ap v s = (r2, s') \<Longrightarrow> approval_step s s'"
| decided: "record_approval_decision i ap ok v now s = (r2, s') \<Longrightarrow> approval_step s s'"
| invalidate: "invalidate_approved_action_for_reobservation i v s = (r2, s') \<Longrightarrow> approval_step s s'"
| decide: "decide_approval_request ap org user ok note now s = (r3, s') \<Longrightarrow> approval_step s s'"
| pause: "pause_for_approval t st org pend s = (r4, s') \<Longrightarrow> approval_step s s'"
| create_pause: "create_approval_pause i ak now cr an t st org c dept a intent oh d rt ru bl sp ttl s
     = (r4, s') \<Longrightarrow> approval_step s s'"
| resume: "begin_reobservation_after_approval t st org i v s = (r4, s') \<Longrightarrow> approval_step s s'"
| scan: "prepare_approved_pauses_for_reobservation org_filter n s = (r5, s') \<Longrightarrow> approval_step s s'"
| claim: "claim_resuming_task_for_execution t st org s = (r6, s') \<Longrightarrow> approval_step s s'"
| suspend: "suspend_unknown_execution_for_probe org ck s = (r6, s') \<Longrightarrow> approval_step s s'"

lemma claim_evolves: "guarantees pendings_evolve (claim_resuming_task_for_execution t st org)"
proof (rule guaranteesI)
  fix s r u assume "claim_resuming_task_for_execution t st org s = (r, u)"
  then show "pendings_evolve s u"
    by (cases rule: claim_cases) (auto simp: evolve_same)
qed

lemma suspend_evolves: "guarantees pendings_evolve (suspend_unknown_execution_for_probe org ck)"
proof (rule guaranteesI)
  fix s r u assume "suspend_unknown_execution_for_probe org ck s = (r, u)"
  then show "pendings_evolve s u"
    by (cases rule: suspend_cases) (auto simp: evolve_same)
qed

lemmas service_evolves =
  create_pending_evolves attach_evolves record_evolves invalidate_evolves decide_request_evolves
  pause_evolves create_pause_evolves begin_evolves prepare_evolves claim_evolves suspend_evolves

lemma approval_step_evolves: "approval_step s t \<Longrightarrow> pendings_evolve s t"
  by (cases rule: approval_step.cases) (auto dest: service_evolves [THEN guaranteesD])

lemma approval_run_evolves: "approval_step\<^sup>*\<^sup>* s t \<Longrightarrow> pendings_evolve s t"
proof (induction rule: rtranclp_induct)
  case base
  then show ?case by (simp add: evolve_same)
next
  case (step u t)
  then show ?case using transp_pendings_evolve approval_step_evolves by (blast dest: transpD)
qed

text \<open>A finished pending action is refused by every service, which leaves the state as it is.\<close>

lemma final_status_stays:
  assumes "pending_moves\<^sup>*\<^sup>* INVALIDATED st"
  shows "st = INVALIDATED"
  using assms by (cases rule: converse_rtranclpE) auto

lemma finished_refused:
  assumes "find_pending i u = Some m" and "pn_status m = INVALIDATED"
  shows "snd (begin_reobservation_after_approval t st org i v u) = u \<and>
           \<not> is_ok (fst (begin_reobservation_after_approval t st org i v u))"
    and "snd (record_approval_decision i ap ok v now u) = u \<and>
           \<not> is_ok (fst (record_approval_decision i ap ok v now u))"
    and "snd (attach_approval now i ap v u) = u \<and> \<not> is_ok (fst (attach_approval now i ap v u))"
    and "snd (invalidate_approved_action_for_reobservation i v u) = u \<and>
           \<not> is_ok (fst (invalidate_approved_action_for_reobservation i v u))"
proof -
  obtain r1 s1 where b: "begin_reobservation_after_approval t st org i v u = (r1, s1)" by fastforce
  then show "snd (begin_reobservation_after_approval t st org i v u) = u \<and>
           \<not> is_ok (fst (begin_reobservation_after_approval t st org i v u))"
    by (cases rule: begin_cases) (use assms b in auto)
  obtain r2 s2 where b: "record_approval_decision i ap ok v now u = (r2, s2)" by fastforce
  then show "snd (record_approval_decision i ap ok v now u) = u \<and>
           \<not> is_ok (fst (record_approval_decision i ap ok v now u))"
    by (cases rule: record_cases) (use assms b in auto)
  obtain r3 s3 where b: "attach_approval now i ap v u = (r3, s3)" by fastforce
  then show "snd (attach_approval now i ap v u) = u \<and> \<not> is_ok (fst (attach_approval now i ap v u))"
    by (cases rule: attach_cases) (use assms b in auto)
  obtain r4 s4 where b: "invalidate_approved_action_for_reobservation i v u = (r4, s4)" by fastforce
  then show "snd (invalidate_approved_action_for_reobservation i v u) = u \<and>
           \<not> is_ok (fst (invalidate_approved_action_for_reobservation i v u))"
    by (cases rule: invalidate_cases) (use assms b in auto)
qed

lemma create_pause_native:
  "guarantees native_legal (create_approval_pause pid ak now cr an t st org c dept a intent oh d rt ru bl sp ttl)"
  unfolding create_approval_pause_def Let_def
proof (intro guarantees_bind transp_native_legal pause_native)
  show "guarantees native_legal (create_pending_action pid now cr t st c org a intent oh d ttl)"
  proof (rule guaranteesI)
    fix s r u assume "create_pending_action pid now cr t st c org a intent oh d ttl s = (r, u)"
    then show "native_legal s u"
      by (cases rule: create_pending_cases) (auto intro: native_same)
  qed
  show "guarantees native_legal (attach_approval an i ap v)" for i ap v
  proof (rule guaranteesI)
    fix s r u assume "attach_approval an i ap v s = (r, u)"
    then show "native_legal s u"
      by (cases rule: attach_cases) (auto intro: native_same)
  qed
qed (auto intro!: guaranteesI native_same split: if_splits)

lemma record_native: "guarantees native_legal (record_approval_decision i ap ok v now)"
proof (rule guaranteesI)
  fix s r u assume "record_approval_decision i ap ok v now s = (r, u)"
  then show "native_legal s u"
    by (cases rule: record_cases) (auto intro: native_same)
qed

lemma decide_native: "guarantees native_legal (decide_approval_request ap org user ok note now)"
proof (rule guaranteesI)
  fix s r u assume "decide_approval_request ap org user ok note now s = (r, u)"
  then show "native_legal s u"
  proof (cases rule: decide_request_cases)
    case (linked apr p q)
    let ?w = "write_approval (decided_request ok user note now apr) s"
    have "native_legal s ?w" by (simp add: native_same)
    moreover have "native_legal ?w u" using guaranteesD [OF record_native linked(7)] .
    ultimately show ?thesis using transp_native_legal by (blast dest: transpD)
  qed (simp_all add: native_same)
qed

lemma resume_each_native: "guarantees native_legal (resume_each ps)"
proof (induction ps)
  case Nil
  then show ?case by (auto intro!: guaranteesI native_same)
next
  case (Cons p ps)
  show ?case
  proof (rule guaranteesI)
    fix s r u assume run: "resume_each (p # ps) s = (r, u)"
    obtain q t where b: "begin_reobservation_after_approval (pn_task_id p) (pn_step_id p)
        (pn_organization_id p) (pn_pending_action_id p) (pn_row_version p) s = (q, t)" by fastforce
    obtain q' u' where rest: "resume_each ps t = (q', u')" by fastforce
    from run b rest have "u = t \<or> u = u'" by (auto split: sum.splits if_splits)
    with guaranteesD [OF begin_native b] guaranteesD [OF Cons.IH rest] transp_native_legal
    show "native_legal s u" by (blast dest: transpD)
  qed
qed

lemma approval_step_native:
  assumes "approval_step s t"
  shows "native_legal s t"
  using assms
proof (cases rule: approval_step.cases)
  case (create i now cr tt st c org a intent oh d ttl r1)
  then show ?thesis by (elim create_pending_cases) (auto intro: native_same)
next
  case (attach now i ap v r2)
  from attach show ?thesis by (elim attach_cases) (auto intro: native_same)
next
  case (invalidate i v r2)
  from invalidate show ?thesis by (elim invalidate_cases) (auto intro: native_same)
next
  case (scan org_filter n r5)
  then show ?thesis
    by (auto simp: prepare_approved_pauses_for_reobservation_def native_same split: if_splits
             dest: guaranteesD [OF resume_each_native])
qed (auto dest: guaranteesD [OF record_native] guaranteesD [OF decide_native] guaranteesD [OF pause_native]
      guaranteesD [OF create_pause_native] guaranteesD [OF begin_native] guaranteesD [OF claim_native]
      guaranteesD [OF suspend_native])

section \<open>The recovery scan\<close>

lemma same_execution_tables [simp]:
  "execution_permits (write_pending m s) = execution_permits s"
  "execution_attempts (write_pending m s) = execution_attempts s"
  "execution_permits (set_task_status tk a s) = execution_permits s"
  "execution_attempts (set_task_status tk a s) = execution_attempts s"
  "execution_permits (set_step_status p b s) = execution_permits s"
  "execution_attempts (set_step_status p b s) = execution_attempts s"
  "execution_permits (write_approval ap s) = execution_permits s"
  "execution_attempts (write_approval ap s) = execution_attempts s"
  "execution_permits (add_approval ap s) = execution_permits s"
  "execution_attempts (add_approval ap s) = execution_attempts s"
  "execution_permits (add_pending m s) = execution_permits s"
  "execution_attempts (add_pending m s) = execution_attempts s"
  by (simp_all add: write_pending_def set_task_status_def set_step_status_def write_approval_def
        add_approval_def add_pending_def)

definition same_execution :: "db \<Rightarrow> db \<Rightarrow> bool" where
  "same_execution s t = (execution_permits t = execution_permits s \<and>
     execution_attempts t = execution_attempts s)"

lemma begin_same_execution:
  "begin_reobservation_after_approval t st org i v s = (r, u) \<Longrightarrow> same_execution s u"
  by (erule begin_cases) (auto simp: same_execution_def)

lemma resume_each_ok:
  assumes "resume_each ps s = (r, t)"
  shows "same_execution s t \<and> (\<exists>states. r = Ok states \<and> (\<forall>x \<in> set states. \<exists>p \<in> set ps.
           pa_pending_action_id (ps_pending_action x) = pn_pending_action_id p \<and>
           (\<exists>m. find_pending (pn_pending_action_id p) t = Some m \<and> pn_status m = INVALIDATED)))"
  using assms
proof (induction ps arbitrary: s r t)
  case Nil
  then show ?case by (simp add: same_execution_def)
next
  case (Cons p ps)
  obtain q u where b: "begin_reobservation_after_approval (pn_task_id p) (pn_step_id p)
      (pn_organization_id p) (pn_pending_action_id p) (pn_row_version p) s = (q, u)" by fastforce
  obtain q' w where rest: "resume_each ps u = (q', w)" by fastforce
  from Cons.IH [OF rest] obtain states where states: "same_execution u w" "q' = Ok states"
    "\<forall>x \<in> set states. \<exists>p \<in> set ps.
           pa_pending_action_id (ps_pending_action x) = pn_pending_action_id p \<and>
           (\<exists>m. find_pending (pn_pending_action_id p) w = Some m \<and> pn_status m = INVALIDATED)"
    by blast
  have su: "same_execution s w"
    using begin_same_execution [OF b] states(1) by (simp add: same_execution_def)
  from b show ?case
  proof (cases rule: begin_cases)
    case (refused msg)
    with Cons.prems b rest states su show ?thesis by auto
  next
    case (resumed m tk pp)
    let ?m = "m\<lparr>pn_status := INVALIDATED, pn_row_version := pn_row_version p + 1\<rparr>"
    have pid: "pn_pending_action_id m = pn_pending_action_id p"
      using resumed(1) pendings.lookup_key by blast
    have "find_pending (pn_pending_action_id p) u = Some ?m"
      using resumed(1,10) pid by (simp add: pendings.lookup_store)
    then obtain m' where "find_pending (pn_pending_action_id p) w = Some m'" "evolved ?m m'"
      using guaranteesD [OF resume_each_evolves rest] by (auto simp: pendings_evolve_def)
    then have m': "find_pending (pn_pending_action_id p) w = Some m' \<and> pn_status m' = INVALIDATED"
      by (auto simp: evolved_def dest: final_status_stays)
    from Cons.prems b rest states(2) resumed(11)
    have "r = Ok (\<lparr>ps_task_id = pn_task_id p, ps_step_id = pn_step_id p,
        ps_task_status = Task_resuming, ps_step_status = Step_resuming,
        ps_pending_action = pending_to_contract ?m\<rparr> # states)" "t = w"
      by auto
    with su states(3) m' pid show ?thesis
      by (auto simp: pending_to_contract_def)
  qed
qed

text \<open>A page of blocked pauses hides everything behind it: the scan changes nothing.\<close>

lemma blocked_page_starves:
  assumes "\<forall>p \<in> set ps. snd (begin_reobservation_after_approval (pn_task_id p) (pn_step_id p)
      (pn_organization_id p) (pn_pending_action_id p) (pn_row_version p) s) = s \<and>
      \<not> is_ok (fst (begin_reobservation_after_approval (pn_task_id p) (pn_step_id p)
      (pn_organization_id p) (pn_pending_action_id p) (pn_row_version p) s))"
  shows "resume_each ps s = (Ok [], s)"
  using assms
proof (induction ps)
  case (Cons p ps)
  obtain q u where b: "begin_reobservation_after_approval (pn_task_id p) (pn_step_id p)
      (pn_organization_id p) (pn_pending_action_id p) (pn_row_version p) s = (q, u)" by fastforce
  with Cons.prems have u: "u = s" "\<not> is_ok q" by auto
  from b show ?case
    by (cases rule: begin_cases) (use u b Cons in auto)
qed simp

section \<open>Creating a pause\<close>

lemma find_task_set:
  "find_task t org s = Some tk \<Longrightarrow>
   find_task t org (set_task_status tk a s) = Some (tk\<lparr>tk_status := a\<rparr>)"
proof -
  assume found: "find_task t org s = Some tk"
  note row = find_task_row [OF found]
  have "first_where P rows = Some tk \<Longrightarrow> P (tk\<lparr>tk_status := a\<rparr>) \<Longrightarrow>
      first_where P (write_row tk_task_id (tk\<lparr>tk_status := a\<rparr>) rows) = Some (tk\<lparr>tk_status := a\<rparr>)"
    for P and rows :: "task_row list"
    by (induction rows) (auto simp: first_where_def write_row_def split: if_splits)
  with found row show ?thesis by (simp add: find_task_def set_task_status_def)
qed

lemma find_step_set:
  "find_step t st org s = Some p \<Longrightarrow>
   find_step t st org (set_step_status p a s) = Some (p\<lparr>st_status := a\<rparr>)"
proof -
  assume found: "find_step t st org s = Some p"
  note row = find_step_row [OF found]
  have "first_where P rows = Some p \<Longrightarrow> P (p\<lparr>st_status := a\<rparr>) \<Longrightarrow>
      first_where P (write_row st_step_id (p\<lparr>st_status := a\<rparr>) rows) = Some (p\<lparr>st_status := a\<rparr>)"
    for P and rows :: "step_row list"
    by (induction rows) (auto simp: first_where_def write_row_def split: if_splits)
  with found row show ?thesis by (simp add: find_step_def set_step_status_def)
qed

lemma find_native_other [simp]:
  "find_task t org (set_step_status p a s) = find_task t org s"
  "find_step t st org (set_task_status tk b s) = find_step t st org s"
  "find_task t org (write_pending m s) = find_task t org s"
  "find_step t st org (write_pending m s) = find_step t st org s"
  "find_task t org (add_pending m s) = find_task t org s"
  "find_step t st org (add_pending m s) = find_step t st org s"
  "find_task t org (add_approval ap s) = find_task t org s"
  "find_step t st org (add_approval ap s) = find_step t st org s"
  "find_approval apid (set_step_status p c s) = find_approval apid s"
  "find_approval apid (set_task_status tk b s) = find_approval apid s"
  "find_approval apid (write_pending m s) = find_approval apid s"
  "find_approval apid (add_pending m s) = find_approval apid s"
  by (simp_all add: find_task_def find_step_def find_approval_def set_step_status_def
        set_task_status_def write_pending_def add_pending_def add_approval_def)

lemma create_pause_chain:
  assumes "create_approval_pause pid ak now cr an t st org c dept a intent oh d rt ru bl sp ttl s
             = (Ok state, s')"
  obtains m tk p ap where
    "find_pending pid s = None" "find_approval (ar_approval_id ap) s = None"
    "pn_pending_action_id m = pid" "pn_task_id m = t" "pn_step_id m = st" "pn_organization_id m = org"
    "pn_contract_id m = c" "pn_status m = PENDING" "pn_row_version m = 1" "pn_approval_id m = None"
    "pn_action_payload m = redacted_action_payload a" "pn_observation_hash m = oh"
    "pn_action_fingerprint m = ai_action_fingerprint intent"
    "pd_outcome d = REQUIRE_APPROVAL" "0 < ttl"
    "ap = build_approval_request ak now t org dept (risk_value (pd_risk_level d))
       (if join_with ''; '' (pd_reasons d) = [] then ''Governance policy requires approval''
        else join_with ''; '' (pd_reasons d)) rt ru bl (Some (ai_operation intent)) sp (Some ttl)"
    "find_task t org s = Some tk" "find_step t st org s = Some p"
    "tk_status tk = Task_running" "st_status p = Step_running"
    "s' = set_step_status p Step_pending_approval (set_task_status tk Task_pending_approval
       (write_pending (m\<lparr>pn_approval_id := Some (ar_approval_id ap), pn_row_version := 2\<rparr>)
         (add_approval ap (add_pending m s))))"
proof -
  define ap where "ap = build_approval_request ak now t org dept (risk_value (pd_risk_level d))
       (if join_with ''; '' (pd_reasons d) = [] then ''Governance policy requires approval''
        else join_with ''; '' (pd_reasons d)) rt ru bl (Some (ai_operation intent)) sp (Some ttl)"
  from assms obtain pend s1 linked s2 where
    cre: "create_pending_action pid now cr t st c org a intent oh d ttl s = (Ok pend, s1)"
    and fresh: "find_approval (ar_approval_id ap) s1 = None"
    and att: "attach_approval an (pa_pending_action_id pend) (ar_approval_id ap) (pa_row_version pend)
        (add_approval ap s1) = (Ok linked, s2)"
    and pau: "pause_for_approval t st org linked s2 = (Ok state, s')"
    unfolding create_approval_pause_def Let_def ap_def [symmetric]
    by (auto simp: prog_bind_ok split: if_splits)
  from cre obtain m where m: "s1 = add_pending m s" "pend = pending_to_contract m"
      "find_pending pid s = None" "pn_pending_action_id m = pid" "pn_task_id m = t" "pn_step_id m = st"
      "pn_organization_id m = org" "pn_contract_id m = c"
      "pn_action_fingerprint m = ai_action_fingerprint intent"
      "pn_observation_hash m = oh" "pn_status m = PENDING" "pn_row_version m = 1"
      "pn_approval_id m = None" "pn_action_payload m = redacted_action_payload a"
      "pd_outcome d = REQUIRE_APPROVAL" "0 < ttl"
    by (elim create_pending_cases) auto
  have found: "find_pending pid (add_approval ap s1) = Some m"
    using m by (auto simp: pendings.lookup_insert)
  from att have s2: "s2 = write_pending (m\<lparr>pn_approval_id := Some (ar_approval_id ap), pn_row_version := 2\<rparr>)
      (add_approval ap s1)"
    using found m by (elim attach_cases) (auto simp: pending_to_contract_def)
  from pau obtain tk p where tp: "find_task t org s2 = Some tk" "find_step t st org s2 = Some p"
      "tk_status tk = Task_running" "st_status p = Step_running"
      "s' = set_step_status p Step_pending_approval (set_task_status tk Task_pending_approval s2)"
    by (elim pause_cases) auto
  show ?thesis
    by (rule that [of ap m tk p]) (use m fresh s2 tp ap_def in auto)
qed

text \<open>The conditions under which the whole pause is created.\<close>

lemma create_pause_succeeds:
  assumes "pd_outcome d = REQUIRE_APPROVAL" and "0 < ttl" and "oh \<noteq> []"
    and free: "\<forall>x \<in> set (pending_actions s). \<not> (pn_task_id x = t \<and> pn_step_id x = st \<and> unresolved x)"
    and fresh: "find_pending pid s = None" "find_approval (''apr_'' @ ak) s = None"
      "\<forall>x \<in> set (pending_actions s). pn_approval_id x \<noteq> Some (''apr_'' @ ak)"
    and "an \<le> now + seconds ttl"
    and native: "find_task t org s = Some tk" "find_step t st org s = Some p"
      "tk_status tk = Task_running" "st_status p = Step_running"
  shows "\<exists>state s'. create_approval_pause pid ak now cr an t st org c dept a intent oh d rt ru bl sp ttl s
           = (Ok state, s')"
proof -
  obtain m where cre: "create_pending_action pid now cr t st c org a intent oh d ttl s
      = (Ok (pending_to_contract m), add_pending m s)"
    and m: "pn_pending_action_id m = pid" "pn_task_id m = t" "pn_step_id m = st" "pn_status m = PENDING"
      "pn_row_version m = 1" "pn_approval_id m = None" "pn_expires_at m = Some (now + seconds ttl)"
  proof (cases "create_pending_action pid now cr t st c org a intent oh d ttl s")
    case (Pair r u)
    from Pair show ?thesis
    proof (cases rule: create_pending_cases)
      case (refused e)
      have "first_where (\<lambda>r. pn_task_id r = t \<and> pn_step_id r = st \<and> unresolved r) (pending_actions s) = None"
        using free by (simp add: first_where_None)
      with refused Pair assms(1-3) fresh(1) show ?thesis
        by (simp add: create_pending_action_def Let_def)
    next
      case (created m)
      with Pair that show ?thesis by blast
    qed
  qed
  define ap where "ap = build_approval_request ak now t org dept (risk_value (pd_risk_level d))
       (if join_with ''; '' (pd_reasons d) = [] then ''Governance policy requires approval''
        else join_with ''; '' (pd_reasons d)) rt ru bl (Some (ai_operation intent)) sp (Some ttl)"
  have key: "ar_approval_id ap = ''apr_'' @ ak"
    by (simp add: ap_def build_approval_request_def Let_def)
  let ?w = "add_approval ap (add_pending m s)"
  let ?m = "m\<lparr>pn_approval_id := Some (''apr_'' @ ak), pn_row_version := 2\<rparr>"
  have found: "find_pending pid ?w = Some m"
    using m(1) fresh(1) by (auto simp: pendings.lookup_insert)
  have att: "attach_approval an pid (''apr_'' @ ak) 1 ?w = (Ok (pending_to_contract ?m), write_pending ?m ?w)"
    using found m assms(8) fresh(3)
    by (simp add: attach_approval_def prog_bind_def get_pending_for_update_def require_pending_def
          Let_def add_approval_def add_pending_def)
  have pau: "\<exists>state. pause_for_approval t st org (pending_to_contract ?m) (write_pending ?m ?w) = (Ok state,
      set_step_status p Step_pending_approval (set_task_status tk Task_pending_approval (write_pending ?m ?w)))"
    using native m by (simp add: pause_for_approval_def require_matching_pending_action_def
        prog_bind_def load_task_and_step_def pending_to_contract_def)
  have ids: "pa_pending_action_id (pending_to_contract m) = pid" "pa_row_version (pending_to_contract m) = 1"
    using m by (simp_all add: pending_to_contract_def)
  show ?thesis
    unfolding create_approval_pause_def Let_def ap_def [symmetric] prog_bind_def
    using cre fresh(2) att pau by (auto simp: key ids)
qed

section \<open>A concrete pause\<close>

definition sample_pending :: "string \<Rightarrow> string \<Rightarrow> time \<Rightarrow> pending_status \<Rightarrow> pending_row" where
  "sample_pending i task_id created status =
     \<lparr>pn_pending_action_id = i, pn_task_id = task_id, pn_step_id = ''step'', pn_contract_id = ''c'',
      pn_organization_id = ''org'', pn_action_fingerprint = ''f'', pn_observation_hash = ''h'',
      pn_action_payload = JNull, pn_intent_payload = JNull, pn_decision_payload = JNull,
      pn_approval_id = Some (''apr_'' @ i), pn_status = status, pn_row_version = 2,
      pn_expires_at = Some 100, pn_created_at = created\<rparr>"

definition sample_approval :: "string \<Rightarrow> approval_row" where
  "sample_approval i =
     \<lparr>ar_approval_id = ''apr_'' @ i, ar_task_id = ''task'', ar_organization_id = ''org'',
      ar_department_id = ''d'', ar_business_line_id = None, ar_requester_user_id = Some ''ann'',
      ar_risk_level = ''high'', ar_risk_reason = ''r'', ar_operation_description = None,
      ar_screenshot_path = None, ar_approver_department_id = ''d'', ar_approver_role = ''approver'',
      ar_notify_department_ids = None, ar_status = Approval_PENDING, ar_requested_at = 0,
      ar_approver_user_id = None, ar_decided_at = None, ar_decision_note = None,
      ar_timeout_seconds = 100\<rparr>"

definition sample_db :: "task_status \<Rightarrow> step_status \<Rightarrow> pending_row list \<Rightarrow> approval_row list \<Rightarrow> db" where
  "sample_db tst sst pend appr =
     \<lparr>execution_permits = [], execution_attempts = [], pending_actions = pend, approval_requests = appr,
      tasks = [\<lparr>tk_task_id = ''task'', tk_organization_id = Some ''org'', tk_status = tst, tk_application = None, tk_created_at = 0\<rparr>],
      steps = [\<lparr>st_step_id = ''step'', st_organization_id = Some ''org'', st_task_id = Some ''task'',
                st_status = sst, st_created_at = 0\<rparr>]\<rparr>"

lemmas sample_lookups =
  sample_db_def sample_pending_def sample_approval_def find_pending_def find_approval_def find_task_def
  find_step_def first_where_def write_row_def write_pending_def write_approval_def
  set_task_status_def set_step_status_def add_pending_def add_approval_def

section \<open>Properties\<close>

text \<open>
  C3. Resuming an approved pause uses its approval up: whatever the
  approval services do afterwards, in any order and number, the pending action stays
  invalidated, and no service can resume it, decide it, attach to it or consume it again; each
  such call raises and leaves the database as it is.
\<close>

theorem approval_consumed_once:
  assumes resumed: "begin_reobservation_after_approval t st org i v s = (Ok state, s1)"
    and later: "approval_step\<^sup>*\<^sup>* s1 u"
  shows "(\<exists>m. find_pending i u = Some m \<and> pn_status m = INVALIDATED) \<and>
     (\<forall>t' st' org' v' ap ok now.
        snd (begin_reobservation_after_approval t' st' org' i v' u) = u \<and>
        \<not> is_ok (fst (begin_reobservation_after_approval t' st' org' i v' u)) \<and>
        snd (record_approval_decision i ap ok v' now u) = u \<and>
        \<not> is_ok (fst (record_approval_decision i ap ok v' now u)) \<and>
        snd (attach_approval now i ap v' u) = u \<and> \<not> is_ok (fst (attach_approval now i ap v' u)) \<and>
        snd (invalidate_approved_action_for_reobservation i v' u) = u \<and>
        \<not> is_ok (fst (invalidate_approved_action_for_reobservation i v' u)))"
proof -
  from resumed obtain m where m: "find_pending i s1 = Some m" "pn_status m = INVALIDATED"
    by (cases rule: begin_cases) (auto simp: pendings.store_found)
  with approval_run_evolves [OF later] obtain m' where m':
    "find_pending i u = Some m'" "evolved m m'" by (auto simp: pendings_evolve_def)
  with m(2) have "pn_status m' = INVALIDATED" by (auto simp: evolved_def dest: final_status_stays)
  with m'(1) finished_refused [OF m'(1)] show ?thesis by blast
qed

theorem approval_consumed_once_witness:
  "\<exists>state s1. begin_reobservation_after_approval ''task'' ''step'' ''org'' ''p'' 2
      (sample_db Task_pending_approval Step_pending_approval [sample_pending ''p'' ''task'' 0 APPROVED] [])
      = (Ok state, s1) \<and>
     \<not> is_ok (fst (begin_reobservation_after_approval ''task'' ''step'' ''org'' ''p'' 3 s1))"
proof -
  have "\<exists>state s1. begin_reobservation_after_approval ''task'' ''step'' ''org'' ''p'' 2
      (sample_db Task_pending_approval Step_pending_approval [sample_pending ''p'' ''task'' 0 APPROVED] [])
      = (Ok state, s1)"
    by (simp add: begin_reobservation_after_approval_def load_task_and_step_def prog_bind_def
          invalidate_approved_action_for_reobservation_def get_pending_for_update_def sample_lookups Let_def)
  then obtain state s1 where run: "begin_reobservation_after_approval ''task'' ''step'' ''org'' ''p'' 2
      (sample_db Task_pending_approval Step_pending_approval [sample_pending ''p'' ''task'' 0 APPROVED] [])
      = (Ok state, s1)" by blast
  from approval_consumed_once [OF run rtranclp.rtrancl_refl] run show ?thesis by blast
qed

text \<open>
  C17. Deciding an approval request inside its transaction either raises
  and changes nothing, or the request was pending in the caller's organization, was not made by
  the decider, and is now decided; a pending action linked to it was pending and carries the
  same decision under the next row version; and any second decision on it is refused. Approval
  ids are unique among pending actions.
\<close>

theorem decision_is_atomic:
  assumes run: "transaction (decide_approval_request a org user ok note now) s = (r, s')"
    and unique: "\<forall>p \<in> set (pending_actions s). \<forall>q \<in> set (pending_actions s).
       pn_approval_id p = Some a \<longrightarrow> pn_approval_id q = Some a \<longrightarrow> p = q"
  shows "(\<exists>e. r = Inl e \<and> s' = s) \<or>
     (\<exists>before. find_approval a s = Some before \<and> ar_status before = Approval_PENDING \<and>
        ar_organization_id before = org \<and> ar_requester_user_id before \<noteq> Some user \<and>
        r = Ok (decided_request ok user note now before) \<and>
        find_approval a s' = Some (decided_request ok user note now before) \<and>
        (\<forall>p \<in> set (pending_actions s). pn_approval_id p = Some a \<longrightarrow> pn_status p = PENDING \<and>
           find_pending (pn_pending_action_id p) s' =
             Some (p\<lparr>pn_status := (if ok then APPROVED else REJECTED),
                     pn_row_version := pn_row_version p + 1\<rparr>)) \<and>
        (\<forall>org' user' ok' note' now'.
           snd (decide_approval_request a org' user' ok' note' now' s') = s' \<and>
           \<not> is_ok (fst (decide_approval_request a org' user' ok' note' now' s'))))"
proof (cases r)
  case (Inl e)
  with run show ?thesis by (auto simp: transaction_raise)
next
  case (Inr ap)
  with run have dec: "decide_approval_request a org user ok note now s = (Ok ap, s')"
    by (simp add: transaction_ok)
  have again: "snd (decide_approval_request a org' user' ok' note' now' s') = s' \<and>
      \<not> is_ok (fst (decide_approval_request a org' user' ok' note' now' s'))"
    if "find_approval a s' = Some (decided_request ok user note now before)"
    for before org' user' ok' note' now'
    using that by (simp add: decide_approval_request_def decided_request_def)
  have key: "ar_approval_id before = a" if "find_approval a s = Some before" for before
    using that approvals.lookup_key by blast
  have stored: "find_approval a (write_approval (decided_request ok user note now before) s)
      = Some (decided_request ok user note now before)" if "find_approval a s = Some before" for before
    using that key [OF that] by (simp add: approvals.lookup_store decided_request_def)
  from dec show ?thesis
  proof (cases rule: decide_request_cases)
    case (unlinked before)
    with Inr stored again show ?thesis by (intro disjI2 exI [of _ before]) auto
  next
    case (linked before p q)
    then obtain q' where q': "q = Ok q'" by (cases q) auto
    let ?w = "write_approval (decided_request ok user note now before) s"
    from linked(7) [unfolded q'] obtain m where m: "find_pending (pn_pending_action_id p) ?w = Some m"
      "pn_status m = PENDING" "pn_row_version m = pn_row_version p" "pn_approval_id m = Some a"
      "s' = write_pending (m\<lparr>pn_status := (if ok then APPROVED else REJECTED),
          pn_row_version := pn_row_version p + 1\<rparr>) ?w"
      by (elim record_cases) auto
    have "m \<in> set (pending_actions s)" using m(1) pendings.lookup_row by fastforce
    with unique linked(5,6) m(4) have mp: "m = p" by blast
    have same: "p' = p" if "p' \<in> set (pending_actions s)" "pn_approval_id p' = Some a" for p'
      using that unique linked(5,6) by blast
    have found: "find_approval a s' = Some (decided_request ok user note now before)"
      using stored [OF linked(1)] m(5) by simp
    have moved: "find_pending (pn_pending_action_id p) s' =
        Some (p\<lparr>pn_status := (if ok then APPROVED else REJECTED), pn_row_version := pn_row_version p + 1\<rparr>)"
      unfolding m(5) mp by (rule pendings.store_found [OF m(1) [unfolded mp]]) simp
    have dec: "\<forall>p' \<in> set (pending_actions s). pn_approval_id p' = Some a \<longrightarrow> pn_status p' = PENDING \<and>
        find_pending (pn_pending_action_id p') s' = Some (p'\<lparr>pn_status := (if ok then APPROVED else REJECTED),
          pn_row_version := pn_row_version p' + 1\<rparr>)"
      using same moved m(2) mp by blast
    have res: "r = Ok (decided_request ok user note now before)"
      using Inr linked(8) q' by simp
    show ?thesis
      using linked(1-4) res found dec again [OF found] by blast
  qed simp
qed

theorem decision_is_atomic_witness:
  "\<exists>ap s'. transaction (decide_approval_request ''apr_p'' ''org'' ''bob'' True ''ok'' 50)
       (sample_db Task_pending_approval Step_pending_approval [sample_pending ''p'' ''task'' 0 PENDING]
          [sample_approval ''p'']) = (Ok ap, s') \<and>
     (\<exists>m. find_pending ''p'' s' = Some m \<and> pn_status m = APPROVED \<and> pn_row_version m = 3)"
proof -
  let ?p = "sample_pending ''p'' ''task'' 0 PENDING"
  let ?s = "sample_db Task_pending_approval Step_pending_approval [?p] [sample_approval ''p'']"
  have appr: "find_approval ''apr_p'' ?s = Some (sample_approval ''p'')"
    by (simp add: sample_lookups)
  have linked: "first_where (\<lambda>r. pn_approval_id r = Some ''apr_p'') (pending_actions ?s) = Some ?p"
    by (simp add: sample_lookups)
  have pend: "find_pending ''p'' ?s = Some ?p"
    by (simp add: sample_lookups)
  have fields: "pn_pending_action_id ?p = ''p''" "pn_status ?p = PENDING" "pn_expires_at ?p = Some 100"
    "pn_approval_id ?p = Some ''apr_p''" "ar_status (sample_approval ''p'') = Approval_PENDING"
    "ar_organization_id (sample_approval ''p'') = ''org''"
    "ar_requester_user_id (sample_approval ''p'') = Some ''ann''"
    by (simp_all add: sample_pending_def sample_approval_def)
  have "\<exists>ap s'. transaction (decide_approval_request ''apr_p'' ''org'' ''bob'' True ''ok'' 50) ?s
      = (Ok ap, s')"
    by (simp add: transaction_def decide_approval_request_def record_approval_decision_def
          require_pending_def prog_bind_def get_pending_for_update_def appr linked pend fields Let_def)
  then obtain ap s' where run: "transaction (decide_approval_request ''apr_p'' ''org'' ''bob'' True ''ok'' 50) ?s
      = (Ok ap, s')" by blast
  have p: "?p \<in> set (pending_actions ?s)" "pn_approval_id ?p = Some ''apr_p''"
    "pn_pending_action_id ?p = ''p''" "pn_row_version ?p = 2"
    by (simp_all add: sample_db_def sample_pending_def)
  have unique: "\<forall>p \<in> set (pending_actions ?s). \<forall>q \<in> set (pending_actions ?s).
       pn_approval_id p = Some ''apr_p'' \<longrightarrow> pn_approval_id q = Some ''apr_p'' \<longrightarrow> p = q"
    by (simp add: sample_db_def)
  have "\<forall>p \<in> set (pending_actions ?s). pn_approval_id p = Some ''apr_p'' \<longrightarrow>
      find_pending (pn_pending_action_id p) s' =
        Some (p\<lparr>pn_status := (if True then APPROVED else REJECTED), pn_row_version := pn_row_version p + 1\<rparr>)"
    using decision_is_atomic [OF run unique] by (elim disjE exE conjE) (simp, blast)
  with p have "find_pending ''p'' s' = Some (?p\<lparr>pn_status := APPROVED, pn_row_version := 3\<rparr>)"
    by fastforce
  with run show ?thesis by fastforce
qed

text \<open>
  C18. A created approval pause is complete: the decision asked for
  approval, the running task and step are now both pending approval, exactly one new pending
  action in version 2 holds the redacted action and is linked to a new pending approval request
  of the same task, organization and requester that times out with it; no permit or attempt is
  touched, and inside its transaction a pause that raises leaves nothing behind.
\<close>

theorem approval_pause_complete:
  assumes run: "transaction (create_approval_pause pid ak now cr an t st org c dept a intent oh d rt ru bl sp ttl) s
     = (r, s')"
  shows "(\<exists>e. r = Inl e \<and> s' = s) \<or>
     (\<exists>state m ap tk p. r = Ok state \<and> pd_outcome d = REQUIRE_APPROVAL \<and>
        find_pending pid s = None \<and> find_pending pid s' = Some m \<and>
        pn_status m = PENDING \<and> pn_row_version m = 2 \<and> pn_task_id m = t \<and> pn_step_id m = st \<and>
        pn_action_payload m = redacted_action_payload a \<and> pn_approval_id m = Some (ar_approval_id ap) \<and>
        find_approval (ar_approval_id ap) s = None \<and> find_approval (ar_approval_id ap) s' = Some ap \<and>
        ar_status ap = Approval_PENDING \<and> ar_task_id ap = t \<and> ar_organization_id ap = org \<and>
        ar_requester_user_id ap = ru \<and> ar_timeout_seconds ap = ttl \<and>
        find_task t org s = Some tk \<and> tk_status tk = Task_running \<and>
        find_task t org s' = Some (tk\<lparr>tk_status := Task_pending_approval\<rparr>) \<and>
        find_step t st org s = Some p \<and> st_status p = Step_running \<and>
        find_step t st org s' = Some (p\<lparr>st_status := Step_pending_approval\<rparr>) \<and>
        execution_permits s' = execution_permits s \<and> execution_attempts s' = execution_attempts s)"
proof (cases r)
  case (Inl e)
  with run show ?thesis by (auto simp: transaction_raise)
next
  case (Inr state)
  with run have "create_approval_pause pid ak now cr an t st org c dept a intent oh d rt ru bl sp ttl s
      = (Ok state, s')" by (simp add: transaction_ok)
  then show ?thesis
  proof (cases rule: create_pause_chain)
    case (1 m tk p ap)
    let ?m = "m\<lparr>pn_approval_id := Some (ar_approval_id ap), pn_row_version := 2\<rparr>"
    have "find_pending pid (add_approval ap (add_pending m s)) = Some m"
      using 1(1,3) by (auto simp: pendings.lookup_insert)
    then have pend: "find_pending pid s' = Some ?m"
      using 1(21) by (simp add: pendings.store_found)
    have appr: "find_approval (ar_approval_id ap) s' = Some ap"
      using 1(2,21) by (simp add: approvals.lookup_insert)
    have req: "ar_status ap = Approval_PENDING" "ar_task_id ap = t" "ar_organization_id ap = org"
      "ar_requester_user_id ap = ru" "ar_timeout_seconds ap = ttl"
      using 1(15,16) by (simp_all add: build_approval_request_def Let_def)
    have native: "find_task t org s' = Some (tk\<lparr>tk_status := Task_pending_approval\<rparr>)"
      "find_step t st org s' = Some (p\<lparr>st_status := Step_pending_approval\<rparr>)"
      using 1(17,18,21) by (simp_all add: find_task_set find_step_set)
    show ?thesis
      by (rule disjI2, rule exI [of _ state], rule exI [of _ ?m], rule exI [of _ ap],
          rule exI [of _ tk], rule exI [of _ p])
         (use Inr 1 pend appr req native in simp)
  qed
qed

definition sample_decision :: policy_decision where
  "sample_decision = \<lparr>pd_decision_id = ''d'', pd_intent_id = ''i'', pd_outcome = REQUIRE_APPROVAL,
     pd_risk_level = Risk_high, pd_reasons = [], pd_matched_rules = [], pd_required_approver = None,
     pd_policy_version = ''v''\<rparr>"

definition sample_intent :: action_intent where
  "sample_intent = \<lparr>ai_intent_id = ''i'', ai_task_id = ''task'', ai_step_id = ''step'',
     ai_action_fingerprint = ''f'', ai_observation_id = ''o'', ai_operation = ''submit'',
     ai_effect = INTERNAL_WRITE, ai_target = [], ai_sensitive_data_types = {}, ai_extracted_facts = [],
     ai_confidence = 1, ai_evidence = [], ai_expected_outcome = []\<rparr>"

definition sample_route :: approval_route where
  "sample_route = \<lparr>rt_requires_approval = True, rt_approver_department_id = None,
     rt_approver_role = ''approver'', rt_notify_department_ids = [], rt_notify_roles = [],
     rt_description = []\<rparr>"

theorem approval_pause_complete_witness:
  "\<exists>s' m tk. snd (transaction (create_approval_pause ''p'' ''a'' 0 0 0 ''task'' ''step'' ''org'' ''c'' ''d''
       [(''password'', JStr ''x'')] sample_intent ''h'' sample_decision sample_route (Some ''ann'') None None 60)
       (sample_db Task_running Step_running [] [])) = s' \<and>
     find_pending ''p'' s' = Some m \<and> pn_status m = PENDING \<and>
     find_task ''task'' ''org'' s' = Some tk \<and> tk_status tk = Task_pending_approval"
proof -
  let ?s = "sample_db Task_running Step_running [] []"
  have "\<exists>state s'. create_approval_pause ''p'' ''a'' 0 0 0 ''task'' ''step'' ''org'' ''c'' ''d''
       [(''password'', JStr ''x'')] sample_intent ''h'' sample_decision sample_route (Some ''ann'') None None 60
       ?s = (Ok state, s')"
    by (rule create_pause_succeeds [where tk = "\<lparr>tk_task_id = ''task'', tk_organization_id = Some ''org'',
           tk_status = Task_running, tk_application = None, tk_created_at = 0\<rparr>" and p = "\<lparr>st_step_id = ''step'', st_organization_id = Some ''org'',
           st_task_id = Some ''task'', st_status = Step_running, st_created_at = 0\<rparr>"])
       (simp_all add: sample_lookups sample_decision_def seconds_def)
  then obtain state s' where run: "transaction (create_approval_pause ''p'' ''a'' 0 0 0 ''task'' ''step'' ''org''
       ''c'' ''d'' [(''password'', JStr ''x'')] sample_intent ''h'' sample_decision sample_route (Some ''ann'')
       None None 60) ?s = (Ok state, s')" by (auto simp: transaction_ok)
  from approval_pause_complete [OF run] run show ?thesis by fastforce
qed

text \<open>
  A recovery scan with a positive limit always returns: a pause
  that cannot resume is skipped, never raised. Every pause it returns was an approved pending
  action of the requested organization and is consumed afterwards, and the scan neither issues
  nor uses a permit nor touches an execution attempt.
\<close>

theorem recovery_scan_never_fails:
  assumes "0 < limit"
  shows "\<exists>states s'. prepare_approved_pauses_for_reobservation org limit s = (Ok states, s') \<and>
     execution_permits s' = execution_permits s \<and> execution_attempts s' = execution_attempts s \<and>
     (\<forall>x \<in> set states. \<exists>p \<in> set (pending_actions s). pn_status p = APPROVED \<and>
        (\<forall>o'. org = Some o' \<longrightarrow> pn_organization_id p = o') \<and>
        pa_pending_action_id (ps_pending_action x) = pn_pending_action_id p \<and>
        (\<exists>m. find_pending (pn_pending_action_id p) s' = Some m \<and> pn_status m = INVALIDATED))"
proof -
  let ?page = "oldest_first pn_created_at (nat limit) (filter (\<lambda>p. pn_status p = APPROVED \<and>
      (case org of None \<Rightarrow> True | Some org \<Rightarrow> pn_organization_id p = org)) (pending_actions s))"
  have page: "p \<in> set (pending_actions s) \<and> pn_status p = APPROVED \<and>
      (\<forall>o'. org = Some o' \<longrightarrow> pn_organization_id p = o')" if "p \<in> set ?page" for p
    using that in_set_takeD [of p "nat limit"] by (fastforce simp: oldest_first_def)
  obtain r s' where run: "resume_each ?page s = (r, s')" by fastforce
  from resume_each_ok [OF run] obtain states where st: "r = Ok states" "same_execution s s'"
    "\<forall>x \<in> set states. \<exists>p \<in> set ?page.
           pa_pending_action_id (ps_pending_action x) = pn_pending_action_id p \<and>
           (\<exists>m. find_pending (pn_pending_action_id p) s' = Some m \<and> pn_status m = INVALIDATED)" by blast
  have scan: "prepare_approved_pauses_for_reobservation org limit s = (Ok states, s')"
    using run assms st(1) by (simp add: prepare_approved_pauses_for_reobservation_def)
  have rows: "\<forall>x \<in> set states. \<exists>p \<in> set (pending_actions s). pn_status p = APPROVED \<and>
        (\<forall>o'. org = Some o' \<longrightarrow> pn_organization_id p = o') \<and>
        pa_pending_action_id (ps_pending_action x) = pn_pending_action_id p \<and>
        (\<exists>m. find_pending (pn_pending_action_id p) s' = Some m \<and> pn_status m = INVALIDATED)"
  proof
    fix x assume "x \<in> set states"
    with st(3) obtain p where p: "p \<in> set ?page"
      "pa_pending_action_id (ps_pending_action x) = pn_pending_action_id p"
      "\<exists>m. find_pending (pn_pending_action_id p) s' = Some m \<and> pn_status m = INVALIDATED" by blast
    with page [OF p(1)] show "\<exists>p \<in> set (pending_actions s). pn_status p = APPROVED \<and>
        (\<forall>o'. org = Some o' \<longrightarrow> pn_organization_id p = o') \<and>
        pa_pending_action_id (ps_pending_action x) = pn_pending_action_id p \<and>
        (\<exists>m. find_pending (pn_pending_action_id p) s' = Some m \<and> pn_status m = INVALIDATED)" by blast
  qed
  from scan st(2) rows show ?thesis
    unfolding same_execution_def by blast
qed

definition blocked_then_ready :: db where
  "blocked_then_ready = sample_db Task_pending_approval Step_pending_approval
     [sample_pending ''old'' ''cancelled'' 0 APPROVED, sample_pending ''new'' ''task'' 1 APPROVED] []"

theorem recovery_scan_never_fails_witness:
  "\<exists>states s'. prepare_approved_pauses_for_reobservation None 2 blocked_then_ready = (Ok states, s')"
  using recovery_scan_never_fails [of 2 None blocked_then_ready] by auto

text \<open>
  The scan takes the oldest approved pauses first and leaves the ones it skips approved: with a
  page size of one, an approved pause of a cancelled task hides a resumable one for ever.
\<close>

lemma skipped_pause_starves_scan:
  "prepare_approved_pauses_for_reobservation None 1 blocked_then_ready = (Ok [], blocked_then_ready) \<and>
   is_ok (fst (begin_reobservation_after_approval ''task'' ''step'' ''org'' ''new'' 2 blocked_then_ready))"
proof
  have "prepare_approved_pauses_for_reobservation None 1 blocked_then_ready =
      resume_each [sample_pending ''old'' ''cancelled'' 0 APPROVED] blocked_then_ready"
    by (simp add: prepare_approved_pauses_for_reobservation_def oldest_first_def blocked_then_ready_def
          sample_db_def sample_pending_def)
  also have "\<dots> = (Ok [], blocked_then_ready)"
    by (rule blocked_page_starves)
       (simp add: begin_reobservation_after_approval_def prog_bind_def load_task_and_step_def
          blocked_then_ready_def sample_lookups)
  finally show "prepare_approved_pauses_for_reobservation None 1 blocked_then_ready
      = (Ok [], blocked_then_ready)" .
  show "is_ok (fst (begin_reobservation_after_approval ''task'' ''step'' ''org'' ''new'' 2 blocked_then_ready))"
    by (simp add: begin_reobservation_after_approval_def prog_bind_def load_task_and_step_def
          invalidate_approved_action_for_reobservation_def get_pending_for_update_def
          blocked_then_ready_def sample_lookups Let_def)
qed

text \<open>
  C24. Whatever sequence of approval, resume and suspension services
  runs, no task or step row appears or disappears, none changes its owner, and each status has
  moved along the transition tables of the native Skyvern state machines.
\<close>

theorem native_transitions_legal:
  assumes "approval_step\<^sup>*\<^sup>* s t" and "native_keys s"
  shows "native_keys t \<and> native_step s t"
  using assms
proof (induction rule: rtranclp_induct)
  case base
  then show ?case by (simp add: native_step_refl)
next
  case (step t u)
  then show ?case
    using approval_step_native [of t u] native_step_trans [of s t u] by (simp add: native_legal_def)
qed

theorem native_transitions_legal_witness:
  "\<exists>u. approval_step (sample_db Task_resuming Step_resuming [] []) u \<and>
     native_step (sample_db Task_resuming Step_resuming [] []) u \<and>
     map tk_status (tasks u) = [Task_running]"
proof -
  let ?s = "sample_db Task_resuming Step_resuming [] []"
  obtain r u where run: "claim_resuming_task_for_execution ''task'' ''step'' ''org'' ?s = (r, u)" by fastforce
  then have step: "approval_step ?s u" by (rule approval_step.claim)
  have "native_keys ?s" by (simp add: native_keys_def sample_db_def)
  with native_transitions_legal [OF r_into_rtranclp [of approval_step, OF step]] have "native_step ?s u" by simp
  moreover have "map tk_status (tasks u) = [Task_running]"
    using run by (auto simp: claim_resuming_task_for_execution_def sample_lookups)
  ultimately show ?thesis using step by (intro exI [of _ u] conjI)
qed

end
