(* ===== verification/Registry.thy ===== *)
theory Registry
  imports Prelude
begin

text \<open>
  The contract the in-memory registries share (capabilities, runtime manifests,
  offline contracts): registering refuses a key that resolves already, and a
  lookup returns exactly what was registered under the key. A constructor
  registers a sequence of items, stopping at the first refusal.
\<close>

fun register_all :: "('v \<Rightarrow> 'r \<Rightarrow> 'r res) \<Rightarrow> 'v list \<Rightarrow> 'r \<Rightarrow> 'r res" where
  "register_all reg [] r = Ok r"
| "register_all reg (v # vs) r = res_bind (reg v r) (register_all reg vs)"

locale registry =
  fixes key :: "'v \<Rightarrow> 'k"
    and empty_registry :: "'r"
    and register :: "'v \<Rightarrow> 'r \<Rightarrow> 'r res"
    and resolve :: "'k \<Rightarrow> 'r \<Rightarrow> 'v res"
  assumes resolve_empty: "\<not> is_ok (resolve k empty_registry)"
    and register_iff: "is_ok (register v r) \<longleftrightarrow> \<not> is_ok (resolve (key v) r)"
    and resolve_register: "register v r = Ok r' \<Longrightarrow>
           resolve k r' = (if k = key v then Ok v else resolve k r)"
begin

lemma resolve_register_all:
  assumes "register_all register vs r = Ok r'"
  shows "resolve k r' = Ok v \<longleftrightarrow> (v \<in> set vs \<and> key v = k) \<or> resolve k r = Ok v"
  using assms
proof (induction vs arbitrary: r)
  case (Cons w ws)
  from Cons.prems obtain r1 where r1: "register w r = Ok r1" "register_all register ws r1 = Ok r'"
    by (auto simp: res_bind_ok)
  have "\<not> is_ok (resolve (key w) r)" using register_iff [of w r] r1(1) by simp
  then have "\<nexists>x. resolve (key w) r = Ok x" by (auto simp: is_ok_iff)
  then have "resolve k r1 = Ok v \<longleftrightarrow> (v = w \<and> key v = k) \<or> resolve k r = Ok v"
    using resolve_register [OF r1(1), of k] by auto
  with Cons.IH [OF r1(2)] show ?case by auto
qed simp

lemma register_all_iff:
  "is_ok (register_all register vs r) \<longleftrightarrow>
     distinct (map key vs) \<and> (\<forall>v \<in> set vs. \<not> is_ok (resolve (key v) r))"
proof (induction vs arbitrary: r)
  case (Cons w ws)
  show ?case
  proof (cases "register w r")
    case (Inl e)
    with register_iff [of w r] show ?thesis by (auto simp: is_ok_iff)
  next
    case (Inr r1)
    have "is_ok (resolve (key v) r1) \<longleftrightarrow> key v = key w \<or> is_ok (resolve (key v) r)" for v
      using resolve_register [OF Inr, of "key v"] by simp
    with Cons.IH [of r1] Inr register_iff [of w r] show ?thesis by (auto simp: image_iff)
  qed
qed simp

text \<open>The constructor accepts exactly the lists without a repeated key, and resolves each of its items.\<close>

lemma build_iff: "is_ok (register_all register vs empty_registry) \<longleftrightarrow> distinct (map key vs)"
  by (simp add: register_all_iff resolve_empty)

lemma resolve_build:
  assumes "register_all register vs empty_registry = Ok r"
  shows "resolve k r = Ok v \<longleftrightarrow> v \<in> set vs \<and> key v = k"
  using resolve_register_all [OF assms, of k v] resolve_empty [of k] by (auto simp: is_ok_iff)

end

text \<open>
  A dict keyed by identity: \<open>if key in d: raise\<close>, \<open>d[key] = v\<close>, and \<open>d[key]\<close> with its KeyError
  turned into another error.
\<close>

definition dict_register :: "('v \<Rightarrow> 'k) \<Rightarrow> ('k \<Rightarrow> exn) \<Rightarrow> 'v \<Rightarrow> ('k \<times> 'v) list \<Rightarrow> ('k \<times> 'v) list res" where
  "dict_register key dup v d =
     (if map_of d (key v) \<noteq> None then Inl (dup (key v)) else Ok (d @ [(key v, v)]))"

definition dict_require :: "('k \<Rightarrow> exn) \<Rightarrow> 'k \<Rightarrow> ('k \<times> 'v) list \<Rightarrow> 'v res" where
  "dict_require missing k d = (case map_of d k of None \<Rightarrow> Inl (missing k) | Some v \<Rightarrow> Ok v)"

lemma dict_registry: "registry key [] (dict_register key dup) (dict_require missing)"
proof
  show "\<not> is_ok (dict_require missing k [])" for k by (simp add: dict_require_def)
  show "is_ok (dict_register key dup v r) \<longleftrightarrow> \<not> is_ok (dict_require missing (key v) r)" for v r
    by (auto simp: dict_register_def dict_require_def split: option.splits)
  show "dict_require missing k r' = (if k = key v then Ok v else dict_require missing k r)"
    if "dict_register key dup v r = Ok r'" for v r r' k
    using that by (auto simp: dict_register_def dict_require_def map_add_def split: if_splits option.splits)
qed

lemma register_all_dict:
  assumes "register_all (dict_register key dup) vs d = Ok r"
  shows "r = d @ map (\<lambda>v. (key v, v)) vs"
  using assms
proof (induction vs arbitrary: d)
  case (Cons v vs)
  from Cons.prems obtain d1 where "dict_register key dup v d = Ok d1"
    "register_all (dict_register key dup) vs d1 = Ok r" by (auto simp: res_bind_ok)
  moreover from calculation(1) have "d1 = d @ [(key v, v)]"
    by (simp add: dict_register_def split: if_splits)
  ultimately show ?case using Cons.IH [of d1] by simp
qed simp

end
