(* ===== verification/Capabilities.thy ===== *)
theory Capabilities
  imports Auth Registry Hashing
begin

text \<open>
  \<open>enterprise/governance/capabilities.py\<close>: capability definitions and their access
  policies, grants and grant sets, the registry, and the resolver that derives
  grants from trusted context. Grant ids, random in the code, are arguments.
\<close>

section \<open>Policies and definitions\<close>

datatype access_disposition =
  Access_ALLOW | ALLOW_EXECUTE | ALLOW_REQUEST_APPROVAL | NEED_CLARIFICATION | Access_DENY

datatype authorization_dimension =
  DISCOVER | READ_RECORD | REQUEST_TRANSITION | EXECUTE_TRANSITION | REQUEST_APPROVAL | ADJUDICATE_APPROVAL

fun dimension_value :: "authorization_dimension \<Rightarrow> string" where
  "dimension_value DISCOVER = ''discover''"
| "dimension_value READ_RECORD = ''read_record''"
| "dimension_value REQUEST_TRANSITION = ''request_transition''"
| "dimension_value EXECUTE_TRANSITION = ''execute_transition''"
| "dimension_value REQUEST_APPROVAL = ''request_approval''"
| "dimension_value ADJUDICATE_APPROVAL = ''adjudicate_approval''"

datatype scope_dimension = DEPARTMENT | BUSINESS_LINE

fun scope_value :: "scope_dimension \<Rightarrow> string" where
  "scope_value DEPARTMENT = ''department''"
| "scope_value BUSINESS_LINE = ''business_line''"

definition legacy_dimensions_for_role :: "string \<Rightarrow> permission_level \<Rightarrow> authorization_dimension set" where
  "legacy_dimensions_for_role role minimum_permission =
     (let base =
            (if role = ''viewer'' then {DISCOVER, READ_RECORD}
             else if role = ''operator''
             then {DISCOVER, READ_RECORD, REQUEST_TRANSITION, EXECUTE_TRANSITION}
             else if role = ''approver'' then {DISCOVER, READ_RECORD, ADJUDICATE_APPROVAL}
             else if role \<in> {''org_admin'', ''super_admin''} then {DISCOVER, READ_RECORD}
             else {});
          permitted =
            (case minimum_permission of
               Perm_NONE \<Rightarrow> {}
             | Perm_READ \<Rightarrow> {DISCOVER, READ_RECORD}
             | Perm_OPERATE \<Rightarrow> {DISCOVER, READ_RECORD, REQUEST_TRANSITION, EXECUTE_TRANSITION}
             | Perm_APPROVE \<Rightarrow> {DISCOVER, READ_RECORD, ADJUDICATE_APPROVAL})
      in base \<inter> permitted)"

definition legacy_roles_for_permission :: "permission_level \<Rightarrow> string set" where
  "legacy_roles_for_permission permission =
     (case permission of
        Perm_NONE \<Rightarrow> {}
      | Perm_READ \<Rightarrow> {''viewer'', ''operator'', ''approver'', ''org_admin'', ''super_admin''}
      | Perm_OPERATE \<Rightarrow> {''operator''}
      | Perm_APPROVE \<Rightarrow> {''approver''})"

record capability_access_policy =
  ap_minimum_permission :: permission_level
  ap_approval_request_minimum_permission :: permission_level
  ap_allow_request_approval :: bool
  ap_required_scope_dimensions :: "scope_dimension set"
  ap_role_dimensions :: "(string \<times> authorization_dimension set) list option"

definition dimensions_for_role :: "capability_access_policy \<Rightarrow> string \<Rightarrow> authorization_dimension set" where
  "dimensions_for_role policy role =
     (case ap_role_dimensions policy of
        Some m \<Rightarrow> (case map_of m role of None \<Rightarrow> {} | Some ds \<Rightarrow> ds)
      | None \<Rightarrow>
          legacy_dimensions_for_role role (ap_minimum_permission policy) \<union>
          (if ap_allow_request_approval policy \<and>
              role \<in> legacy_roles_for_permission (ap_approval_request_minimum_permission policy)
           then {REQUEST_APPROVAL} else {}))"

record capability_definition =
  cd_capability_id :: string
  cd_version :: string
  cd_domain :: string
  cd_display_name :: string
  cd_intent_examples :: "string list"
  cd_input_schema :: jobject
  cd_state_transition :: jobject
  cd_access_policy_ref :: string
  cd_risk_policy_ref :: string
  cd_work_order_template_ref :: string
  cd_result_probe_ref :: string
  cd_access_policy :: capability_access_policy

record capability_data_scope =
  ds_department_id :: "string option"
  ds_business_line_id :: "string option"
  ds_resource_ids :: "string set"
  ds_attributes :: jobject

record resolution_context =
  rc_user :: user_context
  rc_tenant_id :: string
  rc_data_scope :: capability_data_scope
  rc_installed_capability_ids :: "string set"
  rc_policy_snapshot_version :: string
  rc_resolved_at :: time
  rc_grant_ttl_seconds :: int
  rc_workload_principal_id :: "string option"
  rc_revocation_epoch :: string
  rc_purpose :: string

section \<open>Grants\<close>

record capability_grant =
  cg_grant_id :: string
  cg_capability_id :: string
  cg_capability_version :: string
  cg_principal_id :: string
  cg_business_principal_id :: "string option"
  cg_workload_principal_id :: "string option"
  cg_tenant_id :: string
  cg_data_scope :: capability_data_scope
  cg_disposition :: access_disposition
  cg_allowed_dimensions :: "authorization_dimension set"
  cg_policy_snapshot_version :: string
  cg_revocation_epoch :: string
  cg_purpose :: string
  cg_resolved_at :: time
  cg_not_before :: "time option"
  cg_expires_at :: time
  cg_reasons :: "string list"

definition normalize_legacy_bindings :: "capability_grant \<Rightarrow> capability_grant" where
  "normalize_legacy_bindings g =
     (let g1 = (case cg_business_principal_id g of
                  None \<Rightarrow> g\<lparr>cg_business_principal_id := Some (cg_principal_id g)\<rparr> | Some _ \<Rightarrow> g)
      in if cg_allowed_dimensions g1 = {}
         then (case cg_disposition g1 of
                 ALLOW_EXECUTE \<Rightarrow> g1\<lparr>cg_allowed_dimensions := {EXECUTE_TRANSITION}\<rparr>
               | ALLOW_REQUEST_APPROVAL \<Rightarrow> g1\<lparr>cg_allowed_dimensions := {REQUEST_APPROVAL}\<rparr>
               | _ \<Rightarrow> g1)
         else g1)"

definition is_active_at :: "capability_grant \<Rightarrow> time \<Rightarrow> bool" where
  "is_active_at g now =
     ((case cg_not_before g of None \<Rightarrow> cg_resolved_at g | Some t \<Rightarrow> t) \<le> now \<and> now < cg_expires_at g)"

definition grant_allows :: "capability_grant \<Rightarrow> authorization_dimension \<Rightarrow> time \<Rightarrow> bool" where
  "grant_allows g dimension now = (is_active_at g now \<and> dimension \<in> cg_allowed_dimensions g)"

text \<open>A \<open>CapabilityGrantSet\<close> is its list of grants.\<close>

definition make_grant_set :: "capability_grant list \<Rightarrow> capability_grant list res" where
  "make_grant_set grants =
     (if \<not> distinct (map cg_grant_id grants)
      then Raise ValueError ''CapabilityGrantSet grant_id values must be unique'' else Ok grants)"

definition active_grants :: "capability_grant list \<Rightarrow> time \<Rightarrow> capability_grant list" where
  "active_grants grants now =
     filter (\<lambda>g. cg_disposition g \<noteq> Access_DENY \<and> is_active_at g now) grants"

definition executable_grants :: "capability_grant list \<Rightarrow> time \<Rightarrow> capability_grant list" where
  "executable_grants grants now =
     filter (\<lambda>g. grant_allows g EXECUTE_TRANSITION now) (active_grants grants now)"

definition require_dimension ::
  "capability_grant list \<Rightarrow> string \<Rightarrow> string \<Rightarrow> authorization_dimension \<Rightarrow> time \<Rightarrow> capability_grant res" where
  "require_dimension grants capability_id grant_id dimension now =
     (case List.find (\<lambda>g. cg_capability_id g = capability_id \<and> cg_grant_id g = grant_id \<and>
                          grant_allows g dimension now) (active_grants grants now) of
        None \<Rightarrow> Raise ValueError (''CapabilityGrant does not allow '' @ dimension_value dimension)
      | Some g \<Rightarrow> Ok g)"

definition require_executable ::
  "capability_grant list \<Rightarrow> string \<Rightarrow> string \<Rightarrow> time \<Rightarrow> capability_grant res" where
  "require_executable grants capability_id grant_id now =
     (case require_dimension grants capability_id grant_id EXECUTE_TRANSITION now of
        Inl e \<Rightarrow> if is_value_error e
          then Raise ValueError ''Planner capability reference is not an executable CapabilityGrant''
          else Inl e
      | Inr g \<Rightarrow> Ok g)"

section \<open>The registry\<close>

type_synonym capability_registry = "(string \<times> capability_definition) list"

definition duplicate_capability :: "string \<Rightarrow> exn" where
  "duplicate_capability i = Exc ValueError (''Duplicate capability_id: '' @ i)"

definition unknown_capability :: "string \<Rightarrow> exn" where
  "unknown_capability i = Exc ValueError ''Capability is not registered''"

definition capability_registry_of :: "capability_definition list \<Rightarrow> capability_registry res" where
  "capability_registry_of definitions =
     register_all (dict_register cd_capability_id duplicate_capability) definitions []"

definition registered_definitions :: "capability_registry \<Rightarrow> capability_definition list" where
  "registered_definitions r = map snd r"

definition require_capability :: "string \<Rightarrow> capability_registry \<Rightarrow> capability_definition res" where
  "require_capability = dict_require unknown_capability"

interpretation capability_store: registry cd_capability_id "[]"
  "dict_register cd_capability_id duplicate_capability" require_capability
  unfolding require_capability_def by (rule dict_registry)

section \<open>The resolver\<close>

definition resolver_grant ::
  "string \<Rightarrow> capability_definition \<Rightarrow> resolution_context \<Rightarrow> access_disposition \<Rightarrow> string \<Rightarrow> capability_grant" where
  "resolver_grant grant_id d context disposition reason =
     normalize_legacy_bindings
       \<lparr>cg_grant_id = grant_id, cg_capability_id = cd_capability_id d, cg_capability_version = cd_version d,
        cg_principal_id = uc_user_id (rc_user context),
        cg_business_principal_id = Some (uc_user_id (rc_user context)),
        cg_workload_principal_id = rc_workload_principal_id context, cg_tenant_id = rc_tenant_id context,
        cg_data_scope = rc_data_scope context, cg_disposition = disposition, cg_allowed_dimensions = {},
        cg_policy_snapshot_version = rc_policy_snapshot_version context,
        cg_revocation_epoch = rc_revocation_epoch context, cg_purpose = rc_purpose context,
        cg_resolved_at = rc_resolved_at context, cg_not_before = Some (rc_resolved_at context),
        cg_expires_at = rc_resolved_at context + seconds (rc_grant_ttl_seconds context),
        cg_reasons = [reason]\<rparr>"

definition role_in_scope :: "resolution_context \<Rightarrow> department_role \<Rightarrow> bool" where
  "role_in_scope context dr \<longleftrightarrow>
     (truthy (ds_department_id (rc_data_scope context)) \<and>
      ds_department_id (rc_data_scope context) = Some (dr_department_id dr)) \<and>
     (\<not> truthy (ds_business_line_id (rc_data_scope context)) \<or>
      has_business_line (rc_user context) (the (ds_business_line_id (rc_data_scope context))))"

definition roles_in_scope :: "resolution_context \<Rightarrow> string set" where
  "roles_in_scope context =
     set (map dr_role (filter (role_in_scope context) (uc_department_roles (rc_user context))))"

definition missing_scope :: "resolution_context \<Rightarrow> scope_dimension \<Rightarrow> bool" where
  "missing_scope context dimension =
     (case dimension of
        DEPARTMENT \<Rightarrow> \<not> truthy (ds_department_id (rc_data_scope context))
      | BUSINESS_LINE \<Rightarrow> \<not> truthy (ds_business_line_id (rc_data_scope context)))"

text \<open>\<open>sorted(required_missing)\<close>: the value of BUSINESS_LINE sorts first.\<close>

definition required_missing :: "capability_definition \<Rightarrow> resolution_context \<Rightarrow> scope_dimension list" where
  "required_missing d context =
     filter (\<lambda>x. x \<in> ap_required_scope_dimensions (cd_access_policy d) \<and> missing_scope context x)
       [BUSINESS_LINE, DEPARTMENT]"

definition resolved_dimensions :: "capability_definition \<Rightarrow> resolution_context \<Rightarrow> authorization_dimension set" where
  "resolved_dimensions d context =
     \<Union> (dimensions_for_role (cd_access_policy d) ` roles_in_scope context) \<union>
     (if uc_has_cross_org_read (rc_user context) then {READ_RECORD} else {}) \<union>
     (if uc_has_cross_org_approve (rc_user context) then {ADJUDICATE_APPROVAL} else {})"

definition resolve_definition ::
  "string \<Rightarrow> capability_definition \<Rightarrow> resolution_context \<Rightarrow> capability_grant" where
  "resolve_definition grant_id d context =
     (if rc_tenant_id context \<noteq> uc_org_id (rc_user context)
      then resolver_grant grant_id d context Access_DENY
             ''Trusted user tenant does not match request tenant''
      else if cd_capability_id d \<notin> rc_installed_capability_ids context
      then resolver_grant grant_id d context Access_DENY ''Capability is not installed for this tenant''
      else if required_missing d context \<noteq> []
      then resolver_grant grant_id d context NEED_CLARIFICATION
             (''Missing required data scope: '' @
              join_with '', '' (map scope_value (required_missing d context)))
      else (let dimensions = resolved_dimensions d context
            in if dimensions = {}
               then resolver_grant grant_id d context Access_DENY ''No role dimensions satisfy policy''
               else (let disposition =
                           (if EXECUTE_TRANSITION \<in> dimensions then ALLOW_EXECUTE
                            else if REQUEST_APPROVAL \<in> dimensions then ALLOW_REQUEST_APPROVAL
                            else Access_ALLOW)
                     in (resolver_grant grant_id d context disposition
                           ''Explicit role dimensions satisfy policy'')
                         \<lparr>cg_allowed_dimensions := dimensions\<rparr>)))"

definition resolve_grants ::
  "(nat \<Rightarrow> string) \<Rightarrow> capability_registry \<Rightarrow> resolution_context \<Rightarrow> capability_grant list res" where
  "resolve_grants grant_ids r context =
     make_grant_set (map (\<lambda>(n, d). resolve_definition (grant_ids n) d context)
       (List.enumerate 0 (registered_definitions r)))"

section \<open>Laws\<close>

lemma resolver_grant_fields:
  "cg_grant_id (resolver_grant i d c disp why) = i"
  "cg_capability_id (resolver_grant i d c disp why) = cd_capability_id d"
  "cg_tenant_id (resolver_grant i d c disp why) = rc_tenant_id c"
  "cg_principal_id (resolver_grant i d c disp why) = uc_user_id (rc_user c)"
  "cg_disposition (resolver_grant i d c disp why) = disp"
  "cg_data_scope (resolver_grant i d c disp why) = rc_data_scope c"
  "cg_not_before (resolver_grant i d c disp why) = Some (rc_resolved_at c)"
  "cg_expires_at (resolver_grant i d c disp why) = rc_resolved_at c + seconds (rc_grant_ttl_seconds c)"
  "cg_allowed_dimensions (resolver_grant i d c disp why) =
     (case disp of ALLOW_EXECUTE \<Rightarrow> {EXECUTE_TRANSITION}
      | ALLOW_REQUEST_APPROVAL \<Rightarrow> {REQUEST_APPROVAL} | _ \<Rightarrow> {})"
  by (cases disp; simp add: resolver_grant_def normalize_legacy_bindings_def Let_def)+

text \<open>The three guards of the resolver, and the grant behind them.\<close>

definition admitted :: "capability_definition \<Rightarrow> resolution_context \<Rightarrow> bool" where
  "admitted d c \<longleftrightarrow> rc_tenant_id c = uc_org_id (rc_user c) \<and>
     cd_capability_id d \<in> rc_installed_capability_ids c \<and> required_missing d c = []"

lemma resolve_definition_dimensions:
  "cg_allowed_dimensions (resolve_definition i d c) = (if admitted d c then resolved_dimensions d c else {})"
  by (auto simp: resolve_definition_def admitted_def resolver_grant_fields Let_def)

lemma resolve_definition_deny:
  "cg_disposition (resolve_definition i d c) = Access_DENY \<longleftrightarrow>
     rc_tenant_id c \<noteq> uc_org_id (rc_user c) \<or> cd_capability_id d \<notin> rc_installed_capability_ids c \<or>
     (required_missing d c = [] \<and> resolved_dimensions d c = {})"
  by (auto simp: resolve_definition_def resolver_grant_fields Let_def)

lemma resolve_definition_fields:
  "cg_grant_id (resolve_definition i d c) = i"
  "cg_capability_id (resolve_definition i d c) = cd_capability_id d"
  "cg_tenant_id (resolve_definition i d c) = rc_tenant_id c"
  "cg_principal_id (resolve_definition i d c) = uc_user_id (rc_user c)"
  "cg_data_scope (resolve_definition i d c) = rc_data_scope c"
  "is_active_at (resolve_definition i d c) now \<longleftrightarrow>
     rc_resolved_at c \<le> now \<and> now < rc_resolved_at c + seconds (rc_grant_ttl_seconds c)"
  by (auto simp: resolve_definition_def resolver_grant_fields Let_def is_active_at_def)

lemma require_dimension_ok:
  "require_dimension grants cap gid x now = Ok g \<Longrightarrow>
     g \<in> set grants \<and> cg_capability_id g = cap \<and> cg_grant_id g = gid \<and>
     cg_disposition g \<noteq> Access_DENY \<and> grant_allows g x now"
  by (auto simp: require_dimension_def active_grants_def split: option.splits dest: find_mem)

lemma require_dimension_exists:
  "is_ok (require_dimension grants cap gid x now) \<longleftrightarrow>
     (\<exists>g \<in> set grants. cg_capability_id g = cap \<and> cg_grant_id g = gid \<and>
        cg_disposition g \<noteq> Access_DENY \<and> grant_allows g x now)"
proof -
  have "is_ok (require_dimension grants cap gid x now) \<longleftrightarrow>
      (\<exists>g. List.find (\<lambda>g. cg_capability_id g = cap \<and> cg_grant_id g = gid \<and> grant_allows g x now)
         (active_grants grants now) = Some g)"
    by (auto simp: require_dimension_def split: option.splits)
  then show ?thesis by (auto simp: find_exists active_grants_def grant_allows_def)
qed

lemma require_executable_ok:
  "require_executable grants cap gid now = Ok g \<longleftrightarrow>
     require_dimension grants cap gid EXECUTE_TRANSITION now = Ok g"
  by (auto simp: require_executable_def split: sum.splits if_splits)

lemma resolve_grants_ok:
  assumes "capability_registry_of ds = Ok r" and "resolve_grants ids r c = Ok grants"
  shows "length grants = length ds \<and> distinct (map cd_capability_id ds) \<and>
     (\<forall>n < length ds. grants ! n = resolve_definition (ids n) (ds ! n) c)"
proof -
  have r: "registered_definitions r = ds"
    using register_all_dict [OF assms(1) [unfolded capability_registry_of_def]]
    by (simp add: registered_definitions_def o_def)
  have "distinct (map cd_capability_id ds)"
    using capability_store.build_iff [of ds] assms(1) by (simp add: capability_registry_of_def)
  with assms(2) r show ?thesis
    by (auto simp: resolve_grants_def make_grant_set_def nth_enumerate_eq split: if_splits)
qed

text \<open>Under the legacy role map no role both executes and adjudicates, and no role but the operator executes.\<close>

lemma legacy_separation_of_duties:
  assumes "ap_role_dimensions policy = None"
  shows "EXECUTE_TRANSITION \<in> dimensions_for_role policy role \<Longrightarrow>
           role = ''operator'' \<and> ADJUDICATE_APPROVAL \<notin> dimensions_for_role policy role"
  using assms
  by (auto simp: dimensions_for_role_def legacy_dimensions_for_role_def Let_def
           split: if_splits permission_level.splits)

section \<open>Properties\<close>

text \<open>
  C21. A grant resolved from a registry lets the planner execute a
  capability exactly when it is the grant of that registered capability, the request's tenant is
  the trusted user's, the capability is installed for it with its required scope given, some role
  of the user in the scope's department (within its business line) carries the execute dimension
  in the capability's own policy, and the time lies in the grant's validity interval.
  Cross-organization permissions never suffice.
\<close>

theorem executable_grant_authority:
  assumes "capability_registry_of ds = Ok r" and "resolve_grants ids r c = Ok grants"
  shows "is_ok (require_executable grants capability gid now) \<longleftrightarrow>
     (\<exists>n < length ds. gid = ids n \<and> capability = cd_capability_id (ds ! n) \<and>
        rc_tenant_id c = uc_org_id (rc_user c) \<and>
        capability \<in> rc_installed_capability_ids c \<and> required_missing (ds ! n) c = [] \<and>
        (\<exists>dr \<in> set (uc_department_roles (rc_user c)). role_in_scope c dr \<and>
           EXECUTE_TRANSITION \<in> dimensions_for_role (cd_access_policy (ds ! n)) (dr_role dr)) \<and>
        rc_resolved_at c \<le> now \<and> now < rc_resolved_at c + seconds (rc_grant_ttl_seconds c))"
proof -
  note g = resolve_grants_ok [OF assms]
  have execute: "EXECUTE_TRANSITION \<in> cg_allowed_dimensions (resolve_definition i d c) \<longleftrightarrow>
      admitted d c \<and> (\<exists>dr \<in> set (uc_department_roles (rc_user c)). role_in_scope c dr \<and>
         EXECUTE_TRANSITION \<in> dimensions_for_role (cd_access_policy d) (dr_role dr))" for i d
    by (auto simp: resolve_definition_dimensions resolved_dimensions_def roles_in_scope_def)
  have not_denied: "cg_disposition (resolve_definition i d c) \<noteq> Access_DENY"
    if "EXECUTE_TRANSITION \<in> cg_allowed_dimensions (resolve_definition i d c)" for i d
    using that by (auto simp: resolve_definition_deny resolve_definition_dimensions admitted_def split: if_splits)
  have "is_ok (require_executable grants capability gid now) \<longleftrightarrow>
      is_ok (require_dimension grants capability gid EXECUTE_TRANSITION now)"
    using require_executable_ok by (simp add: is_ok_iff)
  also have "\<dots> \<longleftrightarrow> (\<exists>n < length ds. let g = resolve_definition (ids n) (ds ! n) c in
      cg_capability_id g = capability \<and> cg_grant_id g = gid \<and> cg_disposition g \<noteq> Access_DENY \<and>
      grant_allows g EXECUTE_TRANSITION now)"
    unfolding require_dimension_exists Let_def using g by (metis in_set_conv_nth)
  finally show ?thesis
    using not_denied
    by (auto simp: Let_def grant_allows_def execute resolve_definition_fields admitted_def)
qed

definition sample_capability :: capability_definition where
  "sample_capability = \<lparr>cd_capability_id = ''pay'', cd_version = ''1'', cd_domain = ''d'',
     cd_display_name = ''Pay'', cd_intent_examples = [], cd_input_schema = [], cd_state_transition = [],
     cd_access_policy_ref = ''a'', cd_risk_policy_ref = ''r'', cd_work_order_template_ref = ''w'',
     cd_result_probe_ref = ''p'', cd_access_policy =
       \<lparr>ap_minimum_permission = Perm_OPERATE, ap_approval_request_minimum_permission = Perm_READ,
        ap_allow_request_approval = False, ap_required_scope_dimensions = {DEPARTMENT},
        ap_role_dimensions = None\<rparr>\<rparr>"

definition sample_context :: resolution_context where
  "sample_context = \<lparr>rc_user = \<lparr>uc_user_id = ''u'', uc_org_id = ''org'',
       uc_department_roles = [\<lparr>dr_department_id = ''d1'', dr_department_name = ''D'', dr_role = ''operator''\<rparr>],
       uc_business_line_ids = [], uc_has_cross_org_read = False, uc_has_cross_org_approve = False\<rparr>,
     rc_tenant_id = ''org'', rc_data_scope = \<lparr>ds_department_id = Some ''d1'', ds_business_line_id = None,
       ds_resource_ids = {}, ds_attributes = []\<rparr>,
     rc_installed_capability_ids = {''pay''}, rc_policy_snapshot_version = ''v'', rc_resolved_at = 0,
     rc_grant_ttl_seconds = 300, rc_workload_principal_id = None, rc_revocation_epoch = ''0'',
     rc_purpose = ''capability_request''\<rparr>"

theorem executable_grant_authority_witness:
  "\<exists>r grants. capability_registry_of [sample_capability] = Ok r \<and>
     resolve_grants show_nat r sample_context = Ok grants \<and>
     is_ok (require_executable grants ''pay'' (show_nat 0) 5) \<and>
     \<not> is_ok (require_executable grants ''pay'' (show_nat 0) (seconds 300))"
proof -
  have "\<exists>r. capability_registry_of [sample_capability] = Ok r"
    by (simp add: capability_registry_of_def dict_register_def)
  then obtain r where r: "capability_registry_of [sample_capability] = Ok r" by blast
  have "registered_definitions r = [sample_capability]"
    using register_all_dict [OF r [unfolded capability_registry_of_def]]
    by (simp add: registered_definitions_def)
  then have "\<exists>grants. resolve_grants show_nat r sample_context = Ok grants"
    by (simp add: resolve_grants_def make_grant_set_def)
  then obtain grants where grants: "resolve_grants show_nat r sample_context = Ok grants" by blast
  have scope: "required_missing sample_capability sample_context = []"
    by (simp add: required_missing_def sample_capability_def sample_context_def missing_scope_def)
  have roles: "\<exists>dr \<in> set (uc_department_roles (rc_user sample_context)). role_in_scope sample_context dr \<and>
      EXECUTE_TRANSITION \<in> dimensions_for_role (cd_access_policy sample_capability) (dr_role dr)"
    by (simp add: sample_context_def role_in_scope_def sample_capability_def dimensions_for_role_def
          legacy_dimensions_for_role_def)
  have fields: "cd_capability_id sample_capability = ''pay''" "rc_resolved_at sample_context = 0"
    "rc_grant_ttl_seconds sample_context = 300" "rc_tenant_id sample_context = ''org''"
    "uc_org_id (rc_user sample_context) = ''org''" "rc_installed_capability_ids sample_context = {''pay''}"
    by (simp_all add: sample_capability_def sample_context_def)
  from executable_grant_authority [OF r grants] roles scope fields r grants show ?thesis
    by (intro exI [of _ r] exI [of _ grants]) (simp add: seconds_def)
qed

end
