(* ===== verification/Packs.thy ===== *)
theory Packs
  imports Capabilities
begin

text \<open>
  \<open>enterprise/governance/domain_packs.py\<close> and \<open>domain_pack_contracts.py\<close>: runtime
  manifests and their registry, and the offline contracts and their catalog.
\<close>

section \<open>Runtime manifests\<close>

datatype domain_pack_kind = SYNTHETIC | PRODUCTION

record domain_pack_manifest =
  dm_pack_id :: string
  dm_version :: string
  dm_kind :: domain_pack_kind
  dm_display_name :: string
  dm_owner :: string
  dm_capabilities :: "capability_definition list"
  dm_canonical_fact_schema :: jobject
  dm_state_transitions :: "(string \<times> string list) list"
  dm_policy_refs :: "string set"
  dm_result_probe_refs :: "string set"
  dm_production_eligible :: bool

definition validate_manifest_boundary :: "domain_pack_manifest \<Rightarrow> domain_pack_manifest res" where
  "validate_manifest_boundary m =
     checks
       [(dm_pack_id m = [] \<or> dm_version m = [] \<or> dm_display_name m = [] \<or> dm_owner m = [],
         Exc ValueError ''min_length''),
        (dm_capabilities m = [], Exc ValueError ''Domain Pack must register at least one capability''),
        (\<not> distinct (map cd_capability_id (dm_capabilities m)),
         Exc ValueError ''Domain Pack capability ids must be unique''),
        (list_ex (\<lambda>c. cd_version c \<noteq> dm_version m) (dm_capabilities m),
         Exc ValueError ''Domain Pack capability version must match its Pack''),
        (dm_kind m = SYNTHETIC \<and> dm_production_eligible m,
         Exc ValueError ''Synthetic Domain Packs can never be production eligible'')]
       (Ok m)"

definition manifest_identity :: "domain_pack_manifest \<Rightarrow> string \<times> string" where
  "manifest_identity m = (dm_pack_id m, dm_version m)"

definition at_version :: "string \<times> string \<Rightarrow> string" where
  "at_version k = fst k @ ''@'' @ snd k"

type_synonym pack_registry = "((string \<times> string) \<times> domain_pack_manifest) list"

definition duplicate_pack :: "string \<times> string \<Rightarrow> exn" where
  "duplicate_pack k = Exc ValueError (''Duplicate Domain Pack identity: '' @ at_version k)"

definition pack_not_installed :: "string \<times> string \<Rightarrow> exn" where
  "pack_not_installed k = Exc ValueError (''Domain Pack is not installed: '' @ at_version k)"

definition register_pack :: "domain_pack_manifest \<Rightarrow> pack_registry \<Rightarrow> pack_registry res" where
  "register_pack = dict_register manifest_identity duplicate_pack"

definition pack_registry_of :: "domain_pack_manifest list \<Rightarrow> pack_registry res" where
  "pack_registry_of manifests = register_all register_pack manifests []"

definition require_pack :: "string \<Rightarrow> string option \<Rightarrow> pack_registry \<Rightarrow> domain_pack_manifest res" where
  "require_pack pack_id pack_version r =
     (case pack_version of
        Some v \<Rightarrow> dict_require pack_not_installed (pack_id, v) r
      | None \<Rightarrow>
          (case filter (\<lambda>kv. fst (fst kv) = pack_id) r of
             [] \<Rightarrow> Raise ValueError (''Domain Pack is not installed: '' @ pack_id)
           | [kv] \<Rightarrow> Ok (snd kv)
           | _ \<Rightarrow> Raise ValueError
               (''Domain Pack version is required for an ambiguous active identity: '' @ pack_id)))"

definition require_exact_pack :: "string \<times> string \<Rightarrow> pack_registry \<Rightarrow> domain_pack_manifest res" where
  "require_exact_pack k r = require_pack (fst k) (Some (snd k)) r"

definition identity_le :: "string \<times> string \<Rightarrow> string \<times> string \<Rightarrow> bool" where
  "identity_le a b = (if fst a = fst b then str_le (snd a) (snd b) else str_le (fst a) (fst b))"

definition registry_manifests :: "pack_registry \<Rightarrow> domain_pack_manifest list" where
  "registry_manifests r = map snd (sort_by (\<lambda>a b. identity_le (fst a) (fst b)) r)"

definition pack_capability_registry :: "pack_registry \<Rightarrow> capability_registry res" where
  "pack_capability_registry r =
     capability_registry_of (concat (map dm_capabilities (registry_manifests r)))"

interpretation pack_store: registry manifest_identity "[]" register_pack require_exact_pack
proof -
  have exact: "require_exact_pack = dict_require pack_not_installed"
    by (intro ext) (simp add: require_exact_pack_def require_pack_def)
  show "registry manifest_identity [] register_pack require_exact_pack"
    unfolding register_pack_def exact by (rule dict_registry)
qed

section \<open>Offline contracts\<close>

definition UNASSIGNED :: string where
  "UNASSIGNED = ''unassigned''"

datatype contract_owner_role =
    Owner_BUSINESS | Owner_TENANT_POLICY | Owner_IDENTITY_SECURITY | Owner_INTEGRATION_PROBE
  | Owner_REGISTRY_INTERFACE | Owner_DATA_CONTROL | Owner_RISK | Owner_LEGAL_COMPLIANCE
  | Owner_REHEARSAL | Owner_SRE_RELEASE

definition all_owner_roles :: "contract_owner_role list" where
  "all_owner_roles =
     [Owner_BUSINESS, Owner_TENANT_POLICY, Owner_IDENTITY_SECURITY, Owner_INTEGRATION_PROBE,
      Owner_REGISTRY_INTERFACE, Owner_DATA_CONTROL, Owner_RISK, Owner_LEGAL_COMPLIANCE,
      Owner_REHEARSAL, Owner_SRE_RELEASE]"

lemma all_owner_roles_UNIV: "set all_owner_roles = UNIV"
proof -
  have "x \<in> set all_owner_roles" for x by (cases x) (simp_all add: all_owner_roles_def)
  then show ?thesis by blast
qed

fun owner_role_value :: "contract_owner_role \<Rightarrow> string" where
  "owner_role_value Owner_BUSINESS = ''business''"
| "owner_role_value Owner_TENANT_POLICY = ''tenant_policy''"
| "owner_role_value Owner_IDENTITY_SECURITY = ''identity_security''"
| "owner_role_value Owner_INTEGRATION_PROBE = ''integration_probe''"
| "owner_role_value Owner_REGISTRY_INTERFACE = ''registry_interface''"
| "owner_role_value Owner_DATA_CONTROL = ''data_control''"
| "owner_role_value Owner_RISK = ''risk''"
| "owner_role_value Owner_LEGAL_COMPLIANCE = ''legal_compliance''"
| "owner_role_value Owner_REHEARSAL = ''rehearsal''"
| "owner_role_value Owner_SRE_RELEASE = ''sre_release''"

record contract_parameter =
  cp_parameter_id :: string
  cp_description :: string
  cp_required_for_installation :: bool

record contract_owner_reference =
  co_role :: contract_owner_role
  co_owner_ref :: string

definition owner_is_assigned :: "contract_owner_reference \<Rightarrow> bool" where
  "owner_is_assigned o_ref = (co_owner_ref o_ref \<noteq> UNASSIGNED)"

record contract_capability =
  cc_capability_id :: string
  cc_version :: string
  cc_domain :: string
  cc_display_name :: string
  cc_authorization_dimensions :: "authorization_dimension list"
  cc_required_parameter_ids :: "string list"

definition validate_read_only_surface :: "contract_capability \<Rightarrow> contract_capability res" where
  "validate_read_only_surface c =
     checks
       [(cc_authorization_dimensions c = [] \<or>
         \<not> set (cc_authorization_dimensions c) \<subseteq> {DISCOVER, READ_RECORD},
         Exc ValueError ''Contract capability may declare only discover/read authorization dimensions''),
        (\<not> distinct (cc_authorization_dimensions c),
         Exc ValueError ''Contract capability authorization dimensions must be unique''),
        (\<not> distinct (cc_required_parameter_ids c),
         Exc ValueError ''Contract capability parameter references must be unique'')]
       (Ok c)"

record contract_manifest =
  cm_pack_id :: string
  cm_contract_version :: string
  cm_display_name :: string
  cm_parameter_definitions :: "contract_parameter list"
  cm_capabilities :: "contract_capability list"
  cm_owner_refs :: "contract_owner_reference list"

text \<open>The loop over capabilities checks the domain, then the parameters, of each in turn.\<close>

definition validate_contract :: "contract_manifest \<Rightarrow> contract_manifest res" where
  "validate_contract m =
     (let parameter_ids = map cp_parameter_id (cm_parameter_definitions m)
      in checks
       [(\<not> distinct parameter_ids, Exc ValueError ''Contract parameter ids must be unique''),
        (\<not> distinct (map cc_capability_id (cm_capabilities m)),
         Exc ValueError ''Contract capability ids must be unique'')]
       (res_bind (each (\<lambda>c. checks
          [(cc_domain c \<noteq> cm_pack_id m,
            Exc ValueError ''Contract capability domain must match its Pack''),
           (\<not> set (cc_required_parameter_ids c) \<subseteq> set parameter_ids,
            Exc ValueError ''Contract capability references an unknown parameter'')] (Ok ()))
          (cm_capabilities m))
        (\<lambda>_. checks
          [(\<not> distinct (map co_role (cm_owner_refs m)), Exc ValueError ''Contract owner roles must be unique''),
           (set (map co_role (cm_owner_refs m)) \<noteq> set all_owner_roles,
            Exc ValueError ''Contract must declare every required owner role'')] (Ok m))))"

definition contract_dump :: "contract_manifest \<Rightarrow> json" where
  "contract_dump m = JObj
     [(''schema_version'', JStr ''domain-pack-contract/v1''), (''pack_id'', JStr (cm_pack_id m)),
      (''contract_version'', JStr (cm_contract_version m)), (''maturity'', JStr ''reference''),
      (''display_name'', JStr (cm_display_name m)),
      (''parameter_definitions'', JArr (map (\<lambda>p. JObj
         [(''parameter_id'', JStr (cp_parameter_id p)), (''description'', JStr (cp_description p)),
          (''required_for_installation'', JBool (cp_required_for_installation p)),
          (''unresolved_value'', JStr UNASSIGNED)]) (cm_parameter_definitions m))),
      (''capabilities'', JArr (map (\<lambda>c. JObj
         [(''capability_id'', JStr (cc_capability_id c)), (''version'', JStr (cc_version c)),
          (''domain'', JStr (cc_domain c)), (''display_name'', JStr (cc_display_name c)),
          (''authorization_dimensions'',
           JArr (map (\<lambda>d. JStr (dimension_value d)) (cc_authorization_dimensions c))),
          (''required_parameter_ids'', JArr (map JStr (cc_required_parameter_ids c))),
          (''state_transition'', JNull), (''effect'', JNull)]) (cm_capabilities m))),
      (''owner_refs'', JArr (map (\<lambda>r. JObj
         [(''role'', JStr (owner_role_value (co_role r))), (''owner_ref'', JStr (co_owner_ref r))])
         (cm_owner_refs m))),
      (''default_model_egress'', JStr ''deny''), (''default_payload_retention'', JStr ''none'')]"

definition contract_digest :: "contract_manifest \<Rightarrow> string" where
  "contract_digest m = sha256 (dumps True (contract_dump m))"

definition unresolved_parameter_ids :: "contract_manifest \<Rightarrow> string list" where
  "unresolved_parameter_ids m =
     map cp_parameter_id (filter cp_required_for_installation (cm_parameter_definitions m))"

definition unresolved_owner_roles :: "contract_manifest \<Rightarrow> contract_owner_role list" where
  "unresolved_owner_roles m = map co_role (filter (\<lambda>r. \<not> owner_is_assigned r) (cm_owner_refs m))"

definition require_installation_ready :: "contract_manifest \<Rightarrow> unit res" where
  "require_installation_ready m =
     Raise DomainPackContractNotInstallable
       ''Reference Domain Pack contract is offline-only; a separately approved Installation is required''"

definition contract_identity :: "contract_manifest \<Rightarrow> string \<times> string" where
  "contract_identity m = (cm_pack_id m, cm_contract_version m)"

type_synonym contract_catalog = "((string \<times> string) \<times> contract_manifest) list"

definition duplicate_contract :: "string \<times> string \<Rightarrow> exn" where
  "duplicate_contract k = Exc ValueError (''Duplicate Domain Pack contract: '' @ at_version k)"

definition contract_not_found :: "string \<times> string \<Rightarrow> exn" where
  "contract_not_found k =
     Exc ValueError (''Domain Pack contract is not in the offline catalog: '' @ at_version k)"

definition catalog_add :: "contract_manifest \<Rightarrow> contract_catalog \<Rightarrow> contract_catalog res" where
  "catalog_add = dict_register contract_identity duplicate_contract"

definition catalog_require :: "string \<times> string \<Rightarrow> contract_catalog \<Rightarrow> contract_manifest res" where
  "catalog_require = dict_require contract_not_found"

definition catalog_of :: "contract_manifest list \<Rightarrow> contract_catalog res" where
  "catalog_of contracts = register_all catalog_add contracts []"

definition catalog_contracts :: "contract_catalog \<Rightarrow> contract_manifest list" where
  "catalog_contracts r = map snd (sort_by (\<lambda>a b. identity_le (fst a) (fst b)) r)"

definition catalog_require_installable ::
  "string \<times> string \<Rightarrow> contract_catalog \<Rightarrow> contract_manifest res" where
  "catalog_require_installable k r =
     res_bind (catalog_require k r) (\<lambda>contract.
       res_bind (require_installation_ready contract) (\<lambda>_. Ok contract))"

interpretation catalog: registry contract_identity "[]" catalog_add catalog_require
  unfolding catalog_add_def catalog_require_def by (rule dict_registry)

section \<open>Properties\<close>

text \<open>
  The active pack registry and the offline catalog accept a
  sequence exactly when no (id, version) identity repeats, and then resolve an identity to an item
  exactly when that very item was registered under it; no contract of the catalog is ever
  installable; and a lookup without version succeeds exactly when one version is active.
\<close>

theorem registries_resolve_exactly:
  "(is_ok (pack_registry_of ms) \<longleftrightarrow> distinct (map manifest_identity ms)) \<and>
   (is_ok (catalog_of cs) \<longleftrightarrow> distinct (map contract_identity cs)) \<and>
   (\<forall>r. pack_registry_of ms = Ok r \<longrightarrow>
      (\<forall>i v m. require_pack i (Some v) r = Ok m \<longleftrightarrow> m \<in> set ms \<and> manifest_identity m = (i, v)) \<and>
      (\<forall>i m. require_pack i None r = Ok m \<longleftrightarrow> filter (\<lambda>x. dm_pack_id x = i) ms = [m])) \<and>
   (\<forall>r. catalog_of cs = Ok r \<longrightarrow>
      (\<forall>k c. catalog_require k r = Ok c \<longleftrightarrow> c \<in> set cs \<and> contract_identity c = k) \<and>
      (\<forall>k. \<not> is_ok (catalog_require_installable k r)))"
proof (intro conjI allI impI)
  show "is_ok (pack_registry_of ms) \<longleftrightarrow> distinct (map manifest_identity ms)"
    unfolding pack_registry_of_def by (rule pack_store.build_iff)
  show "is_ok (catalog_of cs) \<longleftrightarrow> distinct (map contract_identity cs)"
    unfolding catalog_of_def by (rule catalog.build_iff)
  show "require_pack i (Some v) r = Ok m \<longleftrightarrow> m \<in> set ms \<and> manifest_identity m = (i, v)"
    if "pack_registry_of ms = Ok r" for r i v m
    using pack_store.resolve_build [OF that [unfolded pack_registry_of_def], of "(i, v)" m]
    by (simp add: require_exact_pack_def)
  show "require_pack i None r = Ok m \<longleftrightarrow> filter (\<lambda>x. dm_pack_id x = i) ms = [m]"
    if "pack_registry_of ms = Ok r" for r i m
  proof -
    have r: "r = map (\<lambda>v. (manifest_identity v, v)) ms"
      using register_all_dict [OF that [unfolded pack_registry_of_def register_pack_def]] by simp
    have "map snd (filter (\<lambda>kv. fst (fst kv) = i) r) = filter (\<lambda>x. dm_pack_id x = i) ms"
      unfolding r by (induction ms) (simp_all add: manifest_identity_def)
    then show ?thesis
      unfolding require_pack_def by (auto split: list.splits)
  qed
  show "catalog_require k r = Ok c \<longleftrightarrow> c \<in> set cs \<and> contract_identity c = k"
    if "catalog_of cs = Ok r" for r k c
    using catalog.resolve_build [OF that [unfolded catalog_of_def]] .
  show "\<not> is_ok (catalog_require_installable k r)" for r k
    by (cases "catalog_require k r")
       (simp_all add: catalog_require_installable_def require_installation_ready_def)
qed

definition sample_manifest :: "string \<Rightarrow> domain_pack_manifest" where
  "sample_manifest v = \<lparr>dm_pack_id = ''pk'', dm_version = v, dm_kind = SYNTHETIC, dm_display_name = ''P'',
     dm_owner = ''o'', dm_capabilities = [sample_capability], dm_canonical_fact_schema = [],
     dm_state_transitions = [], dm_policy_refs = {}, dm_result_probe_refs = {''p''},
     dm_production_eligible = False\<rparr>"

theorem registries_resolve_exactly_witness:
  "\<exists>r. pack_registry_of [sample_manifest ''1'', sample_manifest ''2''] = Ok r \<and>
     require_pack ''pk'' (Some ''2'') r = Ok (sample_manifest ''2'') \<and> \<not> is_ok (require_pack ''pk'' None r)"
proof -
  let ?ms = "[sample_manifest ''1'', sample_manifest ''2'']"
  note spec = registries_resolve_exactly [of ?ms "[]"]
  have "distinct (map manifest_identity ?ms)"
    by (simp add: manifest_identity_def sample_manifest_def)
  with spec obtain r where r: "pack_registry_of ?ms = Ok r" by (auto simp: is_ok_iff)
  with spec have "require_pack ''pk'' (Some ''2'') r = Ok (sample_manifest ''2'')"
    "\<And>m. require_pack ''pk'' None r = Ok m \<longleftrightarrow> filter (\<lambda>x. dm_pack_id x = ''pk'') ?ms = [m]"
    by (simp_all add: manifest_identity_def sample_manifest_def)
  with r show ?thesis by (auto simp: is_ok_iff sample_manifest_def)
qed

end
