(* ===== verification/Conformance.thy ===== *)
theory Conformance
  imports Packs
begin

text \<open>
  \<open>enterprise/governance/pack_sdk.py\<close> and \<open>pack_conformance.py\<close>: the immutable Pack
  SDK manifest and its static conformance report. Parsing a raw mapping into a
  manifest is pydantic's and a parameter of the evaluation.
\<close>

section \<open>The SDK manifest\<close>

datatype pack_contract_kind = SYNTHETIC_REFERENCE | EXTERNAL_CANDIDATE

fun contract_kind_value :: "pack_contract_kind \<Rightarrow> string" where
  "contract_kind_value SYNTHETIC_REFERENCE = ''synthetic_reference''"
| "contract_kind_value EXTERNAL_CANDIDATE = ''external_candidate''"

datatype pack_effect_class = Effect_READ_ONLY | Effect_EXTERNAL_WRITE

fun effect_class_value :: "pack_effect_class \<Rightarrow> string" where
  "effect_class_value Effect_READ_ONLY = ''read_only''"
| "effect_class_value Effect_EXTERNAL_WRITE = ''external_write''"

datatype pack_evidence_kind = AUTHORITATIVE_READ | RESULT_PROBE

fun evidence_kind_value :: "pack_evidence_kind \<Rightarrow> string" where
  "evidence_kind_value AUTHORITATIVE_READ = ''authoritative_read''"
| "evidence_kind_value RESULT_PROBE = ''result_probe''"

datatype pack_data_classification = Pack_PUBLIC | Pack_INTERNAL | Pack_CONFIDENTIAL | Pack_RESTRICTED

fun pack_classification_value :: "pack_data_classification \<Rightarrow> string" where
  "pack_classification_value Pack_PUBLIC = ''public''"
| "pack_classification_value Pack_INTERNAL = ''internal''"
| "pack_classification_value Pack_CONFIDENTIAL = ''confidential''"
| "pack_classification_value Pack_RESTRICTED = ''restricted''"

record pack_canonical_fact =
  pf_fact_id :: string
  pf_schema_ref :: string
  pf_data_classification :: pack_data_classification
  pf_source_ref :: string
  pf_evidence_requirement_id :: string

record pack_evidence_requirement =
  pv_evidence_id :: string
  pv_kind :: pack_evidence_kind
  pv_source_schema_ref :: string
  pv_maximum_age_seconds :: int

record pack_lifecycle_transition =
  pt_transition_id :: string
  pt_source_state :: string
  pt_target_state :: string

record pack_lifecycle =
  pl_lifecycle_id :: string
  pl_states :: "string list"
  pl_terminal_states :: "string list"
  pl_transitions :: "pack_lifecycle_transition list"

record pack_capability =
  pc_capability_id :: string
  pc_pack_version :: string
  pc_display_name :: string
  pc_effect_class :: pack_effect_class
  pc_authorization_dimensions :: "authorization_dimension list"
  pc_canonical_fact_ids :: "string list"
  pc_evidence_requirement_ids :: "string list"
  pc_lifecycle_transition_id :: "string option"
  pc_result_evidence_id :: "string option"
  pc_approval_policy_ref :: "string option"

text \<open>The flags are fixed by their validators: catalog-only, never eligible for runtime wiring.\<close>

record pack_sdk_manifest =
  sm_pack_id :: string
  sm_pack_version :: string
  sm_kind :: pack_contract_kind
  sm_display_name :: string
  sm_contract_catalog_only :: bool
  sm_runtime_wiring_eligible :: bool
  sm_owner_refs :: "contract_owner_reference list"
  sm_freshness_ceiling_seconds :: int
  sm_canonical_facts :: "pack_canonical_fact list"
  sm_evidence_requirements :: "pack_evidence_requirement list"
  sm_lifecycle :: pack_lifecycle
  sm_capabilities :: "pack_capability list"

definition strings_dump :: "string list \<Rightarrow> json" where
  "strings_dump xs = JArr (map JStr xs)"

definition sdk_capability_dump :: "pack_capability \<Rightarrow> json" where
  "sdk_capability_dump c = JObj
     [(''capability_id'', JStr (pc_capability_id c)), (''pack_version'', JStr (pc_pack_version c)),
      (''display_name'', JStr (pc_display_name c)),
      (''effect_class'', JStr (effect_class_value (pc_effect_class c))),
      (''authorization_dimensions'', strings_dump (map dimension_value (pc_authorization_dimensions c))),
      (''canonical_fact_ids'', strings_dump (pc_canonical_fact_ids c)),
      (''evidence_requirement_ids'', strings_dump (pc_evidence_requirement_ids c)),
      (''lifecycle_transition_id'', jstr_opt (pc_lifecycle_transition_id c)),
      (''result_evidence_id'', jstr_opt (pc_result_evidence_id c)),
      (''approval_policy_ref'', jstr_opt (pc_approval_policy_ref c))]"

definition sdk_manifest_dump :: "pack_sdk_manifest \<Rightarrow> json" where
  "sdk_manifest_dump m = JObj
     [(''schema_version'', JStr ''domain-pack-sdk/v1''), (''pack_id'', JStr (sm_pack_id m)),
      (''pack_version'', JStr (sm_pack_version m)),
      (''kind'', JStr (contract_kind_value (sm_kind m))),
      (''display_name'', JStr (sm_display_name m)),
      (''contract_catalog_only'', JBool (sm_contract_catalog_only m)),
      (''runtime_wiring_eligible'', JBool (sm_runtime_wiring_eligible m)),
      (''owner_refs'', JArr (map (\<lambda>r. JObj [(''role'', JStr (owner_role_value (co_role r))),
         (''owner_ref'', JStr (co_owner_ref r))]) (sm_owner_refs m))),
      (''freshness_ceiling_seconds'', JInt (sm_freshness_ceiling_seconds m)),
      (''canonical_facts'', JArr (map (\<lambda>f. JObj
         [(''fact_id'', JStr (pf_fact_id f)), (''schema_ref'', JStr (pf_schema_ref f)),
          (''data_classification'', JStr (pack_classification_value (pf_data_classification f))),
          (''source_ref'', JStr (pf_source_ref f)),
          (''evidence_requirement_id'', JStr (pf_evidence_requirement_id f))]) (sm_canonical_facts m))),
      (''evidence_requirements'', JArr (map (\<lambda>e. JObj
         [(''evidence_id'', JStr (pv_evidence_id e)), (''kind'', JStr (evidence_kind_value (pv_kind e))),
          (''source_schema_ref'', JStr (pv_source_schema_ref e)),
          (''maximum_age_seconds'', JInt (pv_maximum_age_seconds e))]) (sm_evidence_requirements m))),
      (''lifecycle'', JObj
         [(''lifecycle_id'', JStr (pl_lifecycle_id (sm_lifecycle m))),
          (''states'', strings_dump (pl_states (sm_lifecycle m))),
          (''terminal_states'', strings_dump (pl_terminal_states (sm_lifecycle m))),
          (''transitions'', JArr (map (\<lambda>t. JObj
             [(''transition_id'', JStr (pt_transition_id t)), (''source_state'', JStr (pt_source_state t)),
              (''target_state'', JStr (pt_target_state t))]) (pl_transitions (sm_lifecycle m))))]),
      (''capabilities'', JArr (map sdk_capability_dump (sm_capabilities m)))]"

definition manifest_digest :: "pack_sdk_manifest \<Rightarrow> string" where
  "manifest_digest m = sha256 (dumps True (sdk_manifest_dump m))"

section \<open>Reports\<close>

datatype conformance_status = PASS | FAIL

record conformance_violation =
  vi_code :: string
  vi_path :: string
  vi_message :: string

record conformance_check =
  ch_check_id :: string
  ch_status :: conformance_status
  ch_violation_codes :: "string list"

record conformance_report =
  cr_candidate_pack_id :: "string option"
  cr_candidate_pack_version :: "string option"
  cr_manifest_digest :: "string option"
  cr_status :: conformance_status
  cr_checks :: "conformance_check list"
  cr_violations :: "conformance_violation list"

definition violation :: "string \<Rightarrow> string \<Rightarrow> string \<Rightarrow> conformance_violation" where
  "violation c p m = \<lparr>vi_code = c, vi_path = p, vi_message = m\<rparr>"

text \<open>\<open>dict.fromkeys\<close> keeps the first occurrence of each code.\<close>

definition first_occurrences :: "'a list \<Rightarrow> 'a list" where
  "first_occurrences xs = rev (remdups (rev xs))"

definition make_check :: "string \<Rightarrow> conformance_violation list \<Rightarrow> conformance_check" where
  "make_check check_id vs =
     \<lparr>ch_check_id = check_id, ch_status = (if vs \<noteq> [] then FAIL else PASS),
      ch_violation_codes = first_occurrences (map vi_code vs)\<rparr>"

text \<open>\<open>[v for i, x in enumerate(xs) ...]\<close>\<close>

definition for_each :: "'a list \<Rightarrow> (nat \<Rightarrow> 'a \<Rightarrow> 'b list) \<Rightarrow> 'b list" where
  "for_each xs f = concat (map (\<lambda>(i, x). f i x) (List.enumerate 0 xs))"

definition when_bad :: "bool \<Rightarrow> 'a \<Rightarrow> 'a list" where
  "when_bad b v = (if b then [v] else [])"

lemma for_each_empty:
  assumes "\<And>i x. f i x = [] \<longleftrightarrow> P x"
  shows "for_each xs f = [] \<longleftrightarrow> (\<forall>x \<in> set xs. P x)"
proof -
  have "for_each xs f = [] \<longleftrightarrow> (\<forall>x \<in> snd ` set (List.enumerate 0 xs). P x)"
    using assms by (auto simp: for_each_def)
  then show ?thesis by (metis list.set_map map_snd_enumerate)
qed

lemma when_bad_empty [simp]: "when_bad b v = [] \<longleftrightarrow> \<not> b"
  by (simp add: when_bad_def)

section \<open>The checks\<close>

definition raw_runtime_boundary_violations :: "json \<Rightarrow> json \<Rightarrow> conformance_violation list" where
  "raw_runtime_boundary_violations catalog_only wiring =
     when_bad (catalog_only \<noteq> JBool True) (violation ''runtime_boundary_violation'' ''contract_catalog_only''
       ''Pack SDK artifacts must remain contract-catalog-only.'') @
     when_bad (wiring \<noteq> JBool False) (violation ''runtime_boundary_violation'' ''runtime_wiring_eligible''
       ''Pack SDK artifacts must remain ineligible for runtime wiring.'')"

definition runtime_boundary_violations :: "pack_sdk_manifest \<Rightarrow> conformance_violation list" where
  "runtime_boundary_violations m =
     raw_runtime_boundary_violations (JBool (sm_contract_catalog_only m)) (JBool (sm_runtime_wiring_eligible m))"

definition owner_violations :: "pack_sdk_manifest \<Rightarrow> conformance_violation list" where
  "owner_violations m =
     (let roles = map co_role (sm_owner_refs m);
          missing = filter (\<lambda>r. count_list roles r = 0) all_owner_roles;
          duplicates = filter (\<lambda>r. count_list roles r \<noteq> 1) (first_occurrences roles)
      in when_bad (missing \<noteq> [] \<or> duplicates \<noteq> []) (violation ''owner_roles_incomplete'' ''owner_refs''
           ''Every ContractOwnerRole must be declared exactly once.'') @
         for_each (sm_owner_refs m) (\<lambda>i r. when_bad (co_owner_ref r = UNASSIGNED)
           (violation ''owner_unresolved'' (''owner_refs.'' @ show_nat i @ ''.owner_ref'')
              ''Conformant Pack owners must be assigned.'')))"

definition capability_binding_violations :: "string list \<Rightarrow> string \<Rightarrow> string \<Rightarrow> conformance_violation list" where
  "capability_binding_violations refs path msg =
     when_bad (refs = [] \<or> \<not> distinct refs) (violation ''reference_missing'' path msg)"

definition missing_collection_references ::
  "string list \<Rightarrow> string set \<Rightarrow> string \<Rightarrow> string \<Rightarrow> conformance_violation list" where
  "missing_collection_references refs known path msg =
     for_each refs (\<lambda>i r. when_bad (r \<notin> known)
       (violation ''reference_missing'' (path @ ''.'' @ show_nat i) msg))"

definition capability_reference_violations ::
  "pack_sdk_manifest \<Rightarrow> nat \<Rightarrow> pack_capability \<Rightarrow> conformance_violation list" where
  "capability_reference_violations m i c =
     (let base = ''capabilities.'' @ show_nat i;
          known_facts = set (map pf_fact_id (sm_canonical_facts m));
          known_evidence = set (map pv_evidence_id (sm_evidence_requirements m));
          known_transitions = set (map pt_transition_id (pl_transitions (sm_lifecycle m)))
      in when_bad (pc_pack_version c \<noteq> sm_pack_version m)
           (violation ''capability_version_mismatch'' (base @ ''.pack_version'')
              ''Capability Pack version must exactly match the manifest Pack version.'') @
         capability_binding_violations (pc_canonical_fact_ids c) (base @ ''.canonical_fact_ids'')
           ''Capability must bind at least one unique canonical fact.'' @
         capability_binding_violations (pc_evidence_requirement_ids c) (base @ ''.evidence_requirement_ids'')
           ''Capability must bind at least one unique evidence requirement.'' @
         missing_collection_references (pc_canonical_fact_ids c) known_facts (base @ ''.canonical_fact_ids'')
           ''Capability canonical fact reference does not resolve.'' @
         missing_collection_references (pc_evidence_requirement_ids c) known_evidence
           (base @ ''.evidence_requirement_ids'') ''Capability evidence reference does not resolve.'' @
         when_bad (truthy (pc_lifecycle_transition_id c) \<and>
                   the (pc_lifecycle_transition_id c) \<notin> known_transitions)
           (violation ''reference_missing'' (base @ ''.lifecycle_transition_id'')
              ''Capability lifecycle transition reference does not resolve.'') @
         when_bad (truthy (pc_result_evidence_id c) \<and> the (pc_result_evidence_id c) \<notin> known_evidence)
           (violation ''reference_missing'' (base @ ''.result_evidence_id'')
              ''Capability result evidence reference does not resolve.''))"

definition reference_violations :: "pack_sdk_manifest \<Rightarrow> conformance_violation list" where
  "reference_violations m =
     (let fact_ids = map pf_fact_id (sm_canonical_facts m);
          evidence_ids = map pv_evidence_id (sm_evidence_requirements m);
          transition_ids = map pt_transition_id (pl_transitions (sm_lifecycle m));
          capability_ids = map pc_capability_id (sm_capabilities m)
      in concat (map (\<lambda>(path, values). when_bad (\<not> distinct values)
           (violation ''reference_missing'' path ''Identifiers must be unique within each manifest collection.''))
           [(''canonical_facts'', fact_ids), (''evidence_requirements'', evidence_ids),
            (''lifecycle.transitions'', transition_ids), (''capabilities'', capability_ids)]) @
         for_each (sm_canonical_facts m) (\<lambda>i f. when_bad (pf_evidence_requirement_id f \<notin> set evidence_ids)
           (violation ''reference_missing'' (''canonical_facts.'' @ show_nat i @ ''.evidence_requirement_id'')
              ''Canonical fact evidence reference does not resolve.'')) @
         for_each (sm_capabilities m) (capability_reference_violations m))"

definition freshness_violations :: "pack_sdk_manifest \<Rightarrow> conformance_violation list" where
  "freshness_violations m =
     for_each (sm_evidence_requirements m) (\<lambda>i e.
       when_bad (sm_freshness_ceiling_seconds m < pv_maximum_age_seconds e)
         (violation ''evidence_freshness_exceeds_ceiling''
            (''evidence_requirements.'' @ show_nat i @ ''.maximum_age_seconds'')
            ''Evidence maximum age must not exceed the manifest freshness ceiling.''))"

definition lifecycle_violations :: "pack_sdk_manifest \<Rightarrow> conformance_violation list" where
  "lifecycle_violations m =
     (let known = set (pl_states (sm_lifecycle m))
      in for_each (pl_terminal_states (sm_lifecycle m)) (\<lambda>i s. when_bad (s \<notin> known)
           (violation ''lifecycle_state_unknown'' (''lifecycle.terminal_states.'' @ show_nat i)
              ''Lifecycle terminal state is not declared in states.'')) @
         for_each (pl_transitions (sm_lifecycle m)) (\<lambda>i t.
           when_bad (pt_source_state t \<notin> known)
             (violation ''lifecycle_state_unknown'' (''lifecycle.transitions.'' @ show_nat i @ ''.source_state'')
                ''Lifecycle transition source state is not declared.'') @
           when_bad (pt_target_state t \<notin> known)
             (violation ''lifecycle_state_unknown'' (''lifecycle.transitions.'' @ show_nat i @ ''.target_state'')
                ''Lifecycle transition target state is not declared.'')))"

text \<open>\<open>{item.evidence_id: item for item in ...}\<close>\<close>

definition evidence_index :: "pack_sdk_manifest \<Rightarrow> (string \<times> pack_evidence_requirement) list" where
  "evidence_index m = dict_of (map (\<lambda>e. (pv_evidence_id e, e)) (sm_evidence_requirements m))"

definition read_only_violations :: "pack_sdk_manifest \<Rightarrow> conformance_violation list" where
  "read_only_violations m =
     for_each (sm_capabilities m) (\<lambda>i c.
       if pc_effect_class c \<noteq> Effect_READ_ONLY then []
       else (let base = ''capabilities.'' @ show_nat i; dimensions = pc_authorization_dimensions c
         in when_bad (dimensions = [] \<or> \<not> set dimensions \<subseteq> {DISCOVER, READ_RECORD} \<or> \<not> distinct dimensions)
              (violation ''read_only_authority_violation'' (base @ ''.authorization_dimensions'')
                 ''Read-only capabilities may declare only unique discover/read_record authority.'') @
            when_bad (pc_lifecycle_transition_id c \<noteq> None \<or> pc_result_evidence_id c \<noteq> None \<or>
                pc_approval_policy_ref c \<noteq> None \<or>
                list_ex (\<lambda>r. case map_of (evidence_index m) r of None \<Rightarrow> False
                   | Some e \<Rightarrow> pv_kind e \<noteq> AUTHORITATIVE_READ) (pc_evidence_requirement_ids c))
              (violation ''read_only_effect_violation'' base
                 ''Read-only capabilities cannot declare transition, result-probe, or approval metadata.'')))"

definition external_write_violations :: "pack_sdk_manifest \<Rightarrow> conformance_violation list" where
  "external_write_violations m =
     for_each (sm_capabilities m) (\<lambda>i c.
       if pc_effect_class c \<noteq> Effect_EXTERNAL_WRITE then []
       else (let base = ''capabilities.'' @ show_nat i;
                 transitions = set (map pt_transition_id (pl_transitions (sm_lifecycle m)));
                 result_evidence = map_of (evidence_index m)
                   (case pc_result_evidence_id c of None \<Rightarrow> [] | Some r \<Rightarrow> r)
         in when_bad (EXECUTE_TRANSITION \<notin> set (pc_authorization_dimensions c))
              (violation ''external_write_authority_missing'' (base @ ''.authorization_dimensions'')
                 ''External-write capabilities require explicit execute_transition authority.'') @
            when_bad (\<not> truthy (pc_lifecycle_transition_id c) \<or>
                      the (pc_lifecycle_transition_id c) \<notin> transitions)
              (violation ''external_write_transition_missing'' (base @ ''.lifecycle_transition_id'')
                 ''External-write capabilities require a resolved lifecycle transition.'') @
            when_bad (case result_evidence of None \<Rightarrow> True
                | Some e \<Rightarrow> pv_kind e \<noteq> RESULT_PROBE \<or>
                    pc_result_evidence_id c \<notin> Some ` set (pc_evidence_requirement_ids c))
              (violation ''external_write_probe_missing'' (base @ ''.result_evidence_id'')
                 ''External-write capabilities require result_probe evidence.'') @
            when_bad (\<not> truthy (pc_approval_policy_ref c))
              (violation ''external_write_approval_policy_missing'' (base @ ''.approval_policy_ref'')
                 ''External-write capabilities require an approval-policy reference.'')))"

section \<open>The evaluation\<close>

definition candidate_text :: "jobject \<Rightarrow> string \<Rightarrow> string option" where
  "candidate_text raw field =
     (case map_of raw field of Some (JStr s) \<Rightarrow> if s \<noteq> [] then Some s else None | _ \<Rightarrow> None)"

definition manifest_report :: "pack_sdk_manifest \<Rightarrow> conformance_report" where
  "manifest_report m =
     (let results = [(''runtime_boundary'', runtime_boundary_violations m),
                     (''owner_roles'', owner_violations m),
                     (''references_and_versions'', reference_violations m),
                     (''evidence_freshness'', freshness_violations m),
                     (''lifecycle'', lifecycle_violations m),
                     (''read_only_capabilities'', read_only_violations m),
                     (''external_write_capabilities'', external_write_violations m)];
          violations = concat (map snd results)
      in \<lparr>cr_candidate_pack_id = Some (sm_pack_id m), cr_candidate_pack_version = Some (sm_pack_version m),
          cr_manifest_digest = Some (manifest_digest m),
          cr_status = (if violations \<noteq> [] then FAIL else PASS),
          cr_checks = map (\<lambda>(i, vs). make_check i vs) results, cr_violations = violations\<rparr>)"

definition evaluate_static_pack_conformance ::
  "(jobject \<Rightarrow> pack_sdk_manifest option) \<Rightarrow> pack_sdk_manifest + jobject \<Rightarrow> conformance_report" where
  "evaluate_static_pack_conformance parse candidate =
     (case candidate of
        Inl m \<Rightarrow> manifest_report m
      | Inr raw \<Rightarrow>
          (case parse raw of
             Some m \<Rightarrow> manifest_report m
           | None \<Rightarrow>
               (let parse_error = [violation ''manifest_parse_error'' ''$''
                      ''Candidate does not match the immutable PackSdkManifest schema.''];
                    boundary = raw_runtime_boundary_violations (get_value raw ''contract_catalog_only'')
                                 (get_value raw ''runtime_wiring_eligible'')
                in \<lparr>cr_candidate_pack_id = candidate_text raw ''pack_id'',
                    cr_candidate_pack_version = candidate_text raw ''pack_version'',
                    cr_manifest_digest = None, cr_status = FAIL,
                    cr_checks = [make_check ''manifest_parse'' parse_error,
                                 make_check ''runtime_boundary'' boundary],
                    cr_violations = parse_error @ boundary\<rparr>)))"

section \<open>What a conformant pack is\<close>

definition owners_complete :: "pack_sdk_manifest \<Rightarrow> bool" where
  "owners_complete m \<longleftrightarrow>
     (\<forall>role. \<exists>!i. i < length (sm_owner_refs m) \<and> co_role (sm_owner_refs m ! i) = role) \<and>
     (\<forall>r \<in> set (sm_owner_refs m). owner_is_assigned r)"

definition references_resolve :: "pack_sdk_manifest \<Rightarrow> bool" where
  "references_resolve m \<longleftrightarrow>
     distinct (map pf_fact_id (sm_canonical_facts m)) \<and>
     distinct (map pv_evidence_id (sm_evidence_requirements m)) \<and>
     distinct (map pt_transition_id (pl_transitions (sm_lifecycle m))) \<and>
     distinct (map pc_capability_id (sm_capabilities m)) \<and>
     (\<forall>f \<in> set (sm_canonical_facts m). \<exists>e \<in> set (sm_evidence_requirements m).
        pf_evidence_requirement_id f = pv_evidence_id e) \<and>
     (\<forall>c \<in> set (sm_capabilities m).
        pc_pack_version c = sm_pack_version m \<and>
        pc_canonical_fact_ids c \<noteq> [] \<and> distinct (pc_canonical_fact_ids c) \<and>
        set (pc_canonical_fact_ids c) \<subseteq> pf_fact_id ` set (sm_canonical_facts m) \<and>
        pc_evidence_requirement_ids c \<noteq> [] \<and> distinct (pc_evidence_requirement_ids c) \<and>
        set (pc_evidence_requirement_ids c) \<subseteq> pv_evidence_id ` set (sm_evidence_requirements m) \<and>
        (truthy (pc_lifecycle_transition_id c) \<longrightarrow>
           the (pc_lifecycle_transition_id c) \<in> pt_transition_id ` set (pl_transitions (sm_lifecycle m))) \<and>
        (truthy (pc_result_evidence_id c) \<longrightarrow>
           the (pc_result_evidence_id c) \<in> pv_evidence_id ` set (sm_evidence_requirements m)))"

definition read_only_confined :: "pack_sdk_manifest \<Rightarrow> pack_capability \<Rightarrow> bool" where
  "read_only_confined m c \<longleftrightarrow>
     pc_authorization_dimensions c \<in> {[DISCOVER], [READ_RECORD], [DISCOVER, READ_RECORD], [READ_RECORD, DISCOVER]} \<and>
     pc_lifecycle_transition_id c = None \<and> pc_result_evidence_id c = None \<and>
     pc_approval_policy_ref c = None \<and>
     (\<forall>e \<in> set (sm_evidence_requirements m).
        pv_evidence_id e \<in> set (pc_evidence_requirement_ids c) \<longrightarrow> pv_kind e = AUTHORITATIVE_READ)"

definition external_write_governed :: "pack_sdk_manifest \<Rightarrow> pack_capability \<Rightarrow> bool" where
  "external_write_governed m c \<longleftrightarrow>
     EXECUTE_TRANSITION \<in> set (pc_authorization_dimensions c) \<and>
     (\<exists>t \<in> set (pl_transitions (sm_lifecycle m)).
        pc_lifecycle_transition_id c = Some (pt_transition_id t) \<and> pt_transition_id t \<noteq> []) \<and>
     (\<exists>e \<in> set (sm_evidence_requirements m). pv_kind e = RESULT_PROBE \<and>
        pc_result_evidence_id c = Some (pv_evidence_id e) \<and>
        pv_evidence_id e \<in> set (pc_evidence_requirement_ids c)) \<and>
     truthy (pc_approval_policy_ref c)"

definition pack_conformant :: "pack_sdk_manifest \<Rightarrow> bool" where
  "pack_conformant m \<longleftrightarrow>
     sm_contract_catalog_only m \<and> \<not> sm_runtime_wiring_eligible m \<and>
     owners_complete m \<and> references_resolve m \<and>
     (\<forall>e \<in> set (sm_evidence_requirements m). pv_maximum_age_seconds e \<le> sm_freshness_ceiling_seconds m) \<and>
     set (pl_terminal_states (sm_lifecycle m)) \<subseteq> set (pl_states (sm_lifecycle m)) \<and>
     (\<forall>t \<in> set (pl_transitions (sm_lifecycle m)).
        {pt_source_state t, pt_target_state t} \<subseteq> set (pl_states (sm_lifecycle m))) \<and>
     (\<forall>c \<in> set (sm_capabilities m). case pc_effect_class c of
        Effect_READ_ONLY \<Rightarrow> read_only_confined m c
      | Effect_EXTERNAL_WRITE \<Rightarrow> external_write_governed m c)"

section \<open>The checks decide it\<close>

lemma boundary_spec:
  "runtime_boundary_violations m = [] \<longleftrightarrow> sm_contract_catalog_only m \<and> \<not> sm_runtime_wiring_eligible m"
  by (simp add: runtime_boundary_violations_def raw_runtime_boundary_violations_def)

lemma set_first_occurrences [simp]: "set (first_occurrences xs) = set xs"
  by (simp add: first_occurrences_def)

lemma card_1_unique: "card A = 1 \<longleftrightarrow> (\<exists>!x. x \<in> A)"
proof
  assume "card A = 1"
  then obtain x where "A = {x}" by (auto simp: card_1_singleton_iff)
  then show "\<exists>!x. x \<in> A" by simp
next
  assume "\<exists>!x. x \<in> A"
  then obtain x where "A = {x}" by blast
  then show "card A = 1" by simp
qed

lemma count_list_1: "count_list xs x = 1 \<longleftrightarrow> (\<exists>!i. i < length xs \<and> xs ! i = x)"
proof -
  have "{i. i < length xs \<and> x = xs ! i} = {i. i < length xs \<and> xs ! i = x}" by auto
  then have "count_list xs x = card {i. i < length xs \<and> xs ! i = x}"
    by (simp add: count_list_eq_length_filter length_filter_conv_card)
  moreover have "card {i. i < length xs \<and> xs ! i = x} = 1 \<longleftrightarrow> (\<exists>!i. i < length xs \<and> xs ! i = x)"
    using card_1_unique [of "{i. i < length xs \<and> xs ! i = x}"] by simp
  ultimately show ?thesis by simp
qed

lemma owners_spec: "owner_violations m = [] \<longleftrightarrow> owners_complete m"
proof -
  let ?roles = "map co_role (sm_owner_refs m)"
  have "(\<forall>r \<in> set all_owner_roles. count_list ?roles r \<noteq> 0) \<and> (\<forall>r \<in> set ?roles. count_list ?roles r = 1)
      \<longleftrightarrow> (\<forall>r. count_list ?roles r = 1)"
  proof -
    have "count_list ?roles r = 1 \<longleftrightarrow> count_list ?roles r \<noteq> 0 \<and> (r \<in> set ?roles \<longrightarrow> count_list ?roles r = 1)" for r
      using count_notin [of r ?roles] by auto
    then show ?thesis unfolding all_owner_roles_UNIV by blast
  qed
  also have "\<dots> \<longleftrightarrow> (\<forall>role. \<exists>!i. i < length (sm_owner_refs m) \<and> co_role (sm_owner_refs m ! i) = role)"
    unfolding count_list_1 by (simp cong: conj_cong)
  finally have complete: "(\<forall>r \<in> set all_owner_roles. count_list ?roles r \<noteq> 0) \<and>
      (\<forall>r \<in> set ?roles. count_list ?roles r = 1) \<longleftrightarrow>
      (\<forall>role. \<exists>!i. i < length (sm_owner_refs m) \<and> co_role (sm_owner_refs m ! i) = role)" .
  have assigned: "for_each (sm_owner_refs m) (\<lambda>i r. when_bad (co_owner_ref r = UNASSIGNED) (g i)) = [] \<longleftrightarrow>
      (\<forall>r \<in> set (sm_owner_refs m). owner_is_assigned r)" for g :: "nat \<Rightarrow> conformance_violation"
    by (rule for_each_empty) (simp add: owner_is_assigned_def)
  have roles: "\<not> (filter (\<lambda>r. count_list ?roles r = 0) all_owner_roles \<noteq> [] \<or>
        filter (\<lambda>r. count_list ?roles r \<noteq> 1) (first_occurrences ?roles) \<noteq> []) \<longleftrightarrow>
      (\<forall>r \<in> set all_owner_roles. count_list ?roles r \<noteq> 0) \<and> (\<forall>r \<in> set ?roles. count_list ?roles r = 1)"
    unfolding filter_empty_conv set_first_occurrences by blast
  show ?thesis
    unfolding owner_violations_def Let_def append_is_Nil_conv when_bad_empty assigned roles complete
      owners_complete_def ..
qed

lemma freshness_spec:
  "freshness_violations m = [] \<longleftrightarrow>
     (\<forall>e \<in> set (sm_evidence_requirements m). pv_maximum_age_seconds e \<le> sm_freshness_ceiling_seconds m)"
  unfolding freshness_violations_def by (rule for_each_empty) (simp add: not_less)

lemma lifecycle_spec:
  "lifecycle_violations m = [] \<longleftrightarrow>
     set (pl_terminal_states (sm_lifecycle m)) \<subseteq> set (pl_states (sm_lifecycle m)) \<and>
     (\<forall>t \<in> set (pl_transitions (sm_lifecycle m)).
        {pt_source_state t, pt_target_state t} \<subseteq> set (pl_states (sm_lifecycle m)))"
  unfolding lifecycle_violations_def Let_def append_is_Nil_conv
  by (subst for_each_empty [where P = "\<lambda>s. s \<in> set (pl_states (sm_lifecycle m))"], simp,
      subst for_each_empty [where P = "\<lambda>t. {pt_source_state t, pt_target_state t}
        \<subseteq> set (pl_states (sm_lifecycle m))"], simp, blast)

lemma missing_references_spec: "missing_collection_references refs known path msg = [] \<longleftrightarrow> set refs \<subseteq> known"
  unfolding missing_collection_references_def
  by (subst for_each_empty [where P = "\<lambda>r. r \<in> known"]) auto

lemma capability_references_spec:
  "capability_reference_violations m i c = [] \<longleftrightarrow>
     pc_pack_version c = sm_pack_version m \<and>
     pc_canonical_fact_ids c \<noteq> [] \<and> distinct (pc_canonical_fact_ids c) \<and>
     set (pc_canonical_fact_ids c) \<subseteq> pf_fact_id ` set (sm_canonical_facts m) \<and>
     pc_evidence_requirement_ids c \<noteq> [] \<and> distinct (pc_evidence_requirement_ids c) \<and>
     set (pc_evidence_requirement_ids c) \<subseteq> pv_evidence_id ` set (sm_evidence_requirements m) \<and>
     (truthy (pc_lifecycle_transition_id c) \<longrightarrow>
        the (pc_lifecycle_transition_id c) \<in> pt_transition_id ` set (pl_transitions (sm_lifecycle m))) \<and>
     (truthy (pc_result_evidence_id c) \<longrightarrow>
        the (pc_result_evidence_id c) \<in> pv_evidence_id ` set (sm_evidence_requirements m))"
  by (auto simp: capability_reference_violations_def Let_def capability_binding_violations_def
        missing_references_spec)

lemma references_spec: "reference_violations m = [] \<longleftrightarrow> references_resolve m"
proof -
  have facts: "for_each fs (\<lambda>i f. when_bad (pf_evidence_requirement_id f \<notin> K) (g i)) = [] \<longleftrightarrow>
      (\<forall>f \<in> set fs. pf_evidence_requirement_id f \<in> K)" for fs K and g :: "nat \<Rightarrow> conformance_violation"
    by (rule for_each_empty) simp
  note caps = for_each_empty [of "capability_reference_violations m", OF capability_references_spec]
  show ?thesis
    unfolding reference_violations_def Let_def append_is_Nil_conv facts caps references_resolve_def
    by auto
qed

lemma evidence_index_lookup:
  assumes "distinct (map pv_evidence_id (sm_evidence_requirements m))"
  shows "map_of (evidence_index m) r = Some e \<longleftrightarrow> e \<in> set (sm_evidence_requirements m) \<and> pv_evidence_id e = r"
proof -
  have "distinct (map fst (rev (map (\<lambda>e. (pv_evidence_id e, e)) (sm_evidence_requirements m))))"
    using assms by (simp add: rev_map [symmetric] o_def)
  from map_of_eq_Some_iff [OF this] show ?thesis
    by (auto simp: evidence_index_def map_of_dict_of)
qed

lemma read_dimensions:
  "dims \<noteq> [] \<and> set dims \<subseteq> {DISCOVER, READ_RECORD} \<and> distinct dims \<longleftrightarrow>
     dims \<in> {[DISCOVER], [READ_RECORD], [DISCOVER, READ_RECORD], [READ_RECORD, DISCOVER]}"
proof
  assume d: "dims \<noteq> [] \<and> set dims \<subseteq> {DISCOVER, READ_RECORD} \<and> distinct dims"
  then obtain a r where dims: "dims = a # r" by (cases dims) auto
  show "dims \<in> {[DISCOVER], [READ_RECORD], [DISCOVER, READ_RECORD], [READ_RECORD, DISCOVER]}"
  proof (cases r)
    case Nil
    with d dims show ?thesis by auto
  next
    case (Cons b q)
    with d dims show ?thesis by (cases q) auto
  qed
qed auto

lemma read_only_spec:
  assumes "distinct (map pv_evidence_id (sm_evidence_requirements m))"
  shows "read_only_violations m = [] \<longleftrightarrow>
     (\<forall>c \<in> set (sm_capabilities m). pc_effect_class c = Effect_READ_ONLY \<longrightarrow> read_only_confined m c)"
proof -
  have kinds: "(\<forall>r \<in> set refs. \<not> (case map_of (evidence_index m) r of None \<Rightarrow> False
          | Some e \<Rightarrow> pv_kind e \<noteq> AUTHORITATIVE_READ)) \<longleftrightarrow>
      (\<forall>e \<in> set (sm_evidence_requirements m). pv_evidence_id e \<in> set refs \<longrightarrow> pv_kind e = AUTHORITATIVE_READ)" for refs
    using evidence_index_lookup [OF assms] by (auto split: option.splits)
  have confined: "(\<not> (pc_authorization_dimensions c = [] \<or>
        \<not> set (pc_authorization_dimensions c) \<subseteq> {DISCOVER, READ_RECORD} \<or>
        \<not> distinct (pc_authorization_dimensions c)) \<and>
      \<not> (pc_lifecycle_transition_id c \<noteq> None \<or> pc_result_evidence_id c \<noteq> None \<or>
        pc_approval_policy_ref c \<noteq> None \<or>
        list_ex (\<lambda>r. case map_of (evidence_index m) r of None \<Rightarrow> False
           | Some e \<Rightarrow> pv_kind e \<noteq> AUTHORITATIVE_READ) (pc_evidence_requirement_ids c)))
      \<longleftrightarrow> read_only_confined m c" for c
    unfolding read_only_confined_def kinds [symmetric] read_dimensions [symmetric] by (auto simp: list_ex_iff)
  show ?thesis
    unfolding read_only_violations_def confined [symmetric]
    by (rule for_each_empty) (simp add: Let_def)
qed

lemma external_write_spec:
  assumes "distinct (map pv_evidence_id (sm_evidence_requirements m))"
  shows "external_write_violations m = [] \<longleftrightarrow>
     (\<forall>c \<in> set (sm_capabilities m). pc_effect_class c = Effect_EXTERNAL_WRITE \<longrightarrow> external_write_governed m c)"
proof -
  have probe: "\<not> (case map_of (evidence_index m) (case rid of None \<Rightarrow> [] | Some r \<Rightarrow> r) of None \<Rightarrow> True
       | Some e \<Rightarrow> pv_kind e \<noteq> RESULT_PROBE \<or> rid \<notin> Some ` set refs) \<longleftrightarrow>
      (\<exists>e \<in> set (sm_evidence_requirements m). pv_kind e = RESULT_PROBE \<and> rid = Some (pv_evidence_id e) \<and>
         pv_evidence_id e \<in> set refs)" for rid refs
  proof (cases "map_of (evidence_index m) (case rid of None \<Rightarrow> [] | Some r \<Rightarrow> r)")
    case None
    then have "pv_evidence_id e \<noteq> (case rid of None \<Rightarrow> [] | Some r \<Rightarrow> r)"
      if "e \<in> set (sm_evidence_requirements m)" for e
      using that evidence_index_lookup [OF assms] by (metis option.distinct(1))
    then have "\<not> (\<exists>e \<in> set (sm_evidence_requirements m). rid = Some (pv_evidence_id e))"
      by (metis option.case(2))
    with None show ?thesis by auto
  next
    case (Some e)
    have only: "e' = e" if "e' \<in> set (sm_evidence_requirements m)" "rid = Some (pv_evidence_id e')" for e'
      using that Some evidence_index_lookup [OF assms, of "pv_evidence_id e'" e'] by simp
    from Some have e: "e \<in> set (sm_evidence_requirements m)"
        "pv_evidence_id e = (case rid of None \<Rightarrow> [] | Some r \<Rightarrow> r)"
      using evidence_index_lookup [OF assms] by blast+
    show ?thesis
    proof (cases rid)
      case None
      then show ?thesis by (auto split: option.split)
    next
      case rid: (Some r)
      have "(\<exists>e' \<in> set (sm_evidence_requirements m). pv_kind e' = RESULT_PROBE \<and>
          rid = Some (pv_evidence_id e') \<and> pv_evidence_id e' \<in> set refs) \<longleftrightarrow>
          pv_kind e = RESULT_PROBE \<and> r \<in> set refs"
        using e only rid by (metis option.case(2) option.inject)
      with Some rid show ?thesis by auto
    qed
  qed
  have transition: "\<not> (\<not> truthy tid \<or> the tid \<notin> pt_transition_id ` T) \<longleftrightarrow>
      (\<exists>t \<in> T. tid = Some (pt_transition_id t) \<and> pt_transition_id t \<noteq> [])" for tid and T :: "pack_lifecycle_transition set"
    by (cases tid) auto
  show ?thesis
    unfolding external_write_violations_def external_write_governed_def
      probe [symmetric] transition [symmetric]
    by (rule for_each_empty) (simp add: Let_def)
qed

lemma manifest_passes: "cr_status (manifest_report m) = PASS \<longleftrightarrow> pack_conformant m"
proof (cases "distinct (map pv_evidence_id (sm_evidence_requirements m))")
  case True
  have "(\<forall>c \<in> C. pc_effect_class c = Effect_READ_ONLY \<longrightarrow> read_only_confined m c) \<and>
      (\<forall>c \<in> C. pc_effect_class c = Effect_EXTERNAL_WRITE \<longrightarrow> external_write_governed m c) \<longleftrightarrow>
      (\<forall>c \<in> C. case pc_effect_class c of Effect_READ_ONLY \<Rightarrow> read_only_confined m c
         | Effect_EXTERNAL_WRITE \<Rightarrow> external_write_governed m c)" for C
    by (auto split: pack_effect_class.splits)
  note effects = this
  have "cr_status (manifest_report m) = PASS \<longleftrightarrow>
      runtime_boundary_violations m = [] \<and> owner_violations m = [] \<and> reference_violations m = [] \<and>
      freshness_violations m = [] \<and> lifecycle_violations m = [] \<and>
      read_only_violations m = [] \<and> external_write_violations m = []"
    by (simp add: manifest_report_def Let_def)
  also have "\<dots> \<longleftrightarrow> pack_conformant m"
    unfolding pack_conformant_def effects [symmetric] boundary_spec owners_spec references_spec
      freshness_spec lifecycle_spec read_only_spec [OF True] external_write_spec [OF True]
    by blast
  finally show ?thesis .
next
  case False
  then have "\<not> references_resolve m" by (simp add: references_resolve_def)
  then show ?thesis
    by (simp add: manifest_report_def Let_def references_spec
          pack_conformant_def)
qed

section \<open>Properties\<close>

text \<open>
  A manifest's conformance report passes exactly when the pack is
  conformant: offline, with every owner role assigned exactly once, all identifiers unique and all
  references resolved, evidence within the freshness ceiling, a closed lifecycle, read-only
  capabilities confined to discovery and reading, and every external write with execution
  authority, a lifecycle transition, a result probe among its evidence and an approval policy. The
  report carries the manifest's digest, it has a violation exactly when it fails, and a candidate
  that does not parse always fails without a digest.
\<close>

theorem conformance_decides_spec:
  "(cr_status (evaluate_static_pack_conformance parse (Inl m)) = PASS \<longleftrightarrow> pack_conformant m) \<and>
   cr_manifest_digest (evaluate_static_pack_conformance parse (Inl m)) = Some (manifest_digest m) \<and>
   (cr_status (evaluate_static_pack_conformance parse candidate) = FAIL \<longleftrightarrow>
      cr_violations (evaluate_static_pack_conformance parse candidate) \<noteq> []) \<and>
   (parse raw = None \<longrightarrow>
      cr_status (evaluate_static_pack_conformance parse (Inr raw)) = FAIL \<and>
      cr_manifest_digest (evaluate_static_pack_conformance parse (Inr raw)) = None)"
  using manifest_passes [of m]
  by (auto simp: evaluate_static_pack_conformance_def manifest_report_def Let_def split: sum.splits option.splits)

definition sample_sdk_manifest :: pack_sdk_manifest where
  "sample_sdk_manifest = \<lparr>sm_pack_id = ''pk'', sm_pack_version = ''1'', sm_kind = EXTERNAL_CANDIDATE,
     sm_display_name = ''P'', sm_contract_catalog_only = True, sm_runtime_wiring_eligible = False,
     sm_owner_refs = map (\<lambda>r. \<lparr>co_role = r, co_owner_ref = ''team''\<rparr>) all_owner_roles,
     sm_freshness_ceiling_seconds = 300,
     sm_canonical_facts = [\<lparr>pf_fact_id = ''f'', pf_schema_ref = ''s'', pf_data_classification = Pack_INTERNAL,
        pf_source_ref = ''src'', pf_evidence_requirement_id = ''read''\<rparr>],
     sm_evidence_requirements =
       [\<lparr>pv_evidence_id = ''read'', pv_kind = AUTHORITATIVE_READ, pv_source_schema_ref = ''s'',
         pv_maximum_age_seconds = 60\<rparr>,
        \<lparr>pv_evidence_id = ''probe'', pv_kind = RESULT_PROBE, pv_source_schema_ref = ''s'',
         pv_maximum_age_seconds = 30\<rparr>],
     sm_lifecycle = \<lparr>pl_lifecycle_id = ''l'', pl_states = [''open'', ''done''], pl_terminal_states = [''done''],
        pl_transitions = [\<lparr>pt_transition_id = ''close'', pt_source_state = ''open'',
                            pt_target_state = ''done''\<rparr>]\<rparr>,
     sm_capabilities =
       [\<lparr>pc_capability_id = ''view'', pc_pack_version = ''1'', pc_display_name = ''V'',
         pc_effect_class = Effect_READ_ONLY, pc_authorization_dimensions = [READ_RECORD],
         pc_canonical_fact_ids = [''f''], pc_evidence_requirement_ids = [''read''],
         pc_lifecycle_transition_id = None, pc_result_evidence_id = None, pc_approval_policy_ref = None\<rparr>,
        \<lparr>pc_capability_id = ''close'', pc_pack_version = ''1'', pc_display_name = ''C'',
         pc_effect_class = Effect_EXTERNAL_WRITE, pc_authorization_dimensions = [EXECUTE_TRANSITION],
         pc_canonical_fact_ids = [''f''], pc_evidence_requirement_ids = [''read'', ''probe''],
         pc_lifecycle_transition_id = Some ''close'', pc_result_evidence_id = Some ''probe'',
         pc_approval_policy_ref = Some ''policy''\<rparr>]\<rparr>"

lemma sample_sdk_conformant: "pack_conformant sample_sdk_manifest"
proof -
  have "owner_violations sample_sdk_manifest = []"
    by (simp add: owner_violations_def sample_sdk_manifest_def all_owner_roles_def first_occurrences_def
          for_each_def UNASSIGNED_def)
  then have "owners_complete sample_sdk_manifest" by (simp only: owners_spec)
  then show ?thesis
    unfolding pack_conformant_def references_resolve_def
    by (simp add: sample_sdk_manifest_def read_only_confined_def external_write_governed_def)
qed

theorem conformance_decides_spec_witness:
  "cr_status (evaluate_static_pack_conformance (\<lambda>_. None) (Inl sample_sdk_manifest)) = PASS \<and>
   cr_status (evaluate_static_pack_conformance (\<lambda>_. None) (Inr [(''pack_id'', JStr ''pk'')])) = FAIL"
  using conformance_decides_spec [of "\<lambda>_. None" sample_sdk_manifest "Inl sample_sdk_manifest"
      "[(''pack_id'', JStr ''pk'')]"] sample_sdk_conformant by simp

end
