(* ===== verification/Installations.thy ===== *)
theory Installations
  imports Conformance
begin

text \<open>
  \<open>enterprise/governance/domain_pack_installations.py\<close>: tenant installations of domain packs, and
  the set of packs a tenant may run, built only from accepted installations that agree with a
  passing conformance report and with the runtime manifest.
\<close>

section \<open>Installations\<close>

datatype installation_status = Installation_ACCEPTED | Installation_REJECTED | Installation_DISABLED

record domain_pack_installation =
  in_installation_id :: string
  in_tenant_id :: string
  in_pack_id :: string
  in_pack_version :: string
  in_contract_digest :: string
  in_enabled_capability_ids :: "string list"
  in_adapter_ref :: string
  in_result_probe_ref :: string
  in_policy_version :: string
  in_status :: installation_status
  in_accepted_at :: time
  in_expires_at :: time

definition validate_installation :: "domain_pack_installation \<Rightarrow> domain_pack_installation res" where
  "validate_installation i =
     checks
       [(\<not> distinct (in_enabled_capability_ids i), Exc ValueError ''Enabled Capability ids must be unique''),
        (in_expires_at i \<le> in_accepted_at i,
         Exc ValueError ''Domain Pack installation expiry must follow acceptance'')]
       (Ok i)"

definition installation_identity :: "domain_pack_installation \<Rightarrow> string \<times> string" where
  "installation_identity i = (in_pack_id i, in_pack_version i)"

record active_domain_pack_set =
  ad_tenant_id :: string
  ad_installations :: "domain_pack_installation list"
  ad_registry :: pack_registry
  ad_trusted_adapter_refs :: "(string \<times> string \<times> string) list"
  ad_validated_at :: "time option"

definition require_installation :: "active_domain_pack_set \<Rightarrow> string \<times> string \<Rightarrow> domain_pack_installation res" where
  "require_installation s k =
     (case List.find (\<lambda>i. installation_identity i = k) (ad_installations s) of
        Some i \<Rightarrow> Ok i
      | None \<Rightarrow> Raise LookupError (''No active Domain Pack installation matches '' @ at_version k))"

section \<open>Indexes by identity\<close>

definition duplicate_label :: "string \<Rightarrow> string \<times> string \<Rightarrow> exn" where
  "duplicate_label label k = Exc ValueError (''Duplicate '' @ label @ '': '' @ at_version k)"

definition unique_by_identity ::
  "domain_pack_manifest list \<Rightarrow> ((string \<times> string) \<times> domain_pack_manifest) list res" where
  "unique_by_identity items =
     register_all (dict_register manifest_identity (duplicate_label ''runtime manifest'')) items []"

definition report_identity :: "conformance_report \<Rightarrow> string \<times> string" where
  "report_identity r = (the (cr_candidate_pack_id r), the (cr_candidate_pack_version r))"

definition index_report ::
  "conformance_report \<Rightarrow> ((string \<times> string) \<times> conformance_report) list \<Rightarrow>
   ((string \<times> string) \<times> conformance_report) list res" where
  "index_report r d =
     checks
       [(\<not> truthy (cr_candidate_pack_id r), Exc ValueError ''Static conformance report has no Pack id''),
        (\<not> truthy (cr_candidate_pack_version r),
         Exc ValueError ''Static conformance report has no Pack version'')]
       (dict_register report_identity (duplicate_label ''static conformance report'') r d)"

definition unique_reports ::
  "conformance_report list \<Rightarrow> ((string \<times> string) \<times> conformance_report) list res" where
  "unique_reports items = register_all index_report items []"

definition require_pack_item ::
  "((string \<times> string) \<times> 'a) list \<Rightarrow> string \<times> string \<Rightarrow> string \<Rightarrow> 'a res" where
  "require_pack_item items k label =
     (case map_of items k of
        Some x \<Rightarrow> Ok x
      | None \<Rightarrow>
          if list_ex (\<lambda>((candidate_id, _), _). candidate_id = fst k) items
          then Raise ValueError
            (''Domain Pack installation version does not match its '' @ label @ '': '' @ at_version k)
          else Raise ValueError (''Accepted installation has no matching '' @ label @ '': '' @ at_version k))"

section \<open>Activation\<close>

record activation =
  ac_accepted :: "domain_pack_installation list"
  ac_manifests :: "domain_pack_manifest list"
  ac_activated_pack_ids :: "string set"

text \<open>
  The checks of one accepted installation against its manifest. The loop over \<open>enabled\<close>, a Python
  set, is taken in the order of the installation's list; the order only selects which of two
  messages is raised.
\<close>

definition check_enabled ::
  "domain_pack_installation \<Rightarrow> domain_pack_manifest \<Rightarrow> unit res" where
  "check_enabled i m =
     (let runtime = dict_of (map (\<lambda>c. (cd_capability_id c, c)) (dm_capabilities m));
          enabled = in_enabled_capability_ids i
      in checks
           [(\<not> set enabled \<subseteq> fst ` set runtime,
             Exc ValueError ''Domain Pack installation enables an unresolved Capability''),
            (in_result_probe_ref i \<notin> dm_result_probe_refs m,
             Exc ValueError ''Domain Pack installation result probe does not resolve'')]
           (each (\<lambda>cid. let c = the (map_of runtime cid) in checks
              [(cd_version c \<noteq> in_pack_version i,
                Exc ValueError ''Enabled Capability version does not match its installation''),
               (cd_result_probe_ref c \<noteq> in_result_probe_ref i,
                Exc ValueError ''Enabled Capability result probe does not match its installation'')]
              (Ok ())) enabled))"

definition check_report :: "domain_pack_installation \<Rightarrow> (string \<Rightarrow> string option) \<Rightarrow>
   (string \<Rightarrow> string option) \<Rightarrow> conformance_report \<Rightarrow> unit res" where
  "check_report i policy_versions adapter_refs r =
     checks
       [(cr_status r \<noteq> PASS, Exc ValueError ''Accepted Domain Pack contract failed static conformance''),
        (cr_candidate_pack_id r \<noteq> Some (in_pack_id i) \<or>
         cr_candidate_pack_version r \<noteq> Some (in_pack_version i),
         Exc ValueError ''Domain Pack installation identity does not match its conformance report''),
        (cr_manifest_digest r \<noteq> Some (in_contract_digest i),
         Exc ValueError ''Domain Pack installation digest does not match its accepted contract''),
        (policy_versions (in_pack_id i) \<noteq> Some (in_policy_version i),
         Exc ValueError ''Domain Pack installation policy version is stale''),
        (adapter_refs (in_pack_id i) \<noteq> Some (in_adapter_ref i),
         Exc ValueError ''Domain Pack installation adapter reference is not trusted'')]
       (Ok ())"

definition restrict_manifest :: "string list \<Rightarrow> domain_pack_manifest \<Rightarrow> domain_pack_manifest" where
  "restrict_manifest enabled m =
     m\<lparr>dm_capabilities := filter (\<lambda>c. cd_capability_id c \<in> set enabled) (dm_capabilities m)\<rparr>"

record activation_inputs =
  ai_tenant_id :: string
  ai_manifests :: "((string \<times> string) \<times> domain_pack_manifest) list"
  ai_reports :: "((string \<times> string) \<times> conformance_report) list"
  ai_policy_versions :: "string \<Rightarrow> string option"
  ai_adapter_refs :: "string \<Rightarrow> string option"
  ai_now :: time

definition activate_installation ::
  "activation_inputs \<Rightarrow> domain_pack_installation \<Rightarrow> activation \<Rightarrow> activation res" where
  "activate_installation x i a =
     (if in_tenant_id i \<noteq> ai_tenant_id x then Ok a
      else if in_status i \<noteq> Installation_ACCEPTED then Ok a
      else checks
        [(in_pack_id i \<in> ac_activated_pack_ids a,
          Exc ValueError (''Duplicate accepted Domain Pack installation: '' @ in_pack_id i)),
         (\<not> (in_accepted_at i \<le> ai_now x \<and> ai_now x < in_expires_at i),
          Exc ValueError ''Accepted Domain Pack installation is stale'')]
        (res_bind (require_pack_item (ai_manifests x) (installation_identity i) ''runtime manifest'') (\<lambda>m.
         res_bind (require_pack_item (ai_reports x) (installation_identity i) ''static conformance report'') (\<lambda>r.
         res_bind (check_report i (ai_policy_versions x) (ai_adapter_refs x) r) (\<lambda>_.
         res_bind (check_enabled i m) (\<lambda>_.
         Ok \<lparr>ac_accepted = ac_accepted a @ [i],
             ac_manifests = ac_manifests a @ [restrict_manifest (in_enabled_capability_ids i) m],
             ac_activated_pack_ids = insert (in_pack_id i) (ac_activated_pack_ids a)\<rparr>))))))"

definition adapter_triple :: "domain_pack_installation \<Rightarrow> string \<times> string \<times> string" where
  "adapter_triple i = (in_pack_id i, in_pack_version i, in_adapter_ref i)"

definition triple_le :: "string \<times> string \<times> string \<Rightarrow> string \<times> string \<times> string \<Rightarrow> bool" where
  "triple_le a b = (if fst a = fst b then identity_le (snd a) (snd b) else str_le (fst a) (fst b))"

definition build_active_domain_pack_set ::
  "string \<Rightarrow> domain_pack_manifest list \<Rightarrow> conformance_report list \<Rightarrow> domain_pack_installation list \<Rightarrow>
   (string \<Rightarrow> string option) \<Rightarrow> (string \<Rightarrow> string option) \<Rightarrow> time \<Rightarrow> active_domain_pack_set res" where
  "build_active_domain_pack_set tenant manifests reports installations policy_versions adapter_refs now =
     res_bind (unique_by_identity manifests) (\<lambda>by_identity.
     res_bind (unique_reports reports) (\<lambda>reports_by_id.
     res_bind (register_all (activate_installation
         \<lparr>ai_tenant_id = tenant, ai_manifests = by_identity, ai_reports = reports_by_id,
          ai_policy_versions = policy_versions, ai_adapter_refs = adapter_refs, ai_now = now\<rparr>) installations
         \<lparr>ac_accepted = [], ac_manifests = [], ac_activated_pack_ids = {}\<rparr>) (\<lambda>a.
     res_bind (pack_registry_of (ac_manifests a)) (\<lambda>r.
     Ok \<lparr>ad_tenant_id = tenant,
         ad_installations = sort_by (\<lambda>x y. identity_le (installation_identity x) (installation_identity y))
                              (ac_accepted a),
         ad_registry = r,
         ad_trusted_adapter_refs = sort_by triple_le (map adapter_triple (ac_accepted a)),
         ad_validated_at = Some now\<rparr>))))"

section \<open>What activation establishes\<close>

interpretation manifest_index: registry manifest_identity "[]"
  "dict_register manifest_identity (duplicate_label ''runtime manifest'')"
  "dict_require (duplicate_label ''missing'')"
  by (rule dict_registry)

lemma unique_by_identity_lookup:
  assumes "unique_by_identity items = Ok d"
  shows "map_of d k = Some m \<longleftrightarrow> m \<in> set items \<and> manifest_identity m = k"
  using manifest_index.resolve_build [OF assms [unfolded unique_by_identity_def], of k m]
  by (simp add: dict_require_def split: option.splits)

lemma unique_reports_member:
  assumes "register_all index_report items d0 = Ok d" and "map_of d k = Some r"
  shows "map_of d0 k = Some r \<or> r \<in> set items"
  using assms
proof (induction items arbitrary: d0)
  case (Cons v vs)
  from Cons.prems(1) obtain d1 where step: "index_report v d0 = Ok d1" and rest: "register_all index_report vs d1 = Ok d"
    by (auto simp: res_bind_ok)
  from step have "d1 = d0 @ [(report_identity v, v)]"
    by (auto simp: index_report_def checks_ok dict_register_def split: if_splits)
  with Cons.IH [OF rest Cons.prems(2)] show ?case
    by (auto simp: map_add_def split: option.splits if_splits)
qed simp

definition eligible :: "activation_inputs \<Rightarrow> domain_pack_installation \<Rightarrow> bool" where
  "eligible x i \<longleftrightarrow> in_tenant_id i = ai_tenant_id x \<and> in_status i = Installation_ACCEPTED"

definition installs ::
  "activation_inputs \<Rightarrow> domain_pack_installation \<Rightarrow> domain_pack_manifest \<Rightarrow> bool" where
  "installs x i m' \<longleftrightarrow>
     in_accepted_at i \<le> ai_now x \<and> ai_now x < in_expires_at i \<and>
     (\<exists>m r. map_of (ai_manifests x) (installation_identity i) = Some m \<and>
            m' = restrict_manifest (in_enabled_capability_ids i) m \<and>
            map_of (ai_reports x) (installation_identity i) = Some r \<and>
            check_report i (ai_policy_versions x) (ai_adapter_refs x) r = Ok () \<and>
            check_enabled i m = Ok ())"

lemma require_pack_item_ok [outcome_simps]: "require_pack_item items k label = Ok v \<longleftrightarrow> map_of items k = Some v"
  by (auto simp: require_pack_item_def split: option.splits)

lemma activate_step:
  assumes "activate_installation x i a = Ok a'" and "eligible x i"
  obtains m where "installs x i m" "in_pack_id i \<notin> ac_activated_pack_ids a"
    "a' = \<lparr>ac_accepted = ac_accepted a @ [i], ac_manifests = ac_manifests a @ [m],
           ac_activated_pack_ids = insert (in_pack_id i) (ac_activated_pack_ids a)\<rparr>"
proof -
  from assms obtain m r where
      guards: "in_pack_id i \<notin> ac_activated_pack_ids a" "in_accepted_at i \<le> ai_now x" "ai_now x < in_expires_at i"
    and found: "map_of (ai_manifests x) (installation_identity i) = Some m"
      "map_of (ai_reports x) (installation_identity i) = Some r"
    and ok: "check_report i (ai_policy_versions x) (ai_adapter_refs x) r = Ok ()" "check_enabled i m = Ok ()"
    and a': "a' = \<lparr>ac_accepted = ac_accepted a @ [i],
             ac_manifests = ac_manifests a @ [restrict_manifest (in_enabled_capability_ids i) m],
             ac_activated_pack_ids = insert (in_pack_id i) (ac_activated_pack_ids a)\<rparr>"
    by (auto simp: activate_installation_def eligible_def res_bind_ok require_pack_item_ok split: if_splits)
  then have "installs x i (restrict_manifest (in_enabled_capability_ids i) m)" by (auto simp: installs_def)
  with guards a' show ?thesis by (rule_tac that) simp_all
qed

lemma activate_skip:
  assumes "\<not> eligible x i"
  shows "activate_installation x i a = Ok a"
  using assms by (auto simp: activate_installation_def eligible_def)

lemma activate_all:
  assumes "register_all (activate_installation x) is a = Ok a'"
  shows "\<exists>ms. ac_accepted a' = ac_accepted a @ filter (eligible x) is \<and>
           ac_manifests a' = ac_manifests a @ ms \<and>
           list_all2 (installs x) (filter (eligible x) is) ms \<and>
           distinct (map in_pack_id (filter (eligible x) is)) \<and>
           (\<forall>i \<in> set is. eligible x i \<longrightarrow> in_pack_id i \<notin> ac_activated_pack_ids a)"
  using assms
proof (induction "is" arbitrary: a)
  case (Cons i "is")
  from Cons.prems obtain a1 where step: "activate_installation x i a = Ok a1"
      and rest: "register_all (activate_installation x) is a1 = Ok a'"
    by (auto simp: res_bind_ok)
  from Cons.IH [OF rest] obtain ms where ms: "ac_accepted a' = ac_accepted a1 @ filter (eligible x) is"
      "ac_manifests a' = ac_manifests a1 @ ms" "list_all2 (installs x) (filter (eligible x) is) ms"
      "distinct (map in_pack_id (filter (eligible x) is))"
      "\<forall>i \<in> set is. eligible x i \<longrightarrow> in_pack_id i \<notin> ac_activated_pack_ids a1" by blast
  show ?case
  proof (cases "eligible x i")
    case True
    from activate_step [OF step True] obtain m where m: "installs x i m" "in_pack_id i \<notin> ac_activated_pack_ids a"
      "a1 = \<lparr>ac_accepted = ac_accepted a @ [i], ac_manifests = ac_manifests a @ [m],
             ac_activated_pack_ids = insert (in_pack_id i) (ac_activated_pack_ids a)\<rparr>" .
    with ms True show ?thesis by (intro exI [where x = "m # ms"]) (auto simp: image_iff)
  next
    case False
    with ms step show ?thesis by (auto simp: activate_skip)
  qed
qed simp

lemma check_report_ok [outcome_simps]:
  "check_report i pv ar r = Ok u \<longleftrightarrow>
     cr_status r = PASS \<and> cr_candidate_pack_id r = Some (in_pack_id i) \<and>
     cr_candidate_pack_version r = Some (in_pack_version i) \<and>
     cr_manifest_digest r = Some (in_contract_digest i) \<and>
     pv (in_pack_id i) = Some (in_policy_version i) \<and> ar (in_pack_id i) = Some (in_adapter_ref i)"
  by (auto simp: check_report_def checks_ok)

text \<open>What the enabled capabilities are, once the checks pass.\<close>

lemma check_enabled_ok:
  assumes "check_enabled i m = Ok ()" and "distinct (map cd_capability_id (dm_capabilities m))"
  shows "in_result_probe_ref i \<in> dm_result_probe_refs m"
    and "set (in_enabled_capability_ids i) =
           cd_capability_id ` set (dm_capabilities (restrict_manifest (in_enabled_capability_ids i) m))"
    and "c \<in> set (dm_capabilities (restrict_manifest (in_enabled_capability_ids i) m)) \<Longrightarrow>
           cd_version c = in_pack_version i \<and> cd_result_probe_ref c = in_result_probe_ref i"
proof -
  let ?runtime = "dict_of (map (\<lambda>c. (cd_capability_id c, c)) (dm_capabilities m))"
  have keys: "fst ` set ?runtime = cd_capability_id ` set (dm_capabilities m)"
    by (simp add: map_of_dict_of dom_map_of_conv_image_fst [symmetric])
       (simp add: dom_map_of_conv_image_fst image_image)
  have "distinct (map fst (rev (map (\<lambda>c. (cd_capability_id c, c)) (dm_capabilities m))))"
    using assms(2) by (simp add: rev_map [symmetric] o_def)
  from map_of_eq_Some_iff [OF this] have lookup:
    "map_of ?runtime cid = Some c \<longleftrightarrow> c \<in> set (dm_capabilities m) \<and> cd_capability_id c = cid" for cid c
    by (auto simp: map_of_dict_of)
  from assms(1) have ok: "set (in_enabled_capability_ids i) \<subseteq> fst ` set ?runtime"
    "in_result_probe_ref i \<in> dm_result_probe_refs m"
    "\<And>cid. cid \<in> set (in_enabled_capability_ids i) \<Longrightarrow>
       cd_version (the (map_of ?runtime cid)) = in_pack_version i \<and>
       cd_result_probe_ref (the (map_of ?runtime cid)) = in_result_probe_ref i"
    unfolding check_enabled_def Let_def checks_ok each_ok by simp_all
  show "in_result_probe_ref i \<in> dm_result_probe_refs m" by (fact ok(2))
  show "set (in_enabled_capability_ids i) =
      cd_capability_id ` set (dm_capabilities (restrict_manifest (in_enabled_capability_ids i) m))"
    using ok(1) unfolding keys by (auto simp: restrict_manifest_def)
  assume "c \<in> set (dm_capabilities (restrict_manifest (in_enabled_capability_ids i) m))"
  then have "map_of ?runtime (cd_capability_id c) = Some c" "cd_capability_id c \<in> set (in_enabled_capability_ids i)"
    by (simp_all add: lookup restrict_manifest_def)
  with ok(3) [of "cd_capability_id c"]
  show "cd_version c = in_pack_version i \<and> cd_result_probe_ref c = in_result_probe_ref i" by simp
qed

section \<open>Properties\<close>

text \<open>
  C23. When the active set of a tenant is built, its installations are
  exactly the tenant's accepted ones, one per pack, each current, with a trusted adapter and
  policy version, whose digest is that of a conformant SDK manifest whenever the reports come from
  the conformance evaluation; and the registry resolves exactly their packs, each to the runtime
  manifest registered under that identity cut down to the enabled capabilities, which all exist
  and carry the installation's version and result probe.
\<close>

theorem active_packs_governed:
  assumes build: "build_active_domain_pack_set tenant manifests reports installations pv ar now = Ok s"
    and valid: "\<forall>m \<in> set manifests. distinct (map cd_capability_id (dm_capabilities m))"
    and evaluated: "\<forall>r \<in> set reports. \<exists>candidate. r = evaluate_static_pack_conformance parse candidate"
  shows "set (ad_installations s) =
           {i \<in> set installations. in_tenant_id i = tenant \<and> in_status i = Installation_ACCEPTED} \<and>
         inj_on in_pack_id (set (ad_installations s)) \<and>
         (\<forall>i \<in> set (ad_installations s).
            in_accepted_at i \<le> now \<and> now < in_expires_at i \<and>
            pv (in_pack_id i) = Some (in_policy_version i) \<and> ar (in_pack_id i) = Some (in_adapter_ref i) \<and>
            (\<exists>sdk. pack_conformant sdk \<and> in_contract_digest i = manifest_digest sdk \<and>
               (sm_pack_id sdk, sm_pack_version sdk) = installation_identity i) \<and>
            (\<exists>m \<in> set manifests. manifest_identity m = installation_identity i \<and>
               in_result_probe_ref i \<in> dm_result_probe_refs m \<and>
               require_exact_pack (installation_identity i) (ad_registry s) =
                 Ok (restrict_manifest (in_enabled_capability_ids i) m) \<and>
               cd_capability_id ` set (dm_capabilities (restrict_manifest (in_enabled_capability_ids i) m)) =
                 set (in_enabled_capability_ids i) \<and>
               (\<forall>c \<in> set (dm_capabilities (restrict_manifest (in_enabled_capability_ids i) m)).
                  cd_version c = in_pack_version i \<and> cd_result_probe_ref c = in_result_probe_ref i))) \<and>
         (\<forall>k. is_ok (require_exact_pack k (ad_registry s)) \<longrightarrow>
            (\<exists>i \<in> set (ad_installations s). installation_identity i = k))"
proof -
  from build obtain d ix a r where d: "unique_by_identity manifests = Ok d" and ix: "unique_reports reports = Ok ix"
      and a: "register_all (activate_installation
         \<lparr>ai_tenant_id = tenant, ai_manifests = d, ai_reports = ix, ai_policy_versions = pv,
          ai_adapter_refs = ar, ai_now = now\<rparr>) installations
         \<lparr>ac_accepted = [], ac_manifests = [], ac_activated_pack_ids = {}\<rparr> = Ok a"
      and r: "pack_registry_of (ac_manifests a) = Ok r" and s: "ad_registry s = r"
        "set (ad_installations s) = set (ac_accepted a)"
    unfolding build_active_domain_pack_set_def res_bind_ok by auto
  define x where "x = \<lparr>ai_tenant_id = tenant, ai_manifests = d, ai_reports = ix, ai_policy_versions = pv,
          ai_adapter_refs = ar, ai_now = now\<rparr>"
  let ?accepted = "filter (eligible x) installations"
  from activate_all [OF a [folded x_def]] have accepted: "ac_accepted a = ?accepted"
      and all: "list_all2 (installs x) ?accepted (ac_manifests a)" and once: "distinct (map in_pack_id ?accepted)"
    by auto
  have eligible: "set ?accepted = {i \<in> set installations. in_tenant_id i = tenant \<and> in_status i = Installation_ACCEPTED}"
    by (auto simp: eligible_def x_def)
  have resolves: "require_exact_pack k r = Ok m \<longleftrightarrow> m \<in> set (ac_manifests a) \<and> manifest_identity m = k" for k m
    using pack_store.resolve_build [OF r [unfolded pack_registry_of_def]] .
  have identity: "manifest_identity m' = installation_identity i" if "installs x i m'" for i m'
    using that unique_by_identity_lookup [OF d]
    by (auto simp: installs_def x_def restrict_manifest_def manifest_identity_def)
  have active: "in_accepted_at i \<le> now \<and> now < in_expires_at i \<and>
      pv (in_pack_id i) = Some (in_policy_version i) \<and> ar (in_pack_id i) = Some (in_adapter_ref i) \<and>
      (\<exists>sdk. pack_conformant sdk \<and> in_contract_digest i = manifest_digest sdk \<and>
         (sm_pack_id sdk, sm_pack_version sdk) = installation_identity i) \<and>
      (\<exists>m \<in> set manifests. manifest_identity m = installation_identity i \<and>
         in_result_probe_ref i \<in> dm_result_probe_refs m \<and>
         require_exact_pack (installation_identity i) r = Ok (restrict_manifest (in_enabled_capability_ids i) m) \<and>
         cd_capability_id ` set (dm_capabilities (restrict_manifest (in_enabled_capability_ids i) m)) =
           set (in_enabled_capability_ids i) \<and>
         (\<forall>c \<in> set (dm_capabilities (restrict_manifest (in_enabled_capability_ids i) m)).
            cd_version c = in_pack_version i \<and> cd_result_probe_ref c = in_result_probe_ref i))"
    if i: "i \<in> set ?accepted" for i
  proof -
    from all i obtain m' where m': "installs x i m'" "m' \<in> set (ac_manifests a)"
      by (metis list_all2_conv_all_nth in_set_conv_nth)
    then obtain m rep where m: "map_of d (installation_identity i) = Some m"
        "m' = restrict_manifest (in_enabled_capability_ids i) m" "check_enabled i m = Ok ()"
      and rep: "map_of ix (installation_identity i) = Some rep" "check_report i pv ar rep = Ok ()"
      and current: "in_accepted_at i \<le> now" "now < in_expires_at i"
      by (auto simp: installs_def x_def)
    from m(1) have mem: "m \<in> set manifests" "manifest_identity m = installation_identity i"
      using unique_by_identity_lookup [OF d] by blast+
    from unique_reports_member [OF ix [unfolded unique_reports_def] rep(1)] have "rep \<in> set reports" by simp
    with evaluated obtain candidate where c: "rep = evaluate_static_pack_conformance parse candidate" by blast
    with rep(2) have "\<exists>sdk. rep = manifest_report sdk"
      by (auto simp: check_report_ok evaluate_static_pack_conformance_def Let_def split: sum.splits option.splits)
    then obtain sdk where sdk: "rep = manifest_report sdk" by blast
    with rep(2) have "pack_conformant sdk" "in_contract_digest i = manifest_digest sdk"
        "(sm_pack_id sdk, sm_pack_version sdk) = installation_identity i"
      using manifest_passes [of sdk]
      by (simp_all add: check_report_ok installation_identity_def manifest_report_def Let_def)
    note contract = this
    note enabled = check_enabled_ok [OF m(3)]
    have "require_exact_pack (installation_identity i) r = Ok (restrict_manifest (in_enabled_capability_ids i) m)"
      using resolves m'(2) identity [OF m'(1)] m(2) by blast
    then show ?thesis
      using current rep(2) contract mem enabled valid unfolding check_report_ok by blast
  qed
  have "\<exists>i \<in> set ?accepted. installation_identity i = k" if ok: "is_ok (require_exact_pack k r)" for k
  proof -
    from ok obtain m' where "m' \<in> set (ac_manifests a)" "manifest_identity m' = k"
      using resolves by (auto simp: is_ok_iff)
    with all obtain i where "i \<in> set ?accepted" "installs x i m'"
      by (metis list_all2_conv_all_nth in_set_conv_nth)
    moreover from identity [OF this(2)] \<open>manifest_identity m' = k\<close> have "installation_identity i = k" by simp
    ultimately show ?thesis by blast
  qed
  moreover from once have "inj_on in_pack_id (set ?accepted)" by (simp add: distinct_map)
  ultimately show ?thesis
    using active eligible unfolding s accepted by blast
qed

definition sample_installation :: domain_pack_installation where
  "sample_installation = \<lparr>in_installation_id = ''i'', in_tenant_id = ''org'', in_pack_id = ''pk'',
     in_pack_version = ''1'', in_contract_digest = manifest_digest sample_sdk_manifest,
     in_enabled_capability_ids = [''pay''], in_adapter_ref = ''ad'', in_result_probe_ref = ''p'',
     in_policy_version = ''pol'', in_status = Installation_ACCEPTED, in_accepted_at = 0, in_expires_at = 10\<rparr>"

lemma sample_build:
  "\<exists>s. build_active_domain_pack_set ''org'' [sample_manifest ''1''] [manifest_report sample_sdk_manifest]
     [sample_installation] (\<lambda>_. Some ''pol'') (\<lambda>_. Some ''ad'') 5 = Ok s"
proof -
  let ?m = "sample_manifest ''1''" and ?r = "manifest_report sample_sdk_manifest"
  have report: "cr_candidate_pack_id ?r = Some ''pk''" "cr_candidate_pack_version ?r = Some ''1''"
    "cr_manifest_digest ?r = Some (manifest_digest sample_sdk_manifest)"
    by (simp_all add: manifest_report_def Let_def sample_sdk_manifest_def)
  have status: "cr_status ?r = PASS" using sample_sdk_conformant by (simp add: manifest_passes)
  have manifests: "unique_by_identity [?m] = Ok [((''pk'', ''1''), ?m)]"
    by (simp add: unique_by_identity_def dict_register_def manifest_identity_def sample_manifest_def)
  have reports: "unique_reports [?r] = Ok [((''pk'', ''1''), ?r)]"
    by (simp add: unique_reports_def index_report_def dict_register_def report_identity_def report)
  have ok: "check_report sample_installation (\<lambda>_. Some ''pol'') (\<lambda>_. Some ''ad'') ?r = Ok ()"
    using report status by (simp add: check_report_ok sample_installation_def)
  have enabled: "check_enabled sample_installation ?m = Ok ()"
    by (simp add: check_enabled_def sample_installation_def sample_manifest_def sample_capability_def dict_of_def)
  have identity: "installation_identity sample_installation = (''pk'', ''1'')"
    by (simp add: installation_identity_def sample_installation_def)
  have fields: "in_tenant_id sample_installation = ''org''" "in_status sample_installation = Installation_ACCEPTED"
    "in_accepted_at sample_installation = 0" "in_expires_at sample_installation = 10"
    by (simp_all add: sample_installation_def)
  show ?thesis
    by (simp add: build_active_domain_pack_set_def manifests reports activate_installation_def fields identity
          require_pack_item_def ok enabled pack_registry_of_def register_pack_def dict_register_def)
qed

theorem active_packs_governed_witness:
  "\<exists>s. build_active_domain_pack_set ''org'' [sample_manifest ''1''] [manifest_report sample_sdk_manifest]
     [sample_installation] (\<lambda>_. Some ''pol'') (\<lambda>_. Some ''ad'') 5 = Ok s \<and>
     is_ok (require_exact_pack (''pk'', ''1'') (ad_registry s))"
proof -
  obtain s where s: "build_active_domain_pack_set ''org'' [sample_manifest ''1'']
      [manifest_report sample_sdk_manifest] [sample_installation] (\<lambda>_. Some ''pol'') (\<lambda>_. Some ''ad'') 5 = Ok s"
    using sample_build by blast
  have valid: "\<forall>m \<in> set [sample_manifest ''1'']. distinct (map cd_capability_id (dm_capabilities m))"
    by (simp add: sample_manifest_def)
  have "manifest_report sample_sdk_manifest =
      evaluate_static_pack_conformance (\<lambda>_. None) (Inl sample_sdk_manifest)"
    by (simp add: evaluate_static_pack_conformance_def)
  then have evaluated: "\<forall>r \<in> set [manifest_report sample_sdk_manifest].
      \<exists>c. r = evaluate_static_pack_conformance (\<lambda>_. None) c" unfolding list.set by blast
  note governed = active_packs_governed [OF s valid evaluated]
  have active: "sample_installation \<in> set (ad_installations s)"
    using governed [THEN conjunct1] by (simp add: sample_installation_def)
  have identity: "installation_identity sample_installation = (''pk'', ''1'')"
    by (simp add: installation_identity_def sample_installation_def)
  have "\<exists>m. require_exact_pack (installation_identity sample_installation) (ad_registry s) = Ok m"
    using governed [THEN conjunct2, THEN conjunct2, THEN conjunct1, rule_format, OF active] by blast
  then have "is_ok (require_exact_pack (''pk'', ''1'') (ad_registry s))"
    unfolding identity is_ok_iff .
  with s show ?thesis by blast
qed

end
