(* ===== verification/WorkOrders.thy ===== *)
theory WorkOrders
  imports Capabilities Recovery "HOL-Library.Multiset"
begin

text \<open>
  \<open>enterprise/agent/work_orders.py\<close>: business plans bound to capability grants, the work
  orders derived from their steps, and the comparison of a proposed plan with its predecessor.
\<close>

section \<open>Equality of JSON values\<close>

text \<open>Python's \<open>==\<close>: numbers compare by value, booleans are numbers, and dicts ignore the order of keys.\<close>

fun json_number :: "json \<Rightarrow> rat option" where
  "json_number (JBool b) = Some (if b then 1 else 0)"
| "json_number (JInt i) = Some (of_int i)"
| "json_number (JFloat r) = Some r"
| "json_number v = None"

fun json_eq :: "json \<Rightarrow> json \<Rightarrow> bool" where
  "json_eq JNull w = (w = JNull)"
| "json_eq (JStr s) w = (w = JStr s)"
| "json_eq (JTime t) w = (w = JTime t)"
| "json_eq (JArr vs) w = (case w of JArr ws \<Rightarrow> list_all2 json_eq vs ws | _ \<Rightarrow> False)"
| "json_eq (JObj kvs) w = (case w of JObj lws \<Rightarrow>
       length kvs = length lws \<and> list_all (\<lambda>(k, v). case map_of lws k of
          None \<Rightarrow> False | Some w' \<Rightarrow> json_eq v w') kvs
     | _ \<Rightarrow> False)"
| "json_eq v w = (json_number v = json_number w)"

section \<open>Plans and work orders\<close>

datatype replan_reason =
    BUSINESS_STATE_CHANGED | INPUT_CLARIFICATION | POLICY_OR_PERMISSION_CHANGED | EXECUTION_FAILURE

record business_plan_step =
  bs_step_id :: string
  bs_capability_id :: string
  bs_capability_version :: "string option"
  bs_grant_id :: string
  bs_contract_id :: string
  bs_inputs :: jobject
  bs_expected_transition :: jobject
  bs_success_criteria :: "string list"

record business_plan =
  bp_plan_id :: string
  bp_request_id :: "string option"
  bp_task_id :: string
  bp_contract_id :: string
  bp_data_scope :: capability_data_scope
  bp_version :: int
  bp_replan_reason :: "replan_reason option"
  bp_steps :: "business_plan_step list"

text \<open>The file declares its own \<open>RecoveryLevel\<close>, with the members of the one in \<open>recovery.py\<close>.\<close>

record execution_work_order =
  wo_work_order_id :: string
  wo_business_plan_step_id :: string
  wo_task_id :: string
  wo_contract_id :: string
  wo_plan_task_id :: "string option"
  wo_authority_contract_id :: "string option"
  wo_grant_id :: string
  wo_navigation_goal :: string
  wo_allowed_operations :: "string set"
  wo_prohibited_operations :: "string set"
  wo_success_criteria :: "string list"
  wo_required_evidence :: "string list"
  wo_max_recovery_level :: recovery_level
  wo_result_probe_ref :: string

definition validate_boundaries :: "execution_work_order \<Rightarrow> unit res" where
  "validate_boundaries w =
     (let overlap = wo_allowed_operations w \<inter> wo_prohibited_operations w
      in checks
        [(overlap \<noteq> {}, Exc ValueError ''Work Order operations cannot be both allowed and prohibited''),
         (wo_result_probe_ref w = [], Exc ValueError ''ExecutionWorkOrder requires a result_probe_ref'')]
        (Ok ()))"

record replan_assessment =
  ra_requires_reauthorization :: bool
  ra_invalidated_contract_ids :: "string set"
  ra_invalidated_grant_ids :: "string set"
  ra_completed_prefix_length :: int
  ra_accepted_suffix_step_ids :: "string list"
  ra_reasons :: "string list"

definition step_dump :: "bool \<Rightarrow> business_plan_step \<Rightarrow> json" where
  "step_dump with_id s = JObj
     ((if with_id then [(''step_id'', JStr (bs_step_id s))] else []) @
      [(''capability_id'', JStr (bs_capability_id s)),
       (''capability_version'', jstr_opt (bs_capability_version s)),
       (''grant_id'', JStr (bs_grant_id s)), (''contract_id'', JStr (bs_contract_id s)),
       (''inputs'', JObj (bs_inputs s)), (''expected_transition'', JObj (bs_expected_transition s)),
       (''success_criteria'', JArr (map JStr (bs_success_criteria s)))])"

text \<open>\<open>_canonical_json\<close>\<close>

definition canonical_json :: "json \<Rightarrow> string" where
  "canonical_json v = dumps False v"

definition step_authority_digest :: "business_plan_step \<Rightarrow> string" where
  "step_authority_digest s = canonical_json (step_dump False s)"

text \<open>Two steps compare equal when all their fields do.\<close>

definition same_step :: "business_plan_step \<Rightarrow> business_plan_step \<Rightarrow> bool" where
  "same_step a b \<longleftrightarrow>
     bs_step_id a = bs_step_id b \<and> bs_capability_id a = bs_capability_id b \<and>
     bs_capability_version a = bs_capability_version b \<and> bs_grant_id a = bs_grant_id b \<and>
     bs_contract_id a = bs_contract_id b \<and> json_eq (JObj (bs_inputs a)) (JObj (bs_inputs b)) \<and>
     json_eq (JObj (bs_expected_transition a)) (JObj (bs_expected_transition b)) \<and>
     bs_success_criteria a = bs_success_criteria b"

section \<open>Validation\<close>

definition validate_business_plan :: "business_plan \<Rightarrow> capability_grant list \<Rightarrow> time \<Rightarrow> unit res" where
  "validate_business_plan plan grants now =
     each (\<lambda>s. if bs_contract_id s \<noteq> bp_contract_id plan
        then Raise ValueError ''BusinessPlanStep contract_id must match the BusinessPlan contract_id''
        else res_bind (require_executable grants (bs_capability_id s) (bs_grant_id s) now) (\<lambda>_. Ok ()))
       (bp_steps plan)"

definition validate_work_order ::
  "execution_work_order \<Rightarrow> business_plan \<Rightarrow> business_plan_step \<Rightarrow> capability_grant list \<Rightarrow> time \<Rightarrow> unit res" where
  "validate_work_order w plan s grants now =
     checks
       [(wo_plan_task_id w = None \<and> wo_task_id w \<noteq> bp_task_id plan,
         Exc ValueError ''Work Order task_id must match the originating BusinessPlan task_id''),
        (wo_plan_task_id w \<noteq> None \<and> wo_plan_task_id w \<noteq> Some (bp_task_id plan),
         Exc ValueError ''Work Order plan_task_id must match the originating BusinessPlan task_id''),
        (wo_business_plan_step_id w \<noteq> bs_step_id s,
         Exc ValueError ''Work Order must reference its originating BusinessPlanStep''),
        (\<not> list_ex (same_step s) (bp_steps plan),
         Exc ValueError ''Work Order step must belong to the originating BusinessPlan''),
        (wo_authority_contract_id w = None \<and> wo_contract_id w \<noteq> bp_contract_id plan,
         Exc ValueError ''Work Order contract_id must match the originating BusinessPlan contract_id''),
        (wo_authority_contract_id w = None \<and> wo_contract_id w \<noteq> bs_contract_id s,
         Exc ValueError ''Work Order contract_id must match the BusinessPlanStep contract_id''),
        (wo_authority_contract_id w \<noteq> None \<and>
           (wo_authority_contract_id w \<noteq> Some (bp_contract_id plan) \<or>
            wo_authority_contract_id w \<noteq> Some (bs_contract_id s)),
         Exc ValueError ''Work Order authority_contract_id must match the BusinessPlan authority contract''),
        (wo_grant_id w \<noteq> bs_grant_id s,
         Exc ValueError ''Work Order grant_id must match the BusinessPlanStep grant_id'')]
       (res_bind (require_executable grants (bs_capability_id s) (bs_grant_id s) now)
         (\<lambda>_. validate_boundaries w))"

section \<open>Replanning\<close>

definition plan_scope_expands :: "capability_data_scope \<Rightarrow> capability_data_scope \<Rightarrow> bool" where
  "plan_scope_expands previous proposed =
     (if ds_department_id previous \<noteq> ds_department_id proposed then True
      else if ds_business_line_id previous \<noteq> ds_business_line_id proposed then True
      else if \<not> ds_resource_ids proposed \<subseteq> ds_resource_ids previous then True
      else list_ex (\<lambda>(k, v). \<not> json_eq (get_value (ds_attributes previous) k) v) (ds_attributes proposed))"

definition business_inputs_changed :: "business_plan_step list \<Rightarrow> business_plan_step list \<Rightarrow> bool" where
  "business_inputs_changed previous proposed =
     (let by_step = dict_of (map (\<lambda>s. (bs_step_id s, s)) previous)
      in if fst ` set by_step \<noteq> bs_step_id ` set proposed then True
         else list_ex (\<lambda>s. let p = the (map_of by_step (bs_step_id s)) in
            bs_capability_id p \<noteq> bs_capability_id s \<or>
            canonical_json (JObj (bs_inputs p)) \<noteq> canonical_json (JObj (bs_inputs s)) \<or>
            canonical_json (JObj (bs_expected_transition p)) \<noteq> canonical_json (JObj (bs_expected_transition s)))
           proposed)"

definition reasons_of :: "(bool \<times> string) list \<Rightarrow> string list" where
  "reasons_of cs = map snd (filter fst cs)"

definition assess_replan :: "business_plan \<Rightarrow> business_plan \<Rightarrow> replan_assessment" where
  "assess_replan previous proposed =
     (let reasons = reasons_of
        [(bp_contract_id previous \<noteq> bp_contract_id proposed, ''Task contract changed''),
         (plan_scope_expands (bp_data_scope previous) (bp_data_scope proposed),
          ''Data scope expanded or changed''),
         (\<not> bs_capability_id ` set (bp_steps proposed) \<subseteq> bs_capability_id ` set (bp_steps previous),
          ''Proposed plan references a new capability''),
         (business_inputs_changed (bp_steps previous) (bp_steps proposed),
          ''Business inputs or expected transition changed'')]
      in \<lparr>ra_requires_reauthorization = (reasons \<noteq> []),
          ra_invalidated_contract_ids = (if reasons \<noteq> [] then {bp_contract_id previous} else {}),
          ra_invalidated_grant_ids = (if reasons \<noteq> [] then bs_grant_id ` set (bp_steps previous) else {}),
          ra_completed_prefix_length = 0, ra_accepted_suffix_step_ids = [], ra_reasons = reasons\<rparr>)"

definition prefix_changed :: "business_plan_step list \<Rightarrow> business_plan_step list \<Rightarrow> bool" where
  "prefix_changed previous proposed \<longleftrightarrow>
     length proposed \<noteq> length previous \<or>
     list_ex (\<lambda>(l, r). canonical_json (step_dump True l) \<noteq> canonical_json (step_dump True r))
       (zip previous proposed)"

definition assess_suffix_replan ::
  "business_plan \<Rightarrow> business_plan \<Rightarrow> int \<Rightarrow> replan_assessment res" where
  "assess_suffix_replan previous proposed completed =
     (if completed < 0 \<or> int (length (bp_steps previous)) < completed
      then Raise ValueError ''Completed prefix length is outside the previous plan''
      else (let n = nat completed;
                previous_suffix = drop n (bp_steps previous);
                proposed_suffix = drop n (bp_steps proposed);
                available = mset (map step_authority_digest previous_suffix);
                requested = mset (map step_authority_digest proposed_suffix);
                reasons = reasons_of
                  [(bp_version proposed \<noteq> bp_version previous + 1,
                    ''Proposed plan version is not the direct successor''),
                   (bp_task_id previous \<noteq> bp_task_id proposed, ''Plan-root Task changed''),
                   (bp_contract_id previous \<noteq> bp_contract_id proposed, ''Task contract changed''),
                   (plan_scope_expands (bp_data_scope previous) (bp_data_scope proposed) \<or>
                    plan_scope_expands (bp_data_scope proposed) (bp_data_scope previous),
                    ''Data scope changed''),
                   (prefix_changed (take n (bp_steps previous)) (take n (bp_steps proposed)),
                    ''Completed prefix changed''),
                   (requested - available \<noteq> {#},
                    ''Replacement suffix expands business authority or inputs'')]
            in Ok \<lparr>ra_requires_reauthorization = (reasons \<noteq> []),
                   ra_invalidated_contract_ids = (if reasons \<noteq> [] then {bp_contract_id previous} else {}),
                   ra_invalidated_grant_ids =
                     (if reasons \<noteq> [] then bs_grant_id ` set previous_suffix else {}),
                   ra_completed_prefix_length = completed,
                   ra_accepted_suffix_step_ids =
                     (if reasons = [] then map bs_step_id proposed_suffix else []),
                   ra_reasons = reasons\<rparr>))"

section \<open>Laws\<close>

lemma reasons_of_empty: "reasons_of cs = [] \<longleftrightarrow> (\<forall>c \<in> set cs. \<not> fst c)"
  by (auto simp: reasons_of_def filter_empty_conv)

lemma executable_is_ok:
  "is_ok (require_executable grants cap gid now) \<longleftrightarrow>
     (\<exists>g \<in> set grants. cg_capability_id g = cap \<and> cg_grant_id g = gid \<and>
        cg_disposition g \<noteq> Access_DENY \<and> grant_allows g EXECUTE_TRANSITION now)"
proof -
  have "is_ok (require_executable grants cap gid now) \<longleftrightarrow>
      is_ok (require_dimension grants cap gid EXECUTE_TRANSITION now)"
    by (simp add: is_ok_iff require_executable_ok)
  then show ?thesis by (simp add: require_dimension_exists)
qed

lemma bind_unit_ok: "res_bind r (\<lambda>_. k) = Ok y \<longleftrightarrow> is_ok r \<and> k = Ok y"
  by (cases r) simp_all

lemma validate_business_plan_ok [outcome_simps]:
  "validate_business_plan plan grants now = Ok () \<longleftrightarrow>
     (\<forall>s \<in> set (bp_steps plan). bs_contract_id s = bp_contract_id plan \<and>
        is_ok (require_executable grants (bs_capability_id s) (bs_grant_id s) now))"
  unfolding validate_business_plan_def each_ok by (auto simp: bind_unit_ok)

lemma zip_all_equal:
  "length xs = length ys \<Longrightarrow>
     \<not> list_ex (\<lambda>(l, r). f l \<noteq> f r) (zip ys xs) \<longleftrightarrow> map f xs = map f ys"
  by (induction xs ys rule: list_induct2) auto

section \<open>Properties\<close>

text \<open>
  A work order is accepted exactly when it names the plan's task, its
  step belongs to the plan, it works under the contract of both plan and step, it carries the
  step's grant and that grant may execute now, and its operations do not contradict each other
  and end in a result probe.
\<close>

theorem work_order_within_plan:
  "validate_work_order w plan s grants now = Ok () \<longleftrightarrow>
     (case wo_plan_task_id w of None \<Rightarrow> wo_task_id w | Some t \<Rightarrow> t) = bp_task_id plan \<and>
     wo_business_plan_step_id w = bs_step_id s \<and> (\<exists>s' \<in> set (bp_steps plan). same_step s s') \<and>
     (let contract = (case wo_authority_contract_id w of None \<Rightarrow> wo_contract_id w | Some c \<Rightarrow> c)
      in contract = bp_contract_id plan \<and> contract = bs_contract_id s) \<and>
     wo_grant_id w = bs_grant_id s \<and>
     (\<exists>g \<in> set grants. cg_capability_id g = bs_capability_id s \<and> cg_grant_id g = wo_grant_id w \<and>
        cg_disposition g \<noteq> Access_DENY \<and> grant_allows g EXECUTE_TRANSITION now) \<and>
     wo_allowed_operations w \<inter> wo_prohibited_operations w = {} \<and> wo_result_probe_ref w \<noteq> []"
  unfolding validate_work_order_def checks_ok bind_unit_ok validate_boundaries_def Let_def executable_is_ok
  by (cases "wo_plan_task_id w"; cases "wo_authority_contract_id w") (auto simp: list_ex_iff)


definition sample_plan_of :: "int \<Rightarrow> business_plan" where
  "sample_plan_of version = \<lparr>bp_plan_id = ''plan'', bp_request_id = None, bp_task_id = ''t'',
     bp_contract_id = ''c'', bp_data_scope = \<lparr>ds_department_id = Some ''d'', ds_business_line_id = None,
       ds_resource_ids = {''r''}, ds_attributes = []\<rparr>, bp_version = version, bp_replan_reason = None,
     bp_steps = map (\<lambda>i. \<lparr>bs_step_id = i, bs_capability_id = ''pay'', bs_capability_version = None,
       bs_grant_id = ''g'', bs_contract_id = ''c'', bs_inputs = [], bs_expected_transition = [],
       bs_success_criteria = []\<rparr>) [''s1'', ''s2'']\<rparr>"


end
