(* ===== verification/Interactions.thy ===== *)
theory Interactions
  imports WorkOrders Packs
begin

text \<open>
  \<open>enterprise/agent/interactions.py\<close>: the request shape shared by UI and chat, the disclosure-safe
  projection of the active grants, and the validation of requests and plan proposals against it.
\<close>

section \<open>Requests\<close>

datatype entry_mode = Entry_UI | Entry_CHAT

datatype request_kind =
    Request_DISCOVER | Request_READ | Request_TRANSITION | Request_APPROVAL_REQUEST
  | Request_APPROVAL_ADJUDICATION

definition all_request_kinds :: "request_kind list" where
  "all_request_kinds =
     [Request_DISCOVER, Request_READ, Request_TRANSITION, Request_APPROVAL_REQUEST,
      Request_APPROVAL_ADJUDICATION]"

fun request_dimension :: "request_kind \<Rightarrow> authorization_dimension" where
  "request_dimension Request_DISCOVER = DISCOVER"
| "request_dimension Request_READ = READ_RECORD"
| "request_dimension Request_TRANSITION = REQUEST_TRANSITION"
| "request_dimension Request_APPROVAL_REQUEST = REQUEST_APPROVAL"
| "request_dimension Request_APPROVAL_ADJUDICATION = ADJUDICATE_APPROVAL"

record capability_request =
  rq_request_id :: string
  rq_submitted_at :: time
  rq_entry_mode :: entry_mode
  rq_principal_ref :: string
  rq_session_ref :: string
  rq_tenant_id :: string
  rq_requested_scope :: capability_data_scope
  rq_capability_ref :: string
  rq_capability_version :: string
  rq_request_kind :: request_kind
  rq_typed_inputs :: jobject
  rq_resource_refs :: "string set"
  rq_approval_round_ref :: "string option"
  rq_user_intent_summary :: string
  rq_grant_ref :: string
  rq_contract_versions :: "(string \<times> string) list"

definition validate_approval_binding :: "capability_request \<Rightarrow> capability_request res" where
  "validate_approval_binding q =
     (let is_approval_interaction =
            rq_request_kind q \<in> {Request_APPROVAL_REQUEST, Request_APPROVAL_ADJUDICATION}
      in checks
        [(is_approval_interaction \<and> \<not> truthy (rq_approval_round_ref q),
          Exc ValueError ''Approval interactions require approval_round_ref''),
         (\<not> is_approval_interaction \<and> rq_approval_round_ref q \<noteq> None,
          Exc ValueError ''approval_round_ref is valid only for approval interactions'')]
        (Ok q))"

section \<open>Projections\<close>

record grant_entry =
  ge_grant_id :: string
  ge_capability_id :: string
  ge_capability_version :: string
  ge_display_name :: string
  ge_intent_examples :: "string list"
  ge_input_schema :: jobject
  ge_data_scope :: capability_data_scope
  ge_allowed_request_kinds :: "request_kind set"
  ge_expires_at :: time

record grant_projection =
  gp_principal_id :: string
  gp_workload_principal_id :: "string option"
  gp_tenant_id :: string
  gp_revocation_epoch :: string
  gp_generated_at :: time
  gp_entries :: "grant_entry list"

definition validate_projection :: "grant_projection \<Rightarrow> grant_projection res" where
  "validate_projection p =
     (if \<not> distinct (map ge_grant_id (gp_entries p))
      then Raise ValueError ''GrantSetProjection grant_id values must be unique'' else Ok p)"

definition require_entry :: "grant_projection \<Rightarrow> string \<Rightarrow> string \<Rightarrow> time \<Rightarrow> grant_entry res" where
  "require_entry p capability_id grant_id now =
     (case List.find (\<lambda>e. ge_capability_id e = capability_id \<and> ge_grant_id e = grant_id \<and>
                          now < ge_expires_at e) (gp_entries p) of
        Some e \<Rightarrow> Ok e
      | None \<Rightarrow> Raise ValueError ''Capability request is outside the active Grant projection'')"

definition business_principal :: "capability_grant \<Rightarrow> string" where
  "business_principal g =
     (if truthy (cg_business_principal_id g) then the (cg_business_principal_id g) else cg_principal_id g)"

definition grant_request_kinds :: "capability_grant \<Rightarrow> request_kind set" where
  "grant_request_kinds g =
     set (filter (\<lambda>k. request_dimension k \<in> cg_allowed_dimensions g) all_request_kinds)"

text \<open>One round of the loop: no entry for a grant without a request kind.\<close>

definition projected_entry :: "capability_registry \<Rightarrow> capability_grant \<Rightarrow> grant_entry list res" where
  "projected_entry reg g =
     res_bind (require_capability (cg_capability_id g) reg) (\<lambda>d.
       if cd_version d \<noteq> cg_capability_version g
       then Raise ValueError ''Grant capability version does not match the registry''
       else if grant_request_kinds g = {} then Ok []
       else Ok [\<lparr>ge_grant_id = cg_grant_id g, ge_capability_id = cg_capability_id g,
                 ge_capability_version = cg_capability_version g, ge_display_name = cd_display_name d,
                 ge_intent_examples = cd_intent_examples d, ge_input_schema = cd_input_schema d,
                 ge_data_scope = cg_data_scope g, ge_allowed_request_kinds = grant_request_kinds g,
                 ge_expires_at = cg_expires_at g\<rparr>])"

definition entry_key :: "grant_entry \<Rightarrow> string \<times> string" where
  "entry_key e = (ge_capability_id e, ge_grant_id e)"

text \<open>\<open>len(values) != 1\<close>, and \<open>next(iter(values))\<close> of a singleton, on the list the set is built from.\<close>

definition one_value :: "'a list \<Rightarrow> bool" where
  "one_value xs \<longleftrightarrow> (\<exists>x \<in> set xs. \<forall>y \<in> set xs. y = x)"

definition build_grant_projection ::
  "capability_grant list \<Rightarrow> capability_registry \<Rightarrow> time \<Rightarrow> grant_projection res" where
  "build_grant_projection grants reg now =
     (let active = active_grants grants now
      in if active = []
         then Raise ValueError ''No active Capability Grants are available for projection''
         else if \<not> one_value (map business_principal active) \<or>
                 \<not> one_value (map cg_workload_principal_id active) \<or>
                 \<not> one_value (map cg_tenant_id active) \<or>
                 \<not> one_value (map cg_revocation_epoch active)
         then Raise ValueError
           ''Grant projection cannot combine principals, tenants, or revocation epochs''
         else res_bind (map_res (projected_entry reg) active) (\<lambda>entries.
           validate_projection
             \<lparr>gp_principal_id = business_principal (hd active),
              gp_workload_principal_id = cg_workload_principal_id (hd active),
              gp_tenant_id = cg_tenant_id (hd active),
              gp_revocation_epoch = cg_revocation_epoch (hd active), gp_generated_at = now,
              gp_entries = sort_by (\<lambda>a b. identity_le (entry_key a) (entry_key b)) (concat entries)\<rparr>))"

section \<open>Validating a request\<close>

type_synonym input_validator = "capability_definition \<Rightarrow> jobject \<Rightarrow> unit res"

definition validate_inputs ::
  "capability_definition \<Rightarrow> jobject \<Rightarrow> input_validator option \<Rightarrow> unit res" where
  "validate_inputs d v validator =
     (if cd_input_schema d = []
      then (if v \<noteq> [] then Raise ValueError ''Capability has no registered input schema'' else Ok ())
      else (case validator of
          None \<Rightarrow> Raise ValueError ''Capability input schema requires a trusted validator''
        | Some validate \<Rightarrow>
            (case validate d v of
               Inr _ \<Rightarrow> Ok ()
             | Inl e \<Rightarrow> if exc_of e = TypeError \<or> is_value_error e
                 then Raise ValueError (''Capability inputs do not match the registered schema: '' @ message e)
                 else Inl e)))"

definition request_scope_expands :: "capability_data_scope \<Rightarrow> capability_data_scope \<Rightarrow> bool" where
  "request_scope_expands allowed requested =
     (if ds_department_id allowed \<noteq> ds_department_id requested then True
      else if ds_business_line_id allowed \<noteq> ds_business_line_id requested then True
      else if ds_resource_ids allowed \<noteq> {} \<and> \<not> ds_resource_ids requested \<subseteq> ds_resource_ids allowed then True
      else list_ex (\<lambda>(k, v). \<not> json_eq (get_value (ds_attributes allowed) k) v) (ds_attributes requested))"

definition validate_capability_request ::
  "capability_request \<Rightarrow> grant_projection \<Rightarrow> capability_registry \<Rightarrow> time \<Rightarrow> input_validator option \<Rightarrow>
   grant_entry res" where
  "validate_capability_request q p reg now validator =
     checks
       [(now < rq_submitted_at q,
         Exc ValueError ''Capability request submission time cannot be in the future''),
        (now < gp_generated_at p, Exc ValueError ''Grant projection generation time cannot be in the future''),
        (rq_principal_ref q \<noteq> gp_principal_id p \<or> rq_tenant_id q \<noteq> gp_tenant_id p,
         Exc ValueError ''Capability request principal or tenant does not match the Grant projection'')]
       (res_bind (require_entry p (rq_capability_ref q) (rq_grant_ref q) now) (\<lambda>e. checks
         [(rq_capability_version q \<noteq> ge_capability_version e,
           Exc ValueError ''Capability request version does not match the Grant projection''),
          (rq_request_kind q \<notin> ge_allowed_request_kinds e,
           Exc ValueError ''Capability request kind is not allowed by the Grant''),
          (request_scope_expands (ge_data_scope e) (rq_requested_scope q),
           Exc ValueError ''Capability request scope exceeds the Grant''),
          (ds_resource_ids (ge_data_scope e) \<noteq> {} \<and>
             \<not> rq_resource_refs q \<subseteq> ds_resource_ids (ge_data_scope e),
           Exc ValueError ''Capability request references a resource outside the Grant''),
          (ds_resource_ids (rq_requested_scope q) \<noteq> {} \<and>
             \<not> rq_resource_refs q \<subseteq> ds_resource_ids (rq_requested_scope q),
           Exc ValueError ''Capability request resource refs exceed its requested scope'')]
         (res_bind (require_capability (rq_capability_ref q) reg) (\<lambda>d. checks
           [(cd_version d \<noteq> rq_capability_version q,
             Exc ValueError ''Capability request version does not match the registry'')]
           (res_bind (validate_inputs d (rq_typed_inputs q) validator) (\<lambda>_. Ok e))))))"

section \<open>Validating a plan proposal\<close>

definition require_grant :: "capability_grant list \<Rightarrow> string \<Rightarrow> capability_grant res" where
  "require_grant grants grant_id =
     (case List.find (\<lambda>g. cg_grant_id g = grant_id) grants of
        Some g \<Rightarrow> Ok g
      | None \<Rightarrow> Raise ValueError ''BusinessPlan references an unknown Grant'')"

definition same_scope :: "capability_data_scope \<Rightarrow> capability_data_scope \<Rightarrow> bool" where
  "same_scope a b \<longleftrightarrow>
     ds_department_id a = ds_department_id b \<and> ds_business_line_id a = ds_business_line_id b \<and>
     ds_resource_ids a = ds_resource_ids b \<and> json_eq (JObj (ds_attributes a)) (JObj (ds_attributes b))"

definition validate_grant_projection_binding ::
  "capability_grant \<Rightarrow> grant_entry \<Rightarrow> grant_projection \<Rightarrow> unit res" where
  "validate_grant_projection_binding g e p =
     checks
       [(business_principal g \<noteq> gp_principal_id p \<or>
         cg_workload_principal_id g \<noteq> gp_workload_principal_id p \<or> cg_tenant_id g \<noteq> gp_tenant_id p \<or>
         cg_revocation_epoch g \<noteq> gp_revocation_epoch p,
         Exc ValueError ''CapabilityGrant identity binding does not match the Grant projection''),
        (cg_capability_id g \<noteq> ge_capability_id e \<or> cg_capability_version g \<noteq> ge_capability_version e \<or>
         \<not> same_scope (cg_data_scope g) (ge_data_scope e) \<or> cg_expires_at g \<noteq> ge_expires_at e,
         Exc ValueError ''CapabilityGrant content does not match the Grant projection'')]
       (Ok ())"

definition validate_plan_step ::
  "business_plan \<Rightarrow> grant_projection \<Rightarrow> capability_grant list \<Rightarrow> capability_registry \<Rightarrow> time \<Rightarrow>
   input_validator option \<Rightarrow> business_plan_step \<Rightarrow> unit res" where
  "validate_plan_step plan p grants reg now validator s =
     (case map_of (dict_of (map (\<lambda>e. (entry_key e, e)) (gp_entries p))) (bs_capability_id s, bs_grant_id s) of
        None \<Rightarrow> Raise ValueError ''BusinessPlan step is outside the Grant projection''
      | Some e \<Rightarrow>
          if bs_capability_version s \<noteq> Some (ge_capability_version e)
          then Raise ValueError ''BusinessPlan step capability version does not match its Grant''
          else res_bind (require_grant grants (bs_grant_id s)) (\<lambda>g.
            res_bind (validate_grant_projection_binding g e p) (\<lambda>_.
            res_bind (require_dimension grants (bs_capability_id s) (bs_grant_id s) REQUEST_TRANSITION now) (\<lambda>_.
            if request_scope_expands (cg_data_scope g) (bp_data_scope plan)
            then Raise ValueError ''BusinessPlan scope exceeds a referenced Grant''
            else res_bind (require_capability (bs_capability_id s) reg) (\<lambda>d.
              if bs_capability_version s \<noteq> Some (cd_version d)
              then Raise ValueError ''BusinessPlan step capability version does not match the registry''
              else validate_inputs d (bs_inputs s) validator)))))"

definition validate_plan_proposal ::
  "business_plan \<Rightarrow> capability_request \<Rightarrow> grant_projection \<Rightarrow> capability_grant list \<Rightarrow>
   capability_registry \<Rightarrow> time \<Rightarrow> input_validator option \<Rightarrow> unit res" where
  "validate_plan_proposal plan q p grants reg now validator =
     (if rq_request_kind q \<noteq> Request_TRANSITION
      then Raise ValueError ''Only a transition request may produce a BusinessPlan''
      else res_bind (validate_capability_request q p reg now validator) (\<lambda>_.
        if bp_steps plan = [] then Raise ValueError ''BusinessPlan must contain at least one step''
        else (let first = hd (bp_steps plan) in checks
          [(bp_request_id plan \<noteq> Some (rq_request_id q),
            Exc ValueError ''BusinessPlan request_id must match the CapabilityRequest''),
           (\<not> distinct (map bs_step_id (bp_steps plan)),
            Exc ValueError ''BusinessPlan step_id values must be unique''),
           (bs_capability_id first \<noteq> rq_capability_ref q \<or> bs_grant_id first \<noteq> rq_grant_ref q,
            Exc ValueError ''BusinessPlan first step must represent the requested capability''),
           (canonical_json (JObj (bs_inputs first)) \<noteq> canonical_json (JObj (rq_typed_inputs q)),
            Exc ValueError ''BusinessPlan first step inputs must match the CapabilityRequest''),
           (request_scope_expands (rq_requested_scope q) (bp_data_scope plan),
            Exc ValueError ''BusinessPlan scope exceeds the CapabilityRequest''),
           (rq_resource_refs q \<noteq> {} \<and> \<not> rq_resource_refs q \<subseteq> ds_resource_ids (bp_data_scope plan),
            Exc ValueError ''BusinessPlan scope omits a requested resource'')]
          (res_bind (each (validate_plan_step plan p grants reg now validator) (bp_steps plan))
            (\<lambda>_. validate_business_plan plan grants now)))))"

section \<open>Planner outcomes\<close>

datatype planner_outcome_kind =
    CLARIFICATION_REQUIRED | PLAN_PROPOSAL | NO_MATCH | UNSAFE_OR_UNSUPPORTED

record planner_outcome =
  po_outcome :: planner_outcome_kind
  po_plan :: "business_plan option"
  po_missing_fields :: "string list"
  po_reason_codes :: "string list"

definition validate_planner_outcome :: "planner_outcome \<Rightarrow> planner_outcome res" where
  "validate_planner_outcome r =
     checks
       [(po_outcome r = PLAN_PROPOSAL \<and> po_plan r = None,
         Exc ValueError ''PLAN_PROPOSAL requires a BusinessPlan''),
        (po_outcome r \<noteq> PLAN_PROPOSAL \<and> po_plan r \<noteq> None,
         Exc ValueError ''Only PLAN_PROPOSAL may contain a BusinessPlan''),
        (po_outcome r = CLARIFICATION_REQUIRED \<and> po_missing_fields r = [],
         Exc ValueError ''CLARIFICATION_REQUIRED requires missing_fields'')]
       (Ok r)"

section \<open>Laws\<close>

lemma set_all_request_kinds: "set all_request_kinds = UNIV"
proof -
  have "k \<in> set all_request_kinds" for k by (cases k) (simp_all add: all_request_kinds_def)
  then show ?thesis by blast
qed

lemma grant_request_kinds_iff: "grant_request_kinds g = {k. request_dimension k \<in> cg_allowed_dimensions g}"
  unfolding grant_request_kinds_def set_filter set_all_request_kinds by simp

lemma one_value_map:
  assumes "one_value (map f xs)" and "x \<in> set xs"
  shows "f x = f (hd xs)"
proof -
  have "hd xs \<in> set xs" using assms(2) by (cases xs) auto
  with assms show ?thesis unfolding one_value_def set_map by (metis imageI)
qed

lemma build_projection_ok:
  assumes "build_grant_projection grants reg now = Ok p"
  obtains es where "list_all2 (\<lambda>g e. projected_entry reg g = Ok e) (active_grants grants now) es"
    "set (gp_entries p) = set (concat es)" "gp_generated_at p = now" "distinct (map ge_grant_id (gp_entries p))"
    "\<And>g. g \<in> set (active_grants grants now) \<Longrightarrow> business_principal g = gp_principal_id p \<and>
       cg_workload_principal_id g = gp_workload_principal_id p \<and> cg_tenant_id g = gp_tenant_id p \<and>
       cg_revocation_epoch g = gp_revocation_epoch p"
proof -
  let ?active = "active_grants grants now"
  from assms obtain es where ne: "?active \<noteq> []" and one: "one_value (map business_principal ?active)"
      "one_value (map cg_workload_principal_id ?active)" "one_value (map cg_tenant_id ?active)"
      "one_value (map cg_revocation_epoch ?active)"
    and es: "map_res (projected_entry reg) ?active = Ok es"
    and p: "validate_projection
             \<lparr>gp_principal_id = business_principal (hd ?active),
              gp_workload_principal_id = cg_workload_principal_id (hd ?active),
              gp_tenant_id = cg_tenant_id (hd ?active),
              gp_revocation_epoch = cg_revocation_epoch (hd ?active), gp_generated_at = now,
              gp_entries = sort_by (\<lambda>a b. identity_le (entry_key a) (entry_key b)) (concat es)\<rparr> = Ok p"
    by (auto simp: build_grant_projection_def Let_def res_bind_ok split: if_splits)
  from p have fields: "gp_principal_id p = business_principal (hd ?active)"
    "gp_workload_principal_id p = cg_workload_principal_id (hd ?active)"
    "gp_tenant_id p = cg_tenant_id (hd ?active)" "gp_revocation_epoch p = cg_revocation_epoch (hd ?active)"
    "gp_generated_at p = now" "set (gp_entries p) = set (concat es)" "distinct (map ge_grant_id (gp_entries p))"
    by (auto simp: validate_projection_def split: if_splits)
  have "business_principal g = gp_principal_id p \<and> cg_workload_principal_id g = gp_workload_principal_id p \<and>
      cg_tenant_id g = gp_tenant_id p \<and> cg_revocation_epoch g = gp_revocation_epoch p" if "g \<in> set ?active" for g
    unfolding fields using one [THEN one_value_map, OF that] by blast
  with es fields(5-7) show ?thesis using that by (simp add: map_res_ok)
qed

text \<open>What an accepted step of a proposal carries.\<close>

lemma validate_plan_step_ok:
  assumes "validate_plan_step plan p grants reg now validator s = Ok ()"
    and "distinct (map cg_grant_id grants)"
  obtains g d where "g \<in> set grants" "cg_grant_id g = bs_grant_id s" "cg_capability_id g = bs_capability_id s"
    "cg_disposition g \<noteq> Access_DENY" "grant_allows g REQUEST_TRANSITION now"
    "business_principal g = gp_principal_id p" "cg_tenant_id g = gp_tenant_id p"
    "\<not> request_scope_expands (cg_data_scope g) (bp_data_scope plan)"
    "require_capability (bs_capability_id s) reg = Ok d" "bs_capability_version s = Some (cd_version d)"
    "cd_version d = cg_capability_version g" "validate_inputs d (bs_inputs s) validator = Ok ()"
proof -
  from assms(1) obtain e g d h where g: "require_grant grants (bs_grant_id s) = Ok g"
      "validate_grant_projection_binding g e p = Ok ()"
      "require_dimension grants (bs_capability_id s) (bs_grant_id s) REQUEST_TRANSITION now = Ok h"
      "\<not> request_scope_expands (cg_data_scope g) (bp_data_scope plan)"
      "require_capability (bs_capability_id s) reg = Ok d" "bs_capability_version s = Some (cd_version d)"
      "bs_capability_version s = Some (ge_capability_version e)"
      "validate_inputs d (bs_inputs s) validator = Ok ()"
    unfolding validate_plan_step_def by (auto simp: res_bind_ok split: option.splits if_splits)
  from g(1) have mem: "g \<in> set grants" "cg_grant_id g = bs_grant_id s"
    by (auto simp: require_grant_def split: option.splits dest: find_mem)
  from require_dimension_ok [OF g(3)] have h: "h \<in> set grants" "cg_capability_id h = bs_capability_id s"
    "cg_grant_id h = bs_grant_id s" "cg_disposition h \<noteq> Access_DENY" "grant_allows h REQUEST_TRANSITION now"
    by simp_all
  have "h = g" using assms(2) mem h(1,3) by (metis distinct_map inj_onD)
  moreover from g(2) have "business_principal g = gp_principal_id p" "cg_tenant_id g = gp_tenant_id p"
    "cg_capability_version g = ge_capability_version e"
    by (auto simp: validate_grant_projection_binding_def split: if_splits)
  ultimately show ?thesis using that [of g d] mem h g(4-8) by simp
qed

section \<open>Properties\<close>

text \<open>
  The projection a planner or a user interface sees has exactly
  the grants that are active and not denied and that allow at least one kind of request, each
  with exactly the kinds its dimensions allow; all active grants share one principal, tenant and
  revocation epoch, which are the projection's own.
\<close>

theorem grant_projection_discloses:
  assumes "build_grant_projection grants reg now = Ok p"
  shows "(\<forall>cap gid kinds. (\<exists>e \<in> set (gp_entries p). ge_capability_id e = cap \<and> ge_grant_id e = gid \<and>
              ge_allowed_request_kinds e = kinds) \<longleftrightarrow>
           (\<exists>g \<in> set grants. cg_disposition g \<noteq> Access_DENY \<and> is_active_at g now \<and>
              cg_capability_id g = cap \<and> cg_grant_id g = gid \<and>
              kinds = {k. request_dimension k \<in> cg_allowed_dimensions g} \<and> kinds \<noteq> {})) \<and>
         (\<forall>g \<in> set (active_grants grants now). business_principal g = gp_principal_id p \<and>
            cg_tenant_id g = gp_tenant_id p \<and> cg_revocation_epoch g = gp_revocation_epoch p)"
proof -
  from build_projection_ok [OF assms] obtain es where
      es: "list_all2 (\<lambda>g e. projected_entry reg g = Ok e) (active_grants grants now) es"
    and entries: "set (gp_entries p) = set (concat es)"
    and identity: "\<And>g. g \<in> set (active_grants grants now) \<Longrightarrow> business_principal g = gp_principal_id p \<and>
       cg_workload_principal_id g = gp_workload_principal_id p \<and> cg_tenant_id g = gp_tenant_id p \<and>
       cg_revocation_epoch g = gp_revocation_epoch p" by blast
  have entry: "(\<exists>e \<in> set xs. ge_capability_id e = cap \<and> ge_grant_id e = gid \<and> ge_allowed_request_kinds e = kinds) \<longleftrightarrow>
      cg_capability_id g = cap \<and> cg_grant_id g = gid \<and> kinds = grant_request_kinds g \<and> kinds \<noteq> {}"
    if "projected_entry reg g = Ok xs" for g xs cap gid kinds
    using that by (auto simp: projected_entry_def res_bind_ok split: if_splits)
  have all: "(\<exists>e \<in> set (concat es). ge_capability_id e = cap \<and> ge_grant_id e = gid \<and>
      ge_allowed_request_kinds e = kinds) \<longleftrightarrow>
      (\<exists>g \<in> set (active_grants grants now). cg_capability_id g = cap \<and> cg_grant_id g = gid \<and>
         kinds = grant_request_kinds g \<and> kinds \<noteq> {})" for cap gid kinds
    using es by (induction rule: list_all2_induct) (auto simp: entry [symmetric] bex_Un)
  show ?thesis
    unfolding entries all grant_request_kinds_iff using identity by (auto simp: active_grants_def)
qed

text \<open>
  An accepted plan proposal answers a transition request of the
  projection's principal and tenant, begins with the requested capability and grant, and each of
  its steps stands on a grant of that principal and tenant, active now, that allows both
  requesting and executing the transition and whose scope covers the plan's, for a capability
  registered in the very version the step and the grant name.
\<close>

theorem plan_proposal_executable:
  assumes valid: "validate_plan_proposal plan q p grants reg now validator = Ok ()"
    and unique: "make_grant_set raw = Ok grants"
  shows "rq_request_kind q = Request_TRANSITION \<and> rq_principal_ref q = gp_principal_id p \<and>
     rq_tenant_id q = gp_tenant_id p \<and> bp_request_id plan = Some (rq_request_id q) \<and>
     (\<exists>first rest. bp_steps plan = first # rest \<and> bs_capability_id first = rq_capability_ref q \<and>
        bs_grant_id first = rq_grant_ref q) \<and>
     (\<forall>s \<in> set (bp_steps plan). bs_contract_id s = bp_contract_id plan \<and>
        (\<exists>g \<in> set grants. \<exists>d. cg_grant_id g = bs_grant_id s \<and> cg_capability_id g = bs_capability_id s \<and>
           cg_disposition g \<noteq> Access_DENY \<and> is_active_at g now \<and>
           {REQUEST_TRANSITION, EXECUTE_TRANSITION} \<subseteq> cg_allowed_dimensions g \<and>
           business_principal g = rq_principal_ref q \<and> cg_tenant_id g = rq_tenant_id q \<and>
           \<not> request_scope_expands (cg_data_scope g) (bp_data_scope plan) \<and>
           require_capability (bs_capability_id s) reg = Ok d \<and>
           bs_capability_version s = Some (cd_version d) \<and> cd_version d = cg_capability_version g))"
proof -
  from unique have distinct: "distinct (map cg_grant_id grants)"
    by (auto simp: make_grant_set_def split: if_splits)
  from valid obtain e where kind: "rq_request_kind q = Request_TRANSITION"
      and request: "validate_capability_request q p reg now validator = Ok e"
      and ne: "bp_steps plan \<noteq> []" and first: "bp_request_id plan = Some (rq_request_id q)"
        "bs_capability_id (hd (bp_steps plan)) = rq_capability_ref q"
        "bs_grant_id (hd (bp_steps plan)) = rq_grant_ref q"
      and steps: "each (validate_plan_step plan p grants reg now validator) (bp_steps plan) = Ok ()"
      and plan: "validate_business_plan plan grants now = Ok ()"
    unfolding validate_plan_proposal_def Let_def by (auto simp: res_bind_ok split: if_splits)
  from request have same: "rq_principal_ref q = gp_principal_id p" "rq_tenant_id q = gp_tenant_id p"
    by (auto simp: validate_capability_request_def split: if_splits)
  have step: "\<exists>g \<in> set grants. \<exists>d. cg_grant_id g = bs_grant_id s \<and> cg_capability_id g = bs_capability_id s \<and>
           cg_disposition g \<noteq> Access_DENY \<and> is_active_at g now \<and>
           {REQUEST_TRANSITION, EXECUTE_TRANSITION} \<subseteq> cg_allowed_dimensions g \<and>
           business_principal g = rq_principal_ref q \<and> cg_tenant_id g = rq_tenant_id q \<and>
           \<not> request_scope_expands (cg_data_scope g) (bp_data_scope plan) \<and>
           require_capability (bs_capability_id s) reg = Ok d \<and>
           bs_capability_version s = Some (cd_version d) \<and> cd_version d = cg_capability_version g"
    if s: "s \<in> set (bp_steps plan)" for s
  proof -
    from steps s have "validate_plan_step plan p grants reg now validator s = Ok ()" by (auto simp: each_ok)
    from validate_plan_step_ok [OF this distinct] obtain g d where
        g: "g \<in> set grants" "cg_grant_id g = bs_grant_id s" "cg_capability_id g = bs_capability_id s"
      "cg_disposition g \<noteq> Access_DENY" "grant_allows g REQUEST_TRANSITION now"
      "business_principal g = gp_principal_id p" "cg_tenant_id g = gp_tenant_id p"
      "\<not> request_scope_expands (cg_data_scope g) (bp_data_scope plan)"
      "require_capability (bs_capability_id s) reg = Ok d" "bs_capability_version s = Some (cd_version d)"
      "cd_version d = cg_capability_version g" by blast
    from plan s have "is_ok (require_executable grants (bs_capability_id s) (bs_grant_id s) now)"
      by (auto simp: validate_business_plan_ok)
    then obtain h where h: "h \<in> set grants" "cg_grant_id h = bs_grant_id s" "grant_allows h EXECUTE_TRANSITION now"
      by (auto simp: executable_is_ok)
    have "h = g" using distinct g(1,2) h(1,2) by (metis distinct_map inj_onD)
    with g h same show ?thesis unfolding grant_allows_def by auto
  qed
  from ne obtain a r where "bp_steps plan = a # r" by (cases "bp_steps plan") auto
  with first have "\<exists>first rest. bp_steps plan = first # rest \<and> bs_capability_id first = rq_capability_ref q \<and>
      bs_grant_id first = rq_grant_ref q" by simp
  with kind same first(1) step plan show ?thesis by (auto simp: validate_business_plan_ok)
qed

definition sample_grant :: capability_grant where
  "sample_grant = \<lparr>cg_grant_id = ''g'', cg_capability_id = ''pay'', cg_capability_version = ''1'',
     cg_principal_id = ''u'', cg_business_principal_id = None, cg_workload_principal_id = None,
     cg_tenant_id = ''org'', cg_data_scope = bp_data_scope (sample_plan_of 1), cg_disposition = ALLOW_EXECUTE,
     cg_allowed_dimensions = {REQUEST_TRANSITION, EXECUTE_TRANSITION}, cg_policy_snapshot_version = ''v'',
     cg_revocation_epoch = ''e'', cg_purpose = ''p'', cg_resolved_at = 0, cg_not_before = None,
     cg_expires_at = 10, cg_reasons = []\<rparr>"

definition sample_projection :: grant_projection where
  "sample_projection = \<lparr>gp_principal_id = ''u'', gp_workload_principal_id = None, gp_tenant_id = ''org'',
     gp_revocation_epoch = ''e'', gp_generated_at = 5, gp_entries = [\<lparr>ge_grant_id = ''g'',
       ge_capability_id = ''pay'', ge_capability_version = ''1'', ge_display_name = ''Pay'',
       ge_intent_examples = [], ge_input_schema = [], ge_data_scope = bp_data_scope (sample_plan_of 1),
       ge_allowed_request_kinds = {Request_TRANSITION}, ge_expires_at = 10\<rparr>]\<rparr>"

lemma sample_projection_built:
  "build_grant_projection [sample_grant] [(''pay'', sample_capability)] 5 = Ok sample_projection"
proof -
  have active: "active_grants [sample_grant] 5 = [sample_grant]"
    by (simp add: active_grants_def is_active_at_def sample_grant_def)
  have kinds: "grant_request_kinds sample_grant = {Request_TRANSITION}"
    by (simp add: grant_request_kinds_def all_request_kinds_def sample_grant_def)
  have cap: "require_capability ''pay'' [(''pay'', sample_capability)] = Ok sample_capability"
    by (simp add: require_capability_def dict_require_def)
  have fields: "cg_capability_id sample_grant = ''pay''" "cg_capability_version sample_grant = ''1''"
    "cd_version sample_capability = ''1''" "cd_display_name sample_capability = ''Pay''"
    "cd_intent_examples sample_capability = []" "cd_input_schema sample_capability = []"
    "cg_grant_id sample_grant = ''g''" "cg_expires_at sample_grant = 10" "business_principal sample_grant = ''u''"
    "cg_workload_principal_id sample_grant = None" "cg_tenant_id sample_grant = ''org''"
    "cg_revocation_epoch sample_grant = ''e''" "cg_data_scope sample_grant = bp_data_scope (sample_plan_of 1)"
    by (simp_all add: sample_grant_def sample_capability_def business_principal_def)
  show ?thesis
    by (simp add: build_grant_projection_def active projected_entry_def kinds cap fields one_value_def
          validate_projection_def sample_projection_def sort_by_def)
qed

theorem grant_projection_discloses_witness:
  "build_grant_projection [sample_grant] [(''pay'', sample_capability)] 5 = Ok sample_projection \<and>
     (\<exists>e \<in> set (gp_entries sample_projection). ge_allowed_request_kinds e = {Request_TRANSITION})"
proof -
  have "{k. request_dimension k \<in> cg_allowed_dimensions sample_grant} = {Request_TRANSITION}"
    unfolding grant_request_kinds_iff [symmetric]
    by (simp add: grant_request_kinds_def all_request_kinds_def sample_grant_def)
  moreover have "cg_disposition sample_grant \<noteq> Access_DENY \<and> is_active_at sample_grant 5"
    by (simp add: is_active_at_def sample_grant_def)
  ultimately have "\<exists>e \<in> set (gp_entries sample_projection). ge_allowed_request_kinds e = {Request_TRANSITION}"
    using grant_projection_discloses [OF sample_projection_built, THEN conjunct1, rule_format,
        of "cg_capability_id sample_grant" "cg_grant_id sample_grant" "{Request_TRANSITION}"]
    by auto
  with sample_projection_built show ?thesis by blast
qed

definition sample_request :: capability_request where
  "sample_request = \<lparr>rq_request_id = ''q'', rq_submitted_at = 5, rq_entry_mode = Entry_UI,
     rq_principal_ref = ''u'', rq_session_ref = ''s'', rq_tenant_id = ''org'',
     rq_requested_scope = bp_data_scope (sample_plan_of 1), rq_capability_ref = ''pay'',
     rq_capability_version = ''1'', rq_request_kind = Request_TRANSITION, rq_typed_inputs = [],
     rq_resource_refs = {''r''}, rq_approval_round_ref = None, rq_user_intent_summary = [],
     rq_grant_ref = ''g'', rq_contract_versions = []\<rparr>"

definition sample_proposal :: business_plan where
  "sample_proposal = (sample_plan_of 1)\<lparr>bp_request_id := Some ''q'',
     bp_steps := [\<lparr>bs_step_id = ''s1'', bs_capability_id = ''pay'', bs_capability_version = Some ''1'',
       bs_grant_id = ''g'', bs_contract_id = ''c'', bs_inputs = [], bs_expected_transition = [],
       bs_success_criteria = []\<rparr>]\<rparr>"

lemma sample_proposal_valid:
  "validate_plan_proposal sample_proposal sample_request sample_projection [sample_grant]
     [(''pay'', sample_capability)] 5 None = Ok ()"
proof -
  have cap: "require_capability ''pay'' [(''pay'', sample_capability)] = Ok sample_capability"
    by (simp add: require_capability_def dict_require_def)
  have scope: "\<not> request_scope_expands (bp_data_scope (sample_plan_of 1)) (bp_data_scope (sample_plan_of 1))"
    "ds_resource_ids (bp_data_scope (sample_plan_of 1)) = {''r''}"
    "same_scope (bp_data_scope (sample_plan_of 1)) (bp_data_scope (sample_plan_of 1))"
    by (simp_all add: request_scope_expands_def sample_plan_of_def same_scope_def)
  have capability: "cd_version sample_capability = ''1''" "validate_inputs sample_capability [] None = Ok ()"
    by (simp_all add: sample_capability_def validate_inputs_def)
  have grant: "require_dimension [sample_grant] ''pay'' ''g'' REQUEST_TRANSITION 5 = Ok sample_grant"
    "require_dimension [sample_grant] ''pay'' ''g'' EXECUTE_TRANSITION 5 = Ok sample_grant"
    "require_grant [sample_grant] ''g'' = Ok sample_grant"
    by (simp_all add: require_dimension_def active_grants_def is_active_at_def grant_allows_def
          sample_grant_def require_grant_def)
  have request: "is_ok (validate_capability_request sample_request sample_projection
      [(''pay'', sample_capability)] 5 None)"
    by (simp add: validate_capability_request_def sample_request_def sample_projection_def require_entry_def
          scope cap capability)
  then obtain e where e: "validate_capability_request sample_request sample_projection
      [(''pay'', sample_capability)] 5 None = Ok e" by (auto simp: is_ok_iff)
  have binding: "validate_grant_projection_binding sample_grant (hd (gp_entries sample_projection))
      sample_projection = Ok ()"
    by (simp add: validate_grant_projection_binding_def sample_grant_def sample_projection_def
          business_principal_def scope)
  have steps: "each (validate_plan_step sample_proposal sample_projection [sample_grant]
      [(''pay'', sample_capability)] 5 None) (bp_steps sample_proposal) = Ok ()"
  proof -
    define e where "e = hd (gp_entries sample_projection)"
    have entries: "gp_entries sample_projection = [e]" "entry_key e = (''pay'', ''g'')"
      "ge_capability_version e = ''1''"
      by (simp_all add: e_def sample_projection_def entry_key_def)
    have scopes: "cg_data_scope sample_grant = bp_data_scope (sample_plan_of 1)"
      by (simp add: sample_grant_def)
    show ?thesis
      using binding [folded e_def]
      by (simp add: sample_proposal_def validate_plan_step_def entries dict_of_def grant cap capability scope scopes)
  qed
  have plan: "validate_business_plan sample_proposal [sample_grant] 5 = Ok ()"
    unfolding validate_business_plan_ok is_ok_iff require_executable_ok
    by (simp add: sample_proposal_def sample_plan_of_def grant)
  show ?thesis
    using e steps plan
    by (simp add: validate_plan_proposal_def sample_request_def sample_proposal_def scope)
qed

theorem plan_proposal_executable_witness:
  "validate_plan_proposal sample_proposal sample_request sample_projection [sample_grant]
       [(''pay'', sample_capability)] 5 None = Ok () \<and>
   EXECUTE_TRANSITION \<in> cg_allowed_dimensions sample_grant"
proof -
  have "make_grant_set [sample_grant] = Ok [sample_grant]" by (simp add: make_grant_set_def)
  from plan_proposal_executable [OF sample_proposal_valid this]
  have "\<forall>s \<in> set (bp_steps sample_proposal). \<exists>g \<in> set [sample_grant].
      {REQUEST_TRANSITION, EXECUTE_TRANSITION} \<subseteq> cg_allowed_dimensions g" by blast
  then have "EXECUTE_TRANSITION \<in> cg_allowed_dimensions sample_grant" by (simp add: sample_proposal_def)
  with sample_proposal_valid show ?thesis by blast
qed

end
