(* ===== verification/Planner.thy ===== *)
theory Planner
  imports Interactions
begin

text \<open>
  \<open>enterprise/agent/constrained_planner.py\<close>: the model-safe projection of executable capabilities,
  the closed schema every planner answer is parsed through, and the provider adapter around an
  injected transport. \<open>json.loads\<close>, the environment and the transport are arguments.
\<close>

section \<open>What the model sees\<close>

record model_safe_capability =
  mc_capability_id :: string
  mc_capability_version :: string
  mc_description :: string
  mc_input_schema :: jobject
  mc_expected_transition :: jobject
  mc_non_sensitive_constraints :: "string list"

record planner_input =
  pi_natural_language_request :: string
  pi_capabilities :: "model_safe_capability list"

definition projected_capability ::
  "capability_registry \<Rightarrow> capability_grant \<Rightarrow> (string \<times> model_safe_capability) res" where
  "projected_capability reg g =
     res_bind (require_capability (cg_capability_id g) reg) (\<lambda>d.
       if cd_version d \<noteq> cg_capability_version g
       then Raise ValueError ''Executable Grant version does not match the active registry''
       else Ok (cd_capability_id d,
         \<lparr>mc_capability_id = cd_capability_id d, mc_capability_version = cd_version d,
          mc_description = cd_display_name d, mc_input_schema = cd_input_schema d,
          mc_expected_transition = cd_state_transition d,
          mc_non_sensitive_constraints = [''single_step'', ''trusted_server_compilation'']\<rparr>))"

definition build_model_safe_projection ::
  "capability_grant list \<Rightarrow> capability_registry \<Rightarrow> time \<Rightarrow> model_safe_capability list res" where
  "build_model_safe_projection grants reg now =
     res_bind (map_res (projected_capability reg) (executable_grants grants now)) (\<lambda>kvs.
       if dict_of kvs = []
       then Raise ValueError ''No installed executable Capability is available to the Planner''
       else Ok (map snd (sort_by (\<lambda>a b. str_le (fst a) (fst b)) (dict_of kvs))))"

section \<open>The closed proposal schema\<close>

record planner_proposal =
  pp_capability_id :: string
  pp_business_inputs :: jobject

text \<open>\<open>PlannerProposal.model_validate\<close>: exactly the two fields, a non-empty string and an object.\<close>

definition validate_proposal :: "json \<Rightarrow> planner_proposal res" where
  "validate_proposal v =
     (case v of
        JObj kvs \<Rightarrow>
          (case (map_of kvs ''capability_id'', map_of kvs ''business_inputs'') of
             (Some (JStr c), Some (JObj inputs)) \<Rightarrow>
               if c = [] \<or> \<not> set (map fst kvs) \<subseteq> {''capability_id'', ''business_inputs''}
               then Raise ValueError ''validation error for PlannerProposal''
               else Ok \<lparr>pp_capability_id = c, pp_business_inputs = inputs\<rparr>
           | _ \<Rightarrow> Raise ValueError ''validation error for PlannerProposal'')
      | _ \<Rightarrow> Raise ValueError ''validation error for PlannerProposal'')"

definition parse_planner_proposal :: "(string \<Rightarrow> json res) \<Rightarrow> json \<Rightarrow> planner_proposal res" where
  "parse_planner_proposal loads v =
     (case res_bind (case v of JStr s \<Rightarrow> loads s | _ \<Rightarrow> Ok v) validate_proposal of
        Inr p \<Rightarrow> Ok p
      | Inl e \<Rightarrow> if exc_of e = TypeError \<or> is_value_error e
          then Raise PlannerOutputError ''Planner output does not match the closed proposal schema''
          else Inl e)"

definition require_projected_capability ::
  "planner_proposal \<Rightarrow> model_safe_capability list \<Rightarrow> model_safe_capability res" where
  "require_projected_capability p projection =
     (case List.find (\<lambda>c. mc_capability_id c = pp_capability_id p) projection of
        Some c \<Rightarrow> Ok c
      | None \<Rightarrow> Raise PlannerOutputError ''Planner selected a Capability outside its projection'')"

section \<open>Providers\<close>

definition deterministic_propose :: "jobject \<Rightarrow> planner_input \<Rightarrow> json res" where
  "deterministic_propose business_inputs i =
     (if length (pi_capabilities i) \<noteq> 1
      then Raise PlannerOutputError ''Deterministic Planner requires exactly one projected Capability''
      else Ok (JObj [(''capability_id'', JStr (mc_capability_id (hd (pi_capabilities i)))),
                     (''business_inputs'', JObj business_inputs)]))"

definition extract_openai_content :: "json \<Rightarrow> json res" where
  "extract_openai_content response =
     (let malformed = Raise PlannerProviderError ''OpenAI-compatible Planner response was malformed''
      in case response of
        JObj r \<Rightarrow>
          (case map_of r ''choices'' of
             Some (JArr [JObj choice]) \<Rightarrow>
               (case map_of choice ''message'' of
                  Some (JObj msg) \<Rightarrow>
                    (case map_of msg ''content'' of
                       Some (JStr content) \<Rightarrow> Ok (JStr content)
                     | _ \<Rightarrow> malformed)
                | _ \<Rightarrow> malformed)
           | _ \<Rightarrow> malformed)
      | _ \<Rightarrow> malformed)"

record planner_usage =
  us_prompt_tokens :: "int option"
  us_completion_tokens :: "int option"
  us_total_tokens :: "int option"

record planner_observation =
  po_provider_mode :: string
  po_disposition :: string
  po_codes :: "string list"
  po_provider_calls :: int
  po_repair_count :: int
  po_duration_ms :: "rat option"
  po_provider_duration_ms :: "rat option"
  po_usage :: "planner_usage option"

text \<open>\<open>next((usage[n] for n in names if n in usage), None)\<close>, then the integer check.\<close>

definition optional_count :: "jobject \<Rightarrow> string list \<Rightarrow> int option res" where
  "optional_count usage names =
     (case List.find (\<lambda>n. n \<in> fst ` set usage) names of
        None \<Rightarrow> Ok None
      | Some n \<Rightarrow>
          (case get_value usage n of
             JNull \<Rightarrow> Ok None
           | JInt i \<Rightarrow> if i < 0
               then Raise PlannerProviderError ''OpenAI-compatible Planner usage was malformed''
               else Ok (Some i)
           | _ \<Rightarrow> Raise PlannerProviderError ''OpenAI-compatible Planner usage was malformed''))"

definition extract_openai_usage :: "json \<Rightarrow> planner_usage option res" where
  "extract_openai_usage response =
     (case response of
        JObj r \<Rightarrow>
          (case map_of r ''usage'' of
             None \<Rightarrow> Ok None
           | Some (JObj usage) \<Rightarrow>
               res_bind (optional_count usage [''prompt_tokens'', ''input_tokens'']) (\<lambda>a.
               res_bind (optional_count usage [''completion_tokens'', ''output_tokens'']) (\<lambda>b.
               res_bind (optional_count usage [''total_tokens'']) (\<lambda>c.
               Ok (if a \<noteq> None \<or> b \<noteq> None \<or> c \<noteq> None
                   then Some \<lparr>us_prompt_tokens = a, us_completion_tokens = b, us_total_tokens = c\<rparr>
                   else None))))
           | Some _ \<Rightarrow> Raise PlannerProviderError ''OpenAI-compatible Planner usage was malformed'')
      | _ \<Rightarrow> Ok None)"

text \<open>
  \<open>propose_structured\<close>: the transport gets the key of the environment; every exception of the
  exchange but a provider error becomes one. The usage callback is the second component.
\<close>

definition propose_structured ::
  "string option \<Rightarrow> (string \<Rightarrow> json \<Rightarrow> json res) \<Rightarrow> string \<Rightarrow> json \<Rightarrow> json res \<times> planner_usage option" where
  "propose_structured env_key transport env_name payload =
     (case env_key of
        None \<Rightarrow> (Raise PlannerProviderError
          (''Planner credential environment variable is not set: '' @ env_name), None)
      | Some api_key \<Rightarrow>
          if api_key = []
          then (Raise PlannerProviderError
            (''Planner credential environment variable is not set: '' @ env_name), None)
          else (let wrapped = (\<lambda>e. if exc_of e = PlannerProviderError then Inl e
                       else Raise PlannerProviderError ''OpenAI-compatible Planner transport failed'')
            in case transport api_key payload of
                 Inl e \<Rightarrow> (wrapped e, None)
               | Inr response \<Rightarrow>
                   (case extract_openai_usage response of
                      Inl e \<Rightarrow> (wrapped e, None)
                    | Inr usage \<Rightarrow>
                        (case extract_openai_content response of
                           Inl e \<Rightarrow> (wrapped e, usage) | Inr content \<Rightarrow> (Ok content, usage)))))"

section \<open>Laws\<close>

lemma projected_capability_ok:
  "projected_capability reg g = Ok (k, c) \<Longrightarrow>
     k = mc_capability_id c \<and> (\<exists>d. require_capability (cg_capability_id g) reg = Ok d \<and>
       mc_capability_id c = cd_capability_id d \<and> mc_capability_version c = cd_version d \<and>
       cd_version d = cg_capability_version g)"
  by (auto simp: projected_capability_def res_bind_ok split: if_splits)

lemma parse_planner_proposal_ok:
  assumes "parse_planner_proposal loads v = Ok p"
  shows "\<exists>kvs. (v = JObj kvs \<or> (\<exists>s. v = JStr s \<and> loads s = Ok (JObj kvs))) \<and>
     set (map fst kvs) = {''capability_id'', ''business_inputs''} \<and>
     map_of kvs ''capability_id'' = Some (JStr (pp_capability_id p)) \<and> pp_capability_id p \<noteq> [] \<and>
     map_of kvs ''business_inputs'' = Some (JObj (pp_business_inputs p))"
proof -
  from assms obtain w where w: "(case v of JStr s \<Rightarrow> loads s | _ \<Rightarrow> Ok v) = Ok w" "validate_proposal w = Ok p"
    by (auto simp: parse_planner_proposal_def res_bind_ok split: sum.splits if_splits)
  from w(2) obtain kvs c inputs where kvs: "w = JObj kvs" "map_of kvs ''capability_id'' = Some (JStr c)"
      "map_of kvs ''business_inputs'' = Some (JObj inputs)" "c \<noteq> []"
      "set (map fst kvs) \<subseteq> {''capability_id'', ''business_inputs''}"
      "p = \<lparr>pp_capability_id = c, pp_business_inputs = inputs\<rparr>"
    unfolding validate_proposal_def
    by (auto split: json.splits option.splits if_splits)
  have "{''capability_id'', ''business_inputs''} \<subseteq> set (map fst kvs)"
    using kvs(2,3) by (simp add: map_of_key)
  moreover have "v = JObj kvs \<or> (\<exists>s. v = JStr s \<and> loads s = Ok (JObj kvs))"
    using w(1) kvs(1) by (cases v) auto
  ultimately show ?thesis using kvs by auto
qed

section \<open>Properties\<close>

text \<open>
  Whatever text or value a planner provider returns, an accepted proposal
  consists of exactly a capability id and its business inputs, and the capability it selects is
  one that some grant of the user may execute now, registered in the version of that grant. The
  registry is one the capability service built.
\<close>

theorem planner_confined:
  assumes registry: "capability_registry_of ds = Ok reg"
    and projection: "build_model_safe_projection grants reg now = Ok projection"
    and parsed: "parse_planner_proposal loads v = Ok p"
    and selected: "require_projected_capability p projection = Ok c"
  shows "(\<exists>kvs. (v = JObj kvs \<or> (\<exists>s. v = JStr s \<and> loads s = Ok (JObj kvs))) \<and>
            set (map fst kvs) = {''capability_id'', ''business_inputs''} \<and>
            map_of kvs ''business_inputs'' = Some (JObj (pp_business_inputs p))) \<and>
         mc_capability_id c = pp_capability_id p \<and>
         (\<exists>g \<in> set grants. cg_capability_id g = pp_capability_id p \<and> cg_disposition g \<noteq> Access_DENY \<and>
            grant_allows g EXECUTE_TRANSITION now \<and>
            (\<exists>d \<in> set ds. cd_capability_id d = pp_capability_id p \<and> cd_version d = cg_capability_version g \<and>
               mc_capability_version c = cd_version d))"
proof -
  from selected have c: "c \<in> set projection" "mc_capability_id c = pp_capability_id p"
    by (auto simp: require_projected_capability_def split: option.splits dest: find_mem)
  from projection obtain kvs where kvs: "map_res (projected_capability reg) (executable_grants grants now) = Ok kvs"
      and proj: "set projection = snd ` set (dict_of kvs)"
    by (auto simp: build_model_safe_projection_def res_bind_ok split: if_splits)
  from c(1) proj obtain k where "(k, c) \<in> set (dict_of kvs)" by auto
  then have "map_of (dict_of kvs) k = Some c" by (simp add: distinct_dict_of)
  then have "(k, c) \<in> set kvs" by (auto simp: map_of_dict_of dest: map_of_SomeD)
  then obtain g where g: "g \<in> set (executable_grants grants now)" "projected_capability reg g = Ok (k, c)"
  proof -
    from \<open>(k, c) \<in> set kvs\<close> obtain i where i: "i < length kvs" "kvs ! i = (k, c)"
      by (auto simp: in_set_conv_nth)
    from kvs [unfolded map_res_ok] have "i < length (executable_grants grants now)"
        "projected_capability reg (executable_grants grants now ! i) = Ok (k, c)"
      using i by (auto simp: list_all2_conv_all_nth)
    then show ?thesis using that nth_mem by blast
  qed
  from projected_capability_ok [OF g(2)] obtain d where d: "require_capability (cg_capability_id g) reg = Ok d"
    "mc_capability_id c = cd_capability_id d" "mc_capability_version c = cd_version d"
    "cd_version d = cg_capability_version g" by blast
  have "d \<in> set ds \<and> cd_capability_id d = cg_capability_id g"
    using capability_store.resolve_build [OF registry [unfolded capability_registry_of_def]] d(1) by blast
  note registered = this
  have "g \<in> set grants" "cg_disposition g \<noteq> Access_DENY" "grant_allows g EXECUTE_TRANSITION now"
    using g(1) by (simp_all add: executable_grants_def active_grants_def)
  moreover have "cg_capability_id g = pp_capability_id p" using d(2) c(2) registered by simp
  ultimately have authority: "\<exists>g \<in> set grants. cg_capability_id g = pp_capability_id p \<and>
      cg_disposition g \<noteq> Access_DENY \<and> grant_allows g EXECUTE_TRANSITION now \<and>
      (\<exists>d \<in> set ds. cd_capability_id d = pp_capability_id p \<and> cd_version d = cg_capability_version g \<and>
         mc_capability_version c = cd_version d)"
    using registered d(3,4) by metis
  from parse_planner_proposal_ok [OF parsed]
  have "\<exists>kvs. (v = JObj kvs \<or> (\<exists>s. v = JStr s \<and> loads s = Ok (JObj kvs))) \<and>
      set (map fst kvs) = {''capability_id'', ''business_inputs''} \<and>
      map_of kvs ''business_inputs'' = Some (JObj (pp_business_inputs p))" by (elim exE conjE) (rule exI, intro conjI)
  with c(2) authority show ?thesis by blast
qed

theorem planner_confined_witness:
  "\<exists>projection p c. build_model_safe_projection [sample_grant] [(''pay'', sample_capability)] 5 = Ok projection \<and>
     parse_planner_proposal (\<lambda>_. Raise ValueError [])
       (JObj [(''capability_id'', JStr ''pay''), (''business_inputs'', JObj [])]) = Ok p \<and>
     require_projected_capability p projection = Ok c \<and> mc_capability_id c = ''pay''"
proof -
  have "executable_grants [sample_grant] 5 = [sample_grant]"
    by (simp add: executable_grants_def active_grants_def grant_allows_def is_active_at_def sample_grant_def)
  then have "\<exists>c. build_model_safe_projection [sample_grant] [(''pay'', sample_capability)] 5 = Ok [c] \<and>
      mc_capability_id c = ''pay''"
    by (simp add: build_model_safe_projection_def projected_capability_def require_capability_def
          dict_require_def sample_grant_def sample_capability_def dict_of_def sort_by_def)
  then obtain c where c: "build_model_safe_projection [sample_grant] [(''pay'', sample_capability)] 5 = Ok [c]"
    "mc_capability_id c = ''pay''" by blast
  have p: "parse_planner_proposal (\<lambda>_. Raise ValueError [])
      (JObj [(''capability_id'', JStr ''pay''), (''business_inputs'', JObj [])]) =
      Ok \<lparr>pp_capability_id = ''pay'', pp_business_inputs = []\<rparr>"
    by (simp add: parse_planner_proposal_def validate_proposal_def)
  have r: "require_projected_capability \<lparr>pp_capability_id = ''pay'', pp_business_inputs = []\<rparr> [c] = Ok c"
    using c(2) by (simp add: require_projected_capability_def)
  have "capability_registry_of [sample_capability] = Ok [(''pay'', sample_capability)]"
    by (simp add: capability_registry_of_def dict_register_def sample_capability_def)
  from planner_confined [OF this c(1) p r] have "mc_capability_id c = ''pay''" by simp
  with c(1) p r show ?thesis by blast
qed

end
