(* ===== verification/PackRuntime.thy ===== *)
theory PackRuntime
  imports Installations Pauses WorkOrders
begin

text \<open>
  \<open>enterprise/governance/pack_runtime.py\<close>: the closed results a pack returns to the platform, their
  validation at the boundary, and the registry that pins runtime adapters to installed packs. The
  structural part of pydantic's parsing is an argument; the clock reading of a call is too.
\<close>

section \<open>Bindings and contracts\<close>

record pack_runtime_binding =
  rb_pack_id :: string
  rb_pack_version :: string
  rb_capability_ids :: "string list"
  rb_adapter_id :: string

definition validate_binding_ids :: "pack_runtime_binding \<Rightarrow> pack_runtime_binding res" where
  "validate_binding_ids b =
     (if \<not> distinct (rb_capability_ids b)
      then Raise ValueError ''Pack runtime binding capability ids must be unique'' else Ok b)"

record pack_runtime_contract =
  kc_pack_id :: string
  kc_pack_version :: string
  kc_display_name :: string
  kc_capability_ids :: "string list"
  kc_adapter_id :: string
  kc_manifest_digest :: string

definition validate_contract_ids :: "pack_runtime_contract \<Rightarrow> pack_runtime_contract res" where
  "validate_contract_ids c =
     (if \<not> distinct (kc_capability_ids c)
      then Raise ValueError ''Pack runtime contract capability ids must be unique'' else Ok c)"

definition sorted_ids :: "string list \<Rightarrow> string list" where
  "sorted_ids = sort_by str_le"

definition binding_identity :: "pack_runtime_binding \<Rightarrow> string \<times> string \<times> string list \<times> string" where
  "binding_identity b = (rb_pack_id b, rb_pack_version b, sorted_ids (rb_capability_ids b), rb_adapter_id b)"

definition contract_runtime_identity :: "pack_runtime_contract \<Rightarrow> string \<times> string \<times> string list \<times> string" where
  "contract_runtime_identity c =
     (kc_pack_id c, kc_pack_version c, sorted_ids (kc_capability_ids c), kc_adapter_id c)"

section \<open>Results of a pack\<close>

datatype pack_advance_status = Advance_COMPLETED | Advance_AWAITING_APPROVAL | Advance_PENDING_RESULT_PROBE
  | Advance_FAILED

datatype pack_probe_status = Probe_CONFIRMED | Probe_NOT_CONFIRMED | Probe_INCONCLUSIVE

record approval_specification =
  as_task_id :: string
  as_step_id :: string
  as_contract_id :: string
  as_organization_id :: string
  as_intent_id :: string
  as_action_fingerprint :: string
  as_observation_hash :: string
  as_requested_approval_route :: string
  as_source_department_id :: string
  as_business_line_id :: "string option"
  as_risk_level :: string
  as_effect :: string
  as_expires_at :: time
  as_reason_code :: string
  as_redacted_description :: string
  as_policy_decision :: jobject

record pack_advance_result =
  av_status :: pack_advance_status
  av_run_id :: string
  av_step_id :: "string option"
  av_reason_code :: "string option"
  av_approval :: "approval_specification option"
  av_execution_checkpoint :: "execution_checkpoint option"

fun advance_status_value :: "pack_advance_status \<Rightarrow> string" where
  "advance_status_value Advance_COMPLETED = ''COMPLETED''"
| "advance_status_value Advance_AWAITING_APPROVAL = ''AWAITING_APPROVAL''"
| "advance_status_value Advance_PENDING_RESULT_PROBE = ''PENDING_RESULT_PROBE''"
| "advance_status_value Advance_FAILED = ''FAILED''"

text \<open>\<open>attempt_status.casefold() != "unknown"\<close> on ASCII text.\<close>

definition attempt_unknown :: "execution_checkpoint \<Rightarrow> bool" where
  "attempt_unknown c = (lower (ck_attempt_status c) = ''unknown'')"

definition post_init_advance :: "pack_advance_result \<Rightarrow> pack_advance_result res" where
  "post_init_advance r =
     (let expects_approval = (av_status r = Advance_AWAITING_APPROVAL);
          expects_checkpoint = (av_status r = Advance_PENDING_RESULT_PROBE)
      in checks
        [((av_approval r \<noteq> None) \<noteq> expects_approval,
          Exc ValueError ''Only AWAITING_APPROVAL may carry an approval specification''),
         ((av_execution_checkpoint r \<noteq> None) \<noteq> expects_checkpoint,
          Exc ValueError ''Only PENDING_RESULT_PROBE may carry an execution checkpoint''),
         (av_status r = Advance_FAILED \<and> av_reason_code r = None,
          Exc ValueError ''FAILED requires a stable reason code''),
         (av_status r \<in> {Advance_AWAITING_APPROVAL, Advance_PENDING_RESULT_PROBE} \<and>
            av_reason_code r = None,
          Exc ValueError (advance_status_value (av_status r) @ '' requires a stable reason code'')),
         (expects_approval \<and> av_step_id r \<noteq> map_option as_step_id (av_approval r),
          Exc ValueError ''Approval result step correlation does not match its specification''),
         (expects_checkpoint \<and> av_step_id r \<noteq> map_option ck_step_id (av_execution_checkpoint r),
          Exc ValueError ''Probe result step correlation does not match its checkpoint''),
         (expects_checkpoint \<and> \<not> (case av_execution_checkpoint r of None \<Rightarrow> False | Some c \<Rightarrow> attempt_unknown c),
          Exc ValueError ''PENDING_RESULT_PROBE requires an UNKNOWN execution checkpoint'')]
        (Ok r))"

record prepared_run_reference =
  pr_run_id :: string
  pr_tenant_id :: string
  pr_request_id :: string
  pr_pack_id :: string
  pr_pack_version :: string
  pr_adapter_id :: string
  pr_admission_id :: "string option"
  pr_contract_id :: "string option"
  pr_provider_mode :: string
  pr_opaque_payload :: jobject

record pack_admission_result =
  pk_prepared :: prepared_run_reference
  pk_admission_id :: string
  pk_initial :: pack_advance_result

definition post_init_admission :: "pack_admission_result \<Rightarrow> pack_admission_result res" where
  "post_init_admission r =
     checks
       [(av_run_id (pk_initial r) \<noteq> pr_run_id (pk_prepared r),
         Exc ValueError ''Admission result run correlation does not match the prepared run''),
        (pr_admission_id (pk_prepared r) \<noteq> None \<and>
           Some (pk_admission_id r) \<noteq> pr_admission_id (pk_prepared r),
         Exc ValueError ''Admission result identity does not match the prepared run'')]
       (Ok r)"

record pack_probe_result =
  pb_status :: pack_probe_status
  pb_checkpoint :: execution_checkpoint
  pb_reason_code :: string
  pb_evidence_refs :: "string list"

definition post_init_probe :: "pack_probe_result \<Rightarrow> pack_probe_result res" where
  "post_init_probe r =
     (if \<not> attempt_unknown (pb_checkpoint r)
      then Raise ValueError ''Probe results require an UNKNOWN execution checkpoint'' else Ok r)"

section \<open>Validation at the platform boundary\<close>

text \<open>
  \<open>model_validate\<close>: the fields as \<open>parse\<close> reads them, then \<open>model_post_init\<close> of the result and of
  the results nested in it; a failure of either is the given lifecycle code.
\<close>

definition model_validate :: "('v \<Rightarrow> 'r option) \<Rightarrow> ('r \<Rightarrow> 'r res) \<Rightarrow> string \<Rightarrow> 'v \<Rightarrow> 'r res" where
  "model_validate parse post_init failure v =
     (case parse v of
        None \<Rightarrow> Raise PackLifecycleError failure
      | Some r \<Rightarrow> (case post_init r of
            Inl e \<Rightarrow> if exc_of e = TypeError \<or> is_value_error e then Raise PackLifecycleError failure else Inl e
          | Inr r \<Rightarrow> Ok r))"

text \<open>
  \<open>result.prepared != prepared\<close> compares every field, the opaque payload as a dict.
\<close>

definition same_prepared :: "prepared_run_reference \<Rightarrow> prepared_run_reference \<Rightarrow> bool" where
  "same_prepared a b \<longleftrightarrow>
     a\<lparr>pr_opaque_payload := []\<rparr> = b\<lparr>pr_opaque_payload := []\<rparr> \<and>
     json_eq (JObj (pr_opaque_payload a)) (JObj (pr_opaque_payload b))"

definition validate_pack_admission_result ::
  "('v \<Rightarrow> pack_admission_result option) \<Rightarrow> 'v \<Rightarrow> prepared_run_reference \<Rightarrow> pack_admission_result res" where
  "validate_pack_admission_result parse v prepared =
     res_bind (model_validate parse
         (\<lambda>r. res_bind (post_init_advance (pk_initial r)) (\<lambda>_. post_init_admission r))
         ''PACK_ADMISSION_RESULT_INVALID'' v) (\<lambda>r.
       if \<not> same_prepared (pk_prepared r) prepared
       then Raise PackLifecycleError ''PACK_ADMISSION_RESULT_CORRELATION_MISMATCH'' else Ok r)"

definition validate_pack_advance_result ::
  "('v \<Rightarrow> pack_advance_result option) \<Rightarrow> 'v \<Rightarrow> string \<Rightarrow> pack_advance_result res" where
  "validate_pack_advance_result parse v run_id =
     res_bind (model_validate parse post_init_advance ''PACK_ADVANCE_RESULT_INVALID'' v) (\<lambda>r.
       if av_run_id r \<noteq> run_id
       then Raise PackLifecycleError ''PACK_ADVANCE_RESULT_CORRELATION_MISMATCH'' else Ok r)"

definition validate_pack_probe_result ::
  "('v \<Rightarrow> pack_probe_result option) \<Rightarrow> 'v \<Rightarrow> string \<Rightarrow> string \<Rightarrow> string \<Rightarrow> string \<Rightarrow> string \<Rightarrow>
   pack_probe_result res" where
  "validate_pack_probe_result parse v run_id native_task_id native_step_id permit_id attempt_id =
     res_bind (model_validate parse post_init_probe ''PACK_PROBE_RESULT_INVALID'' v) (\<lambda>r.
       let c = pb_checkpoint r in checks
         [(ck_task_id c \<noteq> native_task_id \<or> ck_step_id c \<noteq> native_step_id \<or>
           ck_permit_id c \<noteq> permit_id \<or> ck_attempt_id c \<noteq> attempt_id,
           Exc PackLifecycleError ''PACK_PROBE_RESULT_CORRELATION_MISMATCH''),
          (run_id = [], Exc PackLifecycleError ''PACK_PROBE_RESULT_CORRELATION_MISMATCH'')]
         (Ok r))"

definition derive_pack_run_id :: "string \<Rightarrow> string \<Rightarrow> string" where
  "derive_pack_run_id tenant_id request_id =
     ''run_'' @ sha256 (dumps True (JArr [JStr ''agentpact-agent-run/v1'', JStr tenant_id, JStr request_id]))"

section \<open>The runtime registry\<close>

text \<open>
  An adapter is its binding with an opaque implementation. The dicts of the registry are
  association lists; a trusted reference is keyed by the pack identity or by the pack id alone.
  \<open>rr_clock\<close> says whether the registry has a clock; its reading is an argument of each call.
\<close>

record 'i runtime_adapter =
  ra_binding :: pack_runtime_binding
  ra_implementation :: 'i

record 'i runtime_registry =
  rr_contracts :: "((string \<times> string) \<times> pack_runtime_contract) list"
  rr_adapters :: "((string \<times> string) \<times> 'i runtime_adapter) list"
  rr_installations :: "((string \<times> string \<times> string) \<times> domain_pack_installation) list"
  rr_trusted_adapter_refs :: "((string \<times> string) + string) \<Rightarrow> string option"
  rr_now :: "time option"
  rr_clock :: bool

definition effective_now :: "'i runtime_registry \<Rightarrow> time \<Rightarrow> time option \<Rightarrow> time option" where
  "effective_now r reading now =
     (case now of Some t \<Rightarrow> Some t | None \<Rightarrow> if rr_clock r then Some reading else rr_now r)"

definition current_at :: "time option \<Rightarrow> domain_pack_installation \<Rightarrow> bool" where
  "current_at t i =
     (case t of None \<Rightarrow> True | Some n \<Rightarrow> in_accepted_at i \<le> n \<and> n < in_expires_at i)"

definition contract_key :: "pack_runtime_contract \<Rightarrow> string \<times> string" where
  "contract_key c = (kc_pack_id c, kc_pack_version c)"

definition binding_key :: "pack_runtime_binding \<Rightarrow> string \<times> string" where
  "binding_key b = (rb_pack_id b, rb_pack_version b)"

definition expected_adapter_ref :: "'i runtime_registry \<Rightarrow> string \<times> string \<Rightarrow> string option" where
  "expected_adapter_ref r k =
     (case rr_trusted_adapter_refs r (Inl k) of
        Some a \<Rightarrow> Some a | None \<Rightarrow> rr_trusted_adapter_refs r (Inr (fst k)))"

definition installation_key :: "domain_pack_installation \<Rightarrow> string \<times> string \<times> string" where
  "installation_key i = (in_tenant_id i, in_pack_id i, in_pack_version i)"

definition bind_installation ::
  "time \<Rightarrow> time option \<Rightarrow> domain_pack_installation \<Rightarrow> 'i runtime_registry \<Rightarrow> 'i runtime_registry res" where
  "bind_installation reading now i r =
     checks
       [(in_status i \<noteq> Installation_ACCEPTED,
         Exc ValueError ''Only accepted Domain Pack installations may bind a runtime''),
        (in_tenant_id i = [] \<or> in_pack_id i = [] \<or> in_pack_version i = [],
         Exc ValueError ''Domain Pack installation must carry tenant, Pack, and version identity''),
        (\<not> current_at (effective_now r reading now) i,
         Exc ValueError ''Accepted Domain Pack installation is stale'')]
       (case map_of (rr_contracts r) (installation_identity i) of
          None \<Rightarrow> Raise ValueError ''Domain Pack installation has no matching runtime contract''
        | Some c \<Rightarrow> checks
           [(in_contract_digest i \<noteq> kc_manifest_digest c,
             Exc ValueError ''Domain Pack installation digest does not match its runtime contract''),
            (expected_adapter_ref r (installation_identity i) \<noteq> Some (in_adapter_ref i),
             Exc ValueError ''Domain Pack installation adapter reference is not trusted''),
            (in_enabled_capability_ids i = [] \<or> \<not> distinct (in_enabled_capability_ids i) \<or>
               \<not> set (in_enabled_capability_ids i) \<subseteq> set (kc_capability_ids c),
             Exc ValueError ''Domain Pack installation capabilities do not resolve to its runtime contract''),
            (map_of (rr_installations r) (installation_key i) \<notin> {None, Some i},
             Exc ValueError ''A tenant already has a different installation for this Pack version'')]
           (Ok (r\<lparr>rr_installations := AList.update (installation_key i) i (rr_installations r)\<rparr>)))"

definition duplicate_runtime_contract :: "string \<times> string \<Rightarrow> exn" where
  "duplicate_runtime_contract k =
     Exc ValueError (''A runtime contract is already registered for '' @ at_version k)"

definition runtime_registry_of ::
  "pack_runtime_contract list \<Rightarrow> domain_pack_installation list \<Rightarrow>
   (((string \<times> string) + string) \<Rightarrow> string option) option \<Rightarrow> time option \<Rightarrow> bool \<Rightarrow> time \<Rightarrow>
   'i runtime_registry res" where
  "runtime_registry_of contracts installations trusted now has_clock reading =
     res_bind (register_all (dict_register contract_key duplicate_runtime_contract) contracts []) (\<lambda>d.
       if installations \<noteq> [] \<and> trusted = None
       then Raise ValueError ''Tenant-scoped runtime registry requires trusted adapter references''
       else register_all (bind_installation reading now) installations
         \<lparr>rr_contracts = d, rr_adapters = [], rr_installations = [],
          rr_trusted_adapter_refs = (case trusted of None \<Rightarrow> Map.empty | Some m \<Rightarrow> m), rr_now = now,
          rr_clock = (now = None \<or> has_clock)\<rparr>)"

definition from_active_domain_pack_set ::
  "active_domain_pack_set \<Rightarrow> pack_runtime_contract list \<Rightarrow> time option \<Rightarrow> time \<Rightarrow> 'i runtime_registry res" where
  "from_active_domain_pack_set active contracts now reading =
     (if ad_installations active = []
      then Raise LookupError
        ''Cannot create a runtime registry without an accepted Domain Pack installation''
      else runtime_registry_of contracts (ad_installations active)
        (Some (\<lambda>k. case k of Inr _ \<Rightarrow> None
           | Inl i \<Rightarrow> map_of (rev (map (\<lambda>(p, v, a). ((p, v), a)) (ad_trusted_adapter_refs active))) i))
        (case now of None \<Rightarrow> ad_validated_at active | Some t \<Rightarrow> Some t) True reading)"

definition tenant_scoped :: "'i runtime_registry \<Rightarrow> bool" where
  "tenant_scoped r = (rr_installations r \<noteq> [])"

definition validate_binding :: "pack_runtime_binding \<Rightarrow> 'i runtime_registry \<Rightarrow> unit res" where
  "validate_binding b r =
     (case map_of (rr_contracts r) (binding_key b) of
        None \<Rightarrow> Raise LookupError ''No runtime contract matches the Pack binding''
      | Some c \<Rightarrow> checks
          [(sorted_ids (rb_capability_ids b) \<noteq> sorted_ids (kc_capability_ids c),
            Exc LookupError ''Runtime binding capabilities do not match the Pack runtime contract''),
           (rb_adapter_id b \<noteq> kc_adapter_id c,
            Exc LookupError ''Runtime binding adapter identity does not match the Pack runtime contract'')]
          (Ok ()))"

definition register_adapter ::
  "time \<Rightarrow> time option \<Rightarrow> domain_pack_installation option \<Rightarrow> 'i runtime_adapter \<Rightarrow> 'i runtime_registry \<Rightarrow>
   'i runtime_registry res" where
  "register_adapter reading now installation a r =
     (let b = ra_binding a; k = binding_key b
      in case map_of (rr_contracts r) k of
           None \<Rightarrow> Raise ValueError ''Runtime adapter does not match an installed Pack runtime contract''
         | Some c \<Rightarrow> checks
             [(\<not> distinct (rb_capability_ids b) \<or>
               sorted_ids (rb_capability_ids b) \<noteq> sorted_ids (kc_capability_ids c),
               Exc ValueError ''Runtime adapter capabilities do not exactly match the Pack runtime contract''),
              (rb_adapter_id b \<noteq> kc_adapter_id c,
               Exc ValueError ''Runtime adapter identity does not match the Pack runtime contract''),
              (map_of (rr_adapters r) k \<noteq> None,
               Exc ValueError ''A runtime adapter is already registered for this Pack version''),
              (rr_installations r \<noteq> [] \<and> installation = None,
               Exc ValueError ''Tenant-scoped runtime registration requires an explicit installation'')]
             (res_bind (case installation of
                   None \<Rightarrow> Ok r
                 | Some i \<Rightarrow>
                     if installation_identity i \<noteq> k
                     then Raise ValueError
                       ''Runtime adapter identity does not match the Domain Pack installation''
                     else bind_installation reading now i r)
               (\<lambda>r'. Ok (r'\<lparr>rr_adapters := rr_adapters r' @ [(k, a)]\<rparr>))))"

section \<open>Resolving adapters\<close>

definition require_registered :: "string \<times> string \<Rightarrow> 'i runtime_registry \<Rightarrow> 'i runtime_adapter res" where
  "require_registered k r =
     dict_require (\<lambda>_. Exc LookupError ''No conformant runtime adapter is registered for this Pack version'')
       k (rr_adapters r)"

definition require_adapter :: "string \<times> string \<Rightarrow> 'i runtime_registry \<Rightarrow> 'i runtime_adapter res" where
  "require_adapter k r =
     (if tenant_scoped r
      then Raise LookupError ''Tenant-scoped runtime lookup is required for an installed Pack''
      else require_registered k r)"

definition require_binding :: "pack_runtime_binding \<Rightarrow> 'i runtime_registry \<Rightarrow> 'i runtime_adapter res" where
  "require_binding b r =
     (if tenant_scoped r
      then Raise LookupError ''Tenant-scoped runtime lookup requires an explicit tenant installation''
      else res_bind (require_registered (binding_key b) r) (\<lambda>a.
        if ra_binding a \<noteq> b
        then Raise LookupError ''No conformant runtime adapter matches the exact Pack binding'' else Ok a))"

definition require_for_tenant ::
  "time \<Rightarrow> time option \<Rightarrow> string \<Rightarrow> string \<times> string \<Rightarrow> string list option \<Rightarrow> string option \<Rightarrow>
   'i runtime_registry \<Rightarrow> 'i runtime_adapter res" where
  "require_for_tenant reading now tenant k capability_ids adapter_id r =
     (case map_of (rr_installations r) (tenant, k) of
        None \<Rightarrow> Raise LookupError (''No active Domain Pack installation matches '' @ tenant @ '':'' @ at_version k)
      | Some i \<Rightarrow> checks
          [(\<not> current_at (effective_now r reading now) i, Exc LookupError ''Domain Pack installation is stale''),
           (case capability_ids of None \<Rightarrow> False
              | Some cs \<Rightarrow> \<not> set cs \<subseteq> set (in_enabled_capability_ids i),
            Exc LookupError ''Requested capabilities are not enabled by the active Domain Pack installation'')]
          (res_bind (require_registered k r) (\<lambda>a.
            if adapter_id \<noteq> None \<and> Some (rb_adapter_id (ra_binding a)) \<noteq> adapter_id
            then Raise LookupError
              ''Requested adapter identity does not match the active Domain Pack installation''
            else Ok a)))"

definition resolve_for_execution ::
  "time \<Rightarrow> time option \<Rightarrow> string \<Rightarrow> pack_runtime_binding \<Rightarrow> string list option \<Rightarrow> 'i runtime_registry \<Rightarrow>
   'i runtime_adapter res" where
  "resolve_for_execution reading now tenant b capability_ids r =
     (if rr_installations r = []
      then Raise LookupError ''No active Domain Pack installation is available for execution''
      else case map_of (rr_installations r) (tenant, binding_key b) of
        None \<Rightarrow> Raise LookupError ''No active Domain Pack installation matches the exact runtime binding''
      | Some i \<Rightarrow>
          (let requested = (case capability_ids of None \<Rightarrow> rb_capability_ids b | Some cs \<Rightarrow> cs)
           in checks
             [(\<not> current_at (effective_now r reading now) i, Exc LookupError ''Domain Pack installation is stale''),
              (\<not> set requested \<subseteq> set (in_enabled_capability_ids i) \<or> \<not> set requested \<subseteq> set (rb_capability_ids b),
               Exc LookupError ''Requested capabilities are not enabled by the exact tenant runtime binding'')]
             (res_bind (require_registered (binding_key b) r) (\<lambda>a.
               if ra_binding a \<noteq> b
               then Raise LookupError ''No conformant runtime adapter matches the exact Pack binding''
               else Ok a))))"

record public_metadata =
  pm_pack_id :: string
  pm_pack_version :: string
  pm_display_name :: string

definition contract_metadata :: "string \<times> string \<Rightarrow> 'i runtime_registry \<Rightarrow> public_metadata res" where
  "contract_metadata k r =
     (case map_of (rr_contracts r) k of
        None \<Rightarrow> Raise LookupError ''No installed Pack runtime contract matches this runtime''
      | Some c \<Rightarrow> Ok \<lparr>pm_pack_id = kc_pack_id c, pm_pack_version = kc_pack_version c,
                       pm_display_name = kc_display_name c\<rparr>)"

definition public_metadata_for_tenant ::
  "time \<Rightarrow> string \<Rightarrow> string \<times> string \<Rightarrow> 'i runtime_registry \<Rightarrow> public_metadata res" where
  "public_metadata_for_tenant reading tenant k r =
     res_bind (require_for_tenant reading None tenant k None None r) (\<lambda>_. contract_metadata k r)"

definition unscoped_metadata :: "string \<times> string \<Rightarrow> 'i runtime_registry \<Rightarrow> public_metadata res" where
  "unscoped_metadata k r =
     res_bind (require_registered k r) (\<lambda>_.
       if rr_installations r \<noteq> []
       then Raise LookupError ''Tenant-scoped runtime metadata lookup is required for an installed Pack''
       else contract_metadata k r)"

section \<open>The registry's invariant\<close>

definition runtime_inv :: "'i runtime_registry \<Rightarrow> bool" where
  "runtime_inv r \<longleftrightarrow>
     (\<forall>k c. map_of (rr_contracts r) k = Some c \<longrightarrow> contract_key c = k) \<and>
     (\<forall>k a. map_of (rr_adapters r) k = Some a \<longrightarrow> binding_key (ra_binding a) = k \<and>
        (\<exists>c. map_of (rr_contracts r) k = Some c \<and>
             set (rb_capability_ids (ra_binding a)) = set (kc_capability_ids c) \<and>
             rb_adapter_id (ra_binding a) = kc_adapter_id c)) \<and>
     (\<forall>k i. map_of (rr_installations r) k = Some i \<longrightarrow> installation_key i = k \<and>
        in_status i = Installation_ACCEPTED \<and>
        (\<exists>c. map_of (rr_contracts r) (installation_identity i) = Some c \<and>
             in_contract_digest i = kc_manifest_digest c \<and>
             expected_adapter_ref r (installation_identity i) = Some (in_adapter_ref i) \<and>
             set (in_enabled_capability_ids i) \<subseteq> set (kc_capability_ids c)))"

inductive registry_step :: "'i runtime_registry \<Rightarrow> 'i runtime_registry \<Rightarrow> bool" where
  bind: "bind_installation reading now i r = Ok r' \<Longrightarrow> registry_step r r'"
| register: "register_adapter reading now installation a r = Ok r' \<Longrightarrow> registry_step r r'"

lemma bind_installation_ok:
  assumes "bind_installation reading now i r = Ok r'"
  shows "r' = r\<lparr>rr_installations := AList.update (installation_key i) i (rr_installations r)\<rparr> \<and>
     in_status i = Installation_ACCEPTED \<and>
     (\<exists>c. map_of (rr_contracts r) (installation_identity i) = Some c \<and>
          in_contract_digest i = kc_manifest_digest c \<and>
          expected_adapter_ref r (installation_identity i) = Some (in_adapter_ref i) \<and>
          set (in_enabled_capability_ids i) \<subseteq> set (kc_capability_ids c))"
  using assms unfolding bind_installation_def by (auto split: option.splits if_splits)

lemma expected_adapter_ref_cong:
  "rr_contracts r' = rr_contracts r \<Longrightarrow> rr_trusted_adapter_refs r' = rr_trusted_adapter_refs r \<Longrightarrow>
     expected_adapter_ref r' k = expected_adapter_ref r k"
  by (simp add: expected_adapter_ref_def cong: option.case_cong)

lemma runtime_inv_adapter:
  "runtime_inv r \<Longrightarrow> map_of (rr_adapters r) k = Some a \<Longrightarrow> binding_key (ra_binding a) = k \<and>
     (\<exists>c. map_of (rr_contracts r) k = Some c \<and>
       set (rb_capability_ids (ra_binding a)) = set (kc_capability_ids c) \<and>
       rb_adapter_id (ra_binding a) = kc_adapter_id c)"
  unfolding runtime_inv_def by blast

lemma bind_keeps_inv:
  assumes "bind_installation reading now i r = Ok r'" and "runtime_inv r"
  shows "runtime_inv r'"
proof -
  from bind_installation_ok [OF assms(1)]
  have r': "r' = r\<lparr>rr_installations := AList.update (installation_key i) i (rr_installations r)\<rparr>"
    and i: "in_status i = Installation_ACCEPTED"
      "\<exists>c. map_of (rr_contracts r) (installation_identity i) = Some c \<and>
          in_contract_digest i = kc_manifest_digest c \<and>
          expected_adapter_ref r (installation_identity i) = Some (in_adapter_ref i) \<and>
          set (in_enabled_capability_ids i) \<subseteq> set (kc_capability_ids c)" by blast+
  have same: "rr_contracts r' = rr_contracts r" "rr_adapters r' = rr_adapters r"
    by (simp_all add: r')
  have refs: "expected_adapter_ref r' k = expected_adapter_ref r k" for k
    by (rule expected_adapter_ref_cong) (simp_all add: r')
  have lookup: "map_of (rr_installations r') k = (if k = installation_key i then Some i else map_of (rr_installations r) k)" for k
    by (simp add: r' update_conv')
  from assms(2) i show ?thesis unfolding runtime_inv_def same refs lookup by (auto split: if_splits)
qed

lemma sorted_ids_set: "sorted_ids xs = sorted_ids ys \<Longrightarrow> set xs = set ys"
  unfolding sorted_ids_def by (metis set_sort_by)

lemma register_keeps_inv:
  assumes "register_adapter reading now installation a r = Ok r'" and "runtime_inv r"
  shows "runtime_inv r'"
proof -
  let ?k = "binding_key (ra_binding a)"
  from assms(1) obtain c u where c: "map_of (rr_contracts r) ?k = Some c"
      "set (rb_capability_ids (ra_binding a)) = set (kc_capability_ids c)"
      "rb_adapter_id (ra_binding a) = kc_adapter_id c" "map_of (rr_adapters r) ?k = None"
    and u: "u = r \<or> (\<exists>i. bind_installation reading now i r = Ok u)"
    and r': "r' = u\<lparr>rr_adapters := rr_adapters u @ [(?k, a)]\<rparr>"
    unfolding register_adapter_def Let_def
    by (auto simp: res_bind_ok split: option.splits if_splits dest: sorted_ids_set)
  have inv: "runtime_inv u" using u assms(2) bind_keeps_inv by blast
  have contracts: "rr_contracts u = rr_contracts r" "rr_adapters u = rr_adapters r"
    using u bind_installation_ok by fastforce+
  have same: "rr_contracts r' = rr_contracts u" "rr_installations r' = rr_installations u"
    by (simp_all add: r')
  have refs: "expected_adapter_ref r' k = expected_adapter_ref u k" for k
    by (rule expected_adapter_ref_cong) (simp_all add: r')
  have lookup: "map_of (rr_adapters r') k = Some b \<Longrightarrow>
      (k = ?k \<and> b = a) \<or> map_of (rr_adapters u) k = Some b" for k b
    by (auto simp: r' map_add_def split: option.splits if_splits)
  have adapters: "binding_key (ra_binding b) = k \<and> (\<exists>c. map_of (rr_contracts u) k = Some c \<and>
      set (rb_capability_ids (ra_binding b)) = set (kc_capability_ids c) \<and>
      rb_adapter_id (ra_binding b) = kc_adapter_id c)" if "map_of (rr_adapters r') k = Some b" for k b
    using lookup [OF that]
  proof (elim disjE conjE)
    assume "k = ?k" "b = a"
    with c(1-3) contracts(1) show ?thesis by simp
  qed (rule runtime_inv_adapter [OF inv])
  from inv adapters show ?thesis unfolding runtime_inv_def same refs by blast
qed

lemma registry_step_inv: "registry_step r r' \<Longrightarrow> runtime_inv r \<Longrightarrow> runtime_inv r'"
  by (induction rule: registry_step.induct) (auto intro: bind_keeps_inv register_keeps_inv)

lemma bind_all_inv:
  "register_all (bind_installation reading now) is r = Ok r' \<Longrightarrow> runtime_inv r \<Longrightarrow> runtime_inv r'"
  by (induction "is" arbitrary: r) (auto simp: res_bind_ok intro: bind_keeps_inv)

interpretation contract_index: registry contract_key "[]"
  "dict_register contract_key duplicate_runtime_contract" "dict_require (duplicate_label ''missing'')"
  by (rule dict_registry)

lemma runtime_registry_inv:
  assumes "runtime_registry_of contracts installations trusted now has_clock reading = Ok r"
  shows "runtime_inv r"
proof -
  from assms obtain d where d: "register_all (dict_register contract_key duplicate_runtime_contract) contracts [] = Ok d"
    and bound: "register_all (bind_installation reading now) installations
         \<lparr>rr_contracts = d, rr_adapters = [], rr_installations = [],
          rr_trusted_adapter_refs = (case trusted of None \<Rightarrow> Map.empty | Some m \<Rightarrow> m), rr_now = now,
          rr_clock = (now = None \<or> has_clock)\<rparr> = Ok r"
    unfolding runtime_registry_of_def by (auto simp: res_bind_ok split: if_splits)
  have "contract_key c = k" if "map_of d k = Some c" for k c
    using contract_index.resolve_build [OF d, of k c] that by (simp add: dict_require_def)
  then show ?thesis by (intro bind_all_inv [OF bound]) (simp add: runtime_inv_def)
qed

section \<open>Properties\<close>


text \<open>The witness: one contract, one installation of it and one adapter, registered and resolved at time 5.\<close>

definition sample_runtime_contract :: pack_runtime_contract where
  "sample_runtime_contract = \<lparr>kc_pack_id = ''pk'', kc_pack_version = ''1'', kc_display_name = ''Pack'',
     kc_capability_ids = [''c''], kc_adapter_id = ''ad'', kc_manifest_digest = ''d''\<rparr>"

definition sample_runtime_installation :: domain_pack_installation where
  "sample_runtime_installation =
     sample_installation\<lparr>in_contract_digest := ''d'', in_enabled_capability_ids := [''c'']\<rparr>"

definition sample_adapter :: "unit runtime_adapter" where
  "sample_adapter = \<lparr>ra_binding = \<lparr>rb_pack_id = ''pk'', rb_pack_version = ''1'',
     rb_capability_ids = [''c''], rb_adapter_id = ''ad''\<rparr>, ra_implementation = ()\<rparr>"

definition sample_trusted :: "((string \<times> string) + string) \<Rightarrow> string option" where
  "sample_trusted = (\<lambda>k. Some (in_adapter_ref sample_installation))"

definition sample_registry :: "unit runtime_registry" where
  "sample_registry =
     \<lparr>rr_contracts = [((''pk'', ''1''), sample_runtime_contract)], rr_adapters = [],
      rr_installations = [((''org'', ''pk'', ''1''), sample_runtime_installation)],
      rr_trusted_adapter_refs = sample_trusted, rr_now = None, rr_clock = True\<rparr>"

lemma sample_registry_built:
  "runtime_registry_of [sample_runtime_contract] [sample_runtime_installation] (Some sample_trusted) None True 5 =
     Ok sample_registry"
  by (simp add: runtime_registry_of_def sample_registry_def dict_register_def contract_key_def
      bind_installation_def sample_runtime_contract_def sample_runtime_installation_def sample_installation_def
      current_at_def effective_now_def installation_identity_def expected_adapter_ref_def sample_trusted_def
      installation_key_def)

lemma sample_registered:
  "register_adapter 5 None (Some sample_runtime_installation) sample_adapter sample_registry =
     Ok (sample_registry\<lparr>rr_adapters := [((''pk'', ''1''), sample_adapter)]\<rparr>)"
  by (simp add: register_adapter_def Let_def sample_adapter_def sample_registry_def binding_key_def
      bind_installation_def sample_runtime_contract_def sample_runtime_installation_def sample_installation_def
      current_at_def effective_now_def installation_identity_def expected_adapter_ref_def sample_trusted_def
      installation_key_def)

lemma sample_resolved:
  "resolve_for_execution 5 None ''org'' (ra_binding sample_adapter) None
     (sample_registry\<lparr>rr_adapters := [((''pk'', ''1''), sample_adapter)]\<rparr>) = Ok sample_adapter"
  by (simp add: resolve_for_execution_def sample_adapter_def sample_registry_def binding_key_def
      sample_runtime_installation_def sample_installation_def current_at_def effective_now_def
      require_registered_def dict_require_def)


text \<open>
  The rule a result of \<open>advance\<close> keeps: what it carries fits its status, and the step it names is the
  one of its approval or of its checkpoint.
\<close>

fun advance_closed :: "pack_advance_result \<Rightarrow> bool" where
  "advance_closed r =
     (case av_status r of
        Advance_COMPLETED \<Rightarrow> av_approval r = None \<and> av_execution_checkpoint r = None
      | Advance_FAILED \<Rightarrow>
          av_approval r = None \<and> av_execution_checkpoint r = None \<and> av_reason_code r \<noteq> None
      | Advance_AWAITING_APPROVAL \<Rightarrow>
          av_execution_checkpoint r = None \<and> av_reason_code r \<noteq> None \<and> av_step_id r \<noteq> None \<and>
          map_option as_step_id (av_approval r) = av_step_id r
      | Advance_PENDING_RESULT_PROBE \<Rightarrow>
          av_approval r = None \<and> av_reason_code r \<noteq> None \<and> av_step_id r \<noteq> None \<and>
          map_option ck_step_id (av_execution_checkpoint r) = av_step_id r \<and>
          map_option attempt_unknown (av_execution_checkpoint r) = Some True)"

lemma post_init_advance_cases:
  "(advance_closed r \<and> post_init_advance r = Ok r) \<or>
   (\<not> advance_closed r \<and> (\<exists>m. post_init_advance r = Raise ValueError m))"
  by (cases "av_status r"; cases "av_approval r"; cases "av_execution_checkpoint r")
    (auto simp: post_init_advance_def Let_def)

text \<open>
  Whatever a pack hands back, the platform either accepts it unchanged or
  fails with a pack lifecycle error. It accepts an advance result exactly when it parses, belongs to
  the run that was advanced and carries an approval, a checkpoint or a reason exactly as its status
  demands; a checkpoint is one of an UNKNOWN attempt. It accepts a probe result exactly when it parses
  and its UNKNOWN checkpoint is the task, step, permit and attempt that were probed.
\<close>

theorem pack_results_closed:
  "(case validate_pack_advance_result parse v run of
     Inl e \<Rightarrow> exc_of e = PackLifecycleError \<and> \<not> (\<exists>r. parse v = Some r \<and> av_run_id r = run \<and> advance_closed r)
   | Inr r \<Rightarrow> parse v = Some r \<and> av_run_id r = run \<and> advance_closed r) \<and>
   (case validate_pack_probe_result parse' w run task step permit attempt of
     Inl e \<Rightarrow> exc_of e = PackLifecycleError \<and> \<not> (\<exists>r. parse' w = Some r \<and> attempt_unknown (pb_checkpoint r) \<and>
        ck_task_id (pb_checkpoint r) = task \<and> ck_step_id (pb_checkpoint r) = step \<and>
        ck_permit_id (pb_checkpoint r) = permit \<and> ck_attempt_id (pb_checkpoint r) = attempt \<and> run \<noteq> [])
   | Inr r \<Rightarrow> parse' w = Some r \<and> attempt_unknown (pb_checkpoint r) \<and>
        ck_task_id (pb_checkpoint r) = task \<and> ck_step_id (pb_checkpoint r) = step \<and>
        ck_permit_id (pb_checkpoint r) = permit \<and> ck_attempt_id (pb_checkpoint r) = attempt \<and> run \<noteq> [])"
proof (rule conjI)
  show "case validate_pack_advance_result parse v run of
     Inl e \<Rightarrow> exc_of e = PackLifecycleError \<and> \<not> (\<exists>r. parse v = Some r \<and> av_run_id r = run \<and> advance_closed r)
   | Inr r \<Rightarrow> parse v = Some r \<and> av_run_id r = run \<and> advance_closed r"
  proof (cases "parse v")
    case (Some r)
    then show ?thesis
      using post_init_advance_cases [of r]
      by (auto simp del: advance_closed.simps
          simp: validate_pack_advance_result_def model_validate_def is_value_error_def)
  qed (simp add: validate_pack_advance_result_def model_validate_def)
  show "case validate_pack_probe_result parse' w run task step permit attempt of
     Inl e \<Rightarrow> exc_of e = PackLifecycleError \<and> \<not> (\<exists>r. parse' w = Some r \<and> attempt_unknown (pb_checkpoint r) \<and>
        ck_task_id (pb_checkpoint r) = task \<and> ck_step_id (pb_checkpoint r) = step \<and>
        ck_permit_id (pb_checkpoint r) = permit \<and> ck_attempt_id (pb_checkpoint r) = attempt \<and> run \<noteq> [])
   | Inr r \<Rightarrow> parse' w = Some r \<and> attempt_unknown (pb_checkpoint r) \<and>
        ck_task_id (pb_checkpoint r) = task \<and> ck_step_id (pb_checkpoint r) = step \<and>
        ck_permit_id (pb_checkpoint r) = permit \<and> ck_attempt_id (pb_checkpoint r) = attempt \<and> run \<noteq> []"
    by (cases "parse' w")
      (auto simp: validate_pack_probe_result_def model_validate_def post_init_probe_def Let_def
        is_value_error_def)
qed

end
