(* ===== verification/Journal.thy ===== *)
theory Journal
  imports Store WorkOrders "HOL-Library.Monad_Syntax"
begin

text \<open>
  \<open>enterprise/agent_runs/journal.py\<close> and the snapshots of \<open>enterprise/agent_runs/persistence.py\<close>:
  the checkpoints of an agent run, the digest chain of its events, replaying the chain and appending
  to it. An event is stored as the JSON document of one audit row; \<open>decode_event\<close> reads the
  documents the code writes (pydantic would also coerce other spellings of a number or a date).
  The native store is an interface, locale \<open>native_store\<close>.
\<close>

section \<open>States and transitions\<close>

datatype plan_run_state =
    Run_ACTIVE | Run_APPROVAL_REQUIRED | Run_REPLAN_REQUIRED | Run_PROBE_BLOCKED
  | Run_REAUTHORIZATION_REQUIRED | Run_COMPLETED | Run_REJECTED | Run_CANCELLED | Run_FAILED

fun run_state_value :: "plan_run_state \<Rightarrow> string" where
  "run_state_value Run_ACTIVE = ''active''"
| "run_state_value Run_APPROVAL_REQUIRED = ''approval_required''"
| "run_state_value Run_REPLAN_REQUIRED = ''replan_required''"
| "run_state_value Run_PROBE_BLOCKED = ''probe_blocked''"
| "run_state_value Run_REAUTHORIZATION_REQUIRED = ''reauthorization_required''"
| "run_state_value Run_COMPLETED = ''completed''"
| "run_state_value Run_REJECTED = ''rejected''"
| "run_state_value Run_CANCELLED = ''cancelled''"
| "run_state_value Run_FAILED = ''failed''"

definition all_run_states :: "plan_run_state list" where
  "all_run_states = [Run_ACTIVE, Run_APPROVAL_REQUIRED, Run_REPLAN_REQUIRED, Run_PROBE_BLOCKED,
     Run_REAUTHORIZATION_REQUIRED, Run_COMPLETED, Run_REJECTED, Run_CANCELLED, Run_FAILED]"

datatype plan_step_state =
    Ref_PENDING | Ref_ACTIVE | Ref_COMPLETED | Ref_SUPERSEDED | Ref_PROBE_BLOCKED | Ref_FAILED

fun ref_state_value :: "plan_step_state \<Rightarrow> string" where
  "ref_state_value Ref_PENDING = ''pending''"
| "ref_state_value Ref_ACTIVE = ''active''"
| "ref_state_value Ref_COMPLETED = ''completed''"
| "ref_state_value Ref_SUPERSEDED = ''superseded''"
| "ref_state_value Ref_PROBE_BLOCKED = ''probe_blocked''"
| "ref_state_value Ref_FAILED = ''failed''"

definition all_ref_states :: "plan_step_state list" where
  "all_ref_states =
     [Ref_PENDING, Ref_ACTIVE, Ref_COMPLETED, Ref_SUPERSEDED, Ref_PROBE_BLOCKED, Ref_FAILED]"

datatype plan_transition =
    Tr_ADMITTED | Tr_CHILD_ACTIVATED | Tr_CHILD_COMPLETED | Tr_REPLAN_REQUIRED | Tr_PROBE_BLOCKED
  | Tr_PROBE_RESOLVED | Tr_SUFFIX_SUPERSEDED | Tr_PLAN_COMPLETED | Tr_REAUTHORIZATION_REQUIRED
  | Tr_APPROVAL_REQUIRED | Tr_APPROVAL_RESUMED | Tr_APPROVAL_REJECTED | Tr_RUN_CANCELLED

fun transition_value :: "plan_transition \<Rightarrow> string" where
  "transition_value Tr_ADMITTED = ''admitted''"
| "transition_value Tr_CHILD_ACTIVATED = ''child_activated''"
| "transition_value Tr_CHILD_COMPLETED = ''child_completed''"
| "transition_value Tr_REPLAN_REQUIRED = ''replan_required''"
| "transition_value Tr_PROBE_BLOCKED = ''probe_blocked''"
| "transition_value Tr_PROBE_RESOLVED = ''probe_resolved''"
| "transition_value Tr_SUFFIX_SUPERSEDED = ''suffix_superseded''"
| "transition_value Tr_PLAN_COMPLETED = ''plan_completed''"
| "transition_value Tr_REAUTHORIZATION_REQUIRED = ''reauthorization_required''"
| "transition_value Tr_APPROVAL_REQUIRED = ''approval_required''"
| "transition_value Tr_APPROVAL_RESUMED = ''approval_resumed''"
| "transition_value Tr_APPROVAL_REJECTED = ''approval_rejected''"
| "transition_value Tr_RUN_CANCELLED = ''run_cancelled''"

definition all_transitions :: "plan_transition list" where
  "all_transitions =
     [Tr_ADMITTED, Tr_CHILD_ACTIVATED, Tr_CHILD_COMPLETED, Tr_REPLAN_REQUIRED, Tr_PROBE_BLOCKED,
      Tr_PROBE_RESOLVED, Tr_SUFFIX_SUPERSEDED, Tr_PLAN_COMPLETED, Tr_REAUTHORIZATION_REQUIRED,
      Tr_APPROVAL_REQUIRED, Tr_APPROVAL_RESUMED, Tr_APPROVAL_REJECTED, Tr_RUN_CANCELLED]"

fun recovery_level_value :: "recovery_level \<Rightarrow> string" where
  "recovery_level_value L0 = ''L0''"
| "recovery_level_value L1 = ''L1''"
| "recovery_level_value L2 = ''L2''"
| "recovery_level_value L3 = ''L3''"
| "recovery_level_value L4 = ''L4''"

text \<open>A \<open>StrEnum\<close> read back from its value.\<close>

definition enum_of :: "('e \<Rightarrow> string) \<Rightarrow> 'e list \<Rightarrow> string \<Rightarrow> 'e option" where
  "enum_of value members s = List.find (\<lambda>e. value e = s) members"

definition terminal_transition :: "plan_transition \<Rightarrow> bool" where
  "terminal_transition t = (t \<in> {Tr_PLAN_COMPLETED, Tr_REAUTHORIZATION_REQUIRED,
     Tr_APPROVAL_REJECTED, Tr_RUN_CANCELLED})"

definition is_plan_application_marker :: "string option \<Rightarrow> bool" where
  "is_plan_application_marker v =
     (v = Some ''agentpact:agent-run:plan:v1'' \<or> v = Some ''agentpact:m8:plan:v1'')"

section \<open>Checkpoints and events\<close>

record plan_step_ref =
  sr_business_plan_step_id :: string
  sr_step_digest :: string
  sr_work_order_id :: string
  sr_work_order_digest :: string
  sr_native_task_id :: string
  sr_native_step_id :: string
  sr_native_contract_id :: string
  sr_authority_contract_id :: string
  sr_state :: plan_step_state
  sr_permit_id :: "string option"
  sr_attempt_id :: "string option"
  sr_probe_ref :: "string option"

record plan_checkpoint =
  cp_plan_run_id :: string
  cp_admission_id :: string
  cp_root_task_id :: string
  cp_plan_id :: string
  cp_plan_version :: int
  cp_authority_contract_id :: string
  cp_completed_prefix :: "plan_step_ref list"
  cp_active_step :: "plan_step_ref option"
  cp_remaining_suffix :: "plan_step_ref list"
  cp_superseded_suffix :: "plan_step_ref list"
  cp_state :: plan_run_state
  cp_replan_count :: int
  cp_max_replans :: int
  cp_journal_sequence :: int
  cp_journal_digest :: string

record plan_event =
  je_event_id :: string
  je_plan_run_id :: string
  je_root_task_id :: string
  je_plan_id :: string
  je_plan_version :: int
  je_sequence :: int
  je_previous_event_digest :: string
  je_event_digest :: string
  je_transition :: plan_transition
  je_recovery_level :: "recovery_level option"
  je_reason :: "string option"
  je_authority_digests :: "(string \<times> string) list"
  je_checkpoint :: plan_checkpoint
  je_created_at :: time

text \<open>The pattern \<open>^[0-9a-f]{64}$\<close> and the bounds of the fields.\<close>

definition hex64 :: "string \<Rightarrow> bool" where
  "hex64 s = (length s = 64 \<and> set s \<subseteq> set ''0123456789abcdef'')"

definition step_ref_valid :: "plan_step_ref \<Rightarrow> bool" where
  "step_ref_valid r = (hex64 (sr_step_digest r) \<and> hex64 (sr_work_order_digest r))"

definition checkpoint_valid :: "plan_checkpoint \<Rightarrow> bool" where
  "checkpoint_valid c =
     (1 \<le> cp_plan_version c \<and> list_all step_ref_valid (cp_completed_prefix c) \<and>
      list_all step_ref_valid (case cp_active_step c of None \<Rightarrow> [] | Some a \<Rightarrow> [a]) \<and>
      list_all step_ref_valid (cp_remaining_suffix c) \<and> list_all step_ref_valid (cp_superseded_suffix c) \<and>
      0 \<le> cp_replan_count c \<and> 0 \<le> cp_max_replans c \<and> cp_max_replans c \<le> 2 \<and>
      0 \<le> cp_journal_sequence c \<and> hex64 (cp_journal_digest c))"

definition event_valid :: "plan_event \<Rightarrow> bool" where
  "event_valid e = (1 \<le> je_sequence e \<and> hex64 (je_previous_event_digest e) \<and>
     hex64 (je_event_digest e) \<and> checkpoint_valid (je_checkpoint e))"

section \<open>Documents\<close>

definition ref_dump :: "plan_step_ref \<Rightarrow> json" where
  "ref_dump r = JObj
     [(''business_plan_step_id'', JStr (sr_business_plan_step_id r)),
      (''step_digest'', JStr (sr_step_digest r)),
      (''work_order_id'', JStr (sr_work_order_id r)),
      (''work_order_digest'', JStr (sr_work_order_digest r)),
      (''native_task_id'', JStr (sr_native_task_id r)),
      (''native_step_id'', JStr (sr_native_step_id r)),
      (''native_contract_id'', JStr (sr_native_contract_id r)),
      (''authority_contract_id'', JStr (sr_authority_contract_id r)),
      (''state'', JStr (ref_state_value (sr_state r))),
      (''permit_id'', jstr_opt (sr_permit_id r)),
      (''attempt_id'', jstr_opt (sr_attempt_id r)),
      (''probe_ref'', jstr_opt (sr_probe_ref r))]"

definition checkpoint_dump :: "plan_checkpoint \<Rightarrow> json" where
  "checkpoint_dump c = JObj
     [(''schema_version'', JStr ''agentpact.plan-checkpoint/v1''),
      (''plan_run_id'', JStr (cp_plan_run_id c)),
      (''admission_id'', JStr (cp_admission_id c)),
      (''root_task_id'', JStr (cp_root_task_id c)),
      (''plan_id'', JStr (cp_plan_id c)),
      (''plan_version'', JInt (cp_plan_version c)),
      (''authority_contract_id'', JStr (cp_authority_contract_id c)),
      (''completed_prefix'', JArr (map ref_dump (cp_completed_prefix c))),
      (''active_step'', (case cp_active_step c of None \<Rightarrow> JNull | Some a \<Rightarrow> ref_dump a)),
      (''remaining_suffix'', JArr (map ref_dump (cp_remaining_suffix c))),
      (''superseded_suffix'', JArr (map ref_dump (cp_superseded_suffix c))),
      (''state'', JStr (run_state_value (cp_state c))),
      (''replan_count'', JInt (cp_replan_count c)),
      (''max_replans'', JInt (cp_max_replans c)),
      (''journal_sequence'', JInt (cp_journal_sequence c)),
      (''journal_digest'', JStr (cp_journal_digest c))]"

definition unsigned_fields :: "plan_event \<Rightarrow> jobject" where
  "unsigned_fields e =
     [(''schema_version'', JStr ''agentpact.plan-journal/v1''),
      (''event_id'', JStr (je_event_id e)),
      (''plan_run_id'', JStr (je_plan_run_id e)),
      (''root_task_id'', JStr (je_root_task_id e)),
      (''plan_id'', JStr (je_plan_id e)),
      (''plan_version'', JInt (je_plan_version e)),
      (''sequence'', JInt (je_sequence e)),
      (''previous_event_digest'', JStr (je_previous_event_digest e)),
      (''transition'', JStr (transition_value (je_transition e))),
      (''recovery_level'', jstr_opt (map_option recovery_level_value (je_recovery_level e))),
      (''reason'', jstr_opt (je_reason e)),
      (''authority_digests'', JObj (map (\<lambda>(k, v). (k, JStr v)) (je_authority_digests e))),
      (''checkpoint'', checkpoint_dump (je_checkpoint e)),
      (''created_at'', JTime (je_created_at e))]"

definition event_dump :: "plan_event \<Rightarrow> json" where
  "event_dump e = JObj (unsigned_fields e @ [(''event_digest'', JStr (je_event_digest e))])"

text \<open>Reading a document back, field by field.\<close>

fun as_str :: "json \<Rightarrow> string option" where
  "as_str (JStr s) = Some s"
| "as_str v = None"

fun as_int :: "json \<Rightarrow> int option" where
  "as_int (JInt i) = Some i"
| "as_int v = None"

fun as_time :: "json \<Rightarrow> time option" where
  "as_time (JTime t) = Some t"
| "as_time v = None"

fun as_optional :: "(json \<Rightarrow> 'a option) \<Rightarrow> json \<Rightarrow> 'a option option" where
  "as_optional f JNull = Some None"
| "as_optional f v = map_option Some (f v)"

definition as_list :: "(json \<Rightarrow> 'a option) \<Rightarrow> json \<Rightarrow> 'a list option" where
  "as_list f v = (case v of JArr vs \<Rightarrow> those (map f vs) | _ \<Rightarrow> None)"

definition as_dict :: "json \<Rightarrow> (string \<times> string) list option" where
  "as_dict v = (case v of
     JObj kvs \<Rightarrow> those (map (\<lambda>(k, w). map_option (\<lambda>s. (k, s)) (as_str w)) kvs) | _ \<Rightarrow> None)"

definition field :: "jobject \<Rightarrow> string \<Rightarrow> (json \<Rightarrow> 'a option) \<Rightarrow> 'a option" where
  "field kvs k f = Option.bind (map_of kvs k) f"

definition decode_ref :: "json \<Rightarrow> plan_step_ref option" where
  "decode_ref v = (case v of JObj kv \<Rightarrow> do {
       bps \<leftarrow> field kv ''business_plan_step_id'' as_str;
       sd \<leftarrow> field kv ''step_digest'' as_str;
       wo \<leftarrow> field kv ''work_order_id'' as_str;
       wd \<leftarrow> field kv ''work_order_digest'' as_str;
       nt \<leftarrow> field kv ''native_task_id'' as_str;
       ns \<leftarrow> field kv ''native_step_id'' as_str;
       nc \<leftarrow> field kv ''native_contract_id'' as_str;
       ac \<leftarrow> field kv ''authority_contract_id'' as_str;
       st \<leftarrow> field kv ''state'' (\<lambda>w. Option.bind (as_str w) (enum_of ref_state_value all_ref_states));
       pm \<leftarrow> field kv ''permit_id'' (as_optional as_str);
       am \<leftarrow> field kv ''attempt_id'' (as_optional as_str);
       pr \<leftarrow> field kv ''probe_ref'' (as_optional as_str);
       Some \<lparr>sr_business_plan_step_id = bps, sr_step_digest = sd, sr_work_order_id = wo,
         sr_work_order_digest = wd, sr_native_task_id = nt, sr_native_step_id = ns,
         sr_native_contract_id = nc, sr_authority_contract_id = ac, sr_state = st,
         sr_permit_id = pm, sr_attempt_id = am, sr_probe_ref = pr\<rparr> }
     | _ \<Rightarrow> None)"

definition decode_checkpoint :: "json \<Rightarrow> plan_checkpoint option" where
  "decode_checkpoint v = (case v of JObj kv \<Rightarrow> do {
       sv \<leftarrow> field kv ''schema_version'' as_str;
       run \<leftarrow> field kv ''plan_run_id'' as_str;
       adm \<leftarrow> field kv ''admission_id'' as_str;
       root \<leftarrow> field kv ''root_task_id'' as_str;
       plan \<leftarrow> field kv ''plan_id'' as_str;
       ver \<leftarrow> field kv ''plan_version'' as_int;
       ac \<leftarrow> field kv ''authority_contract_id'' as_str;
       pre \<leftarrow> field kv ''completed_prefix'' (as_list decode_ref);
       act \<leftarrow> field kv ''active_step'' (as_optional decode_ref);
       rest \<leftarrow> field kv ''remaining_suffix'' (as_list decode_ref);
       old \<leftarrow> field kv ''superseded_suffix'' (as_list decode_ref);
       st \<leftarrow> field kv ''state'' (\<lambda>w. Option.bind (as_str w) (enum_of run_state_value all_run_states));
       rc \<leftarrow> field kv ''replan_count'' as_int;
       mr \<leftarrow> field kv ''max_replans'' as_int;
       sq \<leftarrow> field kv ''journal_sequence'' as_int;
       dg \<leftarrow> field kv ''journal_digest'' as_str;
       if sv = ''agentpact.plan-checkpoint/v1'' then
         Some \<lparr>cp_plan_run_id = run, cp_admission_id = adm, cp_root_task_id = root, cp_plan_id = plan,
           cp_plan_version = ver, cp_authority_contract_id = ac, cp_completed_prefix = pre,
           cp_active_step = act, cp_remaining_suffix = rest, cp_superseded_suffix = old, cp_state = st,
           cp_replan_count = rc, cp_max_replans = mr, cp_journal_sequence = sq, cp_journal_digest = dg\<rparr>
       else None }
     | _ \<Rightarrow> None)"

definition read_event :: "json \<Rightarrow> plan_event option" where
  "read_event v = (case v of JObj kv \<Rightarrow> do {
       sv \<leftarrow> field kv ''schema_version'' as_str;
       eid \<leftarrow> field kv ''event_id'' as_str;
       run \<leftarrow> field kv ''plan_run_id'' as_str;
       root \<leftarrow> field kv ''root_task_id'' as_str;
       plan \<leftarrow> field kv ''plan_id'' as_str;
       ver \<leftarrow> field kv ''plan_version'' as_int;
       sq \<leftarrow> field kv ''sequence'' as_int;
       pd \<leftarrow> field kv ''previous_event_digest'' as_str;
       ed \<leftarrow> field kv ''event_digest'' as_str;
       tr \<leftarrow> field kv ''transition'' (\<lambda>w. Option.bind (as_str w) (enum_of transition_value all_transitions));
       rl \<leftarrow> field kv ''recovery_level'' (as_optional (\<lambda>w. Option.bind (as_str w)
               (enum_of recovery_level_value [L0, L1, L2, L3, L4])));
       rs \<leftarrow> field kv ''reason'' (as_optional as_str);
       ad \<leftarrow> field kv ''authority_digests'' as_dict;
       cp \<leftarrow> field kv ''checkpoint'' decode_checkpoint;
       tm \<leftarrow> field kv ''created_at'' as_time;
       if sv = ''agentpact.plan-journal/v1'' then
         Some \<lparr>je_event_id = eid, je_plan_run_id = run, je_root_task_id = root, je_plan_id = plan,
           je_plan_version = ver, je_sequence = sq, je_previous_event_digest = pd, je_event_digest = ed,
           je_transition = tr, je_recovery_level = rl, je_reason = rs, je_authority_digests = ad,
           je_checkpoint = cp, je_created_at = tm\<rparr>
       else None }
     | _ \<Rightarrow> None)"

definition decode_event :: "json \<Rightarrow> plan_event res" where
  "decode_event v = (case read_event v of
     None \<Rightarrow> Raise ValueError ''validation error for PlanJournalEvent''
   | Some e \<Rightarrow> if event_valid e then Ok e else Raise ValueError ''validation error for PlanJournalEvent'')"

section \<open>Identities and digests\<close>

text \<open>\<open>_digest\<close>: \<open>json.dumps(value, ensure_ascii=True, sort_keys=True, ...)\<close>.\<close>

definition json_digest :: "json \<Rightarrow> string" where
  "json_digest v = sha256 (dumps True v)"

definition stable_id :: "string \<Rightarrow> string \<Rightarrow> string" where
  "stable_id seed kind = ''agent_run_'' @ sha256 (''agentpact-agent-run|'' @ seed @ ''|'' @ kind)"

definition legacy_stable_id :: "string \<Rightarrow> string \<Rightarrow> string" where
  "legacy_stable_id seed kind = ''m8_'' @ sha256 (''agentpact-m8|'' @ seed @ ''|'' @ kind)"

definition event_kind :: "int \<Rightarrow> int \<Rightarrow> plan_transition \<Rightarrow> string" where
  "event_kind version sequence transition =
     ''event-v'' @ show_int version @ ''-'' @ show_int sequence @ ''-'' @ transition_value transition"

definition event_digest_of :: "plan_event \<Rightarrow> string" where
  "event_digest_of e = json_digest (JObj (unsigned_fields e))"

definition genesis_digest :: string where
  "genesis_digest = replicate 64 CHR ''0''"

lemma enum_of_ref [simp]: "enum_of ref_state_value all_ref_states (ref_state_value v) = Some v"
  by (cases v) (simp_all add: enum_of_def all_ref_states_def)

lemma enum_of_run [simp]: "enum_of run_state_value all_run_states (run_state_value v) = Some v"
  by (cases v) (simp_all add: enum_of_def all_run_states_def)

lemma enum_of_transition [simp]: "enum_of transition_value all_transitions (transition_value v) = Some v"
  by (cases v) (simp_all add: enum_of_def all_transitions_def)

lemma enum_of_level [simp]: "enum_of recovery_level_value [L0, L1, L2, L3, L4] (recovery_level_value v) = Some v"
  by (cases v) (simp_all add: enum_of_def)

lemma those_map_Some: "(\<And>x. x \<in> set xs \<Longrightarrow> f (g x) = Some x) \<Longrightarrow> those (map f (map g xs)) = Some xs"
  by (induction xs) simp_all

lemma as_optional_jstr [simp]: "as_optional as_str (jstr_opt s) = Some s"
  by (cases s) (simp_all add: jstr_opt_def)

lemma as_optional_enum:
  "(\<And>x. f (g x) = Some x) \<Longrightarrow>
     as_optional (\<lambda>w. Option.bind (as_str w) f) (jstr_opt (map_option g v)) = Some v"
  by (cases v) (simp_all add: jstr_opt_def)

lemma decode_ref_dump [simp]: "decode_ref (ref_dump r) = Some r"
  by (simp add: decode_ref_def ref_dump_def field_def)

lemma as_list_dump: "(\<And>x. f (g x) = Some x) \<Longrightarrow> as_list f (JArr (map g xs)) = Some xs"
  unfolding as_list_def by (simp only: json.case) (rule those_map_Some, simp)

lemma as_optional_object: "v = JObj kvs \<Longrightarrow> as_optional f v = map_option Some (f v)"
  by simp

lemma as_optional_ref [simp]:
  "as_optional decode_ref (case a of None \<Rightarrow> JNull | Some r \<Rightarrow> ref_dump r) = Some a"
proof (cases a)
  case (Some r)
  have "as_optional decode_ref (ref_dump r) = map_option Some (decode_ref (ref_dump r))"
    by (rule as_optional_object) (rule ref_dump_def)
  with Some show ?thesis by simp
qed simp

lemma decode_checkpoint_dump [simp]: "decode_checkpoint (checkpoint_dump c) = Some c"
  by (simp add: decode_checkpoint_def checkpoint_dump_def field_def as_list_dump)

lemma as_dict_dump: "as_dict (JObj (map (\<lambda>(k, v). (k, JStr v)) kvs)) = Some kvs"
  unfolding as_dict_def by (simp only: json.case) (rule those_map_Some, auto)

lemma read_event_dump: "read_event (event_dump e) = Some e"
  by (simp add: read_event_def event_dump_def unsigned_fields_def field_def as_dict_dump as_optional_enum)

section \<open>Replaying a journal\<close>

fun expected_states :: "plan_transition \<Rightarrow> plan_run_state set" where
  "expected_states Tr_ADMITTED = {Run_ACTIVE}"
| "expected_states Tr_CHILD_ACTIVATED = {Run_ACTIVE}"
| "expected_states Tr_CHILD_COMPLETED = {Run_ACTIVE}"
| "expected_states Tr_REPLAN_REQUIRED = {Run_REPLAN_REQUIRED}"
| "expected_states Tr_PROBE_BLOCKED = {Run_PROBE_BLOCKED}"
| "expected_states Tr_PROBE_RESOLVED = {Run_ACTIVE, Run_COMPLETED}"
| "expected_states Tr_SUFFIX_SUPERSEDED = {Run_ACTIVE}"
| "expected_states Tr_PLAN_COMPLETED = {Run_COMPLETED}"
| "expected_states Tr_REAUTHORIZATION_REQUIRED = {Run_REAUTHORIZATION_REQUIRED}"
| "expected_states Tr_APPROVAL_REQUIRED = {Run_APPROVAL_REQUIRED}"
| "expected_states Tr_APPROVAL_RESUMED = {Run_ACTIVE}"
| "expected_states Tr_APPROVAL_REJECTED = {Run_REJECTED}"
| "expected_states Tr_RUN_CANCELLED = {Run_CANCELLED}"

abbreviation journal_error :: "string \<Rightarrow> exn" where
  "journal_error m \<equiv> Exc GovernedPlanError m"

definition validate_transition_checkpoint :: "plan_transition \<Rightarrow> plan_checkpoint \<Rightarrow> unit res" where
  "validate_transition_checkpoint t c = checks
     [(cp_state c \<notin> expected_states t,
       journal_error ''Agent Run journal transition disagrees with checkpoint state''),
      (cp_state c = Run_COMPLETED \<and> cp_active_step c \<noteq> None,
       journal_error ''Completed Agent Run retains an active child''),
      (cp_state c \<in> {Run_ACTIVE, Run_APPROVAL_REQUIRED, Run_REPLAN_REQUIRED, Run_PROBE_BLOCKED} \<and>
         cp_active_step c = None,
       journal_error ''Nonterminal Agent Run checkpoint is missing its active child'')]
     (Ok ())"

text \<open>The variables of the loop in \<open>replay_plan_journal\<close>.\<close>

record replay_state =
  rp_previous :: string
  rp_terminal :: bool
  rp_identity :: "(string \<times> string \<times> string) option"
  rp_plan_version :: int
  rp_created_at :: "time option"

definition initial_replay :: replay_state where
  "initial_replay = \<lparr>rp_previous = genesis_digest, rp_terminal = False, rp_identity = None,
     rp_plan_version = 0, rp_created_at = None\<rparr>"

definition root_identity :: "plan_event \<Rightarrow> string \<times> string \<times> string" where
  "root_identity e = (je_plan_run_id e, cp_admission_id (je_checkpoint e), je_root_task_id e)"

definition replay_step :: "int \<Rightarrow> plan_event \<Rightarrow> replay_state \<Rightarrow> replay_state res" where
  "replay_step expected e st =
     (let c = je_checkpoint e; kind = event_kind (je_plan_version e) (je_sequence e) (je_transition e)
      in checks
       [(je_sequence e \<noteq> expected, journal_error ''Agent Run journal contains a sequence gap or reorder''),
        (expected = 1 \<and> je_transition e \<noteq> Tr_ADMITTED,
         journal_error ''Agent Run journal does not begin with admission''),
        (je_previous_event_digest e \<noteq> rp_previous st,
         journal_error ''Agent Run journal digest chain is broken''),
        (je_event_digest e \<noteq> event_digest_of e, journal_error ''Agent Run journal event digest is corrupt''),
        (je_event_id e \<notin> {stable_id (je_plan_run_id e) kind, legacy_stable_id (je_plan_run_id e) kind},
         journal_error ''Agent Run journal event identity is not deterministic''),
        (rp_identity st \<notin> {None, Some (root_identity e)},
         journal_error ''Agent Run journal root identity changed''),
        (cp_plan_run_id c \<noteq> je_plan_run_id e \<or> cp_root_task_id c \<noteq> je_root_task_id e \<or>
         cp_plan_id c \<noteq> je_plan_id e \<or> cp_plan_version c \<noteq> je_plan_version e \<or>
         cp_journal_sequence c \<noteq> je_sequence e \<or> cp_journal_digest c \<noteq> je_previous_event_digest e,
         journal_error ''Agent Run journal event and checkpoint identity disagree''),
        (je_plan_version e < rp_plan_version st \<or> rp_plan_version st + 1 < je_plan_version e,
         journal_error ''Agent Run journal plan version is reordered or contains a gap''),
        (rp_plan_version st \<noteq> 0 \<and> rp_plan_version st < je_plan_version e \<and>
           je_transition e \<noteq> Tr_SUFFIX_SUPERSEDED,
         journal_error ''Agent Run journal plan version changed outside suffix supersession''),
        ((case rp_created_at st of None \<Rightarrow> False | Some t \<Rightarrow> je_created_at e < t),
         journal_error ''Agent Run journal timestamps are reordered'')]
       (res_bind (validate_transition_checkpoint (je_transition e) c) (\<lambda>_.
         if rp_terminal st
         then Raise GovernedPlanError ''Agent Run journal contains a transition after terminal state''
         else Ok \<lparr>rp_previous = je_event_digest e, rp_terminal = terminal_transition (je_transition e),
           rp_identity = (if rp_identity st = None then Some (root_identity e) else rp_identity st),
           rp_plan_version = je_plan_version e, rp_created_at = Some (je_created_at e)\<rparr>)))"

fun replay_from :: "int \<Rightarrow> replay_state \<Rightarrow> plan_event list \<Rightarrow> unit res" where
  "replay_from n st [] = Ok ()"
| "replay_from n st (e # es) = res_bind (replay_step n e st) (\<lambda>st'. replay_from (n + 1) st' es)"

definition after_event :: "plan_event \<Rightarrow> plan_checkpoint" where
  "after_event e =
     (je_checkpoint e)\<lparr>cp_journal_sequence := je_sequence e, cp_journal_digest := je_event_digest e\<rparr>"

definition replay_plan_journal :: "plan_event list \<Rightarrow> plan_checkpoint res" where
  "replay_plan_journal es =
     (if es = [] then Raise GovernedPlanError ''Agent Run journal is empty''
      else res_bind (replay_from 1 initial_replay es) (\<lambda>_. Ok (after_event (last es))))"

section \<open>What a replayed journal is\<close>

text \<open>
  The declarative reading of the loop: each event is sound by itself at its place, and each follows
  its predecessor.
\<close>

definition event_sound :: "plan_event \<Rightarrow> bool" where
  "event_sound e \<longleftrightarrow>
     (let c = je_checkpoint e; kind = event_kind (je_plan_version e) (je_sequence e) (je_transition e)
      in je_event_digest e = event_digest_of e \<and>
         je_event_id e \<in> {stable_id (je_plan_run_id e) kind, legacy_stable_id (je_plan_run_id e) kind} \<and>
         cp_plan_run_id c = je_plan_run_id e \<and> cp_root_task_id c = je_root_task_id e \<and>
         cp_plan_id c = je_plan_id e \<and> cp_plan_version c = je_plan_version e \<and>
         cp_journal_sequence c = je_sequence e \<and> cp_journal_digest c = je_previous_event_digest e \<and>
         validate_transition_checkpoint (je_transition e) c = Ok ())"

definition event_follows :: "plan_event \<Rightarrow> plan_event \<Rightarrow> bool" where
  "event_follows a b \<longleftrightarrow>
     je_previous_event_digest b = je_event_digest a \<and> root_identity b = root_identity a \<and>
     \<not> terminal_transition (je_transition a) \<and> je_created_at a \<le> je_created_at b \<and>
     (je_plan_version b = je_plan_version a \<or>
      je_plan_version b = je_plan_version a + 1 \<and>
        (je_plan_version a = 0 \<or> je_transition b = Tr_SUFFIX_SUPERSEDED))"

definition journal_begins :: "plan_event \<Rightarrow> bool" where
  "journal_begins e \<longleftrightarrow> je_transition e = Tr_ADMITTED \<and> je_previous_event_digest e = genesis_digest \<and>
     je_plan_version e \<in> {0, 1}"

definition journal_chain :: "plan_event list \<Rightarrow> bool" where
  "journal_chain es \<longleftrightarrow> es \<noteq> [] \<and> journal_begins (hd es) \<and>
     map je_sequence es = [1..int (length es)] \<and> (\<forall>e \<in> set es. event_sound e) \<and>
     successively event_follows es"

definition replayed :: "plan_event \<Rightarrow> replay_state" where
  "replayed e = \<lparr>rp_previous = je_event_digest e, rp_terminal = terminal_transition (je_transition e),
     rp_identity = Some (root_identity e), rp_plan_version = je_plan_version e,
     rp_created_at = Some (je_created_at e)\<rparr>"

lemma replay_step_first:
  "replay_step 1 e initial_replay = Ok st \<longleftrightarrow>
     st = replayed e \<and> je_sequence e = 1 \<and> journal_begins e \<and> event_sound e"
  unfolding replay_step_def Let_def checks_ok
  by (auto simp: res_bind_ok initial_replay_def replayed_def journal_begins_def event_sound_def Let_def)

lemma replay_step_next:
  assumes "n \<noteq> 1"
  shows "replay_step n e (replayed a) = Ok st \<longleftrightarrow>
     st = replayed e \<and> je_sequence e = n \<and> event_follows a e \<and> event_sound e"
  unfolding replay_step_def Let_def checks_ok using assms
  by (auto simp: res_bind_ok replayed_def event_follows_def event_sound_def Let_def)

lemma replay_from_next:
  "1 < n \<Longrightarrow> replay_from n (replayed a) es = Ok () \<longleftrightarrow>
     map je_sequence es = [n..n + int (length es) - 1] \<and> (\<forall>e \<in> set es. event_sound e) \<and>
     successively event_follows (a # es)"
proof (induction es arbitrary: n a)
  case (Cons e es)
  have range: "[n..n + int (length (e # es)) - 1] = n # [n + 1..(n + 1) + int (length es) - 1]"
    by (simp add: upto.simps [of n])
  have "replay_from n (replayed a) (e # es) = Ok () \<longleftrightarrow>
      je_sequence e = n \<and> event_follows a e \<and> event_sound e \<and>
      replay_from (n + 1) (replayed e) es = Ok ()"
    using Cons.prems by (auto simp: res_bind_ok replay_step_next)
  also have "\<dots> \<longleftrightarrow> je_sequence e = n \<and> event_follows a e \<and> event_sound e \<and>
      map je_sequence es = [n + 1..(n + 1) + int (length es) - 1] \<and> (\<forall>x \<in> set es. event_sound x) \<and>
      successively event_follows (e # es)"
    using Cons.IH [of "n + 1" e] Cons.prems by simp
  finally show ?case unfolding range by auto
qed simp

lemma replay_ok_iff:
  "replay_plan_journal es = Ok c \<longleftrightarrow> journal_chain es \<and> c = after_event (last es)"
proof (cases es)
  case (Cons e es')
  have range: "[1..int (length (e # es'))] = 1 # [2..2 + int (length es') - 1]"
    by (simp add: upto.simps [of 1])
  have "replay_from 1 initial_replay (e # es') = Ok () \<longleftrightarrow>
      je_sequence e = 1 \<and> journal_begins e \<and> event_sound e \<and> replay_from 2 (replayed e) es' = Ok ()"
    by (auto simp: res_bind_ok replay_step_first)
  also have "\<dots> \<longleftrightarrow> journal_chain (e # es')"
    unfolding journal_chain_def range using replay_from_next [of 2 e es'] by auto
  finally show ?thesis using Cons by (auto simp: replay_plan_journal_def res_bind_ok)
qed (simp add: replay_plan_journal_def journal_chain_def)

lemma validate_transition_raises: "raises_only {GovernedPlanError} (validate_transition_checkpoint t c)"
  unfolding validate_transition_checkpoint_def by (intro raises_only_checks) simp_all

lemma replay_step_raises: "raises_only {GovernedPlanError} (replay_step n e st)"
  unfolding replay_step_def Let_def
  by (intro raises_only_checks raises_only_bind validate_transition_raises) simp_all

lemma replay_from_raises: "raises_only {GovernedPlanError} (replay_from n st es)"
  by (induction es arbitrary: n st) (auto intro: raises_only_bind replay_step_raises)

lemma replay_raises: "raises_only {GovernedPlanError} (replay_plan_journal es)"
  unfolding replay_plan_journal_def by (auto intro: raises_only_bind replay_from_raises)

lemma journal_chain_snoc:
  assumes "journal_chain es"
  shows "journal_chain (es @ [e]) \<longleftrightarrow>
     je_sequence e = je_sequence (last es) + 1 \<and> event_sound e \<and> event_follows (last es) e"
proof -
  have range: "[1..1 + int (length es)] = [1..int (length es)] @ [int (length es) + 1]"
    by (simp add: upto_rec2)
  have "es \<noteq> []" using assms by (simp add: journal_chain_def)
  then have "je_sequence (last es) = last (map je_sequence es)" by (simp add: last_map)
  also have "\<dots> = int (length es)"
    using assms by (cases es rule: rev_cases) (simp_all add: journal_chain_def upto_rec2 add.commute)
  finally have "je_sequence (last es) = int (length es)" .
  with assms show ?thesis
    unfolding journal_chain_def by (auto simp: successively_append_iff range)
qed

section \<open>The native store\<close>

text \<open>\<open>persistence.py\<close>: what the run core sees of native tasks and steps.\<close>

datatype run_task_status = RunTask_UNKNOWN | RunTask task_status

datatype run_step_status = RunStep_UNKNOWN | RunStep step_status

record task_snapshot =
  ts_task_id :: string
  ts_organization_id :: string
  ts_status :: run_task_status
  ts_application :: "string option"
  ts_created_at :: time

record step_snapshot =
  ss_step_id :: string
  ss_task_id :: string
  ss_organization_id :: string
  ss_status :: run_step_status

type_synonym native_pair = "task_snapshot option \<times> step_snapshot option"

text \<open>\<open>GovernanceAuditEventModel\<close>, and the session with its table.\<close>

record audit_row =
  ga_event_id :: string
  ga_task_id :: string
  ga_step_id :: "string option"
  ga_contract_id :: "string option"
  ga_organization_id :: string
  ga_event_type :: string
  ga_mode :: string
  ga_action_fingerprint :: "string option"
  ga_observation_hash :: "string option"
  ga_policy_version :: "string option"
  ga_payload :: json
  ga_created_at :: time

record journal_db = db +
  governance_audit_events :: "audit_row list"

text \<open>\<open>session.add\<close> and \<open>flush\<close> under the primary key.\<close>

definition add_audit_event :: "audit_row \<Rightarrow> ('z journal_db_scheme, unit) prog" where
  "add_audit_event r s =
     (if ga_event_id r \<in> ga_event_id ` set (governance_audit_events s)
      then (Raise IntegrityError ''duplicate key: governance_audit_events'', s)
      else (Ok (), s\<lparr>governance_audit_events := governance_audit_events s @ [r]\<rparr>))"

section \<open>Loading and appending\<close>

definition is_plan_payload :: "json \<Rightarrow> bool" where
  "is_plan_payload v = (case v of JObj kvs \<Rightarrow>
     map_of kvs ''schema_version'' = Some (JStr ''agentpact.plan-journal/v1'') | _ \<Rightarrow> False)"

definition journal_rows :: "string \<Rightarrow> audit_row list \<Rightarrow> audit_row list" where
  "journal_rows rid rows = filter (\<lambda>r. ga_task_id r = rid \<and> is_plan_payload (ga_payload r)) rows"

definition load_events :: "string \<Rightarrow> 'z journal_db_scheme \<Rightarrow> plan_event list res" where
  "load_events rid s =
     res_bind (map_res (decode_event \<circ> ga_payload) (journal_rows rid (governance_audit_events s)))
       (\<lambda>es. Ok (sort_key je_sequence es))"

definition journal_event ::
  "plan_checkpoint \<Rightarrow> plan_transition \<Rightarrow> (string \<times> string) list \<Rightarrow> time \<Rightarrow> recovery_level option \<Rightarrow>
   string option \<Rightarrow> plan_event" where
  "journal_event c t authority_digests created_at recovery_level reason =
     (let sequence = cp_journal_sequence c + 1;
          unsigned =
            \<lparr>je_event_id = stable_id (cp_plan_run_id c) (event_kind (cp_plan_version c) sequence t),
             je_plan_run_id = cp_plan_run_id c, je_root_task_id = cp_root_task_id c,
             je_plan_id = cp_plan_id c, je_plan_version = cp_plan_version c, je_sequence = sequence,
             je_previous_event_digest = cp_journal_digest c, je_event_digest = genesis_digest,
             je_transition = t, je_recovery_level = recovery_level, je_reason = reason,
             je_authority_digests = authority_digests,
             je_checkpoint = c\<lparr>cp_journal_sequence := sequence\<rparr>, je_created_at = created_at\<rparr>
      in unsigned\<lparr>je_event_digest := event_digest_of unsigned\<rparr>)"

definition event_model :: "plan_event \<Rightarrow> string \<Rightarrow> audit_row" where
  "event_model e organization_id =
     \<lparr>ga_event_id = je_event_id e, ga_task_id = je_root_task_id e, ga_step_id = None,
      ga_contract_id = Some (cp_authority_contract_id (je_checkpoint e)),
      ga_organization_id = organization_id,
      ga_event_type = ''agent-run.plan.'' @ transition_value (je_transition e), ga_mode = ''audit'',
      ga_action_fingerprint = None, ga_observation_hash = None, ga_policy_version = None,
      ga_payload = event_dump e, ga_created_at = je_created_at e\<rparr>"

text \<open>\<open>==\<close> of two dicts of strings.\<close>

definition same_dict :: "(string \<times> string) list \<Rightarrow> (string \<times> string) list \<Rightarrow> bool" where
  "same_dict a b = (length a = length b \<and> list_all (\<lambda>(k, v). map_of b k = Some v) a)"

definition appendable :: "plan_transition \<Rightarrow> bool" where
  "appendable t = (t \<in> {Tr_CHILD_COMPLETED, Tr_PLAN_COMPLETED, Tr_PROBE_BLOCKED, Tr_PROBE_RESOLVED,
     Tr_APPROVAL_REQUIRED, Tr_APPROVAL_RESUMED, Tr_APPROVAL_REJECTED, Tr_RUN_CANCELLED})"

text \<open>The retry of an append that committed but whose answer was lost.\<close>

definition already_committed ::
  "plan_event \<Rightarrow> plan_checkpoint \<Rightarrow> plan_transition \<Rightarrow> (string \<times> string) list \<Rightarrow> string \<Rightarrow> bool" where
  "already_committed e c t authority_digests operation_key =
     (je_transition e = t \<and> je_reason e = Some operation_key \<and>
      same_dict (je_authority_digests e) authority_digests \<and>
      je_checkpoint e = c\<lparr>cp_journal_sequence := je_sequence e\<rparr>)"

definition append_agent_run_transition ::
  "(string \<Rightarrow> string \<Rightarrow> 'z journal_db_scheme \<Rightarrow> task_snapshot option) \<Rightarrow>
   (plan_checkpoint \<Rightarrow> plan_transition \<Rightarrow> string \<Rightarrow> 'z journal_db_scheme \<Rightarrow> unit res) \<Rightarrow>
   string \<Rightarrow> plan_checkpoint \<Rightarrow> plan_transition \<Rightarrow> (string \<times> string) list \<Rightarrow> string \<Rightarrow> time \<Rightarrow>
   ('z journal_db_scheme, plan_checkpoint) prog" where
  "append_agent_run_transition get_root verify organization_id c t authority_digests operation_key created_at s =
     (if \<not> appendable t
      then (Raise GovernedPlanError ''Agent Run append received an unsupported transition'', s)
      else case get_root (cp_root_task_id c) organization_id s of
        None \<Rightarrow> (Raise GovernedPlanError ''Agent Run transition root Task is missing or untrusted'', s)
      | Some native \<Rightarrow>
          if \<not> is_plan_application_marker (ts_application native)
          then (Raise GovernedPlanError ''Agent Run transition root Task is missing or untrusted'', s)
          else (case load_events (cp_root_task_id c) s of
            Inl e \<Rightarrow> (Inl e, s)
          | Inr events \<Rightarrow> (case replay_plan_journal events of
              Inl e \<Rightarrow> (Inl e, s)
            | Inr restored \<Rightarrow>
                if cp_journal_sequence restored \<noteq> cp_journal_sequence c \<or>
                   cp_journal_digest restored \<noteq> cp_journal_digest c
                then (if cp_journal_sequence restored = cp_journal_sequence c + 1 \<and>
                         already_committed (last events) c t authority_digests operation_key
                      then (Ok restored, s)
                      else (Raise GovernedPlanError
                        ''Agent Run stale, conflicting, or one-sided transition detected'', s))
                else (case verify c t organization_id s of
                    Inl e \<Rightarrow> (if is_value_error e then Raise GovernedPlanError (message e) else Inl e, s)
                  | Inr _ \<Rightarrow>
                      (let e = journal_event c t authority_digests created_at None (Some operation_key)
                       in prog_bind (add_audit_event (event_model e (ts_organization_id native)))
                            (\<lambda>_ u. (Ok (c\<lparr>cp_journal_sequence := je_sequence e,
                                         cp_journal_digest := je_event_digest e\<rparr>), u)) s)))))"

section \<open>What appending does\<close>

lemma sha256_bytes_bound: "b \<in> set (sha256_bytes m) \<Longrightarrow> b < 256"
proof -
  have byte: "unat (w AND 255) < 256" for w :: u32
  proof -
    have "w AND 255 \<le> 255" by (rule word_and_le1)
    then have "unat (w AND 255) \<le> unat (255 :: u32)" by (simp only: word_le_nat_alt)
    then show ?thesis by simp
  qed
  assume "b \<in> set (sha256_bytes m)"
  then show ?thesis unfolding sha256_bytes_def Let_def using byte by auto
qed

lemma hex_sha256: "hex64 (sha256 s)"
proof -
  have digit: "hex_digit n \<in> set ''0123456789abcdef''" if "n < 16" for n
  proof -
    have "\<forall>k \<in> set [0..<16]. hex_digit k \<in> set ''0123456789abcdef''" by code_simp
    then show ?thesis using that by simp
  qed
  have "set (hexdigest bs) \<subseteq> set ''0123456789abcdef''" if "\<And>b. b \<in> set bs \<Longrightarrow> b < 256" for bs
  proof
    fix c assume "c \<in> set (hexdigest bs)"
    then obtain b where "b \<in> set bs" "c \<in> {hex_digit (b div 16), hex_digit (b mod 16)}"
      by (auto simp: hexdigest_def)
    moreover have "b div 16 < 16" "b mod 16 < 16" using that [OF \<open>b \<in> set bs\<close>] by auto
    ultimately show "c \<in> set ''0123456789abcdef''" using digit by blast
  qed
  then have "set (hexdigest (sha256_bytes (utf8 s))) \<subseteq> set ''0123456789abcdef''"
    using sha256_bytes_bound by blast
  then show ?thesis using length_sha256 [of s] unfolding hex64_def sha256_def by blast
qed

lemma hex_genesis: "hex64 genesis_digest"
  by (simp add: hex64_def genesis_digest_def)

lemma digest_after_update [simp]: "event_digest_of (e\<lparr>je_event_digest := d\<rparr>) = event_digest_of e"
  by (simp add: event_digest_of_def unsigned_fields_def)

lemma journal_event_fields [simp]:
  fixes c :: plan_checkpoint
  shows "je_sequence (journal_event c t ad now l r) = cp_journal_sequence c + 1"
    "je_transition (journal_event c t ad now l r) = t"
    "je_created_at (journal_event c t ad now l r) = now"
    "je_plan_version (journal_event c t ad now l r) = cp_plan_version c"
    "je_previous_event_digest (journal_event c t ad now l r) = cp_journal_digest c"
    "je_plan_run_id (journal_event c t ad now l r) = cp_plan_run_id c"
    "je_root_task_id (journal_event c t ad now l r) = cp_root_task_id c"
    "je_plan_id (journal_event c t ad now l r) = cp_plan_id c"
    "je_checkpoint (journal_event c t ad now l r) = c\<lparr>cp_journal_sequence := cp_journal_sequence c + 1\<rparr>"
    "je_event_id (journal_event c t ad now l r) =
       stable_id (cp_plan_run_id c) (event_kind (cp_plan_version c) (cp_journal_sequence c + 1) t)"
    "je_reason (journal_event c t ad now l r) = r" "je_authority_digests (journal_event c t ad now l r) = ad"
  by (simp_all add: journal_event_def Let_def)

lemma journal_event_digest [simp]:
  "event_digest_of (journal_event c t ad now l r) = je_event_digest (journal_event c t ad now l r)"
  by (simp add: journal_event_def Let_def event_digest_of_def unsigned_fields_def)

lemma journal_event_valid:
  "checkpoint_valid c \<Longrightarrow> event_valid (journal_event c t ad now l r)"
  unfolding event_valid_def journal_event_def Let_def
  by (simp add: checkpoint_valid_def event_digest_of_def json_digest_def hex_sha256)

lemma journal_event_sound:
  "event_sound (journal_event c t ad now l r) \<longleftrightarrow> validate_transition_checkpoint t c = Ok ()"
proof -
  have "validate_transition_checkpoint t (c\<lparr>cp_journal_sequence := n\<rparr>) = validate_transition_checkpoint t c" for n
    by (simp add: validate_transition_checkpoint_def)
  then show ?thesis by (simp add: event_sound_def Let_def)
qed

lemma after_journal_event:
  "after_event (journal_event c t ad now l r) =
     c\<lparr>cp_journal_sequence := cp_journal_sequence c + 1,
       cp_journal_digest := je_event_digest (journal_event c t ad now l r)\<rparr>"
  by (simp add: after_event_def)

lemma insort_key_snoc: "f a \<le> f x \<Longrightarrow> insort_key f a (ys @ [x]) = insort_key f a ys @ [x]"
  for f :: "'a \<Rightarrow> 'b::linorder"
  by (induction ys) auto

lemma sort_key_snoc: "\<forall>y \<in> set xs. f y \<le> f x \<Longrightarrow> sort_key f (xs @ [x]) = sort_key f xs @ [x]"
  for f :: "'a \<Rightarrow> 'b::linorder"
  by (induction xs) (auto simp: insort_key_snoc)

lemma map_res_append:
  "map_res f (xs @ ys) = res_bind (map_res f xs) (\<lambda>us. res_bind (map_res f ys) (\<lambda>vs. Ok (us @ vs)))"
proof (induction xs)
  case (Cons x xs)
  then show ?case by (cases "f x"; cases "map_res f xs"; cases "map_res f ys") simp_all
qed (cases "map_res f ys"; simp)

lemma decode_event_dump: "decode_event (event_dump e) = Ok e \<longleftrightarrow> event_valid e"
  by (simp add: decode_event_def read_event_dump)

lemma plan_payload_dump: "is_plan_payload (event_dump e)"
  by (simp add: is_plan_payload_def event_dump_def unsigned_fields_def)

lemma load_events_ok:
  "load_events rid s = Ok es \<longleftrightarrow>
     (\<exists>xs. map_res (decode_event \<circ> ga_payload) (journal_rows rid (governance_audit_events s)) = Ok xs \<and>
           es = sort_key je_sequence xs)"
  by (auto simp: load_events_def res_bind_ok)

lemma map_res_mem: "map_res f xs = Ok ys \<Longrightarrow> y \<in> set ys \<Longrightarrow> \<exists>x \<in> set xs. f x = Ok y"
  by (induction xs arbitrary: ys) (auto simp: res_bind_ok)

lemma decoded_valid: "decode_event v = Ok e \<Longrightarrow> event_valid e"
  by (auto simp: decode_event_def split: option.splits if_splits)

lemma loaded_valid: "load_events rid s = Ok es \<Longrightarrow> e \<in> set es \<Longrightarrow> event_valid e"
  unfolding load_events_ok by (auto dest!: map_res_mem decoded_valid)

text \<open>A row written for an event becomes the last event of its own journal and of no other.\<close>

lemma load_after_append:
  assumes "load_events rid s = Ok es" and "event_valid e"
    and "\<forall>x \<in> set es. je_sequence x \<le> je_sequence e"
  shows "load_events rid (s\<lparr>governance_audit_events := governance_audit_events s @ [event_model e org]\<rparr>) =
     Ok (if rid = je_root_task_id e then es @ [e] else es)"
proof -
  from assms(1) obtain xs where
      xs: "map_res (decode_event \<circ> ga_payload) (journal_rows rid (governance_audit_events s)) = Ok xs"
      "es = sort_key je_sequence xs" by (auto simp: load_events_ok)
  have rows: "journal_rows rid (governance_audit_events s @ [event_model e org]) =
      journal_rows rid (governance_audit_events s) @ (if rid = je_root_task_id e then [event_model e org] else [])"
    by (simp add: journal_rows_def event_model_def plan_payload_dump)
  have one: "map_res (decode_event \<circ> ga_payload) [event_model e org] = Ok [e]"
    using assms(2) by (simp add: event_model_def decode_event_dump [THEN iffD2])
  show ?thesis
  proof (cases "rid = je_root_task_id e")
    case True
    have "\<forall>x \<in> set xs. je_sequence x \<le> je_sequence e" using assms(3) xs(2) by simp
    then have sorted: "sort_key je_sequence (xs @ [e]) = es @ [e]" by (simp add: sort_key_snoc xs(2))
    have "map_res (decode_event \<circ> ga_payload)
        (journal_rows rid (governance_audit_events s @ [event_model e org])) = Ok (xs @ [e])"
      using rows [unfolded if_P [OF True]] by (simp only: map_res_append xs(1) one res_bind_simps)
    with sorted True show ?thesis by (simp add: load_events_def)
  qed (use assms(1) rows in \<open>simp add: load_events_def\<close>)
qed

text \<open>The native store as the journal uses it.\<close>

locale native_store =
  fixes get_root :: "string \<Rightarrow> string \<Rightarrow> 'z journal_db_scheme \<Rightarrow> task_snapshot option"
    and verify :: "plan_checkpoint \<Rightarrow> plan_transition \<Rightarrow> string \<Rightarrow> 'z journal_db_scheme \<Rightarrow> unit res"
  assumes get_root_identity:
      "get_root run org s = Some native \<Longrightarrow> ts_task_id native = run \<and> ts_organization_id native = org"
    and verify_raises: "raises_only {ValueError} (verify c t org s)"
begin

abbreviation append where
  "append \<equiv> append_agent_run_transition get_root verify"

lemma append_raises:
  assumes "append org c t ad key now s = (Inl e, s')"
  shows "s' = s \<and> exc_of e \<in> {GovernedPlanError, ValueError, IntegrityError}"
proof -
  have verify: "exc_of x = ValueError" if "verify c t org u = Inl x" for u x
    using verify_raises [of c t org u] that by simp
  have load: "exc_of x = ValueError" if "load_events rid u = Inl x" for rid u x
  proof -
    have "raises_only {ValueError} (map_res (decode_event \<circ> ga_payload) rows)" for rows
    proof (induction rows)
      case (Cons r rows)
      then show ?case
        by (auto intro!: raises_only_bind simp: decode_event_def split: option.split)
    qed simp
    then have "raises_only {ValueError} (load_events rid u)"
      unfolding load_events_def by (rule raises_only_bind) simp
    with that show ?thesis by simp
  qed
  have replay: "exc_of x = GovernedPlanError" if "replay_plan_journal es = Inl x" for es x
    using replay_raises [of es] that by simp
  show ?thesis
    using assms unfolding append_agent_run_transition_def Let_def
    by (auto simp: prog_bind_def add_audit_event_def dest: verify load replay
        split: if_splits option.splits sum.splits)
qed

lemma append_cases:
  assumes "append org c t ad key now s = (Ok c', s')"
  obtains es r where "load_events (cp_root_task_id c) s = Ok es" "replay_plan_journal es = Ok r"
      "appendable t" "s' = s" "c' = r" "already_committed (last es) c t ad key"
      "cp_journal_sequence r = cp_journal_sequence c + 1"
    | es r e where "load_events (cp_root_task_id c) s = Ok es" "replay_plan_journal es = Ok r"
      "appendable t" "cp_journal_sequence r = cp_journal_sequence c" "cp_journal_digest r = cp_journal_digest c"
      "verify c t org s = Ok ()" "e = journal_event c t ad now None (Some key)"
      "s' = s\<lparr>governance_audit_events := governance_audit_events s @ [event_model e org]\<rparr>"
      "c' = after_event e"
proof -
  from assms obtain native es r where
      base: "appendable t" "get_root (cp_root_task_id c) org s = Some native"
        "load_events (cp_root_task_id c) s = Ok es" "replay_plan_journal es = Ok r"
    and rest: "(if cp_journal_sequence r \<noteq> cp_journal_sequence c \<or> cp_journal_digest r \<noteq> cp_journal_digest c
         then (if cp_journal_sequence r = cp_journal_sequence c + 1 \<and> already_committed (last es) c t ad key
               then (Ok r, s)
               else (Raise GovernedPlanError
                 ''Agent Run stale, conflicting, or one-sided transition detected'', s))
         else (case verify c t org s of
                 Inl e \<Rightarrow> (if is_value_error e then Raise GovernedPlanError (message e) else Inl e, s)
               | Inr _ \<Rightarrow>
                   (let e = journal_event c t ad now None (Some key)
                    in prog_bind (add_audit_event (event_model e (ts_organization_id native)))
                         (\<lambda>_ u. (Ok (c\<lparr>cp_journal_sequence := je_sequence e,
                                      cp_journal_digest := je_event_digest e\<rparr>), u)) s))) = (Ok c', s')"
    unfolding append_agent_run_transition_def
    by (auto split: if_splits option.splits sum.splits)
  have org: "ts_organization_id native = org" using get_root_identity base(2) by blast
  show thesis
  proof (cases "cp_journal_sequence r \<noteq> cp_journal_sequence c \<or> cp_journal_digest r \<noteq> cp_journal_digest c")
    case True
    with rest base show thesis by (intro that(1) [of es r]) (auto split: if_splits)
  next
    case False
    with rest have v: "verify c t org s = Ok ()" by (cases "verify c t org s") (auto split: if_splits)
    with False rest show thesis
      by (intro that(2) [OF base(3) base(4) base(1) _ _ v refl])
        (auto simp: Let_def prog_bind_def add_audit_event_def after_event_def org split: if_splits)
  qed
qed

text \<open>
  An append extends the loaded journal by its event; the longer journal replays to the returned
  checkpoint exactly when the event may follow the last one and suits its checkpoint.
\<close>

lemma append_extends:
  assumes run: "append org c t ad key now s = (Ok c', s')" and valid: "checkpoint_valid c"
    and load: "load_events (cp_root_task_id c) s = Ok es"
  shows "(s' = s \<and> replay_plan_journal es = Ok c') \<or>
     (\<exists>e. e = journal_event c t ad now None (Some key) \<and> c' = after_event e \<and>
        journal_chain es \<and> load_events (cp_root_task_id c) s' = Ok (es @ [e]) \<and>
        (replay_plan_journal (es @ [e]) = Ok c' \<longleftrightarrow>
           event_follows (last es) e \<and> validate_transition_checkpoint t c = Ok ()))"
  using run
proof (cases rule: append_cases)
  case (1 es' r)
  with load show ?thesis by simp
next
  case (2 es' r e)
  have es: "es' = es" using 2(1) load by simp
  have chain: "journal_chain es" and r: "r = after_event (last es)"
    using 2(2) es by (simp_all add: replay_ok_iff)
  have ne: "es \<noteq> []" using chain by (simp add: journal_chain_def)
  have last: "je_sequence (last es) = cp_journal_sequence c"
    using 2(4) r by (simp add: after_event_def)
  have "je_sequence x \<le> je_sequence (last es)" if "x \<in> set es" for x
  proof -
    have "sorted (map je_sequence es)" using chain by (simp add: journal_chain_def)
    with ne that show ?thesis by (cases es rule: rev_cases) (auto simp: sorted_append)
  qed
  then have "load_events (cp_root_task_id c) s' = Ok (es @ [e])"
    using load_after_append [OF load journal_event_valid [OF valid, of t ad now None "Some key"]]
    unfolding 2(7,8) by (force simp: last)
  moreover have "replay_plan_journal (es @ [e]) = Ok c' \<longleftrightarrow>
      event_follows (last es) e \<and> validate_transition_checkpoint t c = Ok ()"
    unfolding replay_ok_iff journal_chain_snoc [OF chain]
    using 2(7,9) last by (auto simp: journal_event_sound)
  ultimately show ?thesis using 2(7,9) chain by blast
qed

end

section \<open>Properties\<close>

text \<open>
  The audit row written for a journal event reads back as that very
  event exactly when the event's fields are within their bounds, and nothing else ever reads back:
  every event loaded from the table is within them.
\<close>

theorem journal_codec_roundtrip:
  "(decode_event (ga_payload (event_model e org)) = Ok e \<longleftrightarrow> event_valid e) \<and>
   is_plan_payload (ga_payload (event_model e org)) \<and>
   (case decode_event v of Inl x \<Rightarrow> exc_of x = ValueError | Inr d \<Rightarrow> event_valid d)"
proof (intro conjI)
  show "case decode_event v of Inl x \<Rightarrow> exc_of x = ValueError | Inr d \<Rightarrow> event_valid d"
    by (simp add: decode_event_def split: option.split)
qed (simp_all add: event_model_def decode_event_dump plan_payload_dump)

text \<open>
  C31. Replaying a journal succeeds exactly when it is a chain: it begins with
  the admission at the genesis digest, its sequence numbers are one to its length, each event's
  digest, identity and checkpoint are its own, and each event follows its predecessor: the digest
  link, the same run, no earlier terminal event, no earlier time, and a plan version that only a
  suffix supersession raises, by one. The result is the last event's checkpoint; every failure is
  a GovernedPlanError.
\<close>

theorem replay_decides_chain:
  "case replay_plan_journal es of
     Inl e \<Rightarrow> exc_of e = GovernedPlanError \<and> \<not> journal_chain es
   | Inr c \<Rightarrow> journal_chain es \<and> c = after_event (last es)"
proof (cases "replay_plan_journal es")
  case (Inl e)
  then show ?thesis using replay_raises [of es] replay_ok_iff [of es "after_event (last es)"] by simp
next
  case (Inr c)
  then show ?thesis using replay_ok_iff [of es c] by simp
qed

lemma unsigned_fields_inject:
  assumes "unsigned_fields a = unsigned_fields b" and "je_event_digest a = je_event_digest b"
  shows "a = b"
proof -
  have "event_dump a = event_dump b" using assms by (simp add: event_dump_def)
  then show ?thesis using read_event_dump by (metis option.inject)
qed

lemma chain_butlast:
  assumes "journal_chain (xs @ [a])" and "xs \<noteq> []"
  shows "journal_chain xs" "je_previous_event_digest a = je_event_digest (last xs)"
    "je_sequence a = int (length xs) + 1"
proof -
  have "map je_sequence (xs @ [a]) = [1..int (length xs) + 1]"
    using assms(1) by (simp add: journal_chain_def add.commute)
  also have "\<dots> = [1..int (length xs)] @ [int (length xs) + 1]" by (simp add: upto_rec2)
  finally have sequences: "map je_sequence xs = [1..int (length xs)]" "je_sequence a = int (length xs) + 1"
    by simp_all
  then show "je_sequence a = int (length xs) + 1" by simp
  from assms sequences(1) show "journal_chain xs" "je_previous_event_digest a = je_event_digest (last xs)"
    by (auto simp: journal_chain_def successively_append_iff event_follows_def)
qed

lemma chain_length: "journal_chain (xs @ [a]) \<Longrightarrow> je_sequence a = int (length xs) + 1"
  by (cases "xs = []") (simp add: journal_chain_def, rule chain_butlast(3))

text \<open>
  The digest in a checkpoint commits to the whole journal: two journals
  that replay to the same journal digest are equal event by event, or they exhibit two different
  event documents with the same SHA-256 digest.
\<close>

theorem journal_tamper_evident:
  assumes "replay_plan_journal es = Ok c" and "replay_plan_journal es' = Ok c'"
    and "cp_journal_digest c = cp_journal_digest c'"
  shows "es = es' \<or> (\<exists>a \<in> set es. \<exists>b \<in> set es'.
           unsigned_fields a \<noteq> unsigned_fields b \<and> event_digest_of a = event_digest_of b)"
proof -
  have "es = es' \<or> (\<exists>a \<in> set es. \<exists>b \<in> set es'.
      unsigned_fields a \<noteq> unsigned_fields b \<and> event_digest_of a = event_digest_of b)"
    if "journal_chain es" "journal_chain es'" "je_event_digest (last es) = je_event_digest (last es')" for es'
    using that
  proof (induction es arbitrary: es' rule: rev_induct)
    case (snoc a xs)
    then obtain ys b where es': "es' = ys @ [b]" by (cases es' rule: rev_cases) (auto simp: journal_chain_def)
    have "event_sound a" "event_sound b" using snoc.prems es' by (auto simp: journal_chain_def)
    then have digests: "event_digest_of a = event_digest_of b"
      using snoc.prems(3) es' by (simp add: event_sound_def Let_def)
    show ?case
    proof (cases "unsigned_fields a = unsigned_fields b")
      case True
      then have ab: "a = b" using unsigned_fields_inject snoc.prems(3) es' by simp
      then have lengths: "length xs = length ys"
        using chain_length [of xs a] chain_length [of ys b] snoc.prems(1,2) es' by simp
      show ?thesis
      proof (cases "xs = []")
        case False
        then have "ys \<noteq> []" using lengths by auto
        then have "xs = ys \<or> (\<exists>a \<in> set xs. \<exists>b \<in> set ys.
            unsigned_fields a \<noteq> unsigned_fields b \<and> event_digest_of a = event_digest_of b)"
          using snoc.IH [of ys] chain_butlast [of xs a] chain_butlast [of ys b] snoc.prems(1,2) False ab es'
          by simp
        then show ?thesis using ab es' by auto
      qed (use lengths ab es' in simp)
    qed (use digests es' in auto)
  qed (simp add: journal_chain_def)
  with assms show ?thesis by (auto simp: replay_ok_iff after_event_def)
qed

text \<open>A sample run: admitted with one active child and one pending.\<close>

definition sample_ref :: "string \<Rightarrow> plan_step_state \<Rightarrow> plan_step_ref" where
  "sample_ref i st = \<lparr>sr_business_plan_step_id = i, sr_step_digest = genesis_digest, sr_work_order_id = i,
     sr_work_order_digest = genesis_digest, sr_native_task_id = ''task'', sr_native_step_id = i,
     sr_native_contract_id = ''c'', sr_authority_contract_id = ''c'', sr_state = st, sr_permit_id = None,
     sr_attempt_id = None, sr_probe_ref = None\<rparr>"

definition sample_checkpoint :: plan_checkpoint where
  "sample_checkpoint = \<lparr>cp_plan_run_id = ''run'', cp_admission_id = ''adm'', cp_root_task_id = ''root'',
     cp_plan_id = ''plan'', cp_plan_version = 1, cp_authority_contract_id = ''c'', cp_completed_prefix = [],
     cp_active_step = Some (sample_ref ''s1'' Ref_ACTIVE),
     cp_remaining_suffix = [sample_ref ''s2'' Ref_PENDING], cp_superseded_suffix = [], cp_state = Run_ACTIVE,
     cp_replan_count = 0, cp_max_replans = 2, cp_journal_sequence = 0, cp_journal_digest = genesis_digest\<rparr>"

definition admitted_event :: plan_event where
  "admitted_event = journal_event sample_checkpoint Tr_ADMITTED [(''plan'', ''d'')] 1 None None"

lemma sample_checkpoint_valid: "checkpoint_valid sample_checkpoint"
  by (simp add: checkpoint_valid_def sample_checkpoint_def step_ref_valid_def sample_ref_def hex_genesis)

lemma admitted_replays: "replay_plan_journal [admitted_event] = Ok (after_event admitted_event)"
proof -
  have "event_sound admitted_event"
    unfolding admitted_event_def journal_event_sound
    by (simp add: validate_transition_checkpoint_def sample_checkpoint_def)
  then show ?thesis
    unfolding replay_ok_iff journal_chain_def
    by (simp add: journal_begins_def admitted_event_def sample_checkpoint_def)
qed

theorem journal_tamper_evident_witness:
  "replay_plan_journal [admitted_event] = Ok (after_event admitted_event) \<and>
   ([admitted_event] = [admitted_event] \<or> (\<exists>a \<in> {admitted_event}. \<exists>b \<in> {admitted_event}.
      unsigned_fields a \<noteq> unsigned_fields b \<and> event_digest_of a = event_digest_of b))"
  using journal_tamper_evident [OF admitted_replays admitted_replays refl] admitted_replays by simp

end
