(* ===== verification/Coordinator.thy ===== *)
theory Coordinator
  imports Journal PackRuntime
begin

text \<open>
  \<open>enterprise/agent_runs/coordinator.py\<close>: translating the closed results of a pack into the next
  checkpoint of the run and the journal transition that records it.
\<close>

section \<open>Translation\<close>

text \<open>The active step completes and the next one, if any, becomes active.\<close>

definition complete_active :: "plan_checkpoint \<Rightarrow> plan_step_ref \<Rightarrow> plan_checkpoint" where
  "complete_active c active =
     (let remaining = cp_remaining_suffix c;
          next_active = (case remaining of [] \<Rightarrow> None | r # _ \<Rightarrow> Some (r\<lparr>sr_state := Ref_ACTIVE\<rparr>))
      in c\<lparr>cp_completed_prefix := cp_completed_prefix c @ [active\<lparr>sr_state := Ref_COMPLETED\<rparr>],
           cp_active_step := next_active, cp_remaining_suffix := tl remaining,
           cp_state := (if next_active \<noteq> None then Run_ACTIVE else Run_COMPLETED)\<rparr>)"

definition advance_completed ::
  "plan_checkpoint \<Rightarrow> pack_advance_result \<Rightarrow> (plan_checkpoint \<times> plan_transition) option res" where
  "advance_completed c r =
     (if cp_state c = Run_COMPLETED then Ok None
      else case cp_active_step c of
        None \<Rightarrow> Raise GovernedPlanError ''Completed Pack result has no active Agent Run step''
      | Some active \<Rightarrow>
          if av_step_id r \<noteq> Some (sr_native_step_id active)
          then Raise GovernedPlanError ''Completed Pack result does not match the active Agent Run step''
          else let c' = complete_active c active
               in Ok (Some (c', if cp_active_step c' \<noteq> None then Tr_CHILD_COMPLETED else Tr_PLAN_COMPLETED)))"

definition advance_pending ::
  "plan_checkpoint \<Rightarrow> pack_advance_result \<Rightarrow> (plan_checkpoint \<times> plan_transition) option res" where
  "advance_pending c r =
     (case (cp_active_step c, av_execution_checkpoint r) of
        (Some active, Some execution) \<Rightarrow>
          if ck_task_id execution \<noteq> sr_native_task_id active \<or>
             ck_step_id execution \<noteq> sr_native_step_id active \<or>
             (sr_permit_id active \<noteq> None \<and> Some (ck_permit_id execution) \<noteq> sr_permit_id active) \<or>
             (sr_attempt_id active \<noteq> None \<and> Some (ck_attempt_id execution) \<noteq> sr_attempt_id active)
          then Raise GovernedPlanError ''Pack execution checkpoint does not match the active Agent Run step''
          else if cp_state c = Run_PROBE_BLOCKED \<and> sr_attempt_id active = Some (ck_attempt_id execution)
          then Ok None
          else Ok (Some (c\<lparr>cp_state := Run_PROBE_BLOCKED,
                  cp_active_step := Some (active\<lparr>sr_state := Ref_PROBE_BLOCKED,
                    sr_permit_id := Some (ck_permit_id execution),
                    sr_attempt_id := Some (ck_attempt_id execution),
                    sr_probe_ref := Some (ck_result_probe_ref execution)\<rparr>)\<rparr>, Tr_PROBE_BLOCKED))
      | _ \<Rightarrow> Raise GovernedPlanError ''Pending Pack result has no active execution checkpoint'')"

definition coordinator_advance ::
  "plan_checkpoint \<Rightarrow> pack_advance_result \<Rightarrow> (plan_checkpoint \<times> plan_transition) option res" where
  "coordinator_advance c r =
     (if av_run_id r \<noteq> cp_root_task_id c
      then Raise GovernedPlanError ''Pack advance result does not match the Agent Run root''
      else case av_status r of
        Advance_COMPLETED \<Rightarrow> advance_completed c r
      | Advance_PENDING_RESULT_PROBE \<Rightarrow> advance_pending c r
      | _ \<Rightarrow> Ok None)"

definition coordinator_probe ::
  "plan_checkpoint \<Rightarrow> pack_probe_result \<Rightarrow> (plan_checkpoint \<times> plan_transition) option res" where
  "coordinator_probe c r =
     (case (cp_state c, cp_active_step c) of
        (Run_PROBE_BLOCKED, Some active) \<Rightarrow>
          (let execution = pb_checkpoint r in
           if ck_task_id execution \<noteq> sr_native_task_id active \<or>
              ck_step_id execution \<noteq> sr_native_step_id active \<or>
              Some (ck_permit_id execution) \<noteq> sr_permit_id active \<or>
              Some (ck_attempt_id execution) \<noteq> sr_attempt_id active
           then Raise GovernedPlanError ''Pack probe checkpoint does not match the blocked Agent Run step''
           else if pb_status r = Probe_INCONCLUSIVE then Ok None
           else if pb_status r \<noteq> Probe_CONFIRMED
           then Raise GovernedPlanError ''Pack probe did not confirm the blocked Agent Run step''
           else let c' = complete_active c active
                in Ok (Some (c', if cp_active_step c' \<noteq> None then Tr_PROBE_RESOLVED else Tr_PLAN_COMPLETED)))
      | _ \<Rightarrow> Raise GovernedPlanError ''Probe result requires a probe-blocked Agent Run step'')"

section \<open>The plan is conserved\<close>

text \<open>A reference without what the run changes of it, and the plan a checkpoint stands for.\<close>

definition ref_core :: "plan_step_ref \<Rightarrow> plan_step_ref" where
  "ref_core r = r\<lparr>sr_state := Ref_PENDING, sr_permit_id := None, sr_attempt_id := None, sr_probe_ref := None\<rparr>"

definition plan_refs :: "plan_checkpoint \<Rightarrow> plan_step_ref list" where
  "plan_refs c = cp_completed_prefix c @ (case cp_active_step c of None \<Rightarrow> [] | Some a \<Rightarrow> [a]) @
     cp_remaining_suffix c"

definition same_frame :: "plan_checkpoint \<Rightarrow> plan_checkpoint \<Rightarrow> bool" where
  "same_frame c d \<longleftrightarrow>
     d\<lparr>cp_completed_prefix := [], cp_active_step := None, cp_remaining_suffix := [], cp_state := Run_ACTIVE\<rparr> =
     c\<lparr>cp_completed_prefix := [], cp_active_step := None, cp_remaining_suffix := [], cp_state := Run_ACTIVE\<rparr>"

inductive coordinator_step :: "plan_checkpoint \<Rightarrow> plan_transition \<Rightarrow> plan_checkpoint \<Rightarrow> bool" where
  advance: "coordinator_advance c r = Ok (Some (c', t)) \<Longrightarrow> coordinator_step c t c'"
| probe: "coordinator_probe c r = Ok (Some (c', t)) \<Longrightarrow> coordinator_step c t c'"

text \<open>A step either completes the active child or blocks it until its result is probed.\<close>

lemma coordinator_step_cases:
  assumes "coordinator_step c t c'"
  obtains (completes) a where "cp_active_step c = Some a" "c' = complete_active c a"
      "t = Tr_PLAN_COMPLETED \<longleftrightarrow> cp_active_step c' = None"
      "t \<in> {Tr_CHILD_COMPLETED, Tr_PROBE_RESOLVED, Tr_PLAN_COMPLETED}"
    | (blocks) a p att pr where "cp_active_step c = Some a" "t = Tr_PROBE_BLOCKED"
      "c' = c\<lparr>cp_state := Run_PROBE_BLOCKED, cp_active_step := Some (a\<lparr>sr_state := Ref_PROBE_BLOCKED,
         sr_permit_id := Some p, sr_attempt_id := Some att, sr_probe_ref := Some pr\<rparr>)\<rparr>"
  using assms
proof cases
  case (advance r)
  show thesis
  proof (cases "av_status r")
    case Advance_COMPLETED
    with advance obtain a where "cp_active_step c = Some a" "c' = complete_active c a"
        "t = (if cp_active_step c' \<noteq> None then Tr_CHILD_COMPLETED else Tr_PLAN_COMPLETED)"
      by (auto simp: coordinator_advance_def advance_completed_def Let_def split: if_splits option.splits)
    then show thesis by (intro completes [of a]) (simp_all split: if_splits)
  next
    case Advance_PENDING_RESULT_PROBE
    with advance have "advance_pending c r = Ok (Some (c', t))"
      by (simp add: coordinator_advance_def split: if_splits)
    then obtain a x where a: "cp_active_step c = Some a" and x: "av_execution_checkpoint r = Some x"
      and pending: "advance_pending c r = Ok (Some (c', t))"
      by (cases "cp_active_step c"; cases "av_execution_checkpoint r") (simp_all add: advance_pending_def)
    from pending have "c' = c\<lparr>cp_state := Run_PROBE_BLOCKED, cp_active_step := Some (a\<lparr>sr_state := Ref_PROBE_BLOCKED,
           sr_permit_id := Some (ck_permit_id x), sr_attempt_id := Some (ck_attempt_id x),
           sr_probe_ref := Some (ck_result_probe_ref x)\<rparr>)\<rparr>" and "t = Tr_PROBE_BLOCKED"
      unfolding advance_pending_def a x prod.case option.case by (simp_all only: split: if_splits) simp_all
    with a have "cp_active_step c = Some a" "t = Tr_PROBE_BLOCKED"
        "c' = c\<lparr>cp_state := Run_PROBE_BLOCKED, cp_active_step := Some (a\<lparr>sr_state := Ref_PROBE_BLOCKED,
           sr_permit_id := Some (ck_permit_id x), sr_attempt_id := Some (ck_attempt_id x),
           sr_probe_ref := Some (ck_result_probe_ref x)\<rparr>)\<rparr>" by blast+
    then show thesis by (rule blocks)
  qed (use advance in \<open>simp_all add: coordinator_advance_def split: if_splits\<close>)
next
  case (probe r)
  then have state: "cp_state c = Run_PROBE_BLOCKED"
    by (cases "cp_state c") (simp_all add: coordinator_probe_def)
  from probe obtain a where a: "cp_active_step c = Some a"
    by (cases "cp_active_step c") (simp_all add: coordinator_probe_def state)
  from probe have "c' = complete_active c a"
      "t = (if cp_active_step c' \<noteq> None then Tr_PROBE_RESOLVED else Tr_PLAN_COMPLETED)"
    by (simp_all add: coordinator_probe_def Let_def state a split: if_splits)
  with a have "cp_active_step c = Some a" "c' = complete_active c a"
      "t = (if cp_active_step c' \<noteq> None then Tr_PROBE_RESOLVED else Tr_PLAN_COMPLETED)" by simp_all
  then show thesis by (intro completes [of a]) (simp_all split: if_splits)
qed

lemma ref_core_state [simp]: "ref_core (r\<lparr>sr_state := st\<rparr>) = ref_core r"
  by (simp add: ref_core_def)

lemma complete_active_refs:
  assumes "cp_active_step c = Some a"
  shows "map ref_core (plan_refs (complete_active c a)) = map ref_core (plan_refs c)"
  using assms by (cases "cp_remaining_suffix c") (simp_all add: complete_active_def plan_refs_def Let_def)

lemma coordinator_step_conserves:
  assumes "coordinator_step c t c'"
  shows "map ref_core (plan_refs c') = map ref_core (plan_refs c) \<and>
     (\<exists>finished. cp_completed_prefix c' = cp_completed_prefix c @ finished \<and>
        (\<forall>r \<in> set finished. sr_state r = Ref_COMPLETED)) \<and>
     same_frame c c' \<and> appendable t \<and> validate_transition_checkpoint t c' = Ok ()"
  using assms
proof (cases rule: coordinator_step_cases)
  case (completes a)
  have "same_frame c c'" unfolding same_frame_def completes(2) complete_active_def Let_def by simp
  moreover have "cp_completed_prefix c' = cp_completed_prefix c @ [a\<lparr>sr_state := Ref_COMPLETED\<rparr>]"
    by (simp add: completes(2) complete_active_def Let_def)
  moreover have "appendable t" using completes(4) by (auto simp: appendable_def)
  moreover have "cp_state c' = (if cp_active_step c' = None then Run_COMPLETED else Run_ACTIVE)"
    by (simp add: completes(2) complete_active_def Let_def)
  then have "validate_transition_checkpoint t c' = Ok ()"
    using completes(3,4) by (auto simp: validate_transition_checkpoint_def)
  ultimately show ?thesis using complete_active_refs [OF completes(1)] completes(2) by simp
next
  case (blocks a p att pr)
  then show ?thesis
    by (simp add: plan_refs_def ref_core_def same_frame_def appendable_def validate_transition_checkpoint_def)
qed

text \<open>
  C32. Whatever results packs return, in whatever order, the coordinator
  never drops, adds or reorders a step of the plan: completed, active and remaining steps together
  stay the admitted plan, completed steps are only ever appended, and the identity, version, replan
  counters and journal position of the run stay. Each translation is a transition the journal
  accepts and suits the checkpoint it comes with.
\<close>

theorem coordinator_conserves_plan:
  assumes "(\<lambda>x y. \<exists>t. coordinator_step x t y)\<^sup>*\<^sup>* c c'"
  shows "map ref_core (plan_refs c') = map ref_core (plan_refs c) \<and>
     (\<exists>finished. cp_completed_prefix c' = cp_completed_prefix c @ finished \<and>
        (\<forall>r \<in> set finished. sr_state r = Ref_COMPLETED)) \<and>
     same_frame c c' \<and>
     (\<forall>t d. coordinator_step c' t d \<longrightarrow> appendable t \<and> validate_transition_checkpoint t d = Ok ())"
proof -
  have "map ref_core (plan_refs c') = map ref_core (plan_refs c) \<and>
     (\<exists>finished. cp_completed_prefix c' = cp_completed_prefix c @ finished \<and>
        (\<forall>r \<in> set finished. sr_state r = Ref_COMPLETED)) \<and> same_frame c c'"
    using assms
  proof (induction rule: rtranclp_induct)
    case (step y z)
    then obtain t where t: "coordinator_step y t z" by blast
    from coordinator_step_conserves [OF t] step.IH show ?case
      by (fastforce simp: same_frame_def)
  qed (simp add: same_frame_def)
  with coordinator_step_conserves show ?thesis by blast
qed

text \<open>The sample run: its first child is blocked on an unknown result, then confirmed by a probe.\<close>

definition sample_execution :: execution_checkpoint where
  "sample_execution = \<lparr>ck_attempt_id = ''ea'', ck_permit_id = ''permit'', ck_task_id = ''task'',
     ck_step_id = ''s1'', ck_action_fingerprint = ''f'', ck_observation_hash = ''o'',
     ck_idempotency_key_digest = ''i'', ck_execution_effect = ''external_write'',
     ck_result_probe_ref = ''pr'', ck_attempt_status = ''unknown''\<rparr>"

definition pending_result :: pack_advance_result where
  "pending_result = \<lparr>av_status = Advance_PENDING_RESULT_PROBE, av_run_id = ''root'', av_step_id = Some ''s1'',
     av_reason_code = Some ''R'', av_approval = None, av_execution_checkpoint = Some sample_execution\<rparr>"

definition confirmed_result :: pack_probe_result where
  "confirmed_result = \<lparr>pb_status = Probe_CONFIRMED, pb_checkpoint = sample_execution, pb_reason_code = ''R'',
     pb_evidence_refs = []\<rparr>"

definition blocked_checkpoint :: plan_checkpoint where
  "blocked_checkpoint = sample_checkpoint\<lparr>cp_state := Run_PROBE_BLOCKED,
     cp_active_step := Some ((sample_ref ''s1'' Ref_PROBE_BLOCKED)\<lparr>sr_permit_id := Some ''permit'',
       sr_attempt_id := Some ''ea'', sr_probe_ref := Some ''pr''\<rparr>)\<rparr>"

theorem coordinator_conserves_plan_witness:
  "\<exists>c'. coordinator_probe blocked_checkpoint confirmed_result = Ok (Some (c', Tr_PROBE_RESOLVED)) \<and>
     map ref_core (plan_refs c') = map ref_core (plan_refs sample_checkpoint)"
proof -
  have pending: "coordinator_advance sample_checkpoint pending_result = Ok (Some (blocked_checkpoint, Tr_PROBE_BLOCKED))"
    by (simp add: coordinator_advance_def advance_pending_def pending_result_def sample_checkpoint_def
        sample_execution_def sample_ref_def blocked_checkpoint_def)
  obtain c' where probe: "coordinator_probe blocked_checkpoint confirmed_result = Ok (Some (c', Tr_PROBE_RESOLVED))"
    by (simp add: coordinator_probe_def blocked_checkpoint_def confirmed_result_def sample_execution_def
        sample_ref_def Let_def complete_active_def sample_checkpoint_def)
  have "(\<lambda>x y. \<exists>t. coordinator_step x t y)\<^sup>*\<^sup>* sample_checkpoint c'"
    by (rule rtranclp.rtrancl_into_rtrancl [OF r_into_rtranclp])
      (rule exI, rule coordinator_step.advance [OF pending], rule exI, rule coordinator_step.probe [OF probe])
  from coordinator_conserves_plan [OF this] probe show ?thesis by blast
qed

text \<open>
  The coordinator does not look at terminal states: a pack result that arrives after the run was
  cancelled is translated into a completed child.
\<close>

lemma advance_revives_cancelled_run:
  "coordinator_advance (sample_checkpoint\<lparr>cp_state := Run_CANCELLED\<rparr>)
     (pending_result\<lparr>av_status := Advance_COMPLETED, av_execution_checkpoint := None\<rparr>) =
   Ok (Some (complete_active (sample_checkpoint\<lparr>cp_state := Run_CANCELLED\<rparr>) (sample_ref ''s1'' Ref_ACTIVE),
     Tr_CHILD_COMPLETED))"
  by (simp add: coordinator_advance_def advance_completed_def pending_result_def sample_checkpoint_def
      Let_def complete_active_def sample_ref_def)

end
