(* ===== verification/Admission.thy ===== *)
theory Admission
  imports Journal Planner PackRuntime Pending
begin

text \<open>
  \<open>enterprise/governance/admission.py\<close>, \<open>admission_persistence.py\<close>, \<open>creation_snapshot.py\<close> and
  \<open>contracts_service.py\<close>: preparing the bundle of records that admits a governed task, and persisting
  it with its outbox event in one transaction. A set dumps as its sorted list.
\<close>

section \<open>The trusted creation snapshot\<close>

datatype creation_path = Path_NATIVE | Path_WORKFLOW | Path_TEMPLATE | Path_SDK_API | Path_DIRECT_INTERNAL

fun creation_path_value :: "creation_path \<Rightarrow> string" where
  "creation_path_value Path_NATIVE = ''native_task''"
| "creation_path_value Path_WORKFLOW = ''workflow_task''"
| "creation_path_value Path_TEMPLATE = ''template_task''"
| "creation_path_value Path_SDK_API = ''sdk_api_task''"
| "creation_path_value Path_DIRECT_INTERNAL = ''direct_internal_task''"

record creation_snapshot =
  cs_task_id :: string
  cs_organization_id :: string
  cs_creation_path :: creation_path
  cs_initiator_id :: string
  cs_service_principal_id :: "string option"
  cs_department_id :: "string option"
  cs_business_line_id :: "string option"
  cs_authorization_snapshot :: jobject
  cs_policy_version :: string
  cs_contract_version :: int
  cs_created_at :: time
  cs_request_id :: "string option"
  cs_workflow_id :: "string option"
  cs_workflow_run_id :: "string option"
  cs_template_id :: "string option"
  cs_template_version :: "string option"
  cs_template_run_id :: "string option"
  cs_caller_id :: "string option"

definition validate_creation_provenance :: "creation_snapshot \<Rightarrow> creation_snapshot res" where
  "validate_creation_provenance s =
     (let path = cs_creation_path s in checks
       [(path = Path_NATIVE \<and> \<not> truthy (cs_request_id s),
         Exc ValueError ''Native task snapshots require request_id''),
        (path = Path_WORKFLOW \<and> \<not> (truthy (cs_workflow_id s) \<and> truthy (cs_workflow_run_id s)),
         Exc ValueError ''Workflow task snapshots require workflow_id and workflow_run_id''),
        (path = Path_TEMPLATE \<and> \<not> (truthy (cs_template_id s) \<and> truthy (cs_template_version s) \<and>
           truthy (cs_template_run_id s)),
         Exc ValueError ''Template task snapshots require template_id, template_version, and template_run_id''),
        (path = Path_SDK_API \<and> \<not> (truthy (cs_request_id s) \<and> truthy (cs_caller_id s)),
         Exc ValueError ''SDK/API task snapshots require request_id and caller_id''),
        (path = Path_DIRECT_INTERNAL \<and> \<not> (truthy (cs_request_id s) \<and> truthy (cs_caller_id s) \<and>
           truthy (cs_service_principal_id s)),
         Exc ValueError
           ''Direct internal task snapshots require request_id, caller_id, and service_principal_id'')]
       (Ok s))"

definition snapshot_fields :: "creation_snapshot \<Rightarrow> jobject" where
  "snapshot_fields s =
     [(''task_id'', JStr (cs_task_id s)), (''organization_id'', JStr (cs_organization_id s)),
      (''creation_path'', JStr (creation_path_value (cs_creation_path s))),
      (''initiator_id'', JStr (cs_initiator_id s)),
      (''service_principal_id'', jstr_opt (cs_service_principal_id s)),
      (''department_id'', jstr_opt (cs_department_id s)),
      (''business_line_id'', jstr_opt (cs_business_line_id s)),
      (''authorization_snapshot'', JObj (cs_authorization_snapshot s)),
      (''policy_version'', JStr (cs_policy_version s)),
      (''contract_version'', JInt (cs_contract_version s)),
      (''created_at'', JTime (cs_created_at s)), (''request_id'', jstr_opt (cs_request_id s)),
      (''workflow_id'', jstr_opt (cs_workflow_id s)), (''workflow_run_id'', jstr_opt (cs_workflow_run_id s)),
      (''template_id'', jstr_opt (cs_template_id s)),
      (''template_version'', jstr_opt (cs_template_version s)),
      (''template_run_id'', jstr_opt (cs_template_run_id s)), (''caller_id'', jstr_opt (cs_caller_id s))]"

section \<open>The admission bundle\<close>

record task_draft =
  td_task_id :: string
  td_organization_id :: string
  td_goal :: string
  td_mode :: governance_mode

record admission_audit =
  aa_event_type :: string
  aa_admission_id :: string
  aa_request_id :: string
  aa_task_id :: string
  aa_organization_id :: string
  aa_contract_id :: string
  aa_plan_id :: string
  aa_grant_id :: string
  aa_capability_id :: string
  aa_capability_version :: string
  aa_policy_version :: string
  aa_revocation_epoch :: string
  aa_mode :: governance_mode
  aa_created_at :: time

record admission_bundle =
  ab_provider_mode :: string
  ab_runtime_binding :: "pack_runtime_binding option"
  ab_planner_observation :: "planner_observation option"
  ab_admission_id :: string
  ab_task :: task_draft
  ab_creation_snapshot :: creation_snapshot
  ab_contract :: task_contract
  ab_request :: capability_request
  ab_grants :: "capability_grant list"
  ab_plan :: business_plan
  ab_work_orders :: "execution_work_order list"
  ab_audit_record :: admission_audit

fun mode_value :: "governance_mode \<Rightarrow> string" where
  "mode_value GMode_OFF = ''off''"
| "mode_value GMode_AUDIT = ''audit''"
| "mode_value GMode_ENFORCE = ''enforce''"

definition scope_dump :: "capability_data_scope \<Rightarrow> jobject" where
  "scope_dump d =
     [(''department_id'', jstr_opt (ds_department_id d)),
      (''business_line_id'', jstr_opt (ds_business_line_id d)),
      (''resource_ids'', set_dump (ds_resource_ids d)), (''attributes'', JObj (ds_attributes d))]"

definition time_opt :: "time option \<Rightarrow> json" where
  "time_opt t = (case t of None \<Rightarrow> JNull | Some x \<Rightarrow> JTime x)"

section \<open>Preparing an admission\<close>

definition admission_id_of :: "string \<Rightarrow> string \<Rightarrow> string" where
  "admission_id_of organization_id request_id =
     ''admission_'' @ uuid5_url (dumps True (JArr [JStr organization_id, JStr request_id]))"

definition bindings_match ::
  "task_draft \<Rightarrow> creation_snapshot \<Rightarrow> task_contract \<Rightarrow> capability_request \<Rightarrow> grant_projection \<Rightarrow> business_plan \<Rightarrow>
   time \<Rightarrow> unit res" where
  "bindings_match task snapshot contract q projection plan now = checks
     [(td_mode task \<noteq> GMode_AUDIT \<or> tc_mode contract \<noteq> GMode_AUDIT,
       Exc ValueError ''Governed Task admission remains audit-only; enforce is not authorized''),
      (td_task_id task \<noteq> cs_task_id snapshot \<or> td_organization_id task \<noteq> cs_organization_id snapshot,
       Exc ValueError ''Task does not match its trusted creation snapshot''),
      (tc_task_id contract \<noteq> td_task_id task \<or> tc_organization_id contract \<noteq> td_organization_id task,
       Exc ValueError ''TaskContract does not match the Task''),
      (rq_tenant_id q \<noteq> td_organization_id task,
       Exc ValueError ''CapabilityRequest tenant must match the Task''),
      (tc_goal contract \<noteq> td_goal task, Exc ValueError ''TaskContract goal must match the Task draft''),
      (bp_task_id plan \<noteq> td_task_id task \<or> bp_contract_id plan \<noteq> tc_contract_id contract,
       Exc ValueError ''BusinessPlan does not match the TaskContract''),
      (cs_request_id snapshot \<noteq> Some (rq_request_id q),
       Exc ValueError ''Creation snapshot request_id must match the CapabilityRequest''),
      (cs_initiator_id snapshot \<noteq> rq_principal_ref q,
       Exc ValueError ''Creation snapshot initiator must match the CapabilityRequest principal''),
      (cs_service_principal_id snapshot \<noteq> gp_workload_principal_id projection,
       Exc ValueError ''Creation snapshot workload identity must match the Grant projection''),
      (tc_initiator_id contract \<noteq> Some (rq_principal_ref q),
       Exc ValueError ''TaskContract initiator must match the CapabilityRequest principal''),
      (tc_service_principal_id contract \<noteq> gp_workload_principal_id projection,
       Exc ValueError ''TaskContract workload identity must match the Grant projection''),
      (tc_policy_version contract \<noteq> cs_policy_version snapshot,
       Exc ValueError ''TaskContract policy version must match the trusted snapshot''),
      (\<not> json_eq (JObj (tc_authorization_snapshot contract)) (JObj (snapshot_fields snapshot)),
       Exc ValueError ''TaskContract authorization snapshot must match the trusted snapshot''),
      ((case tc_expires_at contract of None \<Rightarrow> False | Some t \<Rightarrow> t \<le> now),
       Exc ValueError ''TaskContract is expired''),
      (map_of (rq_contract_versions q) ''policy'' \<noteq> Some (tc_policy_version contract),
       Exc ValueError ''CapabilityRequest policy version must match the TaskContract''),
      (map_of (rq_contract_versions q) ''task_contract'' \<noteq> Some (show_int (tc_version contract)),
       Exc ValueError ''CapabilityRequest contract version must match the TaskContract''),
      (\<not> json_eq (JObj (tc_data_scope contract)) (JObj (scope_dump (rq_requested_scope q))),
       Exc ValueError ''TaskContract data scope must match the CapabilityRequest'')]
     (Ok ())"

definition grant_matches ::
  "capability_grant \<Rightarrow> creation_snapshot \<Rightarrow> task_contract \<Rightarrow> capability_request \<Rightarrow> unit res" where
  "grant_matches g snapshot contract q = checks
     [(cg_capability_id g \<noteq> rq_capability_ref q \<or> cg_capability_version g \<noteq> rq_capability_version q,
       Exc ValueError ''CapabilityRequest does not match its Grant''),
      (cg_policy_snapshot_version g \<noteq> tc_policy_version contract,
       Exc ValueError ''Grant policy version must match the TaskContract''),
      (\<not> json_eq (get_value (cs_authorization_snapshot snapshot) ''revocation_epoch'')
           (JStr (cg_revocation_epoch g)),
       Exc ValueError ''Trusted snapshot revocation epoch must match the Grant''),
      (rq_capability_ref q \<notin> tc_allowed_operations contract,
       Exc ValueError ''TaskContract does not allow the requested capability'')]
     (Ok ())"

text \<open>One work order for each step, and the step's work order.\<close>

definition one_order_per_step :: "business_plan \<Rightarrow> execution_work_order list \<Rightarrow> unit res" where
  "one_order_per_step plan orders = checks
     [(\<not> distinct (map wo_work_order_id orders),
       Exc ValueError ''ExecutionWorkOrder work_order_id values must be unique''),
      (\<not> distinct (map wo_business_plan_step_id orders) \<or>
         wo_business_plan_step_id ` set orders \<noteq> bs_step_id ` set (bp_steps plan),
       Exc ValueError ''Admission requires exactly one Work Order for every BusinessPlan step'')]
     (Ok ())"

definition order_for :: "execution_work_order list \<Rightarrow> business_plan_step \<Rightarrow> execution_work_order option" where
  "order_for orders s = List.find (\<lambda>w. wo_business_plan_step_id w = bs_step_id s) orders"

definition check_order ::
  "business_plan \<Rightarrow> execution_work_order list \<Rightarrow> capability_grant list \<Rightarrow> capability_registry \<Rightarrow> time \<Rightarrow>
   business_plan_step \<Rightarrow> unit res" where
  "check_order plan orders grants reg now s =
     (case order_for orders s of
        None \<Rightarrow> Raise KeyError (bs_step_id s)
      | Some w \<Rightarrow>
          res_bind (validate_work_order w plan s grants now) (\<lambda>_.
          res_bind (require_capability (bs_capability_id s) reg) (\<lambda>d.
            if wo_result_probe_ref w \<noteq> cd_result_probe_ref d
            then Raise ValueError ''ExecutionWorkOrder result probe must match the capability registry''
            else Ok ())))"

definition referenced_grants :: "business_plan \<Rightarrow> capability_grant list \<Rightarrow> capability_grant list" where
  "referenced_grants plan grants =
     sort_by (\<lambda>a b. str_le (cg_grant_id a) (cg_grant_id b))
       (filter (\<lambda>g. cg_grant_id g \<in> bs_grant_id ` set (bp_steps plan)) grants)"

definition build_bundle ::
  "task_draft \<Rightarrow> creation_snapshot \<Rightarrow> task_contract \<Rightarrow> capability_request \<Rightarrow> grant_entry \<Rightarrow> capability_grant \<Rightarrow>
   capability_grant list \<Rightarrow> business_plan \<Rightarrow> execution_work_order list \<Rightarrow> time \<Rightarrow> admission_bundle" where
  "build_bundle task snapshot contract q entry grant refs plan orders now =
     (let admission_id = admission_id_of (td_organization_id task) (rq_request_id q)
      in \<lparr>ab_provider_mode = ''recorded'', ab_runtime_binding = None, ab_planner_observation = None,
          ab_admission_id = admission_id, ab_task = task, ab_creation_snapshot = snapshot,
          ab_contract = contract, ab_request = q, ab_grants = refs, ab_plan = plan, ab_work_orders = orders,
          ab_audit_record =
            \<lparr>aa_event_type = ''governed_task_admitted'', aa_admission_id = admission_id,
             aa_request_id = rq_request_id q, aa_task_id = td_task_id task,
             aa_organization_id = td_organization_id task, aa_contract_id = tc_contract_id contract,
             aa_plan_id = bp_plan_id plan, aa_grant_id = ge_grant_id entry,
             aa_capability_id = ge_capability_id entry,
             aa_capability_version = ge_capability_version entry,
             aa_policy_version = tc_policy_version contract,
             aa_revocation_epoch = cg_revocation_epoch grant, aa_mode = td_mode task,
             aa_created_at = now\<rparr>\<rparr>)"

definition prepare_admission ::
  "task_draft \<Rightarrow> creation_snapshot \<Rightarrow> task_contract \<Rightarrow> capability_request \<Rightarrow> grant_projection \<Rightarrow>
   capability_grant list \<Rightarrow> capability_registry \<Rightarrow> business_plan \<Rightarrow> execution_work_order list \<Rightarrow> time \<Rightarrow>
   input_validator option \<Rightarrow> admission_bundle res" where
  "prepare_admission task snapshot contract q projection grants reg plan orders now validator =
     res_bind (bindings_match task snapshot contract q projection plan now) (\<lambda>_.
     res_bind (validate_capability_request q projection reg now validator) (\<lambda>entry.
     case List.find (\<lambda>g. cg_grant_id g = rq_grant_ref q) grants of
       None \<Rightarrow> Raise ValueError ''CapabilityRequest references an unknown Grant''
     | Some grant \<Rightarrow>
     res_bind (grant_matches grant snapshot contract q) (\<lambda>_.
     res_bind (validate_plan_proposal plan q projection grants reg now validator) (\<lambda>_.
     if \<not> bs_capability_id ` set (bp_steps plan) \<subseteq> tc_allowed_operations contract
     then Raise ValueError ''TaskContract must allow every BusinessPlan capability'' else
     res_bind (one_order_per_step plan orders) (\<lambda>_.
     res_bind (each (check_order plan orders grants reg now) (bp_steps plan)) (\<lambda>_.
     let refs = referenced_grants plan grants in checks
       [(cg_grant_id ` set refs \<noteq> bs_grant_id ` set (bp_steps plan),
         Exc ValueError ''BusinessPlan references a Grant missing from the admission bundle''),
        (\<exists>g \<in> set refs. cg_policy_snapshot_version g \<noteq> tc_policy_version contract,
         Exc ValueError ''Every CapabilityGrant policy version must match the TaskContract'')]
       (Ok (build_bundle task snapshot contract q entry grant refs plan orders now))))))))"

section \<open>The canonical payload\<close>

fun disposition_value :: "access_disposition \<Rightarrow> string" where
  "disposition_value Access_ALLOW = ''allow''"
| "disposition_value ALLOW_EXECUTE = ''allow_execute''"
| "disposition_value ALLOW_REQUEST_APPROVAL = ''allow_request_approval''"
| "disposition_value NEED_CLARIFICATION = ''need_clarification''"
| "disposition_value Access_DENY = ''deny''"

fun entry_mode_value :: "entry_mode \<Rightarrow> string" where
  "entry_mode_value Entry_UI = ''ui''"
| "entry_mode_value Entry_CHAT = ''chat''"

fun request_kind_value :: "request_kind \<Rightarrow> string" where
  "request_kind_value Request_DISCOVER = ''discover''"
| "request_kind_value Request_READ = ''read''"
| "request_kind_value Request_TRANSITION = ''transition''"
| "request_kind_value Request_APPROVAL_REQUEST = ''approval_request''"
| "request_kind_value Request_APPROVAL_ADJUDICATION = ''approval_adjudication''"

fun replan_reason_value :: "replan_reason \<Rightarrow> string" where
  "replan_reason_value BUSINESS_STATE_CHANGED = ''business_state_changed''"
| "replan_reason_value INPUT_CLARIFICATION = ''input_clarification''"
| "replan_reason_value POLICY_OR_PERMISSION_CHANGED = ''policy_or_permission_changed''"
| "replan_reason_value EXECUTION_FAILURE = ''execution_failure''"

definition sort_scope_resources :: "jobject \<Rightarrow> jobject" where
  "sort_scope_resources kvs = map (\<lambda>(k, v). (k, case v of
     JArr vs \<Rightarrow> if k = ''resource_ids'' then (case those (map as_str vs) of
         Some ss \<Rightarrow> JArr (map JStr (sort_by str_le ss)) | None \<Rightarrow> v) else v
   | _ \<Rightarrow> v)) kvs"

definition int_opt :: "int option \<Rightarrow> json" where
  "int_opt v = (case v of None \<Rightarrow> JNull | Some i \<Rightarrow> JInt i)"

definition float_opt :: "rat option \<Rightarrow> json" where
  "float_opt v = (case v of None \<Rightarrow> JNull | Some i \<Rightarrow> JFloat i)"

definition strings_json :: "string list \<Rightarrow> json" where
  "strings_json xs = JArr (map JStr xs)"

definition binding_json :: "pack_runtime_binding \<Rightarrow> json" where
  "binding_json b = JObj
     [(''pack_id'', JStr (rb_pack_id b)), (''pack_version'', JStr (rb_pack_version b)),
      (''capability_ids'', strings_json (rb_capability_ids b)), (''adapter_id'', JStr (rb_adapter_id b))]"

definition observation_json :: "planner_observation \<Rightarrow> json" where
  "observation_json p = JObj
     [(''schema_version'', JStr ''agentpact.planner-observation/v1''),
      (''provider_mode'', JStr (po_provider_mode p)), (''disposition'', JStr (po_disposition p)),
      (''codes'', strings_json (po_codes p)), (''provider_calls'', JInt (po_provider_calls p)),
      (''repair_count'', JInt (po_repair_count p)), (''duration_ms'', float_opt (po_duration_ms p)),
      (''provider_duration_ms'', float_opt (po_provider_duration_ms p)),
      (''usage'', (case po_usage p of None \<Rightarrow> JNull | Some u \<Rightarrow> JObj
         [(''prompt_tokens'', int_opt (us_prompt_tokens u)),
          (''completion_tokens'', int_opt (us_completion_tokens u)),
          (''total_tokens'', int_opt (us_total_tokens u))]))]"

text \<open>
  \<open>_admission_fingerprint\<close> prints the same payload without the clock readings: \<open>timeless\<close> leaves
  them out or turns them into durations.
\<close>

definition duration_microseconds :: "time option \<Rightarrow> time \<Rightarrow> json" where
  "duration_microseconds stop start = (case stop of None \<Rightarrow> JNull | Some t \<Rightarrow> JInt (t - start))"

definition contract_json :: "bool \<Rightarrow> creation_snapshot \<Rightarrow> task_contract \<Rightarrow> json" where
  "contract_json timeless snapshot c = JObj
     ([(''contract_id'', JStr (tc_contract_id c)), (''task_id'', JStr (tc_task_id c)),
       (''organization_id'', JStr (tc_organization_id c)),
       (''initiator_id'', jstr_opt (tc_initiator_id c)),
       (''service_principal_id'', jstr_opt (tc_service_principal_id c)),
       (''department_id'', jstr_opt (tc_department_id c)),
       (''business_line_id'', jstr_opt (tc_business_line_id c)), (''goal'', JStr (tc_goal c)),
       (''allowed_operations'', set_dump (tc_allowed_operations c)),
       (''data_scope'', JObj (sort_scope_resources (tc_data_scope c))),
       (''authorization_snapshot'', JObj (if timeless
          then filter (\<lambda>kv. fst kv \<noteq> ''created_at'') (tc_authorization_snapshot c)
          else tc_authorization_snapshot c)),
       (''policy_profile'', JStr (tc_policy_profile c)), (''policy_version'', JStr (tc_policy_version c)),
       (''success_criteria'', strings_json (tc_success_criteria c)), (''version'', JInt (tc_version c)),
       (''mode'', JStr (mode_value (tc_mode c)))] @
      [if timeless
       then (''expires_after_creation_us'', duration_microseconds (tc_expires_at c) (cs_created_at snapshot))
       else (''expires_at'', time_opt (tc_expires_at c))])"

definition request_json :: "bool \<Rightarrow> capability_request \<Rightarrow> json" where
  "request_json timeless q = JObj
     ([(''request_id'', JStr (rq_request_id q)), (''entry_mode'', JStr (entry_mode_value (rq_entry_mode q))),
       (''principal_ref'', JStr (rq_principal_ref q)), (''session_ref'', JStr (rq_session_ref q)),
       (''tenant_id'', JStr (rq_tenant_id q)), (''requested_scope'', JObj (scope_dump (rq_requested_scope q))),
       (''capability_ref'', JStr (rq_capability_ref q)),
       (''capability_version'', JStr (rq_capability_version q)),
       (''request_kind'', JStr (request_kind_value (rq_request_kind q))),
       (''typed_inputs'', JObj (rq_typed_inputs q)), (''resource_refs'', set_dump (rq_resource_refs q)),
       (''approval_round_ref'', jstr_opt (rq_approval_round_ref q)),
       (''user_intent_summary'', JStr (rq_user_intent_summary q)), (''grant_ref'', JStr (rq_grant_ref q)),
       (''contract_versions'', JObj (map (\<lambda>(k, v). (k, JStr v)) (rq_contract_versions q)))] @
      (if timeless then [] else [(''submitted_at'', JTime (rq_submitted_at q))]))"

definition all_dimensions :: "authorization_dimension list" where
  "all_dimensions =
     [DISCOVER, READ_RECORD, REQUEST_TRANSITION, EXECUTE_TRANSITION, REQUEST_APPROVAL, ADJUDICATE_APPROVAL]"

definition grant_json :: "bool \<Rightarrow> capability_grant \<Rightarrow> json" where
  "grant_json timeless g = JObj
     ([(''grant_id'', JStr (cg_grant_id g)), (''capability_id'', JStr (cg_capability_id g)),
       (''capability_version'', JStr (cg_capability_version g)), (''principal_id'', JStr (cg_principal_id g)),
       (''business_principal_id'', jstr_opt (cg_business_principal_id g)),
       (''workload_principal_id'', jstr_opt (cg_workload_principal_id g)),
       (''tenant_id'', JStr (cg_tenant_id g)), (''data_scope'', JObj (scope_dump (cg_data_scope g))),
       (''disposition'', JStr (disposition_value (cg_disposition g))),
       (''allowed_dimensions'', strings_json (sort_by str_le (map dimension_value
          (filter (\<lambda>d. d \<in> cg_allowed_dimensions g) all_dimensions)))),
       (''policy_snapshot_version'', JStr (cg_policy_snapshot_version g)),
       (''revocation_epoch'', JStr (cg_revocation_epoch g)), (''purpose'', JStr (cg_purpose g)),
       (''reasons'', strings_json (cg_reasons g))] @
      (if timeless
       then [(''not_before_offset_us'', duration_microseconds
                (Some (case cg_not_before g of None \<Rightarrow> cg_resolved_at g | Some t \<Rightarrow> t)) (cg_resolved_at g)),
             (''valid_for_us'', duration_microseconds (Some (cg_expires_at g)) (cg_resolved_at g))]
       else [(''resolved_at'', JTime (cg_resolved_at g)), (''not_before'', time_opt (cg_not_before g)),
             (''expires_at'', JTime (cg_expires_at g))]))"

definition plan_json :: "business_plan \<Rightarrow> json" where
  "plan_json p = JObj
     [(''plan_id'', JStr (bp_plan_id p)), (''request_id'', jstr_opt (bp_request_id p)),
      (''task_id'', JStr (bp_task_id p)), (''contract_id'', JStr (bp_contract_id p)),
      (''data_scope'', JObj (scope_dump (bp_data_scope p))), (''version'', JInt (bp_version p)),
      (''replan_reason'', jstr_opt (map_option replan_reason_value (bp_replan_reason p))),
      (''steps'', JArr (map (step_dump True) (bp_steps p)))]"

definition work_order_json :: "execution_work_order \<Rightarrow> json" where
  "work_order_json w = JObj
     [(''work_order_id'', JStr (wo_work_order_id w)),
      (''business_plan_step_id'', JStr (wo_business_plan_step_id w)), (''task_id'', JStr (wo_task_id w)),
      (''contract_id'', JStr (wo_contract_id w)), (''plan_task_id'', jstr_opt (wo_plan_task_id w)),
      (''authority_contract_id'', jstr_opt (wo_authority_contract_id w)),
      (''grant_id'', JStr (wo_grant_id w)), (''navigation_goal'', JStr (wo_navigation_goal w)),
      (''allowed_operations'', set_dump (wo_allowed_operations w)),
      (''prohibited_operations'', set_dump (wo_prohibited_operations w)),
      (''success_criteria'', strings_json (wo_success_criteria w)),
      (''required_evidence'', strings_json (wo_required_evidence w)),
      (''max_recovery_level'', JStr (recovery_level_value (wo_max_recovery_level w))),
      (''result_probe_ref'', JStr (wo_result_probe_ref w))]"

definition audit_json :: "bool \<Rightarrow> admission_audit \<Rightarrow> json" where
  "audit_json timeless a = JObj
     ([(''event_type'', JStr (aa_event_type a)), (''admission_id'', JStr (aa_admission_id a)),
       (''request_id'', JStr (aa_request_id a)), (''task_id'', JStr (aa_task_id a)),
       (''organization_id'', JStr (aa_organization_id a)), (''contract_id'', JStr (aa_contract_id a)),
       (''plan_id'', JStr (aa_plan_id a)), (''grant_id'', JStr (aa_grant_id a)),
       (''capability_id'', JStr (aa_capability_id a)),
       (''capability_version'', JStr (aa_capability_version a)),
       (''policy_version'', JStr (aa_policy_version a)),
       (''revocation_epoch'', JStr (aa_revocation_epoch a)), (''mode'', JStr (mode_value (aa_mode a)))] @
      (if timeless then [] else [(''created_at'', JTime (aa_created_at a))]))"

definition bundle_json :: "bool \<Rightarrow> admission_bundle \<Rightarrow> json" where
  "bundle_json timeless b = JObj
     [(''schema_version'', JStr ''phase2-task-admission-bundle-v1''),
      (''provider_mode'', JStr (ab_provider_mode b)),
      (''runtime_binding'', (case ab_runtime_binding b of None \<Rightarrow> JNull | Some r \<Rightarrow> binding_json r)),
      (''planner_observation'', (case ab_planner_observation b of None \<Rightarrow> JNull | Some p \<Rightarrow> observation_json p)),
      (''admission_id'', JStr (ab_admission_id b)),
      (''task'', JObj
         [(''task_id'', JStr (td_task_id (ab_task b))),
          (''organization_id'', JStr (td_organization_id (ab_task b))),
          (''goal'', JStr (td_goal (ab_task b))), (''mode'', JStr (mode_value (td_mode (ab_task b))))]),
      (''creation_snapshot'', JObj (if timeless
          then filter (\<lambda>kv. fst kv \<noteq> ''created_at'') (snapshot_fields (ab_creation_snapshot b))
          else snapshot_fields (ab_creation_snapshot b))),
      (''contract'', contract_json timeless (ab_creation_snapshot b) (ab_contract b)),
      (''request'', request_json timeless (ab_request b)),
      (''grants'', JArr (map (grant_json timeless) (ab_grants b))), (''plan'', plan_json (ab_plan b)),
      (''work_orders'', JArr (map work_order_json (ab_work_orders b))),
      (''audit_record'', audit_json timeless (ab_audit_record b))]"

definition canonical_task_admission_payload :: "admission_bundle \<Rightarrow> json" where
  "canonical_task_admission_payload b = bundle_json False b"

definition admission_fingerprint :: "admission_bundle \<Rightarrow> string" where
  "admission_fingerprint b = json_digest (bundle_json True b)"

section \<open>Persistence\<close>

record admission_row =
  ad_admission_id :: string
  ad_organization_id :: string
  ad_request_id :: string
  ad_task_id :: string
  ad_contract_id :: string
  ad_bundle_schema_version :: string
  ad_admission_fingerprint :: string
  ad_bundle_fingerprint :: string
  ad_bundle_payload :: json
  ad_mode :: string
  ad_committed_at :: time

record outbox_row =
  ob_outbox_id :: string
  ob_admission_id :: string
  ob_organization_id :: string
  ob_event_type :: string
  ob_payload :: json
  ob_status :: string
  ob_attempt_count :: int
  ob_created_at :: time

record agent_db = journal_db +
  governed_task_admissions :: "admission_row list"
  governance_outbox :: "outbox_row list"
  task_contracts :: "task_contract list"

record admission_receipt =
  rt_admission_id :: string
  rt_task_id :: string
  rt_contract_id :: string
  rt_committed_at :: time
  rt_duplicate :: bool

definition find_admission :: "string \<Rightarrow> string \<Rightarrow> 'z agent_db_scheme \<Rightarrow> admission_row option" where
  "find_admission organization_id request_id s =
     first_where (\<lambda>r. ad_organization_id r = organization_id \<and> ad_request_id r = request_id)
       (governed_task_admissions s)"

definition to_receipt :: "admission_row \<Rightarrow> bool \<Rightarrow> admission_receipt" where
  "to_receipt r duplicate =
     \<lparr>rt_admission_id = ad_admission_id r, rt_task_id = ad_task_id r, rt_contract_id = ad_contract_id r,
      rt_committed_at = ad_committed_at r, rt_duplicate = duplicate\<rparr>"

definition resolve_existing :: "admission_row \<Rightarrow> string \<Rightarrow> admission_receipt res" where
  "resolve_existing existing fingerprint =
     (if ad_admission_fingerprint existing \<noteq> fingerprint
      then Raise TaskAdmissionConflict ''Capability request ID was reused with different admission semantics''
      else Ok (to_receipt existing True))"

definition admission_model :: "admission_bundle \<Rightarrow> time \<Rightarrow> admission_row" where
  "admission_model b committed_at =
     \<lparr>ad_admission_id = ab_admission_id b, ad_organization_id = td_organization_id (ab_task b),
      ad_request_id = rq_request_id (ab_request b), ad_task_id = td_task_id (ab_task b),
      ad_contract_id = tc_contract_id (ab_contract b),
      ad_bundle_schema_version = ''phase2-task-admission-bundle-v1'',
      ad_admission_fingerprint = admission_fingerprint b,
      ad_bundle_fingerprint = json_digest (canonical_task_admission_payload b),
      ad_bundle_payload = canonical_task_admission_payload b, ad_mode = mode_value (td_mode (ab_task b)),
      ad_committed_at = committed_at\<rparr>"

definition outbox_model :: "admission_bundle \<Rightarrow> time \<Rightarrow> outbox_row" where
  "outbox_model b committed_at =
     \<lparr>ob_outbox_id = ''outbox_'' @ ab_admission_id b, ob_admission_id = ab_admission_id b,
      ob_organization_id = td_organization_id (ab_task b),
      ob_event_type = aa_event_type (ab_audit_record b), ob_payload = audit_json False (ab_audit_record b),
      ob_status = ''pending'', ob_attempt_count = 0, ob_created_at = committed_at\<rparr>"

text \<open>Adding both rows under their unique constraints; \<open>None\<close> is an \<open>IntegrityError\<close>.\<close>

definition insert_admission :: "admission_row \<Rightarrow> outbox_row \<Rightarrow> 'z agent_db_scheme \<Rightarrow> 'z agent_db_scheme option" where
  "insert_admission m ob s =
     (if \<exists>r \<in> set (governed_task_admissions s). ad_admission_id r = ad_admission_id m \<or>
           ad_organization_id r = ad_organization_id m \<and>
             (ad_request_id r = ad_request_id m \<or> ad_task_id r = ad_task_id m)
      then None
      else if \<exists>r \<in> set (governance_outbox s). ob_outbox_id r = ob_outbox_id ob \<or>
           ob_admission_id r = ob_admission_id ob \<and> ob_event_type r = ob_event_type ob
      then None
      else Some (s\<lparr>governed_task_admissions := governed_task_admissions s @ [m],
                   governance_outbox := governance_outbox s @ [ob]\<rparr>))"

definition admission_allowed :: "string set \<Rightarrow> string set \<Rightarrow> admission_bundle \<Rightarrow> unit res" where
  "admission_allowed tenants capabilities b =
     (let tenant_ids = {td_organization_id (ab_task b), cs_organization_id (ab_creation_snapshot b),
            tc_organization_id (ab_contract b), rq_tenant_id (ab_request b),
            aa_organization_id (ab_audit_record b)};
          capability_ids = {rq_capability_ref (ab_request b), aa_capability_id (ab_audit_record b)} \<union>
            cg_capability_id ` set (ab_grants b) \<union> bs_capability_id ` set (bp_steps (ab_plan b)) \<union>
            tc_allowed_operations (ab_contract b)
      in checks
       [(td_mode (ab_task b) \<noteq> GMode_AUDIT \<or> tc_mode (ab_contract b) \<noteq> GMode_AUDIT,
         Exc ValueError ''Task admission persistence remains audit-only''),
        (tenant_ids \<noteq> {td_organization_id (ab_task b)},
         Exc ValueError ''Task admission tenant bindings are inconsistent''),
        (\<not> tenant_ids \<subseteq> tenants,
         Exc ValueError ''Task admission tenant is outside the repository allowlist''),
        (\<not> capability_ids \<subseteq> capabilities,
         Exc ValueError ''Task admission capability is outside the repository allowlist'')]
       (Ok ()))"

text \<open>
  \<open>persist_atomic\<close>. Between its query and its insert other transactions may commit: \<open>race\<close> maps the
  state the query saw to the state the insert meets.
\<close>

definition persist_atomic ::
  "('z agent_db_scheme \<Rightarrow> 'z agent_db_scheme) \<Rightarrow> string set \<Rightarrow> string set \<Rightarrow> time \<Rightarrow> admission_bundle \<Rightarrow>
   ('z agent_db_scheme, admission_receipt) prog" where
  "persist_atomic race tenants capabilities now b s =
     (case admission_allowed tenants capabilities b of
        Inl e \<Rightarrow> (Inl e, s)
      | Inr _ \<Rightarrow>
          (let org = td_organization_id (ab_task b); request = rq_request_id (ab_request b);
               fingerprint = admission_fingerprint b; model = admission_model b now
           in case find_admission org request s of
                Some existing \<Rightarrow> (resolve_existing existing fingerprint, s)
              | None \<Rightarrow>
                  (let u = race s in
                   case insert_admission model (outbox_model b now) u of
                     Some v \<Rightarrow> (Ok (to_receipt model False), v)
                   | None \<Rightarrow> (case find_admission org request u of
                        None \<Rightarrow> (Raise IntegrityError ''governed_task_admissions'', u)
                      | Some existing \<Rightarrow> (resolve_existing existing fingerprint, u)))))"

definition admit_task ::
  "('s \<Rightarrow> admission_receipt res \<times> 's) \<Rightarrow> admission_bundle \<Rightarrow> ('s, admission_receipt) prog" where
  "admit_task persist b =
     prog_bind persist (\<lambda>r s.
       if rt_admission_id r \<noteq> ab_admission_id b \<or> rt_task_id r \<noteq> td_task_id (ab_task b) \<or>
          rt_contract_id r \<noteq> tc_contract_id (ab_contract b)
       then (Raise TaskAdmissionRecoveryRequired
         (''Task admission receipt mismatch; reconcile '' @ ab_admission_id b @ '' before retry''), s)
       else (Ok r, s))"

section \<open>Contracts of created tasks\<close>

text \<open>\<open>ensure_task_contract\<close>; the task is its id, organization, goal and title, and the key of a new row is an argument.\<close>

definition ensure_task_contract ::
  "string \<Rightarrow> string \<Rightarrow> string \<Rightarrow> string option \<Rightarrow> string option \<Rightarrow> string \<Rightarrow> creation_snapshot \<Rightarrow> string option \<Rightarrow>
   ('z agent_db_scheme, task_contract) prog" where
  "ensure_task_contract new_id task_id organization_id navigation_goal title mode snapshot policy_version s =
     (if mode \<noteq> ''audit''
      then (Raise ValueError
        ''Task contract persistence is audit-only until enforce is separately approved'', s)
      else if task_id \<noteq> cs_task_id snapshot \<or> organization_id \<noteq> cs_organization_id snapshot
      then (Raise ValueError ''Task must match the trusted creation snapshot'', s)
      else case first_where (\<lambda>c. tc_task_id c = task_id) (task_contracts s) of
        Some existing \<Rightarrow> (Ok existing, s)
      | None \<Rightarrow>
          (let c = \<lparr>tc_contract_id = new_id, tc_task_id = task_id, tc_organization_id = organization_id,
                 tc_initiator_id = Some (cs_initiator_id snapshot),
                 tc_service_principal_id = cs_service_principal_id snapshot,
                 tc_department_id = cs_department_id snapshot,
                 tc_business_line_id = cs_business_line_id snapshot,
                 tc_goal = (if truthy navigation_goal then the navigation_goal
                            else if truthy title then the title else []),
                 tc_allowed_operations = {}, tc_data_scope = [],
                 tc_authorization_snapshot = snapshot_fields snapshot,
                 tc_policy_profile = ''financial-default'',
                 tc_policy_version = (if truthy policy_version then the policy_version
                                      else cs_policy_version snapshot),
                 tc_success_criteria = [], tc_expires_at = None,
                 tc_version = cs_contract_version snapshot, tc_mode = GMode_AUDIT\<rparr>
           in if new_id \<in> tc_contract_id ` set (task_contracts s)
              then (Raise IntegrityError ''task_contracts'', s)
              else (Ok c, s\<lparr>task_contracts := task_contracts s @ [c]\<rparr>)))"

section \<open>Laws\<close>

lemma validate_plan_proposal_steps:
  assumes "validate_plan_proposal plan q p grants reg now validator = Ok ()"
  shows "distinct (map bs_step_id (bp_steps plan)) \<and>
     (\<forall>s \<in> set (bp_steps plan). is_ok (require_executable grants (bs_capability_id s) (bs_grant_id s) now))"
  using assms unfolding validate_plan_proposal_def Let_def
  by (auto simp: res_bind_ok checks_ok validate_business_plan_ok simp del: checks.simps split: if_splits)

lemma validate_request_entry:
  assumes "validate_capability_request q p reg now validator = Ok e"
  shows "ge_capability_id e = rq_capability_ref q \<and> ge_grant_id e = rq_grant_ref q"
proof -
  from assms have "require_entry p (rq_capability_ref q) (rq_grant_ref q) now = Ok e"
    unfolding validate_capability_request_def checks_ok res_bind_ok by blast
  then show ?thesis by (auto simp: require_entry_def split: option.splits dest: find_mem)
qed

lemma prepare_admission_ok:
  "prepare_admission task snapshot contract q projection grants reg plan orders now validator = Ok b \<longleftrightarrow>
     (\<exists>entry grant. bindings_match task snapshot contract q projection plan now = Ok () \<and>
        validate_capability_request q projection reg now validator = Ok entry \<and>
        List.find (\<lambda>g. cg_grant_id g = rq_grant_ref q) grants = Some grant \<and>
        grant_matches grant snapshot contract q = Ok () \<and>
        validate_plan_proposal plan q projection grants reg now validator = Ok () \<and>
        bs_capability_id ` set (bp_steps plan) \<subseteq> tc_allowed_operations contract \<and>
        one_order_per_step plan orders = Ok () \<and>
        (\<forall>s \<in> set (bp_steps plan). check_order plan orders grants reg now s = Ok ()) \<and>
        cg_grant_id ` set (referenced_grants plan grants) = bs_grant_id ` set (bp_steps plan) \<and>
        (\<forall>g \<in> set (referenced_grants plan grants). cg_policy_snapshot_version g = tc_policy_version contract) \<and>
        b = build_bundle task snapshot contract q entry grant (referenced_grants plan grants) plan orders now)"
  unfolding prepare_admission_def res_bind_ok each_ok Let_def
  by (cases "List.find (\<lambda>g. cg_grant_id g = rq_grant_ref q) grants")
    (auto simp: res_bind_ok each_ok)

lemma build_bundle_fields [simp]:
  "ab_admission_id (build_bundle task snapshot contract q entry grant refs plan orders now) =
     admission_id_of (td_organization_id task) (rq_request_id q)"
  "ab_task (build_bundle task snapshot contract q entry grant refs plan orders now) = task"
  "ab_creation_snapshot (build_bundle task snapshot contract q entry grant refs plan orders now) = snapshot"
  "ab_contract (build_bundle task snapshot contract q entry grant refs plan orders now) = contract"
  "ab_request (build_bundle task snapshot contract q entry grant refs plan orders now) = q"
  "ab_grants (build_bundle task snapshot contract q entry grant refs plan orders now) = refs"
  "ab_plan (build_bundle task snapshot contract q entry grant refs plan orders now) = plan"
  "ab_work_orders (build_bundle task snapshot contract q entry grant refs plan orders now) = orders"
  "aa_organization_id (ab_audit_record (build_bundle task snapshot contract q entry grant refs plan orders now)) =
     td_organization_id task"
  "aa_capability_id (ab_audit_record (build_bundle task snapshot contract q entry grant refs plan orders now)) =
     ge_capability_id entry"
  by (simp_all add: build_bundle_def Let_def)

lemma check_order_ok:
  assumes "check_order plan orders grants reg now s = Ok ()"
  shows "\<exists>w \<in> set orders. wo_business_plan_step_id w = bs_step_id s \<and>
     validate_work_order w plan s grants now = Ok () \<and>
     (\<exists>d. require_capability (bs_capability_id s) reg = Ok d \<and> wo_result_probe_ref w = cd_result_probe_ref d)"
proof -
  from assms obtain w where w: "order_for orders s = Some w"
    by (cases "order_for orders s") (simp_all add: check_order_def)
  then have "w \<in> set orders \<and> wo_business_plan_step_id w = bs_step_id s"
    unfolding order_for_def by (rule find_mem)
  with assms w show ?thesis by (auto simp: check_order_def res_bind_ok split: if_splits)
qed

text \<open>Every capability a prepared bundle names is one its contract allows.\<close>

lemma referenced_capabilities:
  assumes distinct: "distinct (map cg_grant_id grants)"
    and steps: "\<forall>s \<in> set (bp_steps plan). is_ok (require_executable grants (bs_capability_id s) (bs_grant_id s) now)"
    and g: "g \<in> set (referenced_grants plan grants)"
  shows "cg_capability_id g \<in> bs_capability_id ` set (bp_steps plan)"
proof -
  from g obtain s where s: "g \<in> set grants" "s \<in> set (bp_steps plan)" "cg_grant_id g = bs_grant_id s"
    by (auto simp: referenced_grants_def)
  from steps s(2) obtain h where "h \<in> set grants" "cg_capability_id h = bs_capability_id s" "cg_grant_id h = bs_grant_id s"
    by (auto simp: executable_is_ok)
  moreover from this s(1,3) distinct have "h = g" by (metis distinct_map inj_onD)
  ultimately show ?thesis using s(2) by blast
qed

section \<open>Properties\<close>

text \<open>
  C29. A prepared admission is audit-only and of one tenant throughout;
  its id is a function of tenant and request; every step of its plan has exactly one work order,
  which is valid for the step under a grant that may execute now and probes with the registry's
  result probe; and every bundled grant has the contract's policy version. The repository accepts
  it exactly when it allows the tenant and every operation of the contract.
\<close>

theorem admission_prepared_governed:
  assumes prepared: "prepare_admission task snapshot contract q projection grants reg plan orders now validator = Ok b"
    and unique: "make_grant_set raw = Ok grants"
  shows "td_mode (ab_task b) = GMode_AUDIT \<and> tc_mode (ab_contract b) = GMode_AUDIT \<and>
     {cs_organization_id (ab_creation_snapshot b), tc_organization_id (ab_contract b), rq_tenant_id (ab_request b),
      aa_organization_id (ab_audit_record b)} = {td_organization_id (ab_task b)} \<and>
     ab_admission_id b = admission_id_of (td_organization_id (ab_task b)) (rq_request_id (ab_request b)) \<and>
     (\<forall>s \<in> set (bp_steps (ab_plan b)). \<exists>!w. w \<in> set (ab_work_orders b) \<and> wo_business_plan_step_id w = bs_step_id s) \<and>
     (\<forall>s \<in> set (bp_steps (ab_plan b)). \<exists>w \<in> set (ab_work_orders b).
        validate_work_order w (ab_plan b) s grants now = Ok () \<and>
        (\<exists>d. require_capability (bs_capability_id s) reg = Ok d \<and> wo_result_probe_ref w = cd_result_probe_ref d)) \<and>
     (\<forall>g \<in> set (ab_grants b). cg_policy_snapshot_version g = tc_policy_version (ab_contract b)) \<and>
     (admission_allowed tenants capabilities b = Ok () \<longleftrightarrow>
        td_organization_id (ab_task b) \<in> tenants \<and> tc_allowed_operations (ab_contract b) \<subseteq> capabilities)"
proof -
  from prepared [unfolded prepare_admission_ok] obtain entry grant where p:
      "bindings_match task snapshot contract q projection plan now = Ok ()"
      "validate_capability_request q projection reg now validator = Ok entry"
      "grant_matches grant snapshot contract q = Ok ()"
      "validate_plan_proposal plan q projection grants reg now validator = Ok ()"
      "bs_capability_id ` set (bp_steps plan) \<subseteq> tc_allowed_operations contract"
      "one_order_per_step plan orders = Ok ()"
      "\<forall>s \<in> set (bp_steps plan). check_order plan orders grants reg now s = Ok ()"
      "\<forall>g \<in> set (referenced_grants plan grants). cg_policy_snapshot_version g = tc_policy_version contract"
    and b: "b = build_bundle task snapshot contract q entry grant (referenced_grants plan grants) plan orders now"
    by blast
  have modes: "td_mode task = GMode_AUDIT" "tc_mode contract = GMode_AUDIT"
    and tenant: "cs_organization_id snapshot = td_organization_id task"
      "tc_organization_id contract = td_organization_id task" "rq_tenant_id q = td_organization_id task"
    using p(1) unfolding bindings_match_def checks_ok by simp_all
  have requested: "rq_capability_ref q \<in> tc_allowed_operations contract"
    using p(3) unfolding grant_matches_def checks_ok by simp
  have distinct: "distinct (map cg_grant_id grants)"
    using unique by (auto simp: make_grant_set_def split: if_splits)
  have referenced: "cg_capability_id ` set (referenced_grants plan grants) \<subseteq> tc_allowed_operations contract"
    using referenced_capabilities [OF distinct, of plan now] validate_plan_proposal_steps [OF p(4)] p(5) by blast
  have orders: "distinct (map wo_business_plan_step_id orders)"
    "wo_business_plan_step_id ` set orders = bs_step_id ` set (bp_steps plan)"
    using p(6) unfolding one_order_per_step_def checks_ok by simp_all
  have one: "\<exists>!w. w \<in> set orders \<and> wo_business_plan_step_id w = bs_step_id s" if "s \<in> set (bp_steps plan)" for s
  proof -
    have "bs_step_id s \<in> wo_business_plan_step_id ` set orders" using orders(2) that by blast
    then show ?thesis using orders(1) by (auto simp: distinct_map inj_on_def)
  qed
  have capabilities: "{rq_capability_ref q, ge_capability_id entry} \<union> cg_capability_id ` set (referenced_grants plan grants)
      \<union> bs_capability_id ` set (bp_steps plan) \<union> tc_allowed_operations contract = tc_allowed_operations contract"
    using requested referenced p(5) validate_request_entry [OF p(2)] by auto
  have allowed: "admission_allowed tenants capabilities b = Ok () \<longleftrightarrow>
      td_organization_id task \<in> tenants \<and> tc_allowed_operations contract \<subseteq> capabilities"
    unfolding admission_allowed_def Let_def checks_ok b build_bundle_fields capabilities
    by (simp add: modes tenant)
  have ordered: "\<exists>w \<in> set orders. validate_work_order w plan s grants now = Ok () \<and>
      (\<exists>d. require_capability (bs_capability_id s) reg = Ok d \<and> wo_result_probe_ref w = cd_result_probe_ref d)"
    if "s \<in> set (bp_steps plan)" for s
    using check_order_ok [OF p(7) [rule_format, OF that]] by blast
  show ?thesis
    unfolding allowed [folded b] unfolding b build_bundle_fields
    using allowed [unfolded b] modes tenant one ordered p(8) by simp
qed

definition sample_snapshot :: creation_snapshot where
  "sample_snapshot = \<lparr>cs_task_id = ''t'', cs_organization_id = ''org'', cs_creation_path = Path_NATIVE,
     cs_initiator_id = ''u'', cs_service_principal_id = None, cs_department_id = None,
     cs_business_line_id = None, cs_authorization_snapshot = [(''revocation_epoch'', JStr ''e'')],
     cs_policy_version = ''v'', cs_contract_version = 1, cs_created_at = 0, cs_request_id = Some ''q'',
     cs_workflow_id = None, cs_workflow_run_id = None, cs_template_id = None, cs_template_version = None,
     cs_template_run_id = None, cs_caller_id = None\<rparr>"

definition sample_draft :: task_draft where
  "sample_draft = \<lparr>td_task_id = ''t'', td_organization_id = ''org'', td_goal = ''pay'', td_mode = GMode_AUDIT\<rparr>"

definition sample_admitted_request :: capability_request where
  "sample_admitted_request = sample_request
     \<lparr>rq_contract_versions := [(''policy'', ''v''), (''task_contract'', show_int 1)]\<rparr>"

definition sample_task_contract :: task_contract where
  "sample_task_contract = \<lparr>tc_contract_id = ''c'', tc_task_id = ''t'', tc_organization_id = ''org'',
     tc_initiator_id = Some ''u'', tc_service_principal_id = None, tc_department_id = None,
     tc_business_line_id = None, tc_goal = ''pay'', tc_allowed_operations = {''pay''},
     tc_data_scope = scope_dump (rq_requested_scope sample_request),
     tc_authorization_snapshot = snapshot_fields sample_snapshot, tc_policy_profile = ''p'',
     tc_policy_version = ''v'', tc_success_criteria = [], tc_expires_at = None, tc_version = 1,
     tc_mode = GMode_AUDIT\<rparr>"

definition sample_order :: execution_work_order where
  "sample_order = \<lparr>wo_work_order_id = ''w'', wo_business_plan_step_id = ''s1'', wo_task_id = ''t'',
     wo_contract_id = ''c'', wo_plan_task_id = None, wo_authority_contract_id = None, wo_grant_id = ''g'',
     wo_navigation_goal = ''pay'', wo_allowed_operations = {}, wo_prohibited_operations = {},
     wo_success_criteria = [], wo_required_evidence = [], wo_max_recovery_level = L0,
     wo_result_probe_ref = ''p''\<rparr>"

definition sample_bundle :: admission_bundle where
  "sample_bundle = build_bundle sample_draft sample_snapshot sample_task_contract sample_admitted_request
     (hd (gp_entries sample_projection)) sample_grant [sample_grant] sample_proposal [sample_order] 5"

lemma sample_prepared:
  "prepare_admission sample_draft sample_snapshot sample_task_contract sample_admitted_request sample_projection
     [sample_grant] [(''pay'', sample_capability)] sample_proposal [sample_order] 5 None = Ok sample_bundle"
proof -
  have request: "validate_capability_request sample_admitted_request sample_projection
      [(''pay'', sample_capability)] 5 None = validate_capability_request sample_request sample_projection
      [(''pay'', sample_capability)] 5 None"
    by (simp add: validate_capability_request_def sample_admitted_request_def)
  have entry: "validate_capability_request sample_request sample_projection
      [(''pay'', sample_capability)] 5 None = Ok (hd (gp_entries sample_projection))"
    by (simp add: validate_capability_request_def sample_request_def sample_projection_def require_entry_def
          request_scope_expands_def sample_plan_of_def require_capability_def dict_require_def
          sample_capability_def validate_inputs_def)
  have plan: "validate_plan_proposal sample_proposal sample_admitted_request sample_projection [sample_grant]
       [(''pay'', sample_capability)] 5 None = Ok ()"
  proof -
    have same: "rq_request_kind sample_admitted_request = rq_request_kind sample_request"
      "rq_request_id sample_admitted_request = rq_request_id sample_request"
      "rq_capability_ref sample_admitted_request = rq_capability_ref sample_request"
      "rq_grant_ref sample_admitted_request = rq_grant_ref sample_request"
      "rq_typed_inputs sample_admitted_request = rq_typed_inputs sample_request"
      "rq_requested_scope sample_admitted_request = rq_requested_scope sample_request"
      "rq_resource_refs sample_admitted_request = rq_resource_refs sample_request"
      by (simp_all add: sample_admitted_request_def)
    show ?thesis
      using sample_proposal_valid
      unfolding validate_plan_proposal_def request same .
  qed
  have scope: "json_eq (JObj (scope_dump (bp_data_scope (sample_plan_of 1))))
      (JObj (scope_dump (bp_data_scope (sample_plan_of 1))))"
    by (simp add: scope_dump_def sample_plan_of_def set_dump_def jstr_opt_def)
  have snapshot: "json_eq (JObj (snapshot_fields sample_snapshot)) (JObj (snapshot_fields sample_snapshot))"
    by (simp add: snapshot_fields_def sample_snapshot_def jstr_opt_def)
  have bindings: "bindings_match sample_draft sample_snapshot sample_task_contract sample_admitted_request
      sample_projection sample_proposal 5 = Ok ()"
    unfolding bindings_match_def checks_ok
    using scope snapshot
    by (simp add: sample_draft_def sample_task_contract_def sample_admitted_request_def
          sample_request_def sample_proposal_def sample_plan_of_def sample_snapshot_def sample_projection_def)
  have matches: "grant_matches sample_grant sample_snapshot sample_task_contract sample_admitted_request = Ok ()"
    by (simp add: grant_matches_def sample_grant_def sample_snapshot_def sample_task_contract_def
          sample_admitted_request_def sample_request_def get_value_def)
  have order: "check_order sample_proposal [sample_order] [sample_grant] [(''pay'', sample_capability)] 5 st = Ok ()"
    if "st \<in> set (bp_steps sample_proposal)" for st
  proof -
    from that have st: "st = hd (bp_steps sample_proposal)" by (simp add: sample_proposal_def)
    have "validate_work_order sample_order sample_proposal st [sample_grant] 5 = Ok ()"
      unfolding work_order_within_plan st
      by (simp add: sample_order_def sample_proposal_def sample_plan_of_def same_step_def sample_grant_def
            grant_allows_def is_active_at_def)
    then show ?thesis
      by (simp add: st check_order_def order_for_def sample_order_def sample_proposal_def require_capability_def
            dict_require_def sample_capability_def)
  qed
  have found: "List.find (\<lambda>g. cg_grant_id g = rq_grant_ref sample_admitted_request) [sample_grant] = Some sample_grant"
    by (simp add: sample_admitted_request_def sample_request_def sample_grant_def)
  have refs: "referenced_grants sample_proposal [sample_grant] = [sample_grant]"
    by (simp add: referenced_grants_def sort_by_def sample_grant_def sample_proposal_def)
  have one: "one_order_per_step sample_proposal [sample_order] = Ok ()"
    "bs_capability_id ` set (bp_steps sample_proposal) \<subseteq> tc_allowed_operations sample_task_contract"
    "cg_grant_id ` set [sample_grant] = bs_grant_id ` set (bp_steps sample_proposal)"
    "\<forall>g \<in> set [sample_grant]. cg_policy_snapshot_version g = tc_policy_version sample_task_contract"
    by (simp_all add: one_order_per_step_def sample_order_def sample_proposal_def sample_task_contract_def sample_grant_def)
  show ?thesis
    unfolding prepare_admission_ok refs
    using bindings matches plan order entry [folded request] found one sample_bundle_def by blast
qed

theorem admission_prepared_governed_witness:
  "is_ok (prepare_admission sample_draft sample_snapshot sample_task_contract sample_admitted_request
       sample_projection [sample_grant] [(''pay'', sample_capability)] sample_proposal [sample_order] 5 None) \<and>
   admission_allowed {''org''} {''pay''} sample_bundle = Ok () \<and>
   admission_allowed {''other''} {''pay''} sample_bundle \<noteq> Ok ()"
proof -
  have "make_grant_set [sample_grant] = Ok [sample_grant]" by (simp add: make_grant_set_def)
  note law = admission_prepared_governed [OF sample_prepared this, THEN conjunct2, THEN conjunct2,
      THEN conjunct2, THEN conjunct2, THEN conjunct2, THEN conjunct2, THEN conjunct2]
  have fields: "td_organization_id (ab_task sample_bundle) = ''org''"
    "tc_allowed_operations (ab_contract sample_bundle) = {''pay''}"
    by (simp_all add: sample_bundle_def sample_draft_def sample_task_contract_def)
  show ?thesis
    using sample_prepared law [of "{''org''}" "{''pay''}"] law [of "{''other''}" "{''pay''}"]
    unfolding fields by (simp add: is_ok_iff)
qed

text \<open>The admission and outbox tables: unique keys, and one outbox row for each admission.\<close>

definition admission_tables :: "'z agent_db_scheme \<Rightarrow> bool" where
  "admission_tables s \<longleftrightarrow>
     distinct (map ad_admission_id (governed_task_admissions s)) \<and>
     distinct (map (\<lambda>r. (ad_organization_id r, ad_request_id r)) (governed_task_admissions s)) \<and>
     distinct (map (\<lambda>r. (ad_organization_id r, ad_task_id r)) (governed_task_admissions s)) \<and>
     map ob_admission_id (governance_outbox s) = map ad_admission_id (governed_task_admissions s)"

lemma find_admission_member:
  assumes "find_admission org request s = Some r"
  shows "r \<in> set (governed_task_admissions s) \<and> ad_organization_id r = org \<and> ad_request_id r = request"
  using assms unfolding find_admission_def by (metis (mono_tags, lifting) first_where_Some)

lemma find_admission_unique:
  assumes "admission_tables s" and "r \<in> set (governed_task_admissions s)"
    and "ad_organization_id r = org" and "ad_request_id r = request"
  shows "find_admission org request s = Some r"
proof (cases "find_admission org request s")
  case None
  with assms(2-4) show ?thesis by (auto simp: find_admission_def first_where_None)
next
  case (Some q)
  from find_admission_member [OF this] assms have "q = r"
    by (auto simp: admission_tables_def distinct_map dest: inj_onD)
  with Some show ?thesis by simp
qed

lemma insert_admission_tables:
  assumes tables: "admission_tables s" and inserted: "insert_admission (admission_model b now) (outbox_model b now) s = Some v"
  shows "admission_tables v \<and> v = s\<lparr>governed_task_admissions := governed_task_admissions s @ [admission_model b now],
     governance_outbox := governance_outbox s @ [outbox_model b now]\<rparr>"
proof -
  let ?m = "admission_model b now"
  from inserted have fresh: "\<forall>r \<in> set (governed_task_admissions s). ad_admission_id r \<noteq> ad_admission_id ?m \<and>
      \<not> (ad_organization_id r = ad_organization_id ?m \<and>
         (ad_request_id r = ad_request_id ?m \<or> ad_task_id r = ad_task_id ?m))"
    and v: "v = s\<lparr>governed_task_admissions := governed_task_admissions s @ [?m],
     governance_outbox := governance_outbox s @ [outbox_model b now]\<rparr>"
    by (auto simp: insert_admission_def split: if_splits)
  have "ob_admission_id (outbox_model b now) = ad_admission_id ?m"
    by (simp add: outbox_model_def admission_model_def)
  with tables fresh have "admission_tables v"
    unfolding v admission_tables_def by auto
  with v show ?thesis by simp
qed

lemma admission_model_keys [simp]:
  "ad_organization_id (admission_model b now) = td_organization_id (ab_task b)"
  "ad_request_id (admission_model b now) = rq_request_id (ab_request b)"
  "ad_admission_fingerprint (admission_model b now) = admission_fingerprint b"
  by (simp_all add: admission_model_def)

lemma persist_again:
  assumes "find_admission (td_organization_id (ab_task b)) (rq_request_id (ab_request b)) s = Some row"
    and "admission_allowed tenants capabilities b = Ok ()"
  shows "persist_atomic race tenants capabilities now b s = (resolve_existing row (admission_fingerprint b), s)"
  using assms by (simp add: persist_atomic_def Let_def)

text \<open>What one call of \<open>persist_atomic\<close> does, case by case.\<close>

lemma persist_cases:
  assumes persisted: "persist_atomic race tenants capabilities now b s = (r, s')"
  obtains (refused) e where "r = Inl e" "s' = s \<or> s' = race s"
  | (known) row where "find_admission (td_organization_id (ab_task b)) (rq_request_id (ab_request b)) s' = Some row"
      "ad_admission_fingerprint row = admission_fingerprint b" "r = Ok (to_receipt row True)" "s' = s \<or> s' = race s"
  | (inserted) "insert_admission (admission_model b now) (outbox_model b now) (race s) = Some s'"
      "r = Ok (to_receipt (admission_model b now) False)"
proof -
  let ?org = "td_organization_id (ab_task b)" and ?request = "rq_request_id (ab_request b)"
  have existing: thesis
    if "find_admission ?org ?request s' = Some row" "r = resolve_existing row (admission_fingerprint b)"
      "s' = s \<or> s' = race s" for row
    using that refused known by (cases "ad_admission_fingerprint row = admission_fingerprint b")
      (simp_all add: resolve_existing_def)
  show thesis
  proof (cases "admission_allowed tenants capabilities b")
    case (Inl e)
    with persisted show thesis by (intro refused [of e]) (simp_all add: persist_atomic_def)
  next
    case (Inr u)
    note call = persisted [unfolded persist_atomic_def Inr Let_def sum.case]
    show thesis
    proof (cases "find_admission ?org ?request s")
      case (Some row)
      with call show thesis by (intro existing [of row]) simp_all
    next
      case None
      note call = call [unfolded None option.case]
      show thesis
      proof (cases "insert_admission (admission_model b now) (outbox_model b now) (race s)")
        case (Some v)
        with call show thesis by (intro inserted) simp_all
      next
        case failed: None
        show thesis
        proof (cases "find_admission ?org ?request (race s)")
          case None
          with failed call show thesis by (intro refused) auto
        next
          case (Some row)
          with failed call show thesis by (intro existing [of row]) simp_all
        qed
      qed
    qed
  qed
qed

text \<open>
  C30. Whatever other transactions commit between its query and its insert,
  persisting a bundle keeps the admission and outbox tables consistent and either fails without
  writing, or returns the receipt of the only admission row of that tenant and request, whose
  fingerprint is the bundle's; the row is new, with its one outbox event, exactly when the receipt is
  no duplicate. Afterwards every admission of the same tenant and request returns the same receipt,
  marked duplicate, if it means the same, and is a conflict otherwise, and writes nothing.
\<close>

theorem admission_exactly_once:
  assumes tables: "admission_tables s" "admission_tables (race s)"
    and persisted: "persist_atomic race tenants capabilities now b s = (r, s')"
  shows "admission_tables s' \<and>
     (case r of
        Inl e \<Rightarrow> s' = s \<or> s' = race s
      | Inr receipt \<Rightarrow> (\<exists>row.
          find_admission (td_organization_id (ab_task b)) (rq_request_id (ab_request b)) s' = Some row \<and>
          ad_admission_fingerprint row = admission_fingerprint b \<and>
          receipt = to_receipt row (rt_duplicate receipt) \<and>
          (if rt_duplicate receipt then s' = s \<or> s' = race s
           else s' = (race s)\<lparr>governed_task_admissions := governed_task_admissions (race s) @ [row],
                  governance_outbox := governance_outbox (race s) @ [outbox_model b now]\<rparr>)) \<and>
          (\<forall>race' tenants' capabilities' now' b'.
             td_organization_id (ab_task b') = td_organization_id (ab_task b) \<and>
             rq_request_id (ab_request b') = rq_request_id (ab_request b) \<and>
             admission_allowed tenants' capabilities' b' = Ok () \<longrightarrow>
             persist_atomic race' tenants' capabilities' now' b' s' =
               (if admission_fingerprint b' = admission_fingerprint b then Ok (receipt\<lparr>rt_duplicate := True\<rparr>)
                else Raise TaskAdmissionConflict
                  ''Capability request ID was reused with different admission semantics'', s')))"
proof -
  have again: "\<forall>race' tenants' capabilities' now' b'.
      td_organization_id (ab_task b') = td_organization_id (ab_task b) \<and>
      rq_request_id (ab_request b') = rq_request_id (ab_request b) \<and>
      admission_allowed tenants' capabilities' b' = Ok () \<longrightarrow>
      persist_atomic race' tenants' capabilities' now' b' s' =
        (if admission_fingerprint b' = admission_fingerprint b then Ok ((to_receipt row d)\<lparr>rt_duplicate := True\<rparr>)
         else Raise TaskAdmissionConflict
           ''Capability request ID was reused with different admission semantics'', s')"
    if "find_admission (td_organization_id (ab_task b)) (rq_request_id (ab_request b)) s' = Some row"
      "ad_admission_fingerprint row = admission_fingerprint b" for row d
  proof (intro allI impI)
    fix race' tenants' capabilities' now' b'
    assume "td_organization_id (ab_task b') = td_organization_id (ab_task b) \<and>
      rq_request_id (ab_request b') = rq_request_id (ab_request b) \<and>
      admission_allowed tenants' capabilities' b' = Ok ()"
    with that have "persist_atomic race' tenants' capabilities' now' b' s' =
        (resolve_existing row (admission_fingerprint b'), s')" by (intro persist_again) simp_all
    with that show "persist_atomic race' tenants' capabilities' now' b' s' =
        (if admission_fingerprint b' = admission_fingerprint b then Ok ((to_receipt row d)\<lparr>rt_duplicate := True\<rparr>)
         else Raise TaskAdmissionConflict
           ''Capability request ID was reused with different admission semantics'', s')"
      by (simp add: resolve_existing_def to_receipt_def)
  qed
  from persisted show ?thesis
  proof (cases rule: persist_cases)
    case (refused e)
    with tables show ?thesis by auto
  next
    case (known row)
    from known(4) tables have "admission_tables s'" by auto
    then show ?thesis
      unfolding known(3) sum.case using known(1,2,4) again [OF known(1,2), of True]
      by (intro conjI exI [of _ row]) (simp_all add: to_receipt_def)
  next
    case inserted
    let ?m = "admission_model b now"
    note s' = insert_admission_tables [OF tables(2) inserted(1)]
    have "find_admission (td_organization_id (ab_task b)) (rq_request_id (ab_request b)) s' = Some ?m"
      by (rule find_admission_unique [OF s' [THEN conjunct1]]) (simp_all add: s' [THEN conjunct2])
    note found = this
    show ?thesis
      unfolding inserted(2) sum.case
    proof (intro conjI exI [of _ ?m])
      show "admission_tables s'" using s' by (rule conjunct1)
    qed (use found again [OF found, of False] s' [THEN conjunct2] in \<open>simp_all add: to_receipt_def\<close>)
  qed
qed

definition empty_agent_db :: agent_db where
  "empty_agent_db = \<lparr>execution_permits = [], execution_attempts = [], pending_actions = [], approval_requests = [],
     tasks = [], steps = [], governance_audit_events = [], governed_task_admissions = [],
     governance_outbox = [], task_contracts = []\<rparr>"

theorem admission_exactly_once_witness:
  "\<exists>receipt s'. persist_atomic id {''org''} {''pay''} 7 sample_bundle empty_agent_db = (Ok receipt, s') \<and>
     \<not> rt_duplicate receipt \<and> length (governance_outbox s') = 1 \<and>
     persist_atomic id {''org''} {''pay''} 8 sample_bundle s' = (Ok (receipt\<lparr>rt_duplicate := True\<rparr>), s')"
proof -
  let ?r = "to_receipt (admission_model sample_bundle 7) False"
  have allowed: "admission_allowed {''org''} {''pay''} sample_bundle = Ok ()"
    unfolding admission_allowed_def Let_def checks_ok
    by (simp add: sample_bundle_def sample_draft_def sample_snapshot_def sample_task_contract_def
          sample_admitted_request_def sample_request_def sample_projection_def sample_grant_def sample_proposal_def)
  have empty: "admission_tables empty_agent_db" "find_admission org request empty_agent_db = None"
    "insert_admission m ob empty_agent_db = Some (empty_agent_db
       \<lparr>governed_task_admissions := [m], governance_outbox := [ob]\<rparr>)" for org request m ob
    by (simp_all add: empty_agent_db_def admission_tables_def find_admission_def first_where_def
          insert_admission_def)
  then obtain s' where first: "persist_atomic id {''org''} {''pay''} 7 sample_bundle empty_agent_db = (Ok ?r, s')"
    and s': "length (governance_outbox s') = 1"
    using allowed by (simp add: persist_atomic_def Let_def)
  have raced: "admission_tables (id empty_agent_db)" using empty(1) by simp
  have "persist_atomic id {''org''} {''pay''} 8 sample_bundle s' = (Ok (?r\<lparr>rt_duplicate := True\<rparr>), s')"
    using admission_exactly_once [OF empty(1) raced first, unfolded sum.case, THEN conjunct2, THEN conjunct2,
        rule_format, of sample_bundle "{''org''}" "{''pay''}" id 8] allowed by simp
  with first s' show ?thesis by (intro exI [of _ ?r] exI [of _ s']) (simp add: to_receipt_def)
qed

end
