(* ===== verification/Inputs.thy ===== *)
theory Inputs
  imports Journal
begin

text \<open>
  \<open>enterprise/governance/input_contracts.py\<close> and \<open>enterprise/agent_runs/pause_signal.py\<close>: the inputs a
  pack declares, the signal that pauses a run, their validators, and the redaction
  (\<open>_redact_pause_signal\<close> of \<open>agent_runs/service.py\<close>) a signal passes before it is stored. Pydantic's
  lower bounds on string lengths are part of the validators; documents are read back as the code
  writes them.
\<close>

section \<open>Input contracts\<close>

datatype input_source = Src_USER | Src_SYSTEM | Src_ADAPTER | Src_OBSERVED | Src_MODEL | Src_REJECT_MODEL

fun source_value :: "input_source \<Rightarrow> string" where
  "source_value Src_USER = ''user''"
| "source_value Src_SYSTEM = ''system''"
| "source_value Src_ADAPTER = ''adapter''"
| "source_value Src_OBSERVED = ''observed''"
| "source_value Src_MODEL = ''model''"
| "source_value Src_REJECT_MODEL = ''reject_model''"

definition all_sources :: "input_source list" where
  "all_sources = [Src_USER, Src_SYSTEM, Src_ADAPTER, Src_OBSERVED, Src_MODEL, Src_REJECT_MODEL]"

datatype input_sensitivity = Sens_PUBLIC | Sens_INTERNAL | Sens_SENSITIVE | Sens_SECRET

fun sensitivity_value :: "input_sensitivity \<Rightarrow> string" where
  "sensitivity_value Sens_PUBLIC = ''public''"
| "sensitivity_value Sens_INTERNAL = ''internal''"
| "sensitivity_value Sens_SENSITIVE = ''sensitive''"
| "sensitivity_value Sens_SECRET = ''secret''"

definition all_sensitivities :: "input_sensitivity list" where
  "all_sensitivities = [Sens_PUBLIC, Sens_INTERNAL, Sens_SENSITIVE, Sens_SECRET]"

datatype input_slot_status = Slot_MISSING | Slot_INVALID | Slot_READY

fun slot_status_value :: "input_slot_status \<Rightarrow> string" where
  "slot_status_value Slot_MISSING = ''missing''"
| "slot_status_value Slot_INVALID = ''invalid''"
| "slot_status_value Slot_READY = ''ready''"

datatype input_target_kind = Target_TEXT | Target_NUMBER | Target_BOOLEAN | Target_DATE | Target_URL
  | Target_SELECT | Target_IDENTIFIER | Target_CUSTOM

fun target_value :: "input_target_kind \<Rightarrow> string" where
  "target_value Target_TEXT = ''text''"
| "target_value Target_NUMBER = ''number''"
| "target_value Target_BOOLEAN = ''boolean''"
| "target_value Target_DATE = ''date''"
| "target_value Target_URL = ''url''"
| "target_value Target_SELECT = ''select''"
| "target_value Target_IDENTIFIER = ''identifier''"
| "target_value Target_CUSTOM = ''custom''"

definition all_targets :: "input_target_kind list" where
  "all_targets = [Target_TEXT, Target_NUMBER, Target_BOOLEAN, Target_DATE, Target_URL, Target_SELECT,
     Target_IDENTIFIER, Target_CUSTOM]"

definition protected_input :: "input_sensitivity \<Rightarrow> bool" where
  "protected_input v = (v \<in> {Sens_SENSITIVE, Sens_SECRET})"

record input_slot =
  sl_slot_name :: string
  sl_target_kind :: input_target_kind
  sl_source :: input_source
  sl_sensitivity :: input_sensitivity
  sl_required :: bool
  sl_allowed_sources :: "input_source list"

definition validate_slot :: "input_slot \<Rightarrow> unit res" where
  "validate_slot s = checks
     [(sl_slot_name s = [], Exc ValueError ''slot_name: String should have at least 1 character''),
      (sl_allowed_sources s = [] \<or> \<not> distinct (sl_allowed_sources s),
       Exc ValueError ''Input slot allowed sources must be non-empty and unique''),
      (sl_source s \<notin> set (sl_allowed_sources s), Exc ValueError ''Input slot source must be allowed''),
      (protected_input (sl_sensitivity s) \<and> Src_MODEL \<in> set (sl_allowed_sources s),
       Exc ValueError ''Sensitive input slots cannot allow model as a source'')]
     (Ok ())"

record adapter_requirement =
  aq_requirement_name :: string
  aq_target_kind :: input_target_kind
  aq_required :: bool
  aq_source :: input_source
  aq_sensitivity :: input_sensitivity
  aq_description :: string

definition validate_requirement :: "adapter_requirement \<Rightarrow> unit res" where
  "validate_requirement r = checks
     [(aq_requirement_name r = [], Exc ValueError ''requirement_name: String should have at least 1 character''),
      (protected_input (aq_sensitivity r) \<and> aq_source r = Src_MODEL,
       Exc ValueError ''Sensitive adapter requirements cannot use model as a source'')]
     (Ok ())"

record field_binding =
  fb_binding_version :: string
  fb_slot_name :: string
  fb_adapter_field :: string
  fb_target_kind :: input_target_kind
  fb_adapter_id :: string
  fb_source :: input_source
  fb_sensitivity :: input_sensitivity

definition validate_field_binding :: "field_binding \<Rightarrow> unit res" where
  "validate_field_binding b = checks
     [(fb_binding_version b = [] \<or> fb_slot_name b = [] \<or> fb_adapter_field b = [] \<or> fb_adapter_id b = [],
       Exc ValueError ''FieldBinding: String should have at least 1 character''),
      (protected_input (fb_sensitivity b) \<and> fb_source b = Src_MODEL,
       Exc ValueError ''Sensitive field bindings cannot use model as a source'')]
     (Ok ())"

record input_request =
  iq_request_id :: string
  iq_pack_id :: string
  iq_pack_version :: string
  iq_slots :: "input_slot list"
  iq_adapter_requirements :: "adapter_requirement list"
  iq_bindings :: "field_binding list"
  iq_values :: jobject
  iq_status :: "(string \<times> input_slot_status) list"
  iq_recovery :: bool
  iq_external_effect_started :: bool

definition validate_input_request :: "input_request \<Rightarrow> unit res" where
  "validate_input_request r =
     res_bind (each validate_slot (iq_slots r)) (\<lambda>_.
     res_bind (each validate_requirement (iq_adapter_requirements r)) (\<lambda>_.
     res_bind (each validate_field_binding (iq_bindings r)) (\<lambda>_.
     let names = map sl_slot_name (iq_slots r) in checks
       [(iq_request_id r = [], Exc ValueError ''request_id: String should have at least 1 character''),
        (\<not> distinct names, Exc ValueError ''Input request slot names must be unique''),
        (\<not> distinct (map fb_slot_name (iq_bindings r)),
         Exc ValueError ''Input request bindings must be unique per slot''),
        (\<not> fst ` set (iq_values r) \<subseteq> set names \<or> \<not> fst ` set (iq_status r) \<subseteq> set names,
         Exc ValueError ''Input values and statuses must reference declared slots''),
        (iq_recovery r \<and> iq_external_effect_started r,
         Exc ValueError ''Input recovery is permitted only before an external effect'')]
       (Ok ()))))"

section \<open>Pause signals\<close>

datatype pause_outcome = Outcome_AWAITING_INPUT | Outcome_NEEDS_HUMAN

fun pause_outcome_value :: "pause_outcome \<Rightarrow> string" where
  "pause_outcome_value Outcome_AWAITING_INPUT = ''awaiting_input''"
| "pause_outcome_value Outcome_NEEDS_HUMAN = ''needs_human''"

datatype pause_action = Pause_SUBMIT_INPUT | Pause_RESUME | Pause_TAKE_OVER | Pause_CANCEL

fun pause_action_value :: "pause_action \<Rightarrow> string" where
  "pause_action_value Pause_SUBMIT_INPUT = ''submit_input''"
| "pause_action_value Pause_RESUME = ''resume''"
| "pause_action_value Pause_TAKE_OVER = ''take_over''"
| "pause_action_value Pause_CANCEL = ''cancel''"

definition all_pause_actions :: "pause_action list" where
  "all_pause_actions = [Pause_SUBMIT_INPUT, Pause_RESUME, Pause_TAKE_OVER, Pause_CANCEL]"

datatype resume_policy = Policy_INPUT_SUBMISSION | Policy_HUMAN_TAKEOVER | Policy_MANUAL_REVIEW
  | Policy_NO_RESUME

fun resume_policy_value :: "resume_policy \<Rightarrow> string" where
  "resume_policy_value Policy_INPUT_SUBMISSION = ''input_submission''"
| "resume_policy_value Policy_HUMAN_TAKEOVER = ''human_takeover''"
| "resume_policy_value Policy_MANUAL_REVIEW = ''manual_review''"
| "resume_policy_value Policy_NO_RESUME = ''no_resume''"

definition all_resume_policies :: "resume_policy list" where
  "all_resume_policies =
     [Policy_INPUT_SUBMISSION, Policy_HUMAN_TAKEOVER, Policy_MANUAL_REVIEW, Policy_NO_RESUME]"

record pause_prompt =
  pp_title :: string
  pp_message :: string
  pp_locale :: "string option"

record pause_signal =
  ps_outcome :: pause_outcome
  ps_reason_code :: string
  ps_run_id :: string
  ps_task_id :: "string option"
  ps_step_id :: "string option"
  ps_checkpoint_id :: "string option"
  ps_input_request :: "input_request option"
  ps_prompt :: "pause_prompt option"
  ps_allowed_actions :: "pause_action list"
  ps_resume_policy :: resume_policy
  ps_external_effect_started :: bool
  ps_expires_at :: "time option"

text \<open>The pattern \<open>^[A-Z][A-Z0-9_]*$\<close> with its length bounds, and the bounds of the other fields.\<close>

definition reason_code_ok :: "string \<Rightarrow> bool" where
  "reason_code_ok s =
     (2 \<le> length s \<and> length s \<le> 64 \<and> hd s \<in> set upper_letters \<and>
      set s \<subseteq> set upper_letters \<union> set ''0123456789_'')"

definition prompt_ok :: "pause_prompt \<Rightarrow> bool" where
  "prompt_ok p =
     (1 \<le> length (pp_title p) \<and> length (pp_title p) \<le> 120 \<and>
      1 \<le> length (pp_message p) \<and> length (pp_message p) \<le> 2000 \<and>
      (case pp_locale p of None \<Rightarrow> True | Some l \<Rightarrow> 2 \<le> length l \<and> length l \<le> 32))"

definition optional_ok :: "('a \<Rightarrow> bool) \<Rightarrow> 'a option \<Rightarrow> bool" where
  "optional_ok p v = (case v of None \<Rightarrow> True | Some x \<Rightarrow> p x)"

definition signal_fields_ok :: "pause_signal \<Rightarrow> bool" where
  "signal_fields_ok s =
     (reason_code_ok (ps_reason_code s) \<and> ps_run_id s \<noteq> [] \<and>
      optional_ok (\<lambda>i. i \<noteq> []) (ps_task_id s) \<and> optional_ok (\<lambda>i. i \<noteq> []) (ps_step_id s) \<and>
      optional_ok (\<lambda>i. i \<noteq> []) (ps_checkpoint_id s) \<and> optional_ok prompt_ok (ps_prompt s))"

text \<open>\<open>validate_invariants\<close>; a time of the model is always timezone-aware.\<close>

definition validate_invariants :: "pause_signal \<Rightarrow> unit res" where
  "validate_invariants s = checks
     [(\<not> distinct (ps_allowed_actions s), Exc ValueError ''Pause signal allowed actions must be unique''),
      (ps_outcome s = Outcome_AWAITING_INPUT \<and> ps_external_effect_started s,
       Exc ValueError ''AWAITING_INPUT is permitted only before an external effect''),
      (ps_outcome s = Outcome_AWAITING_INPUT \<and> ps_input_request s = None,
       Exc ValueError ''AWAITING_INPUT requires an input request''),
      (ps_outcome s = Outcome_AWAITING_INPUT \<and> Pause_SUBMIT_INPUT \<notin> set (ps_allowed_actions s),
       Exc ValueError ''AWAITING_INPUT requires submit-input action''),
      (ps_outcome s = Outcome_AWAITING_INPUT \<and> ps_resume_policy s \<noteq> Policy_INPUT_SUBMISSION,
       Exc ValueError ''AWAITING_INPUT requires input-submission resume policy''),
      (ps_outcome s \<noteq> Outcome_AWAITING_INPUT \<and> ps_resume_policy s = Policy_INPUT_SUBMISSION,
       Exc ValueError ''Input-submission resume policy is only valid for AWAITING_INPUT''),
      ((case ps_input_request s of None \<Rightarrow> False
          | Some q \<Rightarrow> iq_external_effect_started q \<noteq> ps_external_effect_started s),
       Exc ValueError ''Input request and pause signal external-effect state must match''),
      ((case ps_input_request s of None \<Rightarrow> False
          | Some q \<Rightarrow> iq_recovery q \<and> ps_outcome s \<noteq> Outcome_AWAITING_INPUT),
       Exc ValueError ''Input recovery is only valid for AWAITING_INPUT''),
      ((case ps_input_request s of None \<Rightarrow> False
          | Some q \<Rightarrow> iq_recovery q \<and> ps_external_effect_started s),
       Exc ValueError ''Input recovery cannot replay after an external effect''),
      (ps_external_effect_started s \<and> Pause_SUBMIT_INPUT \<in> set (ps_allowed_actions s),
       Exc ValueError ''Input submission is not allowed after an external effect'')]
     (Ok ())"

text \<open>Constructing a \<open>RunPauseSignal\<close>: its fields, the nested request, then the invariants.\<close>

definition validate_pause_signal :: "pause_signal \<Rightarrow> unit res" where
  "validate_pause_signal s =
     (if \<not> signal_fields_ok s then Raise ValueError ''validation error for RunPauseSignal''
      else res_bind (case ps_input_request s of None \<Rightarrow> Ok () | Some q \<Rightarrow> validate_input_request q)
        (\<lambda>_. validate_invariants s))"

definition redact_pause_signal :: "pause_signal \<Rightarrow> pause_signal" where
  "redact_pause_signal s =
     s\<lparr>ps_prompt := map_option (\<lambda>p. p\<lparr>pp_message :=
           ''Additional information is required to continue this run.''\<rparr>) (ps_prompt s),
       ps_input_request := map_option (\<lambda>q. q\<lparr>iq_values := [], iq_bindings := [],
           iq_adapter_requirements := []\<rparr>) (ps_input_request s)\<rparr>"

section \<open>The stored document\<close>

definition sources_dump :: "input_source list \<Rightarrow> json" where
  "sources_dump xs = JArr (map (\<lambda>x. JStr (source_value x)) xs)"

definition slot_dump :: "input_slot \<Rightarrow> json" where
  "slot_dump s = JObj
     [(''slot_name'', JStr (sl_slot_name s)), (''target_kind'', JStr (target_value (sl_target_kind s))),
      (''source'', JStr (source_value (sl_source s))),
      (''sensitivity'', JStr (sensitivity_value (sl_sensitivity s))),
      (''required'', JBool (sl_required s)), (''allowed_sources'', sources_dump (sl_allowed_sources s))]"

definition requirement_dump :: "adapter_requirement \<Rightarrow> json" where
  "requirement_dump r = JObj
     [(''requirement_name'', JStr (aq_requirement_name r)),
      (''target_kind'', JStr (target_value (aq_target_kind r))), (''required'', JBool (aq_required r)),
      (''source'', JStr (source_value (aq_source r))),
      (''sensitivity'', JStr (sensitivity_value (aq_sensitivity r))),
      (''description'', JStr (aq_description r))]"

definition field_binding_dump :: "field_binding \<Rightarrow> json" where
  "field_binding_dump b = JObj
     [(''binding_version'', JStr (fb_binding_version b)), (''slot_name'', JStr (fb_slot_name b)),
      (''adapter_field'', JStr (fb_adapter_field b)),
      (''target_kind'', JStr (target_value (fb_target_kind b))), (''adapter_id'', JStr (fb_adapter_id b)),
      (''source'', JStr (source_value (fb_source b))),
      (''sensitivity'', JStr (sensitivity_value (fb_sensitivity b)))]"

definition input_request_dump :: "input_request \<Rightarrow> json" where
  "input_request_dump r = JObj
     [(''request_id'', JStr (iq_request_id r)), (''pack_id'', JStr (iq_pack_id r)),
      (''pack_version'', JStr (iq_pack_version r)), (''slots'', JArr (map slot_dump (iq_slots r))),
      (''adapter_requirements'', JArr (map requirement_dump (iq_adapter_requirements r))),
      (''bindings'', JArr (map field_binding_dump (iq_bindings r))), (''values'', JObj (iq_values r)),
      (''status'', JObj (map (\<lambda>(k, v). (k, JStr (slot_status_value v))) (iq_status r))),
      (''recovery'', JBool (iq_recovery r)), (''recovery_mode'', JStr ''pre_effect_only''),
      (''external_effect_started'', JBool (iq_external_effect_started r))]"

definition prompt_dump :: "pause_prompt \<Rightarrow> json" where
  "prompt_dump p = JObj
     [(''title'', JStr (pp_title p)), (''message'', JStr (pp_message p)), (''locale'', jstr_opt (pp_locale p)),
      (''redacted'', JBool True)]"

definition optional_dump :: "('a \<Rightarrow> json) \<Rightarrow> 'a option \<Rightarrow> json" where
  "optional_dump f v = (case v of None \<Rightarrow> JNull | Some x \<Rightarrow> f x)"

definition signal_dump :: "pause_signal \<Rightarrow> json" where
  "signal_dump s = JObj
     [(''outcome'', JStr (pause_outcome_value (ps_outcome s))), (''reason_code'', JStr (ps_reason_code s)),
      (''run_id'', JStr (ps_run_id s)), (''task_id'', jstr_opt (ps_task_id s)),
      (''step_id'', jstr_opt (ps_step_id s)), (''checkpoint_id'', jstr_opt (ps_checkpoint_id s)),
      (''input_request'', optional_dump input_request_dump (ps_input_request s)),
      (''prompt'', optional_dump prompt_dump (ps_prompt s)),
      (''allowed_actions'', JArr (map (\<lambda>a. JStr (pause_action_value a)) (ps_allowed_actions s))),
      (''resume_policy'', JStr (resume_policy_value (ps_resume_policy s))),
      (''external_effect_started'', JBool (ps_external_effect_started s)),
      (''expires_at'', optional_dump JTime (ps_expires_at s))]"

fun as_bool :: "json \<Rightarrow> bool option" where
  "as_bool (JBool b) = Some b"
| "as_bool v = None"

fun as_object :: "json \<Rightarrow> jobject option" where
  "as_object (JObj kvs) = Some kvs"
| "as_object v = None"

definition as_enum :: "('e \<Rightarrow> string) \<Rightarrow> 'e list \<Rightarrow> json \<Rightarrow> 'e option" where
  "as_enum value members v = Option.bind (as_str v) (enum_of value members)"

definition as_dict_of :: "(json \<Rightarrow> 'a option) \<Rightarrow> json \<Rightarrow> (string \<times> 'a) list option" where
  "as_dict_of f v = (case v of
     JObj kvs \<Rightarrow> those (map (\<lambda>(k, w). map_option (\<lambda>x. (k, x)) (f w)) kvs) | _ \<Rightarrow> None)"

definition decode_slot :: "json \<Rightarrow> input_slot option" where
  "decode_slot v = Option.bind (as_object v) (\<lambda>kv. do {
     n \<leftarrow> field kv ''slot_name'' as_str;
     t \<leftarrow> field kv ''target_kind'' (as_enum target_value all_targets);
     s \<leftarrow> field kv ''source'' (as_enum source_value all_sources);
     e \<leftarrow> field kv ''sensitivity'' (as_enum sensitivity_value all_sensitivities);
     r \<leftarrow> field kv ''required'' as_bool;
     a \<leftarrow> field kv ''allowed_sources'' (as_list (as_enum source_value all_sources));
     Some \<lparr>sl_slot_name = n, sl_target_kind = t, sl_source = s, sl_sensitivity = e, sl_required = r,
       sl_allowed_sources = a\<rparr> })"

definition decode_requirement :: "json \<Rightarrow> adapter_requirement option" where
  "decode_requirement v = Option.bind (as_object v) (\<lambda>kv. do {
     n \<leftarrow> field kv ''requirement_name'' as_str;
     t \<leftarrow> field kv ''target_kind'' (as_enum target_value all_targets);
     r \<leftarrow> field kv ''required'' as_bool;
     s \<leftarrow> field kv ''source'' (as_enum source_value all_sources);
     e \<leftarrow> field kv ''sensitivity'' (as_enum sensitivity_value all_sensitivities);
     d \<leftarrow> field kv ''description'' as_str;
     Some \<lparr>aq_requirement_name = n, aq_target_kind = t, aq_required = r, aq_source = s,
       aq_sensitivity = e, aq_description = d\<rparr> })"

definition decode_field_binding :: "json \<Rightarrow> field_binding option" where
  "decode_field_binding v = Option.bind (as_object v) (\<lambda>kv. do {
     b \<leftarrow> field kv ''binding_version'' as_str;
     n \<leftarrow> field kv ''slot_name'' as_str;
     f \<leftarrow> field kv ''adapter_field'' as_str;
     t \<leftarrow> field kv ''target_kind'' (as_enum target_value all_targets);
     i \<leftarrow> field kv ''adapter_id'' as_str;
     s \<leftarrow> field kv ''source'' (as_enum source_value all_sources);
     e \<leftarrow> field kv ''sensitivity'' (as_enum sensitivity_value all_sensitivities);
     Some \<lparr>fb_binding_version = b, fb_slot_name = n, fb_adapter_field = f, fb_target_kind = t,
       fb_adapter_id = i, fb_source = s, fb_sensitivity = e\<rparr> })"

definition decode_input_request :: "json \<Rightarrow> input_request option" where
  "decode_input_request v = Option.bind (as_object v) (\<lambda>kv. do {
     i \<leftarrow> field kv ''request_id'' as_str;
     p \<leftarrow> field kv ''pack_id'' as_str;
     pv \<leftarrow> field kv ''pack_version'' as_str;
     sl \<leftarrow> field kv ''slots'' (as_list decode_slot);
     ar \<leftarrow> field kv ''adapter_requirements'' (as_list decode_requirement);
     bs \<leftarrow> field kv ''bindings'' (as_list decode_field_binding);
     vs \<leftarrow> field kv ''values'' as_object;
     st \<leftarrow> field kv ''status'' (as_dict_of (as_enum slot_status_value [Slot_MISSING, Slot_INVALID, Slot_READY]));
     r \<leftarrow> field kv ''recovery'' as_bool;
     m \<leftarrow> field kv ''recovery_mode'' as_str;
     x \<leftarrow> field kv ''external_effect_started'' as_bool;
     if m = ''pre_effect_only'' then
       Some \<lparr>iq_request_id = i, iq_pack_id = p, iq_pack_version = pv, iq_slots = sl,
         iq_adapter_requirements = ar, iq_bindings = bs, iq_values = vs, iq_status = st,
         iq_recovery = r, iq_external_effect_started = x\<rparr>
     else None })"

definition decode_prompt :: "json \<Rightarrow> pause_prompt option" where
  "decode_prompt v = Option.bind (as_object v) (\<lambda>kv. do {
     t \<leftarrow> field kv ''title'' as_str;
     m \<leftarrow> field kv ''message'' as_str;
     l \<leftarrow> field kv ''locale'' (as_optional as_str);
     r \<leftarrow> field kv ''redacted'' as_bool;
     if r then Some \<lparr>pp_title = t, pp_message = m, pp_locale = l\<rparr> else None })"

definition read_signal :: "json \<Rightarrow> pause_signal option" where
  "read_signal v = Option.bind (as_object v) (\<lambda>kv. do {
     oc \<leftarrow> field kv ''outcome'' (as_enum pause_outcome_value [Outcome_AWAITING_INPUT, Outcome_NEEDS_HUMAN]);
     rc \<leftarrow> field kv ''reason_code'' as_str;
     run \<leftarrow> field kv ''run_id'' as_str;
     tk \<leftarrow> field kv ''task_id'' (as_optional as_str);
     sp \<leftarrow> field kv ''step_id'' (as_optional as_str);
     cp \<leftarrow> field kv ''checkpoint_id'' (as_optional as_str);
     iq \<leftarrow> field kv ''input_request'' (as_optional decode_input_request);
     pr \<leftarrow> field kv ''prompt'' (as_optional decode_prompt);
     aa \<leftarrow> field kv ''allowed_actions'' (as_list (as_enum pause_action_value all_pause_actions));
     rp \<leftarrow> field kv ''resume_policy'' (as_enum resume_policy_value all_resume_policies);
     xs \<leftarrow> field kv ''external_effect_started'' as_bool;
     ex \<leftarrow> field kv ''expires_at'' (as_optional as_time);
     Some \<lparr>ps_outcome = oc, ps_reason_code = rc, ps_run_id = run, ps_task_id = tk, ps_step_id = sp,
       ps_checkpoint_id = cp, ps_input_request = iq, ps_prompt = pr, ps_allowed_actions = aa,
       ps_resume_policy = rp, ps_external_effect_started = xs, ps_expires_at = ex\<rparr> })"

text \<open>\<open>RunPauseSignal.model_validate\<close> of a stored document.\<close>

definition decode_signal :: "json \<Rightarrow> pause_signal res" where
  "decode_signal v = (case read_signal v of
     None \<Rightarrow> Raise ValueError ''validation error for RunPauseSignal''
   | Some s \<Rightarrow> res_bind (validate_pause_signal s) (\<lambda>_. Ok s))"

section \<open>Reading back\<close>

lemma as_enum_value: "enum_of value members (value x) = Some x \<Longrightarrow> as_enum value members (JStr (value x)) = Some x"
  by (simp add: as_enum_def)

lemma enum_values [simp]:
  "as_enum source_value all_sources (JStr (source_value s)) = Some s"
  "as_enum sensitivity_value all_sensitivities (JStr (sensitivity_value e)) = Some e"
  "as_enum target_value all_targets (JStr (target_value t)) = Some t"
  "as_enum slot_status_value [Slot_MISSING, Slot_INVALID, Slot_READY] (JStr (slot_status_value st)) = Some st"
  "as_enum pause_outcome_value [Outcome_AWAITING_INPUT, Outcome_NEEDS_HUMAN] (JStr (pause_outcome_value oc)) = Some oc"
  "as_enum pause_action_value all_pause_actions (JStr (pause_action_value a)) = Some a"
  "as_enum resume_policy_value all_resume_policies (JStr (resume_policy_value p)) = Some p"
  subgoal by (rule as_enum_value, cases s) (simp_all add: enum_of_def all_sources_def)
  subgoal by (rule as_enum_value, cases e) (simp_all add: enum_of_def all_sensitivities_def)
  subgoal by (rule as_enum_value, cases t) (simp_all add: enum_of_def all_targets_def)
  subgoal by (rule as_enum_value, cases st) (simp_all add: enum_of_def)
  subgoal by (rule as_enum_value, cases oc) (simp_all add: enum_of_def)
  subgoal by (rule as_enum_value, cases a) (simp_all add: enum_of_def all_pause_actions_def)
  subgoal by (rule as_enum_value, cases p) (simp_all add: enum_of_def all_resume_policies_def)
  done

lemma as_optional_dump:
  assumes "\<And>x. f (g x) = Some x" and "\<And>x. g x \<noteq> JNull"
  shows "as_optional f (optional_dump g v) = Some v"
proof (cases v)
  case (Some x)
  have "as_optional f w = map_option Some (f w)" if "w \<noteq> JNull" for w
    using that by (cases w) simp_all
  with assms Some show ?thesis by (simp add: optional_dump_def)
qed (simp add: optional_dump_def)

lemma as_dict_of_dump: "(\<And>x. f (g x) = Some x) \<Longrightarrow> as_dict_of f (JObj (map (\<lambda>(k, v). (k, g v)) kvs)) = Some kvs"
  unfolding as_dict_of_def by (simp only: json.case) (rule those_map_Some, auto)

lemma decode_parts [simp]:
  "decode_slot (slot_dump s) = Some s"
  "decode_requirement (requirement_dump r) = Some r"
  "decode_field_binding (field_binding_dump b) = Some b"
  "decode_prompt (prompt_dump p) = Some p"
  by (simp_all add: decode_slot_def slot_dump_def decode_requirement_def requirement_dump_def
      decode_field_binding_def field_binding_dump_def decode_prompt_def prompt_dump_def field_def
      sources_dump_def as_list_dump)

lemma decode_input_request_dump [simp]: "decode_input_request (input_request_dump q) = Some q"
  by (simp add: decode_input_request_def input_request_dump_def field_def as_list_dump as_dict_of_dump)

lemma dumps_present [simp]: "input_request_dump q \<noteq> JNull" "prompt_dump p \<noteq> JNull"
  by (simp_all add: input_request_dump_def prompt_dump_def)

lemma read_signal_dump: "read_signal (signal_dump s) = Some s"
proof -
  have "as_optional decode_input_request (optional_dump input_request_dump q) = Some q" for q
    by (rule as_optional_dump) simp_all
  moreover have "as_optional decode_prompt (optional_dump prompt_dump p) = Some p" for p
    by (rule as_optional_dump) simp_all
  moreover have "as_optional as_time (optional_dump JTime t) = Some t" for t
    by (rule as_optional_dump) simp_all
  ultimately show ?thesis by (simp add: read_signal_def signal_dump_def field_def as_list_dump)
qed

lemma decode_signal_dump: "decode_signal (signal_dump s) = Ok s \<longleftrightarrow> validate_pause_signal s = Ok ()"
  by (cases "validate_pause_signal s") (simp_all add: decode_signal_def read_signal_dump)

section \<open>Redaction\<close>

lemma redact_request_valid:
  assumes "validate_input_request q = Ok ()"
  shows "validate_input_request (q\<lparr>iq_values := [], iq_bindings := [], iq_adapter_requirements := []\<rparr>) = Ok ()"
  using assms by (simp add: validate_input_request_def res_bind_ok Let_def split: if_splits)

lemma redact_keeps_valid:
  assumes "validate_pause_signal s = Ok ()"
  shows "validate_pause_signal (redact_pause_signal s) = Ok ()"
proof -
  let ?s = "redact_pause_signal s"
  have prompt: "optional_ok prompt_ok (ps_prompt s) \<Longrightarrow> optional_ok prompt_ok (ps_prompt ?s)"
    by (cases "ps_prompt s") (simp_all add: redact_pause_signal_def optional_ok_def prompt_ok_def)
  have rest: "ps_outcome ?s = ps_outcome s" "ps_reason_code ?s = ps_reason_code s" "ps_run_id ?s = ps_run_id s"
    "ps_task_id ?s = ps_task_id s" "ps_step_id ?s = ps_step_id s" "ps_checkpoint_id ?s = ps_checkpoint_id s"
    "ps_allowed_actions ?s = ps_allowed_actions s" "ps_resume_policy ?s = ps_resume_policy s"
    "ps_external_effect_started ?s = ps_external_effect_started s"
    "ps_input_request ?s = map_option (\<lambda>q. q\<lparr>iq_values := [], iq_bindings := [],
       iq_adapter_requirements := []\<rparr>) (ps_input_request s)"
    by (simp_all add: redact_pause_signal_def)
  from assms have fields: "signal_fields_ok s" and invariants: "validate_invariants s = Ok ()"
    and request: "(case ps_input_request s of None \<Rightarrow> Ok () | Some q \<Rightarrow> validate_input_request q) = Ok ()"
    by (auto simp: validate_pause_signal_def res_bind_ok split: if_splits)
  have "signal_fields_ok ?s" using fields prompt unfolding signal_fields_ok_def rest by blast
  moreover have "validate_invariants ?s = validate_invariants s"
    unfolding validate_invariants_def rest by (cases "ps_input_request s") simp_all
  moreover have "(case ps_input_request ?s of None \<Rightarrow> Ok () | Some q \<Rightarrow> validate_input_request q) = Ok ()"
    using request unfolding rest by (cases "ps_input_request s") (simp_all add: redact_request_valid)
  ultimately show ?thesis using invariants by (simp add: validate_pause_signal_def)
qed

text \<open>
  A valid pause signal stays valid when it is redacted for storage and
  reads back from its stored document as it was stored. What is stored has no input value, field
  binding or adapter requirement and a fixed message, but keeps every declared slot, and it offers
  input submission only before an external effect.
\<close>

theorem pause_redaction_safe:
  assumes "validate_pause_signal s = Ok ()"
  shows "decode_signal (signal_dump (redact_pause_signal s)) = Ok (redact_pause_signal s) \<and>
     (\<forall>q. ps_input_request (redact_pause_signal s) = Some q \<longrightarrow> iq_values q = [] \<and> iq_bindings q = [] \<and>
        iq_adapter_requirements q = [] \<and> Some (iq_slots q) = map_option iq_slots (ps_input_request s)) \<and>
     (\<forall>p. ps_prompt (redact_pause_signal s) = Some p \<longrightarrow>
        pp_message p = ''Additional information is required to continue this run.'') \<and>
     (Pause_SUBMIT_INPUT \<in> set (ps_allowed_actions (redact_pause_signal s)) \<longrightarrow>
        \<not> ps_external_effect_started (redact_pause_signal s))"
proof (intro conjI)
  show "decode_signal (signal_dump (redact_pause_signal s)) = Ok (redact_pause_signal s)"
    unfolding decode_signal_dump using assms by (rule redact_keeps_valid)
  from assms have "validate_invariants s = Ok ()" by (auto simp: validate_pause_signal_def res_bind_ok split: if_splits)
  then have "\<not> (ps_external_effect_started s \<and> Pause_SUBMIT_INPUT \<in> set (ps_allowed_actions s))"
    unfolding validate_invariants_def checks_ok by simp
  then show "Pause_SUBMIT_INPUT \<in> set (ps_allowed_actions (redact_pause_signal s)) \<longrightarrow>
      \<not> ps_external_effect_started (redact_pause_signal s)"
    by (auto simp: redact_pause_signal_def)
qed (auto simp: redact_pause_signal_def)

definition sample_slot :: input_slot where
  "sample_slot = \<lparr>sl_slot_name = ''invoice'', sl_target_kind = Target_TEXT, sl_source = Src_USER,
     sl_sensitivity = Sens_SENSITIVE, sl_required = True, sl_allowed_sources = [Src_USER]\<rparr>"

definition sample_input_request :: input_request where
  "sample_input_request = \<lparr>iq_request_id = ''r'', iq_pack_id = ''pk'', iq_pack_version = ''1'',
     iq_slots = [sample_slot], iq_adapter_requirements = [], iq_bindings = [],
     iq_values = [(''invoice'', JStr ''42'')], iq_status = [], iq_recovery = True,
     iq_external_effect_started = False\<rparr>"

definition sample_signal :: pause_signal where
  "sample_signal = \<lparr>ps_outcome = Outcome_AWAITING_INPUT, ps_reason_code = ''INPUT_MISSING'', ps_run_id = ''root'',
     ps_task_id = None, ps_step_id = None, ps_checkpoint_id = None,
     ps_input_request = Some sample_input_request, ps_prompt = None,
     ps_allowed_actions = [Pause_SUBMIT_INPUT, Pause_CANCEL], ps_resume_policy = Policy_INPUT_SUBMISSION,
     ps_external_effect_started = False, ps_expires_at = None\<rparr>"

lemma sample_signal_valid: "validate_pause_signal sample_signal = Ok ()"
  by (simp add: validate_pause_signal_def signal_fields_ok_def sample_signal_def reason_code_ok_def
      upper_letters_def optional_ok_def validate_input_request_def sample_input_request_def Let_def
      validate_slot_def sample_slot_def protected_input_def validate_invariants_def)

theorem pause_redaction_safe_witness:
  "map_option iq_values (ps_input_request sample_signal) = Some [(''invoice'', JStr ''42'')] \<and>
   decode_signal (signal_dump (redact_pause_signal sample_signal)) = Ok (redact_pause_signal sample_signal)"
proof (rule conjI)
  show "map_option iq_values (ps_input_request sample_signal) = Some [(''invoice'', JStr ''42'')]"
    by (simp add: sample_signal_def sample_input_request_def)
  show "decode_signal (signal_dump (redact_pause_signal sample_signal)) = Ok (redact_pause_signal sample_signal)"
    using pause_redaction_safe [OF sample_signal_valid] by blast
qed

end
