(* ===== verification/NativeStore.thy ===== *)
theory NativeStore
  imports Admission Inputs
begin

text \<open>
  \<open>enterprise/integrations/skyvern_agent_run_store.py\<close>: the native store of agent runs over the
  engine's task and step tables. It reads root tasks and child pairs, cancels a pair, checks a
  checkpoint against the authoritative rows, and keeps the pause signal of a run as audit events.
  The interface \<open>native_store\<close> of the journal is interpreted on it at the end.
\<close>

section \<open>Sessions\<close>

text \<open>A service that knows the governance tables only works on the session's first part.\<close>

definition on_db :: "(db, 'a) prog \<Rightarrow> (agent_db, 'a) prog" where
  "on_db m s = (case m (db.truncate s) of (r, d) \<Rightarrow> (r, db.extend d (db.more s)))"

section \<open>Snapshots of tasks and steps\<close>

definition to_task_snapshot :: "string \<Rightarrow> task_row \<Rightarrow> task_snapshot" where
  "to_task_snapshot organization_id r =
     \<lparr>ts_task_id = tk_task_id r, ts_organization_id = organization_id, ts_status = RunTask (tk_status r),
      ts_application = tk_application r, ts_created_at = tk_created_at r\<rparr>"

definition to_step_snapshot :: "string \<Rightarrow> string \<Rightarrow> step_row \<Rightarrow> step_snapshot" where
  "to_step_snapshot organization_id task_id r =
     \<lparr>ss_step_id = st_step_id r, ss_task_id = task_id, ss_organization_id = organization_id,
      ss_status = RunStep (st_status r)\<rparr>"

definition native_task_row :: "string \<Rightarrow> string \<Rightarrow> 'z db_scheme \<Rightarrow> task_row option" where
  "native_task_row task_id organization_id s =
     first_where (\<lambda>r. tk_task_id r = task_id \<and> tk_organization_id r = Some organization_id) (tasks s)"

definition native_step_row :: "string \<Rightarrow> string \<Rightarrow> string \<Rightarrow> 'z db_scheme \<Rightarrow> step_row option" where
  "native_step_row task_id step_id organization_id s =
     first_where (\<lambda>r. st_step_id r = step_id \<and> st_task_id r = Some task_id \<and>
        st_organization_id r = Some organization_id) (steps s)"

definition store_get_root :: "string \<Rightarrow> string \<Rightarrow> 'z db_scheme \<Rightarrow> task_snapshot option" where
  "store_get_root run_id organization_id s =
     map_option (to_task_snapshot organization_id) (native_task_row run_id organization_id s)"

text \<open>The page of governed root tasks; in \<open>LIKE 'run_%'\<close> the underscore stands for any character.\<close>

definition like_run :: "string \<Rightarrow> bool" where
  "like_run s = (take 3 s = ''run'' \<and> 3 < length s)"

definition newer_root :: "task_row \<Rightarrow> task_row \<Rightarrow> bool" where
  "newer_root a b = (tk_created_at b < tk_created_at a \<or>
     tk_created_at a = tk_created_at b \<and> str_le (tk_task_id b) (tk_task_id a))"

definition before_boundary :: "(time \<times> string) option \<Rightarrow> task_row \<Rightarrow> bool" where
  "before_boundary boundary r = (case boundary of None \<Rightarrow> True | Some (created_at, run_id) \<Rightarrow>
     tk_created_at r < created_at \<or>
     tk_created_at r = created_at \<and> str_le (tk_task_id r) run_id \<and> tk_task_id r \<noteq> run_id)"

definition governed_root :: "string \<Rightarrow> agent_db \<Rightarrow> task_row \<Rightarrow> bool" where
  "governed_root organization_id s r =
     (tk_organization_id r = Some organization_id \<and> like_run (tk_task_id r) \<and>
      (\<exists>a \<in> set (governed_task_admissions s).
         ad_task_id a = tk_task_id r \<and> ad_organization_id a = organization_id))"

definition list_roots :: "string \<Rightarrow> (time \<times> string) option \<Rightarrow> nat \<Rightarrow> agent_db \<Rightarrow> task_snapshot list" where
  "list_roots organization_id boundary limit s =
     map (to_task_snapshot organization_id) (take limit (sort_by newer_root
       (filter (\<lambda>r. governed_root organization_id s r \<and> before_boundary boundary r) (tasks s))))"

definition get_native_pair :: "string \<Rightarrow> string \<Rightarrow> string \<Rightarrow> 'z db_scheme \<Rightarrow> native_pair res" where
  "get_native_pair task_id step_id organization_id s =
     (let task = native_task_row task_id organization_id s; step = native_step_row task_id step_id organization_id s
      in if (task = None) \<noteq> (step = None)
         then Raise ValueError ''Agent Run native task/step pair is inconsistent''
         else Ok (map_option (to_task_snapshot organization_id) task,
                  map_option (to_step_snapshot organization_id task_id) step))"

definition cancel_native_pair :: "string \<Rightarrow> string \<Rightarrow> string \<Rightarrow> (agent_db, bool) prog" where
  "cancel_native_pair task_id step_id organization_id s =
     (case (native_task_row task_id organization_id s, native_step_row task_id step_id organization_id s) of
        (Some task, Some step) \<Rightarrow>
          (Ok True, s\<lparr>tasks := write_row tk_task_id (task\<lparr>tk_status := Task_canceled\<rparr>) (tasks s),
                      steps := write_row st_step_id (step\<lparr>st_status := Step_canceled\<rparr>) (steps s)\<rparr>)
      | _ \<Rightarrow> (Ok False, s))"

section \<open>A checkpoint against the authoritative rows\<close>

text \<open>The attempt and permit of a step, when their tasks are of the organization.\<close>

definition task_of_organization :: "string \<Rightarrow> string \<Rightarrow> 'z db_scheme \<Rightarrow> bool" where
  "task_of_organization organization_id task_id s =
     (\<exists>r \<in> set (tasks s). tk_task_id r = task_id \<and> tk_organization_id r = Some organization_id)"

definition verify_attempt_identity ::
  "attempt_status \<Rightarrow> string \<Rightarrow> plan_step_ref \<Rightarrow> 'z db_scheme \<Rightarrow> unit res" where
  "verify_attempt_identity expected organization_id item s =
     (case (sr_attempt_id item, sr_permit_id item) of
        (None, None) \<Rightarrow> Ok ()
      | (Some attempt_id, Some permit_id) \<Rightarrow>
          (case (first_where (\<lambda>a. at_attempt_id a = attempt_id \<and>
                    task_of_organization organization_id (at_task_id a) s) (execution_attempts s),
                 first_where (\<lambda>p. pm_permit_id p = permit_id \<and>
                    task_of_organization organization_id (pm_task_id p) s) (execution_permits s)) of
             (Some a, Some p) \<Rightarrow>
               if at_task_id a \<noteq> sr_native_task_id item \<or> at_step_id a \<noteq> sr_native_step_id item \<or>
                  at_contract_id a \<noteq> sr_native_contract_id item \<or> at_status a \<noteq> expected \<or>
                  pm_task_id p \<noteq> sr_native_task_id item \<or> pm_step_id p \<noteq> sr_native_step_id item \<or>
                  pm_contract_id p \<noteq> sr_native_contract_id item \<or> pm_status p \<noteq> Permit_consumed
               then Raise ValueError ''Checkpoint disagrees with authoritative Permit/Attempt state''
               else Ok ()
           | _ \<Rightarrow> Raise ValueError ''Checkpoint disagrees with authoritative Permit/Attempt state'')
      | _ \<Rightarrow> Raise ValueError ''Effect checkpoint has partial Permit/Attempt identity'')"

definition item_pair :: "string \<Rightarrow> plan_step_ref \<Rightarrow> 'z db_scheme \<Rightarrow> native_pair res" where
  "item_pair organization_id item s =
     get_native_pair (sr_native_task_id item) (sr_native_step_id item) organization_id s"

definition verify_completed :: "string \<Rightarrow> 'z db_scheme \<Rightarrow> plan_step_ref \<Rightarrow> unit res" where
  "verify_completed organization_id s item =
     res_bind (item_pair organization_id item s) (\<lambda>pair. case pair of
       (Some task, Some step) \<Rightarrow>
         if ts_status task \<noteq> RunTask Task_completed \<or> ss_status step \<noteq> RunStep Step_completed \<or>
            ss_step_id step \<noteq> sr_native_step_id item
         then Raise ValueError ''Completed prefix disagrees with native Task/Step state''
         else verify_attempt_identity CONFIRMED organization_id item s
     | _ \<Rightarrow> Raise ValueError ''Completed prefix disagrees with native Task/Step state'')"

definition verify_remaining :: "string \<Rightarrow> 'z db_scheme \<Rightarrow> plan_step_ref \<Rightarrow> unit res" where
  "verify_remaining organization_id s item =
     res_bind (item_pair organization_id item s) (\<lambda>(task, step).
       if task \<noteq> None \<or> step \<noteq> None
       then Raise ValueError ''Non-current suffix child became runnable'' else Ok ())"

definition verify_superseded :: "string \<Rightarrow> 'z db_scheme \<Rightarrow> plan_step_ref \<Rightarrow> unit res" where
  "verify_superseded organization_id s item =
     res_bind (item_pair organization_id item s) (\<lambda>(task, step). checks
       [((case task of None \<Rightarrow> False | Some t \<Rightarrow> ts_status t \<noteq> RunTask Task_canceled),
         Exc ValueError ''Superseded native Task remains runnable''),
        ((case step of None \<Rightarrow> False | Some u \<Rightarrow> ss_status u \<noteq> RunStep Step_canceled),
         Exc ValueError ''Superseded native Step remains runnable'')]
       (Ok ()))"

definition verify_active ::
  "string \<Rightarrow> 'z db_scheme \<Rightarrow> plan_transition \<Rightarrow> plan_step_ref \<Rightarrow> unit res" where
  "verify_active organization_id s t active =
     res_bind (item_pair organization_id active s) (\<lambda>pair. case pair of
       (Some task, Some step) \<Rightarrow>
         let status = (ts_status task, ss_status step)
         in if ss_step_id step \<noteq> sr_native_step_id active
         then Raise ValueError ''Active native Step identity disagrees with checkpoint''
         else if t = Tr_PROBE_BLOCKED
         then (if status \<noteq> (RunTask Task_pending_result_probe, RunStep Step_pending_result_probe) \<or>
                  \<not> truthy (sr_attempt_id active) \<or> \<not> truthy (sr_permit_id active)
               then Raise ValueError ''Probe-blocked checkpoint lacks exact native state''
               else verify_attempt_identity UNKNOWN organization_id active s)
         else if t = Tr_APPROVAL_REQUIRED \<and>
              status \<noteq> (RunTask Task_pending_approval, RunStep Step_pending_approval)
         then Raise ValueError ''Approval checkpoint lacks exact pending native state''
         else if t = Tr_APPROVAL_RESUMED \<and> status \<noteq> (RunTask Task_resuming, RunStep Step_resuming)
         then Raise ValueError ''Resume checkpoint lacks exact resuming native state''
         else if (t = Tr_APPROVAL_REJECTED \<or> t = Tr_RUN_CANCELLED) \<and>
              status \<noteq> (RunTask Task_canceled, RunStep Step_canceled)
         then Raise ValueError ''Terminal non-effect checkpoint lacks exact cancelled native state''
         else Ok ()
     | _ \<Rightarrow> Raise ValueError ''Active native Task/Step state is partial or missing'')"

definition verify_checkpoint_native_state ::
  "plan_checkpoint \<Rightarrow> plan_transition \<Rightarrow> string \<Rightarrow> 'z db_scheme \<Rightarrow> unit res" where
  "verify_checkpoint_native_state c t organization_id s =
     res_bind (each (verify_completed organization_id s) (cp_completed_prefix c)) (\<lambda>_.
     res_bind (each (verify_remaining organization_id s) (cp_remaining_suffix c)) (\<lambda>_.
     res_bind (each (verify_superseded organization_id s) (cp_superseded_suffix c)) (\<lambda>_.
     case cp_active_step c of None \<Rightarrow> Ok () | Some active \<Rightarrow> verify_active organization_id s t active)))"

section \<open>Pause signals\<close>

text \<open>\<open>AgentRunPauseSnapshot\<close>.\<close>

record pause_snapshot =
  pz_signal :: pause_signal
  pz_checkpoint_digest :: string
  pz_modified_at :: time

definition pause_type :: string where
  "pause_type = ''agent-run.pause''"

definition resolution_type :: string where
  "resolution_type = ''agent-run.pause.resolved''"

definition pause_payload :: "pause_signal \<Rightarrow> string \<Rightarrow> json" where
  "pause_payload signal checkpoint_digest = JObj
     [(''schema_version'', JStr ''agentpact.run-pause/v1''), (''run_id'', JStr (ps_run_id signal)),
      (''checkpoint_digest'', JStr checkpoint_digest), (''signal'', signal_dump signal)]"

definition run_events :: "string \<Rightarrow> string \<Rightarrow> string list \<Rightarrow> agent_db \<Rightarrow> audit_row list" where
  "run_events run_id organization_id types s =
     filter (\<lambda>r. ga_task_id r = run_id \<and> ga_organization_id r = organization_id \<and> ga_event_type r \<in> set types)
       (governance_audit_events s)"

definition pause_row :: "pause_signal \<Rightarrow> string \<Rightarrow> string \<Rightarrow> time \<Rightarrow> audit_row" where
  "pause_row signal checkpoint_digest organization_id modified_at =
     \<lparr>ga_event_id = ''agent_run_pause_'' @ json_digest (pause_payload signal checkpoint_digest),
      ga_task_id = ps_run_id signal, ga_step_id = ps_step_id signal, ga_contract_id = None,
      ga_organization_id = organization_id, ga_event_type = pause_type, ga_mode = ''audit'',
      ga_action_fingerprint = None, ga_observation_hash = None, ga_policy_version = None,
      ga_payload = pause_payload signal checkpoint_digest, ga_created_at = modified_at\<rparr>"

definition newest_first :: "audit_row \<Rightarrow> audit_row \<Rightarrow> bool" where
  "newest_first a b = (ga_created_at b \<le> ga_created_at a)"

definition save_pause_signal :: "pause_signal \<Rightarrow> string \<Rightarrow> string \<Rightarrow> time \<Rightarrow> (agent_db, unit) prog" where
  "save_pause_signal signal checkpoint_digest organization_id modified_at s =
     (case sort_by newest_first (run_events (ps_run_id signal) organization_id [pause_type] s) of
        existing # _ \<Rightarrow>
          (if \<not> json_eq (ga_payload existing) (pause_payload signal checkpoint_digest)
           then (Raise ValueError ''Conflicting pause signal already exists'', s)
           else (Ok (), s))
      | [] \<Rightarrow> add_audit_event (pause_row signal checkpoint_digest organization_id modified_at) s)"

text \<open>The loop of \<open>get_pause_signal\<close>: the last pause row that no later resolution row names.\<close>

definition earlier_event :: "audit_row \<Rightarrow> audit_row \<Rightarrow> bool" where
  "earlier_event a b = (ga_created_at a < ga_created_at b \<or>
     ga_created_at a = ga_created_at b \<and> str_le (ga_event_id a) (ga_event_id b))"

definition payload_object :: "audit_row \<Rightarrow> jobject option" where
  "payload_object r = (case ga_payload r of JObj kvs \<Rightarrow> Some kvs | _ \<Rightarrow> None)"

fun current_pause :: "audit_row option \<Rightarrow> audit_row list \<Rightarrow> audit_row option res" where
  "current_pause candidate [] = Ok candidate"
| "current_pause candidate (r # rows) =
     (if ga_event_type r = pause_type
      then (case payload_object r of
          Some kvs \<Rightarrow> if map_of kvs ''schema_version'' = Some (JStr ''agentpact.run-pause/v1'')
            then current_pause (Some r) rows
            else Raise ValueError ''Invalid persisted Agent Run pause signal''
        | None \<Rightarrow> Raise ValueError ''Invalid persisted Agent Run pause signal'')
      else (case (candidate, payload_object r) of
          (Some c, Some kvs) \<Rightarrow>
            if map_of kvs ''pause_event_id'' = Some (JStr (ga_event_id c))
            then current_pause None rows else current_pause candidate rows
        | _ \<Rightarrow> current_pause candidate rows))"

text \<open>\<open>str(payload.get("checkpoint_digest", ""))\<close>; a value that is no string reads as its JSON text.\<close>

definition text_of :: "json option \<Rightarrow> string" where
  "text_of v = (case v of None \<Rightarrow> [] | Some (JStr x) \<Rightarrow> x | Some w \<Rightarrow> dumps True w)"

definition read_pause :: "audit_row \<Rightarrow> pause_snapshot res" where
  "read_pause r =
     (let kvs = (case payload_object r of None \<Rightarrow> [] | Some o' \<Rightarrow> o') in
      res_bind (decode_signal (get_value kvs ''signal'')) (\<lambda>signal.
        if text_of (map_of kvs ''checkpoint_digest'') = []
        then Raise ValueError ''validation error for AgentRunPauseSnapshot''
        else Ok \<lparr>pz_signal = signal, pz_checkpoint_digest = text_of (map_of kvs ''checkpoint_digest''),
                 pz_modified_at = ga_created_at r\<rparr>))"

definition get_pause_signal :: "string \<Rightarrow> string \<Rightarrow> agent_db \<Rightarrow> pause_snapshot option res" where
  "get_pause_signal run_id organization_id s =
     res_bind (current_pause None
       (sort_by earlier_event (run_events run_id organization_id [pause_type, resolution_type] s)))
       (\<lambda>candidate. case candidate of None \<Rightarrow> Ok None
         | Some r \<Rightarrow> res_bind (read_pause r) (\<lambda>p. Ok (Some p)))"

definition resolution_payload :: "string \<Rightarrow> audit_row \<Rightarrow> json" where
  "resolution_payload run_id pause = JObj
     [(''schema_version'', JStr ''agentpact.run-pause-resolution/v1''), (''run_id'', JStr run_id),
      (''pause_event_id'', JStr (ga_event_id pause)), (''status'', JStr ''cleared'')]"

definition resolution_row :: "string \<Rightarrow> string \<Rightarrow> audit_row \<Rightarrow> audit_row" where
  "resolution_row run_id organization_id pause =
     \<lparr>ga_event_id = ''agent_run_pause_resolution_'' @ json_digest (resolution_payload run_id pause),
      ga_task_id = run_id, ga_step_id = ga_step_id pause, ga_contract_id = None,
      ga_organization_id = organization_id, ga_event_type = resolution_type, ga_mode = ''audit'',
      ga_action_fingerprint = None, ga_observation_hash = None, ga_policy_version = None,
      ga_payload = resolution_payload run_id pause, ga_created_at = ga_created_at pause + 1\<rparr>"

definition clear_pause_signal :: "string \<Rightarrow> string \<Rightarrow> (agent_db, unit) prog" where
  "clear_pause_signal run_id organization_id s =
     (case sort_by (\<lambda>a b. earlier_event b a) (run_events run_id organization_id [pause_type] s) of
        [] \<Rightarrow> (Ok (), s)
      | pause # _ \<Rightarrow>
          (let r = resolution_row run_id organization_id pause
           in if ga_event_id r \<in> ga_event_id ` set (governance_audit_events s) then (Ok (), s)
              else add_audit_event r s))"

section \<open>Laws\<close>

lemma native_task_some:
  "native_task_row task_id org s = Some r \<Longrightarrow>
     r \<in> set (tasks s) \<and> tk_task_id r = task_id \<and> tk_organization_id r = Some org"
  unfolding native_task_row_def by (drule first_where_Some) simp

lemma store_root_identity:
  "store_get_root run org s = Some native \<Longrightarrow> ts_task_id native = run \<and> ts_organization_id native = org"
  by (auto simp: store_get_root_def to_task_snapshot_def dest: native_task_some)

lemma identity_raises: "raises_only {ValueError} (verify_attempt_identity st org item s)"
  unfolding verify_attempt_identity_def by (auto split: option.split)

lemma pair_raises: "raises_only {ValueError} (item_pair org item s)"
  by (simp add: item_pair_def get_native_pair_def Let_def)

lemma each_raises: "(\<And>x. raises_only K (f x)) \<Longrightarrow> raises_only K (each f xs)"
  by (induction xs) (auto intro: raises_only_bind)

lemma verify_parts_raise:
  "raises_only {ValueError} (verify_completed org s item)"
  "raises_only {ValueError} (verify_remaining org s item)"
  "raises_only {ValueError} (verify_superseded org s item)"
  "raises_only {ValueError} (verify_active org s t item)"
proof -
  show "raises_only {ValueError} (verify_completed org s item)"
    unfolding verify_completed_def
    by (intro raises_only_bind pair_raises) (auto simp: identity_raises split: option.split)
  show "raises_only {ValueError} (verify_remaining org s item)"
    unfolding verify_remaining_def
    by (intro raises_only_bind pair_raises) auto
  show "raises_only {ValueError} (verify_superseded org s item)"
    unfolding verify_superseded_def
    by (intro raises_only_bind pair_raises) (auto split: option.split)
  show "raises_only {ValueError} (verify_active org s t item)"
    unfolding verify_active_def Let_def
    by (intro raises_only_bind pair_raises) (auto simp: identity_raises split: option.split)
qed

lemma verify_checkpoint_raises: "raises_only {ValueError} (verify_checkpoint_native_state c t org s)"
  unfolding verify_checkpoint_native_state_def
  by (intro raises_only_bind each_raises verify_parts_raise)
    (simp add: verify_parts_raise split: option.split)

text \<open>The store provides what the journal relies on.\<close>

interpretation skyvern: native_store store_get_root verify_checkpoint_native_state
  by unfold_locales (simp_all add: store_root_identity verify_checkpoint_raises)

section \<open>What a verified checkpoint means\<close>

definition native_state :: "string \<Rightarrow> 'z db_scheme \<Rightarrow> plan_step_ref \<Rightarrow> task_status option \<times> step_status option" where
  "native_state org s item =
     (map_option tk_status (native_task_row (sr_native_task_id item) org s),
      map_option st_status (native_step_row (sr_native_task_id item) (sr_native_step_id item) org s))"

definition native_consistent :: "string \<Rightarrow> 'z db_scheme \<Rightarrow> plan_step_ref \<Rightarrow> bool" where
  "native_consistent org s item \<longleftrightarrow> (fst (native_state org s item) = None) = (snd (native_state org s item) = None)"

definition effect_backed :: "attempt_status \<Rightarrow> string \<Rightarrow> 'z db_scheme \<Rightarrow> plan_step_ref \<Rightarrow> bool" where
  "effect_backed expected org s item \<longleftrightarrow>
     (case (sr_attempt_id item, sr_permit_id item) of
        (None, None) \<Rightarrow> True
      | (Some attempt_id, Some permit_id) \<Rightarrow> \<exists>a p.
          first_where (\<lambda>a. at_attempt_id a = attempt_id \<and> task_of_organization org (at_task_id a) s)
            (execution_attempts s) = Some a \<and>
          first_where (\<lambda>p. pm_permit_id p = permit_id \<and> task_of_organization org (pm_task_id p) s)
            (execution_permits s) = Some p \<and>
          (at_task_id a, at_step_id a, at_contract_id a, at_status a) =
            (sr_native_task_id item, sr_native_step_id item, sr_native_contract_id item, expected) \<and>
          (pm_task_id p, pm_step_id p, pm_contract_id p, pm_status p) =
            (sr_native_task_id item, sr_native_step_id item, sr_native_contract_id item, Permit_consumed)
      | _ \<Rightarrow> False)"

definition active_states :: "plan_transition \<Rightarrow> (task_status \<times> step_status) \<Rightarrow> bool" where
  "active_states t st \<longleftrightarrow>
     (t = Tr_PROBE_BLOCKED \<longrightarrow> st = (Task_pending_result_probe, Step_pending_result_probe)) \<and>
     (t = Tr_APPROVAL_REQUIRED \<longrightarrow> st = (Task_pending_approval, Step_pending_approval)) \<and>
     (t = Tr_APPROVAL_RESUMED \<longrightarrow> st = (Task_resuming, Step_resuming)) \<and>
     (t \<in> {Tr_APPROVAL_REJECTED, Tr_RUN_CANCELLED} \<longrightarrow> st = (Task_canceled, Step_canceled))"

definition active_matches :: "string \<Rightarrow> 'z db_scheme \<Rightarrow> plan_transition \<Rightarrow> plan_step_ref \<Rightarrow> bool" where
  "active_matches org s t item \<longleftrightarrow>
     (\<exists>tst sst. native_state org s item = (Some tst, Some sst) \<and> active_states t (tst, sst)) \<and>
     (t = Tr_PROBE_BLOCKED \<longrightarrow> truthy (sr_attempt_id item) \<and> truthy (sr_permit_id item) \<and>
        effect_backed UNKNOWN org s item)"

lemma identity_ok: "verify_attempt_identity expected org item s = Ok () \<longleftrightarrow> effect_backed expected org s item"
  unfolding verify_attempt_identity_def effect_backed_def
  by (auto split: option.split)

lemma native_step_id: "native_step_row task_id step_id org s = Some r \<Longrightarrow> st_step_id r = step_id"
  unfolding native_step_row_def by (drule first_where_Some) simp

lemma item_pair_ok:
  "item_pair org item s = Ok pair \<longleftrightarrow> native_consistent org s item \<and>
     pair = (map_option (to_task_snapshot org) (native_task_row (sr_native_task_id item) org s),
             map_option (to_step_snapshot org (sr_native_task_id item))
               (native_step_row (sr_native_task_id item) (sr_native_step_id item) org s))"
  by (auto simp: item_pair_def get_native_pair_def Let_def native_consistent_def native_state_def)

lemmas native_cases = item_pair_ok res_bind_ok native_consistent_def native_state_def

lemma completed_ok:
  "verify_completed org s item = Ok () \<longleftrightarrow>
     native_state org s item = (Some Task_completed, Some Step_completed) \<and> effect_backed CONFIRMED org s item"
  unfolding verify_completed_def native_cases
  by (auto simp: to_task_snapshot_def to_step_snapshot_def identity_ok native_step_id split: option.splits)

lemma remaining_ok: "verify_remaining org s item = Ok () \<longleftrightarrow> native_state org s item = (None, None)"
  unfolding verify_remaining_def native_cases by (auto split: option.splits)

lemma superseded_ok:
  "verify_superseded org s item = Ok () \<longleftrightarrow>
     native_state org s item \<in> {(None, None), (Some Task_canceled, Some Step_canceled)}"
  unfolding verify_superseded_def native_cases
  by (auto simp: to_task_snapshot_def to_step_snapshot_def split: option.splits)

lemma active_ok: "verify_active org s t item = Ok () \<longleftrightarrow> active_matches org s t item"
proof (cases "native_task_row (sr_native_task_id item) org s")
  case None
  then show ?thesis
    unfolding verify_active_def active_matches_def native_cases by (auto split: option.splits)
next
  case (Some r)
  show ?thesis
  proof (cases "native_step_row (sr_native_task_id item) (sr_native_step_id item) org s")
    case None
    with Some show ?thesis
      unfolding verify_active_def active_matches_def native_cases by auto
  next
    case step: (Some u)
    have "item_pair org item s = Ok (Some (to_task_snapshot org r), Some (to_step_snapshot org (sr_native_task_id item) u))"
      using Some step by (simp add: native_cases)
    then show ?thesis
      using Some step native_step_id [OF step]
      by (cases t) (auto simp: verify_active_def active_matches_def active_states_def native_state_def
          to_task_snapshot_def to_step_snapshot_def identity_ok Let_def)
  qed
qed

text \<open>
  A checkpoint verifies against the authoritative tables exactly when
  every completed step's native task and step are completed and its attempt, if it names one, is
  confirmed under a consumed permit of the same task, step and contract; no later step has native
  rows; every superseded step has none or cancelled ones; and the active step's rows are both there,
  in the status the transition claims, with an unknown attempt under a consumed permit when the
  transition says the run is blocked on a probe.
\<close>

theorem checkpoint_matches_native:
  "verify_checkpoint_native_state c t org s = Ok () \<longleftrightarrow>
     (\<forall>item \<in> set (cp_completed_prefix c).
        native_state org s item = (Some Task_completed, Some Step_completed) \<and>
        effect_backed CONFIRMED org s item) \<and>
     (\<forall>item \<in> set (cp_remaining_suffix c). native_state org s item = (None, None)) \<and>
     (\<forall>item \<in> set (cp_superseded_suffix c).
        native_state org s item \<in> {(None, None), (Some Task_canceled, Some Step_canceled)}) \<and>
     (case cp_active_step c of None \<Rightarrow> True | Some item \<Rightarrow> active_matches org s t item)"
  unfolding verify_checkpoint_native_state_def
  by (simp add: res_bind_ok each_ok completed_ok remaining_ok superseded_ok active_ok split: option.split)

definition sample_native_db :: "task_status \<Rightarrow> step_status \<Rightarrow> audit_row list \<Rightarrow> agent_db" where
  "sample_native_db tst sst events = empty_agent_db
     \<lparr>tasks := [\<lparr>tk_task_id = ''root'', tk_organization_id = Some ''org'', tk_status = Task_running,
          tk_application = Some ''agentpact:agent-run:plan:v1'', tk_created_at = 0\<rparr>,
        \<lparr>tk_task_id = ''task'', tk_organization_id = Some ''org'', tk_status = tst,
          tk_application = None, tk_created_at = 0\<rparr>],
      steps := [\<lparr>st_step_id = ''s1'', st_organization_id = Some ''org'', st_task_id = Some ''task'',
        st_status = sst, st_created_at = 0\<rparr>],
      governance_audit_events := events\<rparr>"

definition sample_single :: plan_checkpoint where
  "sample_single = sample_checkpoint\<lparr>cp_remaining_suffix := []\<rparr>"

lemma sample_active_state:
  "native_state ''org'' (sample_native_db tst sst events) (sample_ref ''s1'' Ref_ACTIVE) = (Some tst, Some sst)"
  by (simp add: native_state_def native_task_row_def native_step_row_def first_where_def sample_native_db_def
      empty_agent_db_def sample_ref_def)

theorem checkpoint_matches_native_witness:
  "verify_checkpoint_native_state sample_single Tr_APPROVAL_REQUIRED ''org''
       (sample_native_db Task_pending_approval Step_pending_approval []) = Ok () \<and>
   verify_checkpoint_native_state sample_single Tr_APPROVAL_REQUIRED ''org''
       (sample_native_db Task_running Step_running []) \<noteq> Ok ()"
proof -
  have parts: "cp_completed_prefix sample_single = []" "cp_remaining_suffix sample_single = []"
    "cp_superseded_suffix sample_single = []" "cp_active_step sample_single = Some (sample_ref ''s1'' Ref_ACTIVE)"
    by (simp_all add: sample_single_def sample_checkpoint_def)
  show ?thesis
    unfolding checkpoint_matches_native parts
    by (simp add: active_matches_def active_states_def sample_active_state)
qed

section \<open>Appending to the journal\<close>

abbreviation append_transition where
  "append_transition \<equiv> append_agent_run_transition store_get_root verify_checkpoint_native_state"

lemma root_after_event:
  "store_get_root run org (s\<lparr>governance_audit_events := es\<rparr>) = store_get_root run org (s :: 'z journal_db_scheme)"
  by (simp add: store_get_root_def native_task_row_def)


definition sample_admitted :: plan_event where
  "sample_admitted = journal_event sample_single Tr_ADMITTED [(''plan'', ''d'')] 1 None None"

definition sample_journal :: "audit_row list" where
  "sample_journal = [(event_model sample_admitted ''org'')\<lparr>ga_event_id := ''first''\<rparr>]"

definition sample_waiting :: plan_checkpoint where
  "sample_waiting = (after_event sample_admitted)\<lparr>cp_state := Run_APPROVAL_REQUIRED\<rparr>"

lemma sample_single_valid: "checkpoint_valid sample_single"
  using sample_checkpoint_valid by (simp add: sample_single_def checkpoint_valid_def)

lemma sample_waiting_parts [simp]:
  "cp_state sample_waiting = Run_APPROVAL_REQUIRED" "cp_root_task_id sample_waiting = ''root''"
  "cp_active_step sample_waiting = Some (sample_ref ''s1'' Ref_ACTIVE)"
  "cp_completed_prefix sample_waiting = []" "cp_remaining_suffix sample_waiting = []"
  "cp_superseded_suffix sample_waiting = []"
  "cp_journal_sequence sample_waiting = 1" "cp_journal_digest sample_waiting = je_event_digest sample_admitted"
  by (simp_all add: sample_waiting_def sample_admitted_def after_event_def sample_single_def sample_checkpoint_def)

lemma sample_waiting_valid: "checkpoint_valid sample_waiting"
proof -
  have "event_valid sample_admitted"
    unfolding sample_admitted_def by (rule journal_event_valid [OF sample_single_valid])
  then show ?thesis
    using sample_single_valid
    by (simp add: checkpoint_valid_def event_valid_def sample_waiting_def after_event_def sample_admitted_def
        sample_single_def sample_checkpoint_def)
qed

lemma sample_journal_loads:
  "load_events ''root'' (sample_native_db tst sst sample_journal) = Ok [sample_admitted]"
proof -
  have "event_valid sample_admitted"
    unfolding sample_admitted_def by (rule journal_event_valid [OF sample_single_valid])
  moreover have "je_root_task_id sample_admitted = ''root''"
    by (simp add: sample_admitted_def sample_single_def sample_checkpoint_def)
  ultimately show ?thesis
    by (simp add: load_events_def sample_native_db_def sample_journal_def journal_rows_def event_model_def
        plan_payload_dump decode_event_dump [THEN iffD2])
qed

lemma sample_journal_replays: "replay_plan_journal [sample_admitted] = Ok (after_event sample_admitted)"
proof -
  have "event_sound sample_admitted"
    unfolding sample_admitted_def journal_event_sound
    by (simp add: validate_transition_checkpoint_def sample_single_def sample_checkpoint_def)
  then show ?thesis
    unfolding replay_ok_iff journal_chain_def
    by (simp add: journal_begins_def sample_admitted_def sample_single_def sample_checkpoint_def)
qed


section \<open>The life of a pause\<close>

text \<open>A Python value: no dict in it repeats a key. Such a value equals itself.\<close>

fun dicts_only :: "json \<Rightarrow> bool" where
  "dicts_only (JArr vs) = list_all dicts_only vs"
| "dicts_only (JObj kvs) = (distinct (map fst kvs) \<and> list_all (\<lambda>(k, v). dicts_only v) kvs)"
| "dicts_only v = True"

lemma json_eq_refl: "dicts_only v \<Longrightarrow> json_eq v v"
proof (induction v rule: dicts_only.induct)
  case (1 vs)
  then show ?case by (auto simp: list_all_iff intro: list.rel_refl_strong)
next
  case (2 kvs)
  have "json_eq v w'" if "(k, v) \<in> set kvs" "map_of kvs k = Some w'" for k v w'
    using that 2 by (auto simp: list_all_iff dest: map_of_is_SomeI)
  moreover have "map_of kvs k \<noteq> None" if "(k, v) \<in> set kvs" for k v
    using that weak_map_of_SomeI by fastforce
  ultimately show ?case by (fastforce simp: list_all_iff split: option.split)
qed simp_all

lemma run_events_append:
  "run_events run org types (s\<lparr>governance_audit_events := governance_audit_events s @ rs\<rparr>) =
     run_events run org types s @
     filter (\<lambda>r. ga_task_id r = run \<and> ga_organization_id r = org \<and> ga_event_type r \<in> set types) rs"
  by (simp add: run_events_def)

lemma pause_types [simp]: "pause_type \<noteq> resolution_type" "resolution_type \<noteq> pause_type"
  by (simp_all add: pause_type_def resolution_type_def)

lemma pause_row_keys [simp]:
  "ga_task_id (pause_row g d org now) = ps_run_id g" "ga_organization_id (pause_row g d org now) = org"
  "ga_event_type (pause_row g d org now) = pause_type" "ga_created_at (pause_row g d org now) = now"
  "ga_payload (pause_row g d org now) = pause_payload g d"
  by (simp_all add: pause_row_def)

lemma resolution_row_keys [simp]:
  "ga_task_id (resolution_row run org r) = run" "ga_organization_id (resolution_row run org r) = org"
  "ga_event_type (resolution_row run org r) = resolution_type"
  "ga_created_at (resolution_row run org r) = ga_created_at r + 1"
  "payload_object (resolution_row run org r) = Some
     [(''schema_version'', JStr ''agentpact.run-pause-resolution/v1''), (''run_id'', JStr run),
      (''pause_event_id'', JStr (ga_event_id r)), (''status'', JStr ''cleared'')]"
  by (simp_all add: resolution_row_def payload_object_def resolution_payload_def)

lemma read_pause_row:
  assumes "validate_pause_signal g = Ok ()" and "d \<noteq> []"
  shows "read_pause (pause_row g d org now) = Ok \<lparr>pz_signal = g, pz_checkpoint_digest = d, pz_modified_at = now\<rparr>"
  using assms decode_signal_dump [THEN iffD2, OF assms(1)]
  by (simp add: read_pause_def payload_object_def pause_payload_def get_value_def text_of_def)

lemma current_pause_row: "current_pause c (pause_row g d org now # rows) = current_pause (Some (pause_row g d org now)) rows"
  by (simp add: payload_object_def pause_payload_def)

lemma run_events_mono:
  "run_events run org types s = [] \<Longrightarrow> set types' \<subseteq> set types \<Longrightarrow> run_events run org types' s = []"
  by (auto simp: run_events_def filter_empty_conv)

lemma resolution_id_differs:
  "ga_event_id (resolution_row run org r) \<noteq> ga_event_id (pause_row g d org' now)"
proof
  assume "ga_event_id (resolution_row run org r) = ga_event_id (pause_row g d org' now)"
  then have "length (ga_event_id (resolution_row run org r)) = length (ga_event_id (pause_row g d org' now))"
    by simp
  then show False by (simp add: resolution_row_def pause_row_def json_digest_def length_sha256)
qed

text \<open>
  C33. A run with no pause yet: a valid signal saved for it is read back unchanged
  with its checkpoint digest; saving it again changes nothing and saving any other signal is refused;
  clearing it leaves none, and clearing again changes nothing. After that the store still answers to
  a new save from the cleared row: the same signal is accepted but stays cleared, and any other one is
  refused.
\<close>

theorem pause_lifecycle:
  assumes none: "run_events (ps_run_id g) org [pause_type, resolution_type] s = []"
    and valid: "validate_pause_signal g = Ok ()" "d \<noteq> []" "dicts_only (pause_payload g d)"
    and fresh: "ga_event_id (pause_row g d org now) \<notin> ga_event_id ` set (governance_audit_events s)"
      "ga_event_id (resolution_row (ps_run_id g) org (pause_row g d org now)) \<notin>
         ga_event_id ` set (governance_audit_events s)"
  shows "\<exists>s1 s2.
     save_pause_signal g d org now s = (Ok (), s1) \<and>
     get_pause_signal (ps_run_id g) org s1 =
       Ok (Some \<lparr>pz_signal = g, pz_checkpoint_digest = d, pz_modified_at = now\<rparr>) \<and>
     clear_pause_signal (ps_run_id g) org s1 = (Ok (), s2) \<and>
     get_pause_signal (ps_run_id g) org s2 = Ok None \<and>
     clear_pause_signal (ps_run_id g) org s2 = (Ok (), s2) \<and>
     (\<forall>u \<in> {s1, s2}. \<forall>now'. save_pause_signal g d org now' u = (Ok (), u)) \<and>
     (\<forall>u \<in> {s1, s2}. \<forall>g' d' now'. ps_run_id g' = ps_run_id g \<and>
        \<not> json_eq (pause_payload g d) (pause_payload g' d') \<longrightarrow>
        save_pause_signal g' d' org now' u = (Raise ValueError ''Conflicting pause signal already exists'', u))"
proof -
  let ?run = "ps_run_id g"
  let ?p = "pause_row g d org now"
  let ?r = "resolution_row ?run org ?p"
  let ?s1 = "s\<lparr>governance_audit_events := governance_audit_events s @ [?p]\<rparr>"
  let ?s2 = "?s1\<lparr>governance_audit_events := governance_audit_events ?s1 @ [?r]\<rparr>"
  have pauses: "run_events ?run org [pause_type] s = []" by (rule run_events_mono [OF none]) simp
  have first: "run_events ?run org [pause_type] ?s1 = [?p]" "run_events ?run org [pause_type] ?s2 = [?p]"
    "run_events ?run org [pause_type, resolution_type] ?s1 = [?p]"
    "run_events ?run org [pause_type, resolution_type] ?s2 = [?p, ?r]"
    by (simp_all add: run_events_append pauses none)
  have order: "sort_by earlier_event [?p, ?r] = [?p, ?r]"
    by (simp add: sort_by_def earlier_event_def)
  have saved: "save_pause_signal g d org now s = (Ok (), ?s1)"
    using fresh(1) by (simp add: save_pause_signal_def pauses sort_by_def add_audit_event_def)
  have current: "get_pause_signal ?run org ?s1 =
       Ok (Some \<lparr>pz_signal = g, pz_checkpoint_digest = d, pz_modified_at = now\<rparr>)"
    unfolding get_pause_signal_def first
    by (simp add: sort_by_def current_pause_row read_pause_row [OF valid(1,2)] del: current_pause.simps(2))
  have cleared: "clear_pause_signal ?run org ?s1 = (Ok (), ?s2)"
    unfolding clear_pause_signal_def first
    using fresh(2) resolution_id_differs [of ?run org ?p g d org now]
    by (simp add: sort_by_def add_audit_event_def Let_def)
  have gone: "get_pause_signal ?run org ?s2 = Ok None"
    unfolding get_pause_signal_def first order current_pause_row by simp
  have again: "clear_pause_signal ?run org ?s2 = (Ok (), ?s2)"
    unfolding clear_pause_signal_def first by (simp add: sort_by_def Let_def)
  have same: "save_pause_signal g d org now' u = (Ok (), u)" if "u \<in> {?s1, ?s2}" for u now'
  proof -
    from that have "run_events ?run org [pause_type] u = [?p]" using first by blast
    then show ?thesis using json_eq_refl [OF valid(3)] by (simp add: save_pause_signal_def sort_by_def)
  qed
  have other: "save_pause_signal g' d' org now' u = (Raise ValueError ''Conflicting pause signal already exists'', u)"
    if "u \<in> {?s1, ?s2}" "ps_run_id g' = ?run" "\<not> json_eq (pause_payload g d) (pause_payload g' d')" for u g' d' now'
  proof -
    from that(1) have "run_events ?run org [pause_type] u = [?p]" using first by blast
    then show ?thesis using that(2,3) by (simp add: save_pause_signal_def sort_by_def)
  qed
  show ?thesis
    by (rule exI [of _ ?s1], rule exI [of _ ?s2]) (use saved current cleared gone again same other in blast)
qed

theorem pause_lifecycle_witness:
  "\<exists>s1 s2. save_pause_signal sample_signal ''digest'' ''org'' 3 empty_agent_db = (Ok (), s1) \<and>
     clear_pause_signal (ps_run_id sample_signal) ''org'' s1 = (Ok (), s2) \<and>
     is_ok (get_pause_signal (ps_run_id sample_signal) ''org'' s1) \<and>
     get_pause_signal (ps_run_id sample_signal) ''org'' s2 = Ok None \<and>
     save_pause_signal sample_signal ''digest'' ''org'' 4 s2 = (Ok (), s2)"
proof -
  have none: "run_events (ps_run_id sample_signal) ''org'' [pause_type, resolution_type] empty_agent_db = []"
    by (simp add: run_events_def empty_agent_db_def)
  have dicts: "dicts_only (pause_payload sample_signal ''digest'')"
    by (simp add: pause_payload_def signal_dump_def sample_signal_def optional_dump_def jstr_opt_def
        input_request_dump_def sample_input_request_def slot_dump_def sample_slot_def sources_dump_def
        prompt_dump_def list_all_iff)
  have fresh: "i \<notin> ga_event_id ` set (governance_audit_events empty_agent_db)" for i
    by (simp add: empty_agent_db_def)
  have digest: "''digest'' \<noteq> []" by simp
  from pause_lifecycle [OF none sample_signal_valid digest dicts fresh fresh, of 3]
  obtain s1 s2 where life:
    "save_pause_signal sample_signal ''digest'' ''org'' 3 empty_agent_db = (Ok (), s1)"
    "get_pause_signal (ps_run_id sample_signal) ''org'' s1 =
       Ok (Some \<lparr>pz_signal = sample_signal, pz_checkpoint_digest = ''digest'', pz_modified_at = 3\<rparr>)"
    "clear_pause_signal (ps_run_id sample_signal) ''org'' s1 = (Ok (), s2)"
    "get_pause_signal (ps_run_id sample_signal) ''org'' s2 = Ok None"
    "\<forall>u \<in> {s1, s2}. \<forall>now'. save_pause_signal sample_signal ''digest'' ''org'' now' u = (Ok (), u)"
    by blast
  show ?thesis
    by (rule exI [of _ s1], rule exI [of _ s2]) (use life in simp)
qed

end
