(* ===== verification/RunViews.thy ===== *)
theory RunViews
  imports NativeStore Coordinator Auth ApprovalLaws
begin

text \<open>
  The reading half of \<open>enterprise/agent_runs/service.py\<close>: loading a run from its root task, its
  admission and its journal, the public projection with the actions it offers, the timeline, the
  decision trace, the report and the pages of runs. The parser of the stored bundle (pydantic's
  \<open>model_validate\<close>) is a field of the service; a call reads the clock once, \<open>sv_now\<close>.
\<close>

section \<open>The service and its errors\<close>

record 'i run_service =
  sv_registry :: "'i runtime_registry"
  sv_default_binding :: "pack_runtime_binding option"
  sv_target_url :: string
  sv_parse_bundle :: "json \<Rightarrow> admission_bundle option"
  sv_now :: time

abbreviation run_error :: "string \<Rightarrow> nat \<Rightarrow> 'a res" where
  "run_error c status \<equiv> Raise (AgentRunError status) c"

abbreviation state_conflict :: "'a res" where
  "state_conflict \<equiv> run_error ''STATE_CONFLICT'' 409"

text \<open>\<open>except LookupError\<close>, and \<open>except (ValueError, GovernedPlanError)\<close>.\<close>

definition is_lookup_error :: "exn \<Rightarrow> bool" where
  "is_lookup_error e = (exc_of e \<in> {LookupError, KeyError})"

definition is_plan_error :: "exn \<Rightarrow> bool" where
  "is_plan_error e = (is_value_error e \<or> exc_of e = GovernedPlanError)"

definition translate :: "(exn \<Rightarrow> bool) \<Rightarrow> exn \<Rightarrow> 'a res \<Rightarrow> 'a res" where
  "translate caught e' r = (case r of Inl e \<Rightarrow> if caught e then Inl e' else Inl e | Inr x \<Rightarrow> Ok x)"

datatype run_state = View_PLANNING | View_AWAITING_APPROVAL | View_AWAITING_INPUT | View_NEEDS_HUMAN
  | View_RUNNING | View_UNKNOWN | View_SUCCEEDED | View_REJECTED | View_CANCELLED | View_FAILED

fun view_state_value :: "run_state \<Rightarrow> string" where
  "view_state_value View_PLANNING = ''PLANNING''"
| "view_state_value View_AWAITING_APPROVAL = ''AWAITING_APPROVAL''"
| "view_state_value View_AWAITING_INPUT = ''AWAITING_INPUT''"
| "view_state_value View_NEEDS_HUMAN = ''NEEDS_HUMAN''"
| "view_state_value View_RUNNING = ''RUNNING''"
| "view_state_value View_UNKNOWN = ''UNKNOWN''"
| "view_state_value View_SUCCEEDED = ''SUCCEEDED''"
| "view_state_value View_REJECTED = ''REJECTED''"
| "view_state_value View_CANCELLED = ''CANCELLED''"
| "view_state_value View_FAILED = ''FAILED''"

datatype run_action = Act_APPROVE | Act_REJECT | Act_PROBE | Act_CANCEL | Act_SUBMIT_INPUT | Act_RESUME
  | Act_TAKE_OVER

fun run_action_value :: "run_action \<Rightarrow> string" where
  "run_action_value Act_APPROVE = ''approve''"
| "run_action_value Act_REJECT = ''reject''"
| "run_action_value Act_PROBE = ''probe''"
| "run_action_value Act_CANCEL = ''cancel''"
| "run_action_value Act_SUBMIT_INPUT = ''submit_input''"
| "run_action_value Act_RESUME = ''resume''"
| "run_action_value Act_TAKE_OVER = ''take_over''"

record run_plan_step =
  vs_sequence :: int
  vs_role :: string
  vs_state :: string

record run_projection =
  pj_run_id :: string
  pj_pack_id :: string
  pj_pack_version :: string
  pj_pack_display_name :: string
  pj_provider_mode :: string
  pj_state :: run_state
  pj_legal_actions :: "run_action list"
  pj_plan :: "run_plan_step list"
  pj_completed_steps :: int
  pj_total_steps :: int
  pj_reason_code :: "string option"
  pj_pause_signal :: "pause_signal option"

record locked_run =
  lr_root :: task_snapshot
  lr_bundle :: admission_bundle
  lr_checkpoint :: plan_checkpoint
  lr_events :: "plan_event list"
  lr_authority_digests :: "(string \<times> string) list"

section \<open>Guards and small helpers\<close>

definition require_operator_user :: "user_context \<Rightarrow> unit res" where
  "require_operator_user user = (if \<not> is_any_operator user then run_error ''OPERATOR_REQUIRED'' 403 else Ok ())"

definition require_approver_user :: "user_context \<Rightarrow> unit res" where
  "require_approver_user user = (if \<not> is_any_approver user then run_error ''APPROVER_REQUIRED'' 403 else Ok ())"

definition safe_reason :: "string option \<Rightarrow> string" where
  "safe_reason reason = (case reason of
     Some (c # cs) \<Rightarrow> ''Authenticated decision ('' @ take 12 (json_digest (JStr (c # cs))) @ '')''
   | _ \<Rightarrow> ''Authenticated decision'')"

definition operation_key_of :: "string \<Rightarrow> string \<Rightarrow> string \<Rightarrow> string \<Rightarrow> string \<Rightarrow> string" where
  "operation_key_of tenant_id run_id command caller_key predecessor =
     ''agent-run:'' @ command @ '':'' @
     json_digest (strings_json [tenant_id, run_id, command, caller_key, predecessor])"

fun pause_to_action :: "pause_action \<Rightarrow> run_action" where
  "pause_to_action Pause_SUBMIT_INPUT = Act_SUBMIT_INPUT"
| "pause_to_action Pause_RESUME = Act_RESUME"
| "pause_to_action Pause_TAKE_OVER = Act_TAKE_OVER"
| "pause_to_action Pause_CANCEL = Act_CANCEL"

definition pause_legal_actions :: "pause_signal \<Rightarrow> run_action list" where
  "pause_legal_actions signal = map pause_to_action (ps_allowed_actions signal)"

fun public_step_state :: "plan_step_state \<Rightarrow> string" where
  "public_step_state Ref_PENDING = ''pending''"
| "public_step_state Ref_ACTIVE = ''active''"
| "public_step_state Ref_COMPLETED = ''completed''"
| "public_step_state Ref_PROBE_BLOCKED = ''blocked''"
| "public_step_state Ref_FAILED = ''terminal''"
| "public_step_state Ref_SUPERSEDED = ''terminal''"

fun public_steps :: "int \<Rightarrow> plan_step_ref list \<Rightarrow> run_plan_step list" where
  "public_steps i [] = []"
| "public_steps i (r # rs) =
     \<lparr>vs_sequence = i, vs_role = ''step'', vs_state = public_step_state (sr_state r)\<rparr> # public_steps (i + 1) rs"

definition public_plan :: "plan_checkpoint \<Rightarrow> run_plan_step list" where
  "public_plan c = public_steps 1 (cp_completed_prefix c @
     (case cp_active_step c of None \<Rightarrow> [] | Some a \<Rightarrow> [a]) @ cp_remaining_suffix c)"

section \<open>The rows behind a run\<close>

definition pending_approval ::
  "plan_checkpoint \<Rightarrow> 'z db_scheme \<Rightarrow> (pending_row \<times> approval_row) option res" where
  "pending_approval c s =
     (case cp_active_step c of
        None \<Rightarrow> Ok None
      | Some active \<Rightarrow>
          (case filter (\<lambda>p. pn_task_id p = sr_native_task_id active \<and> pn_step_id p = sr_native_step_id active)
                  (pending_actions s) of
             [] \<Rightarrow> Ok None
           | [pending] \<Rightarrow>
               (if \<not> truthy (pn_approval_id pending) then state_conflict
                else case first_where (\<lambda>a. Some (ar_approval_id a) = pn_approval_id pending) (approval_requests s) of
                  None \<Rightarrow> state_conflict
                | Some approval \<Rightarrow>
                    if ar_task_id approval \<noteq> pn_task_id pending \<or>
                       ar_organization_id approval \<noteq> pn_organization_id pending
                    then state_conflict else Ok (Some (pending, approval)))
           | _ \<Rightarrow> state_conflict))"

definition task_attempts :: "string \<Rightarrow> 'z db_scheme \<Rightarrow> attempt_row list" where
  "task_attempts task_id s = filter (\<lambda>a. at_task_id a = task_id) (execution_attempts s)"

definition task_permits :: "string \<Rightarrow> 'z db_scheme \<Rightarrow> permit_row list" where
  "task_permits task_id s = filter (\<lambda>p. pm_task_id p = task_id) (execution_permits s)"

definition effect_free :: "string \<Rightarrow> 'z db_scheme \<Rightarrow> bool" where
  "effect_free task_id s =
     (task_attempts task_id s = [] \<and> \<not> list_ex (\<lambda>p. pm_status p = Permit_consumed) (task_permits task_id s))"

definition effect_may_have_started :: "plan_checkpoint \<Rightarrow> 'z db_scheme \<Rightarrow> bool" where
  "effect_may_have_started c s =
     (case cp_active_step c of None \<Rightarrow> False | Some a \<Rightarrow> \<not> effect_free (sr_native_task_id a) s)"

definition find_admission_by_task :: "string \<Rightarrow> string \<Rightarrow> 'z agent_db_scheme \<Rightarrow> admission_row option" where
  "find_admission_by_task task_id organization_id s =
     first_where (\<lambda>r. ad_task_id r = task_id \<and> ad_organization_id r = organization_id)
       (governed_task_admissions s)"

text \<open>\<open>_load_locked\<close>\<close>

definition load_locked :: "'i run_service \<Rightarrow> string \<Rightarrow> user_context \<Rightarrow> agent_db \<Rightarrow> locked_run res" where
  "load_locked svc run_id user s =
     (case store_get_root run_id (uc_org_id user) s of
        None \<Rightarrow> run_error ''RUN_NOT_FOUND'' 404
      | Some root' \<Rightarrow>
          if \<not> is_plan_application_marker (ts_application root') then state_conflict
          else (case find_admission_by_task run_id (uc_org_id user) s of
            None \<Rightarrow> run_error ''RUN_NOT_FOUND'' 404
          | Some admission \<Rightarrow> (case sv_parse_bundle svc (ad_bundle_payload admission) of
              None \<Rightarrow> Raise ValueError ''validation error for TaskAdmissionBundle''
            | Some bundle \<Rightarrow>
                let expected = derive_pack_run_id (uc_org_id user) (rq_request_id (ab_request bundle))
                in if ts_task_id root' \<noteq> expected \<or> td_task_id (ab_task bundle) \<noteq> expected then state_conflict
                else res_bind (load_events run_id s) (\<lambda>events.
                     res_bind (translate is_plan_error (Exc (AgentRunError 409) ''STATE_CONFLICT'')
                       (replay_plan_journal events)) (\<lambda>checkpoint.
                     Ok \<lparr>lr_root = root', lr_bundle = bundle, lr_checkpoint = checkpoint, lr_events = events,
                         lr_authority_digests = je_authority_digests (last events)\<rparr>)))))"

section \<open>Adapters and the projection\<close>

definition binding_for_bundle :: "admission_bundle \<Rightarrow> pack_runtime_binding res" where
  "binding_for_bundle b = (case ab_runtime_binding b of
     None \<Rightarrow> run_error ''RUNTIME_BINDING_MISSING'' 409 | Some x \<Rightarrow> Ok x)"

definition adapter_for ::
  "'i run_service \<Rightarrow> pack_runtime_binding \<Rightarrow> string \<Rightarrow> string list option \<Rightarrow> 'i runtime_adapter res" where
  "adapter_for svc b tenant_id capability_ids =
     (let r = sv_registry svc; now = sv_now svc in
      res_bind (translate is_lookup_error (Exc (AgentRunError 503) ''PACK_RUNTIME_UNAVAILABLE'')
        (if tenant_scoped r
         then (case capability_ids of
             None \<Rightarrow> require_for_tenant now (Some now) tenant_id (binding_key b) None (Some (rb_adapter_id b)) r
           | Some cs \<Rightarrow> resolve_for_execution now (Some now) tenant_id b (Some cs) r)
         else require_binding b r))
      (\<lambda>a. if ra_binding a \<noteq> b then run_error ''ADAPTER_CONFORMANCE_FAILED'' 503 else Ok a))"

text \<open>\<open>_projection\<close>; the projection's own fields demand at least one step.\<close>

definition view_of ::
  "'i run_service \<Rightarrow> locked_run \<Rightarrow> run_state \<Rightarrow> run_action list \<Rightarrow> string option \<Rightarrow> pause_signal option \<Rightarrow>
   run_projection res" where
  "view_of svc locked state actions reason signal =
     res_bind (binding_for_bundle (lr_bundle locked)) (\<lambda>binding.
     res_bind (if tenant_scoped (sv_registry svc)
               then public_metadata_for_tenant (sv_now svc) (rq_tenant_id (ab_request (lr_bundle locked)))
                      (binding_key binding) (sv_registry svc)
               else unscoped_metadata (binding_key binding) (sv_registry svc)) (\<lambda>metadata.
     let plan = public_plan (lr_checkpoint locked)
     in if plan = [] then Raise ValueError ''validation error for AgentRunProjection''
        else Ok \<lparr>pj_run_id = cp_root_task_id (lr_checkpoint locked), pj_pack_id = pm_pack_id metadata,
          pj_pack_version = pm_pack_version metadata, pj_pack_display_name = pm_display_name metadata,
          pj_provider_mode = ab_provider_mode (lr_bundle locked), pj_state = state,
          pj_legal_actions = actions, pj_plan = plan,
          pj_completed_steps = int (length (cp_completed_prefix (lr_checkpoint locked))),
          pj_total_steps = int (length plan), pj_reason_code = reason, pj_pause_signal = signal\<rparr>))"

text \<open>\<open>_project_locked\<close>, from the active step's rows on.\<close>

definition native_in :: "native_pair \<Rightarrow> task_status \<Rightarrow> step_status \<Rightarrow> bool" where
  "native_in pair tst sst = (map_option ts_status (fst pair) = Some (RunTask tst) \<and>
     map_option ss_status (snd pair) = Some (RunStep sst))"

definition probe_exact :: "plan_step_ref \<Rightarrow> native_pair \<Rightarrow> 'z db_scheme \<Rightarrow> bool" where
  "probe_exact active pair s =
     (native_in pair Task_pending_result_probe Step_pending_result_probe \<and>
      (case (filter (\<lambda>a. Some (at_attempt_id a) = sr_attempt_id active \<and> at_status a = UNKNOWN)
               (task_attempts (sr_native_task_id active) s),
             filter (\<lambda>p. Some (pm_permit_id p) = sr_permit_id active \<and> pm_status p = Permit_consumed)
               (task_permits (sr_native_task_id active) s)) of
         ([a], [p]) \<Rightarrow> at_action_fingerprint a = pm_action_fingerprint p \<and>
                       at_observation_hash a = pm_observation_hash p
       | _ \<Rightarrow> False))"

definition project_active ::
  "'i run_service \<Rightarrow> locked_run \<Rightarrow> plan_step_ref \<Rightarrow> native_pair \<Rightarrow> (pending_row \<times> approval_row) option \<Rightarrow>
   'z db_scheme \<Rightarrow> run_projection res" where
  "project_active svc locked active pair linked s =
     (let c = lr_checkpoint locked; latest = je_transition (last (lr_events locked));
          task_id = sr_native_task_id active;
          failed = view_of svc locked View_FAILED [] (Some ''STATE_CONFLICT'') None
      in if cp_state c = Run_PROBE_BLOCKED
      then (if probe_exact active pair s
            then view_of svc locked View_UNKNOWN [Act_PROBE] (Some ''RESULT_UNCERTAIN'') None else failed)
      else if latest = Tr_APPROVAL_REJECTED
      then (if cp_state c = Run_REJECTED \<and> native_in pair Task_canceled Step_canceled \<and>
               (case linked of None \<Rightarrow> False | Some (pending, approval) \<Rightarrow>
                  pn_status pending = REJECTED \<and> ar_status approval = Approval_REJECTED) \<and>
               effect_free task_id s
            then view_of svc locked View_REJECTED [] (Some ''APPROVAL_REJECTED'') None else failed)
      else if latest = Tr_RUN_CANCELLED
      then (if cp_state c = Run_CANCELLED \<and> native_in pair Task_canceled Step_canceled \<and> effect_free task_id s
            then view_of svc locked View_CANCELLED [] (Some ''RUN_CANCELLED'') None else failed)
      else if cp_state c = Run_APPROVAL_REQUIRED
      then (if native_in pair Task_pending_approval Step_pending_approval \<and>
               (case linked of None \<Rightarrow> False | Some (pending, approval) \<Rightarrow>
                  pn_status pending = PENDING \<and> ar_status approval = Approval_PENDING) \<and>
               task_attempts task_id s = [] \<and> task_permits task_id s = []
            then view_of svc locked View_AWAITING_APPROVAL [Act_APPROVE, Act_REJECT] None None
            else if (case linked of None \<Rightarrow> False | Some (pending, approval) \<Rightarrow> pn_status pending = APPROVED)
            then view_of svc locked View_RUNNING [] (Some ''APPROVAL_RECORDED'') None
            else failed)
      else if cp_state c = Run_ACTIVE \<and> pair = (None, None) \<and> latest = Tr_ADMITTED
      then view_of svc locked View_PLANNING [Act_CANCEL] None None
      else if cp_state c = Run_ACTIVE \<and>
              map_option ts_status (fst pair) \<in> {Some (RunTask Task_created), Some (RunTask Task_running),
                Some (RunTask Task_resuming)} \<and>
              map_option ss_status (snd pair) \<in> {Some (RunStep Step_created), Some (RunStep Step_running),
                Some (RunStep Step_resuming)} \<and>
              effect_free task_id s
      then view_of svc locked View_RUNNING
             (if map_option ts_status (fst pair) = Some (RunTask Task_resuming) then [] else [Act_CANCEL]) None None
      else failed)"

definition project_locked :: "'i run_service \<Rightarrow> locked_run \<Rightarrow> agent_db \<Rightarrow> run_projection res" where
  "project_locked svc locked s =
     (let c = lr_checkpoint locked; org = ts_organization_id (lr_root locked);
          failed = view_of svc locked View_FAILED [] (Some ''STATE_CONFLICT'') None
      in res_bind (get_pause_signal (cp_root_task_id c) org s) (\<lambda>pause. case pause of
        Some p \<Rightarrow>
          (if pz_checkpoint_digest p \<noteq> json_digest (checkpoint_dump c) \<or>
              ps_run_id (pz_signal p) \<noteq> cp_root_task_id c
           then failed
           else view_of svc locked
             (if ps_outcome (pz_signal p) = Outcome_AWAITING_INPUT then View_AWAITING_INPUT else View_NEEDS_HUMAN)
             (pause_legal_actions (pz_signal p)) (Some (ps_reason_code (pz_signal p))) (Some (pz_signal p)))
      | None \<Rightarrow>
          if cp_state c = Run_COMPLETED \<and> cp_active_step c = None
          then view_of svc locked View_SUCCEEDED [] None None
          else case cp_active_step c of
            None \<Rightarrow> failed
          | Some active \<Rightarrow>
              res_bind (translate is_value_error (Exc (AgentRunError 409) ''STATE_CONFLICT'')
                (item_pair org active s)) (\<lambda>pair.
              res_bind (pending_approval c s) (\<lambda>linked. project_active svc locked active pair linked s))))"

definition get_run :: "'i run_service \<Rightarrow> string \<Rightarrow> user_context \<Rightarrow> agent_db \<Rightarrow> run_projection res" where
  "get_run svc run_id user s =
     res_bind (load_locked svc run_id user s) (\<lambda>locked. project_locked svc locked s)"

section \<open>The timeline and the decision trace\<close>

record timeline_event =
  te_sequence :: int
  te_stage :: string
  te_state :: run_state
  te_reason_code :: "string option"

fun transition_state :: "plan_transition \<Rightarrow> run_state" where
  "transition_state Tr_ADMITTED = View_PLANNING"
| "transition_state Tr_APPROVAL_REQUIRED = View_AWAITING_APPROVAL"
| "transition_state Tr_APPROVAL_RESUMED = View_RUNNING"
| "transition_state Tr_APPROVAL_REJECTED = View_REJECTED"
| "transition_state Tr_RUN_CANCELLED = View_CANCELLED"
| "transition_state Tr_PROBE_BLOCKED = View_UNKNOWN"
| "transition_state Tr_PLAN_COMPLETED = View_SUCCEEDED"
| "transition_state t = View_RUNNING"

fun transition_reason :: "plan_transition \<Rightarrow> string option" where
  "transition_reason Tr_PROBE_BLOCKED = Some ''RESULT_UNCERTAIN''"
| "transition_reason Tr_APPROVAL_REJECTED = Some ''APPROVAL_REJECTED''"
| "transition_reason Tr_RUN_CANCELLED = Some ''RUN_CANCELLED''"
| "transition_reason Tr_REAUTHORIZATION_REQUIRED = Some ''REAUTHORIZATION_REQUIRED''"
| "transition_reason t = None"

definition timeline_event_of :: "plan_event \<Rightarrow> timeline_event" where
  "timeline_event_of e =
     \<lparr>te_sequence = je_sequence e, te_stage = transition_value (je_transition e),
      te_state = transition_state (je_transition e), te_reason_code = transition_reason (je_transition e)\<rparr>"

definition run_events_view :: "'i run_service \<Rightarrow> string \<Rightarrow> user_context \<Rightarrow> agent_db \<Rightarrow> timeline_event list res" where
  "run_events_view svc run_id user s =
     res_bind (load_locked svc run_id user s) (\<lambda>locked.
     res_bind (project_locked svc locked s) (\<lambda>_. Ok (map timeline_event_of (lr_events locked))))"

record trace_stage =
  tg_stage :: string
  tg_status :: string
  tg_reason_code :: "string option"
  tg_timestamp :: "time option"
  tg_duration_ms :: "rat option"
  tg_provider_calls :: "int option"
  tg_repair_count :: "int option"
  tg_prompt_tokens :: "int option"
  tg_completion_tokens :: "int option"
  tg_total_tokens :: "int option"

definition trace_stage_of :: "string \<Rightarrow> string \<Rightarrow> string \<Rightarrow> time option \<Rightarrow> trace_stage" where
  "trace_stage_of stage status reason timestamp =
     \<lparr>tg_stage = stage, tg_status = status, tg_reason_code = Some reason, tg_timestamp = timestamp,
      tg_duration_ms = None, tg_provider_calls = None, tg_repair_count = None, tg_prompt_tokens = None,
      tg_completion_tokens = None, tg_total_tokens = None\<rparr>"

definition upper_ascii :: "string \<Rightarrow> string" where
  "upper_ascii = map (\<lambda>c. let n = of_char c :: nat in
     if 97 \<le> n \<and> n \<le> 122 then char_of (n - 32) else c)"

definition planner_stages :: "planner_observation option \<Rightarrow> trace_stage list" where
  "planner_stages observation = (case observation of
     None \<Rightarrow> [trace_stage_of ''provider'' ''not_recorded'' ''PLANNER_OBSERVATION_NOT_RECORDED'' None,
              trace_stage_of ''validation'' ''not_recorded'' ''PLANNER_OBSERVATION_NOT_RECORDED'' None]
   | Some p \<Rightarrow>
       (let status = (if po_disposition p = ''rejected'' then ''failed'' else ''completed'');
            reason = (case po_codes p of [] \<Rightarrow> upper_ascii (po_disposition p) | r # _ \<Rightarrow> r);
            tokens = (\<lambda>f. case po_usage p of None \<Rightarrow> None | Some u \<Rightarrow> f u)
        in [(trace_stage_of ''provider'' status reason None)
              \<lparr>tg_duration_ms := po_provider_duration_ms p, tg_provider_calls := Some (po_provider_calls p),
               tg_repair_count := Some (po_repair_count p), tg_prompt_tokens := tokens us_prompt_tokens,
               tg_completion_tokens := tokens us_completion_tokens, tg_total_tokens := tokens us_total_tokens\<rparr>,
            (trace_stage_of ''validation'' status reason None)
              \<lparr>tg_duration_ms := po_duration_ms p, tg_provider_calls := Some (po_provider_calls p),
               tg_repair_count := Some (po_repair_count p)\<rparr>]))"

text \<open>The last event with one of the given transitions.\<close>

definition last_time :: "plan_transition set \<Rightarrow> plan_event list \<Rightarrow> time option" where
  "last_time ts es = map_option je_created_at (List.find (\<lambda>e. je_transition e \<in> ts) (rev es))"

definition approval_stage :: "plan_event list \<Rightarrow> trace_stage" where
  "approval_stage es =
     (let seen = je_transition ` set es; stamp = last_time {Tr_APPROVAL_REQUIRED, Tr_APPROVAL_RESUMED, Tr_APPROVAL_REJECTED} es
      in if Tr_APPROVAL_REJECTED \<in> seen then trace_stage_of ''approval'' ''failed'' ''APPROVAL_REJECTED'' stamp
         else if Tr_APPROVAL_RESUMED \<in> seen then trace_stage_of ''approval'' ''completed'' ''APPROVAL_RESUMED'' stamp
         else if Tr_APPROVAL_REQUIRED \<in> seen then trace_stage_of ''approval'' ''active'' ''APPROVAL_REQUIRED'' stamp
         else trace_stage_of ''approval'' ''pending'' ''APPROVAL_NOT_REACHED'' stamp)"

definition recovery_stage :: "plan_event list \<Rightarrow> trace_stage" where
  "recovery_stage es =
     (let seen = je_transition ` set es
      in if Tr_PROBE_BLOCKED \<notin> seen then trace_stage_of ''recovery'' ''pending'' ''RECOVERY_NOT_REQUIRED'' None
         else if Tr_PROBE_RESOLVED \<in> seen
         then trace_stage_of ''recovery'' ''completed'' ''PROBE_RESOLVED'' (last_time {Tr_PROBE_RESOLVED} es)
         else trace_stage_of ''recovery'' ''blocked'' ''PROBE_REQUIRED'' (last_time {Tr_PROBE_BLOCKED} es))"

text \<open>The dict of execution statuses; a state that is no key of it raises \<open>KeyError\<close>.\<close>

fun execution_status :: "run_state \<Rightarrow> string option" where
  "execution_status View_PLANNING = Some ''pending''"
| "execution_status View_AWAITING_APPROVAL = Some ''pending''"
| "execution_status View_RUNNING = Some ''active''"
| "execution_status View_UNKNOWN = Some ''blocked''"
| "execution_status View_SUCCEEDED = Some ''completed''"
| "execution_status View_REJECTED = Some ''failed''"
| "execution_status View_CANCELLED = Some ''failed''"
| "execution_status View_FAILED = Some ''failed''"
| "execution_status st = None"

definition decision_trace_of :: "locked_run \<Rightarrow> run_projection \<Rightarrow> trace_stage list res" where
  "decision_trace_of locked projection =
     (let es = lr_events locked in
      case execution_status (pj_state projection) of
        None \<Rightarrow> Raise KeyError (view_state_value (pj_state projection))
      | Some status \<Rightarrow> Ok (planner_stages (ab_planner_observation (lr_bundle locked)) @
          [trace_stage_of ''compilation'' ''completed'' ''TRUSTED_COMPILATION_ACCEPTED'' (Some (je_created_at (hd es))),
           trace_stage_of ''admission'' ''completed'' ''ADMITTED'' (Some (je_created_at (hd es))),
           approval_stage es,
           trace_stage_of ''execution'' status
             (if truthy (pj_reason_code projection) then the (pj_reason_code projection)
              else view_state_value (pj_state projection)) (Some (je_created_at (last es))),
           recovery_stage es]))"

definition decision_trace :: "'i run_service \<Rightarrow> string \<Rightarrow> user_context \<Rightarrow> agent_db \<Rightarrow> trace_stage list res" where
  "decision_trace svc run_id user s =
     res_bind (load_locked svc run_id user s) (\<lambda>locked.
     res_bind (project_locked svc locked s) (\<lambda>projection. decision_trace_of locked projection))"

section \<open>The report\<close>

definition plan_step_json :: "run_plan_step \<Rightarrow> json" where
  "plan_step_json v = JObj
     [(''sequence'', JInt (vs_sequence v)), (''role'', JStr (vs_role v)), (''state'', JStr (vs_state v))]"

definition projection_json :: "run_projection \<Rightarrow> json" where
  "projection_json p = JObj
     [(''run_id'', JStr (pj_run_id p)), (''pack_id'', JStr (pj_pack_id p)),
      (''pack_version'', JStr (pj_pack_version p)), (''pack_display_name'', JStr (pj_pack_display_name p)),
      (''provider_mode'', JStr (pj_provider_mode p)), (''state'', JStr (view_state_value (pj_state p))),
      (''legal_actions'', strings_json (map run_action_value (pj_legal_actions p))),
      (''plan'', JArr (map plan_step_json (pj_plan p))),
      (''completed_steps'', JInt (pj_completed_steps p)), (''total_steps'', JInt (pj_total_steps p)),
      (''reason_code'', jstr_opt (pj_reason_code p)),
      (''pause_signal'', optional_dump signal_dump (pj_pause_signal p))]"

definition timeline_json :: "timeline_event \<Rightarrow> json" where
  "timeline_json e = JObj
     [(''sequence'', JInt (te_sequence e)), (''stage'', JStr (te_stage e)),
      (''state'', JStr (view_state_value (te_state e))), (''reason_code'', jstr_opt (te_reason_code e))]"

definition trace_stage_json :: "trace_stage \<Rightarrow> json" where
  "trace_stage_json g = JObj
     [(''stage'', JStr (tg_stage g)), (''status'', JStr (tg_status g)),
      (''reason_code'', jstr_opt (tg_reason_code g)), (''timestamp'', time_opt (tg_timestamp g)),
      (''duration_ms'', float_opt (tg_duration_ms g)), (''provider_calls'', int_opt (tg_provider_calls g)),
      (''repair_count'', int_opt (tg_repair_count g)), (''prompt_tokens'', int_opt (tg_prompt_tokens g)),
      (''completion_tokens'', int_opt (tg_completion_tokens g)), (''total_tokens'', int_opt (tg_total_tokens g))]"

definition trace_json :: "string \<Rightarrow> trace_stage list \<Rightarrow> json" where
  "trace_json run_id stages = JObj
     [(''schema_version'', JStr ''agentpact-agent-run-decision-trace/v1''), (''run_id'', JStr run_id),
      (''non_authoritative'', JBool True), (''stages'', JArr (map trace_stage_json stages))]"

record run_report =
  rr_projection :: run_projection
  rr_events :: "timeline_event list"
  rr_decision_trace :: "trace_stage list"
  rr_report_digest :: string

definition report_run :: "'i run_service \<Rightarrow> string \<Rightarrow> user_context \<Rightarrow> agent_db \<Rightarrow> run_report res" where
  "report_run svc run_id user s =
     res_bind (load_locked svc run_id user s) (\<lambda>locked.
     res_bind (project_locked svc locked s) (\<lambda>projection.
     res_bind (decision_trace_of locked projection) (\<lambda>stages.
     let events = map timeline_event_of (lr_events locked);
         payload = JObj
           [(''schema_version'', JStr ''agentpact-agent-run-report/v2''),
            (''projection'', projection_json projection), (''events'', JArr (map timeline_json events)),
            (''decision_trace'', trace_json (pj_run_id projection) stages)]
     in Ok \<lparr>rr_projection = projection, rr_events = events, rr_decision_trace = stages,
            rr_report_digest = json_digest payload\<rparr>)))"

section \<open>Pages of runs\<close>

text \<open>
  \<open>list_runs\<close>. A summary is the projection without its actions, plan and pause, with the creation
  time of the root. The cursor is the boundary it encodes; its base64 text is left to the codec.
\<close>

record run_summary =
  sm_projection :: run_projection
  sm_created_at :: time

record run_page =
  pg_items :: "run_summary list"
  pg_next :: "(time \<times> string) option"

definition summarize :: "task_snapshot \<Rightarrow> run_projection \<Rightarrow> run_summary" where
  "summarize r p =
     \<lparr>sm_projection = p\<lparr>pj_legal_actions := [], pj_plan := [], pj_pause_signal := None\<rparr>,
      sm_created_at = ts_created_at r\<rparr>"

definition list_runs ::
  "'i run_service \<Rightarrow> user_context \<Rightarrow> (time \<times> string) option \<Rightarrow> int \<Rightarrow> agent_db \<Rightarrow> run_page res" where
  "list_runs svc user boundary limit s =
     res_bind (require_operator_user user) (\<lambda>_.
     if \<not> (1 \<le> limit \<and> limit \<le> 50) then run_error ''INVALID_CURSOR'' 422
     else let roots = list_roots (uc_org_id user) boundary (nat limit + 1) s
          in res_bind (map_res (\<lambda>r. res_bind (load_locked svc (ts_task_id r) user s) (\<lambda>locked.
                 res_bind (project_locked svc locked s) (\<lambda>p. Ok (summarize r p))))
               (take (nat limit) roots)) (\<lambda>items.
             Ok \<lparr>pg_items = items, pg_next =
               (if nat limit < length roots \<and> items \<noteq> []
                then Some (sm_created_at (last items), pj_run_id (sm_projection (last items))) else None)\<rparr>))"

section \<open>The order of pages\<close>

lemma str_le_refl: "str_le x x"
  by (induction x) simp_all

lemma str_le_total: "str_le x y \<or> str_le y x"
proof (induction x y rule: str_le.induct)
  case (3 c s d t)
  consider "(of_char c :: nat) < of_char d" | "(of_char d :: nat) < of_char c" | "(of_char c :: nat) = of_char d"
    by (rule linorder_cases)
  then show ?case
  proof cases
    case 3
    then have "c = d" by simp
    with "3.IH" show ?thesis by simp
  qed simp_all
qed simp_all

lemma str_le_empty: "str_le t [] \<longleftrightarrow> t = []"
  by (cases t) simp_all

lemma str_le_antisym: "str_le x y \<Longrightarrow> str_le y x \<Longrightarrow> x = y"
  by (induction x y rule: str_le.induct) (auto simp: str_le_empty)

lemma str_le_trans: "str_le x y \<Longrightarrow> str_le y z \<Longrightarrow> str_le x z"
proof (induction x y arbitrary: z rule: str_le.induct)
  case (2 c s)
  then show ?case by simp
next
  case (3 c s d t)
  then show ?case by (cases z) auto
qed simp_all

lemma newer_root_total: "newer_root a b \<or> newer_root b a"
  using str_le_total [of "tk_task_id b" "tk_task_id a"] by (auto simp: newer_root_def)

lemma newer_root_trans: "newer_root a b \<Longrightarrow> newer_root b c \<Longrightarrow> newer_root a c"
  by (auto simp: newer_root_def intro: str_le_trans)

lemma insort_by_sorted:
  assumes total: "\<And>a b. le a b \<or> le b a" and trans: "\<And>a b c. le a b \<Longrightarrow> le b c \<Longrightarrow> le a c"
  shows "sorted_wrt le ys \<Longrightarrow> sorted_wrt le (insort_by le x ys)"
proof (induction ys)
  case (Cons y ys)
  show ?case
  proof (cases "le x y")
    case True
    with Cons.prems show ?thesis by (auto intro: trans)
  next
    case False
    with total have "le y x" by blast
    with Cons False show ?thesis by auto
  qed
qed simp

lemma sort_by_sorted:
  assumes total: "\<And>a b. le a b \<or> le b a" and trans: "\<And>a b c. le a b \<Longrightarrow> le b c \<Longrightarrow> le a c"
  shows "sorted_wrt le (sort_by le xs)"
  unfolding sort_by_def
  by (induction xs) (simp_all add: insort_by_sorted [OF total trans])

lemma insort_by_front: "\<forall>y \<in> set ys. le x y \<Longrightarrow> insort_by le x ys = x # ys"
  by (cases ys) auto

lemma filter_insort_by:
  assumes trans: "\<And>a b c. le a b \<Longrightarrow> le b c \<Longrightarrow> le a c"
  shows "sorted_wrt le ys \<Longrightarrow>
     filter P (insort_by le x ys) = (if P x then insort_by le x (filter P ys) else filter P ys)"
proof (induction ys)
  case (Cons y ys)
  show ?case
  proof (cases "le x y")
    case True
    then have "\<forall>z \<in> set (filter P (y # ys)). le x z" using Cons.prems by (auto intro: trans)
    from insort_by_front [of "filter P (y # ys)" le x, OF this] True show ?thesis by simp
  next
    case False
    with Cons show ?thesis by simp
  qed
qed simp

lemma filter_sort_by:
  assumes total: "\<And>a b. le a b \<or> le b a" and trans: "\<And>a b c. le a b \<Longrightarrow> le b c \<Longrightarrow> le a c"
  shows "filter P (sort_by le xs) = sort_by le (filter P xs)"
proof (induction xs)
  case (Cons x xs)
  have sorted: "sorted_wrt le (sort_by le xs)" by (rule sort_by_sorted [OF total trans])
  have "filter P (insort_by le x (sort_by le xs)) =
      (if P x then insort_by le x (filter P (sort_by le xs)) else filter P (sort_by le xs))"
    by (rule filter_insort_by [OF trans sorted])
  with Cons show ?case by (simp add: sort_by_def)
qed (simp add: sort_by_def)

lemma mset_sort_by: "mset (sort_by le xs) = mset xs"
proof -
  have "mset (insort_by le x ys) = add_mset x (mset ys)" for x ys by (induction ys) auto
  then show ?thesis unfolding sort_by_def by (induction xs) simp_all
qed

definition governed_roots :: "string \<Rightarrow> agent_db \<Rightarrow> task_row list" where
  "governed_roots organization_id s = sort_by newer_root (filter (governed_root organization_id s) (tasks s))"

lemma list_roots_filter:
  "list_roots org boundary n s =
     map (to_task_snapshot org) (take n (filter (before_boundary boundary) (governed_roots org s)))"
  by (simp add: list_roots_def governed_roots_def filter_sort_by [OF newer_root_total newer_root_trans]
      filter_filter conj_commute)

lemma before_boundary_newer:
  "newer_root a b \<Longrightarrow> \<not> before_boundary (Some (tk_created_at b, tk_task_id b)) a"
  by (auto simp: newer_root_def before_boundary_def dest: str_le_antisym)

lemma before_boundary_older:
  "newer_root b a \<Longrightarrow> tk_task_id a \<noteq> tk_task_id b \<Longrightarrow>
     before_boundary (Some (tk_created_at b, tk_task_id b)) a"
  by (auto simp: newer_root_def before_boundary_def)


section \<open>What the projection offers\<close>

lemma view_of_ok:
  assumes "view_of svc locked st acts reason signal = Ok p"
  shows "pj_state p = st \<and> pj_legal_actions p = acts \<and> pj_reason_code p = reason \<and> pj_pause_signal p = signal \<and>
     pj_run_id p = cp_root_task_id (lr_checkpoint locked) \<and> pj_plan p = public_plan (lr_checkpoint locked)"
  using assms unfolding view_of_def Let_def by (auto simp: res_bind_ok split: if_splits)

lemma translate_ok: "translate caught e r = Ok x \<longleftrightarrow> r = Ok x"
  by (cases r) (simp_all add: translate_def)

lemma native_in_state:
  assumes "item_pair org item s = Ok pair"
  shows "native_in pair tst sst \<longleftrightarrow> native_state org s item = (Some tst, Some sst)"
  using assms unfolding item_pair_ok native_in_def native_state_def
  by (auto simp: to_task_snapshot_def to_step_snapshot_def split: option.splits)

text \<open>The branches of a projection that offers an action.\<close>

lemma project_active_cases:
  assumes "project_active svc locked active pair linked s = Ok p"
  obtains (probe) "pj_state p = View_UNKNOWN" "pj_legal_actions p = [Act_PROBE]"
      "cp_state (lr_checkpoint locked) = Run_PROBE_BLOCKED" "probe_exact active pair s"
    | (decide) pending approval where "pj_state p = View_AWAITING_APPROVAL"
      "pj_legal_actions p = [Act_APPROVE, Act_REJECT]" "cp_state (lr_checkpoint locked) = Run_APPROVAL_REQUIRED"
      "native_in pair Task_pending_approval Step_pending_approval" "linked = Some (pending, approval)"
      "pn_status pending = PENDING" "ar_status approval = Approval_PENDING"
      "task_attempts (sr_native_task_id active) s = []" "task_permits (sr_native_task_id active) s = []"
    | (planning) "pj_state p = View_PLANNING" "pj_legal_actions p = [Act_CANCEL]" "pair = (None, None)"
      "cp_state (lr_checkpoint locked) = Run_ACTIVE"
    | (running) "pj_state p = View_RUNNING" "pj_legal_actions p = [Act_CANCEL]"
      "effect_free (sr_native_task_id active) s" "cp_state (lr_checkpoint locked) = Run_ACTIVE"
      "fst pair \<noteq> None" "snd pair \<noteq> None"
    | (idle) "pj_legal_actions p = []"
        "pj_state p \<in> {View_FAILED, View_REJECTED, View_CANCELLED, View_RUNNING}"
        "pj_state p = View_REJECTED \<longrightarrow> effect_free (sr_native_task_id active) s \<and> native_in pair Task_canceled Step_canceled"
        "pj_state p = View_CANCELLED \<longrightarrow> effect_free (sr_native_task_id active) s \<and> native_in pair Task_canceled Step_canceled"
  using assms unfolding project_active_def Let_def
  by (auto split: if_splits option.splits prod.splits dest!: view_of_ok)

text \<open>\<open>project_locked\<close> beyond the pause: the branches before the active step's rows are read.\<close>

lemma project_locked_cases:
  assumes "project_locked svc locked s = Ok p"
  obtains (paused) z where
      "get_pause_signal (cp_root_task_id (lr_checkpoint locked)) (ts_organization_id (lr_root locked)) s = Ok (Some z)"
      "pz_checkpoint_digest z = json_digest (checkpoint_dump (lr_checkpoint locked))"
      "pj_pause_signal p = Some (pz_signal z)" "pj_legal_actions p = pause_legal_actions (pz_signal z)"
      "pj_state p = (if ps_outcome (pz_signal z) = Outcome_AWAITING_INPUT then View_AWAITING_INPUT else View_NEEDS_HUMAN)"
    | (finished) "pj_state p = View_SUCCEEDED" "pj_legal_actions p = []" "pj_pause_signal p = None"
      "cp_state (lr_checkpoint locked) = Run_COMPLETED" "cp_active_step (lr_checkpoint locked) = None"
    | (failed) "pj_state p = View_FAILED" "pj_legal_actions p = []" "pj_pause_signal p = None"
    | (active) active pair linked where "cp_active_step (lr_checkpoint locked) = Some active"
      "get_pause_signal (cp_root_task_id (lr_checkpoint locked)) (ts_organization_id (lr_root locked)) s = Ok None"
      "item_pair (ts_organization_id (lr_root locked)) active s = Ok pair"
      "pending_approval (lr_checkpoint locked) s = Ok linked"
      "project_active svc locked active pair linked s = Ok p" "pj_pause_signal p = None"
proof -
  let ?c = "lr_checkpoint locked" and ?org = "ts_organization_id (lr_root locked)"
  from assms obtain pause where pause: "get_pause_signal (cp_root_task_id ?c) ?org s = Ok pause"
    unfolding project_locked_def Let_def res_bind_ok by blast
  note rest = assms [unfolded project_locked_def Let_def pause res_bind_simps]
  show thesis
  proof (cases pause)
    case (Some z)
    show thesis
    proof (cases "pz_checkpoint_digest z \<noteq> json_digest (checkpoint_dump ?c) \<or> ps_run_id (pz_signal z) \<noteq> cp_root_task_id ?c")
      case True
      with rest Some show thesis by (intro failed) (auto dest!: view_of_ok)
    next
      case False
      with rest Some pause show thesis by (intro paused [of z]) (auto dest!: view_of_ok)
    qed
  next
    case None
    show thesis
    proof (cases "cp_active_step ?c")
      case no_active: None
      show thesis
      proof (cases "cp_state ?c = Run_COMPLETED")
        case True
        with rest None no_active show thesis by (intro finished) (auto dest!: view_of_ok)
      next
        case False
        with rest None no_active show thesis by (intro failed) (auto dest!: view_of_ok)
      qed
    next
      case (Some a)
      with rest None obtain pair linked where r: "item_pair ?org a s = Ok pair" "pending_approval ?c s = Ok linked"
          "project_active svc locked a pair linked s = Ok p"
        by (auto simp: res_bind_ok translate_ok)
      from r(3) have "pj_pause_signal p = None"
        unfolding project_active_def Let_def
        by (auto split: if_splits option.splits prod.splits dest!: view_of_ok)
      with r Some None pause show thesis by (intro active [of a pair linked]) simp_all
    qed
  qed
qed

text \<open>
  The actions a projection offers rest on the authoritative rows. Approve
  and reject are offered only for a run that awaits approval: its native task and step are pending
  approval, one pending action of the step is linked to a pending approval request, and nothing was
  attempted or permitted. Probe is offered only when the step's unknown attempt and the consumed
  permit it used agree. Without a pause, cancel is offered only before any effect. A finished run
  offers nothing. A pause signal shown is the stored one of this very checkpoint, and the actions
  are the ones it allows.
\<close>

theorem legal_actions_grounded:
  assumes projected: "project_locked svc locked s = Ok p"
  shows "(set (pj_legal_actions p) \<inter> {Act_APPROVE, Act_REJECT} \<noteq> {} \<longrightarrow>
       pj_state p = View_AWAITING_APPROVAL \<and> (\<exists>active pending approval.
         cp_active_step (lr_checkpoint locked) = Some active \<and>
         native_state (ts_organization_id (lr_root locked)) s active =
           (Some Task_pending_approval, Some Step_pending_approval) \<and>
         pending_approval (lr_checkpoint locked) s = Ok (Some (pending, approval)) \<and>
         pn_status pending = PENDING \<and> ar_status approval = Approval_PENDING \<and>
         task_attempts (sr_native_task_id active) s = [] \<and> task_permits (sr_native_task_id active) s = [])) \<and>
     (Act_PROBE \<in> set (pj_legal_actions p) \<longrightarrow> pj_state p = View_UNKNOWN \<and> (\<exists>active a q.
         cp_active_step (lr_checkpoint locked) = Some active \<and>
         native_state (ts_organization_id (lr_root locked)) s active =
           (Some Task_pending_result_probe, Some Step_pending_result_probe) \<and>
         a \<in> set (execution_attempts s) \<and> Some (at_attempt_id a) = sr_attempt_id active \<and> at_status a = UNKNOWN \<and>
         q \<in> set (execution_permits s) \<and> Some (pm_permit_id q) = sr_permit_id active \<and> pm_status q = Permit_consumed \<and>
         at_action_fingerprint a = pm_action_fingerprint q \<and> at_observation_hash a = pm_observation_hash q)) \<and>
     (Act_CANCEL \<in> set (pj_legal_actions p) \<and> pj_pause_signal p = None \<longrightarrow> (\<exists>active.
         cp_active_step (lr_checkpoint locked) = Some active \<and>
         (effect_free (sr_native_task_id active) s \<or>
          native_state (ts_organization_id (lr_root locked)) s active = (None, None)))) \<and>
     (pj_state p \<in> {View_SUCCEEDED, View_REJECTED, View_CANCELLED, View_FAILED} \<longrightarrow> pj_legal_actions p = []) \<and>
     (\<forall>g. pj_pause_signal p = Some g \<longrightarrow> pj_legal_actions p = map pause_to_action (ps_allowed_actions g) \<and>
        (\<exists>z. get_pause_signal (cp_root_task_id (lr_checkpoint locked)) (ts_organization_id (lr_root locked)) s = Ok (Some z) \<and>
           pz_signal z = g \<and> pz_checkpoint_digest z = json_digest (checkpoint_dump (lr_checkpoint locked))))"
  using projected
proof (cases rule: project_locked_cases)
  case (paused z)
  have "pause_to_action a \<notin> {Act_APPROVE, Act_REJECT, Act_PROBE}" for a by (cases a) simp_all
  then have "set (pause_legal_actions (pz_signal z)) \<inter> {Act_APPROVE, Act_REJECT, Act_PROBE} = {}"
    unfolding pause_legal_actions_def set_map by blast
  with paused show ?thesis by (auto simp: pause_legal_actions_def)
next
  case (active a pair linked)
  note state = native_in_state [OF active(3)]
  from active(5) show ?thesis
  proof (cases rule: project_active_cases)
    case probe
    from probe(4) obtain x q where
        "filter (\<lambda>x. Some (at_attempt_id x) = sr_attempt_id a \<and> at_status x = UNKNOWN)
           (task_attempts (sr_native_task_id a) s) = [x]"
        "filter (\<lambda>q. Some (pm_permit_id q) = sr_permit_id a \<and> pm_status q = Permit_consumed)
           (task_permits (sr_native_task_id a) s) = [q]"
        and same: "at_action_fingerprint x = pm_action_fingerprint q" "at_observation_hash x = pm_observation_hash q"
        and native: "native_in pair Task_pending_result_probe Step_pending_result_probe"
      by (auto simp: probe_exact_def split: list.splits)
    then have "x \<in> set (filter (\<lambda>x. Some (at_attempt_id x) = sr_attempt_id a \<and> at_status x = UNKNOWN)
        (task_attempts (sr_native_task_id a) s))" "q \<in> set (filter (\<lambda>q. Some (pm_permit_id q) = sr_permit_id a \<and>
        pm_status q = Permit_consumed) (task_permits (sr_native_task_id a) s))" by simp_all
    then have "x \<in> set (execution_attempts s)" "Some (at_attempt_id x) = sr_attempt_id a" "at_status x = UNKNOWN"
      "q \<in> set (execution_permits s)" "Some (pm_permit_id q) = sr_permit_id a" "pm_status q = Permit_consumed"
      by (auto simp: task_attempts_def task_permits_def)
    with probe active same native state show ?thesis by auto
  next
    case (decide pending approval)
    with active state show ?thesis by auto
  next
    case planning
    with active(3) have "native_state (ts_organization_id (lr_root locked)) s a = (None, None)"
      unfolding item_pair_ok native_state_def by auto
    with planning active show ?thesis by auto
  next
    case running
    with active show ?thesis by auto
  next
    case idle
    with active show ?thesis by auto
  qed
qed auto

section \<open>A concrete run\<close>

text \<open>A run of one step whose journal waits for approval, in the tables of its tenant.\<close>

definition sample_run :: string where
  "sample_run = derive_pack_run_id ''org'' ''q''"

definition sample_plan_start :: plan_checkpoint where
  "sample_plan_start = sample_single\<lparr>cp_root_task_id := sample_run\<rparr>"

definition sample_first :: plan_event where
  "sample_first = journal_event sample_plan_start Tr_ADMITTED [(''plan'', ''d'')] 1 None None"

definition sample_second :: plan_event where
  "sample_second = journal_event ((after_event sample_first)\<lparr>cp_state := Run_APPROVAL_REQUIRED\<rparr>)
     Tr_APPROVAL_REQUIRED [(''plan'', ''d'')] 2 None (Some ''k'')"

definition sample_run_bundle :: admission_bundle where
  "sample_run_bundle = sample_bundle\<lparr>ab_runtime_binding := Some (ra_binding sample_adapter),
     ab_task := sample_draft\<lparr>td_task_id := sample_run\<rparr>\<rparr>"

definition sample_service :: "unit run_service" where
  "sample_service =
     \<lparr>sv_registry = \<lparr>rr_contracts = [((''pk'', ''1''), sample_runtime_contract)],
        rr_adapters = [((''pk'', ''1''), sample_adapter)], rr_installations = [],
        rr_trusted_adapter_refs = (\<lambda>_. None), rr_now = None, rr_clock = False\<rparr>,
      sv_default_binding = None, sv_target_url = ''https://app'',
      sv_parse_bundle = (\<lambda>_. Some sample_run_bundle), sv_now = 5\<rparr>"

definition sample_run_pending :: pending_row where
  "sample_run_pending = (sample_pending ''p'' ''task'' 0 PENDING)\<lparr>pn_step_id := ''s1''\<rparr>"

definition sample_run_db :: agent_db where
  "sample_run_db = (sample_native_db Task_pending_approval Step_pending_approval
       [(event_model sample_first ''org'')\<lparr>ga_event_id := ''e1''\<rparr>,
        (event_model sample_second ''org'')\<lparr>ga_event_id := ''e2''\<rparr>])
     \<lparr>tasks := [\<lparr>tk_task_id = sample_run, tk_organization_id = Some ''org'', tk_status = Task_running,
          tk_application = Some ''agentpact:agent-run:plan:v1'', tk_created_at = 0\<rparr>,
        \<lparr>tk_task_id = ''task'', tk_organization_id = Some ''org'', tk_status = Task_pending_approval,
          tk_application = None, tk_created_at = 0\<rparr>],
      pending_actions := [sample_run_pending], approval_requests := [sample_approval ''p''],
      governed_task_admissions := [(admission_model sample_run_bundle 1)\<lparr>ad_task_id := sample_run\<rparr>]\<rparr>"

definition sample_locked :: locked_run where
  "sample_locked =
     \<lparr>lr_root = to_task_snapshot ''org'' (hd (tasks sample_run_db)), lr_bundle = sample_run_bundle,
      lr_checkpoint = after_event sample_second, lr_events = [sample_first, sample_second],
      lr_authority_digests = [(''plan'', ''d'')]\<rparr>"

lemma sample_run_not_task: "sample_run \<noteq> ''task''"
  by (simp add: sample_run_def derive_pack_run_id_def)

lemma sample_events_valid: "event_valid sample_first" "event_valid sample_second"
proof -
  have start: "checkpoint_valid sample_plan_start"
    using sample_single_valid by (simp add: checkpoint_valid_def sample_plan_start_def)
  show first: "event_valid sample_first"
    unfolding sample_first_def by (rule journal_event_valid [OF start])
  have "hex64 (je_event_digest sample_first)" using first by (simp add: event_valid_def)
  then have "checkpoint_valid ((after_event sample_first)\<lparr>cp_state := Run_APPROVAL_REQUIRED\<rparr>)"
    using start by (simp add: checkpoint_valid_def after_event_def sample_first_def)
  then show "event_valid sample_second" unfolding sample_second_def by (rule journal_event_valid)
qed

lemma sample_events_parts [simp]:
  "je_root_task_id sample_first = sample_run" "je_root_task_id sample_second = sample_run"
  "je_sequence sample_first = 1" "je_sequence sample_second = 2"
  "je_transition sample_first = Tr_ADMITTED" "je_transition sample_second = Tr_APPROVAL_REQUIRED"
  "je_authority_digests sample_second = [(''plan'', ''d'')]" "je_created_at sample_second = 2"
  "cp_state (after_event sample_second) = Run_APPROVAL_REQUIRED"
  "cp_active_step (after_event sample_second) = Some (sample_ref ''s1'' Ref_ACTIVE)"
  "cp_root_task_id (after_event sample_second) = sample_run"
  "cp_completed_prefix (after_event sample_second) = []" "cp_remaining_suffix (after_event sample_second) = []"
  "cp_superseded_suffix (after_event sample_second) = []" "cp_journal_sequence (after_event sample_second) = 2"
  by (simp_all add: sample_first_def sample_second_def after_event_def sample_plan_start_def sample_single_def
      sample_checkpoint_def)

lemma sample_run_loads: "load_events sample_run sample_run_db = Ok [sample_first, sample_second]"
  using sample_events_valid
  by (simp add: load_events_def sample_run_db_def sample_native_db_def journal_rows_def event_model_def
      plan_payload_dump decode_event_dump [THEN iffD2])

lemma sample_run_replays: "replay_plan_journal [sample_first, sample_second] = Ok (after_event sample_second)"
proof -
  have "event_sound sample_first"
    unfolding sample_first_def journal_event_sound
    by (simp add: validate_transition_checkpoint_def sample_plan_start_def sample_single_def sample_checkpoint_def)
  moreover have "event_sound sample_second"
    unfolding sample_second_def journal_event_sound
    by (simp add: validate_transition_checkpoint_def sample_first_def after_event_def sample_plan_start_def
        sample_single_def sample_checkpoint_def)
  moreover have "event_follows sample_first sample_second"
    by (simp add: event_follows_def root_identity_def sample_second_def sample_first_def after_event_def
        sample_plan_start_def sample_single_def sample_checkpoint_def terminal_transition_def)
  moreover have "journal_begins sample_first"
    by (simp add: journal_begins_def sample_first_def sample_plan_start_def sample_single_def sample_checkpoint_def)
  ultimately show ?thesis
    unfolding replay_ok_iff journal_chain_def by (simp add: upto.simps)
qed

lemma sample_view:
  assumes "lr_bundle locked = sample_run_bundle" and "public_plan (lr_checkpoint locked) \<noteq> []"
  shows "is_ok (view_of sample_service locked st acts reason signal)"
  using assms
  by (simp add: view_of_def binding_for_bundle_def sample_run_bundle_def sample_service_def tenant_scoped_def
      unscoped_metadata_def require_registered_def dict_require_def sample_adapter_def binding_key_def
      contract_metadata_def Let_def)

lemma sample_run_native:
  "native_task_row sample_run ''org'' sample_run_db = Some (hd (tasks sample_run_db))"
  "native_state ''org'' sample_run_db (sample_ref ''s1'' Ref_ACTIVE) =
     (Some Task_pending_approval, Some Step_pending_approval)"
  using sample_run_not_task
  by (simp_all add: native_state_def native_task_row_def native_step_row_def first_where_def sample_run_db_def
      sample_native_db_def empty_agent_db_def sample_ref_def)

lemma sample_locked_parts [simp]:
  "lr_checkpoint sample_locked = after_event sample_second" "lr_bundle sample_locked = sample_run_bundle"
  "ts_organization_id (lr_root sample_locked) = ''org''" "lr_events sample_locked = [sample_first, sample_second]"
  "lr_authority_digests sample_locked = [(''plan'', ''d'')]"
  by (simp_all add: sample_locked_def to_task_snapshot_def)

lemma sample_run_loads_locked:
  assumes "uc_org_id user = ''org''"
  shows "load_locked sample_service sample_run user sample_run_db = Ok sample_locked"
proof -
  have request: "rq_request_id (ab_request sample_run_bundle) = ''q''" "td_task_id (ab_task sample_run_bundle) = sample_run"
    by (simp_all add: sample_run_bundle_def sample_bundle_def sample_admitted_request_def sample_request_def)
  have admission: "find_admission_by_task sample_run ''org'' sample_run_db =
      Some ((admission_model sample_run_bundle 1)\<lparr>ad_task_id := sample_run\<rparr>)"
    by (simp add: find_admission_by_task_def first_where_def sample_run_db_def admission_model_def
        sample_run_bundle_def sample_draft_def)
  have root: "store_get_root sample_run ''org'' sample_run_db = Some (lr_root sample_locked)"
    "is_plan_application_marker (ts_application (lr_root sample_locked))"
    "ts_task_id (lr_root sample_locked) = sample_run"
  proof -
    have row: "tk_task_id (hd (tasks sample_run_db)) = sample_run"
      "tk_application (hd (tasks sample_run_db)) = Some ''agentpact:agent-run:plan:v1''"
      by (simp_all add: sample_run_db_def)
    then show "store_get_root sample_run ''org'' sample_run_db = Some (lr_root sample_locked)"
      "is_plan_application_marker (ts_application (lr_root sample_locked))"
      "ts_task_id (lr_root sample_locked) = sample_run"
      by (simp_all add: store_get_root_def sample_run_native sample_locked_def to_task_snapshot_def
          is_plan_application_marker_def)
  qed
  have parse: "sv_parse_bundle sample_service v = Some sample_run_bundle" for v
    by (simp add: sample_service_def)
  have "derive_pack_run_id ''org'' ''q'' = sample_run" by (simp add: sample_run_def)
  then show ?thesis
    using root admission
    by (simp add: load_locked_def assms parse request Let_def sample_run_loads sample_run_replays translate_def
        res_bind_simps)
qed

lemma sample_run_rows:
  "get_pause_signal sample_run ''org'' sample_run_db = Ok None"
  "pending_approval (after_event sample_second) sample_run_db = Ok (Some (sample_run_pending, sample_approval ''p''))"
  "task_attempts task sample_run_db = []" "task_permits task sample_run_db = []"
proof -
  have "run_events sample_run ''org'' [pause_type, resolution_type] sample_run_db = []"
    by (simp add: run_events_def sample_run_db_def sample_native_db_def event_model_def pause_type_def resolution_type_def)
  then show "get_pause_signal sample_run ''org'' sample_run_db = Ok None"
    by (simp add: get_pause_signal_def sort_by_def)
  show "pending_approval (after_event sample_second) sample_run_db =
      Ok (Some (sample_run_pending, sample_approval ''p''))"
    by (simp add: pending_approval_def sample_run_db_def sample_run_pending_def sample_pending_def sample_ref_def
        sample_approval_def first_where_def)
qed (simp_all add: task_attempts_def task_permits_def sample_run_db_def sample_native_db_def empty_agent_db_def)

lemma sample_run_projects:
  obtains p where "project_locked sample_service sample_locked sample_run_db = Ok p"
    "pj_state p = View_AWAITING_APPROVAL" "pj_legal_actions p = [Act_APPROVE, Act_REJECT]"
proof -
  let ?a = "sample_ref ''s1'' Ref_ACTIVE"
  have "native_consistent ''org'' sample_run_db ?a" by (simp add: native_consistent_def sample_run_native)
  then obtain pair where pair: "item_pair ''org'' ?a sample_run_db = Ok pair" unfolding item_pair_ok by blast
  have native: "native_in pair Task_pending_approval Step_pending_approval"
    using native_in_state [OF pair] sample_run_native by simp
  have plan: "public_plan (lr_checkpoint sample_locked) \<noteq> []" by (simp add: public_plan_def)
  obtain p where p: "view_of sample_service sample_locked View_AWAITING_APPROVAL [Act_APPROVE, Act_REJECT] None None = Ok p"
    using sample_view [of sample_locked View_AWAITING_APPROVAL "[Act_APPROVE, Act_REJECT]" None None] plan
    by (auto simp: is_ok_iff)
  have "project_locked sample_service sample_locked sample_run_db = Ok p"
    using pair native p sample_run_rows
    by (simp add: project_locked_def Let_def translate_def project_active_def sample_run_pending_def
        sample_pending_def sample_approval_def)
  with view_of_ok [OF p] that show thesis by blast
qed

theorem legal_actions_grounded_witness:
  "\<exists>p. project_locked sample_service sample_locked sample_run_db = Ok p \<and> Act_APPROVE \<in> set (pj_legal_actions p) \<and>
     task_attempts ''task'' sample_run_db = []"
proof -
  obtain p where p: "project_locked sample_service sample_locked sample_run_db = Ok p"
    and actions: "pj_legal_actions p = [Act_APPROVE, Act_REJECT]" by (rule sample_run_projects)
  from legal_actions_grounded [OF p, THEN conjunct1] actions obtain active where
      "cp_active_step (lr_checkpoint sample_locked) = Some active"
      "task_attempts (sr_native_task_id active) sample_run_db = []" by auto
  then have "task_attempts ''task'' sample_run_db = []" by (auto simp: sample_ref_def)
  with p actions show ?thesis by auto
qed


text \<open>
  A decision trace has its seven stages in order, the provider's first
  and recovery last, exactly when the run is not paused: for a run that awaits input or a human the
  lookup of its execution status fails with a KeyError, and with it the report.
\<close>

theorem trace_of_paused_run_fails:
  assumes "load_locked svc run_id user s = Ok locked" and "project_locked svc locked s = Ok p"
  shows "if pj_state p \<in> {View_AWAITING_INPUT, View_NEEDS_HUMAN}
     then decision_trace svc run_id user s = Raise KeyError (view_state_value (pj_state p)) \<and>
          report_run svc run_id user s = Raise KeyError (view_state_value (pj_state p))
     else (\<exists>stages report. decision_trace svc run_id user s = Ok stages \<and>
          map tg_stage stages = [''provider'', ''validation'', ''compilation'', ''admission'', ''approval'',
            ''execution'', ''recovery''] \<and>
          report_run svc run_id user s = Ok report \<and> rr_projection report = p \<and> rr_decision_trace report = stages \<and>
          length (rr_events report) = length (lr_events locked))"
proof -
  have planner: "map tg_stage (planner_stages ob) = [''provider'', ''validation'']" for ob
    by (simp add: planner_stages_def trace_stage_of_def Let_def split: option.split)
  have stages: "tg_stage (approval_stage es) = ''approval''" "tg_stage (recovery_stage es) = ''recovery''"
    "tg_stage (trace_stage_of g st r u) = g" for es g st r u
    by (simp_all add: approval_stage_def recovery_stage_def trace_stage_of_def Let_def)
  show ?thesis
    using assms
    by (cases "pj_state p")
      (simp_all add: decision_trace_def report_run_def decision_trace_of_def Let_def planner stages)
qed

theorem trace_of_paused_run_fails_witness:
  "\<exists>stages. decision_trace sample_service sample_run \<lparr>uc_user_id = ''bob'', uc_org_id = ''org'',
       uc_department_roles = [], uc_business_line_ids = [], uc_has_cross_org_read = False,
       uc_has_cross_org_approve = False\<rparr> sample_run_db = Ok stages \<and> length stages = 7"
proof -
  let ?user = "\<lparr>uc_user_id = ''bob'', uc_org_id = ''org'', uc_department_roles = [], uc_business_line_ids = [],
     uc_has_cross_org_read = False, uc_has_cross_org_approve = False\<rparr>"
  obtain p where p: "project_locked sample_service sample_locked sample_run_db = Ok p" "pj_state p = View_AWAITING_APPROVAL"
    by (rule sample_run_projects)
  have "load_locked sample_service sample_run ?user sample_run_db = Ok sample_locked"
    by (rule sample_run_loads_locked) simp
  from trace_of_paused_run_fails [OF this p(1)] p(2) obtain stages where
      "decision_trace sample_service sample_run ?user sample_run_db = Ok stages"
      "map tg_stage stages = [''provider'', ''validation'', ''compilation'', ''admission'', ''approval'',
         ''execution'', ''recovery'']" by auto
  moreover from this(2) have "length (map tg_stage stages) = 7" by simp
  ultimately show ?thesis by auto
qed

end
