(* ===== verification/AgentRuns.thy ===== *)
theory AgentRuns
  imports RunViews
begin

text \<open>
  The commands of \<open>enterprise/agent_runs/service.py\<close>: creating, approving, rejecting, cancelling and
  probing a run, submitting input, resuming, recording a pause, and the approval handler a pack calls.
  The operations of an installed pack are a record of functions on its implementation; a value that
  does not parse is \<open>None\<close>. A pack works in sessions of its own, so a call of one is a step between
  the transactions of the service. Fresh identifiers are arguments.
\<close>

section \<open>The pack's operations\<close>

type_synonym approval_handler =
  "string \<Rightarrow> string \<Rightarrow> prepared_run_reference \<Rightarrow> approval_specification \<Rightarrow> string \<Rightarrow> (agent_db, plan_checkpoint) prog"

record 'i pack_operations =
  op_prepare :: "'i \<Rightarrow> user_context \<Rightarrow> string \<Rightarrow> string \<Rightarrow> jobject \<Rightarrow> string \<Rightarrow> time \<Rightarrow>
    (agent_db, prepared_run_reference option) prog"
  op_admit :: "'i \<Rightarrow> prepared_run_reference \<Rightarrow> approval_handler \<Rightarrow> string \<Rightarrow>
    (agent_db, pack_admission_result option) prog"
  op_restore :: "'i \<Rightarrow> admission_bundle \<Rightarrow> string \<Rightarrow> prepared_run_reference option res"
  op_advance :: "'i \<Rightarrow> prepared_run_reference \<Rightarrow> approval_handler \<Rightarrow> string \<Rightarrow>
    (agent_db, pack_advance_result option) prog"
  op_probe :: "'i \<Rightarrow> prepared_run_reference \<Rightarrow> string \<Rightarrow> (agent_db, pack_probe_result option) prog"
  op_resume :: "('i \<Rightarrow> prepared_run_reference \<Rightarrow> jobject option \<Rightarrow> bool \<Rightarrow> string \<Rightarrow> (agent_db, unit) prog) option"

text \<open>\<open>except PackLifecycleError\<close> and \<open>except (ValueError, GovernedPlanError)\<close> of a command.\<close>

definition pack_failure :: "string \<Rightarrow> nat \<Rightarrow> exn \<Rightarrow> exn" where
  "pack_failure failure status e =
     (if exc_of e = PackLifecycleError then Exc (AgentRunError 503) (message e)
      else if is_plan_error e then Exc (AgentRunError status) failure else e)"

section \<open>Requests\<close>

record create_request =
  cr_request_id :: string
  cr_intent :: string
  cr_business_inputs :: jobject
  cr_pack_id :: "string option"
  cr_pack_version :: "string option"

record command_request =
  cm_operation_key :: string
  cm_reason :: "string option"

definition validate_create_request :: "create_request \<Rightarrow> unit res" where
  "validate_create_request r = checks
     [(\<not> key_ok (cr_request_id r) \<or> cr_intent r = [] \<or> 2000 < length (cr_intent r) \<or>
         cr_pack_id r = Some [] \<or> cr_pack_version r = Some [],
       Exc ValueError ''validation error for AgentRunCreateRequest''),
      ((cr_pack_id r = None) \<noteq> (cr_pack_version r = None),
       Exc ValueError ''pack_id and pack_version must be supplied together'')]
     (Ok ())"

definition validate_command_request :: "command_request \<Rightarrow> unit res" where
  "validate_command_request r =
     (if \<not> key_ok (cm_operation_key r) \<or> (case cm_reason r of None \<Rightarrow> False | Some x \<Rightarrow> 240 < length x)
      then Raise ValueError ''validation error for AgentRunCommandRequest'' else Ok ())"

record input_submission =
  is_operation_key :: string
  is_values :: jobject

definition validate_input_submission :: "input_submission \<Rightarrow> unit res" where
  "validate_input_submission r =
     (if \<not> key_ok (is_operation_key r)
      then Raise ValueError ''validation error for AgentRunInputSubmissionRequest'' else Ok ())"

section \<open>Restoring a prepared run\<close>

definition restore_request_ok :: "'i run_service \<Rightarrow> admission_bundle \<Rightarrow> bool" where
  "restore_request_ok svc b =
     (td_task_id (ab_task b) \<noteq> [] \<and> rq_tenant_id (ab_request b) \<noteq> [] \<and> rq_request_id (ab_request b) \<noteq> [] \<and>
      ab_provider_mode b \<in> {''recorded'', ''live''} \<and> sv_target_url svc \<noteq> [])"

definition restore_prepared ::
  "'i run_service \<Rightarrow> 'i pack_operations \<Rightarrow> admission_bundle \<Rightarrow> ('i runtime_adapter \<times> prepared_run_reference) res" where
  "restore_prepared svc ops b =
     res_bind (binding_for_bundle b) (\<lambda>binding.
     res_bind (adapter_for svc binding (rq_tenant_id (ab_request b)) (Some [rq_capability_ref (ab_request b)])) (\<lambda>a.
     case (if restore_request_ok svc b
           then op_restore ops (ra_implementation a) b (sv_target_url svc)
           else Raise ValueError ''validation error for PackRunRestoreRequest'') of
       Inl e \<Rightarrow> Inl (if exc_of e = PackLifecycleError then Exc (AgentRunError 503) (message e)
                    else if is_plan_error e then Exc (AgentRunError 409) ''STATE_CONFLICT'' else e)
     | Inr None \<Rightarrow> run_error ''PACK_RESTORE_RESULT_INVALID'' 503
     | Inr (Some p) \<Rightarrow>
         if pr_run_id p \<noteq> td_task_id (ab_task b) \<or> pr_admission_id p \<noteq> Some (ab_admission_id b) \<or>
            pr_contract_id p \<noteq> Some (tc_contract_id (ab_contract b)) \<or>
            pr_pack_id p \<noteq> rb_pack_id binding \<or> pr_pack_version p \<noteq> rb_pack_version binding \<or>
            pr_adapter_id p \<noteq> rb_adapter_id binding \<or> pr_tenant_id p \<noteq> rq_tenant_id (ab_request b) \<or>
            pr_request_id p \<noteq> rq_request_id (ab_request b) \<or> pr_provider_mode p \<noteq> ab_provider_mode b
         then state_conflict else Ok (a, p)))"

section \<open>The approval handler\<close>

text \<open>\<open>str.rpartition(":")\<close>: what stands before and after the last colon, if there is one.\<close>

definition rpartition_colon :: "string \<Rightarrow> (string \<times> string) option" where
  "rpartition_colon s = (case dropWhile (\<lambda>c. c \<noteq> CHR '':'') (rev s) of
     [] \<Rightarrow> None | _ # before \<Rightarrow> Some (rev before, rev (takeWhile (\<lambda>c. c \<noteq> CHR '':'') (rev s))))"

definition pause_ttl :: "time \<Rightarrow> time \<Rightarrow> int" where
  "pause_ttl expires_at now = max 1 ((expires_at - now) div 1000000)"

definition specified_intent :: "approval_specification \<Rightarrow> execution_effect \<Rightarrow> action_intent" where
  "specified_intent spec effect =
     \<lparr>ai_intent_id = as_intent_id spec, ai_task_id = as_task_id spec, ai_step_id = as_step_id spec,
      ai_action_fingerprint = as_action_fingerprint spec, ai_observation_id = as_observation_hash spec,
      ai_operation = as_redacted_description spec, ai_effect = effect, ai_target = [],
      ai_sensitive_data_types = {}, ai_extracted_facts = [], ai_confidence = 0, ai_evidence = [],
      ai_expected_outcome = []\<rparr>"

text \<open>\<open>PolicyDecision.model_validate\<close> of a dict of JSON values.\<close>

definition default_list :: "jobject \<Rightarrow> string \<Rightarrow> string list option" where
  "default_list kv k = (case map_of kv k of None \<Rightarrow> Some [] | Some v \<Rightarrow> as_list as_str v)"

definition decode_decision :: "jobject \<Rightarrow> policy_decision option" where
  "decode_decision kv = do {
     did \<leftarrow> field kv ''decision_id'' as_str;
     iid \<leftarrow> field kv ''intent_id'' as_str;
     out \<leftarrow> field kv ''outcome'' (\<lambda>w. Option.bind (as_str w)
       (enum_of outcome_value [ALLOW, REQUIRE_APPROVAL, DENY, NEEDS_HUMAN]));
     risk \<leftarrow> field kv ''risk_level'' (\<lambda>w. Option.bind (as_str w)
       (enum_of risk_value [Risk_low, Risk_medium, Risk_high, Risk_critical, Risk_unknown]));
     reasons \<leftarrow> default_list kv ''reasons'';
     rules \<leftarrow> default_list kv ''matched_rules'';
     approver \<leftarrow> (case map_of kv ''required_approver'' of None \<Rightarrow> Some None | Some v \<Rightarrow> as_optional as_object v);
     version \<leftarrow> field kv ''policy_version'' as_str;
     Some \<lparr>pd_decision_id = did, pd_intent_id = iid, pd_outcome = out, pd_risk_level = risk,
       pd_reasons = reasons, pd_matched_rules = rules, pd_required_approver = approver,
       pd_policy_version = version\<rparr> }"

definition same_preparation ::
  "prepared_run_reference \<Rightarrow> admission_bundle \<Rightarrow> pack_runtime_binding \<Rightarrow> bool" where
  "same_preparation p b binding =
     (pr_admission_id p = Some (ab_admission_id b) \<and> pr_contract_id p = Some (tc_contract_id (ab_contract b)) \<and>
      pr_tenant_id p = rq_tenant_id (ab_request b) \<and> pr_request_id p = rq_request_id (ab_request b) \<and>
      pr_provider_mode p = ab_provider_mode b \<and> pr_pack_id p = rb_pack_id binding \<and>
      pr_pack_version p = rb_pack_version binding \<and> pr_adapter_id p = rb_adapter_id binding)"

definition specified_step :: "approval_specification \<Rightarrow> plan_step_ref option \<Rightarrow> bool" where
  "specified_step spec active = (case active of None \<Rightarrow> False | Some a \<Rightarrow>
     sr_native_task_id a = as_task_id spec \<and> sr_native_step_id a = as_step_id spec \<and>
     sr_native_contract_id a = as_contract_id spec)"

text \<open>The checks of the handler, up to the decision and the effect it names.\<close>

definition approval_material ::
  "'i run_service \<Rightarrow> prepared_run_reference \<Rightarrow> approval_specification \<Rightarrow> agent_db \<Rightarrow>
   (admission_bundle \<times> plan_event list \<times> plan_checkpoint \<times> policy_decision \<times> execution_effect) res" where
  "approval_material svc p spec s =
     (case store_get_root (pr_run_id p) (pr_tenant_id p) s of
        None \<Rightarrow> state_conflict
      | Some root' \<Rightarrow>
          if \<not> is_plan_application_marker (ts_application root') then state_conflict
          else (case find_admission_by_task (pr_run_id p) (pr_tenant_id p) s of
            None \<Rightarrow> Raise OtherException ''No row was found when one was required''
          | Some admission \<Rightarrow> (case sv_parse_bundle svc (ad_bundle_payload admission) of
              None \<Rightarrow> Raise ValueError ''validation error for TaskAdmissionBundle''
            | Some bundle \<Rightarrow>
                res_bind (load_events (pr_run_id p) s) (\<lambda>events.
                res_bind (replay_plan_journal events) (\<lambda>current.
                res_bind (binding_for_bundle bundle) (\<lambda>binding.
                if \<not> specified_step spec (cp_active_step current) \<or> \<not> same_preparation p bundle binding
                then state_conflict
                else (case decode_decision (as_policy_decision spec) of
                  None \<Rightarrow> Raise ValueError ''validation error for PolicyDecision''
                | Some decision \<Rightarrow>
                    if pd_intent_id decision \<noteq> as_intent_id spec \<or>
                       risk_value (pd_risk_level decision) \<noteq> as_risk_level spec \<or>
                       as_organization_id spec \<noteq> pr_tenant_id p
                    then state_conflict
                    else res_bind (effect_of_value (as_effect spec)) (\<lambda>effect.
                      Ok (bundle, events, current, decision, effect)))))))))"

definition pause_run_tx ::
  "'i run_service \<Rightarrow> string \<Rightarrow> string \<Rightarrow> prepared_run_reference \<Rightarrow> approval_specification \<Rightarrow> string \<Rightarrow>
   approval_route \<Rightarrow> (agent_db, plan_checkpoint) prog" where
  "pause_run_tx svc pending_id approval_key p spec operation_key route =
     prog_bind (lift_read (approval_material svc p spec)) (\<lambda>(bundle, events, current, decision, effect).
     prog_bind (on_db (create_approval_pause pending_id approval_key (sv_now svc) (sv_now svc) (sv_now svc)
         (as_task_id spec) (as_step_id spec) (as_organization_id spec) (as_contract_id spec)
         (as_source_department_id spec)
         [(''operation'', JStr (as_redacted_description spec)),
          (''action_fingerprint'', JStr (as_action_fingerprint spec))]
         (specified_intent spec effect) (as_observation_hash spec) decision route
         (Some (rq_principal_ref (ab_request bundle))) (as_business_line_id spec) None
         (pause_ttl (as_expires_at spec) (sv_now svc)))) (\<lambda>_.
     append_transition (pr_tenant_id p) (current\<lparr>cp_state := Run_APPROVAL_REQUIRED\<rparr>) Tr_APPROVAL_REQUIRED
       (je_authority_digests (last events)) operation_key (sv_now svc)))"

definition pause_run_for_approval :: "'i run_service \<Rightarrow> approval_handler" where
  "pause_run_for_approval svc pending_id approval_key p spec operation_key =
     (case rpartition_colon (as_requested_approval_route spec) of
        None \<Rightarrow> lift_res state_conflict
      | Some (department, role) \<Rightarrow>
          if department = [] \<or> role = [] then lift_res state_conflict
          else transaction (pause_run_tx svc pending_id approval_key p spec operation_key
            \<lparr>rt_requires_approval = True, rt_approver_department_id = Some department, rt_approver_role = role,
             rt_notify_department_ids = [], rt_notify_roles = [], rt_description = as_redacted_description spec\<rparr>))"

section \<open>Reflecting the results of a pack\<close>

definition append_command ::
  "'i run_service \<Rightarrow> user_context \<Rightarrow> locked_run \<Rightarrow> plan_checkpoint \<Rightarrow> plan_transition \<Rightarrow> string \<Rightarrow>
   (agent_db, plan_checkpoint) prog" where
  "append_command svc user locked c t key =
     append_transition (uc_org_id user) c t (lr_authority_digests locked) key (sv_now svc)"

definition reflect_advance_result ::
  "'i run_service \<Rightarrow> pack_advance_result \<Rightarrow> user_context \<Rightarrow> string \<Rightarrow> (agent_db, unit) prog" where
  "reflect_advance_result svc r user key = transaction
     (prog_bind (lift_read (load_locked svc (av_run_id r) user)) (\<lambda>locked.
      prog_bind (lift_res (coordinator_advance (lr_checkpoint locked) r)) (\<lambda>translated.
      case translated of
        None \<Rightarrow> lift_res (Ok ())
      | Some (c, t) \<Rightarrow> prog_bind (append_command svc user locked c t key) (\<lambda>_. lift_res (Ok ())))))"

definition reflect_probe_result ::
  "'i run_service \<Rightarrow> pack_probe_result \<Rightarrow> string \<Rightarrow> user_context \<Rightarrow> string \<Rightarrow> (agent_db, unit) prog" where
  "reflect_probe_result svc r run_id user key = transaction
     (prog_bind (lift_read (load_locked svc run_id user)) (\<lambda>locked.
      if cp_state (lr_checkpoint locked) \<noteq> Run_PROBE_BLOCKED then lift_res (Ok ())
      else prog_bind (lift_res (coordinator_probe (lr_checkpoint locked) r)) (\<lambda>translated.
      case translated of
        None \<Rightarrow> lift_res (Ok ())
      | Some (c, t) \<Rightarrow> prog_bind (append_command svc user locked c t key) (\<lambda>_. lift_res (Ok ())))))"

section \<open>Approving\<close>

definition require_pending_by_id :: "string \<Rightarrow> agent_db \<Rightarrow> pending_row res" where
  "require_pending_by_id pending_id s =
     (case first_where (\<lambda>r. pn_pending_action_id r = pending_id) (pending_actions s) of
        None \<Rightarrow> state_conflict | Some pending \<Rightarrow> Ok pending)"

definition command_key ::
  "string \<Rightarrow> string \<Rightarrow> command_request \<Rightarrow> user_context \<Rightarrow> locked_run \<Rightarrow> string" where
  "command_key run_id command request user locked =
     operation_key_of (uc_org_id user) run_id command (cm_operation_key request)
       (cp_journal_digest (lr_checkpoint locked))"

text \<open>What follows the decision: an approved pending action is used up and the run resumed.\<close>

definition resume_approved ::
  "'i run_service \<Rightarrow> string \<Rightarrow> command_request \<Rightarrow> user_context \<Rightarrow> locked_run \<Rightarrow> pending_row \<Rightarrow>
   (agent_db, unit) prog" where
  "resume_approved svc run_id request user locked pending =
     prog_bind (on_db (begin_reobservation_after_approval (pn_task_id pending) (pn_step_id pending)
         (uc_org_id user) (pn_pending_action_id pending) (pn_row_version pending))) (\<lambda>resumed.
     prog_bind (append_command svc user locked ((lr_checkpoint locked)\<lparr>cp_state := Run_ACTIVE\<rparr>)
         Tr_APPROVAL_RESUMED (command_key run_id ''approve'' request user locked)) (\<lambda>_.
     demand (pa_status (ps_pending_action resumed) = INVALIDATED) (Exc (AgentRunError 409) ''STATE_CONFLICT'')))"

definition restored_after_approval ::
  "'i run_service \<Rightarrow> 'i pack_operations \<Rightarrow> string \<Rightarrow> command_request \<Rightarrow> user_context \<Rightarrow> locked_run \<Rightarrow> pending_row \<Rightarrow>
   (agent_db, run_projection + bool \<times> 'i runtime_adapter \<times> prepared_run_reference) prog" where
  "restored_after_approval svc ops run_id request user locked pending =
     prog_bind (if pn_status pending = APPROVED then resume_approved svc run_id request user locked pending
                else lift_res (Ok ())) (\<lambda>_.
     prog_bind (lift_res (restore_prepared svc ops (lr_bundle locked))) (\<lambda>(adapter, p).
     lift_res (Ok (Inr (pn_status pending = APPROVED, adapter, p)))))"

definition approve_tx ::
  "'i run_service \<Rightarrow> 'i pack_operations \<Rightarrow> string \<Rightarrow> command_request \<Rightarrow> user_context \<Rightarrow>
   (agent_db, run_projection + bool \<times> 'i runtime_adapter \<times> prepared_run_reference) prog" where
  "approve_tx svc ops run_id request user =
     prog_bind (lift_read (load_locked svc run_id user)) (\<lambda>locked.
     prog_bind (lift_read (project_locked svc locked)) (\<lambda>projection.
     prog_bind (lift_read (pending_approval (lr_checkpoint locked))) (\<lambda>linked.
     if pj_state projection = View_AWAITING_APPROVAL
     then (case linked of
         None \<Rightarrow> lift_res (run_error ''ILLEGAL_ACTION'' 409)
       | Some (pending, approval) \<Rightarrow>
           if Act_APPROVE \<notin> set (pj_legal_actions projection) then lift_res (run_error ''ILLEGAL_ACTION'' 409)
           else prog_bind (on_db (decide_approval_request (ar_approval_id approval) (uc_org_id user)
                    (uc_user_id user) True (safe_reason (cm_reason request)) (sv_now svc))) (\<lambda>_.
                prog_bind (lift_read (require_pending_by_id (pn_pending_action_id pending)))
                  (restored_after_approval svc ops run_id request user locked)))
     else (case linked of
         None \<Rightarrow> lift_res (Ok (Inl projection))
       | Some (pending, approval) \<Rightarrow>
           if ar_status approval \<noteq> Approval_APPROVED then lift_res (Ok (Inl projection))
           else restored_after_approval svc ops run_id request user locked pending))))"

definition advance_pack ::
  "'i run_service \<Rightarrow> 'i pack_operations \<Rightarrow> 'i runtime_adapter \<Rightarrow> prepared_run_reference \<Rightarrow> command_request \<Rightarrow>
   user_context \<Rightarrow> (agent_db, unit) prog" where
  "advance_pack svc ops adapter p request user = catching (pack_failure ''PACK_ADVANCE_FAILED'' 503)
     (prog_bind (op_advance ops (ra_implementation adapter) p (pause_run_for_approval svc) (cm_operation_key request))
       (\<lambda>advanced.
      prog_bind (lift_res (validate_pack_advance_result (\<lambda>v. v) advanced (pr_run_id p))) (\<lambda>r.
      if av_status r = Advance_FAILED
      then lift_res (run_error (if truthy (av_reason_code r) then the (av_reason_code r) else ''PACK_ADVANCE_FAILED'') 409)
      else reflect_advance_result svc r user (cm_operation_key request))))"

definition approve_run ::
  "'i run_service \<Rightarrow> 'i pack_operations \<Rightarrow> string \<Rightarrow> command_request \<Rightarrow> user_context \<Rightarrow> (agent_db, run_projection) prog" where
  "approve_run svc ops run_id request user =
     prog_bind (lift_res (require_approver_user user)) (\<lambda>_.
     prog_bind (transaction (approve_tx svc ops run_id request user)) (\<lambda>outcome. case outcome of
       Inl projection \<Rightarrow> lift_res (Ok projection)
     | Inr (should_advance, adapter, p) \<Rightarrow>
         prog_bind (if should_advance then advance_pack svc ops adapter p request user else lift_res (Ok ())) (\<lambda>_.
         lift_read (get_run svc run_id user))))"

section \<open>Rejecting and cancelling\<close>

definition cancel_active_pair :: "plan_checkpoint \<Rightarrow> string \<Rightarrow> (agent_db, unit) prog" where
  "cancel_active_pair c organization_id = (case cp_active_step c of
     None \<Rightarrow> lift_res state_conflict
   | Some active \<Rightarrow>
       prog_bind (catching (\<lambda>e. if is_value_error e then Exc (AgentRunError 409) ''STATE_CONFLICT'' else e)
         (cancel_native_pair (sr_native_task_id active) (sr_native_step_id active) organization_id)) (\<lambda>cancelled.
       demand cancelled (Exc (AgentRunError 409) ''STATE_CONFLICT'')))"

definition ended_checkpoint :: "plan_run_state \<Rightarrow> plan_checkpoint \<Rightarrow> plan_checkpoint" where
  "ended_checkpoint st c =
     c\<lparr>cp_state := st, cp_active_step := map_option (\<lambda>r. r\<lparr>sr_state := Ref_FAILED\<rparr>) (cp_active_step c)\<rparr>"

text \<open>The returned projection of an earlier rejection, or nothing when the run was rejected now.\<close>

definition reject_tx ::
  "'i run_service \<Rightarrow> string \<Rightarrow> command_request \<Rightarrow> user_context \<Rightarrow> (agent_db, run_projection option) prog" where
  "reject_tx svc run_id request user =
     prog_bind (lift_read (load_locked svc run_id user)) (\<lambda>locked.
     prog_bind (lift_read (project_locked svc locked)) (\<lambda>projection.
     if pj_state projection = View_REJECTED then lift_res (Ok (Some projection))
     else if Act_REJECT \<notin> set (pj_legal_actions projection) then lift_res (run_error ''ILLEGAL_ACTION'' 409)
     else prog_bind (lift_read (pending_approval (lr_checkpoint locked))) (\<lambda>linked. case linked of
         None \<Rightarrow> lift_res state_conflict
       | Some (pending, approval) \<Rightarrow>
           prog_bind (on_db (decide_approval_request (ar_approval_id approval) (uc_org_id user) (uc_user_id user)
               False (safe_reason (cm_reason request)) (sv_now svc))) (\<lambda>_.
           prog_bind (cancel_active_pair (lr_checkpoint locked) (uc_org_id user)) (\<lambda>_.
           prog_bind (append_command svc user locked (ended_checkpoint Run_REJECTED (lr_checkpoint locked))
               Tr_APPROVAL_REJECTED (command_key run_id ''reject'' request user locked)) (\<lambda>_.
           lift_res (Ok None)))))))"

definition cancel_tx ::
  "'i run_service \<Rightarrow> string \<Rightarrow> command_request \<Rightarrow> user_context \<Rightarrow> (agent_db, run_projection option) prog" where
  "cancel_tx svc run_id request user =
     prog_bind (lift_read (load_locked svc run_id user)) (\<lambda>locked.
     prog_bind (lift_read (project_locked svc locked)) (\<lambda>projection.
     if pj_state projection = View_CANCELLED then lift_res (Ok (Some projection))
     else if Act_CANCEL \<notin> set (pj_legal_actions projection) then lift_res (run_error ''ILLEGAL_ACTION'' 409)
     else prog_bind (lift_read (\<lambda>s. Ok (effect_may_have_started (lr_checkpoint locked) s))) (\<lambda>started.
     if started then lift_res (run_error ''CANCEL_EFFECT_BOUNDARY_CROSSED'' 409)
     else prog_bind (cancel_active_pair (lr_checkpoint locked) (uc_org_id user)) (\<lambda>_.
          prog_bind (clear_pause_signal run_id (uc_org_id user)) (\<lambda>_.
          prog_bind (append_command svc user locked (ended_checkpoint Run_CANCELLED (lr_checkpoint locked))
              Tr_RUN_CANCELLED (command_key run_id ''cancel'' request user locked)) (\<lambda>_.
          lift_res (Ok None)))))))"

definition answer_or_get ::
  "'i run_service \<Rightarrow> string \<Rightarrow> user_context \<Rightarrow> run_projection option \<Rightarrow> (agent_db, run_projection) prog" where
  "answer_or_get svc run_id user answer = (case answer of
     Some projection \<Rightarrow> lift_res (Ok projection) | None \<Rightarrow> lift_read (get_run svc run_id user))"

definition reject_run ::
  "'i run_service \<Rightarrow> string \<Rightarrow> command_request \<Rightarrow> user_context \<Rightarrow> (agent_db, run_projection) prog" where
  "reject_run svc run_id request user =
     prog_bind (lift_res (require_approver_user user)) (\<lambda>_.
     prog_bind (transaction (reject_tx svc run_id request user)) (answer_or_get svc run_id user))"

definition cancel_run ::
  "'i run_service \<Rightarrow> string \<Rightarrow> command_request \<Rightarrow> user_context \<Rightarrow> (agent_db, run_projection) prog" where
  "cancel_run svc run_id request user =
     prog_bind (lift_res (require_operator_user user)) (\<lambda>_.
     prog_bind (transaction (cancel_tx svc run_id request user)) (answer_or_get svc run_id user))"

section \<open>Probing\<close>

text \<open>The reading transaction of a probe: an answer, or what the pack is called with.\<close>

definition probe_read ::
  "'i run_service \<Rightarrow> 'i pack_operations \<Rightarrow> string \<Rightarrow> user_context \<Rightarrow> agent_db \<Rightarrow>
   (run_projection + locked_run \<times> 'i runtime_adapter \<times> prepared_run_reference) res" where
  "probe_read svc ops run_id user s =
     res_bind (load_locked svc run_id user s) (\<lambda>locked.
     res_bind (project_locked svc locked s) (\<lambda>projection.
     if Act_PROBE \<notin> set (pj_legal_actions projection)
     then (if pj_state projection \<noteq> View_UNKNOWN then Ok (Inl projection) else state_conflict)
     else res_bind (restore_prepared svc ops (lr_bundle locked)) (\<lambda>(adapter, p).
       Ok (Inr (locked, adapter, p)))))"

definition probe_pack ::
  "'i run_service \<Rightarrow> 'i pack_operations \<Rightarrow> locked_run \<Rightarrow> 'i runtime_adapter \<Rightarrow> prepared_run_reference \<Rightarrow> string \<Rightarrow>
   command_request \<Rightarrow> user_context \<Rightarrow> (agent_db, unit) prog" where
  "probe_pack svc ops locked adapter p run_id request user = catching (pack_failure ''PACK_PROBE_FAILED'' 503)
     (prog_bind (op_probe ops (ra_implementation adapter) p (cm_operation_key request)) (\<lambda>probed.
      case cp_active_step (lr_checkpoint locked) of
        None \<Rightarrow> lift_res state_conflict
      | Some active \<Rightarrow> (case (sr_permit_id active, sr_attempt_id active) of
          (Some permit, Some attempt) \<Rightarrow>
            prog_bind (lift_res (validate_pack_probe_result (\<lambda>v. v) probed (pr_run_id p)
                (sr_native_task_id active) (sr_native_step_id active) permit attempt)) (\<lambda>r.
            reflect_probe_result svc r run_id user (cm_operation_key request))
        | _ \<Rightarrow> lift_res state_conflict)))"

definition probe_run ::
  "'i run_service \<Rightarrow> 'i pack_operations \<Rightarrow> string \<Rightarrow> command_request \<Rightarrow> user_context \<Rightarrow> (agent_db, run_projection) prog" where
  "probe_run svc ops run_id request user =
     prog_bind (lift_res (require_operator_user user)) (\<lambda>_.
     prog_bind (lift_read (probe_read svc ops run_id user)) (\<lambda>outcome. case outcome of
       Inl projection \<Rightarrow> lift_res (Ok projection)
     | Inr (locked, adapter, p) \<Rightarrow>
         prog_bind (probe_pack svc ops locked adapter p run_id request user) (\<lambda>_.
         lift_read (get_run svc run_id user))))"

section \<open>Pausing, submitting input and resuming\<close>

text \<open>\<open>{slot.slot_name: slot}\<close>: of slots with one name the last stands.\<close>

definition slots_by_name :: "input_request \<Rightarrow> (string \<times> input_slot) list" where
  "slots_by_name q = dict_of (map (\<lambda>slot. (sl_slot_name slot, slot)) (iq_slots q))"

definition inputs_accepted :: "input_request \<Rightarrow> jobject \<Rightarrow> bool" where
  "inputs_accepted q values =
     (list_all (\<lambda>(k, _). k \<in> fst ` set (slots_by_name q)) values \<and>
      list_all (\<lambda>(name, slot). sl_required slot \<longrightarrow> name \<in> fst ` set values) (slots_by_name q))"

definition resumable ::
  "'i run_service \<Rightarrow> 'i pack_operations \<Rightarrow> user_context \<Rightarrow> locked_run \<Rightarrow> string \<Rightarrow>
   ('i runtime_adapter \<times> prepared_run_reference) res" where
  "resumable svc ops user locked unsupported =
     res_bind (binding_for_bundle (lr_bundle locked)) (\<lambda>binding.
     res_bind (adapter_for svc binding (uc_org_id user) (Some [rq_capability_ref (ab_request (lr_bundle locked))]))
       (\<lambda>adapter.
     res_bind (restore_prepared svc ops (lr_bundle locked)) (\<lambda>(_, p).
     if op_resume ops = None then run_error unsupported 503 else Ok (adapter, p))))"

definition submit_read ::
  "'i run_service \<Rightarrow> 'i pack_operations \<Rightarrow> string \<Rightarrow> jobject \<Rightarrow> user_context \<Rightarrow> agent_db \<Rightarrow>
   ('i runtime_adapter \<times> prepared_run_reference) res" where
  "submit_read svc ops run_id values user s =
     res_bind (load_locked svc run_id user s) (\<lambda>locked.
     res_bind (project_locked svc locked s) (\<lambda>projection.
     case pj_pause_signal projection of
       None \<Rightarrow> run_error ''ILLEGAL_ACTION'' 409
     | Some signal \<Rightarrow>
         if pj_state projection \<noteq> View_AWAITING_INPUT \<or> Act_SUBMIT_INPUT \<notin> set (pj_legal_actions projection) \<or>
            ps_external_effect_started signal
         then run_error ''ILLEGAL_ACTION'' 409
         else (case ps_input_request signal of
             None \<Rightarrow> run_error ''ILLEGAL_ACTION'' 409
           | Some q \<Rightarrow> if \<not> inputs_accepted q values then run_error ''INPUT_CONTRACT_INVALID'' 422
               else resumable svc ops user locked ''INPUT_RESUME_UNSUPPORTED'')))"

definition resume_pack ::
  "'i pack_operations \<Rightarrow> 'i runtime_adapter \<Rightarrow> prepared_run_reference \<Rightarrow> jobject option \<Rightarrow> bool \<Rightarrow> string \<Rightarrow>
   (agent_db, unit) prog" where
  "resume_pack ops adapter p values takeover key = (case op_resume ops of
     None \<Rightarrow> lift_res (Ok ())
   | Some f \<Rightarrow> f (ra_implementation adapter) p values takeover key)"

definition submit_input ::
  "'i run_service \<Rightarrow> 'i pack_operations \<Rightarrow> string \<Rightarrow> input_submission \<Rightarrow> user_context \<Rightarrow> (agent_db, run_projection) prog" where
  "submit_input svc ops run_id request user =
     prog_bind (lift_res (require_operator_user user)) (\<lambda>_.
     prog_bind (lift_read (submit_read svc ops run_id (is_values request) user)) (\<lambda>(adapter, p).
     prog_bind (resume_pack ops adapter p (Some (is_values request)) False (is_operation_key request)) (\<lambda>_.
     prog_bind (transaction (clear_pause_signal run_id (uc_org_id user))) (\<lambda>_.
     lift_read (get_run svc run_id user)))))"

definition resume_read ::
  "'i run_service \<Rightarrow> 'i pack_operations \<Rightarrow> string \<Rightarrow> user_context \<Rightarrow> agent_db \<Rightarrow>
   (run_projection + 'i runtime_adapter \<times> prepared_run_reference) res" where
  "resume_read svc ops run_id user s =
     res_bind (load_locked svc run_id user s) (\<lambda>locked.
     res_bind (project_locked svc locked s) (\<lambda>projection.
     case pj_pause_signal projection of
       None \<Rightarrow> Ok (Inl projection)
     | Some signal \<Rightarrow>
         if pj_state projection \<noteq> View_NEEDS_HUMAN then Ok (Inl projection)
         else if Pause_RESUME \<notin> set (ps_allowed_actions signal) \<and> Pause_TAKE_OVER \<notin> set (ps_allowed_actions signal)
         then run_error ''ILLEGAL_ACTION'' 409
         else res_bind (resumable svc ops user locked ''HUMAN_RESUME_UNSUPPORTED'') (\<lambda>r. Ok (Inr r))))"

definition resume_run ::
  "'i run_service \<Rightarrow> 'i pack_operations \<Rightarrow> string \<Rightarrow> command_request \<Rightarrow> user_context \<Rightarrow> (agent_db, run_projection) prog" where
  "resume_run svc ops run_id request user =
     prog_bind (lift_res (require_operator_user user)) (\<lambda>_.
     prog_bind (lift_read (resume_read svc ops run_id user)) (\<lambda>outcome. case outcome of
       Inl projection \<Rightarrow> lift_res (Ok projection)
     | Inr (adapter, p) \<Rightarrow>
         prog_bind (resume_pack ops adapter p None True (cm_operation_key request)) (\<lambda>_.
         prog_bind (transaction (clear_pause_signal run_id (uc_org_id user))) (\<lambda>_.
         lift_read (get_run svc run_id user)))))"

definition persist_pause_signal ::
  "'i run_service \<Rightarrow> pause_signal \<Rightarrow> plan_checkpoint \<Rightarrow> string \<Rightarrow> (agent_db, unit) prog" where
  "persist_pause_signal svc signal c organization_id =
     (if ps_run_id signal \<noteq> cp_root_task_id c then lift_res (run_error ''PAUSE_SIGNAL_CORRELATION_INVALID'' 409)
      else if ps_outcome signal = Outcome_AWAITING_INPUT \<and> ps_external_effect_started signal
      then lift_res (run_error ''PAUSE_SIGNAL_EFFECT_BOUNDARY'' 409)
      else save_pause_signal signal (json_digest (checkpoint_dump c)) organization_id (sv_now svc))"

text \<open>The correlation of a signal with the run's active step.\<close>

definition signal_correlated :: "string \<Rightarrow> pause_signal \<Rightarrow> plan_step_ref option \<Rightarrow> bool" where
  "signal_correlated run_id signal active =
     ((case ps_step_id signal of None \<Rightarrow> True | Some step \<Rightarrow> map_option sr_native_step_id active = Some step) \<and>
      (case ps_task_id signal of None \<Rightarrow> True
       | Some task \<Rightarrow> task = run_id \<or> task = (case active of None \<Rightarrow> [] | Some a \<Rightarrow> sr_native_task_id a)))"

definition record_pause_tx ::
  "'i run_service \<Rightarrow> string \<Rightarrow> pause_signal \<Rightarrow> user_context \<Rightarrow> (agent_db, unit) prog" where
  "record_pause_tx svc run_id signal user =
     prog_bind (lift_read (load_locked svc run_id user)) (\<lambda>locked.
     prog_bind (demand (signal_correlated run_id signal (cp_active_step (lr_checkpoint locked)))
         (Exc (AgentRunError 409) ''PAUSE_SIGNAL_CHECKPOINT_INVALID'')) (\<lambda>_.
     prog_bind (lift_read (\<lambda>s. Ok (effect_may_have_started (lr_checkpoint locked) s))) (\<lambda>started.
     prog_bind (demand (ps_external_effect_started signal = started)
         (Exc (AgentRunError 409) ''PAUSE_SIGNAL_EFFECT_BOUNDARY'')) (\<lambda>_.
     persist_pause_signal svc (redact_pause_signal signal) (lr_checkpoint locked) (uc_org_id user)))))"

definition record_pause_signal ::
  "'i run_service \<Rightarrow> string \<Rightarrow> pause_signal \<Rightarrow> user_context \<Rightarrow> (agent_db, run_projection) prog" where
  "record_pause_signal svc run_id signal user =
     prog_bind (lift_res (require_operator_user user)) (\<lambda>_.
     prog_bind (demand (ps_run_id signal = run_id)
         (Exc (AgentRunError 409) ''PAUSE_SIGNAL_CORRELATION_INVALID'')) (\<lambda>_.
     prog_bind (transaction (record_pause_tx svc run_id signal user)) (\<lambda>_.
     lift_read (get_run svc run_id user))))"

section \<open>Creating a run\<close>

definition intent_digest_of :: "string \<Rightarrow> string" where
  "intent_digest_of intent = json_digest (strings_json [''agent-run-intent'', intent])"

definition select_binding ::
  "'i run_service \<Rightarrow> create_request \<Rightarrow> user_context \<Rightarrow> pack_runtime_binding res" where
  "select_binding svc request user = translate is_lookup_error (Exc (AgentRunError 422) ''PACK_RUNTIME_UNAVAILABLE'')
     (case (cr_pack_id request, cr_pack_version request) of
        (Some pack, Some version) \<Rightarrow>
          res_bind (if tenant_scoped (sv_registry svc)
            then require_for_tenant (sv_now svc) (Some (sv_now svc)) (uc_org_id user) (pack, version) None None (sv_registry svc)
            else require_adapter (pack, version) (sv_registry svc)) (\<lambda>a. Ok (ra_binding a))
      | _ \<Rightarrow> (case sv_default_binding svc of
            Some b \<Rightarrow> Ok b
          | None \<Rightarrow> Raise LookupError ''No Pack was selected for this Agent Run''))"

text \<open>\<open>rsplit(" ", 1)[-1]\<close>\<close>

definition last_word :: "string \<Rightarrow> string" where
  "last_word x = rev (takeWhile (\<lambda>c. c \<noteq> CHR '' '') (rev x))"

text \<open>The first transaction of \<open>create\<close>: the projection of the run the request already created.\<close>

definition existing_run ::
  "'i run_service \<Rightarrow> create_request \<Rightarrow> user_context \<Rightarrow> pack_runtime_binding \<Rightarrow> agent_db \<Rightarrow> run_projection option res" where
  "existing_run svc request user selected s =
     (let run_id = derive_pack_run_id (uc_org_id user) (cr_request_id request);
          root' = store_get_root run_id (uc_org_id user) s;
          admission = first_where (\<lambda>a. ad_organization_id a = uc_org_id user \<and> ad_request_id a = cr_request_id request)
            (governed_task_admissions s)
      in case (root', admission) of
        (None, None) \<Rightarrow> Ok None
      | (Some _, Some a) \<Rightarrow> (case sv_parse_bundle svc (ad_bundle_payload a) of
            None \<Rightarrow> Raise ValueError ''validation error for TaskAdmissionBundle''
          | Some bundle \<Rightarrow>
              if td_task_id (ab_task bundle) \<noteq> run_id \<or>
                 last_word (rq_user_intent_summary (ab_request bundle)) \<noteq> intent_digest_of (cr_intent request) \<or>
                 \<not> json_eq (JObj (rq_typed_inputs (ab_request bundle))) (JObj (cr_business_inputs request))
              then run_error ''IDEMPOTENCY_CONFLICT'' 409
              else res_bind (binding_for_bundle bundle) (\<lambda>binding.
                if binding \<noteq> selected then run_error ''IDEMPOTENCY_CONFLICT'' 409
                else res_bind (load_locked svc run_id user s) (\<lambda>locked.
                  res_bind (project_locked svc locked s) (\<lambda>p. Ok (Some p)))))
      | _ \<Rightarrow> state_conflict)"

definition planner_failure :: "exn \<Rightarrow> exn" where
  "planner_failure e =
     (if exc_of e = TimeoutError then Exc (AgentRunError 503) ''PLANNER_TIMEOUT''
      else pack_failure ''PLANNER_REJECTED'' 422 e)"

definition prepare_pack ::
  "'i run_service \<Rightarrow> 'i pack_operations \<Rightarrow> 'i runtime_adapter \<Rightarrow> create_request \<Rightarrow> user_context \<Rightarrow>
   pack_runtime_binding \<Rightarrow> (agent_db, prepared_run_reference) prog" where
  "prepare_pack svc ops adapter request user selected =
     prog_bind (catching planner_failure
       (prog_bind (demand (uc_org_id user \<noteq> [] \<and> cr_request_id request \<noteq> [] \<and> sv_target_url svc \<noteq> [])
            (Exc ValueError ''validation error for PackRunRequest'')) (\<lambda>_.
        op_prepare ops (ra_implementation adapter) user (cr_request_id request)
          (intent_digest_of (cr_intent request)) (cr_business_inputs request) (sv_target_url svc) (sv_now svc))))
       (\<lambda>prepared. lift_res (case prepared of
          None \<Rightarrow> run_error ''PACK_PREPARE_RESULT_INVALID'' 503
        | Some p \<Rightarrow>
            if pr_run_id p \<noteq> derive_pack_run_id (uc_org_id user) (cr_request_id request) \<or>
               pr_tenant_id p \<noteq> uc_org_id user \<or> pr_request_id p \<noteq> cr_request_id request \<or>
               pr_pack_id p \<noteq> rb_pack_id selected \<or> pr_pack_version p \<noteq> rb_pack_version selected \<or>
               pr_adapter_id p \<noteq> rb_adapter_id selected
            then run_error ''PACK_PREPARE_RESULT_INVALID'' 503 else Ok p))"

definition admit_pack ::
  "'i run_service \<Rightarrow> 'i pack_operations \<Rightarrow> 'i runtime_adapter \<Rightarrow> prepared_run_reference \<Rightarrow> create_request \<Rightarrow>
   user_context \<Rightarrow> (agent_db, pack_admission_result) prog" where
  "admit_pack svc ops adapter p request user = catching (pack_failure ''PACK_ADMISSION_FAILED'' 503)
     (prog_bind (op_admit ops (ra_implementation adapter) p (pause_run_for_approval svc)
         (operation_key_of (uc_org_id user) (pr_run_id p) ''create'' (cr_request_id request) ''reservation'')) (\<lambda>admitted.
      lift_res (validate_pack_admission_result (\<lambda>v. v) admitted p)))"

definition create_run ::
  "'i run_service \<Rightarrow> 'i pack_operations \<Rightarrow> create_request \<Rightarrow> user_context \<Rightarrow> (agent_db, run_projection) prog" where
  "create_run svc ops request user =
     prog_bind (lift_res (require_operator_user user)) (\<lambda>_.
     prog_bind (lift_res (select_binding svc request user)) (\<lambda>selected.
     prog_bind (lift_res (adapter_for svc selected (uc_org_id user) None)) (\<lambda>adapter.
     prog_bind (lift_read (existing_run svc request user selected)) (\<lambda>existing. case existing of
       Some projection \<Rightarrow> lift_res (Ok projection)
     | None \<Rightarrow>
         prog_bind (prepare_pack svc ops adapter request user selected) (\<lambda>p.
         prog_bind (admit_pack svc ops adapter p request user) (\<lambda>_.
         lift_read (get_run svc (pr_run_id p) user)))))))"

end
