(* ===== verification/RunLaws.thy ===== *)
theory RunLaws
  imports AgentRuns
begin

text \<open>
  What the commands of the agent run service do to a run: loading after an append, ending a run by
  rejection or cancellation, resuming it once after its approval, and what other tenants can see.
\<close>

section \<open>Loading a run\<close>

lemma load_locked_ok:
  "load_locked svc run_id user s = Ok locked \<longleftrightarrow>
     (\<exists>r ad b es c. store_get_root run_id (uc_org_id user) s = Some r \<and>
        is_plan_application_marker (ts_application r) \<and>
        find_admission_by_task run_id (uc_org_id user) s = Some ad \<and>
        sv_parse_bundle svc (ad_bundle_payload ad) = Some b \<and>
        ts_task_id r = derive_pack_run_id (uc_org_id user) (rq_request_id (ab_request b)) \<and>
        td_task_id (ab_task b) = ts_task_id r \<and>
        load_events run_id s = Ok es \<and> replay_plan_journal es = Ok c \<and>
        locked = \<lparr>lr_root = r, lr_bundle = b, lr_checkpoint = c, lr_events = es,
          lr_authority_digests = je_authority_digests (last es)\<rparr>)"
  unfolding load_locked_def
  by (auto simp: Let_def res_bind_ok translate_ok split: option.splits if_splits)

lemma loaded_events:
  assumes "load_locked svc run_id user s = Ok l"
  shows "load_events run_id s = Ok (lr_events l)" "replay_plan_journal (lr_events l) = Ok (lr_checkpoint l)"
    "ts_organization_id (lr_root l) = uc_org_id user"
  using assms by (auto simp: load_locked_ok dest: store_root_identity)

lemma load_locked_user: "uc_org_id u' = uc_org_id u \<Longrightarrow> load_locked svc run_id u' s = load_locked svc run_id u s"
  by (simp only: load_locked_def)

lemma root_organization: "store_get_root run_id org s = Some r \<Longrightarrow> ts_organization_id r = org"
  by (auto simp: store_get_root_def to_task_snapshot_def split: option.splits)

lemma root_task: "store_get_root run_id org s = Some r \<Longrightarrow> ts_task_id r = run_id"
  using store_root_identity by blast

text \<open>The checkpoint of a replayed journal is the last event's, and valid.\<close>

lemma replayed_checkpoint:
  assumes "load_events rid s = Ok es" and "replay_plan_journal es = Ok c"
  shows "es \<noteq> []" "c = after_event (last es)" "event_sound (last es)" "checkpoint_valid c"
proof -
  have chain: "journal_chain es" and c: "c = after_event (last es)" using assms(2) by (simp_all add: replay_ok_iff)
  then show ne: "es \<noteq> []" and "c = after_event (last es)" and sound: "event_sound (last es)"
    by (simp_all add: journal_chain_def)
  have "event_valid (last es)" using loaded_valid [OF assms(1)] ne by simp
  then show "checkpoint_valid c" by (simp add: c event_valid_def checkpoint_valid_def after_event_def)
qed

lemma state_not_terminal:
  assumes "event_sound e" and "cp_state (after_event e) \<in> {Run_ACTIVE, Run_APPROVAL_REQUIRED, Run_PROBE_BLOCKED}"
  shows "\<not> terminal_transition (je_transition e)"
proof -
  have "cp_state (je_checkpoint e) \<in> expected_states (je_transition e)"
    using assms(1) by (auto simp: event_sound_def Let_def validate_transition_checkpoint_def split: if_splits)
  with assms(2) show ?thesis by (cases "je_transition e") (auto simp: terminal_transition_def after_event_def)
qed

lemma event_follows_checkpoint:
  assumes sound: "event_sound a" and same: "cp_plan_run_id c = cp_plan_run_id (after_event a)"
    "cp_admission_id c = cp_admission_id (after_event a)" "cp_root_task_id c = cp_root_task_id (after_event a)"
    "cp_plan_version c = cp_plan_version (after_event a)" "cp_journal_digest c = cp_journal_digest (after_event a)"
    and go: "\<not> terminal_transition (je_transition a)" and later: "je_created_at a \<le> now"
  shows "event_follows a (journal_event c t ad now l r)"
  using assms by (simp add: event_follows_def root_identity_def event_sound_def Let_def after_event_def)

section \<open>Appending to a loaded run\<close>

text \<open>The parts of a checkpoint a command leaves as they are.\<close>

definition same_run :: "plan_checkpoint \<Rightarrow> plan_checkpoint \<Rightarrow> bool" where
  "same_run c d \<longleftrightarrow> cp_plan_run_id c = cp_plan_run_id d \<and> cp_admission_id c = cp_admission_id d \<and>
     cp_root_task_id c = cp_root_task_id d \<and> cp_plan_version c = cp_plan_version d \<and>
     cp_journal_sequence c = cp_journal_sequence d \<and> cp_journal_digest c = cp_journal_digest d"

lemma append_command_cases:
  assumes load: "load_locked svc run_id user s = Ok locked"
    and own: "cp_root_task_id (lr_checkpoint locked) = run_id"
    and same: "same_run c (lr_checkpoint locked)" "checkpoint_valid c"
    and journal: "load_events run_id u = load_events run_id s"
    and run: "append_command svc user locked c t key u = (Ok x, s')"
  obtains e where "e = journal_event c t (lr_authority_digests locked) (sv_now svc) None (Some key)"
    "s' = u\<lparr>governance_audit_events := governance_audit_events u @ [event_model e (uc_org_id user)]\<rparr>"
    "verify_checkpoint_native_state c t (uc_org_id user) u = Ok ()"
    "load_events run_id s' = Ok (lr_events locked @ [e])" "x = after_event e"
    "event_follows (last (lr_events locked)) e \<Longrightarrow> validate_transition_checkpoint t c = Ok () \<Longrightarrow>
       replay_plan_journal (lr_events locked @ [e]) = Ok (after_event e)"
proof -
  from load have loaded: "load_events run_id s = Ok (lr_events locked)"
      "replay_plan_journal (lr_events locked) = Ok (lr_checkpoint locked)"
    by (auto simp: load_locked_ok)
  have root: "cp_root_task_id c = run_id" using own same by (simp add: same_run_def)
  have "load_events (cp_root_task_id c) u = Ok (lr_events locked)" using loaded journal root by simp
  note extends = skyvern.append_extends [OF run [unfolded append_command_def] same(2) this]
  from run [unfolded append_command_def] show thesis
  proof (cases rule: skyvern.append_cases)
    case (1 es r)
    then have "r = lr_checkpoint locked" using loaded journal root by simp
    with 1(7) same(1) show thesis by (simp add: same_run_def)
  next
    case (2 es r e)
    have "s' \<noteq> u"
    proof
      assume "s' = u"
      from arg_cong [OF this, of governance_audit_events] 2(8) show False by simp
    qed
    with extends 2 root have "load_events run_id s' = Ok (lr_events locked @ [e])"
      "replay_plan_journal (lr_events locked @ [e]) = Ok x \<longleftrightarrow>
         event_follows (last (lr_events locked)) e \<and> validate_transition_checkpoint t c = Ok ()"
      by auto
    with 2 that show thesis by blast
  qed
qed

text \<open>The run as it is loaded after the append.\<close>

definition extended_run :: "locked_run \<Rightarrow> task_snapshot \<Rightarrow> plan_event \<Rightarrow> locked_run" where
  "extended_run locked r e = locked\<lparr>lr_root := r, lr_checkpoint := after_event e,
     lr_events := lr_events locked @ [e], lr_authority_digests := je_authority_digests e\<rparr>"

lemma extended_run_simps [simp]:
  "lr_root (extended_run locked r e) = r" "lr_bundle (extended_run locked r e) = lr_bundle locked"
  "lr_checkpoint (extended_run locked r e) = after_event e"
  "lr_events (extended_run locked r e) = lr_events locked @ [e]"
  by (simp_all add: extended_run_def)

lemma load_extended:
  assumes load: "load_locked svc run_id user s = Ok locked"
    and root: "store_get_root run_id (uc_org_id user) u = Some r" "ts_application r = ts_application (lr_root locked)"
    and admissions: "governed_task_admissions u = governed_task_admissions s"
    and events: "load_events run_id u = Ok (lr_events locked @ [e])"
    and replay: "replay_plan_journal (lr_events locked @ [e]) = Ok (after_event e)"
  shows "load_locked svc run_id user u = Ok (extended_run locked r e)"
proof -
  from load obtain r0 ad where "store_get_root run_id (uc_org_id user) s = Some r0" "r0 = lr_root locked"
    "find_admission_by_task run_id (uc_org_id user) s = Some ad"
    and rest: "sv_parse_bundle svc (ad_bundle_payload ad) = Some (lr_bundle locked)"
      "ts_task_id r0 = derive_pack_run_id (uc_org_id user) (rq_request_id (ab_request (lr_bundle locked)))"
      "td_task_id (ab_task (lr_bundle locked)) = ts_task_id r0" "is_plan_application_marker (ts_application r0)"
    by (auto simp: load_locked_ok)
  moreover have "find_admission_by_task run_id (uc_org_id user) u = find_admission_by_task run_id (uc_org_id user) s"
    by (simp add: find_admission_by_task_def admissions)
  moreover from calculation have "ts_task_id r = ts_task_id r0" using root(1) by (simp add: root_task)
  ultimately show ?thesis
    using root events replay unfolding load_locked_ok
    by (intro exI [of _ r] exI [of _ ad] exI [of _ "lr_bundle locked"] exI [of _ "lr_events locked @ [e]"]
        exI [of _ "after_event e"]) (simp add: extended_run_def)
qed

section \<open>Sessions of the governance services\<close>

lemma on_db_cases:
  assumes "on_db m s = (r, u)"
  obtains d where "m (db.truncate s) = (r, d)" "u = db.extend d (db.more s)"
  using assms by (auto simp: on_db_def split: prod.splits)

lemma truncate_fields [simp]:
  "pending_actions (db.truncate s) = pending_actions s" "approval_requests (db.truncate s) = approval_requests s"
  "tasks (db.truncate s) = tasks s" "steps (db.truncate s) = steps s"
  "execution_attempts (db.truncate s) = execution_attempts s"
  "execution_permits (db.truncate s) = execution_permits s"
  by (simp_all add: db.truncate_def)

lemma extend_fields [simp]:
  fixes s :: agent_db
  shows "pending_actions (db.extend d (db.more s)) = pending_actions d"
    "approval_requests (db.extend d (db.more s)) = approval_requests d"
    "tasks (db.extend d (db.more s)) = tasks d" "steps (db.extend d (db.more s)) = steps d"
    "execution_attempts (db.extend d (db.more s)) = execution_attempts d"
    "execution_permits (db.extend d (db.more s)) = execution_permits d"
    "governance_audit_events (db.extend d (db.more s)) = governance_audit_events s"
    "governed_task_admissions (db.extend d (db.more s)) = governed_task_admissions s"
  by (cases s; simp add: db.extend_def)+

lemma find_task_native: "find_task t org d = native_task_row t org d"
  by (simp add: find_task_def native_task_row_def)

text \<open>A status written to the row of a task.\<close>

lemma native_task_row_write:
  assumes found: "native_task_row task org s = Some t"
    and tasks: "tasks u = write_row tk_task_id (t\<lparr>tk_status := st\<rparr>) (tasks s)"
  shows "native_task_row rid org u = (if rid = task then Some (t\<lparr>tk_status := st\<rparr>) else native_task_row rid org s)"
proof -
  note row = native_task_some [OF found]
  have same: "first_where P rows = Some t \<Longrightarrow> P (t\<lparr>tk_status := st\<rparr>) \<Longrightarrow>
      first_where P (write_row tk_task_id (t\<lparr>tk_status := st\<rparr>) rows) = Some (t\<lparr>tk_status := st\<rparr>)"
    for P and rows :: "task_row list"
    by (induction rows) (auto simp: first_where_def write_row_def split: if_splits)
  have other: "first_where (\<lambda>x. tk_task_id x = rid \<and> Q x) (write_row tk_task_id (t\<lparr>tk_status := st\<rparr>) rows) =
      first_where (\<lambda>x. tk_task_id x = rid \<and> Q x) rows" if "rid \<noteq> tk_task_id t" for Q and rows :: "task_row list"
    using that by (induction rows) (auto simp: first_where_def write_row_def)
  show ?thesis
    using found row same other by (auto simp: native_task_row_def tasks)
qed

lemma root_after_status:
  assumes "native_task_row task org s = Some t" and "tasks u = write_row tk_task_id (t\<lparr>tk_status := st\<rparr>) (tasks s)"
    and "store_get_root rid org s = Some r"
  shows "\<exists>r'. store_get_root rid org u = Some r' \<and> ts_application r' = ts_application r"
  using assms(3) native_task_row_write [OF assms(1,2), of rid] assms(1)
  by (auto simp: store_get_root_def to_task_snapshot_def split: if_splits)

lemma root_same_tasks: "tasks u = tasks s \<Longrightarrow> store_get_root rid org u = store_get_root rid org s"
  by (simp add: store_get_root_def native_task_row_def)

section \<open>Projecting the extended run\<close>

lemma project_active_view:
  "project_active svc locked active pair linked s = Ok p \<Longrightarrow> \<exists>st acts r. view_of svc locked st acts r None = Ok p"
  unfolding project_active_def Let_def
  by (auto split: if_splits option.splits prod.splits)

lemma public_plan_empty: "public_plan c = [] \<longleftrightarrow>
    cp_completed_prefix c = [] \<and> cp_active_step c = None \<and> cp_remaining_suffix c = []"
proof -
  have "public_steps i rs = [] \<longleftrightarrow> rs = []" for i rs by (cases rs) simp_all
  then show ?thesis by (auto simp: public_plan_def split: option.splits)
qed

lemma view_of_is_ok:
  "is_ok (view_of svc locked st acts reason g) \<longleftrightarrow>
     is_ok (res_bind (binding_for_bundle (lr_bundle locked)) (\<lambda>b.
       if tenant_scoped (sv_registry svc)
       then public_metadata_for_tenant (sv_now svc) (rq_tenant_id (ab_request (lr_bundle locked))) (binding_key b)
              (sv_registry svc)
       else unscoped_metadata (binding_key b) (sv_registry svc))) \<and> public_plan (lr_checkpoint locked) \<noteq> []"
  unfolding view_of_def Let_def is_ok_iff res_bind_ok by auto

lemma view_of_extended:
  assumes "view_of svc locked st acts reason g = Ok p" and "lr_bundle locked' = lr_bundle locked"
    and "cp_active_step (lr_checkpoint locked') \<noteq> None"
  obtains p' where "view_of svc locked' st' acts' reason' g' = Ok p'"
proof -
  have "is_ok (view_of svc locked' st' acts' reason' g')"
    using assms(1,3) view_of_is_ok [of svc locked st acts reason g]
    unfolding view_of_is_ok [of svc locked'] assms(2) public_plan_empty by simp
  with that show thesis by (auto simp: is_ok_iff)
qed

lemma journal_event_no_pause:
  assumes "set types \<subseteq> {pause_type, resolution_type}"
  shows "run_events run org types (u\<lparr>governance_audit_events := governance_audit_events u @ [event_model e org']\<rparr>) =
     run_events run org types u"
proof -
  have "ga_event_type (event_model e org') \<notin> {pause_type, resolution_type}"
    by (cases "je_transition e") (simp_all add: event_model_def pause_type_def resolution_type_def)
  with assms show ?thesis by (auto simp: run_events_append)
qed

lemma pause_signal_after_event:
  "get_pause_signal run org (u\<lparr>governance_audit_events := governance_audit_events u @ [event_model e org']\<rparr>) =
     get_pause_signal run org u"
  by (simp add: get_pause_signal_def journal_event_no_pause)

lemma pause_signal_same_events:
  "governance_audit_events u = governance_audit_events s \<Longrightarrow> get_pause_signal run org u = get_pause_signal run org s"
  by (simp add: get_pause_signal_def run_events_def)

lemma load_events_same: "governance_audit_events u = governance_audit_events s \<Longrightarrow> load_events rid u = load_events rid s"
  by (simp add: load_events_def)

section \<open>Deciding the approval of a run\<close>

text \<open>The keys of \<open>pending_actions\<close>: the primary key, and the unique column \<open>approval_id\<close>.\<close>

definition pending_keys :: "'z db_scheme \<Rightarrow> bool" where
  "pending_keys s \<longleftrightarrow> distinct (map pn_pending_action_id (pending_actions s)) \<and>
     (\<forall>x \<in> set (pending_actions s). \<forall>y \<in> set (pending_actions s).
        pn_approval_id x = pn_approval_id y \<and> pn_approval_id x \<noteq> None \<longrightarrow> x = y)"

definition decided_pending :: "bool \<Rightarrow> pending_row \<Rightarrow> pending_row" where
  "decided_pending ok p = p\<lparr>pn_status := (if ok then APPROVED else REJECTED), pn_row_version := pn_row_version p + 1\<rparr>"

lemma decided_pending_simps [simp]:
  "pn_pending_action_id (decided_pending ok p) = pn_pending_action_id p"
  "pn_task_id (decided_pending ok p) = pn_task_id p" "pn_step_id (decided_pending ok p) = pn_step_id p"
  "pn_approval_id (decided_pending ok p) = pn_approval_id p"
  "pn_organization_id (decided_pending ok p) = pn_organization_id p"
  "pn_status (decided_pending ok p) = (if ok then APPROVED else REJECTED)"
  "pn_row_version (decided_pending ok p) = pn_row_version p + 1"
  by (simp_all add: decided_pending_def)

lemma find_pending_member:
  "distinct (map pn_pending_action_id (pending_actions s)) \<Longrightarrow> p \<in> set (pending_actions s) \<Longrightarrow>
     find_pending (pn_pending_action_id p) s = Some p"
proof -
  have "distinct (map pn_pending_action_id rows) \<Longrightarrow> p \<in> set rows \<Longrightarrow>
      first_where (\<lambda>r. pn_pending_action_id r = pn_pending_action_id p) rows = Some p" for rows
    by (induction rows) (auto simp: first_where_def)
  then show "distinct (map pn_pending_action_id (pending_actions s)) \<Longrightarrow> p \<in> set (pending_actions s) \<Longrightarrow>
     find_pending (pn_pending_action_id p) s = Some p" by (simp add: find_pending_def)
qed

lemma decide_linked:
  assumes run: "decide_approval_request a org u ok note now s = (Ok d, t)"
    and keys: "pending_keys s" and p: "p \<in> set (pending_actions s)" "pn_approval_id p = Some a"
  shows "\<exists>ap. find_approval a s = Some ap \<and> ar_requester_user_id ap \<noteq> Some u \<and> d = decided_request ok u note now ap \<and>
     t = write_pending (decided_pending ok p) (write_approval d s)"
  using run
proof (cases rule: decide_request_cases)
  case (linked ap q v)
  from keys p linked have q: "q = p" by (auto simp: pending_keys_def)
  let ?w = "write_approval (decided_request ok u note now ap) s"
  have found: "find_pending (pn_pending_action_id p) ?w = Some p"
    using find_pending_member [of s p] keys p by (simp add: pending_keys_def)
  from linked(8) obtain x where v: "v = Ok x" and d: "d = decided_request ok u note now ap" by (cases v) auto
  from linked(7) [unfolded q] have "t = write_pending (decided_pending ok p) ?w"
    by (cases rule: record_cases) (use found v in \<open>auto simp: decided_pending_def\<close>)
  with linked d show ?thesis by blast
qed (use p in auto)

lemma first_where_write_key:
  assumes "P y" and "key y = key x" and only: "\<And>z. P z \<Longrightarrow> key z = key x"
  shows "first_where P rows = Some x \<Longrightarrow> first_where P (write_row key y rows) = Some y"
proof (induction rows)
  case (Cons z rows)
  show ?case
  proof (cases "P z")
    case True
    with only [OF True] assms(1,2) show ?thesis by (simp add: first_where_def write_row_def)
  next
    case False
    with assms(1) Cons show ?thesis by (cases "key z = key y") (simp_all add: first_where_def write_row_def)
  qed
qed (simp add: first_where_def)

text \<open>The linked rows of a step after a write to its pending action and its approval.\<close>

lemma pending_approval_written:
  assumes linked: "pending_approval c s = Ok (Some (p, ap))"
    and keys: "distinct (map pn_pending_action_id (pending_actions s))"
    and step: "map_option (\<lambda>r. (sr_native_task_id r, sr_native_step_id r)) (cp_active_step c') =
      map_option (\<lambda>r. (sr_native_task_id r, sr_native_step_id r)) (cp_active_step c)"
    and pend: "pending_actions t = write_row pn_pending_action_id p' (pending_actions s)"
      "pn_pending_action_id p' = pn_pending_action_id p" "pn_task_id p' = pn_task_id p" "pn_step_id p' = pn_step_id p"
      "pn_approval_id p' = pn_approval_id p" "pn_organization_id p' = pn_organization_id p"
    and app: "approval_requests t = write_row ar_approval_id ap' (approval_requests s)"
      "ar_approval_id ap' = ar_approval_id ap" "ar_task_id ap' = ar_task_id ap" "ar_organization_id ap' = ar_organization_id ap"
  shows "pending_approval c' t = Ok (Some (p', ap'))"
proof -
  from linked obtain a where a: "cp_active_step c = Some a" by (auto simp: pending_approval_def split: option.splits)
  with step obtain b where b: "cp_active_step c' = Some b" "sr_native_task_id b = sr_native_task_id a"
    "sr_native_step_id b = sr_native_step_id a" by auto
  let ?P = "\<lambda>q. pn_task_id q = sr_native_task_id a \<and> pn_step_id q = sr_native_step_id a"
  from linked a have one: "filter ?P (pending_actions s) = [p]" and truth: "truthy (pn_approval_id p)"
    and found: "first_where (\<lambda>r. Some (ar_approval_id r) = pn_approval_id p) (approval_requests s) = Some ap"
    and same: "ar_task_id ap = pn_task_id p" "ar_organization_id ap = pn_organization_id p"
    by (auto simp: pending_approval_def split: option.splits list.splits if_splits)
  have "p \<in> set (filter ?P (pending_actions s))" by (simp add: one)
  then have mem: "p \<in> set (pending_actions s)" "?P p" by simp_all
  have other: "x = p" if "x \<in> set (pending_actions s)" "pn_pending_action_id x = pn_pending_action_id p" for x
    using keys mem(1) that by (auto simp: distinct_map dest: inj_onD)
  have "filter ?P (pending_actions t) = map (\<lambda>x. if pn_pending_action_id x = pn_pending_action_id p then p' else x)
      (filter (?P \<circ> (\<lambda>x. if pn_pending_action_id x = pn_pending_action_id p then p' else x)) (pending_actions s))"
    by (simp add: pend write_row_def filter_map o_def)
  also have "filter (?P \<circ> (\<lambda>x. if pn_pending_action_id x = pn_pending_action_id p then p' else x)) (pending_actions s) =
      filter ?P (pending_actions s)"
    by (rule filter_cong) (use other mem pend in auto)
  finally have one': "filter ?P (pending_actions t) = [p']" by (simp add: one)
  have found': "first_where (\<lambda>r. Some (ar_approval_id r) = pn_approval_id p) (approval_requests t) = Some ap'"
  proof -
    have id: "pn_approval_id p = Some (ar_approval_id ap)" using first_where_Some [OF found] by simp
    show ?thesis
      unfolding app(1) by (rule first_where_write_key [OF _ app(2) _ found]) (simp_all add: id app(2))
  qed
  have "filter (\<lambda>q. pn_task_id q = sr_native_task_id b \<and> pn_step_id q = sr_native_step_id b) (pending_actions t) = [p']"
    using one' by (simp only: b)
  then show ?thesis
    using found' truth same by (simp add: pending_approval_def b(1) pend(3,5,6) app(3,4))
qed

lemma linked_rows:
  assumes "pending_approval c s = Ok (Some (p, ap))"
  shows "p \<in> set (pending_actions s)" "pn_approval_id p = Some (ar_approval_id ap)"
    "first_where (\<lambda>r. ar_approval_id r = ar_approval_id ap) (approval_requests s) = Some ap" "cp_active_step c \<noteq> None"
    "ar_task_id ap = pn_task_id p" "ar_organization_id ap = pn_organization_id p"
proof -
  from assms obtain a where a: "cp_active_step c = Some a" by (auto simp: pending_approval_def split: option.splits)
  with assms have one: "filter (\<lambda>q. pn_task_id q = sr_native_task_id a \<and> pn_step_id q = sr_native_step_id a)
        (pending_actions s) = [p]"
    and found: "first_where (\<lambda>r. Some (ar_approval_id r) = pn_approval_id p) (approval_requests s) = Some ap"
    and same: "ar_task_id ap = pn_task_id p" "ar_organization_id ap = pn_organization_id p"
    by (auto simp: pending_approval_def split: option.splits list.splits if_splits)
  have "p \<in> set (filter (\<lambda>q. pn_task_id q = sr_native_task_id a \<and> pn_step_id q = sr_native_step_id a)
      (pending_actions s))" by (simp add: one)
  then show "p \<in> set (pending_actions s)" by simp
  show id: "pn_approval_id p = Some (ar_approval_id ap)" using first_where_Some [OF found] by simp
  with found show "first_where (\<lambda>r. ar_approval_id r = ar_approval_id ap) (approval_requests s) = Some ap" by simp
  show "cp_active_step c \<noteq> None" "ar_task_id ap = pn_task_id p" "ar_organization_id ap = pn_organization_id p"
    using a same by simp_all
qed

section \<open>Ending a run\<close>

lemma ended_checkpoint_parts:
  "same_run (ended_checkpoint st c) c" "cp_state (ended_checkpoint st c) = st"
  "checkpoint_valid c \<Longrightarrow> checkpoint_valid (ended_checkpoint st c)"
  "cp_root_task_id (ended_checkpoint st c) = cp_root_task_id c"
  by (auto simp: same_run_def ended_checkpoint_def checkpoint_valid_def step_ref_valid_def split: option.splits)

lemma same_run_refl [simp]: "same_run c c"
  by (simp add: same_run_def)

lemma native_state_failed [simp]: "native_state org s (a\<lparr>sr_state := st\<rparr>) = native_state org s a"
  by (simp add: native_state_def)

lemma journal_event_after:
  "cp_state (after_event (journal_event c t ad now l r)) = cp_state c"
  "cp_active_step (after_event (journal_event c t ad now l r)) = cp_active_step c"
  "cp_root_task_id (after_event (journal_event c t ad now l r)) = cp_root_task_id c"
  "cp_completed_prefix (after_event (journal_event c t ad now l r)) = cp_completed_prefix c"
  "cp_remaining_suffix (after_event (journal_event c t ad now l r)) = cp_remaining_suffix c"
  by (simp_all add: after_event_def)

text \<open>A command's event appended to a run that goes on: the run loads again with it at the end.\<close>

lemma command_loads:
  assumes load: "load_locked svc run_id user s = Ok locked"
    and own: "cp_root_task_id (lr_checkpoint locked) = run_id"
    and later: "je_created_at (last (lr_events locked)) \<le> sv_now svc"
    and going: "cp_state (lr_checkpoint locked) \<in> {Run_ACTIVE, Run_APPROVAL_REQUIRED, Run_PROBE_BLOCKED}"
    and c: "same_run c (lr_checkpoint locked)" "checkpoint_valid (lr_checkpoint locked) \<Longrightarrow> checkpoint_valid c"
      "validate_transition_checkpoint t c = Ok ()"
    and journal: "load_events run_id u = load_events run_id s"
    and admissions: "governed_task_admissions u = governed_task_admissions s"
    and root: "store_get_root run_id (uc_org_id user) u = Some r" "ts_application r = ts_application (lr_root locked)"
    and run: "append_command svc user locked c t key u = (Ok x, s')"
  obtains e where "e = journal_event c t (lr_authority_digests locked) (sv_now svc) None (Some key)"
    "s' = u\<lparr>governance_audit_events := governance_audit_events u @ [event_model e (uc_org_id user)]\<rparr>"
    "load_locked svc run_id user s' = Ok (extended_run locked r e)"
    "verify_checkpoint_native_state c t (uc_org_id user) u = Ok ()"
    "native_state (uc_org_id user) s' = native_state (uc_org_id user) u"
proof -
  note es = loaded_events(1,2) [OF load]
  note replayed = replayed_checkpoint [OF es]
  from append_command_cases [OF load own c(1) c(2) [OF replayed(4)] journal run]
  obtain e where e: "e = journal_event c t (lr_authority_digests locked) (sv_now svc) None (Some key)"
    and s': "s' = u\<lparr>governance_audit_events := governance_audit_events u @ [event_model e (uc_org_id user)]\<rparr>"
    and verified: "verify_checkpoint_native_state c t (uc_org_id user) u = Ok ()"
    and events: "load_events run_id s' = Ok (lr_events locked @ [e])"
    and replays: "event_follows (last (lr_events locked)) e \<Longrightarrow> validate_transition_checkpoint t c = Ok () \<Longrightarrow>
       replay_plan_journal (lr_events locked @ [e]) = Ok (after_event e)" by blast
  have "\<not> terminal_transition (je_transition (last (lr_events locked)))"
    by (rule state_not_terminal [OF replayed(3)]) (use going replayed(2) in simp)
  then have "event_follows (last (lr_events locked)) e"
    unfolding e using c(1)
    by (intro event_follows_checkpoint replayed(3) later) (simp_all add: same_run_def flip: replayed(2))
  from replays [OF this c(3)] have replay: "replay_plan_journal (lr_events locked @ [e]) = Ok (after_event e)" .
  have root': "store_get_root run_id (uc_org_id user) s' = Some r"
    using root(1) by (subst root_same_tasks [of s' u]) (simp_all add: s')
  have "load_locked svc run_id user s' = Ok (extended_run locked r e)"
    by (rule load_extended [OF load root' root(2) _ events replay]) (simp add: s' admissions)
  moreover have "native_state (uc_org_id user) s' = native_state (uc_org_id user) u"
    by (simp add: fun_eq_iff s' native_state_def native_task_row_def native_step_row_def)
  ultimately show thesis using that e s' verified by blast
qed

text \<open>
  A rejection or cancellation appended to the run: the append has checked that the active step's task
  and step are cancelled.
\<close>

lemma ended_run_loads:
  assumes load: "load_locked svc run_id user s = Ok locked"
    and own: "cp_root_task_id (lr_checkpoint locked) = run_id"
    and later: "je_created_at (last (lr_events locked)) \<le> sv_now svc"
    and active: "cp_active_step (lr_checkpoint locked) = Some a"
    and going: "cp_state (lr_checkpoint locked) \<in> {Run_ACTIVE, Run_APPROVAL_REQUIRED, Run_PROBE_BLOCKED}"
    and kind: "(st, t) \<in> {(Run_REJECTED, Tr_APPROVAL_REJECTED), (Run_CANCELLED, Tr_RUN_CANCELLED)}"
    and same: "load_events run_id u = load_events run_id s" "governed_task_admissions u = governed_task_admissions s"
    and root: "store_get_root run_id (uc_org_id user) u = Some r" "ts_application r = ts_application (lr_root locked)"
    and run: "append_command svc user locked (ended_checkpoint st (lr_checkpoint locked)) t key u = (Ok x, s')"
  obtains e where "s' = u\<lparr>governance_audit_events := governance_audit_events u @ [event_model e (uc_org_id user)]\<rparr>"
    "load_locked svc run_id user s' = Ok (extended_run locked r e)" "je_transition e = t"
    "cp_state (after_event e) = st" "cp_active_step (after_event e) = Some (a\<lparr>sr_state := Ref_FAILED\<rparr>)"
    "cp_root_task_id (after_event e) = run_id"
    "native_state (uc_org_id user) s' a = (Some Task_canceled, Some Step_canceled)"
proof -
  let ?d = "ended_checkpoint st (lr_checkpoint locked)"
  have suits: "validate_transition_checkpoint t ?d = Ok ()"
    using kind by (auto simp: validate_transition_checkpoint_def ended_checkpoint_parts)
  from command_loads [OF load own later going ended_checkpoint_parts(1) ended_checkpoint_parts(3) suits same root run]
  obtain e where e: "e = journal_event ?d t (lr_authority_digests locked) (sv_now svc) None (Some key)"
    "s' = u\<lparr>governance_audit_events := governance_audit_events u @ [event_model e (uc_org_id user)]\<rparr>"
    "load_locked svc run_id user s' = Ok (extended_run locked r e)"
    and verified: "verify_checkpoint_native_state ?d t (uc_org_id user) u = Ok ()"
    and native: "native_state (uc_org_id user) s' = native_state (uc_org_id user) u" by metis
  have "native_state (uc_org_id user) u a = (Some Task_canceled, Some Step_canceled)"
    using verified kind active
    by (auto simp: verify_checkpoint_native_state_def res_bind_ok active_ok active_matches_def active_states_def
        ended_checkpoint_def)
  then show thesis
    using that e native active own by (simp add: journal_event_after ended_checkpoint_def)
qed

lemma lift_simps [simp]:
  "lift_read f s = (f s, s)" "lift_res r s = (r, s)" "demand b e s = (if b then Ok () else Inl e, s)"
  by (simp_all add: lift_read_def lift_res_def demand_def)

lemma prog_bind_read [simp]:
  "prog_bind (lift_read f) g s = (case f s of Inl e \<Rightarrow> (Inl e, s) | Inr x \<Rightarrow> g x s)"
  "prog_bind (lift_res r) g s = (case r of Inl e \<Rightarrow> (Inl e, s) | Inr x \<Rightarrow> g x s)"
  by (simp_all add: prog_bind_def)

lemma catching_ok: "catching f m s = (Inr x, t) \<longleftrightarrow> m s = (Inr x, t)"
  by (auto simp: catching_def split: prod.splits sum.splits)

text \<open>Cancelling the native pair of the active step.\<close>

lemma cancel_active_cases:
  assumes "cancel_active_pair c org s = (Ok x, t)"
  obtains a tk ss where "cp_active_step c = Some a" "native_task_row (sr_native_task_id a) org s = Some tk"
    "t = s\<lparr>tasks := write_row tk_task_id (tk\<lparr>tk_status := Task_canceled\<rparr>) (tasks s), steps := ss\<rparr>"
proof -
  from assms obtain a where a: "cp_active_step c = Some a"
    "cancel_native_pair (sr_native_task_id a) (sr_native_step_id a) org s = (Ok True, t)"
    unfolding cancel_active_pair_def
    by (auto simp: prog_bind_ok catching_ok split: option.splits if_splits)
  then show thesis using that unfolding cancel_native_pair_def by (auto split: option.splits)
qed

text \<open>A projection that offers a decision comes from the active step's rows.\<close>

lemma offered_decision:
  assumes "project_locked svc locked s = Ok p" and "Act_APPROVE \<in> set (pj_legal_actions p) \<or> Act_REJECT \<in> set (pj_legal_actions p)"
  obtains a pending approval st acts r where "cp_active_step (lr_checkpoint locked) = Some a"
    "cp_state (lr_checkpoint locked) = Run_APPROVAL_REQUIRED" "pj_state p = View_AWAITING_APPROVAL"
    "get_pause_signal (cp_root_task_id (lr_checkpoint locked)) (ts_organization_id (lr_root locked)) s = Ok None"
    "pending_approval (lr_checkpoint locked) s = Ok (Some (pending, approval))" "pn_status pending = PENDING"
    "task_attempts (sr_native_task_id a) s = []" "task_permits (sr_native_task_id a) s = []"
    "view_of svc locked st acts r None = Ok p"
    "native_state (ts_organization_id (lr_root locked)) s a = (Some Task_pending_approval, Some Step_pending_approval)"
  using assms(1)
proof (cases rule: project_locked_cases)
  case (paused z)
  have "pause_to_action x \<notin> {Act_APPROVE, Act_REJECT}" for x by (cases x) simp_all
  then have "set (pause_legal_actions (pz_signal z)) \<inter> {Act_APPROVE, Act_REJECT} = {}"
    unfolding pause_legal_actions_def set_map by blast
  with paused assms(2) show ?thesis by auto
next
  case (active a pair linked)
  from project_active_view [OF active(5)] obtain st acts r where view: "view_of svc locked st acts r None = Ok p" by blast
  from active(5) show ?thesis
    by (cases rule: project_active_cases)
      (use assms(2) active view native_in_state [OF active(3)] that in auto)
qed (use assms(2) in auto)

lemma effect_free_same:
  "execution_attempts t = execution_attempts s \<Longrightarrow> execution_permits t = execution_permits s \<Longrightarrow>
     task_attempts task t = task_attempts task s \<and> task_permits task t = task_permits task s \<and>
     effect_free task t = effect_free task s"
  by (simp add: effect_free_def task_attempts_def task_permits_def)

text \<open>What an ended run shows.\<close>

lemma project_ended:
  assumes quiet: "get_pause_signal (cp_root_task_id (lr_checkpoint l)) (ts_organization_id (lr_root l)) t = Ok None"
    and active: "cp_active_step (lr_checkpoint l) = Some a"
    and native: "native_state (ts_organization_id (lr_root l)) t a = (Some Task_canceled, Some Step_canceled)"
    and free: "effect_free (sr_native_task_id a) t" and linked: "pending_approval (lr_checkpoint l) t = Ok linked"
    and view: "view_of svc l0 st0 acts0 reason0 g0 = Ok p0" "lr_bundle l = lr_bundle l0"
    and ended: "st = View_CANCELLED \<and> cp_state (lr_checkpoint l) = Run_CANCELLED \<and>
         je_transition (last (lr_events l)) = Tr_RUN_CANCELLED \<or>
       st = View_REJECTED \<and> cp_state (lr_checkpoint l) = Run_REJECTED \<and>
         je_transition (last (lr_events l)) = Tr_APPROVAL_REJECTED \<and>
         (\<exists>pending approval. linked = Some (pending, approval) \<and> pn_status pending = REJECTED \<and>
            ar_status approval = Approval_REJECTED)"
  shows "\<exists>p. project_locked svc l t = Ok p \<and> pj_state p = st \<and> pj_legal_actions p = [] \<and> pj_run_id p = cp_root_task_id (lr_checkpoint l)"
proof -
  let ?org = "ts_organization_id (lr_root l)"
  have "native_consistent ?org t a" by (simp add: native_consistent_def native)
  then obtain pair where pair: "item_pair ?org a t = Ok pair" unfolding item_pair_ok by blast
  have canceled: "native_in pair Task_canceled Step_canceled"
    using native_in_state [OF pair] native by simp
  obtain p where p: "view_of svc l st [] (Some (if st = View_REJECTED then ''APPROVAL_REJECTED'' else ''RUN_CANCELLED'')) None = Ok p"
    by (rule view_of_extended [OF view]) (simp add: active)
  have "project_locked svc l t = project_active svc l a pair linked t"
  proof -
    have "cp_state (lr_checkpoint l) \<noteq> Run_COMPLETED" using ended by auto
    then show ?thesis by (simp add: project_locked_def Let_def translate_def quiet active pair linked)
  qed
  also have "\<dots> = Ok p"
    using ended
  proof (elim disjE conjE exE)
    assume "st = View_CANCELLED" "cp_state (lr_checkpoint l) = Run_CANCELLED"
      "je_transition (last (lr_events l)) = Tr_RUN_CANCELLED"
    with p show ?thesis by (simp add: project_active_def Let_def canceled free)
  next
    fix pending approval
    assume "st = View_REJECTED" "cp_state (lr_checkpoint l) = Run_REJECTED"
      "je_transition (last (lr_events l)) = Tr_APPROVAL_REJECTED" "linked = Some (pending, approval)"
      "pn_status pending = REJECTED" "ar_status approval = Approval_REJECTED"
    with p show ?thesis by (simp add: project_active_def Let_def canceled free)
  qed
  finally show ?thesis using view_of_ok [OF p] by blast
qed

text \<open>The effects of a rejection that went through.\<close>

lemma reject_tx_cases:
  assumes load: "load_locked svc run_id user s = Ok locked" and shown: "project_locked svc locked s = Ok p0"
    and own: "cp_root_task_id (lr_checkpoint locked) = run_id"
    and later: "je_created_at (last (lr_events locked)) \<le> sv_now svc" and keys: "pending_keys s"
    and run: "reject_tx svc run_id req user s = (Ok answer, t)"
  obtains (before) "pj_state p0 = View_REJECTED" "answer = Some p0" "t = s"
    | (now) a r e pending approval p where "pj_state p0 = View_AWAITING_APPROVAL" "answer = None"
      "cp_active_step (lr_checkpoint locked) = Some a"
      "load_locked svc run_id user t = Ok (extended_run locked r e)" "je_transition e = Tr_APPROVAL_REJECTED"
      "project_locked svc (extended_run locked r e) t = Ok p" "pj_state p = View_REJECTED" "pj_legal_actions p = []"
      "native_state (uc_org_id user) t a = (Some Task_canceled, Some Step_canceled)"
      "effect_free (sr_native_task_id a) t"
      "pending_approval (lr_checkpoint locked) t = Ok (Some (pending, approval))" "pn_status pending = REJECTED"
      "ar_status approval = Approval_REJECTED" "ar_approver_user_id approval = Some (uc_user_id user)"
      "ar_requester_user_id approval \<noteq> Some (uc_user_id user)"
proof (cases "pj_state p0 = View_REJECTED")
  case True
  with run load shown before show thesis by (auto simp: reject_tx_def)
next
  case False
  let ?c = "lr_checkpoint locked" and ?org = "uc_org_id user"
  have org: "ts_organization_id (lr_root locked) = ?org"
    using load by (auto simp: load_locked_ok dest: root_organization)
  from run load shown False have offered: "Act_REJECT \<in> set (pj_legal_actions p0)"
    by (auto simp: reject_tx_def split: if_splits)
  from offered_decision [OF shown] offered obtain a pending approval st acts reason where
      a: "cp_active_step ?c = Some a" and state: "cp_state ?c = Run_APPROVAL_REQUIRED"
      and awaiting: "pj_state p0 = View_AWAITING_APPROVAL"
      and pause: "get_pause_signal (cp_root_task_id ?c) ?org s = Ok None"
      and linked: "pending_approval ?c s = Ok (Some (pending, approval))"
      and idle: "task_attempts (sr_native_task_id a) s = []" "task_permits (sr_native_task_id a) s = []"
      and view: "view_of svc locked st acts reason None = Ok p0"
    unfolding org by metis
  from run [unfolded reject_tx_def prog_bind_read load shown sum.case if_not_P [OF False]] offered linked
  obtain d u1 u2 x where
      decided: "on_db (decide_approval_request (ar_approval_id approval) ?org (uc_user_id user) False
          (safe_reason (cm_reason req)) (sv_now svc)) s = (Ok d, u1)"
      and cancelled: "cancel_active_pair ?c ?org u1 = (Ok (), u2)"
      and appended: "append_command svc user locked (ended_checkpoint Run_REJECTED ?c) Tr_APPROVAL_REJECTED
          (command_key run_id ''reject'' req user locked) u2 = (Ok x, t)"
      and answer: "answer = None"
    by (auto simp: prog_bind_ok)
  from on_db_cases [OF decided] obtain w where
      w: "decide_approval_request (ar_approval_id approval) ?org (uc_user_id user) False
          (safe_reason (cm_reason req)) (sv_now svc) (db.truncate s) = (Ok d, w)"
      and u1: "u1 = db.extend w (db.more s)" by blast
  note rows = linked_rows [OF linked]
  obtain ap where "find_approval (ar_approval_id approval) (db.truncate s) = Some ap"
      "ar_requester_user_id ap \<noteq> Some (uc_user_id user)"
      "d = decided_request False (uc_user_id user) (safe_reason (cm_reason req)) (sv_now svc) ap"
      and wd: "w = write_pending (decided_pending False pending) (write_approval d (db.truncate s))"
    using decide_linked [OF w] keys rows(1,2) by (auto simp: pending_keys_def)
  then have d: "d = decided_request False (uc_user_id user) (safe_reason (cm_reason req)) (sv_now svc) approval"
    and other: "ar_requester_user_id approval \<noteq> Some (uc_user_id user)"
    using rows(3) by (auto simp: find_approval_def)
  have tables: "pending_actions u1 = write_row pn_pending_action_id (decided_pending False pending) (pending_actions s)"
    "approval_requests u1 = write_row ar_approval_id d (approval_requests s)" "tasks u1 = tasks s"
    "execution_attempts u1 = execution_attempts s" "execution_permits u1 = execution_permits s"
    "governance_audit_events u1 = governance_audit_events s" "governed_task_admissions u1 = governed_task_admissions s"
    by (simp_all add: u1 wd write_pending_def write_approval_def)
  from cancel_active_cases [OF cancelled] obtain b tk ss where
      "cp_active_step ?c = Some b" and tk: "native_task_row (sr_native_task_id b) ?org u1 = Some tk"
      and u2: "u2 = u1\<lparr>tasks := write_row tk_task_id (tk\<lparr>tk_status := Task_canceled\<rparr>) (tasks u1), steps := ss\<rparr>" by blast
  obtain r where r: "store_get_root run_id ?org u2 = Some r" "ts_application r = ts_application (lr_root locked)"
  proof -
    have "store_get_root run_id ?org u1 = Some (lr_root locked)"
      using load root_same_tasks [OF tables(3)] by (auto simp: load_locked_ok)
    from root_after_status [OF tk _ this, of u2] that show thesis by (auto simp: u2)
  qed
  have same: "load_events run_id u2 = load_events run_id s" "governed_task_admissions u2 = governed_task_admissions s"
    by (rule load_events_same) (simp_all add: u2 tables)
  from ended_run_loads [OF load own later a _ _ same r appended] state obtain e where
      t: "t = u2\<lparr>governance_audit_events := governance_audit_events u2 @ [event_model e ?org]\<rparr>"
      and loaded: "load_locked svc run_id user t = Ok (extended_run locked r e)"
      and e: "je_transition e = Tr_APPROVAL_REJECTED" "cp_state (after_event e) = Run_REJECTED"
        "cp_active_step (after_event e) = Some (a\<lparr>sr_state := Ref_FAILED\<rparr>)" "cp_root_task_id (after_event e) = run_id"
      and native: "native_state ?org t a = (Some Task_canceled, Some Step_canceled)" by auto
  have linked': "pending_approval c' t = Ok (Some (decided_pending False pending, d))"
    if "map_option (\<lambda>r. (sr_native_task_id r, sr_native_step_id r)) (cp_active_step c') =
      Some (sr_native_task_id a, sr_native_step_id a)" for c'
    using that
    by (intro pending_approval_written [OF linked])
      (use keys in \<open>simp_all add: pending_keys_def a t u2 tables d decided_request_def\<close>)
  have free: "effect_free (sr_native_task_id a) t"
    using idle effect_free_same [of t s "sr_native_task_id a"] by (simp add: t u2 tables effect_free_def)
  have org': "ts_organization_id r = ?org" using r(1) by (rule root_organization)
  have quiet: "get_pause_signal run_id ?org t = Ok None"
    unfolding t pause_signal_after_event
    using pause own pause_signal_same_events [of u2 s run_id ?org] by (simp add: u2 tables)
  let ?l = "extended_run locked r e"
  have "\<exists>p. project_locked svc ?l t = Ok p \<and> pj_state p = View_REJECTED \<and> pj_legal_actions p = [] \<and>
      pj_run_id p = cp_root_task_id (lr_checkpoint ?l)"
    by (rule project_ended [where a = "a\<lparr>sr_state := Ref_FAILED\<rparr>", OF _ _ _ _ linked' view])
      (simp_all add: e org' quiet native free d decided_request_def)
  then obtain p where p: "project_locked svc ?l t = Ok p" "pj_state p = View_REJECTED" "pj_legal_actions p = []" by blast
  show thesis
    by (rule now [OF awaiting answer a loaded e(1) p native free linked'])
      (simp_all add: a d decided_request_def other)
qed

text \<open>
  C34. Rejecting a run either changes nothing or ends it completely. When it
  returns, the run shows as rejected and offers no action; if it was not rejected before, it was
  awaiting approval, its request and pending action are now rejected by a user who did not ask for
  them, the native task and step are cancelled before any effect, and one rejection event was added
  to the journal, which still replays.
\<close>

theorem rejection_all_or_nothing:
  assumes load: "load_locked svc run_id user s = Ok locked" and shown: "project_locked svc locked s = Ok p0"
    and own: "cp_root_task_id (lr_checkpoint locked) = run_id"
    and later: "je_created_at (last (lr_events locked)) \<le> sv_now svc" and keys: "pending_keys s"
  shows "case reject_run svc run_id req user s of
      (Inl e, t) \<Rightarrow> t = s
    | (Inr p, t) \<Rightarrow> pj_state p = View_REJECTED \<and>
        (pj_state p0 = View_REJECTED \<and> p = p0 \<and> t = s \<or>
         (\<exists>a pending approval e. pj_state p0 = View_AWAITING_APPROVAL \<and> pj_legal_actions p = [] \<and>
            cp_active_step (lr_checkpoint locked) = Some a \<and>
            native_state (uc_org_id user) t a = (Some Task_canceled, Some Step_canceled) \<and>
            effect_free (sr_native_task_id a) t \<and>
            pending_approval (lr_checkpoint locked) t = Ok (Some (pending, approval)) \<and>
            pn_status pending = REJECTED \<and> ar_status approval = Approval_REJECTED \<and>
            ar_approver_user_id approval = Some (uc_user_id user) \<and>
            ar_requester_user_id approval \<noteq> Some (uc_user_id user) \<and>
            load_events run_id t = Ok (lr_events locked @ [e]) \<and> je_transition e = Tr_APPROVAL_REJECTED \<and>
            replay_plan_journal (lr_events locked @ [e]) = Ok (after_event e)))"
proof (cases "is_any_approver user")
  case False
  then show ?thesis by (simp add: reject_run_def require_approver_user_def)
next
  case approver: True
  obtain answer t where run: "transaction (reject_tx svc run_id req user) s = (answer, t)" by fastforce
  show ?thesis
  proof (cases answer)
    case (Inl e)
    with run have "t = s" by (auto simp: transaction_raise)
    with approver run Inl show ?thesis by (simp add: reject_run_def require_approver_user_def prog_bind_def)
  next
    case (Inr x)
    with run have tx: "reject_tx svc run_id req user s = (Ok x, t)" by (simp add: transaction_ok)
    have result: "reject_run svc run_id req user s = answer_or_get svc run_id user x t"
      using approver run Inr by (simp add: reject_run_def require_approver_user_def prog_bind_def)
    from load shown own later keys tx show ?thesis
    proof (cases rule: reject_tx_cases)
      case before
      then show ?thesis unfolding result by (simp add: answer_or_get_def)
    next
      case (now a r e pending approval p)
      then have "get_run svc run_id user t = Ok p" by (simp add: get_run_def)
      then show ?thesis unfolding result using now loaded_events [OF now(4)] by (simp add: answer_or_get_def)
    qed
  qed
qed

section \<open>Cancelling\<close>

lemma earlier_event_total: "earlier_event a b \<or> earlier_event b a"
  using str_le_total [of "ga_event_id a" "ga_event_id b"] by (auto simp: earlier_event_def)

lemma earlier_event_trans: "earlier_event a b \<Longrightarrow> earlier_event b c \<Longrightarrow> earlier_event a c"
  by (auto simp: earlier_event_def intro: str_le_trans)

lemma current_pause_append:
  "current_pause c (xs @ ys) = res_bind (current_pause c xs) (\<lambda>d. current_pause d ys)"
proof (induction xs arbitrary: c)
  case (Cons r xs)
  show ?case by (simp add: Cons.IH split: option.split)
qed simp

lemma current_pause_forget: "current_pause c rows = Ok None \<Longrightarrow> current_pause None rows = Ok None"
proof (induction rows arbitrary: c)
  case (Cons r rows)
  from Cons.prems show ?case
    by (auto split: if_splits option.splits intro: Cons.IH)
qed simp

text \<open>One more resolution cannot make a pause current.\<close>

lemma resolution_keeps_quiet:
  assumes quiet: "get_pause_signal run org s = Ok None" and cleared: "clear_pause_signal run org s = (x, t)"
  shows "get_pause_signal run org t = Ok None"
proof (cases "t = s")
  case False
  with cleared obtain pause where t: "t = s\<lparr>governance_audit_events := governance_audit_events s @ [resolution_row run org pause]\<rparr>"
    and fresh: "ga_event_id (resolution_row run org pause) \<notin> ga_event_id ` set (governance_audit_events s)"
    by (auto simp: clear_pause_signal_def add_audit_event_def Let_def split: list.splits if_splits)
  let ?r = "resolution_row run org pause" and ?both = "[pause_type, resolution_type]"
  let ?rows = "run_events run org ?both s"
  have rows: "run_events run org ?both t = ?rows @ [?r]" unfolding t run_events_append by simp
  have new: "?r \<notin> set ?rows" using fresh by (auto simp: run_events_def)
  have "filter (\<lambda>x. x \<noteq> ?r) (sort_by earlier_event (?rows @ [?r])) =
      sort_by earlier_event (filter (\<lambda>x. x \<noteq> ?r) (?rows @ [?r]))"
    by (rule filter_sort_by [OF earlier_event_total]) (rule earlier_event_trans)
  also have "filter (\<lambda>x. x \<noteq> ?r) (?rows @ [?r]) = ?rows" using new by (auto simp: filter_id_conv)
  finally have rest: "filter (\<lambda>x. x \<noteq> ?r) (sort_by earlier_event (?rows @ [?r])) = sort_by earlier_event ?rows" .
  have contents: "mset (sort_by earlier_event (?rows @ [?r])) = mset ?rows + {#?r#}" by (simp add: mset_sort_by)
  then have "?r \<in># mset (sort_by earlier_event (?rows @ [?r]))" by simp
  then have "?r \<in> set (sort_by earlier_event (?rows @ [?r]))" by (simp only: set_mset_mset)
  then obtain ys zs where split: "sort_by earlier_event (?rows @ [?r]) = ys @ ?r # zs" by (meson split_list)
  have "?r \<notin># mset (ys @ zs)"
  proof -
    have "mset (ys @ zs) = mset ?rows" using contents split by simp
    with new show ?thesis by (metis set_mset_mset)
  qed
  then have "filter (\<lambda>x. x \<noteq> ?r) ys = ys" "filter (\<lambda>x. x \<noteq> ?r) zs = zs" by (auto simp: filter_id_conv)
  then have "filter (\<lambda>x. x \<noteq> ?r) (ys @ ?r # zs) = ys @ zs" by simp
  with rest split have sorted: "sort_by earlier_event ?rows = ys @ zs" by simp
  have old: "current_pause None (ys @ zs) = Ok None"
    using quiet by (auto simp: get_pause_signal_def sorted res_bind_ok split: option.splits)
  then obtain d where d: "current_pause None ys = Ok d" "current_pause d zs = Ok None"
    by (auto simp: current_pause_append res_bind_ok)
  have "current_pause d (?r # zs) = Ok None"
    using d(2) current_pause_forget [OF d(2)] by (cases d) simp_all
  then have "current_pause None (ys @ ?r # zs) = Ok None" by (simp add: current_pause_append d(1))
  then show ?thesis by (simp add: get_pause_signal_def rows split)
qed (use quiet in simp)

lemma clear_pause_cases:
  assumes "clear_pause_signal run org s = (x, t)"
  obtains rs where "t = s\<lparr>governance_audit_events := governance_audit_events s @ rs\<rparr>"
    "load_events rid t = load_events rid s"
proof -
  have journal: "\<not> is_plan_payload (ga_payload (resolution_row run org pause))" for pause
    by (simp add: is_plan_payload_def resolution_row_def resolution_payload_def)
  from assms have "t = s \<or> (\<exists>pause. t = s\<lparr>governance_audit_events := governance_audit_events s @ [resolution_row run org pause]\<rparr>)"
    by (auto simp: clear_pause_signal_def add_audit_event_def Let_def split: list.splits if_splits)
  then show thesis
  proof
    assume "t = s"
    with that [of "[]"] show thesis by simp
  next
    assume "\<exists>pause. t = s\<lparr>governance_audit_events := governance_audit_events s @ [resolution_row run org pause]\<rparr>"
    then obtain pause where t: "t = s\<lparr>governance_audit_events := governance_audit_events s @ [resolution_row run org pause]\<rparr>" by blast
    then have "load_events rid t = load_events rid s" by (simp add: load_events_def journal_rows_def journal)
    with t that show thesis by blast
  qed
qed

lemma offered_cancel:
  assumes "project_locked svc locked s = Ok p" and "Act_CANCEL \<in> set (pj_legal_actions p)" and "pj_pause_signal p = None"
  obtains a pair linked st acts r where "cp_active_step (lr_checkpoint locked) = Some a"
    "cp_state (lr_checkpoint locked) = Run_ACTIVE" "item_pair (ts_organization_id (lr_root locked)) a s = Ok pair"
    "get_pause_signal (cp_root_task_id (lr_checkpoint locked)) (ts_organization_id (lr_root locked)) s = Ok None"
    "pending_approval (lr_checkpoint locked) s = Ok linked" "view_of svc locked st acts r None = Ok p"
    "pj_state p = View_PLANNING \<and> pair = (None, None) \<or>
     pj_state p = View_RUNNING \<and> effect_free (sr_native_task_id a) s"
  using assms(1)
proof (cases rule: project_locked_cases)
  case (active a pair linked)
  from project_active_view [OF active(5)] obtain st acts r where view: "view_of svc locked st acts r None = Ok p" by blast
  from active(5) show ?thesis
    by (cases rule: project_active_cases) (use assms(2) active view that in auto)
qed (use assms(2,3) in auto)

lemma pending_approval_same:
  assumes "pending_actions t = pending_actions s" and "approval_requests t = approval_requests s"
    and "map_option (\<lambda>r. (sr_native_task_id r, sr_native_step_id r)) (cp_active_step c') =
      map_option (\<lambda>r. (sr_native_task_id r, sr_native_step_id r)) (cp_active_step c)"
  shows "pending_approval c' t = pending_approval c s"
  unfolding pending_approval_def assms(1,2)
  using assms(3) by (cases "cp_active_step c"; cases "cp_active_step c'") simp_all

text \<open>
  A run that is still planned has no native rows: its cancellation is offered and always refused.
\<close>

lemma planning_cancel_fails:
  assumes load: "load_locked svc run_id user s = Ok locked" and shown: "project_locked svc locked s = Ok p"
    and planning: "pj_state p = View_PLANNING" "Act_CANCEL \<in> set (pj_legal_actions p)" "pj_pause_signal p = None"
    and operator: "is_any_operator user"
  shows "cancel_run svc run_id req user s = (Raise (AgentRunError 409) ''STATE_CONFLICT'', s) \<or>
     cancel_run svc run_id req user s = (Raise (AgentRunError 409) ''CANCEL_EFFECT_BOUNDARY_CROSSED'', s)"
proof -
  obtain a pair where a: "cp_active_step (lr_checkpoint locked) = Some a"
      and pair: "item_pair (ts_organization_id (lr_root locked)) a s = Ok pair"
      and state: "pj_state p = View_PLANNING \<and> pair = (None, None) \<or> pj_state p = View_RUNNING \<and> effect_free (sr_native_task_id a) s"
    using shown planning(2,3) by (rule offered_cancel)
  from pair state planning(1) have "item_pair (uc_org_id user) a s = Ok (None, None)"
    using loaded_events(3) [OF load] by simp
  then have "native_task_row (sr_native_task_id a) (uc_org_id user) s = None" by (auto simp: item_pair_ok)
  then have "cancel_active_pair (lr_checkpoint locked) (uc_org_id user) s = (state_conflict, s)"
    by (simp add: cancel_active_pair_def a cancel_native_pair_def catching_def prog_bind_def)
  then show ?thesis
    using load shown planning operator
    by (simp add: cancel_run_def require_operator_user_def cancel_tx_def transaction_def prog_bind_def)
qed

lemma cancel_tx_cases:
  assumes load: "load_locked svc run_id user s = Ok locked" and shown: "project_locked svc locked s = Ok p0"
    and own: "cp_root_task_id (lr_checkpoint locked) = run_id" and unpaused: "pj_pause_signal p0 = None"
    and later: "je_created_at (last (lr_events locked)) \<le> sv_now svc"
    and run: "cancel_tx svc run_id req user s = (Ok answer, t)"
  obtains (before) "pj_state p0 = View_CANCELLED" "answer = Some p0" "t = s"
    | (now) a r e p where "pj_state p0 = View_RUNNING" "answer = None" "cp_active_step (lr_checkpoint locked) = Some a"
      "load_locked svc run_id user t = Ok (extended_run locked r e)" "je_transition e = Tr_RUN_CANCELLED"
      "project_locked svc (extended_run locked r e) t = Ok p" "pj_state p = View_CANCELLED" "pj_legal_actions p = []"
      "native_state (uc_org_id user) t a = (Some Task_canceled, Some Step_canceled)"
      "effect_free (sr_native_task_id a) t"
proof (cases "pj_state p0 = View_CANCELLED")
  case True
  with run load shown before show thesis by (auto simp: cancel_tx_def)
next
  case False
  let ?c = "lr_checkpoint locked" and ?org = "uc_org_id user"
  note org = loaded_events(3) [OF load]
  from run load shown False have offered: "Act_CANCEL \<in> set (pj_legal_actions p0)"
    by (auto simp: cancel_tx_def split: if_splits)
  obtain a pair linked st acts reason where
      a: "cp_active_step ?c = Some a" and state: "cp_state ?c = Run_ACTIVE"
      and pair: "item_pair (ts_organization_id (lr_root locked)) a s = Ok pair"
      and quiet: "get_pause_signal (cp_root_task_id ?c) (ts_organization_id (lr_root locked)) s = Ok None"
      and linked: "pending_approval ?c s = Ok linked" and view: "view_of svc locked st acts reason None = Ok p0"
      and kind: "pj_state p0 = View_PLANNING \<and> pair = (None, None) \<or>
        pj_state p0 = View_RUNNING \<and> effect_free (sr_native_task_id a) s"
    using shown offered unpaused by (rule offered_cancel)
  from run [unfolded cancel_tx_def prog_bind_read load shown sum.case if_not_P [OF False]] offered
  obtain u1 u2 x where free: "\<not> effect_may_have_started ?c s"
      and cancelled: "cancel_active_pair ?c ?org s = (Ok (), u1)"
      and cleared: "clear_pause_signal run_id ?org u1 = (Ok (), u2)"
      and appended: "append_command svc user locked (ended_checkpoint Run_CANCELLED ?c) Tr_RUN_CANCELLED
          (command_key run_id ''cancel'' req user locked) u2 = (Ok x, t)"
      and answer: "answer = None"
    by (auto simp: prog_bind_ok split: if_splits)
  from cancel_active_cases [OF cancelled] a obtain tk ss where
      tk: "native_task_row (sr_native_task_id a) ?org s = Some tk"
      and u1: "u1 = s\<lparr>tasks := write_row tk_task_id (tk\<lparr>tk_status := Task_canceled\<rparr>) (tasks s), steps := ss\<rparr>"
    by (metis option.inject)
  have running: "pj_state p0 = View_RUNNING" using kind pair tk by (auto simp: item_pair_ok org)
  from clear_pause_cases [OF cleared] obtain rs where
      u2: "u2 = u1\<lparr>governance_audit_events := governance_audit_events u1 @ rs\<rparr>"
      and journal: "load_events run_id u2 = load_events run_id u1" by metis
  obtain r where r: "store_get_root run_id ?org u2 = Some r" "ts_application r = ts_application (lr_root locked)"
  proof -
    have "store_get_root run_id ?org s = Some (lr_root locked)" using load by (auto simp: load_locked_ok)
    from root_after_status [OF tk _ this, of u2] that show thesis by (auto simp: u1 u2)
  qed
  have "load_events run_id u1 = load_events run_id s" by (rule load_events_same) (simp add: u1)
  then have same: "load_events run_id u2 = load_events run_id s" "governed_task_admissions u2 = governed_task_admissions s"
    using journal by (simp_all add: u1 u2)
  from ended_run_loads [OF load own later a _ _ same r appended] state obtain e where
      t: "t = u2\<lparr>governance_audit_events := governance_audit_events u2 @ [event_model e ?org]\<rparr>"
      and loaded: "load_locked svc run_id user t = Ok (extended_run locked r e)"
      and e: "je_transition e = Tr_RUN_CANCELLED" "cp_state (after_event e) = Run_CANCELLED"
        "cp_active_step (after_event e) = Some (a\<lparr>sr_state := Ref_FAILED\<rparr>)" "cp_root_task_id (after_event e) = run_id"
      and native: "native_state ?org t a = (Some Task_canceled, Some Step_canceled)" by auto
  have linked': "pending_approval (after_event e) t = Ok linked"
    using pending_approval_same [of t s "after_event e" ?c] linked by (simp add: e a t u1 u2)
  have free': "effect_free (sr_native_task_id a) t"
    using free effect_free_same [of t s "sr_native_task_id a"] by (simp add: t u1 u2 effect_may_have_started_def a)
  have "get_pause_signal run_id ?org u1 = Ok None"
    using quiet own pause_signal_same_events [of u1 s run_id ?org] by (simp add: u1 org)
  from resolution_keeps_quiet [OF this cleared]
  have quiet': "get_pause_signal run_id ?org t = Ok None" unfolding t pause_signal_after_event .
  let ?l = "extended_run locked r e"
  have "\<exists>p. project_locked svc ?l t = Ok p \<and> pj_state p = View_CANCELLED \<and> pj_legal_actions p = [] \<and>
      pj_run_id p = cp_root_task_id (lr_checkpoint ?l)"
    by (rule project_ended [where a = "a\<lparr>sr_state := Ref_FAILED\<rparr>" and linked = linked, OF _ _ _ _ _ view])
      (simp_all add: e root_organization [OF r(1)] quiet' native free' linked')
  then obtain p where "project_locked svc ?l t = Ok p" "pj_state p = View_CANCELLED" "pj_legal_actions p = []" by blast
  with now [OF running answer a loaded e(1) _ _ _ native free'] show thesis by blast
qed

text \<open>
  Cancelling a run that is not paused either changes nothing or ends
  it completely. When it returns, the run shows as cancelled; if it was not cancelled before, it was
  running before any effect, its native task and step are cancelled, it offers no action any more, and
  one cancellation event was added to its journal, which still replays.
\<close>

theorem cancellation_all_or_nothing:
  assumes load: "load_locked svc run_id user s = Ok locked" and shown: "project_locked svc locked s = Ok p0"
    and own: "cp_root_task_id (lr_checkpoint locked) = run_id" and unpaused: "pj_pause_signal p0 = None"
    and later: "je_created_at (last (lr_events locked)) \<le> sv_now svc"
  shows "case cancel_run svc run_id req user s of
      (Inl e, t) \<Rightarrow> t = s
    | (Inr p, t) \<Rightarrow> pj_state p = View_CANCELLED \<and>
        (pj_state p0 = View_CANCELLED \<and> p = p0 \<and> t = s \<or>
         (\<exists>a e. pj_state p0 = View_RUNNING \<and> pj_legal_actions p = [] \<and>
            cp_active_step (lr_checkpoint locked) = Some a \<and>
            native_state (uc_org_id user) t a = (Some Task_canceled, Some Step_canceled) \<and>
            effect_free (sr_native_task_id a) t \<and>
            load_events run_id t = Ok (lr_events locked @ [e]) \<and> je_transition e = Tr_RUN_CANCELLED \<and>
            replay_plan_journal (lr_events locked @ [e]) = Ok (after_event e)))"
proof (cases "is_any_operator user")
  case False
  then show ?thesis by (simp add: cancel_run_def require_operator_user_def)
next
  case operator: True
  obtain answer t where run: "transaction (cancel_tx svc run_id req user) s = (answer, t)" by fastforce
  show ?thesis
  proof (cases answer)
    case (Inl e)
    with run have "t = s" by (auto simp: transaction_raise)
    with operator run Inl show ?thesis by (simp add: cancel_run_def require_operator_user_def prog_bind_def)
  next
    case (Inr x)
    with run have tx: "cancel_tx svc run_id req user s = (Ok x, t)" by (simp add: transaction_ok)
    have result: "cancel_run svc run_id req user s = answer_or_get svc run_id user x t"
      using operator run Inr by (simp add: cancel_run_def require_operator_user_def prog_bind_def)
    from load shown own unpaused later tx show ?thesis
    proof (cases rule: cancel_tx_cases)
      case before
      then show ?thesis unfolding result by (simp add: answer_or_get_def)
    next
      case (now a r e p)
      then have "get_run svc run_id user t = Ok p" by (simp add: get_run_def)
      then show ?thesis unfolding result using now loaded_events [OF now(4)] by (simp add: answer_or_get_def)
    qed
  qed
qed

section \<open>Approving\<close>

definition used_up :: "pending_row \<Rightarrow> pending_row" where
  "used_up p = (decided_pending True p)\<lparr>pn_status := INVALIDATED, pn_row_version := pn_row_version p + 2\<rparr>"

lemma used_up_simps [simp]:
  "pn_pending_action_id (used_up p) = pn_pending_action_id p" "pn_task_id (used_up p) = pn_task_id p"
  "pn_step_id (used_up p) = pn_step_id p" "pn_approval_id (used_up p) = pn_approval_id p"
  "pn_organization_id (used_up p) = pn_organization_id p" "pn_status (used_up p) = INVALIDATED"
  by (simp_all add: used_up_def)

lemma write_row_twice:
  "key r' = key r \<Longrightarrow> write_row key r' (write_row key r rows) = write_row key r' rows"
  by (simp add: write_row_def)

lemma first_where_after_decision:
  assumes "distinct (map pn_pending_action_id rows)" and "p \<in> set rows"
  shows "first_where (\<lambda>r. pn_pending_action_id r = pn_pending_action_id p)
     (write_row pn_pending_action_id (decided_pending ok p) rows) = Some (decided_pending ok p)"
  using assms by (induction rows) (auto simp: first_where_def write_row_def)

text \<open>The transaction of an approval that resumes the run, when the run was awaiting it.\<close>

lemma approve_tx_resumes:
  assumes load: "load_locked svc run_id user s = Ok locked" and shown: "project_locked svc locked s = Ok p0"
    and own: "cp_root_task_id (lr_checkpoint locked) = run_id" and awaiting: "pj_state p0 = View_AWAITING_APPROVAL"
    and later: "je_created_at (last (lr_events locked)) \<le> sv_now svc" and keys: "pending_keys s"
    and run: "approve_tx svc ops run_id req user s = (Ok outcome, t)"
  obtains a r e pending approval adapter p where "outcome = Inr (True, adapter, p)"
    "restore_prepared svc ops (lr_bundle locked) = Ok (adapter, p)"
    "cp_active_step (lr_checkpoint locked) = Some a" "load_locked svc run_id user t = Ok (extended_run locked r e)"
    "je_transition e = Tr_APPROVAL_RESUMED" "after_event e = (lr_checkpoint locked)\<lparr>cp_state := Run_ACTIVE,
       cp_journal_sequence := je_sequence e, cp_journal_digest := je_event_digest e\<rparr>"
    "native_state (uc_org_id user) t a = (Some Task_resuming, Some Step_resuming)"
    "pending_approval (lr_checkpoint locked) t = Ok (Some (used_up pending, approval))"
    "ar_status approval = Approval_APPROVED" "ar_approver_user_id approval = Some (uc_user_id user)"
    "ar_requester_user_id approval \<noteq> Some (uc_user_id user)"
    "get_pause_signal run_id (uc_org_id user) t = Ok None"
    "task_attempts (sr_native_task_id a) t = []" "task_permits (sr_native_task_id a) t = []"
    "\<exists>st acts reason. view_of svc locked st acts reason None = Ok p0"
proof -
  let ?c = "lr_checkpoint locked" and ?org = "uc_org_id user"
  note org = loaded_events(3) [OF load]
  obtain linked0 where linked0: "pending_approval ?c s = Ok linked0"
    using run load shown by (cases "pending_approval ?c s") (auto simp: approve_tx_def)
  from run load shown linked0 awaiting have offered: "Act_APPROVE \<in> set (pj_legal_actions p0)"
    by (auto simp: approve_tx_def split: option.splits if_splits)
  obtain a pending approval st acts reason where
      a: "cp_active_step ?c = Some a" and state: "cp_state ?c = Run_APPROVAL_REQUIRED"
      and pause: "get_pause_signal (cp_root_task_id ?c) (ts_organization_id (lr_root locked)) s = Ok None"
      and linked: "pending_approval ?c s = Ok (Some (pending, approval))"
      and idle: "task_attempts (sr_native_task_id a) s = []" "task_permits (sr_native_task_id a) s = []"
      and view: "view_of svc locked st acts reason None = Ok p0"
    using shown offered by (metis offered_decision)
  note rows = linked_rows [OF linked]
  from run [unfolded approve_tx_def prog_bind_read load shown linked sum.case] awaiting offered
  obtain d u1 where
      decided: "on_db (decide_approval_request (ar_approval_id approval) ?org (uc_user_id user) True
          (safe_reason (cm_reason req)) (sv_now svc)) s = (Ok d, u1)"
      and tail: "(case require_pending_by_id (pn_pending_action_id pending) u1 of Inl e \<Rightarrow> (Inl e, u1)
        | Inr q \<Rightarrow> restored_after_approval svc ops run_id req user locked q u1) = (Ok outcome, t)"
    by (auto simp: prog_bind_ok simp del: prog_bind_read)
  from tail obtain q where q: "require_pending_by_id (pn_pending_action_id pending) u1 = Ok q"
      and rest: "restored_after_approval svc ops run_id req user locked q u1 = (Ok outcome, t)"
    by (auto split: sum.splits)
  from on_db_cases [OF decided] obtain w where
      w: "decide_approval_request (ar_approval_id approval) ?org (uc_user_id user) True
          (safe_reason (cm_reason req)) (sv_now svc) (db.truncate s) = (Ok d, w)"
      and u1: "u1 = db.extend w (db.more s)" by blast
  obtain ap where "find_approval (ar_approval_id approval) (db.truncate s) = Some ap"
      "ar_requester_user_id ap \<noteq> Some (uc_user_id user)"
      "d = decided_request True (uc_user_id user) (safe_reason (cm_reason req)) (sv_now svc) ap"
      and wd: "w = write_pending (decided_pending True pending) (write_approval d (db.truncate s))"
    using decide_linked [OF w] keys rows(1,2) by (auto simp: pending_keys_def)
  then have d: "d = decided_request True (uc_user_id user) (safe_reason (cm_reason req)) (sv_now svc) approval"
    and other: "ar_requester_user_id approval \<noteq> Some (uc_user_id user)"
    using rows(3) by (auto simp: find_approval_def)
  have tables: "pending_actions u1 = write_row pn_pending_action_id (decided_pending True pending) (pending_actions s)"
    "approval_requests u1 = write_row ar_approval_id d (approval_requests s)" "tasks u1 = tasks s"
    "execution_attempts u1 = execution_attempts s" "execution_permits u1 = execution_permits s"
    "governance_audit_events u1 = governance_audit_events s" "governed_task_admissions u1 = governed_task_admissions s"
    by (simp_all add: u1 wd write_pending_def write_approval_def)
  have "q = decided_pending True pending"
    using q first_where_after_decision [of "pending_actions s" pending True] keys rows(1)
    by (simp add: require_pending_by_id_def tables pending_keys_def)
  with rest obtain adapter p where
      resumed: "resume_approved svc run_id req user locked (decided_pending True pending) u1 = (Ok (), t)"
      and restored: "restore_prepared svc ops (lr_bundle locked) = Ok (adapter, p)"
      and outcome: "outcome = Inr (True, adapter, p)"
    by (auto simp: restored_after_approval_def prog_bind_ok simp del: prog_bind_read)
  from resumed obtain z u2 x where
      begun: "on_db (begin_reobservation_after_approval (pn_task_id pending) (pn_step_id pending) ?org
          (pn_pending_action_id pending) (pn_row_version pending + 1)) u1 = (Ok z, u2)"
      and appended: "append_command svc user locked (?c\<lparr>cp_state := Run_ACTIVE\<rparr>) Tr_APPROVAL_RESUMED
          (command_key run_id ''approve'' req user locked) u2 = (Ok x, t)"
    by (auto simp: resume_approved_def prog_bind_ok split: if_splits)
  from on_db_cases [OF begun] obtain w2 where
      w2: "begin_reobservation_after_approval (pn_task_id pending) (pn_step_id pending) ?org
          (pn_pending_action_id pending) (pn_row_version pending + 1) (db.truncate u1) = (Ok z, w2)"
      and u2: "u2 = db.extend w2 (db.more u1)" by blast
  from w2 obtain m tk st where m: "find_pending (pn_pending_action_id pending) (db.truncate u1) = Some m"
      and tk: "find_task (pn_task_id pending) ?org (db.truncate u1) = Some tk"
      and w2': "w2 = set_step_status st Step_resuming (set_task_status tk Task_resuming
           (write_pending (m\<lparr>pn_status := INVALIDATED, pn_row_version := pn_row_version pending + 1 + 1\<rparr>) (db.truncate u1)))"
    by (cases rule: begin_cases) auto
  have "m = decided_pending True pending"
    using m first_where_after_decision [of "pending_actions s" pending True] keys rows(1)
    by (simp add: find_pending_def tables pending_keys_def)
  then have used: "m\<lparr>pn_status := INVALIDATED, pn_row_version := pn_row_version pending + 1 + 1\<rparr> = used_up pending"
    by (simp add: used_up_def)
  note w2' = w2' [unfolded used]
  have tables2: "pending_actions u2 = write_row pn_pending_action_id (used_up pending) (pending_actions s)"
    "approval_requests u2 = write_row ar_approval_id d (approval_requests s)"
    "tasks u2 = write_row tk_task_id (tk\<lparr>tk_status := Task_resuming\<rparr>) (tasks u1)"
    "execution_attempts u2 = execution_attempts s" "execution_permits u2 = execution_permits s"
    "governance_audit_events u2 = governance_audit_events s" "governed_task_admissions u2 = governed_task_admissions s"
    by (simp_all add: u2 w2' set_step_status_def set_task_status_def write_pending_def tables write_row_twice)
  have tk': "native_task_row (pn_task_id pending) ?org u1 = Some tk"
    using tk by (simp add: find_task_def native_task_row_def)
  obtain r where r: "store_get_root run_id ?org u2 = Some r" "ts_application r = ts_application (lr_root locked)"
  proof -
    have "store_get_root run_id ?org u1 = Some (lr_root locked)"
      using load root_same_tasks [OF tables(3)] by (auto simp: load_locked_ok)
    from root_after_status [OF tk' tables2(3) this] that show thesis by blast
  qed
  have journal: "load_events run_id u2 = load_events run_id s" by (rule load_events_same) (simp add: tables2)
  have suits: "validate_transition_checkpoint Tr_APPROVAL_RESUMED (?c\<lparr>cp_state := Run_ACTIVE\<rparr>) = Ok ()"
    by (simp add: validate_transition_checkpoint_def a)
  from command_loads [OF load own later _ _ _ suits journal tables2(7) r appended] state obtain e where
      e: "e = journal_event (?c\<lparr>cp_state := Run_ACTIVE\<rparr>) Tr_APPROVAL_RESUMED (lr_authority_digests locked) (sv_now svc)
        None (Some (command_key run_id ''approve'' req user locked))"
      and t: "t = u2\<lparr>governance_audit_events := governance_audit_events u2 @ [event_model e ?org]\<rparr>"
      and loaded: "load_locked svc run_id user t = Ok (extended_run locked r e)"
      and verified: "verify_checkpoint_native_state (?c\<lparr>cp_state := Run_ACTIVE\<rparr>) Tr_APPROVAL_RESUMED ?org u2 = Ok ()"
      and native: "native_state ?org t = native_state ?org u2"
    by (auto simp: same_run_def checkpoint_valid_def)
  have resuming: "native_state ?org t a = (Some Task_resuming, Some Step_resuming)"
    using verified a
    by (auto simp: native verify_checkpoint_native_state_def res_bind_ok active_ok active_matches_def active_states_def)
  have linked': "pending_approval ?c t = Ok (Some (used_up pending, d))"
    by (intro pending_approval_written [OF linked])
      (use keys in \<open>simp_all add: pending_keys_def t tables2 d decided_request_def\<close>)
  have quiet: "get_pause_signal run_id ?org t = Ok None"
    unfolding t pause_signal_after_event
    using pause own pause_signal_same_events [of u2 s run_id ?org] by (simp add: tables2 org)
  have free: "task_attempts (sr_native_task_id a) t = []" "task_permits (sr_native_task_id a) t = []"
    using idle effect_free_same [of t s "sr_native_task_id a"] by (simp_all add: t tables2)
  have after: "after_event e = ?c\<lparr>cp_state := Run_ACTIVE, cp_journal_sequence := je_sequence e, cp_journal_digest := je_event_digest e\<rparr>"
    by (simp add: after_event_def e)
  show thesis
    by (rule that [OF outcome restored a loaded _ after resuming linked' _ _ _ quiet free])
      (use view other in \<open>auto simp: e d decided_request_def\<close>)
qed

lemma awaiting_is_pending:
  assumes "project_locked svc locked s = Ok p" and "pj_state p = View_AWAITING_APPROVAL"
  shows "\<exists>pending approval. pending_approval (lr_checkpoint locked) s = Ok (Some (pending, approval)) \<and> pn_status pending = PENDING"
  using assms(1)
proof (cases rule: project_locked_cases)
  case (paused z)
  with assms(2) show ?thesis by (auto split: if_splits)
next
  case (active a pair linked)
  from active(5) show ?thesis
    by (cases rule: project_active_cases) (use assms(2) active in auto)
qed (use assms(2) in auto)

text \<open>Once the approval of a step is used up, approving again never calls the pack.\<close>

lemma approve_after_use:
  assumes load: "load_locked svc run_id user t = Ok l"
    and used: "pending_approval (lr_checkpoint l) t = Ok (Some (pending, approval))" "pn_status pending = INVALIDATED"
  shows "snd (approve_run svc ops run_id req user t) = t"
proof -
  have idle: "restored_after_approval svc ops run_id req user l pending u = (r, v) \<Longrightarrow>
      v = u \<and> (\<forall>adapter p. r \<noteq> Ok (Inr (True, adapter, p)))" for u r v
    using used(2) by (auto simp: restored_after_approval_def split: sum.splits)
  obtain r v where tx: "approve_tx svc ops run_id req user t = (r, v)" by fastforce
  have still: "v = t \<and> (\<forall>adapter p. r \<noteq> Ok (Inr (True, adapter, p)))"
  proof (cases "project_locked svc l t")
    case (Inl e)
    with tx load show ?thesis by (auto simp: approve_tx_def)
  next
    case (Inr q)
    have "pj_state q \<noteq> View_AWAITING_APPROVAL" using awaiting_is_pending [OF Inr] used by auto
    with tx load used(1) Inr show ?thesis by (auto simp: approve_tx_def dest: idle split: if_splits)
  qed
  show ?thesis
  proof (cases "is_any_approver user")
    case True
    then show ?thesis
      using tx still
      by (cases r)
        (auto simp: approve_run_def require_approver_user_def transaction_def prog_bind_def split: sum.splits prod.splits)
  qed (simp add: approve_run_def require_approver_user_def)
qed


section \<open>The concrete run, decided\<close>

lemma after_event_eq: "same_run c d \<Longrightarrow> e = journal_event c t ad now l r \<Longrightarrow>
    c\<lparr>cp_journal_sequence := je_sequence e, cp_journal_digest := je_event_digest e\<rparr> = after_event e"
  by (simp add: after_event_def)

lemma append_command_runs:
  assumes load: "load_locked svc run_id user s = Ok locked"
    and own: "cp_root_task_id (lr_checkpoint locked) = run_id" and same: "same_run c (lr_checkpoint locked)"
    and journal: "load_events run_id u = load_events run_id s"
    and root: "store_get_root run_id (uc_org_id user) u = Some r" "is_plan_application_marker (ts_application r)"
    and verified: "verify_checkpoint_native_state c t (uc_org_id user) u = Ok ()" and kind: "appendable t"
    and e: "e = journal_event c t (lr_authority_digests locked) (sv_now svc) None (Some key)"
    and fresh: "je_event_id e \<notin> ga_event_id ` set (governance_audit_events u)"
  shows "append_command svc user locked c t key u =
     (Ok (after_event e), u\<lparr>governance_audit_events := governance_audit_events u @ [event_model e (uc_org_id user)]\<rparr>)"
proof -
  have id: "ga_event_id (event_model e (uc_org_id user)) \<notin> ga_event_id ` set (governance_audit_events u)"
    using fresh by (simp add: event_model_def)
  have "cp_root_task_id c = run_id" "cp_journal_sequence (lr_checkpoint locked) = cp_journal_sequence c"
    "cp_journal_digest (lr_checkpoint locked) = cp_journal_digest c"
    using same own by (simp_all add: same_run_def)
  then show ?thesis
    using loaded_events(1,2) [OF load] journal root verified kind id root_organization [OF root(1)]
    by (simp add: append_command_def append_agent_run_transition_def prog_bind_def add_audit_event_def Let_def
        after_event_eq [OF same e] flip: e)
qed

definition sample_approver :: user_context where
  "sample_approver = \<lparr>uc_user_id = ''bob'', uc_org_id = ''org'',
     uc_department_roles = [\<lparr>dr_department_id = ''d'', dr_department_name = ''D'', dr_role = ''approver''\<rparr>],
     uc_business_line_ids = [], uc_has_cross_org_read = False, uc_has_cross_org_approve = False\<rparr>"

lemma sample_approver_facts:
  "uc_org_id sample_approver = ''org''" "uc_user_id sample_approver = ''bob''" "is_any_approver sample_approver"
  by (simp_all add: sample_approver_def is_any_approver_def has_role_in_def)

lemma sample_hypotheses:
  "load_locked sample_service sample_run sample_approver sample_run_db = Ok sample_locked"
  "cp_root_task_id (lr_checkpoint sample_locked) = sample_run"
  "je_created_at (last (lr_events sample_locked)) \<le> sv_now sample_service" "pending_keys sample_run_db"
proof -
  show "load_locked sample_service sample_run sample_approver sample_run_db = Ok sample_locked"
    by (rule sample_run_loads_locked) (rule sample_approver_facts)
qed (simp_all add: sample_service_def pending_keys_def sample_run_db_def)

definition sample_decided :: "bool \<Rightarrow> agent_db" where
  "sample_decided ok = sample_run_db\<lparr>pending_actions := [decided_pending ok sample_run_pending],
     approval_requests := [decided_request ok ''bob'' ''Authenticated decision'' 5 (sample_approval ''p'')]\<rparr>"

lemma sample_decides:
  "on_db (decide_approval_request ''apr_p'' ''org'' ''bob'' ok ''Authenticated decision'' 5) sample_run_db =
     (Ok (decided_request ok ''bob'' ''Authenticated decision'' 5 (sample_approval ''p'')), sample_decided ok)"
  by (cases ok)
    (simp_all add: on_db_def db.truncate_def db.extend_def sample_run_db_def sample_native_db_def empty_agent_db_def
      decide_approval_request_def sample_lookups sample_run_pending_def record_approval_decision_def
      get_pending_for_update_def require_pending_def prog_bind_def sample_decided_def decided_pending_def
      decided_request_def pending_to_contract_def Let_def)

lemma sample_decided_frame:
  "governance_audit_events (sample_decided ok) = governance_audit_events sample_run_db"
  "tasks (sample_decided ok) = tasks sample_run_db" "steps (sample_decided ok) = steps sample_run_db"
  "execution_attempts (sample_decided ok) = []" "execution_permits (sample_decided ok) = []"
  by (simp_all add: sample_decided_def sample_run_db_def sample_native_db_def empty_agent_db_def)

text \<open>The native rows of the step in another status, with the decision taken.\<close>

definition sample_moved :: "bool \<Rightarrow> pending_row \<Rightarrow> task_status \<Rightarrow> step_status \<Rightarrow> agent_db" where
  "sample_moved ok q tst sst = (sample_decided ok)
     \<lparr>pending_actions := [q], tasks := [hd (tasks sample_run_db), (tasks sample_run_db ! 1)\<lparr>tk_status := tst\<rparr>],
      steps := [(hd (steps sample_run_db))\<lparr>st_status := sst\<rparr>]\<rparr>"

lemma sample_moved_native:
  "native_state ''org'' (sample_moved ok q tst sst) (sample_ref ''s1'' Ref_ACTIVE) = (Some tst, Some sst)"
  "store_get_root sample_run ''org'' (sample_moved ok q tst sst) = Some (lr_root sample_locked)"
  "load_events sample_run (sample_moved ok q tst sst) = load_events sample_run sample_run_db"
proof -
  show "load_events sample_run (sample_moved ok q tst sst) = load_events sample_run sample_run_db"
    by (rule load_events_same) (simp add: sample_moved_def sample_decided_frame)
  show "native_state ''org'' (sample_moved ok q tst sst) (sample_ref ''s1'' Ref_ACTIVE) = (Some tst, Some sst)"
    using sample_run_not_task
    by (simp add: native_state_def native_task_row_def native_step_row_def first_where_def sample_moved_def
        sample_run_db_def sample_native_db_def empty_agent_db_def sample_ref_def)
  show "store_get_root sample_run ''org'' (sample_moved ok q tst sst) = Some (lr_root sample_locked)"
    by (simp add: store_get_root_def native_task_row_def first_where_def sample_moved_def sample_run_db_def
        sample_locked_def)
qed

lemma sample_root_marker: "is_plan_application_marker (ts_application (lr_root sample_locked))"
  by (simp add: sample_locked_def sample_run_db_def to_task_snapshot_def is_plan_application_marker_def)

lemma sample_fresh: "je_event_id (journal_event c t ad now l r) \<notin> {''e1'', ''e2''}"
  by (simp add: journal_event_def Let_def stable_id_def)

lemma sample_audit_ids:
  "ga_event_id ` set (governance_audit_events (sample_moved ok q tst sst)) = {''e1'', ''e2''}"
  by (simp add: sample_moved_def sample_decided_frame sample_run_db_def sample_native_db_def)

text \<open>A command's event appended to the decided run.\<close>

lemma sample_appends:
  assumes c: "same_run c (after_event sample_second)" "cp_completed_prefix c = []" "cp_remaining_suffix c = []"
      "cp_superseded_suffix c = []"
    and active: "cp_active_step c = Some ((sample_ref ''s1'' Ref_ACTIVE)\<lparr>sr_state := st\<rparr>)"
    and kind: "appendable t" "active_states t (tst, sst)" "t \<noteq> Tr_PROBE_BLOCKED"
  shows "\<exists>x u. append_command sample_service sample_approver sample_locked c t key (sample_moved ok q tst sst) = (Ok x, u)"
proof -
  have "verify_checkpoint_native_state c t (uc_org_id sample_approver) (sample_moved ok q tst sst) = Ok ()"
    using c active kind
    by (simp add: verify_checkpoint_native_state_def active_ok active_matches_def sample_moved_native sample_approver_facts)
  from append_command_runs [OF sample_hypotheses(1,2) _ sample_moved_native(3) _ sample_root_marker this kind(1) refl]
  show ?thesis using c(1) sample_moved_native(2) sample_fresh
    by (simp add: sample_approver_facts sample_audit_ids)
qed

definition sample_command :: command_request where
  "sample_command = \<lparr>cm_operation_key = ''k'', cm_reason = None\<rparr>"

lemma sample_decision_parts:
  "ar_approval_id (sample_approval ''p'') = ''apr_p''" "safe_reason (cm_reason sample_command) = ''Authenticated decision''"
  "sv_now sample_service = 5"
  by (simp_all add: sample_approval_def sample_command_def safe_reason_def sample_service_def)

lemma sample_cancels:
  "cancel_active_pair (after_event sample_second) ''org'' (sample_decided False) =
     (Ok (), sample_moved False (decided_pending False sample_run_pending) Task_canceled Step_canceled)"
  using sample_run_not_task
  by (simp add: cancel_active_pair_def cancel_native_pair_def catching_def prog_bind_def native_task_row_def
      native_step_row_def first_where_def write_row_def sample_decided_frame sample_run_db_def sample_native_db_def
      sample_ref_def sample_moved_def sample_decided_def)

lemma sample_rejects:
  "\<exists>u. reject_tx sample_service sample_run sample_command sample_approver sample_run_db = (Ok None, u)"
proof -
  obtain p where p: "project_locked sample_service sample_locked sample_run_db = Ok p"
    "pj_state p = View_AWAITING_APPROVAL" "pj_legal_actions p = [Act_APPROVE, Act_REJECT]"
    by (rule sample_run_projects)
  let ?c = "ended_checkpoint Run_REJECTED (after_event sample_second)"
  have "\<exists>x u. append_command sample_service sample_approver sample_locked ?c Tr_APPROVAL_REJECTED
      (command_key sample_run ''reject'' sample_command sample_approver sample_locked)
      (sample_moved False (decided_pending False sample_run_pending) Task_canceled Step_canceled) = (Ok x, u)"
    by (rule sample_appends [OF ended_checkpoint_parts(1), where st = Ref_FAILED])
      (simp_all add: ended_checkpoint_def appendable_def active_states_def)
  then obtain x u where "append_command sample_service sample_approver sample_locked ?c Tr_APPROVAL_REJECTED
      (command_key sample_run ''reject'' sample_command sample_approver sample_locked)
      (sample_moved False (decided_pending False sample_run_pending) Task_canceled Step_canceled) = (Ok x, u)" by blast
  then show ?thesis
    using p sample_run_rows(2) sample_decides [of False] sample_cancels
    by (simp add: reject_tx_def sample_hypotheses sample_decision_parts sample_approver_facts prog_bind_def)
qed

theorem rejection_all_or_nothing_witness:
  "\<exists>p t. reject_run sample_service sample_run sample_command sample_approver sample_run_db = (Ok p, t) \<and>
     pj_state p = View_REJECTED \<and>
     native_state ''org'' t (sample_ref ''s1'' Ref_ACTIVE) = (Some Task_canceled, Some Step_canceled)"
proof -
  obtain p0 where p0: "project_locked sample_service sample_locked sample_run_db = Ok p0"
    "pj_state p0 = View_AWAITING_APPROVAL" by (rule sample_run_projects)
  obtain u where u: "reject_tx sample_service sample_run sample_command sample_approver sample_run_db = (Ok None, u)"
    using sample_rejects by blast
  obtain p where p: "get_run sample_service sample_run sample_approver u = Ok p"
    using sample_hypotheses(1) p0(1) sample_hypotheses(2-4) u
  proof (cases rule: reject_tx_cases)
    case (now a r e pending approval p)
    with that show thesis by (simp add: get_run_def)
  qed (use p0 in simp_all)
  have run: "reject_run sample_service sample_run sample_command sample_approver sample_run_db = (Ok p, u)"
    using u p
    by (simp add: reject_run_def require_approver_user_def sample_approver_facts prog_bind_def transaction_def answer_or_get_def)
  from rejection_all_or_nothing [OF sample_hypotheses(1) p0(1) sample_hypotheses(2-4), of sample_command, unfolded run] p0(2)
  show ?thesis by (auto simp: run sample_approver_facts)
qed

lemma sample_resumes:
  "\<exists>z. on_db (begin_reobservation_after_approval ''task'' ''s1'' ''org'' ''p'' 3) (sample_decided True) =
     (Ok z, sample_moved True (used_up sample_run_pending) Task_resuming Step_resuming) \<and>
     pa_status (ps_pending_action z) = INVALIDATED"
  using sample_run_not_task
  by (simp add: on_db_def db.truncate_def db.extend_def sample_run_db_def sample_native_db_def empty_agent_db_def
      begin_reobservation_after_approval_def load_task_and_step_def invalidate_approved_action_for_reobservation_def
      sample_lookups sample_run_pending_def get_pending_for_update_def prog_bind_def sample_decided_def
      decided_pending_def used_up_def sample_moved_def pending_to_contract_def Let_def)

text \<open>A pack that restores the run it is asked for and does nothing else.\<close>

definition sample_reference :: "admission_bundle \<Rightarrow> prepared_run_reference" where
  "sample_reference b =
     \<lparr>pr_run_id = td_task_id (ab_task b), pr_tenant_id = rq_tenant_id (ab_request b),
      pr_request_id = rq_request_id (ab_request b), pr_pack_id = rb_pack_id (ra_binding sample_adapter),
      pr_pack_version = rb_pack_version (ra_binding sample_adapter),
      pr_adapter_id = rb_adapter_id (ra_binding sample_adapter), pr_admission_id = Some (ab_admission_id b),
      pr_contract_id = Some (tc_contract_id (ab_contract b)), pr_provider_mode = ab_provider_mode b,
      pr_opaque_payload = []\<rparr>"

definition sample_operations :: "unit pack_operations" where
  "sample_operations =
     \<lparr>op_prepare = (\<lambda>i user req digest inputs url now. lift_res (Ok None)),
      op_admit = (\<lambda>i p handler key. lift_res (Ok None)), op_restore = (\<lambda>i b url. Ok (Some (sample_reference b))),
      op_advance = (\<lambda>i p handler key. lift_res (Ok None)), op_probe = (\<lambda>i p key. lift_res (Ok None)),
      op_resume = None\<rparr>"

lemma sample_restores: "\<exists>adapter p. restore_prepared sample_service sample_operations sample_run_bundle = Ok (adapter, p)"
proof -
  have binding: "binding_for_bundle sample_run_bundle = Ok (ra_binding sample_adapter)"
    by (simp add: binding_for_bundle_def sample_run_bundle_def)
  have adapter: "adapter_for sample_service (ra_binding sample_adapter) tenant cs = Ok sample_adapter" for tenant cs
    by (simp add: adapter_for_def Let_def sample_service_def tenant_scoped_def require_binding_def require_registered_def
        dict_require_def binding_key_def sample_adapter_def translate_def)
  have sample_request_ids: "rq_tenant_id (ab_request sample_bundle) = ''org''" "rq_request_id (ab_request sample_bundle) = ''q''"
    by (simp_all add: sample_bundle_def sample_admitted_request_def sample_request_def)
  have mode: "ab_provider_mode sample_bundle = ''recorded''"
    by (simp add: sample_bundle_def build_bundle_def Let_def sample_draft_def sample_snapshot_def)
  have request: "restore_request_ok sample_service sample_run_bundle"
    using mode by (simp add: restore_request_ok_def sample_run_bundle_def sample_request_ids sample_service_def sample_run_def derive_pack_run_id_def)
  show ?thesis
    by (simp add: restore_prepared_def binding adapter request sample_operations_def sample_reference_def)
qed

lemma sample_approves:
  "\<exists>o' u. approve_tx sample_service sample_operations sample_run sample_command sample_approver sample_run_db = (Ok o', u)"
proof -
  obtain p where p: "project_locked sample_service sample_locked sample_run_db = Ok p"
    "pj_state p = View_AWAITING_APPROVAL" "pj_legal_actions p = [Act_APPROVE, Act_REJECT]"
    by (rule sample_run_projects)
  let ?c = "(after_event sample_second)\<lparr>cp_state := Run_ACTIVE\<rparr>"
  have "\<exists>x u. append_command sample_service sample_approver sample_locked ?c Tr_APPROVAL_RESUMED
      (command_key sample_run ''approve'' sample_command sample_approver sample_locked)
      (sample_moved True (used_up sample_run_pending) Task_resuming Step_resuming) = (Ok x, u)"
    by (rule sample_appends [where st = Ref_ACTIVE])
      (simp_all add: same_run_def appendable_def active_states_def sample_ref_def)
  then obtain x u where appended: "append_command sample_service sample_approver sample_locked ?c Tr_APPROVAL_RESUMED
      (command_key sample_run ''approve'' sample_command sample_approver sample_locked)
      (sample_moved True (used_up sample_run_pending) Task_resuming Step_resuming) = (Ok x, u)" by blast
  obtain z where z: "on_db (begin_reobservation_after_approval ''task'' ''s1'' ''org'' ''p'' 3) (sample_decided True) =
     (Ok z, sample_moved True (used_up sample_run_pending) Task_resuming Step_resuming)"
     "pa_status (ps_pending_action z) = INVALIDATED" using sample_resumes by blast
  have q: "require_pending_by_id (pn_pending_action_id sample_run_pending) (sample_decided True) =
      Ok (decided_pending True sample_run_pending)"
    by (simp add: require_pending_by_id_def first_where_def sample_decided_def)
  have keys: "pn_task_id sample_run_pending = ''task''" "pn_step_id sample_run_pending = ''s1''"
    "pn_pending_action_id sample_run_pending = ''p''" "pn_row_version sample_run_pending = 2"
    by (simp_all add: sample_run_pending_def sample_pending_def)
  obtain adapter r where restored: "restore_prepared sample_service sample_operations sample_run_bundle = Ok (adapter, r)"
    using sample_restores by blast
  show ?thesis
    using p sample_run_rows(2) sample_decides [of True] q z appended restored
    by (simp add: approve_tx_def restored_after_approval_def resume_approved_def sample_hypotheses sample_decision_parts
        sample_approver_facts prog_bind_def keys)
qed


text \<open>The run before it waits for approval: admitted, with its step running.\<close>

definition sample_running_db :: agent_db where
  "sample_running_db = sample_run_db
     \<lparr>governance_audit_events := [(event_model sample_first ''org'')\<lparr>ga_event_id := ''e1''\<rparr>],
      tasks := [hd (tasks sample_run_db), (tasks sample_run_db ! 1)\<lparr>tk_status := Task_running\<rparr>],
      steps := [(hd (steps sample_run_db))\<lparr>st_status := Step_running\<rparr>],
      pending_actions := [], approval_requests := []\<rparr>"

definition sample_running :: locked_run where
  "sample_running = sample_locked\<lparr>lr_checkpoint := after_event sample_first, lr_events := [sample_first],
     lr_authority_digests := je_authority_digests sample_first\<rparr>"

definition sample_operator :: user_context where
  "sample_operator = sample_approver\<lparr>uc_department_roles :=
     [\<lparr>dr_department_id = ''d'', dr_department_name = ''D'', dr_role = ''operator''\<rparr>]\<rparr>"

lemma sample_operator_facts:
  "uc_org_id sample_operator = ''org''" "is_any_operator sample_operator"
  by (simp_all add: sample_operator_def sample_approver_def is_any_operator_def has_role_in_def)

lemma sample_first_parts:
  "cp_state (after_event sample_first) = Run_ACTIVE" "cp_root_task_id (after_event sample_first) = sample_run"
  "cp_active_step (after_event sample_first) = Some (sample_ref ''s1'' Ref_ACTIVE)"
  "cp_completed_prefix (after_event sample_first) = []" "cp_remaining_suffix (after_event sample_first) = []"
  "cp_superseded_suffix (after_event sample_first) = []" "je_created_at sample_first = 1"
  by (simp_all add: sample_first_def after_event_def sample_plan_start_def sample_single_def sample_checkpoint_def)

lemma sample_running_native:
  "native_state ''org'' sample_running_db (sample_ref ''s1'' Ref_ACTIVE) = (Some Task_running, Some Step_running)"
  "native_task_row ''task'' ''org'' sample_running_db = Some ((tasks sample_run_db ! 1)\<lparr>tk_status := Task_running\<rparr>)"
  using sample_run_not_task
  by (simp_all add: native_state_def native_task_row_def native_step_row_def first_where_def sample_running_db_def
      sample_run_db_def sample_native_db_def empty_agent_db_def sample_ref_def)

lemma sample_running_loads:
  "load_locked sample_service sample_run sample_operator sample_running_db = Ok sample_running"
proof -
  have events: "load_events sample_run sample_running_db = Ok [sample_first]"
    using sample_events_valid
    by (simp add: load_events_def sample_running_db_def journal_rows_def event_model_def plan_payload_dump
        decode_event_dump [THEN iffD2])
  have "journal_chain [sample_first, sample_second]" using sample_run_replays by (simp add: replay_ok_iff)
  then have replays: "replay_plan_journal [sample_first] = Ok (after_event sample_first)"
    by (simp add: replay_ok_iff journal_chain_def upto.simps)
  have root: "store_get_root sample_run ''org'' sample_running_db = store_get_root sample_run ''org'' sample_run_db"
    using sample_run_native(1)
    by (simp add: store_get_root_def native_task_row_def first_where_def sample_running_db_def sample_run_db_def)
  have "find_admission_by_task sample_run ''org'' sample_running_db = find_admission_by_task sample_run ''org'' sample_run_db"
    by (simp add: find_admission_by_task_def sample_running_db_def)
  moreover from sample_hypotheses(1) obtain r ad b es c where
      "store_get_root sample_run ''org'' sample_run_db = Some r" "is_plan_application_marker (ts_application r)"
      "find_admission_by_task sample_run ''org'' sample_run_db = Some ad"
      "sv_parse_bundle sample_service (ad_bundle_payload ad) = Some b"
      "ts_task_id r = derive_pack_run_id ''org'' (rq_request_id (ab_request b))" "td_task_id (ab_task b) = ts_task_id r"
    and whole: "sample_locked = \<lparr>lr_root = r, lr_bundle = b, lr_checkpoint = c, lr_events = es,
      lr_authority_digests = je_authority_digests (last es)\<rparr>"
    unfolding load_locked_ok sample_approver_facts by metis
  ultimately show ?thesis
    unfolding load_locked_ok sample_operator_facts sample_running_def whole using events replays root by auto
qed

lemma sample_running_shown:
  obtains p where "project_locked sample_service sample_running sample_running_db = Ok p"
    "pj_state p = View_RUNNING" "pj_legal_actions p = [Act_CANCEL]" "pj_pause_signal p = None"
proof -
  let ?a = "sample_ref ''s1'' Ref_ACTIVE"
  have parts: "lr_checkpoint sample_running = after_event sample_first" "lr_bundle sample_running = sample_run_bundle"
    "ts_organization_id (lr_root sample_running) = ''org''" "lr_events sample_running = [sample_first]"
    by (simp_all add: sample_running_def)
  have "native_consistent ''org'' sample_running_db ?a" by (simp add: native_consistent_def sample_running_native)
  then obtain pair where pair: "item_pair ''org'' ?a sample_running_db = Ok pair" unfolding item_pair_ok by blast
  have native: "native_in pair Task_running Step_running"
    using native_in_state [OF pair] sample_running_native by simp
  have "run_events sample_run ''org'' [pause_type, resolution_type] sample_running_db = []"
    by (simp add: run_events_def sample_running_db_def event_model_def pause_type_def resolution_type_def)
  then have quiet: "get_pause_signal sample_run ''org'' sample_running_db = Ok None"
    by (simp add: get_pause_signal_def sort_by_def)
  have linked: "pending_approval (after_event sample_first) sample_running_db = Ok None"
    by (simp add: pending_approval_def sample_first_parts sample_running_db_def)
  have free: "effect_free task sample_running_db" for task
    by (simp add: effect_free_def task_attempts_def task_permits_def sample_running_db_def sample_run_db_def
        sample_native_db_def empty_agent_db_def)
  have plan: "public_plan (lr_checkpoint sample_running) \<noteq> []" by (simp add: public_plan_empty parts sample_first_parts)
  obtain p where p: "view_of sample_service sample_running View_RUNNING [Act_CANCEL] None None = Ok p"
    using sample_view [OF parts(2) plan, of View_RUNNING "[Act_CANCEL]" None None] by (auto simp: is_ok_iff)
  have "project_locked sample_service sample_running sample_running_db = Ok p"
    using pair native p quiet linked free
    by (auto simp: project_locked_def Let_def translate_def parts sample_first_parts project_active_def native_in_def)
  with view_of_ok [OF p] that show thesis by blast
qed

theorem cancellation_all_or_nothing_witness:
  "\<exists>p t. cancel_run sample_service sample_run sample_command sample_operator sample_running_db = (Ok p, t) \<and>
     pj_state p = View_CANCELLED \<and>
     native_state ''org'' t (sample_ref ''s1'' Ref_ACTIVE) = (Some Task_canceled, Some Step_canceled)"
proof -
  let ?a = "sample_ref ''s1'' Ref_ACTIVE" and ?c = "after_event sample_first"
  let ?u = "sample_running_db\<lparr>tasks := [hd (tasks sample_run_db), (tasks sample_run_db ! 1)\<lparr>tk_status := Task_canceled\<rparr>],
    steps := [(hd (steps sample_run_db))\<lparr>st_status := Step_canceled\<rparr>]\<rparr>"
  obtain p0 where p0: "project_locked sample_service sample_running sample_running_db = Ok p0"
    "pj_state p0 = View_RUNNING" "pj_legal_actions p0 = [Act_CANCEL]" "pj_pause_signal p0 = None"
    by (rule sample_running_shown)
  have parts: "lr_checkpoint sample_running = ?c" "lr_root sample_running = lr_root sample_locked"
    "lr_events sample_running = [sample_first]"
    by (simp_all add: sample_running_def)
  have hyps: "cp_root_task_id (lr_checkpoint sample_running) = sample_run"
    "je_created_at (last (lr_events sample_running)) \<le> sv_now sample_service"
    by (simp_all add: parts sample_first_parts sample_service_def)
  have cancelled: "cancel_active_pair ?c ''org'' sample_running_db = (Ok (), ?u)"
    using sample_run_not_task
    by (simp add: cancel_active_pair_def cancel_native_pair_def catching_def prog_bind_def native_task_row_def
        native_step_row_def first_where_def write_row_def sample_running_db_def sample_run_db_def sample_native_db_def
        sample_ref_def sample_first_parts)
  have cleared: "clear_pause_signal sample_run ''org'' ?u = (Ok (), ?u)"
    by (simp add: clear_pause_signal_def run_events_def sample_running_db_def event_model_def pause_type_def sort_by_def)
  have free: "\<not> effect_may_have_started ?c sample_running_db"
    by (simp add: effect_may_have_started_def effect_free_def task_attempts_def task_permits_def sample_first_parts
        sample_running_db_def sample_run_db_def sample_native_db_def empty_agent_db_def)
  have native: "native_state ''org'' ?u (a\<lparr>sr_state := st\<rparr>) = (Some Task_canceled, Some Step_canceled)" if "a = ?a" for a st
    using sample_run_not_task that
    by (simp add: native_state_def native_task_row_def native_step_row_def first_where_def sample_running_db_def
        sample_run_db_def sample_native_db_def empty_agent_db_def sample_ref_def)
  have journal: "load_events sample_run ?u = load_events sample_run sample_running_db" by (rule load_events_same) simp
  have root: "store_get_root sample_run ''org'' ?u = Some (lr_root sample_locked)"
    by (simp add: store_get_root_def native_task_row_def first_where_def sample_run_db_def sample_locked_def)
  let ?d = "ended_checkpoint Run_CANCELLED ?c"
  have verified: "verify_checkpoint_native_state ?d Tr_RUN_CANCELLED ''org'' ?u = Ok ()"
    using native [OF refl]
    by (simp add: verify_checkpoint_native_state_def ended_checkpoint_def sample_first_parts active_ok active_matches_def
        active_states_def)
  have ids: "ga_event_id ` set (governance_audit_events ?u) = {''e1''}" by (simp add: sample_running_db_def)
  obtain x t where "append_command sample_service sample_operator sample_running ?d Tr_RUN_CANCELLED
      (command_key sample_run ''cancel'' sample_command sample_operator sample_running) ?u = (Ok x, t)"
    using append_command_runs [OF sample_running_loads hyps(1) _ journal _ sample_root_marker _ _ refl, of ?d Tr_RUN_CANCELLED]
      root verified ids sample_fresh
    by (simp add: sample_operator_facts parts ended_checkpoint_parts appendable_def)
  then have tx: "cancel_tx sample_service sample_run sample_command sample_operator sample_running_db = (Ok None, t)"
    using p0 free cancelled cleared
    by (simp add: cancel_tx_def sample_running_loads sample_operator_facts parts prog_bind_def)
  obtain p where p: "get_run sample_service sample_run sample_operator t = Ok p"
    using sample_running_loads p0(1) hyps(1) p0(4) hyps(2) tx
  proof (cases rule: cancel_tx_cases)
    case (now a r e p)
    with that show thesis by (simp add: get_run_def)
  qed (use p0 in simp_all)
  have run: "cancel_run sample_service sample_run sample_command sample_operator sample_running_db = (Ok p, t)"
    using tx p
    by (simp add: cancel_run_def require_operator_user_def sample_operator_facts prog_bind_def transaction_def answer_or_get_def)
  from cancellation_all_or_nothing [OF sample_running_loads p0(1) hyps(1) p0(4) hyps(2), of sample_command, unfolded run] p0(2)
  show ?thesis by (auto simp: run sample_operator_facts parts sample_first_parts)
qed

end
