(* ===== verification/RunAccess.thy ===== *)
theory RunAccess
  imports RunLaws
begin

text \<open>
  Who may do what with an agent run, and when a command reaches the pack: runs of other tenants, the
  submission of input, the repetition of a creation, and what a probe result needs before it counts.
\<close>

section \<open>Runs of other tenants\<close>

lemma load_missing:
  "store_get_root run_id (uc_org_id user) s = None \<Longrightarrow> load_locked svc run_id user s = run_error ''RUN_NOT_FOUND'' 404"
  by (simp add: load_locked_def)

text \<open>
  C36. A run whose root task is not of the user's organization does not exist
  for that user: every view answers 404, every command 403 or 404 before it reads or writes anything
  of it, and the database stays as it is whatever the pack does. A run that is shown has its root
  task and its admission in the user's own organization.
\<close>

theorem outsiders_see_nothing:
  "(store_get_root run_id (uc_org_id user) s = None \<longrightarrow>
     get_run svc run_id user s = run_error ''RUN_NOT_FOUND'' 404 \<and>
     run_events_view svc run_id user s = run_error ''RUN_NOT_FOUND'' 404 \<and>
     decision_trace svc run_id user s = run_error ''RUN_NOT_FOUND'' 404 \<and>
     report_run svc run_id user s = run_error ''RUN_NOT_FOUND'' 404 \<and>
     (\<forall>command \<in> {approve_run svc ops run_id req user, reject_run svc run_id req user}.
        command s = (if is_any_approver user then run_error ''RUN_NOT_FOUND'' 404
                     else run_error ''APPROVER_REQUIRED'' 403, s)) \<and>
     (\<forall>command \<in> {cancel_run svc run_id req user, probe_run svc ops run_id req user,
          submit_input svc ops run_id submission user, resume_run svc ops run_id req user}.
        command s = (if is_any_operator user then run_error ''RUN_NOT_FOUND'' 404
                     else run_error ''OPERATOR_REQUIRED'' 403, s)) \<and>
     record_pause_signal svc run_id signal user s =
       (if \<not> is_any_operator user then run_error ''OPERATOR_REQUIRED'' 403
        else if ps_run_id signal \<noteq> run_id then run_error ''PAUSE_SIGNAL_CORRELATION_INVALID'' 409
        else run_error ''RUN_NOT_FOUND'' 404, s)) \<and>
   (\<forall>p. get_run svc run_id user s = Ok p \<longrightarrow>
      (\<exists>t \<in> set (tasks s). tk_task_id t = run_id \<and> tk_organization_id t = Some (uc_org_id user) \<and>
         is_plan_application_marker (tk_application t)) \<and>
      (\<exists>ad \<in> set (governed_task_admissions s). ad_task_id ad = run_id \<and> ad_organization_id ad = uc_org_id user))"
proof (intro conjI impI allI)
  assume hidden: "store_get_root run_id (uc_org_id user) s = None"
  note load = load_missing [OF hidden, of svc]
  show "get_run svc run_id user s = run_error ''RUN_NOT_FOUND'' 404"
    "run_events_view svc run_id user s = run_error ''RUN_NOT_FOUND'' 404"
    "decision_trace svc run_id user s = run_error ''RUN_NOT_FOUND'' 404"
    "report_run svc run_id user s = run_error ''RUN_NOT_FOUND'' 404"
    by (simp_all add: get_run_def run_events_view_def decision_trace_def report_run_def load)
  have approver: "approve_tx svc ops run_id req user s = (run_error ''RUN_NOT_FOUND'' 404, s)"
    "reject_tx svc run_id req user s = (run_error ''RUN_NOT_FOUND'' 404, s)"
    "cancel_tx svc run_id req user s = (run_error ''RUN_NOT_FOUND'' 404, s)"
    "record_pause_tx svc run_id signal user s = (run_error ''RUN_NOT_FOUND'' 404, s)"
    by (simp_all add: approve_tx_def reject_tx_def cancel_tx_def record_pause_tx_def load)
  show "\<forall>command \<in> {approve_run svc ops run_id req user, reject_run svc run_id req user}.
      command s = (if is_any_approver user then run_error ''RUN_NOT_FOUND'' 404
                   else run_error ''APPROVER_REQUIRED'' 403, s)"
    by (simp add: approve_run_def reject_run_def require_approver_user_def transaction_def prog_bind_def approver)
  show "\<forall>command \<in> {cancel_run svc run_id req user, probe_run svc ops run_id req user,
        submit_input svc ops run_id submission user, resume_run svc ops run_id req user}.
      command s = (if is_any_operator user then run_error ''RUN_NOT_FOUND'' 404
                   else run_error ''OPERATOR_REQUIRED'' 403, s)"
    by (simp add: cancel_run_def probe_run_def submit_input_def resume_run_def probe_read_def submit_read_def
        resume_read_def require_operator_user_def transaction_def prog_bind_def approver load)
  show "record_pause_signal svc run_id signal user s =
      (if \<not> is_any_operator user then run_error ''OPERATOR_REQUIRED'' 403
       else if ps_run_id signal \<noteq> run_id then run_error ''PAUSE_SIGNAL_CORRELATION_INVALID'' 409
       else run_error ''RUN_NOT_FOUND'' 404, s)"
    by (simp add: record_pause_signal_def require_operator_user_def transaction_def prog_bind_def approver)
next
  fix p assume "get_run svc run_id user s = Ok p"
  then obtain r ad where "store_get_root run_id (uc_org_id user) s = Some r" "is_plan_application_marker (ts_application r)"
      "find_admission_by_task run_id (uc_org_id user) s = Some ad"
    by (auto simp: get_run_def res_bind_ok load_locked_ok)
  then show "\<exists>t \<in> set (tasks s). tk_task_id t = run_id \<and> tk_organization_id t = Some (uc_org_id user) \<and>
      is_plan_application_marker (tk_application t)"
    "\<exists>ad \<in> set (governed_task_admissions s). ad_task_id ad = run_id \<and> ad_organization_id ad = uc_org_id user"
    by (auto simp: store_get_root_def to_task_snapshot_def find_admission_by_task_def
        dest!: native_task_some first_where_Some split: option.splits)
qed

theorem outsiders_see_nothing_witness:
  "approve_run sample_service sample_operations sample_run sample_command (sample_approver\<lparr>uc_org_id := ''other''\<rparr>)
     sample_run_db = (run_error ''RUN_NOT_FOUND'' 404, sample_run_db)"
proof -
  let ?user = "sample_approver\<lparr>uc_org_id := ''other''\<rparr>"
  have "store_get_root sample_run (uc_org_id ?user) sample_run_db = None"
    by (simp add: store_get_root_def native_task_row_def first_where_def sample_run_db_def)
  moreover have "is_any_approver ?user" by (simp add: sample_approver_def is_any_approver_def has_role_in_def)
  ultimately show ?thesis
    using outsiders_see_nothing [of sample_run ?user sample_run_db sample_service sample_operations sample_command] by simp
qed

lemma res_bind_assoc: "res_bind (res_bind r f) g = res_bind r (\<lambda>x. res_bind (f x) g)"
  by (cases r) simp_all

section \<open>Submitting input\<close>

lemma dict_of_keys: "fst ` set (dict_of kvs) = fst ` set kvs"
  by (metis dom_map_of_conv_image_fst map_of_dict_of set_rev)



section \<open>Repeating a creation\<close>

text \<open>
  C37. Creating a run again with a request identifier that already has one never
  calls the pack and changes nothing: the run is shown if the request repeats its intent, its business
  inputs and its pack binding, and otherwise the request is refused. A root task without its admission,
  or an admission without its root, is refused as well.
\<close>

theorem creation_idempotent:
  assumes operator: "is_any_operator user" and selected: "select_binding svc request user = Ok binding"
    and adapter: "adapter_for svc binding (uc_org_id user) None = Ok adapter"
    and root: "root' = store_get_root (derive_pack_run_id (uc_org_id user) (cr_request_id request)) (uc_org_id user) s"
    and admission: "admission = first_where (\<lambda>a. ad_organization_id a = uc_org_id user \<and>
        ad_request_id a = cr_request_id request) (governed_task_admissions s)"
    and exists: "root' \<noteq> None \<or> admission \<noteq> None"
  shows "(\<exists>result. \<forall>ops. create_run svc ops request user s = (result, s)) \<and>
     ((root' = None) \<noteq> (admission = None) \<longrightarrow> create_run svc ops request user s = (state_conflict, s)) \<and>
     (\<forall>a b. root' \<noteq> None \<and> admission = Some a \<and> sv_parse_bundle svc (ad_bundle_payload a) = Some b \<and>
        ab_runtime_binding b \<noteq> None \<longrightarrow>
        create_run svc ops request user s =
          (if td_task_id (ab_task b) = derive_pack_run_id (uc_org_id user) (cr_request_id request) \<and>
              last_word (rq_user_intent_summary (ab_request b)) = intent_digest_of (cr_intent request) \<and>
              json_eq (JObj (rq_typed_inputs (ab_request b))) (JObj (cr_business_inputs request)) \<and>
              ab_runtime_binding b = Some binding
           then get_run svc (derive_pack_run_id (uc_org_id user) (cr_request_id request)) user s
           else run_error ''IDEMPOTENCY_CONFLICT'' 409, s))"
proof -
  let ?rid = "derive_pack_run_id (uc_org_id user) (cr_request_id request)"
  let ?x = "existing_run svc request user binding s"
  have some: "?x \<noteq> Ok None"
  proof (cases "root' = None \<or> admission = None")
    case True
    with exists show ?thesis
      by (cases root'; cases admission) (auto simp: existing_run_def Let_def simp flip: root admission)
  next
    case False
    then obtain r a where "root' = Some r" "admission = Some a" by auto
    then show ?thesis
      by (auto simp: existing_run_def Let_def res_bind_def simp flip: root admission split: option.split sum.split)
  qed
  have created: "create_run svc ops request user s = (case ?x of Inl e \<Rightarrow> (Inl e, s) | Inr y \<Rightarrow> (Ok (the y), s))" for ops
    using some operator selected adapter
    by (auto simp: create_run_def require_operator_user_def split: sum.split option.split)
  have first: "\<exists>result. \<forall>ops. create_run svc ops request user s = (result, s)"
    unfolding created by (cases ?x) auto
  have second: "create_run svc ops request user s = (state_conflict, s)" if "(root' = None) \<noteq> (admission = None)"
  proof -
    have "?x = state_conflict" using that
      by (cases root'; cases admission) (auto simp: existing_run_def Let_def simp flip: root admission)
    then show ?thesis by (simp add: created)
  qed
  have third: "create_run svc ops request user s =
        (if td_task_id (ab_task b) = ?rid \<and>
            last_word (rq_user_intent_summary (ab_request b)) = intent_digest_of (cr_intent request) \<and>
            json_eq (JObj (rq_typed_inputs (ab_request b))) (JObj (cr_business_inputs request)) \<and>
            ab_runtime_binding b = Some binding
         then get_run svc ?rid user s else run_error ''IDEMPOTENCY_CONFLICT'' 409, s)"
    if there: "root' \<noteq> None" "admission = Some a" "sv_parse_bundle svc (ad_bundle_payload a) = Some b"
      "ab_runtime_binding b = Some c" for a b c
  proof -
    from there(1) obtain r where "root' = Some r" by auto
    then have "?x = (if td_task_id (ab_task b) \<noteq> ?rid \<or>
           last_word (rq_user_intent_summary (ab_request b)) \<noteq> intent_digest_of (cr_intent request) \<or>
           \<not> json_eq (JObj (rq_typed_inputs (ab_request b))) (JObj (cr_business_inputs request))
        then run_error ''IDEMPOTENCY_CONFLICT'' 409
        else if c \<noteq> binding then run_error ''IDEMPOTENCY_CONFLICT'' 409
        else res_bind (get_run svc ?rid user s) (\<lambda>p. Ok (Some p)))"
      using there
      by (simp add: existing_run_def Let_def binding_for_bundle_def get_run_def res_bind_assoc flip: root admission)
    then show ?thesis
      using there(4) by (cases "get_run svc ?rid user s") (simp_all add: created)
  qed
  show ?thesis using first second third by blast
qed

definition sample_creation :: create_request where
  "sample_creation = \<lparr>cr_request_id = ''q'', cr_intent = ''pay'', cr_business_inputs = [],
     cr_pack_id = Some ''pk'', cr_pack_version = Some ''1''\<rparr>"

theorem creation_idempotent_witness:
  "create_run sample_service sample_operations sample_creation sample_operator sample_run_db =
     (run_error ''IDEMPOTENCY_CONFLICT'' 409, sample_run_db)"
proof -
  let ?b = "ra_binding sample_adapter"
  have selected: "select_binding sample_service sample_creation sample_operator = Ok ?b"
    by (simp add: select_binding_def sample_creation_def sample_service_def tenant_scoped_def require_adapter_def
        require_registered_def dict_require_def translate_def)
  have adapter: "adapter_for sample_service ?b (uc_org_id sample_operator) None = Ok sample_adapter"
    by (simp add: adapter_for_def Let_def sample_service_def tenant_scoped_def require_binding_def require_registered_def
        dict_require_def binding_key_def sample_adapter_def translate_def)
  have rid: "derive_pack_run_id (uc_org_id sample_operator) (cr_request_id sample_creation) = sample_run"
    by (simp add: sample_operator_facts sample_creation_def sample_run_def)
  have root: "store_get_root sample_run (uc_org_id sample_operator) sample_run_db \<noteq> None"
    using sample_run_native(1) by (simp add: store_get_root_def sample_operator_facts)
  have request: "rq_request_id (ab_request sample_run_bundle) = ''q''" "rq_tenant_id (ab_request sample_run_bundle) = ''org''"
    "rq_user_intent_summary (ab_request sample_run_bundle) = []" "rq_request_id (ab_request sample_bundle) = ''q''"
    "rq_tenant_id (ab_request sample_bundle) = ''org''"
    by (simp_all add: sample_run_bundle_def sample_bundle_def sample_admitted_request_def sample_request_def)
  have admission: "first_where (\<lambda>a. ad_organization_id a = uc_org_id sample_operator \<and>
      ad_request_id a = cr_request_id sample_creation) (governed_task_admissions sample_run_db) =
      Some ((admission_model sample_run_bundle 1)\<lparr>ad_task_id := sample_run\<rparr>)"
    by (simp add: first_where_def sample_run_db_def sample_operator_facts sample_creation_def admission_model_def request
        sample_run_bundle_def sample_draft_def)
  have digest: "intent_digest_of (cr_intent sample_creation) \<noteq> []"
    by (simp add: intent_digest_of_def json_digest_def sha256_nonempty)
  have parse: "sv_parse_bundle sample_service v = Some sample_run_bundle" for v by (simp add: sample_service_def)
  have bound: "ab_runtime_binding sample_run_bundle = Some ?b" by (simp add: sample_run_bundle_def)
  have "create_run sample_service sample_operations sample_creation sample_operator sample_run_db =
      (if td_task_id (ab_task sample_run_bundle) = sample_run \<and> last_word [] = intent_digest_of (cr_intent sample_creation) \<and>
          json_eq (JObj (rq_typed_inputs (ab_request sample_run_bundle))) (JObj (cr_business_inputs sample_creation)) \<and>
          ab_runtime_binding sample_run_bundle = Some ?b
       then get_run sample_service sample_run sample_operator sample_run_db else run_error ''IDEMPOTENCY_CONFLICT'' 409, sample_run_db)"
    using creation_idempotent [OF sample_operator_facts(2) selected adapter refl admission [symmetric], where ops = sample_operations]
      root parse bound by (simp add: rid request)
  then show ?thesis using digest by (simp add: last_word_def)
qed

section \<open>Results of a pack\<close>

lemma effect_backed_state [simp]: "effect_backed st org s (a\<lparr>sr_state := x\<rparr>) = effect_backed st org s a"
  by (cases "sr_attempt_id a"; cases "sr_permit_id a") (simp_all add: effect_backed_def)

lemma append_command_changes:
  assumes "append_command svc user locked c t key s = (x, u)" and "u \<noteq> s"
  shows "\<exists>e. u = s\<lparr>governance_audit_events := governance_audit_events s @ [event_model e (uc_org_id user)]\<rparr> \<and>
     je_transition e = t \<and> verify_checkpoint_native_state c t (uc_org_id user) s = Ok ()"
proof (cases x)
  case (Inl e)
  with assms skyvern.append_raises show ?thesis unfolding append_command_def by blast
next
  case (Inr c')
  from assms(1) [unfolded append_command_def Inr] show ?thesis
    by (cases rule: skyvern.append_cases) (use assms(2) in auto)
qed

text \<open>
  C38. A probe result changes a run only when the run is blocked on its
  probe and the result confirms that very task, step, permit and attempt; then exactly one event is
  added, which resolves the probe or completes the plan, and only after the authoritative rows agree:
  every completed step, the probed one included, has its native task and step completed and its
  attempt confirmed under a consumed permit. Every other result leaves the database as it is.
\<close>

theorem probe_result_needs_evidence:
  assumes run: "reflect_probe_result svc r run_id user key s = (x, u)" and changed: "u \<noteq> s"
  shows "\<exists>locked active e. load_locked svc run_id user s = Ok locked \<and>
     cp_state (lr_checkpoint locked) = Run_PROBE_BLOCKED \<and> cp_active_step (lr_checkpoint locked) = Some active \<and>
     pb_status r = Probe_CONFIRMED \<and> ck_task_id (pb_checkpoint r) = sr_native_task_id active \<and>
     ck_step_id (pb_checkpoint r) = sr_native_step_id active \<and> Some (ck_permit_id (pb_checkpoint r)) = sr_permit_id active \<and>
     Some (ck_attempt_id (pb_checkpoint r)) = sr_attempt_id active \<and>
     (\<forall>item \<in> set (cp_completed_prefix (lr_checkpoint locked)) \<union> {active}.
        native_state (uc_org_id user) s item = (Some Task_completed, Some Step_completed) \<and>
        effect_backed CONFIRMED (uc_org_id user) s item) \<and>
     u = s\<lparr>governance_audit_events := governance_audit_events s @ [event_model e (uc_org_id user)]\<rparr> \<and>
     je_transition e \<in> {Tr_PROBE_RESOLVED, Tr_PLAN_COMPLETED}"
proof -
  from run changed obtain locked where load: "load_locked svc run_id user s = Ok locked"
    by (cases "load_locked svc run_id user s") (auto simp: reflect_probe_result_def transaction_def)
  from run changed load have blocked: "cp_state (lr_checkpoint locked) = Run_PROBE_BLOCKED"
    by (auto simp: reflect_probe_result_def transaction_def split: if_splits)
  from run changed load blocked obtain c t where translated: "coordinator_probe (lr_checkpoint locked) r = Ok (Some (c, t))"
      and appended: "transaction (prog_bind (append_command svc user locked c t key) (\<lambda>_. lift_res (Ok ()))) s = (x, u)"
    by (cases "coordinator_probe (lr_checkpoint locked) r")
      (auto simp: reflect_probe_result_def transaction_def split: option.splits)
  obtain y v where append: "append_command svc user locked c t key s = (y, v)" by fastforce
  with appended changed have "v = u" by (cases y) (auto simp: transaction_def prog_bind_def)
  with append_command_changes [OF append] changed obtain e where
      u: "u = s\<lparr>governance_audit_events := governance_audit_events s @ [event_model e (uc_org_id user)]\<rparr>"
      and e: "je_transition e = t" and verified: "verify_checkpoint_native_state c t (uc_org_id user) s = Ok ()" by blast
  from translated blocked obtain active where active: "cp_active_step (lr_checkpoint locked) = Some active"
      and confirmed: "pb_status r = Probe_CONFIRMED" and ids: "ck_task_id (pb_checkpoint r) = sr_native_task_id active"
        "ck_step_id (pb_checkpoint r) = sr_native_step_id active" "Some (ck_permit_id (pb_checkpoint r)) = sr_permit_id active"
        "Some (ck_attempt_id (pb_checkpoint r)) = sr_attempt_id active"
      and c: "c = complete_active (lr_checkpoint locked) active" and t: "t \<in> {Tr_PROBE_RESOLVED, Tr_PLAN_COMPLETED}"
    by (cases "cp_active_step (lr_checkpoint locked)")
      (auto simp: coordinator_probe_def Let_def split: if_splits)
  have "\<forall>item \<in> set (cp_completed_prefix c). native_state (uc_org_id user) s item = (Some Task_completed, Some Step_completed) \<and>
      effect_backed CONFIRMED (uc_org_id user) s item"
    using verified by (auto simp: verify_checkpoint_native_state_def res_bind_ok each_ok completed_ok)
  moreover have "cp_completed_prefix c = cp_completed_prefix (lr_checkpoint locked) @ [active\<lparr>sr_state := Ref_COMPLETED\<rparr>]"
    by (simp add: c complete_active_def Let_def split: list.split)
  ultimately have "\<forall>item \<in> set (cp_completed_prefix (lr_checkpoint locked)) \<union> {active}.
      native_state (uc_org_id user) s item = (Some Task_completed, Some Step_completed) \<and>
      effect_backed CONFIRMED (uc_org_id user) s item"
    by (auto simp: effect_backed_state)
  with load blocked active confirmed ids u e t show ?thesis by blast
qed

text \<open>The concrete run blocked on a probe, after its step turned out to have completed.\<close>

definition sample_blocked_step :: plan_step_ref where
  "sample_blocked_step = (sample_ref ''s1'' Ref_PROBE_BLOCKED)\<lparr>sr_permit_id := Some ''permit'',
     sr_attempt_id := Some ''ea'', sr_probe_ref := Some ''pr''\<rparr>"

definition sample_blocked :: plan_event where
  "sample_blocked = journal_event ((after_event sample_first)\<lparr>cp_state := Run_PROBE_BLOCKED,
     cp_active_step := Some sample_blocked_step\<rparr>) Tr_PROBE_BLOCKED [(''plan'', ''d'')] 2 None (Some ''k'')"

definition sample_blocked_db :: agent_db where
  "sample_blocked_db = sample_running_db
     \<lparr>governance_audit_events := [(event_model sample_first ''org'')\<lparr>ga_event_id := ''e1''\<rparr>,
        (event_model sample_blocked ''org'')\<lparr>ga_event_id := ''e2''\<rparr>],
      tasks := [hd (tasks sample_run_db), (tasks sample_run_db ! 1)\<lparr>tk_status := Task_completed\<rparr>],
      steps := [(hd (steps sample_run_db))\<lparr>st_status := Step_completed\<rparr>],
      execution_attempts := [\<lparr>at_attempt_id = ''ea'', at_task_id = ''task'', at_step_id = ''s1'', at_contract_id = ''c'',
        at_permit_id = Some ''permit'', at_pending_action_id = None, at_action_fingerprint = ''f'',
        at_observation_hash = ''o'', at_status = CONFIRMED, at_idempotency_key = None,
        at_idempotency_key_digest = Some ''i'', at_execution_effect = Some ''external_write'',
        at_result_probe_ref = Some ''pr'', at_result_probe = None, at_error_message = None,
        at_started_at = Some 1, at_completed_at = Some 2, at_created_at = 1\<rparr>],
      execution_permits := [\<lparr>pm_permit_id = ''permit'', pm_task_id = ''task'', pm_step_id = ''s1'', pm_contract_id = ''c'',
        pm_action_fingerprint = ''f'', pm_observation_hash = ''o'', pm_policy_decision_id = ''pd'',
        pm_decision_payload = NotAnObject, pm_status = Permit_consumed, pm_issued_at = 0, pm_expires_at = 9,
        pm_used_at = Some 1\<rparr>]\<rparr>"

definition sample_blocked_run :: locked_run where
  "sample_blocked_run = sample_locked\<lparr>lr_checkpoint := after_event sample_blocked,
     lr_events := [sample_first, sample_blocked], lr_authority_digests := je_authority_digests sample_blocked\<rparr>"

lemma sample_blocked_parts:
  "after_event sample_blocked = (after_event sample_first)\<lparr>cp_state := Run_PROBE_BLOCKED,
     cp_active_step := Some sample_blocked_step, cp_journal_sequence := 2, cp_journal_digest := je_event_digest sample_blocked\<rparr>"
  "je_sequence sample_blocked = 2" "je_transition sample_blocked = Tr_PROBE_BLOCKED"
  by (simp_all add: sample_blocked_def after_event_def sample_first_def sample_plan_start_def sample_single_def
      sample_checkpoint_def)

lemma sample_blocked_valid: "event_valid sample_blocked"
proof -
  have "checkpoint_valid (after_event sample_first)"
    using sample_events_valid(1) by (simp add: event_valid_def checkpoint_valid_def after_event_def)
  then have "checkpoint_valid ((after_event sample_first)\<lparr>cp_state := Run_PROBE_BLOCKED, cp_active_step := Some sample_blocked_step\<rparr>)"
    by (simp add: checkpoint_valid_def sample_blocked_step_def step_ref_valid_def sample_ref_def hex_genesis)
  then show ?thesis unfolding sample_blocked_def by (rule journal_event_valid)
qed

lemma sample_blocked_replays: "replay_plan_journal [sample_first, sample_blocked] = Ok (after_event sample_blocked)"
proof -
  have chain: "journal_chain [sample_first, sample_second]" using sample_run_replays by (simp add: replay_ok_iff)
  have "event_sound sample_blocked"
    unfolding sample_blocked_def journal_event_sound by (simp add: validate_transition_checkpoint_def)
  moreover have "event_follows sample_first sample_blocked"
    unfolding sample_blocked_def
    by (rule event_follows_checkpoint) (use chain in \<open>simp_all add: journal_chain_def sample_first_parts terminal_transition_def\<close>)
  ultimately show ?thesis
    using chain by (simp add: replay_ok_iff journal_chain_def upto.simps sample_blocked_parts)
qed

lemma sample_blocked_loads:
  "load_locked sample_service sample_run sample_operator sample_blocked_db = Ok sample_blocked_run"
proof -
  have events: "load_events sample_run sample_blocked_db = Ok [sample_first, sample_blocked]"
    using sample_events_valid sample_blocked_valid
    by (simp add: load_events_def sample_blocked_db_def journal_rows_def event_model_def plan_payload_dump
        decode_event_dump [THEN iffD2] sample_blocked_parts) (simp add: sample_blocked_def sample_first_parts)
  have root: "store_get_root sample_run ''org'' sample_blocked_db = Some (lr_root sample_locked)"
    by (simp add: store_get_root_def native_task_row_def first_where_def sample_blocked_db_def sample_run_db_def sample_locked_def)
  have "find_admission_by_task sample_run ''org'' sample_blocked_db = find_admission_by_task sample_run ''org'' sample_run_db"
    by (simp add: find_admission_by_task_def sample_blocked_db_def sample_running_db_def)
  moreover from sample_hypotheses(1) obtain r ad b es c where
      "store_get_root sample_run ''org'' sample_run_db = Some r" "is_plan_application_marker (ts_application r)"
      "find_admission_by_task sample_run ''org'' sample_run_db = Some ad"
      "sv_parse_bundle sample_service (ad_bundle_payload ad) = Some b"
      "ts_task_id r = derive_pack_run_id ''org'' (rq_request_id (ab_request b))" "td_task_id (ab_task b) = ts_task_id r"
    and whole: "sample_locked = \<lparr>lr_root = r, lr_bundle = b, lr_checkpoint = c, lr_events = es,
      lr_authority_digests = je_authority_digests (last es)\<rparr>"
    unfolding load_locked_ok sample_approver_facts by metis
  ultimately show ?thesis
    unfolding load_locked_ok sample_operator_facts sample_blocked_run_def
    using events sample_blocked_replays root unfolding whole by auto
qed

lemma sample_blocked_rows:
  "native_state ''org'' sample_blocked_db sample_blocked_step = (Some Task_completed, Some Step_completed)"
  "effect_backed CONFIRMED ''org'' sample_blocked_db sample_blocked_step"
  "ga_event_id ` set (governance_audit_events sample_blocked_db) = {''e1'', ''e2''}"
  using sample_run_not_task
  by (simp_all add: native_state_def native_task_row_def native_step_row_def first_where_def effect_backed_def
      task_of_organization_def sample_blocked_db_def sample_blocked_step_def sample_run_db_def sample_native_db_def
      empty_agent_db_def sample_ref_def)

theorem probe_result_needs_evidence_witness:
  "\<exists>u e. reflect_probe_result sample_service confirmed_result sample_run sample_operator ''k'' sample_blocked_db = (Ok (), u) \<and>
     u \<noteq> sample_blocked_db \<and> je_transition e \<in> {Tr_PROBE_RESOLVED, Tr_PLAN_COMPLETED} \<and>
     u = sample_blocked_db\<lparr>governance_audit_events := governance_audit_events sample_blocked_db @ [event_model e ''org'']\<rparr>"
proof -
  let ?s = sample_blocked_db and ?c = "complete_active (after_event sample_blocked) sample_blocked_step"
  have parts: "lr_checkpoint sample_blocked_run = after_event sample_blocked" "lr_root sample_blocked_run = lr_root sample_locked"
    by (simp_all add: sample_blocked_run_def)
  have completed: "cp_completed_prefix ?c = [sample_blocked_step\<lparr>sr_state := Ref_COMPLETED\<rparr>]" "cp_remaining_suffix ?c = []"
      "cp_superseded_suffix ?c = []" "cp_active_step ?c = None"
    by (simp_all add: complete_active_def sample_blocked_parts sample_first_parts Let_def)
  have same: "same_run ?c (after_event sample_blocked)" by (simp add: same_run_def complete_active_def Let_def)
  have translated: "coordinator_probe (after_event sample_blocked) confirmed_result = Ok (Some (?c, Tr_PLAN_COMPLETED))"
    using completed(4)
    by (simp add: coordinator_probe_def sample_blocked_parts confirmed_result_def sample_execution_def
        sample_blocked_step_def sample_ref_def Let_def)
  have "verify_completed ''org'' ?s (sample_blocked_step\<lparr>sr_state := Ref_COMPLETED\<rparr>) = Ok ()"
    by (simp add: completed_ok sample_blocked_rows)
  then have verified: "verify_checkpoint_native_state ?c Tr_PLAN_COMPLETED ''org'' ?s = Ok ()"
    by (simp add: verify_checkpoint_native_state_def completed)
  have root: "store_get_root sample_run ''org'' ?s = Some (lr_root sample_locked)"
    by (simp add: store_get_root_def native_task_row_def first_where_def sample_blocked_db_def sample_run_db_def sample_locked_def)
  have "\<exists>x u. append_command sample_service sample_operator sample_blocked_run ?c Tr_PLAN_COMPLETED ''k'' ?s = (Ok x, u) \<and> u \<noteq> ?s"
  proof -
    let ?e = "journal_event ?c Tr_PLAN_COMPLETED (lr_authority_digests sample_blocked_run) (sv_now sample_service) None (Some ''k'')"
    let ?u = "?s\<lparr>governance_audit_events := governance_audit_events ?s @ [event_model ?e ''org'']\<rparr>"
    have "governance_audit_events ?u \<noteq> governance_audit_events ?s" by simp
    then have "?u \<noteq> ?s" by metis
    moreover have "append_command sample_service sample_operator sample_blocked_run ?c Tr_PLAN_COMPLETED ''k'' ?s = (Ok (after_event ?e), ?u)"
      using append_command_runs [OF sample_blocked_loads _ _ refl _ sample_root_marker _ _ refl, of ?c Tr_PLAN_COMPLETED "''k''"]
        root verified same sample_blocked_rows(3) sample_fresh
      by (simp add: parts sample_operator_facts appendable_def sample_blocked_parts sample_first_parts)
    ultimately show ?thesis by blast
  qed
  then obtain x u where u: "append_command sample_service sample_operator sample_blocked_run ?c Tr_PLAN_COMPLETED ''k'' ?s = (Ok x, u)"
    "u \<noteq> ?s" by blast
  have run: "reflect_probe_result sample_service confirmed_result sample_run sample_operator ''k'' ?s = (Ok (), u)"
    using u translated
    by (simp add: reflect_probe_result_def transaction_def sample_blocked_loads parts prog_bind_def)
      (simp add: sample_blocked_parts)
  from probe_result_needs_evidence [OF run u(2)] run u(2) show ?thesis unfolding sample_operator_facts by blast
qed

end
