(* ===== verification/BrowserLoop.thy ===== *)
theory BrowserLoop
  imports PackRuntime Profiles
begin

text \<open>
  \<open>enterprise/browser_loop/contracts.py\<close>, \<open>ports.py\<close> and \<open>loop.py\<close>: the observe, decide, enforce, act
  and verify loop. The ports (browser runtime, model, policy, verifier, event sink, domain pack, clock)
  are programs on a world of any type, so a call of one may change anything outside the loop; the
  loop's own mutable state is the record around it. The loop bound is the recursion of \<open>loop_from\<close>.
\<close>

section \<open>Contracts\<close>

datatype action_kind = Kind_CLICK | Kind_INPUT_TEXT | Kind_SELECT_OPTION | Kind_GOTO_URL | Kind_KEYPRESS
  | Kind_SCROLL | Kind_WAIT

fun action_kind_value :: "action_kind \<Rightarrow> string" where
  "action_kind_value Kind_CLICK = ''click''"
| "action_kind_value Kind_INPUT_TEXT = ''input_text''"
| "action_kind_value Kind_SELECT_OPTION = ''select_option''"
| "action_kind_value Kind_GOTO_URL = ''goto_url''"
| "action_kind_value Kind_KEYPRESS = ''keypress''"
| "action_kind_value Kind_SCROLL = ''scroll''"
| "action_kind_value Kind_WAIT = ''wait''"

datatype decision_kind = Decide_ACTION | Decide_SUCCESS | Decide_FAILURE

fun decision_kind_value :: "decision_kind \<Rightarrow> string" where
  "decision_kind_value Decide_ACTION = ''action''"
| "decision_kind_value Decide_SUCCESS = ''success''"
| "decision_kind_value Decide_FAILURE = ''failure''"

datatype decision_source = From_DOMAIN_PACK | From_MODEL

fun decision_source_value :: "decision_source \<Rightarrow> string" where
  "decision_source_value From_DOMAIN_PACK = ''domain_pack''"
| "decision_source_value From_MODEL = ''model''"

datatype policy_disposition = Policy_ALLOW | Policy_DENY | Policy_REQUIRE_APPROVAL | Policy_REOBSERVE

fun policy_disposition_value :: "policy_disposition \<Rightarrow> string" where
  "policy_disposition_value Policy_ALLOW = ''allow''"
| "policy_disposition_value Policy_DENY = ''deny''"
| "policy_disposition_value Policy_REQUIRE_APPROVAL = ''require_approval''"
| "policy_disposition_value Policy_REOBSERVE = ''reobserve''"

datatype verification_disposition = Verify_SUCCEEDED | Verify_CONTINUE | Verify_RETRY | Verify_FAILED
  | Verify_UNKNOWN

fun verification_value :: "verification_disposition \<Rightarrow> string" where
  "verification_value Verify_SUCCEEDED = ''succeeded''"
| "verification_value Verify_CONTINUE = ''continue''"
| "verification_value Verify_RETRY = ''retry''"
| "verification_value Verify_FAILED = ''failed''"
| "verification_value Verify_UNKNOWN = ''unknown''"

datatype loop_status = Loop_SUCCEEDED | Loop_FAILED | Loop_UNKNOWN | Loop_AWAITING_APPROVAL

fun loop_status_value :: "loop_status \<Rightarrow> string" where
  "loop_status_value Loop_SUCCEEDED = ''SUCCEEDED''"
| "loop_status_value Loop_FAILED = ''FAILED''"
| "loop_status_value Loop_UNKNOWN = ''UNKNOWN''"
| "loop_status_value Loop_AWAITING_APPROVAL = ''AWAITING_APPROVAL''"

datatype session_mode = Session_HEADLESS | Session_HEADED | Session_REMOTE_INTERACTIVE

record session_policy =
  sp_mode :: session_mode
  sp_allow_human_takeover :: bool
  sp_persistent_context :: bool
  sp_reason :: "string option"

definition validate_session_policy :: "session_policy \<Rightarrow> session_policy res" where
  "validate_session_policy p =
     (if case sp_reason p of None \<Rightarrow> False | Some r \<Rightarrow> 240 < length r
      then Raise ValueError ''validation error for BrowserSessionPolicy''
      else if sp_mode p = Session_REMOTE_INTERACTIVE \<and> \<not> sp_allow_human_takeover p
      then Raise ValueError ''remote_interactive browser sessions require human takeover''
      else Ok p)"

record run_context =
  rc_run_id :: string
  rc_task_id :: string
  rc_step_id :: string
  rc_goal :: string
  rc_pack_id :: "string option"
  rc_pack_version :: "string option"
  rc_capability_id :: "string option"
  rc_contract_id :: "string option"
  rc_metadata :: jobject

definition validate_run_context :: "run_context \<Rightarrow> run_context res" where
  "validate_run_context r =
     (let values = [rc_pack_id r, rc_pack_version r, rc_capability_id r]
      in if rc_run_id r = [] \<or> rc_task_id r = [] \<or> rc_step_id r = [] \<or> rc_goal r = []
      then Raise ValueError ''validation error for BrowserLoopRunContext''
      else if list_ex (\<lambda>v. v \<noteq> None) values \<and> \<not> list_all (\<lambda>v. v \<noteq> None) values
      then Raise ValueError ''Domain Pack execution requires pack_id, pack_version, and capability_id''
      else Ok r)"

record browser_element =
  be_element_id :: string
  be_tag_name :: string
  be_role :: "string option"
  be_name :: "string option"
  be_text :: "string option"
  be_enabled :: bool

record browser_frame =
  bf_frame_id :: string
  bf_url :: string
  bf_name :: "string option"
  bf_parent_frame_id :: "string option"

record raw_observation =
  ro_url :: string
  ro_title :: "string option"
  ro_page_html :: string
  ro_model_dom :: string
  ro_screenshots :: "string list"
  ro_elements :: "browser_element list"
  ro_iframes :: "browser_frame list"
  ro_captured_at :: time

record loop_observation =
  lo_observation_id :: string
  lo_snapshot_hash :: string
  lo_sequence :: nat
  lo_url :: string
  lo_title :: "string option"
  lo_model_dom :: string
  lo_screenshots :: "string list"
  lo_elements :: "browser_element list"
  lo_iframes :: "browser_frame list"
  lo_captured_at :: time

record model_input =
  mi_observation_id :: string
  mi_goal :: string
  mi_url :: string
  mi_dom :: string
  mi_screenshots :: "string list"
  mi_iframes :: "browser_frame list"
  mi_allowed_action_kinds :: "action_kind list"

record browser_action =
  ac_kind :: action_kind
  ac_operation :: string
  ac_element_id :: "string option"
  ac_text :: "string option"
  ac_option_value :: "string option"
  ac_url :: "string option"
  ac_keys :: "string list"
  ac_scroll_x :: int
  ac_scroll_y :: int
  ac_wait_seconds :: rat

definition element_action_kinds :: "action_kind set" where
  "element_action_kinds = {Kind_CLICK, Kind_INPUT_TEXT, Kind_SELECT_OPTION, Kind_KEYPRESS}"

definition validate_action_shape :: "browser_action \<Rightarrow> browser_action res" where
  "validate_action_shape a = checks
     [(\<not> key_ok (ac_operation a) \<or> ac_wait_seconds a < 0 \<or> 30 < ac_wait_seconds a,
       Exc ValueError ''validation error for BrowserAction''),
      (ac_kind a \<in> element_action_kinds \<and> \<not> truthy (ac_element_id a),
       Exc ValueError (action_kind_value (ac_kind a) @ '' requires element_id'')),
      (ac_kind a = Kind_INPUT_TEXT \<and> ac_text a = None, Exc ValueError ''input_text requires text''),
      (ac_kind a = Kind_SELECT_OPTION \<and> ac_option_value a = None,
       Exc ValueError ''select_option requires option_value''),
      (ac_kind a = Kind_GOTO_URL \<and> \<not> truthy (ac_url a), Exc ValueError ''goto_url requires url''),
      (ac_kind a = Kind_KEYPRESS \<and> ac_keys a = [], Exc ValueError ''keypress requires keys''),
      (ac_kind a = Kind_SCROLL \<and> ac_scroll_x a = 0 \<and> ac_scroll_y a = 0,
       Exc ValueError ''scroll requires a non-zero delta''),
      (ac_kind a = Kind_WAIT \<and> ac_wait_seconds a \<le> 0, Exc ValueError ''wait requires a positive duration'')]
     (Ok a)"

text \<open>\<open>model_dump(mode="json", exclude_none=True)\<close> of an action.\<close>

definition action_dump :: "browser_action \<Rightarrow> jobject" where
  "action_dump a =
     (let opt = (\<lambda>k v. case v of None \<Rightarrow> [] | Some x \<Rightarrow> [(k, JStr x)])
      in [(''kind'', JStr (action_kind_value (ac_kind a))), (''operation'', JStr (ac_operation a))] @
         opt ''element_id'' (ac_element_id a) @ opt ''text'' (ac_text a) @
         opt ''option_value'' (ac_option_value a) @ opt ''url'' (ac_url a) @
         [(''keys'', JArr (map JStr (ac_keys a))), (''scroll_x'', JInt (ac_scroll_x a)),
          (''scroll_y'', JInt (ac_scroll_y a)), (''wait_seconds'', JFloat (ac_wait_seconds a))])"

record action_decision =
  dn_kind :: decision_kind
  dn_observation_id :: string
  dn_action :: "browser_action option"
  dn_reason_code :: string

definition validate_decision :: "action_decision \<Rightarrow> action_decision res" where
  "validate_decision d =
     (if \<not> event_code_ok (dn_reason_code d) then Raise ValueError ''validation error for ActionDecision''
      else if (dn_kind d = Decide_ACTION) \<noteq> (dn_action d \<noteq> None)
      then Raise ValueError ''Only an action decision may contain an action'' else Ok d)"

record policy_authorization =
  pz_disposition :: policy_disposition
  pz_reason_code :: string
  pz_authorization :: "execution_authorization option"
  pz_execution_profile :: "execution_profile option"
  pz_approval_ref :: "string option"

definition validate_authority :: "policy_authorization \<Rightarrow> policy_authorization res" where
  "validate_authority p =
     (let allow = (pz_disposition p = Policy_ALLOW) in checks
       [(\<not> event_code_ok (pz_reason_code p) \<or>
           (case pz_approval_ref p of None \<Rightarrow> False | Some r \<Rightarrow> r = [] \<or> 256 < length r),
         Exc ValueError ''validation error for PolicyAuthorization''),
        (allow \<and> (pz_authorization p = None \<or> pz_execution_profile p = None),
         Exc ValueError ''Allowed actions require authorization and an execution profile''),
        (allow \<and> pz_approval_ref p \<noteq> None,
         Exc ValueError ''Allowed actions cannot retain a pending approval reference''),
        (\<not> allow \<and> (pz_authorization p \<noteq> None \<or> pz_execution_profile p \<noteq> None),
         Exc ValueError ''Non-allowed actions cannot carry execution authority''),
        ((pz_disposition p = Policy_REQUIRE_APPROVAL) \<noteq> (pz_approval_ref p \<noteq> None),
         Exc ValueError ''Approval disposition requires exactly one approval reference'')]
       (Ok p))"

record authorized_action =
  az_action :: browser_action
  az_action_fingerprint :: string
  az_observation_id :: string
  az_expected_snapshot_hash :: string
  az_authorization :: execution_authorization
  az_execution_profile :: execution_profile

record browser_result =
  br_completed :: bool
  br_effect_may_have_started :: bool
  br_detail_code :: string
  br_pending_result_probe :: bool
  br_execution_checkpoint :: "execution_checkpoint option"

definition validate_browser_result :: "browser_result \<Rightarrow> browser_result res" where
  "validate_browser_result r =
     (if \<not> event_code_ok (br_detail_code r) then Raise ValueError ''validation error for BrowserActionResult''
      else if br_pending_result_probe r \<noteq> (br_execution_checkpoint r \<noteq> None)
      then Raise ValueError ''Pending result probe requires exactly one execution checkpoint'' else Ok r)"

record verification_request =
  vq_run :: run_context
  vq_before :: loop_observation
  vq_after :: loop_observation
  vq_decision :: action_decision
  vq_source :: decision_source
  vq_action_result :: "browser_result option"
  vq_authorized_effect :: "execution_effect option"

record verification_result =
  vf_disposition :: verification_disposition
  vf_reason_code :: string
  vf_evidence_refs :: "string list"

datatype loop_stage = Stage_observation | Stage_decision | Stage_policy | Stage_action | Stage_verification
  | Stage_terminal

fun loop_stage_value :: "loop_stage \<Rightarrow> string" where
  "loop_stage_value Stage_observation = ''observation''"
| "loop_stage_value Stage_decision = ''decision''"
| "loop_stage_value Stage_policy = ''policy''"
| "loop_stage_value Stage_action = ''action''"
| "loop_stage_value Stage_verification = ''verification''"
| "loop_stage_value Stage_terminal = ''terminal''"

record loop_event =
  le_sequence :: nat
  le_run_id :: string
  le_task_id :: string
  le_step_id :: string
  le_stage :: loop_stage
  le_code :: string
  le_occurred_at :: time
  le_observation_id :: "string option"
  le_action_fingerprint :: "string option"
  le_details :: jobject

definition validate_loop_event :: "loop_event \<Rightarrow> loop_event res" where
  "validate_loop_event e =
     (if le_sequence e = 0 \<or> \<not> event_code_ok (le_code e)
      then Raise ValueError ''validation error for BrowserLoopEvent'' else Ok e)"

record loop_report =
  lp_run_id :: string
  lp_task_id :: string
  lp_step_id :: string
  lp_status :: loop_status
  lp_reason_code :: string
  lp_iterations :: nat
  lp_retries_used :: nat
  lp_observations :: nat
  lp_actions_executed :: nat
  lp_last_observation_id :: "string option"
  lp_approval_ref :: "string option"
  lp_execution_checkpoint :: "execution_checkpoint option"
  lp_events :: "loop_event list"

record loop_config =
  lc_max_iterations :: nat
  lc_max_retries :: nat
  lc_max_observation_age_seconds :: rat

definition loop_config_ok :: "loop_config \<Rightarrow> bool" where
  "loop_config_ok c = (1 \<le> lc_max_iterations c \<and> lc_max_iterations c \<le> 200 \<and> lc_max_retries c \<le> 20 \<and>
     0 < lc_max_observation_age_seconds c \<and> lc_max_observation_age_seconds c \<le> 300)"

definition default_loop_config :: loop_config where
  "default_loop_config = \<lparr>lc_max_iterations = 20, lc_max_retries = 3, lc_max_observation_age_seconds = 30\<rparr>"

section \<open>Ports and the state of a run\<close>

record 'w browser_runtime =
  rt_observe :: "('w, raw_observation) prog"
  rt_fresh_observation :: "('w, raw_observation) prog option"
  rt_execute :: "authorized_action \<Rightarrow> ('w, browser_result) prog"

record 'w loop_ports =
  pt_runtime :: "'w browser_runtime"
  pt_model :: "model_input \<Rightarrow> ('w, action_decision) prog"
  pt_prepare_input :: "run_context \<Rightarrow> loop_observation \<Rightarrow> ('w, model_input) prog"
  pt_authorize :: "run_context \<Rightarrow> loop_observation \<Rightarrow> browser_action \<Rightarrow> string \<Rightarrow> ('w, policy_authorization) prog"
  pt_verify :: "verification_request \<Rightarrow> ('w, verification_result) prog"
  pt_emit :: "loop_event \<Rightarrow> ('w, unit) prog"
  pt_domain :: "(pack_runtime_binding \<times> (run_context \<Rightarrow> loop_observation \<Rightarrow> ('w, action_decision option) prog)) option"
  pt_clock :: "'w \<Rightarrow> time \<times> 'w"
  pt_secret :: string
  pt_config :: loop_config

text \<open>\<open>AgentPactBrowserLoop.__init__\<close>\<close>

definition make_browser_loop :: "'w loop_ports \<Rightarrow> 'w loop_ports res" where
  "make_browser_loop p =
     (if pt_secret p = [] then Raise ValueError ''Browser loop requires a non-empty integrity secret'' else Ok p)"

text \<open>\<open>_RunState\<close>, with the world the ports work on.\<close>

record 'w loop_state =
  ls_iterations :: nat
  ls_retries_used :: nat
  ls_observations :: nat
  ls_actions_executed :: nat
  ls_last_observation_id :: "string option"
  ls_last_effect :: execution_effect
  ls_effect_may_have_started :: bool
  ls_events :: "loop_event list"
  ls_world :: 'w

definition initial_loop_state :: "'w \<Rightarrow> 'w loop_state" where
  "initial_loop_state w = \<lparr>ls_iterations = 0, ls_retries_used = 0, ls_observations = 0, ls_actions_executed = 0,
     ls_last_observation_id = None, ls_last_effect = NONE, ls_effect_may_have_started = False, ls_events = [],
     ls_world = w\<rparr>"

definition on_world :: "('w, 'a) prog \<Rightarrow> ('w loop_state, 'a) prog" where
  "on_world m s = (case m (ls_world s) of (r, w) \<Rightarrow> (r, s\<lparr>ls_world := w\<rparr>))"

definition update_state :: "('w loop_state \<Rightarrow> 'w loop_state) \<Rightarrow> ('w loop_state, unit) prog" where
  "update_state f s = (Ok (), f s)"

definition read_clock :: "'w loop_ports \<Rightarrow> ('w loop_state, time) prog" where
  "read_clock p = on_world (\<lambda>w. case pt_clock p w of (now, v) \<Rightarrow> (Ok now, v))"

section \<open>Events and reports\<close>

definition emit_event ::
  "'w loop_ports \<Rightarrow> run_context \<Rightarrow> loop_stage \<Rightarrow> string \<Rightarrow> string option \<Rightarrow> string option \<Rightarrow> jobject \<Rightarrow>
   ('w loop_state, unit) prog" where
  "emit_event p run stage event_code observation_id fingerprint details =
     prog_bind (read_clock p) (\<lambda>now.
     prog_bind (lift_read (\<lambda>s. validate_loop_event
       \<lparr>le_sequence = length (ls_events s) + 1, le_run_id = rc_run_id run, le_task_id = rc_task_id run,
        le_step_id = rc_step_id run, le_stage = stage, le_code = event_code, le_occurred_at = now,
        le_observation_id = observation_id, le_action_fingerprint = fingerprint, le_details = details\<rparr>)) (\<lambda>event.
     prog_bind (on_world (pt_emit p event)) (\<lambda>_.
     update_state (\<lambda>s. s\<lparr>ls_events := ls_events s @ [event]\<rparr>))))"

definition report_of ::
  "run_context \<Rightarrow> loop_status \<Rightarrow> string \<Rightarrow> string option \<Rightarrow> execution_checkpoint option \<Rightarrow> 'w loop_state \<Rightarrow> loop_report" where
  "report_of run status reason approval checkpoint s =
     \<lparr>lp_run_id = rc_run_id run, lp_task_id = rc_task_id run, lp_step_id = rc_step_id run, lp_status = status,
      lp_reason_code = reason, lp_iterations = ls_iterations s, lp_retries_used = ls_retries_used s,
      lp_observations = ls_observations s, lp_actions_executed = ls_actions_executed s,
      lp_last_observation_id = ls_last_observation_id s, lp_approval_ref = approval,
      lp_execution_checkpoint = checkpoint, lp_events = ls_events s\<rparr>"

text \<open>\<open>_terminal\<close>: when the sink fails the status is only what the run itself knows.\<close>

definition terminal_report ::
  "'w loop_ports \<Rightarrow> run_context \<Rightarrow> loop_status \<Rightarrow> string \<Rightarrow> string option \<Rightarrow> execution_checkpoint option \<Rightarrow>
   ('w loop_state, loop_report) prog" where
  "terminal_report p run status reason approval checkpoint s =
     (case emit_event p run Stage_terminal reason (ls_last_observation_id s) None
             [(''status'', JStr (loop_status_value status))] s of
        (Inl _, t) \<Rightarrow> (Ok (report_of run (if ls_effect_may_have_started t then Loop_UNKNOWN else Loop_FAILED)
                          ''EVENT_SINK_FAILED'' approval checkpoint t), t)
      | (Inr _, t) \<Rightarrow> (Ok (report_of run status reason approval checkpoint t), t))"

text \<open>A pass of the loop body returns the report or goes on with an observation.\<close>

datatype loop_flow = Halt loop_report | Next loop_observation

definition halt_with ::
  "'w loop_ports \<Rightarrow> run_context \<Rightarrow> loop_status \<Rightarrow> string \<Rightarrow> ('w loop_state, loop_flow) prog" where
  "halt_with p run status reason =
     prog_bind (terminal_report p run status reason None None) (\<lambda>r. lift_res (Ok (Halt r)))"

section \<open>Observing\<close>

definition bind_observation :: "string \<Rightarrow> raw_observation \<Rightarrow> nat \<Rightarrow> loop_observation" where
  "bind_observation secret raw sequence =
     \<lparr>lo_observation_id = observation_hash (ro_url raw) (ro_page_html raw) (Some secret),
      lo_snapshot_hash = sha256 (ro_url raw @ [CHR 0x0A] @ ro_page_html raw), lo_sequence = sequence,
      lo_url = ro_url raw, lo_title = ro_title raw, lo_model_dom = ro_model_dom raw,
      lo_screenshots = ro_screenshots raw, lo_elements = ro_elements raw, lo_iframes = ro_iframes raw,
      lo_captured_at = ro_captured_at raw\<rparr>"

definition observe_page :: "'w loop_ports \<Rightarrow> run_context \<Rightarrow> ('w loop_state, loop_observation) prog" where
  "observe_page p run =
     prog_bind (on_world (case rt_fresh_observation (pt_runtime p) of
         Some fresh \<Rightarrow> fresh | None \<Rightarrow> rt_observe (pt_runtime p))) (\<lambda>raw.
     prog_bind (update_state (\<lambda>s. s\<lparr>ls_observations := ls_observations s + 1\<rparr>)) (\<lambda>_.
     prog_bind (lift_read (\<lambda>s. Ok (bind_observation (pt_secret p) raw (ls_observations s)))) (\<lambda>observation.
     prog_bind (update_state (\<lambda>s. s\<lparr>ls_last_observation_id := Some (lo_observation_id observation)\<rparr>)) (\<lambda>_.
     prog_bind (emit_event p run Stage_observation ''OBSERVATION_CAPTURED'' (Some (lo_observation_id observation))
       None [(''sequence'', JInt (int (lo_sequence observation)))]) (\<lambda>_.
     lift_res (Ok observation))))))"

definition consume_retry :: "'w loop_ports \<Rightarrow> ('w loop_state, bool) prog" where
  "consume_retry p s =
     (if lc_max_retries (pt_config p) \<le> ls_retries_used s then (Ok False, s)
      else (Ok True, s\<lparr>ls_retries_used := ls_retries_used s + 1\<rparr>))"

definition retry_reobserve :: "'w loop_ports \<Rightarrow> run_context \<Rightarrow> ('w loop_state, loop_observation option) prog" where
  "retry_reobserve p run =
     prog_bind (consume_retry p) (\<lambda>granted.
     if \<not> granted then lift_res (Ok None)
     else trying (observe_page p run) (\<lambda>_. lift_res (Ok None)) (\<lambda>o'. lift_res (Ok (Some o'))))"

definition reobserve_or_halt :: "'w loop_ports \<Rightarrow> run_context \<Rightarrow> ('w loop_state, loop_flow) prog" where
  "reobserve_or_halt p run =
     prog_bind (retry_reobserve p run) (\<lambda>refreshed. case refreshed of
       None \<Rightarrow> halt_with p run Loop_FAILED ''RETRY_BUDGET_EXHAUSTED''
     | Some observation \<Rightarrow> lift_res (Ok (Next observation)))"

definition observation_is_stale :: "loop_config \<Rightarrow> loop_observation \<Rightarrow> time \<Rightarrow> bool" where
  "observation_is_stale c observation now =
     (let age = rat_of_int (now - lo_captured_at observation) / 1000000
      in lc_max_observation_age_seconds c < age \<or> age < - 5)"

section \<open>Deciding\<close>

definition domain_provider_matches :: "'w loop_ports \<Rightarrow> run_context \<Rightarrow> bool" where
  "domain_provider_matches p run =
     (case pt_domain p of
        None \<Rightarrow> False
      | Some (b, _) \<Rightarrow> rc_pack_id run \<noteq> None \<and> Some (rb_pack_id b) = rc_pack_id run \<and>
          Some (rb_pack_version b) = rc_pack_version run \<and>
          (case rc_capability_id run of None \<Rightarrow> False | Some c \<Rightarrow> c \<in> set (rb_capability_ids b)))"

definition decide_by_model ::
  "'w loop_ports \<Rightarrow> run_context \<Rightarrow> loop_observation \<Rightarrow> ('w loop_state, action_decision \<times> decision_source) prog" where
  "decide_by_model p run observation =
     prog_bind (on_world (pt_prepare_input p run observation)) (\<lambda>input.
     prog_bind (lift_res (compare_digest (mi_observation_id input) (lo_observation_id observation))) (\<lambda>same.
     prog_bind (demand same (Exc ValueError ''Policy returned model input for a different observation'')) (\<lambda>_.
     prog_bind (on_world (pt_model p input)) (\<lambda>decision. lift_res (Ok (decision, From_MODEL))))))"

definition decide_next ::
  "'w loop_ports \<Rightarrow> run_context \<Rightarrow> loop_observation \<Rightarrow> ('w loop_state, action_decision \<times> decision_source) prog" where
  "decide_next p run observation =
     (if domain_provider_matches p run
      then (case pt_domain p of
          None \<Rightarrow> lift_res (Raise AssertionError [])
        | Some (_, provider) \<Rightarrow>
            prog_bind (on_world (provider run observation)) (\<lambda>deterministic. case deterministic of
              Some decision \<Rightarrow> lift_res (Ok (decision, From_DOMAIN_PACK))
            | None \<Rightarrow> decide_by_model p run observation))
      else decide_by_model p run observation)"

section \<open>Verifying\<close>

definition verify_outcome ::
  "'w loop_ports \<Rightarrow> run_context \<Rightarrow> loop_observation \<Rightarrow> loop_observation \<Rightarrow> action_decision \<Rightarrow> decision_source \<Rightarrow>
   browser_result option \<Rightarrow> execution_effect option \<Rightarrow> string option \<Rightarrow> ('w loop_state, verification_result) prog" where
  "verify_outcome p run before after decision source result effect fingerprint =
     prog_bind (trying (on_world (pt_verify p
         \<lparr>vq_run = run, vq_before = before, vq_after = after, vq_decision = decision, vq_source = source,
          vq_action_result = result, vq_authorized_effect = effect\<rparr>))
       (\<lambda>_. lift_res (Ok \<lparr>vf_disposition = Verify_UNKNOWN, vf_reason_code = ''VERIFICATION_FAILED'', vf_evidence_refs = []\<rparr>))
       (\<lambda>r. lift_res (Ok r))) (\<lambda>verdict.
     prog_bind (emit_event p run Stage_verification (vf_reason_code verdict) (Some (lo_observation_id after)) fingerprint
       [(''disposition'', JStr (verification_value (vf_disposition verdict))),
        (''evidence_count'', JInt (int (length (vf_evidence_refs verdict))))]) (\<lambda>_.
     lift_res (Ok verdict)))"

text \<open>\<open>_verification_terminal\<close>: the status a final verdict ends the run with.\<close>

fun verdict_status :: "verification_disposition \<Rightarrow> loop_status option" where
  "verdict_status Verify_SUCCEEDED = Some Loop_SUCCEEDED"
| "verdict_status Verify_FAILED = Some Loop_FAILED"
| "verdict_status Verify_UNKNOWN = Some Loop_UNKNOWN"
| "verdict_status Verify_CONTINUE = None"
| "verdict_status Verify_RETRY = None"

section \<open>Authorizing and acting\<close>

text \<open>\<open>_authorized_command\<close>\<close>

definition authorized_command ::
  "loop_observation \<Rightarrow> action_decision \<Rightarrow> string \<Rightarrow> policy_authorization \<Rightarrow> authorized_action res" where
  "authorized_command observation decision fingerprint policy =
     (case (dn_action decision, pz_authorization policy, pz_execution_profile policy) of
        (Some action, Some authorization, Some profile) \<Rightarrow>
          if ea_permit_id authorization = [] \<or> ea_idempotency_key authorization = []
          then Raise ValueError ''Execution authorization requires permit and idempotency references''
          else
            res_bind (compare_digest (ea_action_fingerprint authorization) fingerprint) (\<lambda>same_action.
            res_bind (if same_action then compare_digest (ea_observation_hash authorization) (lo_observation_id observation)
                      else Ok False) (\<lambda>matches.
            if \<not> matches
            then Raise ValueError ''Execution authorization does not match the action and observation''
            else res_bind (require_allowed_profile (ea_effect authorization) profile) (\<lambda>_.
              Ok \<lparr>az_action = action, az_action_fingerprint = fingerprint,
                  az_observation_id = lo_observation_id observation,
                  az_expected_snapshot_hash = lo_snapshot_hash observation, az_authorization = authorization,
                  az_execution_profile = profile\<rparr>)))
      | _ \<Rightarrow> Raise AssertionError [])"

text \<open>What follows an action that returned.\<close>

definition after_action ::
  "'w loop_ports \<Rightarrow> run_context \<Rightarrow> loop_observation \<Rightarrow> action_decision \<Rightarrow> decision_source \<Rightarrow> authorized_action \<Rightarrow>
   browser_result \<Rightarrow> ('w loop_state, loop_flow) prog" where
  "after_action p run observation decision source command result =
     (let effect = ea_effect (az_authorization command); fingerprint = Some (az_action_fingerprint command);
          verify = (\<lambda>after. verify_outcome p run observation after decision source (Some result) (Some effect) fingerprint)
      in
      prog_bind (update_state (\<lambda>s. s\<lparr>ls_actions_executed := ls_actions_executed s + 1,
         ls_effect_may_have_started := ls_effect_may_have_started s \<or> br_effect_may_have_started result \<and> is_write effect\<rparr>)) (\<lambda>_.
      prog_bind (emit_event p run Stage_action (br_detail_code result) (Some (lo_observation_id observation)) fingerprint
         [(''completed'', JBool (br_completed result))]) (\<lambda>_.
      if br_pending_result_probe result
      then prog_bind (update_state (\<lambda>s. s\<lparr>ls_effect_may_have_started := True\<rparr>)) (\<lambda>_.
           prog_bind (verify observation) (\<lambda>_.
           prog_bind (terminal_report p run Loop_UNKNOWN ''PENDING_RESULT_PROBE'' None (br_execution_checkpoint result)) (\<lambda>r.
           lift_res (Ok (Halt r)))))
      else trying (observe_page p run)
        (\<lambda>_. halt_with p run (if is_write effect then Loop_UNKNOWN else Loop_FAILED) ''POST_ACTION_OBSERVATION_FAILED'')
        (\<lambda>after. prog_bind (verify after) (\<lambda>verdict. case verdict_status (vf_disposition verdict) of
           Some status \<Rightarrow> halt_with p run status (vf_reason_code verdict)
         | None \<Rightarrow>
             if vf_disposition verdict = Verify_RETRY
             then (if is_write effect then halt_with p run Loop_UNKNOWN ''WRITE_RETRY_REQUIRES_RECOVERY''
                   else prog_bind (consume_retry p) (\<lambda>granted.
                     if \<not> granted then halt_with p run Loop_FAILED ''RETRY_BUDGET_EXHAUSTED''
                     else lift_res (Ok (Next after))))
             else lift_res (Ok (Next after)))))))"

definition execute_command ::
  "'w loop_ports \<Rightarrow> run_context \<Rightarrow> loop_observation \<Rightarrow> action_decision \<Rightarrow> decision_source \<Rightarrow> authorized_action \<Rightarrow>
   ('w loop_state, loop_flow) prog" where
  "execute_command p run observation decision source command =
     (let effect = ea_effect (az_authorization command) in
      prog_bind (emit_event p run Stage_action ''ACTION_STARTED'' (Some (lo_observation_id observation))
         (Some (az_action_fingerprint command))
         [(''kind'', JStr (action_kind_value (ac_kind (az_action command)))), (''effect'', JStr (effect_value effect)),
          (''source'', JStr (decision_source_value source))]) (\<lambda>_.
      prog_bind (update_state (\<lambda>s. s\<lparr>ls_last_effect := effect\<rparr>)) (\<lambda>_.
      trying (on_world (rt_execute (pt_runtime p) command))
        (\<lambda>e. case exc_of e of
           StaleObservationError \<Rightarrow> reobserve_or_halt p run
         | BrowserRuntimeError started \<Rightarrow>
             if started \<and> is_write effect then halt_with p run Loop_UNKNOWN ''ACTION_EFFECT_UNKNOWN''
             else reobserve_or_halt p run
         | _ \<Rightarrow> if is_write effect then halt_with p run Loop_UNKNOWN ''ACTION_EFFECT_UNKNOWN''
             else halt_with p run Loop_FAILED ''ACTION_EXECUTION_FAILED'')
        (after_action p run observation decision source command))))"

definition perform_authorized ::
  "'w loop_ports \<Rightarrow> run_context \<Rightarrow> loop_observation \<Rightarrow> action_decision \<Rightarrow> decision_source \<Rightarrow> string \<Rightarrow>
   policy_authorization \<Rightarrow> ('w loop_state, loop_flow) prog" where
  "perform_authorized p run observation decision source fingerprint policy =
     (case authorized_command observation decision fingerprint policy of
        Inl e \<Rightarrow> if is_value_error e \<or> exc_of e = ExecutionProfileRejected
          then halt_with p run Loop_FAILED ''INVALID_EXECUTION_AUTHORIZATION'' else lift_res (Inl e)
      | Inr command \<Rightarrow>
          prog_bind (read_clock p) (\<lambda>now.
          if observation_is_stale (pt_config p) observation now then reobserve_or_halt p run
          else execute_command p run observation decision source command))"

definition act_on ::
  "'w loop_ports \<Rightarrow> run_context \<Rightarrow> loop_observation \<Rightarrow> action_decision \<Rightarrow> decision_source \<Rightarrow>
   ('w loop_state, loop_flow) prog" where
  "act_on p run observation decision source =
     (case dn_action decision of
        None \<Rightarrow> lift_res (Raise AssertionError [])
      | Some action \<Rightarrow>
          prog_bind (lift_res (action_fingerprint (rc_task_id run) (rc_step_id run) (action_dump action)
            (lo_observation_id observation) (pt_secret p))) (\<lambda>fingerprint.
          trying (on_world (pt_authorize p run observation action fingerprint))
            (\<lambda>_. halt_with p run Loop_FAILED ''POLICY_EVALUATION_FAILED'')
            (\<lambda>policy. prog_bind (emit_event p run Stage_policy (pz_reason_code policy)
                (Some (lo_observation_id observation)) (Some fingerprint)
                [(''disposition'', JStr (policy_disposition_value (pz_disposition policy)))]) (\<lambda>_.
              case pz_disposition policy of
                Policy_DENY \<Rightarrow> halt_with p run Loop_FAILED (pz_reason_code policy)
              | Policy_REQUIRE_APPROVAL \<Rightarrow>
                  prog_bind (terminal_report p run Loop_AWAITING_APPROVAL (pz_reason_code policy)
                    (pz_approval_ref policy) None) (\<lambda>r. lift_res (Ok (Halt r)))
              | Policy_REOBSERVE \<Rightarrow> reobserve_or_halt p run
              | Policy_ALLOW \<Rightarrow> perform_authorized p run observation decision source fingerprint policy))))"

section \<open>The loop\<close>

definition claim_success ::
  "'w loop_ports \<Rightarrow> run_context \<Rightarrow> loop_observation \<Rightarrow> action_decision \<Rightarrow> decision_source \<Rightarrow>
   ('w loop_state, loop_flow) prog" where
  "claim_success p run observation decision source =
     prog_bind (verify_outcome p run observation observation decision source None None None) (\<lambda>verdict.
     case verdict_status (vf_disposition verdict) of
       Some status \<Rightarrow> halt_with p run status (vf_reason_code verdict)
     | None \<Rightarrow>
         if vf_disposition verdict = Verify_RETRY then reobserve_or_halt p run
         else trying (observe_page p run) (\<lambda>_. halt_with p run Loop_FAILED ''OBSERVATION_FAILED'')
           (\<lambda>o'. lift_res (Ok (Next o'))))"

definition loop_pass :: "'w loop_ports \<Rightarrow> run_context \<Rightarrow> loop_observation \<Rightarrow> ('w loop_state, loop_flow) prog" where
  "loop_pass p run observation =
     trying (decide_next p run observation)
       (\<lambda>_. halt_with p run Loop_FAILED ''DECISION_PROVIDER_FAILED'')
       (\<lambda>(decision, source).
         prog_bind (lift_res (compare_digest (dn_observation_id decision) (lo_observation_id observation))) (\<lambda>same.
         if \<not> same then halt_with p run Loop_FAILED ''DECISION_OBSERVATION_MISMATCH''
         else prog_bind (emit_event p run Stage_decision (dn_reason_code decision) (Some (lo_observation_id observation))
             None [(''kind'', JStr (decision_kind_value (dn_kind decision))),
                   (''source'', JStr (decision_source_value source))]) (\<lambda>_.
           case dn_kind decision of
             Decide_FAILURE \<Rightarrow> halt_with p run Loop_FAILED (dn_reason_code decision)
           | Decide_SUCCESS \<Rightarrow> claim_success p run observation decision source
           | Decide_ACTION \<Rightarrow> act_on p run observation decision source)))"

text \<open>\<open>for iteration in range(1, max_iterations + 1)\<close>: the passes left, and the number of the next one.\<close>

fun loop_from :: "'w loop_ports \<Rightarrow> run_context \<Rightarrow> nat \<Rightarrow> nat \<Rightarrow> loop_observation \<Rightarrow> ('w loop_state, loop_report) prog" where
  "loop_from p run 0 iteration observation =
     terminal_report p run Loop_FAILED ''ITERATION_BUDGET_EXHAUSTED'' None None"
| "loop_from p run (Suc left) iteration observation =
     prog_bind (update_state (\<lambda>s. s\<lparr>ls_iterations := iteration\<rparr>)) (\<lambda>_.
     prog_bind (loop_pass p run observation) (\<lambda>flow. case flow of
       Halt r \<Rightarrow> lift_res (Ok r)
     | Next o' \<Rightarrow> loop_from p run left (iteration + 1) o'))"

definition run_loop :: "'w loop_ports \<Rightarrow> run_context \<Rightarrow> ('w loop_state, loop_report) prog" where
  "run_loop p run =
     trying (observe_page p run)
       (\<lambda>_. terminal_report p run Loop_FAILED ''OBSERVATION_FAILED'' None None)
       (\<lambda>observation. loop_from p run (lc_max_iterations (pt_config p)) 1 observation)"

definition browser_loop_run :: "'w loop_ports \<Rightarrow> run_context \<Rightarrow> 'w \<Rightarrow> loop_report res \<times> 'w loop_state" where
  "browser_loop_run p run w =
     trying (run_loop p run)
       (\<lambda>_ s. terminal_report p run (if ls_effect_may_have_started s then Loop_UNKNOWN else Loop_FAILED)
          ''EVENT_OR_LOOP_FAILURE'' None None s)
       (\<lambda>r. lift_res (Ok r)) (initial_loop_state w)"

end
