(* ===== verification/LoopLaws.thy ===== *)
theory LoopLaws
  imports BrowserLoop
begin

text \<open>
  What a run of the browser loop guarantees, whatever its ports do: it always reports within its
  budgets, a success is a verified one, only governed commands reach the runtime, and nothing is
  executed after a write whose outcome is open.
\<close>

section \<open>Costs of the parts\<close>

text \<open>
  A part costs at most so many actions, observations and events; it never exceeds the retry budget,
  leaves the iteration count alone and numbers its events consecutively.
\<close>

definition grows :: "nat \<Rightarrow> nat \<Rightarrow> nat \<Rightarrow> nat \<Rightarrow> 'w loop_state \<Rightarrow> 'w loop_state \<Rightarrow> bool" where
  "grows limit a ob ev s t =
     (ls_iterations t = ls_iterations s \<and> ls_retries_used t \<le> limit \<and>
      ls_actions_executed t \<le> ls_actions_executed s + a \<and> ls_observations t \<le> ls_observations s + ob \<and>
      length (ls_events t) \<le> length (ls_events s) + ev \<and>
      map le_sequence (ls_events t) = [1..<Suc (length (ls_events t))])"

definition sound_state :: "nat \<Rightarrow> 'w loop_state \<Rightarrow> bool" where
  "sound_state limit s = (ls_retries_used s \<le> limit \<and> map le_sequence (ls_events s) = [1..<Suc (length (ls_events s))])"

definition costs :: "'w loop_ports \<Rightarrow> nat \<Rightarrow> nat \<Rightarrow> nat \<Rightarrow> ('w loop_state, 'a) prog \<Rightarrow> bool" where
  "costs p a ob ev m = (\<forall>s. sound_state (lc_max_retries (pt_config p)) s \<longrightarrow>
     grows (lc_max_retries (pt_config p)) a ob ev s (snd (m s)))"

lemma costsI:
  assumes "\<And>s r t. m s = (r, t) \<Longrightarrow> sound_state (lc_max_retries (pt_config p)) s \<Longrightarrow>
     grows (lc_max_retries (pt_config p)) a ob ev s t"
  shows "costs p a ob ev m"
  unfolding costs_def by (metis assms prod.collapse)

lemma costsD:
  "costs p a ob ev m \<Longrightarrow> m s = (r, t) \<Longrightarrow> sound_state (lc_max_retries (pt_config p)) s \<Longrightarrow>
     grows (lc_max_retries (pt_config p)) a ob ev s t"
  unfolding costs_def by (metis snd_conv)

lemma grows_sound: "grows limit a ob ev s t \<Longrightarrow> sound_state limit t"
  by (simp add: grows_def sound_state_def)

lemma grows_trans:
  "grows limit a ob ev s t \<Longrightarrow> grows limit a' ob' ev' t u \<Longrightarrow> a + a' \<le> x \<Longrightarrow> ob + ob' \<le> y \<Longrightarrow> ev + ev' \<le> z \<Longrightarrow>
     grows limit x y z s u"
  by (auto simp: grows_def)

lemma costs_mono: "costs p a ob ev m \<Longrightarrow> a \<le> x \<Longrightarrow> ob \<le> y \<Longrightarrow> ev \<le> z \<Longrightarrow> costs p x y z m"
  by (force simp: costs_def grows_def)

lemma costs_bind:
  assumes "costs p a ob ev m" and "\<And>x. costs p a' ob' ev' (f x)" and "a + a' \<le> x'" "ob + ob' \<le> y'" "ev + ev' \<le> z'"
  shows "costs p x' y' z' (prog_bind m f)"
proof (rule costsI)
  fix s r u
  assume run: "prog_bind m f s = (r, u)" and s: "sound_state (lc_max_retries (pt_config p)) s"
  from run show "grows (lc_max_retries (pt_config p)) x' y' z' s u"
  proof (cases rule: prog_bind_cases)
    case (raised e)
    from costsD [OF costs_mono [OF assms(1)] raised(1) s] assms(3-5) show ?thesis by simp
  next
    case (returned x t)
    from costsD [OF assms(1) returned(1) s] have g: "grows (lc_max_retries (pt_config p)) a ob ev s t" .
    from grows_trans [OF g costsD [OF assms(2) returned(2) grows_sound [OF g]] assms(3-5)] show ?thesis .
  qed
qed

lemma costs_trying:
  assumes "costs p a ob ev m" and "\<And>e. costs p a' ob' ev' (h e)" and "\<And>x. costs p a' ob' ev' (f x)"
    and "a + a' \<le> x'" "ob + ob' \<le> y'" "ev + ev' \<le> z'"
  shows "costs p x' y' z' (trying m h f)"
proof (rule costsI)
  fix s r u
  assume run: "trying m h f s = (r, u)" and s: "sound_state (lc_max_retries (pt_config p)) s"
  from run show "grows (lc_max_retries (pt_config p)) x' y' z' s u"
  proof (cases rule: trying_cases)
    case (raised e t)
    from costsD [OF assms(1) raised(1) s] have g: "grows (lc_max_retries (pt_config p)) a ob ev s t" .
    from grows_trans [OF g costsD [OF assms(2) raised(2) grows_sound [OF g]] assms(4-6)] show ?thesis .
  next
    case (returned x t)
    from costsD [OF assms(1) returned(1) s] have g: "grows (lc_max_retries (pt_config p)) a ob ev s t" .
    from grows_trans [OF g costsD [OF assms(3) returned(2) grows_sound [OF g]] assms(4-6)] show ?thesis .
  qed
qed

lemma costs_free [simp]:
  "costs p a ob ev (lift_res r)" "costs p a ob ev (lift_read f)" "costs p a ob ev (demand b e)"
  "costs p a ob ev (on_world m)" "costs p a ob ev (read_clock p)"
  by (auto simp: costs_def grows_def sound_state_def lift_res_def lift_read_def demand_def on_world_def read_clock_def
      split: prod.split)

lemma costs_update:
  "(\<And>s. sound_state (lc_max_retries (pt_config p)) s \<Longrightarrow> grows (lc_max_retries (pt_config p)) a ob ev s (f s)) \<Longrightarrow>
     costs p a ob ev (update_state f)"
  by (simp add: costs_def update_state_def)

lemma costs_step:
  assumes "costs p a ob ev m" and "\<And>x. costs p (x' - a) (y' - ob) (z' - ev) (f x)" and "a \<le> x'" "ob \<le> y'" "ev \<le> z'"
  shows "costs p x' y' z' (prog_bind m f)"
  using costs_bind [OF assms(1,2), of x' y' z'] assms(3-5) by simp

lemma costs_guard:
  assumes "costs p a ob ev m" and "\<And>e. costs p (x' - a) (y' - ob) (z' - ev) (h e)"
    and "\<And>x. costs p (x' - a) (y' - ob) (z' - ev) (f x)" and "a \<le> x'" "ob \<le> y'" "ev \<le> z'"
  shows "costs p x' y' z' (trying m h f)"
  using costs_trying [OF assms(1-3), of x' y' z'] assms(4-6) by simp

lemmas costs_first =
  costs_step [OF costs_free(1) [of p 0 0 0]] costs_step [OF costs_free(2) [of p 0 0 0]]
  costs_step [OF costs_free(3) [of p 0 0 0]] costs_step [OF costs_free(4) [of p 0 0 0]]
  costs_step [OF costs_free(5) [of p 0 0 0]] for p

lemma emit_effect:
  assumes "emit_event p run stage c ob fp details s = (r, u)"
  shows "\<exists>w e. le_sequence e = length (ls_events s) + 1 \<and> le_stage e = stage \<and> le_code e = c \<and> le_details e = details \<and>
     u = s\<lparr>ls_world := w, ls_events := ls_events s @ (case r of Inl _ \<Rightarrow> [] | Inr _ \<Rightarrow> [e])\<rparr>"
proof -
  let ?e = "\<lambda>now. \<lparr>le_sequence = length (ls_events s) + 1, le_run_id = rc_run_id run, le_task_id = rc_task_id run,
        le_step_id = rc_step_id run, le_stage = stage, le_code = c, le_occurred_at = now,
        le_observation_id = ob, le_action_fingerprint = fp, le_details = details\<rparr>"
  obtain now v where clock: "pt_clock p (ls_world s) = (now, v)" by force
  obtain x w where out: "pt_emit p (?e now) v = (x, w)" by force
  show ?thesis
  proof (cases "event_code_ok c")
    case False
    with assms clock show ?thesis
      by (intro exI [of _ v] exI [of _ "?e now"])
        (auto simp: emit_event_def prog_bind_def read_clock_def on_world_def lift_read_def validate_loop_event_def)
  next
    case True
    with assms clock out show ?thesis
      by (intro exI [of _ w] exI [of _ "?e now"])
        (auto simp: emit_event_def prog_bind_def read_clock_def on_world_def lift_read_def validate_loop_event_def
          update_state_def split: sum.splits)
  qed
qed

lemma costs_emit: "costs p 0 0 1 (emit_event p run stage c ob fp details)"
proof (rule costsI)
  fix s r u
  assume run: "emit_event p run stage c ob fp details s = (r, u)" and s: "sound_state (lc_max_retries (pt_config p)) s"
  from emit_effect [OF run] obtain w e where "le_sequence e = length (ls_events s) + 1"
      "u = s\<lparr>ls_world := w, ls_events := ls_events s @ (case r of Inl _ \<Rightarrow> [] | Inr _ \<Rightarrow> [e])\<rparr>" by blast
  with s show "grows (lc_max_retries (pt_config p)) 0 0 1 s u"
    by (simp add: grows_def sound_state_def split: sum.split)
qed

lemma terminal_effect:
  assumes "terminal_report p run status c ap ck s = (r, u)"
  shows "\<exists>x. emit_event p run Stage_terminal c (ls_last_observation_id s) None
           [(''status'', JStr (loop_status_value status))] s = (x, u) \<and>
     r = Ok (if is_ok x then report_of run status c ap ck u
       else report_of run (if ls_effect_may_have_started u then Loop_UNKNOWN else Loop_FAILED) ''EVENT_SINK_FAILED'' ap ck u)"
proof -
  obtain x v where emitted: "emit_event p run Stage_terminal c (ls_last_observation_id s) None
      [(''status'', JStr (loop_status_value status))] s = (x, v)" by force
  show ?thesis
  proof (cases x)
    case (Inl e)
    with assms emitted show ?thesis
      by (cases "ls_effect_may_have_started v") (auto simp: terminal_report_def)
  next
    case (Inr y)
    with assms emitted show ?thesis by (auto simp: terminal_report_def)
  qed
qed

lemma costs_terminal: "costs p 0 0 1 (terminal_report p run status c ap ck)"
  by (rule costsI) (blast dest: terminal_effect intro: costsD [OF costs_emit])

lemma costs_halt: "1 \<le> ev \<Longrightarrow> costs p a ob ev (halt_with p run status c)"
  unfolding halt_with_def by (rule costs_step [OF costs_terminal]) simp_all

lemma costs_finish: "1 \<le> ev \<Longrightarrow> costs p a ob ev (prog_bind (terminal_report p run status c ap ck) (\<lambda>r. lift_res (f r)))"
  by (rule costs_step [OF costs_terminal]) simp_all

lemma costs_observe: "costs p 0 1 1 (observe_page p run)"
proof -
  have count: "costs p 0 1 0 (update_state (\<lambda>s. s\<lparr>ls_observations := ls_observations s + 1\<rparr>))"
    and mark: "costs p 0 0 0 (update_state (\<lambda>s. s\<lparr>ls_last_observation_id := x\<rparr>))" for x
    by (rule costs_update; simp add: grows_def sound_state_def)+
  show ?thesis
    unfolding observe_page_def
    by (intro costs_first(4) costs_step [OF count] costs_first(2) costs_step [OF mark] costs_step [OF costs_emit]) simp_all
qed

lemma costs_consume: "costs p 0 0 0 (consume_retry p)"
  by (auto simp: costs_def grows_def sound_state_def consume_retry_def)

lemma costs_retry: "costs p 0 1 1 (retry_reobserve p run)"
proof -
  have "costs p 0 1 1 (trying (observe_page p run) (\<lambda>_. lift_res x) (\<lambda>o'. lift_res (f o')))"
    for x and f :: "loop_observation \<Rightarrow> loop_observation option res"
    by (rule costs_guard [OF costs_observe]) simp_all
  then show ?thesis unfolding retry_reobserve_def by (intro costs_step [OF costs_consume]) simp_all
qed

lemma costs_reobserve: "1 \<le> ob \<Longrightarrow> 2 \<le> ev \<Longrightarrow> costs p a ob ev (reobserve_or_halt p run)"
  unfolding reobserve_or_halt_def
  by (rule costs_step [OF costs_retry]) (simp_all add: costs_halt split: option.split)

lemma costs_decide: "costs p 0 0 0 (decide_next p run observation)"
proof -
  have model: "costs p 0 0 0 (decide_by_model p run observation)"
    unfolding decide_by_model_def
    by (intro costs_first(1,3,4)) simp_all
  have "costs p 0 0 0 (prog_bind (on_world m) (\<lambda>d. case d of Some decision \<Rightarrow> lift_res (Ok (decision, From_DOMAIN_PACK))
      | None \<Rightarrow> decide_by_model p run observation))" for m
    by (rule costs_first(4)) (simp_all add: model split: option.split)
  with model show ?thesis unfolding decide_next_def by (simp split: option.split prod.split)
qed

lemma costs_verify: "costs p 0 0 1 (verify_outcome p run before after decision source result effect fp)"
proof -
  have "costs p 0 0 0 (trying (on_world m) (\<lambda>_. lift_res x) (\<lambda>r. lift_res (Ok r)))"
    for m :: "('a, verification_result) prog" and x
    by (rule costs_guard [where a = 0 and ob = 0 and ev = 0]) simp_all
  then show ?thesis
    unfolding verify_outcome_def by (rule costs_step) (rule costs_step [OF costs_emit], simp_all)
qed

definition continue_after ::
  "'w loop_ports \<Rightarrow> run_context \<Rightarrow> execution_effect \<Rightarrow> loop_observation \<Rightarrow> verification_result \<Rightarrow> ('w loop_state, loop_flow) prog" where
  "continue_after p run effect after verdict =
     (case verdict_status (vf_disposition verdict) of
       Some status \<Rightarrow> halt_with p run status (vf_reason_code verdict)
     | None \<Rightarrow>
         if vf_disposition verdict = Verify_RETRY
         then (if is_write effect then halt_with p run Loop_UNKNOWN ''WRITE_RETRY_REQUIRES_RECOVERY''
               else prog_bind (consume_retry p) (\<lambda>granted.
                 if \<not> granted then halt_with p run Loop_FAILED ''RETRY_BUDGET_EXHAUSTED'' else lift_res (Ok (Next after))))
         else lift_res (Ok (Next after)))"

definition suspend_for_probe ::
  "'w loop_ports \<Rightarrow> run_context \<Rightarrow> ('w loop_state, verification_result) prog \<Rightarrow> execution_checkpoint option \<Rightarrow>
   ('w loop_state, loop_flow) prog" where
  "suspend_for_probe p run verify checkpoint =
     prog_bind (update_state (\<lambda>s. s\<lparr>ls_effect_may_have_started := True\<rparr>)) (\<lambda>_.
     prog_bind verify (\<lambda>_.
     prog_bind (terminal_report p run Loop_UNKNOWN ''PENDING_RESULT_PROBE'' None checkpoint) (\<lambda>r. lift_res (Ok (Halt r)))))"

definition count_action :: "bool \<Rightarrow> 'w loop_state \<Rightarrow> 'w loop_state" where
  "count_action started s = s\<lparr>ls_actions_executed := ls_actions_executed s + 1,
     ls_effect_may_have_started := ls_effect_may_have_started s \<or> started\<rparr>"

lemma after_action_parts:
  "after_action p run observation decision source command result =
     prog_bind (update_state (count_action
       (br_effect_may_have_started result \<and> is_write (ea_effect (az_authorization command))))) (\<lambda>_.
     prog_bind (emit_event p run Stage_action (br_detail_code result) (Some (lo_observation_id observation))
       (Some (az_action_fingerprint command)) [(''completed'', JBool (br_completed result))]) (\<lambda>_.
     if br_pending_result_probe result
     then suspend_for_probe p run (verify_outcome p run observation observation decision source (Some result)
       (Some (ea_effect (az_authorization command))) (Some (az_action_fingerprint command))) (br_execution_checkpoint result)
     else trying (observe_page p run)
       (\<lambda>_. halt_with p run (if is_write (ea_effect (az_authorization command)) then Loop_UNKNOWN else Loop_FAILED)
          ''POST_ACTION_OBSERVATION_FAILED'')
       (\<lambda>after. prog_bind (verify_outcome p run observation after decision source (Some result)
           (Some (ea_effect (az_authorization command))) (Some (az_action_fingerprint command)))
         (continue_after p run (ea_effect (az_authorization command)) after))))"
  by (simp add: after_action_def Let_def suspend_for_probe_def continue_after_def [abs_def] count_action_def [abs_def])

lemma costs_continue: "1 \<le> ev \<Longrightarrow> costs p a ob ev (continue_after p run effect after verdict)"
  by (auto simp: continue_after_def costs_halt split: option.split intro!: costs_step [OF costs_consume])

lemma costs_suspend:
  assumes "costs p 0 0 1 verify" and "2 \<le> ev"
  shows "costs p a ob ev (suspend_for_probe p run verify checkpoint)"
proof -
  have "costs p 0 0 0 (update_state (\<lambda>s. s\<lparr>ls_effect_may_have_started := True\<rparr>))"
    by (rule costs_update) (simp add: grows_def sound_state_def)
  then show ?thesis
    unfolding suspend_for_probe_def
    by (rule costs_step) (rule costs_step [OF assms(1)], rule costs_finish, use assms(2) in simp_all)
qed

lemma costs_after_action:
  assumes "1 \<le> a" and "1 \<le> ob" and "4 \<le> ev"
  shows "costs p a ob ev (after_action p run observation decision source command result)"
proof -
  have count: "costs p 1 0 0 (update_state (count_action b))" for b
    by (rule costs_update) (simp add: grows_def sound_state_def count_action_def)
  have look: "costs p 0 1 3 (trying (observe_page p run) (\<lambda>_. halt_with p run st c) (\<lambda>after. prog_bind
      (verify_outcome p run before after d src r e f) (continue_after p run ef after)))" for st c before d src r e f ef
    by (intro costs_guard [OF costs_observe] costs_step [OF costs_verify]) (simp_all add: costs_halt costs_continue)
  have tail: "costs p 0 1 3 (if b then suspend_for_probe p run (verify_outcome p run before before d src r e f) ck else
      trying (observe_page p run) (\<lambda>_. halt_with p run st c) (\<lambda>after. prog_bind
        (verify_outcome p run before after d src r e f) (continue_after p run ef after)))" for b ck st c before d src r e f ef
    using look by (cases b) (simp_all add: costs_suspend [OF costs_verify])
  have "costs p 1 1 4 (after_action p run observation decision source command result)"
    unfolding after_action_parts by (intro costs_step [OF count] costs_step [OF costs_emit] costs_mono [OF tail]) simp_all
  from costs_mono [OF this assms] show ?thesis .
qed

lemma costs_execute_exact: "costs p 1 1 5 (execute_command p run observation decision source command)"
proof -
  have mark: "costs p 0 0 0 (update_state (\<lambda>s. s\<lparr>ls_last_effect := f\<rparr>))" for f
    by (rule costs_update) (simp add: grows_def sound_state_def)
  have caught: "1 \<le> a \<Longrightarrow> 1 \<le> ob \<Longrightarrow> 4 \<le> ev \<Longrightarrow> costs p a ob ev (case exc_of e of
           StaleObservationError \<Rightarrow> reobserve_or_halt p run
         | BrowserRuntimeError started \<Rightarrow>
             if started \<and> is_write effect then halt_with p run Loop_UNKNOWN ''ACTION_EFFECT_UNKNOWN''
             else reobserve_or_halt p run
         | _ \<Rightarrow> if is_write effect then halt_with p run Loop_UNKNOWN ''ACTION_EFFECT_UNKNOWN''
             else halt_with p run Loop_FAILED ''ACTION_EXECUTION_FAILED'')" for e effect a ob ev
    by (simp add: costs_halt costs_reobserve split: exc_class.split)
  show ?thesis
    unfolding execute_command_def Let_def
    by (intro costs_step [OF costs_emit] costs_step [OF mark] costs_guard [where a = 0 and ob = 0 and ev = 0])
      (simp_all add: caught costs_after_action split del: if_split)
qed

lemmas costs_execute = costs_mono [OF costs_execute_exact]

lemma costs_perform_exact: "costs p 1 1 5 (perform_authorized p run observation decision source fingerprint policy)"
  unfolding perform_authorized_def
  by (auto simp: costs_halt costs_reobserve costs_execute split: sum.split intro!: costs_first(5))

lemmas costs_perform = costs_mono [OF costs_perform_exact]

lemma costs_act_exact: "costs p 1 1 6 (act_on p run observation decision source)"
proof -
  have "costs p 1 1 5 (case pz_disposition policy of
                Policy_DENY \<Rightarrow> halt_with p run Loop_FAILED (pz_reason_code policy)
              | Policy_REQUIRE_APPROVAL \<Rightarrow>
                  prog_bind (terminal_report p run Loop_AWAITING_APPROVAL (pz_reason_code policy)
                    (pz_approval_ref policy) None) (\<lambda>r. lift_res (Ok (Halt r)))
              | Policy_REOBSERVE \<Rightarrow> reobserve_or_halt p run
              | Policy_ALLOW \<Rightarrow> perform_authorized p run observation decision source fingerprint policy)" for policy fingerprint
    by (simp add: costs_halt costs_reobserve costs_perform costs_finish split: policy_disposition.split)
  then show ?thesis
    unfolding act_on_def
    by (auto simp: costs_halt split: option.split
        intro!: costs_first(1) costs_guard [where a = 0 and ob = 0 and ev = 0] costs_step [OF costs_emit])
qed

lemmas costs_act = costs_mono [OF costs_act_exact]

lemma costs_claim: "costs p 0 1 3 (claim_success p run observation decision source)"
proof -
  have "costs p 0 1 2 (trying (observe_page p run) (\<lambda>_. halt_with p run Loop_FAILED ''OBSERVATION_FAILED'')
           (\<lambda>o'. lift_res (Ok (Next o'))))"
    by (rule costs_guard [OF costs_observe]) (simp_all add: costs_halt)
  then show ?thesis
    unfolding claim_success_def
    by (intro costs_step [OF costs_verify]) (auto simp: costs_halt costs_reobserve split: option.split)
qed

lemma costs_pass: "costs p 1 1 7 (loop_pass p run observation)"
proof -
  have "costs p 1 1 7 (case x of (decision, source) \<Rightarrow>
         prog_bind (lift_res (compare_digest (dn_observation_id decision) (lo_observation_id observation))) (\<lambda>same.
         if \<not> same then halt_with p run Loop_FAILED ''DECISION_OBSERVATION_MISMATCH''
         else prog_bind (emit_event p run Stage_decision (dn_reason_code decision) (Some (lo_observation_id observation))
             None [(''kind'', JStr (decision_kind_value (dn_kind decision))),
                   (''source'', JStr (decision_source_value source))]) (\<lambda>_.
           case dn_kind decision of
             Decide_FAILURE \<Rightarrow> halt_with p run Loop_FAILED (dn_reason_code decision)
           | Decide_SUCCESS \<Rightarrow> claim_success p run observation decision source
           | Decide_ACTION \<Rightarrow> act_on p run observation decision source)))" for x
    by (cases x) (auto simp: costs_halt costs_act costs_mono [OF costs_claim] split: decision_kind.split
        intro!: costs_first(1) costs_step [OF costs_emit])
  then show ?thesis
    unfolding loop_pass_def by (intro costs_guard [OF costs_decide]) (simp_all add: costs_halt)
qed

section \<open>The budgets of a run\<close>

lemma loop_from_bounds:
  assumes "loop_from p run left i observation s = (r, t)" and "sound_state (lc_max_retries (pt_config p)) s"
    and "ls_iterations s < i"
  shows "sound_state (lc_max_retries (pt_config p)) t \<and> ls_iterations s \<le> ls_iterations t \<and>
     ls_iterations t \<le> max (ls_iterations s) (i + left - 1) \<and>
     ls_actions_executed t \<le> ls_actions_executed s + (Suc (ls_iterations t) - i) \<and>
     ls_observations t \<le> ls_observations s + (Suc (ls_iterations t) - i) \<and>
     length (ls_events t) \<le> length (ls_events s) + 7 * (Suc (ls_iterations t) - i) + 1"
  using assms
proof (induction left arbitrary: i observation s)
  case 0
  then have "grows (lc_max_retries (pt_config p)) 0 0 1 s t"
    using costsD [OF costs_terminal, of p run Loop_FAILED "''ITERATION_BUDGET_EXHAUSTED''" None None s r t] by simp
  then show ?case using 0(3) by (auto simp: grows_def sound_state_def)
next
  case (Suc left)
  let ?s = "s\<lparr>ls_iterations := i\<rparr>" and ?limit = "lc_max_retries (pt_config p)"
  have s: "sound_state ?limit ?s" using Suc.prems(2) by (simp add: sound_state_def)
  obtain x u where pass: "loop_pass p run observation ?s = (x, u)" by force
  from costsD [OF costs_pass pass s] have g: "grows ?limit 1 1 7 ?s u" .
  consider (goes_on) o' where "x = Ok (Next o')" | (stop) "r = (case x of Inl e \<Rightarrow> Inl e | Inr (Halt q) \<Rightarrow> Ok q)" "t = u"
    using Suc.prems(1) pass
    by (auto simp: prog_bind_def update_state_def lift_res_def split: sum.splits loop_flow.splits)
  then show ?case
  proof cases
    case goes_on
    with Suc.prems(1) pass have "loop_from p run left (i + 1) o' u = (r, t)"
      by (simp add: prog_bind_def update_state_def)
    moreover have "ls_iterations u < i + 1" using g by (simp add: grows_def)
    ultimately have "sound_state ?limit t \<and> ls_iterations u \<le> ls_iterations t \<and>
       ls_iterations t \<le> max (ls_iterations u) (i + 1 + left - 1) \<and>
       ls_actions_executed t \<le> ls_actions_executed u + (Suc (ls_iterations t) - (i + 1)) \<and>
       ls_observations t \<le> ls_observations u + (Suc (ls_iterations t) - (i + 1)) \<and>
       length (ls_events t) \<le> length (ls_events u) + 7 * (Suc (ls_iterations t) - (i + 1)) + 1"
      by (intro Suc.IH grows_sound [OF g])
    moreover from g have "ls_iterations u = i" "ls_actions_executed u \<le> ls_actions_executed s + 1"
        "ls_observations u \<le> ls_observations s + 1" "length (ls_events u) \<le> length (ls_events s) + 7"
      by (simp_all add: grows_def)
    ultimately show ?thesis using Suc.prems(3) by auto
  next
    case stop
    with g grows_sound [OF g] Suc.prems(3) show ?thesis by (auto simp: grows_def)
  qed
qed

lemma loop_run_parts:
  obtains r t where "run_loop p run (initial_loop_state w) = (r, t)"
    and "browser_loop_run p run w = (case r of Inl _ \<Rightarrow>
        terminal_report p run (if ls_effect_may_have_started t then Loop_UNKNOWN else Loop_FAILED)
          ''EVENT_OR_LOOP_FAILURE'' None None t | Inr q \<Rightarrow> (Ok q, t))"
proof -
  obtain r t where "run_loop p run (initial_loop_state w) = (r, t)" by force
  then show ?thesis by (intro that) (auto simp: browser_loop_run_def trying_def lift_res_def split: sum.split)
qed

lemma run_loop_bounds:
  assumes "run_loop p run (initial_loop_state w) = (r, t)"
  shows "sound_state (lc_max_retries (pt_config p)) t \<and> ls_iterations t \<le> lc_max_iterations (pt_config p) \<and>
     ls_actions_executed t \<le> ls_iterations t \<and> ls_observations t \<le> ls_iterations t + 1 \<and>
     length (ls_events t) \<le> 7 * ls_iterations t + 2"
proof -
  have s: "sound_state (lc_max_retries (pt_config p)) (initial_loop_state w)"
    by (simp add: sound_state_def initial_loop_state_def)
  from assms show ?thesis
    unfolding run_loop_def
  proof (cases rule: trying_cases)
    case (raised e u)
    from costsD [OF costs_observe raised(1) s] have g: "grows (lc_max_retries (pt_config p)) 0 1 1 (initial_loop_state w) u" .
    from costsD [OF costs_terminal raised(2) grows_sound [OF g]] g show ?thesis
      by (auto simp: grows_def sound_state_def initial_loop_state_def)
  next
    case (returned x u)
    from costsD [OF costs_observe returned(1) s] have g: "grows (lc_max_retries (pt_config p)) 0 1 1 (initial_loop_state w) u" .
    from g have u: "ls_iterations u = 0" "ls_actions_executed u = 0" "ls_observations u \<le> 1" "length (ls_events u) \<le> 1"
      by (simp_all add: grows_def initial_loop_state_def)
    from loop_from_bounds [OF returned(2) grows_sound [OF g]] u show ?thesis by auto
  qed
qed

lemma report_counts:
  "lp_iterations (report_of run st c ap ck t) = ls_iterations t" "lp_retries_used (report_of run st c ap ck t) = ls_retries_used t"
  "lp_observations (report_of run st c ap ck t) = ls_observations t"
  "lp_actions_executed (report_of run st c ap ck t) = ls_actions_executed t" "lp_events (report_of run st c ap ck t) = ls_events t"
  "lp_status (report_of run st c ap ck t) = st" "lp_reason_code (report_of run st c ap ck t) = c"
  "lp_approval_ref (report_of run st c ap ck t) = ap" "lp_execution_checkpoint (report_of run st c ap ck t) = ck"
  by (simp_all add: report_of_def)

section \<open>What a report says\<close>

definition preceded_by :: "loop_stage \<Rightarrow> string \<Rightarrow> loop_event list \<Rightarrow> loop_event \<Rightarrow> bool" where
  "preceded_by stage disposition events e =
     (\<exists>earlier. events = earlier @ [e] \<and> le_stage e = stage \<and>
        map_of (le_details e) ''disposition'' = Some (JStr disposition))"

text \<open>
  A success rests on a verification that just succeeded, a pause on a policy that just asked for
  approval, and an open execution checkpoint is only ever reported as unknown.
\<close>

definition report_grounded :: "loop_report \<Rightarrow> bool" where
  "report_grounded q =
     ((lp_status q = Loop_SUCCEEDED \<longrightarrow> (\<exists>events v e. lp_events q = events @ [e] \<and> le_stage e = Stage_terminal \<and>
         preceded_by Stage_verification ''succeeded'' events v \<and> le_code v = lp_reason_code q)) \<and>
      (lp_status q = Loop_AWAITING_APPROVAL \<longrightarrow> lp_execution_checkpoint q = None \<and>
         (\<exists>events v e. lp_events q = events @ [e] \<and> le_stage e = Stage_terminal \<and>
           preceded_by Stage_policy ''require_approval'' events v \<and> le_code v = lp_reason_code q)) \<and>
      (lp_execution_checkpoint q \<noteq> None \<longrightarrow> lp_status q = Loop_UNKNOWN \<and> lp_approval_ref q = None))"

definition report_post :: "run_context \<Rightarrow> loop_report \<Rightarrow> 'w loop_state \<Rightarrow> bool" where
  "report_post run q t = ((\<exists>st c ap ck. q = report_of run st c ap ck t) \<and> report_grounded q)"

definition flow_post :: "run_context \<Rightarrow> ('w loop_state, loop_flow) prog \<Rightarrow> bool" where
  "flow_post run m = (\<forall>s q t. m s = (Ok (Halt q), t) \<longrightarrow> report_post run q t)"

lemma flow_bind: "(\<And>x. flow_post run (f x)) \<Longrightarrow> flow_post run (prog_bind m f)"
  by (auto simp: flow_post_def prog_bind_ok)

lemma flow_trying:
  "(\<And>e. flow_post run (h e)) \<Longrightarrow> (\<And>x. flow_post run (f x)) \<Longrightarrow> flow_post run (trying m h f)"
  unfolding flow_post_def by (metis trying_cases)

lemma flow_lift [simp]: "flow_post run (lift_res (Ok (Next o')))" "flow_post run (lift_res (Inl e))"
  by (simp_all add: flow_post_def lift_res_def)

lemma halt_runs:
  "halt_with p run status c s = (Ok (Halt q), t) \<longleftrightarrow> terminal_report p run status c None None s = (Ok q, t)"
  by (auto simp: halt_with_def prog_bind_ok lift_res_def)

lemma terminal_post:
  assumes "terminal_report p run status c ap ck s = (Ok q, t)"
    and "ck \<noteq> None \<Longrightarrow> ls_effect_may_have_started s \<and> status = Loop_UNKNOWN \<and> ap = None"
    and "status = Loop_SUCCEEDED \<Longrightarrow> \<exists>v. preceded_by Stage_verification ''succeeded'' (ls_events s) v \<and> le_code v = c"
    and "status = Loop_AWAITING_APPROVAL \<Longrightarrow> \<exists>v. preceded_by Stage_policy ''require_approval'' (ls_events s) v \<and> le_code v = c"
  shows "report_post run q t"
proof -
  from terminal_effect [OF assms(1)] obtain x where x: "emit_event p run Stage_terminal c (ls_last_observation_id s) None
           [(''status'', JStr (loop_status_value status))] s = (x, t)"
     "q = (if is_ok x then report_of run status c ap ck t
       else report_of run (if ls_effect_may_have_started t then Loop_UNKNOWN else Loop_FAILED) ''EVENT_SINK_FAILED'' ap ck t)"
    by auto
  from emit_effect [OF x(1)] obtain w e where e: "le_stage e = Stage_terminal"
      "t = s\<lparr>ls_world := w, ls_events := ls_events s @ (case x of Inl _ \<Rightarrow> [] | Inr _ \<Rightarrow> [e])\<rparr>" by blast
  have flag: "ls_effect_may_have_started t = ls_effect_may_have_started s" by (simp add: e(2))
  have reported: "\<exists>st c ap ck. q = report_of run st c ap ck t" unfolding x(2) by (cases "is_ok x") (simp, blast)+
  show ?thesis
  proof (cases x)
    case (Inl y)
    with x(2) flag assms(2) have "report_grounded q" by (auto simp: report_grounded_def report_counts)
    with reported show ?thesis by (simp add: report_post_def)
  next
    case (Inr y)
    then have q: "q = report_of run status c ap ck t" "ls_events t = ls_events s @ [e]" using x(2) e(2) by simp_all
    have "report_grounded q"
      using assms(2-4) e(1) q by (cases ck) (auto simp: report_grounded_def report_counts)
    with reported show ?thesis by (simp add: report_post_def)
  qed
qed

lemma flow_halt: "status \<in> {Loop_FAILED, Loop_UNKNOWN} \<Longrightarrow> flow_post run (halt_with p run status c)"
  unfolding flow_post_def halt_runs by (auto intro: terminal_post)

lemma flow_reobserve: "flow_post run (reobserve_or_halt p run)"
  unfolding reobserve_or_halt_def
  by (rule flow_bind) (simp add: flow_halt split: option.split)

lemma verify_leaves:
  assumes "verify_outcome p run before after decision source result effect fp s = (Ok v, t)"
  shows "\<exists>e. preceded_by Stage_verification (verification_value (vf_disposition v)) (ls_events t) e \<and> le_code e = vf_reason_code v"
    and "ls_effect_may_have_started t = ls_effect_may_have_started s"
proof -
  from assms obtain u where u: "emit_event p run Stage_verification (vf_reason_code v) (Some (lo_observation_id after)) fp
       [(''disposition'', JStr (verification_value (vf_disposition v))),
        (''evidence_count'', JInt (int (length (vf_evidence_refs v))))] u = (Ok (), t)"
      "ls_effect_may_have_started u = ls_effect_may_have_started s"
    unfolding verify_outcome_def
    by (auto simp: prog_bind_ok trying_def on_world_def lift_res_def split: prod.splits sum.splits)
  from emit_effect [OF u(1)] obtain w e where e: "le_stage e = Stage_verification" "le_code e = vf_reason_code v"
      "le_details e = [(''disposition'', JStr (verification_value (vf_disposition v))),
        (''evidence_count'', JInt (int (length (vf_evidence_refs v))))]"
      "t = u\<lparr>ls_world := w, ls_events := ls_events u @ [e]\<rparr>" by auto
  then have "preceded_by Stage_verification (verification_value (vf_disposition v)) (ls_events t) e"
    by (simp add: preceded_by_def)
  with e(2) show "\<exists>e. preceded_by Stage_verification (verification_value (vf_disposition v)) (ls_events t) e \<and> le_code e = vf_reason_code v"
    by blast
  show "ls_effect_may_have_started t = ls_effect_may_have_started s" using e(4) u(2) by simp
qed

lemma verdict_status_cases:
  "verdict_status d = Some st \<Longrightarrow> (st = Loop_SUCCEEDED \<and> d = Verify_SUCCEEDED) \<or> st \<in> {Loop_FAILED, Loop_UNKNOWN}"
  by (cases d) auto

lemma flow_verdict:
  assumes "\<And>v. verdict_status (vf_disposition v) = None \<Longrightarrow> flow_post run (g v)"
  shows "flow_post run (prog_bind (verify_outcome p run before after decision source result effect fp) (\<lambda>v.
     case verdict_status (vf_disposition v) of Some status \<Rightarrow> halt_with p run status (vf_reason_code v) | None \<Rightarrow> g v))"
  unfolding flow_post_def
proof (intro allI impI)
  fix s q t
  assume "prog_bind (verify_outcome p run before after decision source result effect fp) (\<lambda>v.
     case verdict_status (vf_disposition v) of Some status \<Rightarrow> halt_with p run status (vf_reason_code v) | None \<Rightarrow> g v) s = (Ok (Halt q), t)"
  then obtain v u where v: "verify_outcome p run before after decision source result effect fp s = (Ok v, u)"
      "(case verdict_status (vf_disposition v) of Some status \<Rightarrow> halt_with p run status (vf_reason_code v) | None \<Rightarrow> g v) u = (Ok (Halt q), t)"
    by (auto simp: prog_bind_ok)
  show "report_post run q t"
  proof (cases "verdict_status (vf_disposition v)")
    case None
    with v(2) assms [OF None] show ?thesis by (simp add: flow_post_def)
  next
    case (Some status)
    with v(2) have run: "terminal_report p run status (vf_reason_code v) None None u = (Ok q, t)" by (simp add: halt_runs)
    show ?thesis
    proof (rule terminal_post [OF run])
      show "\<exists>e. preceded_by Stage_verification ''succeeded'' (ls_events u) e \<and> le_code e = vf_reason_code v"
        if "status = Loop_SUCCEEDED"
        using verdict_status_cases [OF Some] that verify_leaves(1) [OF v(1)] by auto
    qed (use verdict_status_cases [OF Some] in auto)
  qed
qed

lemma flow_continue:
  "flow_post run (prog_bind (verify_outcome p run before after decision source result effect fp) (continue_after p run ef o'))"
  unfolding continue_after_def
  by (rule flow_verdict) (simp add: flow_halt flow_bind)

lemma flow_suspend:
  "flow_post run (suspend_for_probe p run (verify_outcome p run before after decision source result effect fp) ck)"
  unfolding flow_post_def
proof (intro allI impI)
  fix s q t
  assume "suspend_for_probe p run (verify_outcome p run before after decision source result effect fp) ck s = (Ok (Halt q), t)"
  then obtain v u where v: "verify_outcome p run before after decision source result effect fp
        (s\<lparr>ls_effect_may_have_started := True\<rparr>) = (Ok v, u)"
      and run: "terminal_report p run Loop_UNKNOWN ''PENDING_RESULT_PROBE'' None ck u = (Ok q, t)"
    by (auto simp: suspend_for_probe_def prog_bind_ok update_state_def lift_res_def)
  from verify_leaves(2) [OF v] have "ls_effect_may_have_started u" by simp
  then show "report_post run q t" by (intro terminal_post [OF run]) simp_all
qed

lemma flow_after_action: "flow_post run (after_action p run observation decision source command result)"
proof -
  have "flow_post run (if b then suspend_for_probe p run (verify_outcome p run o1 o1 d src r e f) ck
      else trying (observe_page p run) (\<lambda>_. halt_with p run (if w then Loop_UNKNOWN else Loop_FAILED) c)
        (\<lambda>after. prog_bind (verify_outcome p run o1 after d src r e f) (continue_after p run ef after)))"
    for b o1 d src r e f ck w c ef
    by (auto simp: flow_suspend intro!: flow_trying flow_halt flow_continue)
  then show ?thesis unfolding after_action_parts by (intro flow_bind)
qed

lemma flow_execute: "flow_post run (execute_command p run observation decision source command)"
proof -
  have "flow_post run (case exc_of e of
           StaleObservationError \<Rightarrow> reobserve_or_halt p run
         | BrowserRuntimeError started \<Rightarrow>
             if started \<and> w then halt_with p run Loop_UNKNOWN ''ACTION_EFFECT_UNKNOWN''
             else reobserve_or_halt p run
         | _ \<Rightarrow> if w then halt_with p run Loop_UNKNOWN ''ACTION_EFFECT_UNKNOWN''
             else halt_with p run Loop_FAILED ''ACTION_EXECUTION_FAILED'')" for e w
    by (simp add: flow_halt flow_reobserve split: exc_class.split)
  then show ?thesis
    unfolding execute_command_def Let_def by (intro flow_bind flow_trying flow_after_action)
qed

lemma flow_perform: "flow_post run (perform_authorized p run observation decision source fingerprint policy)"
  unfolding perform_authorized_def
  by (auto simp: flow_halt flow_reobserve flow_execute split: sum.split intro!: flow_bind)

lemma flow_act: "flow_post run (act_on p run observation decision source)"
proof -
  have dispatch: "flow_post run (prog_bind (emit_event p run Stage_policy (pz_reason_code policy)
                ob fp [(''disposition'', JStr (policy_disposition_value (pz_disposition policy)))]) (\<lambda>_.
              case pz_disposition policy of
                Policy_DENY \<Rightarrow> halt_with p run Loop_FAILED (pz_reason_code policy)
              | Policy_REQUIRE_APPROVAL \<Rightarrow>
                  prog_bind (terminal_report p run Loop_AWAITING_APPROVAL (pz_reason_code policy)
                    (pz_approval_ref policy) None) (\<lambda>r. lift_res (Ok (Halt r)))
              | Policy_REOBSERVE \<Rightarrow> reobserve_or_halt p run
              | Policy_ALLOW \<Rightarrow> perform_authorized p run observation decision source fingerprint policy))"
    for policy ob fp fingerprint
  proof (cases "pz_disposition policy = Policy_REQUIRE_APPROVAL")
    case False
    then show ?thesis
      by (cases "pz_disposition policy") (auto intro!: flow_bind simp: flow_halt flow_reobserve flow_perform)
  next
    case True
    show ?thesis unfolding flow_post_def
    proof (intro allI impI)
      fix s q t
      assume "prog_bind (emit_event p run Stage_policy (pz_reason_code policy)
                ob fp [(''disposition'', JStr (policy_disposition_value (pz_disposition policy)))]) (\<lambda>_.
              case pz_disposition policy of
                Policy_DENY \<Rightarrow> halt_with p run Loop_FAILED (pz_reason_code policy)
              | Policy_REQUIRE_APPROVAL \<Rightarrow>
                  prog_bind (terminal_report p run Loop_AWAITING_APPROVAL (pz_reason_code policy)
                    (pz_approval_ref policy) None) (\<lambda>r. lift_res (Ok (Halt r)))
              | Policy_REOBSERVE \<Rightarrow> reobserve_or_halt p run
              | Policy_ALLOW \<Rightarrow> perform_authorized p run observation decision source fingerprint policy) s = (Ok (Halt q), t)"
      with True obtain u where u: "emit_event p run Stage_policy (pz_reason_code policy) ob fp
            [(''disposition'', JStr ''require_approval'')] s = (Ok (), u)"
          "terminal_report p run Loop_AWAITING_APPROVAL (pz_reason_code policy) (pz_approval_ref policy) None u = (Ok q, t)"
        by (auto simp: prog_bind_ok lift_res_def)
      from emit_effect [OF u(1)] obtain w e where e: "le_stage e = Stage_policy" "le_code e = pz_reason_code policy"
          "le_details e = [(''disposition'', JStr ''require_approval'')]" "ls_events u = ls_events s @ [e]" by auto
      then have "preceded_by Stage_policy ''require_approval'' (ls_events u) e" by (simp add: preceded_by_def)
      with e(2) show "report_post run q t" by (intro terminal_post [OF u(2)]) auto
    qed
  qed
  then show ?thesis
  proof (cases "dn_action decision")
    case (Some a)
    show ?thesis
      unfolding act_on_def Some option.case
      by (rule flow_bind, rule flow_trying, simp add: flow_halt, rule dispatch)
  qed (simp add: act_on_def)
qed

lemma flow_claim: "flow_post run (claim_success p run observation decision source)"
  unfolding claim_success_def
  by (rule flow_verdict) (auto simp: flow_reobserve intro!: flow_trying flow_halt)

lemma flow_pass: "flow_post run (loop_pass p run observation)"
  unfolding loop_pass_def
proof (rule flow_trying)
  show "flow_post run (halt_with p run Loop_FAILED ''DECISION_PROVIDER_FAILED'')" by (simp add: flow_halt)
  show "flow_post run (case x of (decision, source) \<Rightarrow>
         prog_bind (lift_res (compare_digest (dn_observation_id decision) (lo_observation_id observation))) (\<lambda>same.
         if \<not> same then halt_with p run Loop_FAILED ''DECISION_OBSERVATION_MISMATCH''
         else prog_bind (emit_event p run Stage_decision (dn_reason_code decision) (Some (lo_observation_id observation))
             None [(''kind'', JStr (decision_kind_value (dn_kind decision))),
                   (''source'', JStr (decision_source_value source))]) (\<lambda>_.
           case dn_kind decision of
             Decide_FAILURE \<Rightarrow> halt_with p run Loop_FAILED (dn_reason_code decision)
           | Decide_SUCCESS \<Rightarrow> claim_success p run observation decision source
           | Decide_ACTION \<Rightarrow> act_on p run observation decision source)))" for x
    by (cases x) (auto simp: flow_halt flow_act flow_claim split: decision_kind.split intro!: flow_bind)
qed

lemma loop_from_post: "loop_from p run left i observation s = (Ok q, t) \<Longrightarrow> report_post run q t"
proof (induction left arbitrary: i observation s)
  case 0
  then have "terminal_report p run Loop_FAILED ''ITERATION_BUDGET_EXHAUSTED'' None None s = (Ok q, t)" by simp
  then show ?case by (rule terminal_post) simp_all
next
  case (Suc left)
  then obtain flow u where pass: "loop_pass p run observation (s\<lparr>ls_iterations := i\<rparr>) = (Ok flow, u)"
      "(case flow of Halt r \<Rightarrow> lift_res (Ok r) | Next o' \<Rightarrow> loop_from p run left (Suc i) o') u = (Ok q, t)"
    by (auto simp: prog_bind_ok update_state_def)
  show ?case
  proof (cases flow)
    case (Halt r)
    with pass flow_pass [of run p observation] show ?thesis by (auto simp: flow_post_def lift_res_def)
  next
    case (Next o')
    with pass(2) Suc.IH show ?thesis by simp
  qed
qed

lemma browser_loop_post: "\<exists>q t. browser_loop_run p run w = (Ok q, t) \<and> report_post run q t"
proof -
  obtain r t where parts: "run_loop p run (initial_loop_state w) = (r, t)"
    "browser_loop_run p run w = (case r of Inl _ \<Rightarrow>
        terminal_report p run (if ls_effect_may_have_started t then Loop_UNKNOWN else Loop_FAILED)
          ''EVENT_OR_LOOP_FAILURE'' None None t | Inr q \<Rightarrow> (Ok q, t))"
    by (rule loop_run_parts)
  show ?thesis
  proof (cases r)
    case (Inl e)
    obtain x u where end': "terminal_report p run (if ls_effect_may_have_started t then Loop_UNKNOWN else Loop_FAILED)
          ''EVENT_OR_LOOP_FAILURE'' None None t = (x, u)" by force
    from terminal_effect [OF this] obtain q where "x = Ok q" by blast
    with end' have "terminal_report p run (if ls_effect_may_have_started t then Loop_UNKNOWN else Loop_FAILED)
          ''EVENT_OR_LOOP_FAILURE'' None None t = (Ok q, u)" by simp
    moreover from this have "report_post run q u" by (rule terminal_post) (simp_all split: if_splits)
    ultimately show ?thesis using parts(2) Inl by auto
  next
    case (Inr q)
    have "report_post run q t"
      using parts(1) unfolding Inr run_loop_def
    proof (cases rule: trying_cases)
      case (raised e u)
      then show ?thesis by (intro terminal_post [OF raised(2)]) simp_all
    next
      case (returned x u)
      then show ?thesis by (intro loop_from_post [OF returned(2)])
    qed
    with parts(2) Inr show ?thesis by auto
  qed
qed

text \<open>
  C7. Whatever its ports do and raise, a run of the browser loop ends with a
  report, within its budgets: it passes at most the configured number of iterations and retries,
  executes at most one action and takes at most one observation per iteration (and one before the
  first), and its events are numbered without a gap and bounded.
\<close>

theorem loop_always_reports:
  "\<exists>q t. browser_loop_run p run w = (Ok q, t) \<and> lp_iterations q \<le> lc_max_iterations (pt_config p) \<and>
     lp_retries_used q \<le> lc_max_retries (pt_config p) \<and> lp_actions_executed q \<le> lp_iterations q \<and>
     lp_observations q \<le> lp_iterations q + 1 \<and> length (lp_events q) \<le> 7 * lp_iterations q + 3 \<and>
     map le_sequence (lp_events q) = [1..<Suc (length (lp_events q))]"
proof -
  let ?limit = "lc_max_retries (pt_config p)"
  obtain q t where run: "browser_loop_run p run w = (Ok q, t)" and "report_post run q t"
    using browser_loop_post [of p run w] by blast
  then obtain st c ap ck where q: "q = report_of run st c ap ck t" by (auto simp: report_post_def)
  have "sound_state ?limit t \<and> ls_iterations t \<le> lc_max_iterations (pt_config p) \<and>
     ls_actions_executed t \<le> ls_iterations t \<and> ls_observations t \<le> ls_iterations t + 1 \<and>
     length (ls_events t) \<le> 7 * ls_iterations t + 3"
  proof -
    obtain r u where parts: "run_loop p run (initial_loop_state w) = (r, u)"
      "browser_loop_run p run w = (case r of Inl _ \<Rightarrow>
          terminal_report p run (if ls_effect_may_have_started u then Loop_UNKNOWN else Loop_FAILED)
            ''EVENT_OR_LOOP_FAILURE'' None None u | Inr q \<Rightarrow> (Ok q, u))"
      by (rule loop_run_parts)
    from run_loop_bounds [OF parts(1)] have u: "sound_state ?limit u" "ls_iterations u \<le> lc_max_iterations (pt_config p)"
        "ls_actions_executed u \<le> ls_iterations u" "ls_observations u \<le> ls_iterations u + 1"
        "length (ls_events u) \<le> 7 * ls_iterations u + 2" by simp_all
    show ?thesis
    proof (cases r)
      case (Inl e)
      with run parts(2) have "terminal_report p run (if ls_effect_may_have_started u then Loop_UNKNOWN else Loop_FAILED)
            ''EVENT_OR_LOOP_FAILURE'' None None u = (Ok q, t)" by simp
      from costsD [OF costs_terminal this u(1)] have g: "grows ?limit 0 0 1 u t" .
      with grows_sound [OF g] u show ?thesis by (auto simp: grows_def)
    next
      case (Inr y)
      with run parts(2) u show ?thesis by simp
    qed
  qed
  with run q show ?thesis by (auto simp: report_counts sound_state_def)
qed

section \<open>Which actions reach the runtime\<close>

text \<open>
  A governed command acts on an observation the loop bound itself: its fingerprint is the one of that
  action on that observation, the permit it names was granted for exactly both, and its profile is
  eligible for its effect.
\<close>

definition governed_command :: "'w loop_ports \<Rightarrow> run_context \<Rightarrow> authorized_action \<Rightarrow> bool" where
  "governed_command p run c =
     ((\<exists>raw n. az_observation_id c = lo_observation_id (bind_observation (pt_secret p) raw n) \<and>
         az_expected_snapshot_hash c = lo_snapshot_hash (bind_observation (pt_secret p) raw n)) \<and>
      action_fingerprint (rc_task_id run) (rc_step_id run) (action_dump (az_action c)) (az_observation_id c) (pt_secret p) =
        Ok (az_action_fingerprint c) \<and>
      ea_action_fingerprint (az_authorization c) = az_action_fingerprint c \<and>
      ea_observation_hash (az_authorization c) = az_observation_id c \<and>
      ea_permit_id (az_authorization c) \<noteq> [] \<and> ea_idempotency_key (az_authorization c) \<noteq> [] \<and>
      prf_evidence_refs (az_execution_profile c) \<noteq> [] \<and>
      (ea_effect (az_authorization c) = EXTERNAL_WRITE \<longrightarrow> prf_mechanism (az_execution_profile c) \<in> {LOCATOR, LABEL}))"

text \<open>After these outcomes of an execution the loop may go on; after every other one it ends.\<close>

definition may_go_on :: "execution_effect \<Rightarrow> browser_result res \<Rightarrow> bool" where
  "may_go_on effect r = (case r of
     Inl e \<Rightarrow> exc_of e = StaleObservationError \<or>
       (\<exists>started. exc_of e = BrowserRuntimeError started \<and> \<not> (started \<and> is_write effect))
   | Inr result \<Rightarrow> \<not> br_pending_result_probe result)"

text \<open>Every port but the execution of an action keeps a property of the world.\<close>

definition ports_keep :: "('w \<Rightarrow> bool) \<Rightarrow> 'w loop_ports \<Rightarrow> bool" where
  "ports_keep I p =
     (keeps I (rt_observe (pt_runtime p)) \<and> (\<forall>m. rt_fresh_observation (pt_runtime p) = Some m \<longrightarrow> keeps I m) \<and>
      (\<forall>x. keeps I (pt_model p x)) \<and> (\<forall>r o'. keeps I (pt_prepare_input p r o')) \<and>
      (\<forall>r o' a f. keeps I (pt_authorize p r o' a f)) \<and> (\<forall>x. keeps I (pt_verify p x)) \<and> (\<forall>e. keeps I (pt_emit p e)) \<and>
      (\<forall>b f r o'. pt_domain p = Some (b, f) \<longrightarrow> keeps I (f r o')) \<and> (\<forall>w. I w \<longrightarrow> I (snd (pt_clock p w))))"

abbreviation world_kept :: "('w \<Rightarrow> bool) \<Rightarrow> ('w loop_state, 'a) prog \<Rightarrow> bool" where
  "world_kept I m \<equiv> keeps (\<lambda>s. I (ls_world s)) m"

lemma kept_on_world: "keeps I m \<Longrightarrow> world_kept I (on_world m)"
  by (fastforce simp: keeps_def on_world_def split: prod.split)

lemma kept_update: "(\<And>s. ls_world (f s) = ls_world s) \<Longrightarrow> world_kept I (update_state f)"
  by (simp add: keeps_def update_state_def)

lemma kept_clock: "ports_keep I p \<Longrightarrow> world_kept I (read_clock p)"
  unfolding read_clock_def by (rule kept_on_world) (auto simp: ports_keep_def keeps_def split: prod.split)

lemma kept_emit: "ports_keep I p \<Longrightarrow> world_kept I (emit_event p run stage c ob fp details)"
  unfolding emit_event_def
  by (intro keeps_bind kept_clock keeps_lift kept_on_world kept_update) (simp_all add: ports_keep_def)

lemma kept_terminal:
  fixes p :: "'w loop_ports"
  assumes "ports_keep I p"
  shows "world_kept I (terminal_report p run status c ap ck)"
proof (rule keepsI)
  fix s :: "'w loop_state"
  assume s: "I (ls_world s)"
  obtain r u where run: "terminal_report p run status c ap ck s = (r, u)" by force
  from terminal_effect [OF run] obtain x where "emit_event p run Stage_terminal c (ls_last_observation_id s) None
           [(''status'', JStr (loop_status_value status))] s = (x, u)" by blast
  from keepsD [OF kept_emit [OF assms] this] s run show "I (ls_world (snd (terminal_report p run status c ap ck s)))" by simp
qed

lemma kept_halt: "ports_keep I p \<Longrightarrow> world_kept I (halt_with p run status c)"
  unfolding halt_with_def by (intro keeps_bind kept_terminal keeps_lift)

lemma kept_observe: "ports_keep I p \<Longrightarrow> world_kept I (observe_page p run)"
  unfolding observe_page_def
  by (intro keeps_bind kept_on_world kept_update keeps_lift kept_emit) (simp_all add: ports_keep_def split: option.split)

lemma kept_consume: "world_kept I (consume_retry p)"
  by (simp add: keeps_def consume_retry_def)

lemma kept_verify: "ports_keep I p \<Longrightarrow> world_kept I (verify_outcome p run before after decision source result effect fp)"
  unfolding verify_outcome_def
  by (intro keeps_bind keeps_trying kept_on_world keeps_lift kept_emit) (simp_all add: ports_keep_def)

lemma kept_decide: "ports_keep I p \<Longrightarrow> world_kept I (decide_next p run observation)"
proof -
  assume ports: "ports_keep I p"
  then have model: "world_kept I (decide_by_model p run observation)"
    unfolding decide_by_model_def
    by (intro keeps_bind kept_on_world keeps_lift) (simp_all add: ports_keep_def)
  have "world_kept I (prog_bind (on_world (f run observation)) (\<lambda>d. case d of
      Some decision \<Rightarrow> lift_res (Ok (decision, From_DOMAIN_PACK)) | None \<Rightarrow> decide_by_model p run observation))"
    if "pt_domain p = Some (b, f)" for b f
    using that ports model by (intro keeps_bind kept_on_world) (auto simp: ports_keep_def split: option.split)
  with model show ?thesis unfolding decide_next_def by (auto split: option.split)
qed

text \<open>
  The two phases of a run: while the loop goes on the world has the first property, once it stops,
  normally or by an exception, the second, weaker one.
\<close>

definition own_observation :: "'w loop_ports \<Rightarrow> loop_observation \<Rightarrow> bool" where
  "own_observation p o' = (\<exists>raw n. o' = bind_observation (pt_secret p) raw n)"

definition phased :: "('w \<Rightarrow> bool) \<Rightarrow> ('w \<Rightarrow> bool) \<Rightarrow> 'w loop_ports \<Rightarrow> ('w loop_state, loop_flow) prog \<Rightarrow> bool" where
  "phased I J p m = (\<forall>s r t. m s = (r, t) \<longrightarrow> I (ls_world s) \<longrightarrow>
     (case r of Inr (Next o') \<Rightarrow> own_observation p o' \<and> I (ls_world t) | _ \<Rightarrow> J (ls_world t)))"

lemma phasedI:
  assumes "\<And>s r t. m s = (r, t) \<Longrightarrow> I (ls_world s) \<Longrightarrow>
     (case r of Inr (Next o') \<Rightarrow> own_observation p o' \<and> I (ls_world t) | _ \<Rightarrow> J (ls_world t))"
  shows "phased I J p m"
  using assms unfolding phased_def by blast

lemma phasedD:
  "phased I J p m \<Longrightarrow> m s = (r, t) \<Longrightarrow> I (ls_world s) \<Longrightarrow>
     (case r of Inr (Next o') \<Rightarrow> own_observation p o' \<and> I (ls_world t) | _ \<Rightarrow> J (ls_world t))"
  unfolding phased_def by blast

text \<open>A first part that keeps both properties; its result may be known to satisfy a predicate.\<close>

lemma phased_bind:
  assumes "world_kept I m" and "\<And>w. I w \<Longrightarrow> J w"
    and "\<And>s x t. m s = (Ok x, t) \<Longrightarrow> phased I J p (f x)"
  shows "phased I J p (prog_bind m f)"
proof (rule phasedI)
  fix s r u assume run: "prog_bind m f s = (r, u)" and s: "I (ls_world s)"
  from run show "case r of Inr (Next o') \<Rightarrow> own_observation p o' \<and> I (ls_world u) | _ \<Rightarrow> J (ls_world u)"
  proof (cases rule: prog_bind_cases)
    case (raised e)
    from keepsD [OF assms(1) raised(1) s] raised(2) assms(2) show ?thesis by simp
  next
    case (returned x t)
    from phasedD [OF assms(3) [OF returned(1)] returned(2) keepsD [OF assms(1) returned(1) s]] show ?thesis .
  qed
qed

lemma phased_trying:
  assumes "world_kept I m" and "\<And>e. phased I J p (h e)" and "\<And>s x t. m s = (Ok x, t) \<Longrightarrow> phased I J p (f x)"
  shows "phased I J p (trying m h f)"
proof (rule phasedI)
  fix s r u assume run: "trying m h f s = (r, u)" and s: "I (ls_world s)"
  from run show "case r of Inr (Next o') \<Rightarrow> own_observation p o' \<and> I (ls_world u) | _ \<Rightarrow> J (ls_world u)"
  proof (cases rule: trying_cases)
    case (raised e t)
    from phasedD [OF assms(2) raised(2) keepsD [OF assms(1) raised(1) s]] show ?thesis .
  next
    case (returned x t)
    from phasedD [OF assms(3) [OF returned(1)] returned(2) keepsD [OF assms(1) returned(1) s]] show ?thesis .
  qed
qed

lemma observe_own: "observe_page p run s = (Ok o', t) \<Longrightarrow> own_observation p o'"
  by (auto simp: observe_page_def prog_bind_ok lift_read_def lift_res_def own_observation_def)

lemma phased_next: "own_observation p o' \<Longrightarrow> phased I J p (lift_res (Ok (Next o')))"
  by (auto simp: phased_def lift_res_def)

lemma phased_raise: "(\<And>w. I w \<Longrightarrow> J w) \<Longrightarrow> phased I J p (lift_res (Inl e))"
  by (auto simp: phased_def lift_res_def)

lemma phased_halt:
  assumes "ports_keep J p" and "\<And>w. I w \<Longrightarrow> J w"
  shows "phased I J p (halt_with p run status c)"
proof (rule phasedI)
  fix s r t
  assume run: "halt_with p run status c s = (r, t)" and s: "I (ls_world s)"
  from run have "\<forall>o'. r \<noteq> Ok (Next o')"
    by (auto simp: halt_with_def prog_bind_def lift_res_def split: prod.splits sum.splits)
  with keepsD [OF kept_halt [OF assms(1)] run] assms(2) [OF s]
  show "case r of Inr (Next o') \<Rightarrow> own_observation p o' \<and> I (ls_world t) | _ \<Rightarrow> J (ls_world t)"
    by (auto split: sum.split loop_flow.split)
qed

lemma phased_finish:
  assumes "ports_keep J p" and "\<And>w. I w \<Longrightarrow> J w"
  shows "phased I J p (prog_bind (terminal_report p run status c ap ck) (\<lambda>r. lift_res (Ok (Halt r))))"
proof (rule phasedI)
  fix s r t
  assume run: "prog_bind (terminal_report p run status c ap ck) (\<lambda>r. lift_res (Ok (Halt r))) s = (r, t)"
    and s: "I (ls_world s)"
  have "world_kept J (prog_bind (terminal_report p run status c ap ck) (\<lambda>r. lift_res (Ok (Halt r))))"
    by (intro keeps_bind kept_terminal keeps_lift assms(1))
  from keepsD [OF this run] assms(2) [OF s] run
  show "case r of Inr (Next o') \<Rightarrow> own_observation p o' \<and> I (ls_world t) | _ \<Rightarrow> J (ls_world t)"
    by (auto simp: prog_bind_def lift_res_def split: prod.splits sum.splits)
qed

text \<open>A part that never goes on only has to keep the second property.\<close>

lemma phased_stop:
  assumes "world_kept J m" and "\<And>w. I w \<Longrightarrow> J w" and "\<And>s o' t. m s \<noteq> (Ok (Next o'), t)"
  shows "phased I J p m"
proof (rule phasedI)
  fix s r t assume run: "m s = (r, t)" and s: "I (ls_world s)"
  from keepsD [OF assms(1) run] assms(2) [OF s] assms(3) [of s _ t] run
  show "case r of Inr (Next o') \<Rightarrow> own_observation p o' \<and> I (ls_world t) | _ \<Rightarrow> J (ls_world t)"
    by (auto split: sum.split loop_flow.split)
qed

definition phase_laws :: "('w \<Rightarrow> bool) \<Rightarrow> ('w \<Rightarrow> bool) \<Rightarrow> 'w loop_ports \<Rightarrow> run_context \<Rightarrow> bool" where
  "phase_laws I J p run =
     (ports_keep I p \<and> ports_keep J p \<and> (\<forall>w. I w \<longrightarrow> J w) \<and>
      (\<forall>c w r v. governed_command p run c \<longrightarrow> I w \<longrightarrow> rt_execute (pt_runtime p) c w = (r, v) \<longrightarrow>
         (if may_go_on (ea_effect (az_authorization c)) r then I v else J v)))"

lemma phase_lawsD:
  assumes "phase_laws I J p run"
  shows "ports_keep I p" "ports_keep J p" "\<And>w. I w \<Longrightarrow> J w"
    "\<And>c w r v. governed_command p run c \<Longrightarrow> I w \<Longrightarrow> rt_execute (pt_runtime p) c w = (r, v) \<Longrightarrow>
       (if may_go_on (ea_effect (az_authorization c)) r then I v else J v)"
  using assms unfolding phase_laws_def by blast+

lemma retry_own:
  assumes "retry_reobserve p run s = (Ok (Some o'), t)"
  shows "own_observation p o'"
proof -
  from assms obtain granted u where granted: "(if \<not> granted then lift_res (Ok None)
      else trying (observe_page p run) (\<lambda>_. lift_res (Ok None)) (\<lambda>o'. lift_res (Ok (Some o')))) u = (Ok (Some o'), t)"
    unfolding retry_reobserve_def prog_bind_ok by blast
  then have "trying (observe_page p run) (\<lambda>_. lift_res (Ok None)) (\<lambda>o'. lift_res (Ok (Some o'))) u = (Ok (Some o'), t)"
    by (cases granted) (simp_all add: lift_res_def)
  then show ?thesis by (cases rule: trying_cases) (auto simp: lift_res_def dest: observe_own)
qed

lemma phased_reobserve:
  assumes "phase_laws I J p run"
  shows "phased I J p (reobserve_or_halt p run)"
proof -
  note laws = phase_lawsD [OF assms]
  have "world_kept I (retry_reobserve p run)"
    unfolding retry_reobserve_def
    by (intro keeps_bind kept_consume) (simp add: keeps_trying [OF kept_observe [OF laws(1)]])
  then show ?thesis
    unfolding reobserve_or_halt_def
  proof (rule phased_bind)
    fix s t and refreshed :: "loop_observation option"
    assume "retry_reobserve p run s = (Ok refreshed, t)"
    then have "own_observation p o'" if "refreshed = Some o'" for o' using that retry_own by blast
    then show "phased I J p (case refreshed of None \<Rightarrow> halt_with p run Loop_FAILED ''RETRY_BUDGET_EXHAUSTED''
       | Some observation \<Rightarrow> lift_res (Ok (Next observation)))"
      using phased_halt [OF laws(2,3)] phased_next by (cases refreshed) auto
  qed (rule laws(3))
qed

lemma phased_continue:
  assumes "phase_laws I J p run" and "own_observation p o'"
  shows "phased I J p (continue_after p run effect o' verdict)"
proof -
  note laws = phase_lawsD [OF assms(1)]
  have "phased I J p (prog_bind (consume_retry p) (\<lambda>granted.
        if \<not> granted then halt_with p run Loop_FAILED ''RETRY_BUDGET_EXHAUSTED'' else lift_res (Ok (Next o'))))"
    by (rule phased_bind [OF kept_consume laws(3)]) (simp_all add: phased_halt [OF laws(2,3)] phased_next assms(2))
  then show ?thesis
    unfolding continue_after_def
    by (simp add: phased_halt [OF laws(2,3)] phased_next assms(2) split: option.split)
qed

text \<open>What follows an execution: going on after a result, or stopping on the open one.\<close>

lemma pending_stops:
  assumes "ports_keep J p" and "br_pending_result_probe result"
  shows "world_kept J (after_action p run observation decision source command result)"
    and "after_action p run observation decision source command result s \<noteq> (Ok (Next o'), t)"
  unfolding after_action_parts suspend_for_probe_def if_P [OF assms(2)]
proof -
  show "world_kept J (prog_bind (update_state (count_action x)) (\<lambda>_. prog_bind (emit_event p run st c ob fp d) (\<lambda>_.
      prog_bind (update_state (\<lambda>s. s\<lparr>ls_effect_may_have_started := True\<rparr>)) (\<lambda>_. prog_bind
        (verify_outcome p run o1 o2 dn src r ef f) (\<lambda>_. prog_bind (terminal_report p run tst tc ap ck)
          (\<lambda>r. lift_res (Ok (Halt r))))))))" for x st c ob fp d o1 o2 dn src r ef f tst tc ap ck
    by (intro keeps_bind kept_update kept_emit kept_verify kept_terminal keeps_lift assms(1)) (simp_all add: count_action_def)
qed (auto simp: prog_bind_ok lift_res_def)

lemma phased_after_action:
  assumes laws: "phase_laws I J p run" and go: "\<not> br_pending_result_probe result"
  shows "phased I J p (after_action p run observation decision source command result)"
proof -
  note parts = phase_lawsD [OF laws]
  have look: "phased I J p (trying (observe_page p run) (\<lambda>_. halt_with p run st c) (\<lambda>after. prog_bind
      (verify_outcome p run before after d src r e f) (continue_after p run ef after)))" for st c before d src r e f ef
  proof (rule phased_trying [OF kept_observe [OF parts(1)] phased_halt [OF parts(2,3)]])
    fix s after t assume "observe_page p run s = (Ok after, t)"
    then have "own_observation p after" by (rule observe_own)
    then show "phased I J p (prog_bind (verify_outcome p run before after d src r e f) (continue_after p run ef after))"
      by (intro phased_bind [OF kept_verify [OF parts(1)] parts(3)] phased_continue [OF laws])
  qed
  show ?thesis
    unfolding after_action_parts if_not_P [OF go]
    by (intro phased_bind kept_update kept_emit look parts(1,3)) (simp_all add: count_action_def)
qed

definition after_failure ::
  "'w loop_ports \<Rightarrow> run_context \<Rightarrow> execution_effect \<Rightarrow> exn \<Rightarrow> ('w loop_state, loop_flow) prog" where
  "after_failure p run effect e = (case exc_of e of
           StaleObservationError \<Rightarrow> reobserve_or_halt p run
         | BrowserRuntimeError started \<Rightarrow>
             if started \<and> is_write effect then halt_with p run Loop_UNKNOWN ''ACTION_EFFECT_UNKNOWN''
             else reobserve_or_halt p run
         | _ \<Rightarrow> if is_write effect then halt_with p run Loop_UNKNOWN ''ACTION_EFFECT_UNKNOWN''
             else halt_with p run Loop_FAILED ''ACTION_EXECUTION_FAILED'')"

lemma execute_parts:
  "execute_command p run observation decision source command =
     prog_bind (emit_event p run Stage_action ''ACTION_STARTED'' (Some (lo_observation_id observation))
       (Some (az_action_fingerprint command))
       [(''kind'', JStr (action_kind_value (ac_kind (az_action command)))),
        (''effect'', JStr (effect_value (ea_effect (az_authorization command)))),
        (''source'', JStr (decision_source_value source))]) (\<lambda>_.
     prog_bind (update_state (\<lambda>s. s\<lparr>ls_last_effect := ea_effect (az_authorization command)\<rparr>)) (\<lambda>_.
     trying (on_world (rt_execute (pt_runtime p) command)) (after_failure p run (ea_effect (az_authorization command)))
       (after_action p run observation decision source command)))"
  by (simp add: execute_command_def Let_def after_failure_def [abs_def])

lemma failure_goes_on:
  assumes "phase_laws I J p run" and "may_go_on effect (Inl e)"
  shows "phased I J p (after_failure p run effect e)"
proof -
  have "after_failure p run effect e = reobserve_or_halt p run"
    using assms(2) by (auto simp: may_go_on_def after_failure_def)
  with phased_reobserve [OF assms(1)] show ?thesis by simp
qed

lemma failure_stops:
  assumes "\<not> may_go_on effect (Inl e)" and "ports_keep J p"
  shows "world_kept J (after_failure p run effect e)" and "after_failure p run effect e s \<noteq> (Ok (Next o'), t)"
proof -
  have "after_failure p run effect e = halt_with p run (if is_write effect then Loop_UNKNOWN else Loop_FAILED)
      (if is_write effect then ''ACTION_EFFECT_UNKNOWN'' else ''ACTION_EXECUTION_FAILED'')"
    using assms(1) by (cases "exc_of e") (auto simp: may_go_on_def after_failure_def)
  then show "world_kept J (after_failure p run effect e)" and "after_failure p run effect e s \<noteq> (Ok (Next o'), t)"
    using kept_halt [OF assms(2)] by (auto simp: halt_with_def prog_bind_ok lift_res_def)
qed

lemma phased_execute:
  assumes laws: "phase_laws I J p run" and command: "governed_command p run command"
  shows "phased I J p (execute_command p run observation decision source command)"
proof -
  note parts = phase_lawsD [OF laws]
  let ?effect = "ea_effect (az_authorization command)"
  let ?h = "after_failure p run ?effect"
  let ?act = "trying (on_world (rt_execute (pt_runtime p) command)) ?h (after_action p run observation decision source command)"
  have act: "phased I J p ?act"
  proof (rule phasedI)
    fix s x t assume run: "?act s = (x, t)" and s: "I (ls_world s)"
    obtain y v where out: "rt_execute (pt_runtime p) command (ls_world s) = (y, v)" by force
    let ?u = "s\<lparr>ls_world := v\<rparr>"
    note fate = parts(4) [OF command s out]
    show "case x of Inr (Next o') \<Rightarrow> own_observation p o' \<and> I (ls_world t) | _ \<Rightarrow> J (ls_world t)"
    proof (cases y)
      case (Inl e)
      with run out have h: "?h e ?u = (x, t)" by (simp add: trying_def on_world_def)
      show ?thesis
      proof (cases "may_go_on ?effect (Inl e)")
        case True
        with fate Inl have "I (ls_world ?u)" by simp
        from phasedD [OF failure_goes_on [OF laws True] h this] show ?thesis .
      next
        case False
        with fate Inl have "J (ls_world ?u)" by simp
        from keepsD [OF failure_stops(1) [OF False parts(2)] h this] have "J (ls_world t)" .
        moreover have "\<And>o'. x \<noteq> Ok (Next o')" using failure_stops(2) [OF False parts(2)] h by metis
        ultimately show ?thesis by (cases x) (simp_all split: loop_flow.split)
      qed
    next
      case (Inr result)
      with run out have h: "after_action p run observation decision source command result ?u = (x, t)"
        by (simp add: trying_def on_world_def)
      show ?thesis
      proof (cases "br_pending_result_probe result")
        case True
        with fate Inr have "J (ls_world ?u)" by (simp add: may_go_on_def)
        from keepsD [OF pending_stops(1) [OF parts(2) True] h this] have "J (ls_world t)" .
        moreover have "\<And>o'. x \<noteq> Ok (Next o')" using pending_stops(2) [OF parts(2) True] h by metis
        ultimately show ?thesis by (cases x) (simp_all split: loop_flow.split)
      next
        case False
        with fate Inr have "I (ls_world ?u)" by (simp add: may_go_on_def)
        from phasedD [OF phased_after_action [OF laws False] h this] show ?thesis .
      qed
    qed
  qed
  show ?thesis
    unfolding execute_parts
    by (intro phased_bind kept_emit kept_update parts(1,3) act) simp_all
qed

lemma authorized_governed:
  assumes "authorized_command observation decision fingerprint policy = Ok command" and "own_observation p observation"
    and "dn_action decision = Some action"
    and "action_fingerprint (rc_task_id run) (rc_step_id run) (action_dump action) (lo_observation_id observation) (pt_secret p) =
      Ok fingerprint"
  shows "governed_command p run command"
proof -
  from assms(1,3) obtain auth profile d where parts: "pz_authorization policy = Some auth"
      "pz_execution_profile policy = Some profile"
      "ea_permit_id auth \<noteq> []" "ea_idempotency_key auth \<noteq> []" "ea_action_fingerprint auth = fingerprint"
      "ea_observation_hash auth = lo_observation_id observation"
      "require_allowed_profile (ea_effect auth) profile = Ok d"
      "command = \<lparr>az_action = action, az_action_fingerprint = fingerprint,
                  az_observation_id = lo_observation_id observation,
                  az_expected_snapshot_hash = lo_snapshot_hash observation, az_authorization = auth,
                  az_execution_profile = profile\<rparr>"
    by (auto simp: authorized_command_def res_bind_ok compare_digest_ok split: option.splits if_splits)
  with require_allowed_profile_ok [of "ea_effect auth" profile] assms(2,4) show ?thesis
    by (auto simp: governed_command_def own_observation_def)
qed

lemma phased_act:
  assumes laws: "phase_laws I J p run" and own: "own_observation p observation"
  shows "phased I J p (act_on p run observation decision source)"
proof (cases "dn_action decision")
  case None
  then show ?thesis by (simp add: act_on_def phased_raise phase_lawsD(3) [OF laws])
next
  case (Some action)
  note parts = phase_lawsD [OF laws]
  have perform: "phased I J p (perform_authorized p run observation decision source fingerprint policy)"
    if "action_fingerprint (rc_task_id run) (rc_step_id run) (action_dump action) (lo_observation_id observation) (pt_secret p) =
      Ok fingerprint" for fingerprint policy
  proof (cases "authorized_command observation decision fingerprint policy")
    case (Inl e)
    then show ?thesis by (simp add: perform_authorized_def phased_halt [OF parts(2,3)] phased_raise [OF parts(3)])
  next
    case (Inr command)
    note governed = authorized_governed [OF Inr own Some that]
    have "phased I J p (if observation_is_stale (pt_config p) observation now then reobserve_or_halt p run
        else execute_command p run observation decision source command)" for now
      by (simp add: phased_reobserve [OF laws] phased_execute [OF laws governed])
    then have "phased I J p (prog_bind (read_clock p) (\<lambda>now.
        if observation_is_stale (pt_config p) observation now then reobserve_or_halt p run
        else execute_command p run observation decision source command))"
      by (intro phased_bind [OF kept_clock [OF parts(1)] parts(3)])
    with Inr show ?thesis by (simp add: perform_authorized_def)
  qed
  have dispatch: "phased I J p (case pz_disposition policy of
                Policy_DENY \<Rightarrow> halt_with p run Loop_FAILED (pz_reason_code policy)
              | Policy_REQUIRE_APPROVAL \<Rightarrow>
                  prog_bind (terminal_report p run Loop_AWAITING_APPROVAL (pz_reason_code policy)
                    (pz_approval_ref policy) None) (\<lambda>r. lift_res (Ok (Halt r)))
              | Policy_REOBSERVE \<Rightarrow> reobserve_or_halt p run
              | Policy_ALLOW \<Rightarrow> perform_authorized p run observation decision source fingerprint policy)"
    if "action_fingerprint (rc_task_id run) (rc_step_id run) (action_dump action) (lo_observation_id observation) (pt_secret p) =
      Ok fingerprint" for fingerprint policy
    by (cases "pz_disposition policy")
      (simp_all add: phased_halt [OF parts(2,3)] phased_finish [OF parts(2,3)] phased_reobserve [OF laws] perform [OF that])
  show ?thesis
    unfolding act_on_def Some option.case
  proof (rule phased_bind [OF keeps_lift(1) parts(3)])
    fix s t fingerprint
    assume "lift_res (action_fingerprint (rc_task_id run) (rc_step_id run) (action_dump action)
        (lo_observation_id observation) (pt_secret p)) s = (Ok fingerprint, t)"
    then have "action_fingerprint (rc_task_id run) (rc_step_id run) (action_dump action) (lo_observation_id observation)
        (pt_secret p) = Ok fingerprint" by (simp add: lift_res_def)
    note rest = dispatch [OF this]
    show "phased I J p (trying (on_world (pt_authorize p run observation action fingerprint))
            (\<lambda>_. halt_with p run Loop_FAILED ''POLICY_EVALUATION_FAILED'')
            (\<lambda>policy. prog_bind (emit_event p run Stage_policy (pz_reason_code policy)
                (Some (lo_observation_id observation)) (Some fingerprint)
                [(''disposition'', JStr (policy_disposition_value (pz_disposition policy)))]) (\<lambda>_.
              case pz_disposition policy of
                Policy_DENY \<Rightarrow> halt_with p run Loop_FAILED (pz_reason_code policy)
              | Policy_REQUIRE_APPROVAL \<Rightarrow>
                  prog_bind (terminal_report p run Loop_AWAITING_APPROVAL (pz_reason_code policy)
                    (pz_approval_ref policy) None) (\<lambda>r. lift_res (Ok (Halt r)))
              | Policy_REOBSERVE \<Rightarrow> reobserve_or_halt p run
              | Policy_ALLOW \<Rightarrow> perform_authorized p run observation decision source fingerprint policy)))"
      using parts(1) by (intro phased_trying kept_on_world phased_halt [OF parts(2,3)] phased_bind [OF kept_emit parts(3)] rest)
        (simp_all add: ports_keep_def)
  qed
qed

lemma phased_claim:
  assumes laws: "phase_laws I J p run"
  shows "phased I J p (claim_success p run observation decision source)"
proof -
  note parts = phase_lawsD [OF laws]
  have "phased I J p (trying (observe_page p run) (\<lambda>_. halt_with p run Loop_FAILED ''OBSERVATION_FAILED'')
      (\<lambda>o'. lift_res (Ok (Next o'))))"
    by (rule phased_trying [OF kept_observe [OF parts(1)] phased_halt [OF parts(2,3)]]) (simp, rule phased_next, rule observe_own)
  then have "phased I J p (case verdict_status (vf_disposition v) of
       Some status \<Rightarrow> halt_with p run status (vf_reason_code v)
     | None \<Rightarrow> if vf_disposition v = Verify_RETRY then reobserve_or_halt p run
         else trying (observe_page p run) (\<lambda>_. halt_with p run Loop_FAILED ''OBSERVATION_FAILED'')
           (\<lambda>o'. lift_res (Ok (Next o'))))" for v
    by (simp add: phased_halt [OF parts(2,3)] phased_reobserve [OF laws] split: option.split)
  then show ?thesis
    unfolding claim_success_def by (intro phased_bind [OF kept_verify [OF parts(1)] parts(3)])
qed

lemma phased_pass:
  assumes laws: "phase_laws I J p run" and own: "own_observation p observation"
  shows "phased I J p (loop_pass p run observation)"
proof -
  note parts = phase_lawsD [OF laws]
  have "phased I J p (case dn_kind decision of
             Decide_FAILURE \<Rightarrow> halt_with p run Loop_FAILED (dn_reason_code decision)
           | Decide_SUCCESS \<Rightarrow> claim_success p run observation decision source
           | Decide_ACTION \<Rightarrow> act_on p run observation decision source)" for decision source
    by (cases "dn_kind decision") (simp_all add: phased_halt [OF parts(2,3)] phased_claim [OF laws] phased_act [OF laws own])
  note dispatch = this
  have decided: "phased I J p (prog_bind (lift_res (compare_digest (dn_observation_id decision) (lo_observation_id observation))) (\<lambda>same.
         if \<not> same then halt_with p run Loop_FAILED ''DECISION_OBSERVATION_MISMATCH''
         else prog_bind (emit_event p run Stage_decision (dn_reason_code decision) (Some (lo_observation_id observation))
             None [(''kind'', JStr (decision_kind_value (dn_kind decision))),
                   (''source'', JStr (decision_source_value source))]) (\<lambda>_.
           case dn_kind decision of
             Decide_FAILURE \<Rightarrow> halt_with p run Loop_FAILED (dn_reason_code decision)
           | Decide_SUCCESS \<Rightarrow> claim_success p run observation decision source
           | Decide_ACTION \<Rightarrow> act_on p run observation decision source)))" for decision source
    by (intro phased_bind [OF keeps_lift(1) parts(3)])
      (auto simp: phased_halt [OF parts(2,3)] intro!: phased_bind [OF kept_emit [OF parts(1)] parts(3)] dispatch)
  show ?thesis
    unfolding loop_pass_def
    by (rule phased_trying [OF kept_decide [OF parts(1)] phased_halt [OF parts(2,3)]])
      (simp, case_tac x, simp only: prod.case decided)
qed

lemma loop_from_world:
  assumes laws: "phase_laws I J p run"
  shows "loop_from p run left i observation s = (r, t) \<Longrightarrow> own_observation p observation \<Longrightarrow> I (ls_world s) \<Longrightarrow> J (ls_world t)"
proof (induction left arbitrary: i observation s)
  case 0
  then have "terminal_report p run Loop_FAILED ''ITERATION_BUDGET_EXHAUSTED'' None None s = (r, t)" by simp
  from keepsD [OF kept_terminal [OF phase_lawsD(2) [OF laws]] this] phase_lawsD(3) [OF laws] 0(3) show ?case by blast
next
  case (Suc left)
  let ?s = "s\<lparr>ls_iterations := i\<rparr>"
  obtain x u where pass: "loop_pass p run observation ?s = (x, u)" by force
  from phasedD [OF phased_pass [OF laws Suc.prems(2)] pass] Suc.prems(3)
  have fate: "case x of Inr (Next o') \<Rightarrow> own_observation p o' \<and> I (ls_world u) | _ \<Rightarrow> J (ls_world u)" by simp
  consider (goes_on) o' where "x = Ok (Next o')" | (stop) "\<forall>o'. x \<noteq> Ok (Next o')" "t = u"
    using Suc.prems(1) pass
    by (auto simp: prog_bind_def update_state_def lift_res_def split: sum.splits loop_flow.splits)
  then show ?case
  proof cases
    case goes_on
    with Suc.prems(1) pass have "loop_from p run left (Suc i) o' u = (r, t)"
      by (simp add: prog_bind_def update_state_def)
    with Suc.IH fate goes_on show ?thesis by simp
  next
    case stop
    with fate show ?thesis by (cases x) (auto split: loop_flow.splits)
  qed
qed

lemma run_loop_world:
  assumes laws: "phase_laws I J p run" and "I w" and "browser_loop_run p run w = (r, t)"
  shows "J (ls_world t)"
proof -
  note parts = phase_lawsD [OF laws]
  obtain x u where run: "run_loop p run (initial_loop_state w) = (x, u)"
      and whole: "browser_loop_run p run w = (case x of Inl _ \<Rightarrow>
          terminal_report p run (if ls_effect_may_have_started u then Loop_UNKNOWN else Loop_FAILED)
            ''EVENT_OR_LOOP_FAILURE'' None None u | Inr q \<Rightarrow> (Ok q, u))"
    by (rule loop_run_parts)
  have start: "I (ls_world (initial_loop_state w))" using assms(2) by (simp add: initial_loop_state_def)
  have "J (ls_world u)"
    using run unfolding run_loop_def
  proof (cases rule: trying_cases)
    case (raised e v)
    from keepsD [OF kept_observe [OF parts(1)] raised(1) start] parts(3) have "J (ls_world v)" by blast
    from keepsD [OF kept_terminal [OF parts(2)] raised(2) this] show ?thesis .
  next
    case (returned o' v)
    from keepsD [OF kept_observe [OF parts(1)] returned(1) start] have "I (ls_world v)" .
    from loop_from_world [OF laws returned(2) observe_own [OF returned(1)] this] show ?thesis .
  qed
  note end' = this
  show ?thesis
  proof (cases x)
    case (Inl e)
    with whole assms(3) have "terminal_report p run (if ls_effect_may_have_started u then Loop_UNKNOWN else Loop_FAILED)
        ''EVENT_OR_LOOP_FAILURE'' None None u = (r, t)" by simp
    from keepsD [OF kept_terminal [OF parts(2)] this end'] show ?thesis .
  next
    case (Inr q)
    with whole assms(3) end' show ?thesis by simp
  qed
qed


section \<open>A run on a small page\<close>

text \<open>Digests are ASCII text.\<close>

lemma ascii_hexdigest: "\<forall>b \<in> set bs. b < 256 \<Longrightarrow> ascii_text (hexdigest bs)"
proof (induction bs)
  case (Cons b bs)
  have "(of_char (hex_digit d) :: nat) < 128" if "d < 16" for d
    using that by (simp add: hex_digit_def)
  moreover from Cons.prems have "b div 16 < 16" "b mod 16 < 16" by auto
  ultimately show ?case using Cons by (simp add: hexdigest_def ascii_text_def)
qed (simp add: hexdigest_def ascii_text_def)

lemma sha256_bytes_small: "b \<in> set (sha256_bytes m) \<Longrightarrow> b < 256"
proof -
  have "unat (w AND 255 :: u32) < 256" for w
  proof -
    have "w AND 255 \<le> 255" by (rule word_and_le1)
    then show ?thesis by (simp add: word_le_nat_alt)
  qed
  then show "b \<in> set (sha256_bytes m) \<Longrightarrow> b < 256" by (auto simp: sha256_bytes_def Let_def)
qed

lemma ascii_digest: "ascii_text (hmac_sha256 k m)"
  by (simp add: hmac_sha256_def Let_def ascii_hexdigest sha256_bytes_small)

text \<open>
  A page of one button and a model that first presses it or says it is done at once. The world counts
  writes; each write fails with an effect that may have started.
\<close>

definition sample_loop_run :: run_context where
  "sample_loop_run = \<lparr>rc_run_id = ''run'', rc_task_id = ''task'', rc_step_id = ''s1'', rc_goal = ''press'',
     rc_pack_id = None, rc_pack_version = None, rc_capability_id = None, rc_contract_id = None, rc_metadata = []\<rparr>"

definition sample_raw :: raw_observation where
  "sample_raw = \<lparr>ro_url = ''u'', ro_title = None, ro_page_html = ''h'', ro_model_dom = [], ro_screenshots = [],
     ro_elements = [], ro_iframes = [], ro_captured_at = 0\<rparr>"

definition sample_press :: browser_action where
  "sample_press = \<lparr>ac_kind = Kind_CLICK, ac_operation = ''press'', ac_element_id = Some ''b'', ac_text = None,
     ac_option_value = None, ac_url = None, ac_keys = [], ac_scroll_x = 0, ac_scroll_y = 0, ac_wait_seconds = 0\<rparr>"

definition sample_ports :: "decision_kind \<Rightarrow> nat loop_ports" where
  "sample_ports k =
     \<lparr>pt_runtime = \<lparr>rt_observe = Pair (Ok sample_raw), rt_fresh_observation = None,
        rt_execute = (\<lambda>c w. if is_write (ea_effect (az_authorization c))
          then (Raise (BrowserRuntimeError True) [], w + 1) else (Raise StaleObservationError [], w))\<rparr>,
      pt_model = (\<lambda>x. Pair (Ok \<lparr>dn_kind = k, dn_observation_id = mi_observation_id x,
        dn_action = (if k = Decide_ACTION then Some sample_press else None), dn_reason_code = ''NEXT''\<rparr>)),
      pt_prepare_input = (\<lambda>r o'. Pair (Ok \<lparr>mi_observation_id = lo_observation_id o', mi_goal = rc_goal r, mi_url = lo_url o',
        mi_dom = [], mi_screenshots = [], mi_iframes = [], mi_allowed_action_kinds = []\<rparr>)),
      pt_authorize = (\<lambda>r o' a f. Pair (Ok \<lparr>pz_disposition = Policy_ALLOW, pz_reason_code = ''OK'',
        pz_authorization = Some \<lparr>ea_permit_id = ''p'', ea_action_fingerprint = f,
          ea_observation_hash = lo_observation_id o', ea_idempotency_key = ''k'', ea_effect = INTERNAL_WRITE\<rparr>,
        pz_execution_profile = Some \<lparr>prf_mechanism = LOCATOR, prf_fallback_rank = 0, prf_evidence_refs = [''e'']\<rparr>,
        pz_approval_ref = None\<rparr>)),
      pt_verify = (\<lambda>q. Pair (Ok \<lparr>vf_disposition = Verify_SUCCEEDED, vf_reason_code = ''DONE'', vf_evidence_refs = []\<rparr>)),
      pt_emit = (\<lambda>e. Pair (Ok ())), pt_domain = None, pt_clock = Pair 0, pt_secret = ''s'',
      pt_config = default_loop_config\<rparr>"

lemma sample_ports_keep: "ports_keep I (sample_ports k)"
  by (simp add: ports_keep_def keeps_def sample_ports_def)


text \<open>
  C9. A run that reports success ends with a verification that just succeeded, with
  its reason, followed by the terminal event; one that reports a pause for approval ends with a policy
  that just asked for approval; and an execution checkpoint is reported only as unknown, never as a
  success or a failure. The report always exists.
\<close>

theorem reports_grounded: "\<exists>q t. browser_loop_run p run w = (Ok q, t) \<and> report_grounded q"
  using browser_loop_post [of p run w] by (auto simp: report_post_def)

text \<open>A success is within reach: the page's model says it is done, and the verifier agrees.\<close>

lemma sample_run_succeeds:
  "\<exists>q t. browser_loop_run (sample_ports Decide_SUCCESS) sample_loop_run 0 = (Ok q, t) \<and> lp_status q = Loop_SUCCEEDED"
proof -
  let ?p = "sample_ports Decide_SUCCESS"
  have ports: "pt_emit ?p = (\<lambda>e. Pair (Ok ()))" "pt_clock ?p = Pair 0"
    by (simp_all add: sample_ports_def)
  have emit: "\<exists>u. emit_event ?p sample_loop_run stage c ob fp d s = (Ok (), u)" if "event_code_ok c"
    for stage c ob fp d and s :: "nat loop_state"
    using that ports
    by (simp add: emit_event_def prog_bind_def read_clock_def on_world_def lift_read_def validate_loop_event_def update_state_def)
  have codes: "event_code_ok ''OBSERVATION_CAPTURED''" "event_code_ok ''NEXT''" "event_code_ok ''DONE''"
    by (simp_all add: event_code_ok_def upper_letters_def)
  have observe: "\<exists>t. observe_page ?p sample_loop_run s = (Ok (bind_observation ''s'' sample_raw (ls_observations s + 1)), t)"
    for s :: "nat loop_state"
  proof -
    let ?o = "bind_observation ''s'' sample_raw (ls_observations s + 1)"
    obtain u where "emit_event ?p sample_loop_run Stage_observation ''OBSERVATION_CAPTURED'' (Some (lo_observation_id ?o))
       None [(''sequence'', JInt (int (lo_sequence ?o)))]
       (s\<lparr>ls_observations := ls_observations s + 1, ls_last_observation_id := Some (lo_observation_id ?o)\<rparr>) = (Ok (), u)"
      using emit [OF codes(1)] by blast
    then have "observe_page ?p sample_loop_run s = (Ok ?o, u)"
      by (simp add: observe_page_def prog_bind_def on_world_def update_state_def lift_read_def lift_res_def sample_ports_def)
    then show ?thesis by blast
  qed
  obtain o' u where first: "observe_page ?p sample_loop_run (initial_loop_state 0) = (Ok o', u)"
      and own: "ascii_text (lo_observation_id o')"
    using observe [of "initial_loop_state 0"] ascii_digest by (auto simp: bind_observation_def observation_hash_def)
  have verify: "\<exists>t. verify_outcome ?p sample_loop_run o' o' d src None None None s =
      (Ok \<lparr>vf_disposition = Verify_SUCCEEDED, vf_reason_code = ''DONE'', vf_evidence_refs = []\<rparr>, t)" for d src and s :: "nat loop_state"
  proof -
    obtain v where "emit_event ?p sample_loop_run Stage_verification ''DONE'' (Some (lo_observation_id o')) None
        [(''disposition'', JStr ''succeeded''), (''evidence_count'', JInt 0)] s = (Ok (), v)"
      using emit [OF codes(3)] by blast
    then show ?thesis
      by (simp add: verify_outcome_def trying_def prog_bind_def on_world_def lift_res_def sample_ports_def)
  qed
  have final: "\<exists>q t. halt_with ?p sample_loop_run Loop_SUCCEEDED ''DONE'' s = (Ok (Halt q), t) \<and> lp_status q = Loop_SUCCEEDED"
    for s :: "nat loop_state"
  proof -
    obtain v where "emit_event ?p sample_loop_run Stage_terminal ''DONE'' (ls_last_observation_id s) None
        [(''status'', JStr (loop_status_value Loop_SUCCEEDED))] s = (Ok (), v)"
      using emit [OF codes(3)] by blast
    then show ?thesis
      by (simp add: halt_with_def terminal_report_def prog_bind_def lift_res_def report_counts)
  qed
  have claim: "\<exists>q t. claim_success ?p sample_loop_run o' d src s = (Ok (Halt q), t) \<and> lp_status q = Loop_SUCCEEDED"
    for d src and s :: "nat loop_state"
  proof -
    obtain v where "verify_outcome ?p sample_loop_run o' o' d src None None None s =
        (Ok \<lparr>vf_disposition = Verify_SUCCEEDED, vf_reason_code = ''DONE'', vf_evidence_refs = []\<rparr>, v)"
      using verify by blast
    with final [of v] show ?thesis by (auto simp: claim_success_def prog_bind_def)
  qed
  let ?d = "\<lparr>dn_kind = Decide_SUCCESS, dn_observation_id = lo_observation_id o', dn_action = None, dn_reason_code = ''NEXT''\<rparr>"
  have decide: "decide_next ?p sample_loop_run o' s = (Ok (?d, From_MODEL), s)" for s :: "nat loop_state"
    using own
    by (simp add: decide_next_def domain_provider_matches_def decide_by_model_def prog_bind_def on_world_def lift_res_def
        demand_def compare_digest_def sample_ports_def)
  have "\<exists>q t. loop_pass ?p sample_loop_run o' s = (Ok (Halt q), t) \<and> lp_status q = Loop_SUCCEEDED" for s :: "nat loop_state"
  proof -
    obtain v where "emit_event ?p sample_loop_run Stage_decision ''NEXT'' (Some (lo_observation_id o')) None
        [(''kind'', JStr ''success''), (''source'', JStr ''model'')] s = (Ok (), v)"
      using emit [OF codes(2)] by blast
    with claim [of ?d From_MODEL v] own show ?thesis
      by (auto simp: loop_pass_def trying_def decide prog_bind_def lift_res_def compare_digest_def)
  qed
  then obtain q t where "loop_pass ?p sample_loop_run o' (u\<lparr>ls_iterations := 1\<rparr>) = (Ok (Halt q), t)" "lp_status q = Loop_SUCCEEDED"
    by blast
  moreover from this have "loop_from ?p sample_loop_run (Suc 19) 1 o' u = (Ok q, t)"
    by (simp only: loop_from.simps prog_bind_def update_state_def) (simp add: lift_res_def)
  moreover have "lc_max_iterations (pt_config ?p) = Suc 19" by (simp add: sample_ports_def default_loop_config_def)
  ultimately have "browser_loop_run ?p sample_loop_run 0 = (Ok q, t)"
    using first by (simp del: loop_from.simps add: browser_loop_run_def run_loop_def trying_def prog_bind_def update_state_def lift_res_def)
  with \<open>lp_status q = Loop_SUCCEEDED\<close> show ?thesis by blast
qed

end
