(* ===== verification/PersistedExecution.thy ===== *)
theory PersistedExecution
  imports LoopLaws ExecutionSafety Recovery Journal
begin

text \<open>
  \<open>enterprise/browser_loop/persisted_executor.py\<close>: one browser write between the durable states of its
  attempt, and the recovery of abandoned attempts. The world of the executor is the database beside the
  page; the page, its operations and the fault hook are parameters. Identifiers and clock readings of a
  call are functions of its number.
\<close>

section \<open>The executor\<close>

datatype persisted_stage = After_AUTHORIZED | After_EXECUTING | After_BROWSER_RETURN | After_UNKNOWN

record 'p guarded_runtime =
  gr_observe :: "('p, raw_observation) prog"
  gr_fresh_observation :: "('p, raw_observation) prog option"
  gr_execute :: "authorized_action \<Rightarrow> ('p, browser_result) prog"
  gr_preflight :: "authorized_action \<Rightarrow> ('p, unit) prog"
  gr_execute_preflighted :: "authorized_action \<Rightarrow> ('p, browser_result) prog"

record 'p persisted_executor =
  px_runtime :: "'p guarded_runtime"
  px_result_probe_ref :: "string option"
  px_fault_hook :: "(persisted_stage \<Rightarrow> execution_checkpoint \<Rightarrow> ('p, unit) prog) option"
  px_new_id :: "nat \<Rightarrow> string"
  px_clock :: "nat \<Rightarrow> nat \<Rightarrow> time"

record 'p execution_world =
  xw_db :: db
  xw_page :: 'p
  xw_calls :: nat

definition on_page :: "('p, 'a) prog \<Rightarrow> ('p execution_world, 'a) prog" where
  "on_page m w = (case m (xw_page w) of (r, p) \<Rightarrow> (r, w\<lparr>xw_page := p\<rparr>))"

definition on_tables :: "(db, 'a) prog \<Rightarrow> ('p execution_world, 'a) prog" where
  "on_tables m w = (case m (xw_db w) of (r, s) \<Rightarrow> (r, w\<lparr>xw_db := s\<rparr>))"

text \<open>\<open>_checkpoint\<close>, with the field constraints of \<open>ExecutionCheckpoint\<close>.\<close>

definition checkpoint_fields_ok :: "execution_checkpoint \<Rightarrow> bool" where
  "checkpoint_fields_ok c =
     (list_all (\<lambda>v. v \<noteq> []) [ck_permit_id c, ck_attempt_id c, ck_task_id c, ck_step_id c, ck_action_fingerprint c,
        ck_observation_hash c, ck_execution_effect c, ck_result_probe_ref c, ck_attempt_status c] \<and>
      hex64 (ck_idempotency_key_digest c))"

definition checkpoint_of :: "execution_attempt \<Rightarrow> execution_checkpoint res" where
  "checkpoint_of a =
     (case (xa_permit_id a, xa_idempotency_key_digest a, xa_execution_effect a, xa_result_probe_ref a) of
        (Some permit, Some digest, Some effect, Some probe) \<Rightarrow>
          if permit = [] \<or> digest = [] \<or> probe = []
          then Raise PersistedExecutionError ''Attempt is missing its exact persisted execution checkpoint''
          else (let c = \<lparr>ck_attempt_id = xa_attempt_id a, ck_permit_id = permit, ck_task_id = xa_task_id a,
                 ck_step_id = xa_step_id a, ck_action_fingerprint = xa_action_fingerprint a,
                 ck_observation_hash = xa_observation_hash a, ck_idempotency_key_digest = digest,
                 ck_execution_effect = effect_value effect, ck_result_probe_ref = probe,
                 ck_attempt_status = attempt_status_value (xa_status a)\<rparr>
             in if \<not> checkpoint_fields_ok c then Raise ValueError ''validation error for ExecutionCheckpoint'' else Ok c)
      | _ \<Rightarrow> Raise PersistedExecutionError ''Attempt is missing its exact persisted execution checkpoint'')"

definition inject_fault ::
  "'p persisted_executor \<Rightarrow> persisted_stage \<Rightarrow> execution_checkpoint \<Rightarrow> ('p execution_world, unit) prog" where
  "inject_fault x stage checkpoint = (case px_fault_hook x of
     None \<Rightarrow> lift_res (Ok ()) | Some hook \<Rightarrow> on_page (hook stage checkpoint))"

text \<open>\<open>type(error).__name__\<close>; a class outside the modelled ones counts as \<open>Exception\<close>.\<close>

fun exc_name :: "exc_class \<Rightarrow> string" where
  "exc_name ValueError = ''ValueError''"
| "exc_name TypeError = ''TypeError''"
| "exc_name KeyError = ''KeyError''"
| "exc_name LookupError = ''LookupError''"
| "exc_name RuntimeError = ''RuntimeError''"
| "exc_name PermissionError = ''PermissionError''"
| "exc_name AssertionError = ''AssertionError''"
| "exc_name ExecutionProfileRejected = ''ExecutionProfileRejected''"
| "exc_name PersistedExecutionError = ''PersistedExecutionError''"
| "exc_name (BrowserRuntimeError b) = ''BrowserRuntimeError''"
| "exc_name StaleObservationError = ''StaleObservationError''"
| "exc_name TimeoutError = ''TimeoutError''"
| "exc_name AttributeError = ''AttributeError''"
| "exc_name c = ''Exception''"

text \<open>The first half of \<open>execute\<close>: the two durable states before the browser is invoked.\<close>

definition enter_execution ::
  "'p persisted_executor \<Rightarrow> string \<Rightarrow> (nat \<Rightarrow> time) \<Rightarrow> authorized_action \<Rightarrow>
   ('p execution_world, execution_attempt \<times> execution_checkpoint) prog" where
  "enter_execution x new_id clock command =
     (let auth = az_authorization command in
      prog_bind (transaction (on_tables (authorize_execution_attempt new_id clock (ea_permit_id auth)
          (az_action_fingerprint command) (az_observation_id command) (ea_idempotency_key auth) (ea_effect auth)
          (az_execution_profile command) None (px_result_probe_ref x) (Some (clock 0))))) (\<lambda>authorized.
      prog_bind (lift_res (checkpoint_of authorized)) (\<lambda>authorized_checkpoint.
      prog_bind (inject_fault x After_AUTHORIZED authorized_checkpoint) (\<lambda>_.
      prog_bind (transaction (on_tables (mark_execution_attempt_executing (xa_attempt_id authorized) (clock 3)))) (\<lambda>executing.
      prog_bind (lift_res (checkpoint_of executing)) (\<lambda>executing_checkpoint.
      prog_bind (inject_fault x After_EXECUTING executing_checkpoint) (\<lambda>_.
      lift_res (Ok (authorized, executing_checkpoint)))))))))"

text \<open>The browser is invoked once; whatever it raises is kept as a value.\<close>

definition invoke_browser :: "'p persisted_executor \<Rightarrow> authorized_action \<Rightarrow> ('p execution_world, browser_result res) prog" where
  "invoke_browser x command = trying (on_page (gr_execute_preflighted (px_runtime x) command))
     (\<lambda>e. lift_res (Ok (Inl e))) (\<lambda>r. lift_res (Ok (Inr r)))"

text \<open>The second half: the attempt is unknown until its result is probed.\<close>

definition leave_execution ::
  "'p persisted_executor \<Rightarrow> (nat \<Rightarrow> time) \<Rightarrow> string \<Rightarrow> execution_checkpoint \<Rightarrow> browser_result res \<Rightarrow>
   ('p execution_world, browser_result) prog" where
  "leave_execution x clock attempt_id executing_checkpoint outcome =
     prog_bind (case outcome of Inl _ \<Rightarrow> lift_res (Ok ()) | Inr _ \<Rightarrow> inject_fault x After_BROWSER_RETURN executing_checkpoint) (\<lambda>_.
     prog_bind (transaction (on_tables (mark_execution_attempt_unknown attempt_id
         (case outcome of Inr _ \<Rightarrow> ''PENDING_AUTHORITATIVE_RESULT_PROBE''
          | Inl e \<Rightarrow> ''BROWSER_EXECUTION_AMBIGUOUS:'' @ exc_name (exc_of e)) None (clock 4)))) (\<lambda>unknown.
     prog_bind (lift_res (checkpoint_of unknown)) (\<lambda>unknown_checkpoint.
     prog_bind (inject_fault x After_UNKNOWN unknown_checkpoint) (\<lambda>_.
     lift_res (Ok \<lparr>br_completed = (case outcome of Inl _ \<Rightarrow> False | Inr r \<Rightarrow> br_completed r),
       br_effect_may_have_started = True, br_detail_code = ''PENDING_RESULT_PROBE'', br_pending_result_probe = True,
       br_execution_checkpoint = Some unknown_checkpoint\<rparr>)))))"

definition persisted_execute :: "'p persisted_executor \<Rightarrow> authorized_action \<Rightarrow> ('p execution_world, browser_result) prog" where
  "persisted_execute x command =
     (if ea_effect (az_authorization command) \<noteq> EXTERNAL_WRITE then on_page (gr_execute (px_runtime x) command)
      else prog_bind (demand (truthy (px_result_probe_ref x))
        (Exc PersistedExecutionError ''External writes require an authoritative result probe'')) (\<lambda>_.
      prog_bind (on_page (gr_preflight (px_runtime x) command)) (\<lambda>_.
      prog_bind (\<lambda>w. (Ok (xw_calls w), w\<lparr>xw_calls := xw_calls w + 1\<rparr>)) (\<lambda>call.
      prog_bind (enter_execution x (px_new_id x call) (px_clock x call) command) (\<lambda>(attempt, checkpoint).
      prog_bind (invoke_browser x command) (\<lambda>outcome.
      leave_execution x (px_clock x call) (xa_attempt_id attempt) checkpoint outcome))))))"

text \<open>The executor in the place of the loop's runtime.\<close>

definition persisted_runtime :: "'p persisted_executor \<Rightarrow> 'p execution_world browser_runtime" where
  "persisted_runtime x =
     \<lparr>rt_observe = on_page (gr_observe (px_runtime x)),
      rt_fresh_observation = Some (on_page (case gr_fresh_observation (px_runtime x) of
        Some fresh \<Rightarrow> fresh | None \<Rightarrow> gr_observe (px_runtime x))),
      rt_execute = persisted_execute x\<rparr>"

section \<open>Recovering abandoned executions\<close>

record recovery_report =
  ry_ambiguous :: "execution_checkpoint list"
  ry_abandoned :: "string list"

definition abandoned_at :: "time \<Rightarrow> attempt_row \<Rightarrow> bool" where
  "abandoned_at threshold a = (at_status a \<in> {AUTHORIZED, EXECUTING} \<and> at_created_at a \<le> threshold)"

definition older_attempt :: "attempt_row \<Rightarrow> attempt_row \<Rightarrow> bool" where
  "older_attempt a b = (at_created_at a < at_created_at b \<or>
     at_created_at a = at_created_at b \<and> str_le (at_attempt_id a) (at_attempt_id b))"

fun settle_attempts :: "time \<Rightarrow> attempt_row list \<Rightarrow> recovery_report \<Rightarrow> (db, recovery_report) prog" where
  "settle_attempts now [] report = lift_res (Ok report)"
| "settle_attempts now (a # rest) report =
     (if at_status a = AUTHORIZED
      then prog_bind (abandon_authorized_execution_attempt (at_attempt_id a) default_abandon_message now) (\<lambda>failed.
           settle_attempts now rest (report\<lparr>ry_abandoned := ry_abandoned report @ [xa_attempt_id failed]\<rparr>))
      else prog_bind (mark_execution_attempt_unknown (at_attempt_id a) ''ABANDONED_EXECUTING_REQUIRES_RESULT_PROBE'' None now) (\<lambda>unknown.
           prog_bind (lift_res (checkpoint_of unknown)) (\<lambda>checkpoint.
           settle_attempts now rest (report\<lparr>ry_ambiguous := ry_ambiguous report @ [checkpoint]\<rparr>))))"

definition recover_abandoned_executions :: "int \<Rightarrow> time \<Rightarrow> (db, recovery_report) prog" where
  "recover_abandoned_executions minimum_age now s =
     (if minimum_age < 0 then (Raise ValueError ''Recovery minimum age cannot be negative'', s)
      else transaction (settle_attempts now
        (sort_by older_attempt (filter (abandoned_at (now - minimum_age)) (execution_attempts s)))
        \<lparr>ry_ambiguous = [], ry_abandoned = []\<rparr>) s)"

section \<open>The permit decides whether the browser is reached\<close>

text \<open>A permit that is there and no longer issued.\<close>

definition spent :: "string \<Rightarrow> db \<Rightarrow> bool" where
  "spent i s = (case find_permit i s of None \<Rightarrow> False | Some m \<Rightarrow> pm_status m \<noteq> Permit_issued)"

definition quiet :: "('p \<Rightarrow> nat) \<Rightarrow> ('p, 'a) prog \<Rightarrow> bool" where
  "quiet c m = (\<forall>p. c (snd (m p)) = c p)"

text \<open>
  A count of external writes on the page: only the invocation of the browser for one raises it, by at
  most one.
\<close>

definition counts_writes :: "('p \<Rightarrow> nat) \<Rightarrow> 'p persisted_executor \<Rightarrow> bool" where
  "counts_writes c x =
     ((\<forall>a. quiet c (gr_preflight (px_runtime x) a)) \<and>
      (\<forall>a. ea_effect (az_authorization a) \<noteq> EXTERNAL_WRITE \<longrightarrow> quiet c (gr_execute (px_runtime x) a)) \<and>
      (\<forall>a p. c (snd (gr_execute_preflighted (px_runtime x) a p)) \<in> {c p, c p + 1}) \<and>
      (\<forall>hook st ck. px_fault_hook x = Some hook \<longrightarrow> quiet c (hook st ck)))"

text \<open>The count does not change and a spent permit stays spent.\<close>

definition unmoved :: "('p \<Rightarrow> nat) \<Rightarrow> string \<Rightarrow> 'p execution_world \<Rightarrow> 'p execution_world \<Rightarrow> bool" where
  "unmoved c i w u = (c (xw_page u) = c (xw_page w) \<and> (spent i (xw_db w) \<longrightarrow> spent i (xw_db u)))"

lemma unmoved_trans: "transp (unmoved c i)"
  by (auto simp: transp_def unmoved_def)

lemma unmoved_refl: "reflp (unmoved c i)"
  by (simp add: reflp_def unmoved_def)

lemma unmoved_bind: "guarantees (unmoved c i) m \<Longrightarrow> (\<And>x. guarantees (unmoved c i) (f x)) \<Longrightarrow> guarantees (unmoved c i) (prog_bind m f)"
  by (rule guarantees_bind [OF unmoved_trans])

lemma unmoved_free [simp]:
  "guarantees (unmoved c i) (lift_res r)" "guarantees (unmoved c i) (demand b e)"
  "guarantees (unmoved c i) (\<lambda>w. (g w, w\<lparr>xw_calls := n w\<rparr>))"
  by (simp_all add: guarantees_def lift_res_def demand_def unmoved_def)

lemma unmoved_page: "quiet c m \<Longrightarrow> guarantees (unmoved c i) (on_page m)"
  by (auto simp: guarantees_def on_page_def quiet_def unmoved_def split: prod.split) (metis snd_conv)

lemma unmoved_inject: "counts_writes c x \<Longrightarrow> guarantees (unmoved c i) (inject_fault x st ck)"
  by (auto simp: inject_fault_def counts_writes_def split: option.split intro!: unmoved_page)

lemma spent_write: "find_permit (pm_permit_id m) s = Some m0 \<Longrightarrow> pm_status m \<noteq> Permit_issued \<Longrightarrow> spent i s \<Longrightarrow> spent i (write_permit m s)"
  by (auto simp: spent_def permits.lookup_store)

lemma spent_written: "find_permit i s = Some m0 \<Longrightarrow> pm_permit_id m = i \<Longrightarrow> pm_status m \<noteq> Permit_issued \<Longrightarrow> spent i (write_permit m s)"
  by (simp add: spent_def permits.lookup_store)

lemma spent_attempts [simp]: "spent i (add_attempt a s) = spent i s" "spent i (write_attempt a s) = spent i s"
  by (simp_all add: spent_def find_permit_def add_attempt_def write_attempt_def)

lemma permit_key: "find_permit i s = Some m \<Longrightarrow> find_permit (pm_permit_id (m\<lparr>pm_status := st\<rparr>)) s = Some m"
    "find_permit i s = Some m \<Longrightarrow> find_permit (pm_permit_id (m\<lparr>pm_status := st, pm_used_at := v\<rparr>)) s = Some m"
  by (simp_all add: permits.lookup_key)

lemma authorize_stays_spent:
  assumes "authorize_execution_attempt new_id clock p af oh key eff prf ev pr now s = (r, t)"
  shows "spent i s \<longrightarrow> spent i t"
  using assms
  by (cases rule: authorize_cases) (auto simp: Let_def intro: spent_write [OF permit_key(1)] spent_write [OF permit_key(2)])

lemma authorize_spends:
  assumes "authorize_execution_attempt new_id clock p af oh key eff prf ev pr now s = (Ok a, t)"
  shows "\<not> spent p s" and "spent p t"
proof -
  from assms obtain m v where m: "find_permit p s = Some m" "pm_status m = Permit_issued"
      and t: "spent p t = spent p (write_permit (m\<lparr>pm_status := Permit_consumed, pm_used_at := Some v\<rparr>) s)"
    by (cases rule: authorize_cases) (auto simp: Let_def)
  from m show "\<not> spent p s" by (simp add: spent_def)
  from m(1) permits.lookup_key [OF m(1)] show "spent p t" unfolding t by (auto intro: spent_written)
qed

lemma transition_stays_spent: "transition_attempt a f t rp em now s = (r, u) \<Longrightarrow> spent i u = spent i s"
  by (cases rule: transition_attempt_cases) auto

lemma unmoved_tables:
  fixes c :: "'p \<Rightarrow> nat"
  assumes "\<And>s r t. m s = (r, t) \<Longrightarrow> spent i s \<longrightarrow> spent i t"
  shows "guarantees (unmoved c i) (transaction (on_tables m))"
proof (rule guarantees_transaction [OF unmoved_refl], rule guaranteesI)
  fix w u :: "'p execution_world" and r
  assume "on_tables m w = (r, u)"
  then obtain s where "m (xw_db w) = (r, s)" "u = w\<lparr>xw_db := s\<rparr>" by (auto simp: on_tables_def split: prod.splits)
  with assms show "unmoved c i w u" by (simp add: unmoved_def)
qed

lemma unmoved_transition: "guarantees (unmoved c i) (transaction (on_tables (transition_attempt a f t rp em now)))"
  by (rule unmoved_tables) (simp add: transition_stays_spent)

text \<open>What follows the authorization of an attempt on its way to the browser.\<close>

definition start_execution ::
  "'p persisted_executor \<Rightarrow> (nat \<Rightarrow> time) \<Rightarrow> execution_attempt \<Rightarrow>
   ('p execution_world, execution_attempt \<times> execution_checkpoint) prog" where
  "start_execution x clock authorized =
     prog_bind (lift_res (checkpoint_of authorized)) (\<lambda>authorized_checkpoint.
     prog_bind (inject_fault x After_AUTHORIZED authorized_checkpoint) (\<lambda>_.
     prog_bind (transaction (on_tables (mark_execution_attempt_executing (xa_attempt_id authorized) (clock 3)))) (\<lambda>executing.
     prog_bind (lift_res (checkpoint_of executing)) (\<lambda>executing_checkpoint.
     prog_bind (inject_fault x After_EXECUTING executing_checkpoint) (\<lambda>_.
     lift_res (Ok (authorized, executing_checkpoint)))))))"

lemma enter_parts:
  "enter_execution x new_id clock command =
     prog_bind (transaction (on_tables (authorize_execution_attempt new_id clock
        (ea_permit_id (az_authorization command)) (az_action_fingerprint command) (az_observation_id command)
        (ea_idempotency_key (az_authorization command)) (ea_effect (az_authorization command))
        (az_execution_profile command) None (px_result_probe_ref x) (Some (clock 0))))) (start_execution x clock)"
  by (simp add: enter_execution_def Let_def start_execution_def [abs_def])

lemma unmoved_start: "counts_writes c x \<Longrightarrow> guarantees (unmoved c i) (start_execution x clock a)"
  unfolding start_execution_def mark_execution_attempt_executing_def
  by (intro unmoved_bind unmoved_inject unmoved_transition) simp_all

lemma unmoved_enter: "counts_writes c x \<Longrightarrow> guarantees (unmoved c i) (enter_execution x new_id clock command)"
  unfolding enter_parts
  by (intro unmoved_bind unmoved_tables authorize_stays_spent unmoved_start) assumption

lemma unmoved_leave: "counts_writes c x \<Longrightarrow> guarantees (unmoved c i) (leave_execution x clock a ck outcome)"
  unfolding leave_execution_def mark_execution_attempt_unknown_def
  by (intro unmoved_bind unmoved_transition unmoved_inject) (simp_all add: unmoved_inject split: sum.split)

lemma on_tables_ok: "on_tables m w = (r, v) \<longleftrightarrow> m (xw_db w) = (r, xw_db v) \<and> v = w\<lparr>xw_db := xw_db v\<rparr>"
  by (cases w; cases v) (auto simp: on_tables_def split: prod.splits)

lemma enter_spends:
  assumes "enter_execution x new_id clock command w = (Ok z, u)" and "counts_writes c x"
  shows "\<not> spent (ea_permit_id (az_authorization command)) (xw_db w)"
    and "spent (ea_permit_id (az_authorization command)) (xw_db u)"
proof -
  from assms(1) obtain a v where v: "authorize_execution_attempt new_id clock (ea_permit_id (az_authorization command))
          (az_action_fingerprint command) (az_observation_id command) (ea_idempotency_key (az_authorization command))
          (ea_effect (az_authorization command)) (az_execution_profile command) None (px_result_probe_ref x)
          (Some (clock 0)) (xw_db w) = (Ok a, xw_db v)" and rest: "start_execution x clock a v = (Ok z, u)"
    unfolding enter_parts prog_bind_ok transaction_ok on_tables_ok by blast
  from authorize_spends [OF v] guaranteesD [OF unmoved_start [OF assms(2)] rest]
  show "\<not> spent (ea_permit_id (az_authorization command)) (xw_db w)"
    and "spent (ea_permit_id (az_authorization command)) (xw_db u)"
    by (auto simp: unmoved_def)
qed

text \<open>A write either does not reach the browser or spends its permit before it does.\<close>

definition crossed :: "('p \<Rightarrow> nat) \<Rightarrow> string \<Rightarrow> 'p execution_world \<Rightarrow> 'p execution_world \<Rightarrow> bool" where
  "crossed c i w u = (unmoved c i w u \<or>
     (c (xw_page u) = c (xw_page w) + 1 \<and> \<not> spent i (xw_db w) \<and> spent i (xw_db u)))"

lemma crossed_trans: "crossed c i w v \<Longrightarrow> crossed c i v u \<Longrightarrow> crossed c i w u"
  by (auto simp: crossed_def unmoved_def)

lemma invoke_effect:
  assumes "invoke_browser x command w = (r, u)"
  shows "xw_db u = xw_db w" and "\<exists>outcome. r = Ok outcome"
    and "counts_writes c x \<Longrightarrow> c (xw_page u) \<in> {c (xw_page w), c (xw_page w) + 1}"
proof -
  from assms obtain q p' where run: "gr_execute_preflighted (px_runtime x) command (xw_page w) = (q, p')"
      "u = w\<lparr>xw_page := p'\<rparr>" "r = Ok q"
    unfolding invoke_browser_def
    by (cases rule: trying_cases) (auto simp: on_page_def lift_res_def split: prod.splits)
  then show "xw_db u = xw_db w" "\<exists>outcome. r = Ok outcome" by simp_all
  from run(1,2) show "c (xw_page u) \<in> {c (xw_page w), c (xw_page w) + 1}" if "counts_writes c x"
    using that unfolding counts_writes_def by (metis execution_world.select_convs(2) execution_world.surjective execution_world.update_convs(2) snd_conv)
qed

text \<open>The stages of a persisted write: stopped before the browser, or entered, invoked and left.\<close>

lemma persisted_write_cases:
  fixes x :: "'p persisted_executor"
  assumes "persisted_execute x command w = (r, u)" and "ea_effect (az_authorization command) = EXTERNAL_WRITE"
    and "counts_writes c x"
  obtains (stopped) e where "r = Inl e" "unmoved c i w u"
    | (invoked) v0 call a ck v outcome v' where "unmoved c i w v0"
        "enter_execution x (px_new_id x call) (px_clock x call) command v0 = (Ok (a, ck), v)"
        "invoke_browser x command v = (Ok outcome, v')"
        "leave_execution x (px_clock x call) (xa_attempt_id a) ck outcome v' = (r, u)"
        "truthy (px_result_probe_ref x)"
proof -
  define enter where "enter = (\<lambda>call. enter_execution x (px_new_id x call) (px_clock x call) command)"
  define tail where "tail = (\<lambda>call (a :: execution_attempt, ck). prog_bind (invoke_browser x command)
      (\<lambda>outcome. leave_execution x (px_clock x call) (xa_attempt_id a) ck outcome))"
  define ticket :: "('p execution_world, nat) prog" where "ticket = (\<lambda>w. (Ok (xw_calls w), w\<lparr>xw_calls := xw_calls w + 1\<rparr>))"
  define ready where "ready = (demand (truthy (px_result_probe_ref x))
      (Exc PersistedExecutionError ''External writes require an authoritative result probe'') :: ('p execution_world, unit) prog)"
  have parts: "guarantees (unmoved c i) ready" "guarantees (unmoved c i) (on_page (gr_preflight (px_runtime x) command))"
      "guarantees (unmoved c i) ticket" "guarantees (unmoved c i) (enter call)" for call
    using assms(3) by (simp_all add: ready_def ticket_def enter_def unmoved_enter unmoved_page counts_writes_def)
  note go = guaranteesD [OF parts(1)] guaranteesD [OF parts(2)] guaranteesD [OF parts(3)] guaranteesD [OF parts(4)]
  note chain = transpD [OF unmoved_trans]
  have "prog_bind ready (\<lambda>_. prog_bind (on_page (gr_preflight (px_runtime x) command)) (\<lambda>_.
      prog_bind ticket (\<lambda>call. prog_bind (enter call) (tail call)))) w = (r, u)"
    using assms(1,2) unfolding persisted_execute_def ready_def ticket_def enter_def tail_def by simp
  then show ?thesis
  proof (cases rule: prog_bind_cases)
    case (raised e)
    with go(1) that(1) show ?thesis by blast
  next
    case a: (returned y1 w1)
    from a(2) show ?thesis
    proof (cases rule: prog_bind_cases)
      case (raised e)
      with chain [OF go(1) [OF a(1)] go(2)] that(1) show ?thesis by blast
    next
      case b: (returned y2 w2)
      note u2 = chain [OF go(1) [OF a(1)] go(2) [OF b(1)]]
      from b(2) obtain call w3 where call: "ticket w2 = (Ok call, w3)" "prog_bind (enter call) (tail call) w3 = (r, u)"
        by (auto simp: prog_bind_def ticket_def)
      note u3 = chain [OF u2 go(3) [OF call(1)]]
      from call(2) show ?thesis
      proof (cases rule: prog_bind_cases)
        case (raised e)
        with chain [OF u3 go(4)] that(1) show ?thesis by blast
      next
        case (returned z v)
        obtain a' ck where z: "z = (a', ck)" by (cases z)
        from returned(2) obtain outcome v' where "invoke_browser x command v = (Ok outcome, v')"
            "leave_execution x (px_clock x call) (xa_attempt_id a') ck outcome v' = (r, u)"
          unfolding z tail_def prod.case by (cases rule: prog_bind_cases) (auto dest: invoke_effect(2))
        moreover have "truthy (px_result_probe_ref x)"
          using a(1) by (simp add: ready_def demand_def split: if_splits)
        ultimately show ?thesis using that(2) [OF u3] returned(1) unfolding z enter_def by blast
      qed
    qed
  qed
qed

lemma write_crosses:
  assumes "persisted_execute x command w = (r, u)" and "ea_effect (az_authorization command) = EXTERNAL_WRITE"
    and "counts_writes c x"
  shows "crossed c (ea_permit_id (az_authorization command)) w u"
  using assms
proof (cases rule: persisted_write_cases [where i = "ea_permit_id (az_authorization command)"])
  case (stopped e)
  then show ?thesis by (simp add: crossed_def)
next
  case (invoked v0 call a ck v outcome v')
  from enter_spends [OF invoked(2) assms(3)] guaranteesD [OF unmoved_enter [OF assms(3)] invoked(2), of "ea_permit_id (az_authorization command)"]
    invoke_effect(1) [OF invoked(3)] invoke_effect(3) [OF invoked(3) assms(3)]
    guaranteesD [OF unmoved_leave [OF assms(3)] invoked(4), of "ea_permit_id (az_authorization command)"] invoked(1)
  show ?thesis by (auto simp: crossed_def unmoved_def)
qed

section \<open>Any interleaving of executions, services and recovery\<close>

lemma issue_stays_spent: "issue_permit j now t st c af oh d eff prf ev ttl s = (r, u) \<Longrightarrow> spent i s \<longrightarrow> spent i u"
  by (erule issue_permit_cases) (auto simp: spent_def permits.lookup_insert issued_row_def split: option.splits)

lemma consume_stays_spent:
  assumes "consume_permit j af oh now s = (r, u)"
  shows "spent i s \<longrightarrow> spent i u"
proof -
  from assms obtain q where "consume_permit_model j af oh now s = (q, u)"
    unfolding consume_permit_def by (auto elim: prog_bind_cases)
  then show ?thesis
    by (cases rule: consume_permit_model_cases) (auto intro: spent_write [OF permit_key(1)] spent_write [OF permit_key(2)])
qed

lemma resolve_stays_spent: "resolve_unknown_execution_attempt j ok rp now s = (r, u) \<Longrightarrow> spent i u = spent i s"
  by (cases rule: resolve_unknown_cases) auto

lemma service_stays_spent: "execution_step s t \<Longrightarrow> spent i s \<longrightarrow> spent i t"
  by (cases rule: execution_step.cases)
    (auto simp: transition_services transition_stays_spent resolve_stays_spent
      dest: issue_stays_spent consume_stays_spent authorize_stays_spent)

lemma settle_keeps: "keeps (\<lambda>s. spent i s) (settle_attempts now rows report)"
proof (induction rows arbitrary: report)
  case (Cons a rows)
  have "keeps (\<lambda>s. spent i s) (transition_attempt j f t rp em now)" for j f t rp em
    by (rule keepsI) (metis prod.collapse transition_stays_spent)
  with Cons show ?case
    by (auto simp: transition_services intro!: keeps_bind)
qed simp

lemma recover_stays_spent: "recover_abandoned_executions age now s = (r, t) \<Longrightarrow> spent i s \<longrightarrow> spent i t"
  by (auto simp: recover_abandoned_executions_def split: if_splits
      dest: keepsD [OF keeps_transaction [OF settle_keeps]])

text \<open>
  One step of the system around one permit: the executor gets a write that presents it, or any action
  that is no external write, a service of permits and attempts runs, or the recovery does.
\<close>

inductive executor_step :: "'p persisted_executor \<Rightarrow> string \<Rightarrow> 'p execution_world \<Rightarrow> 'p execution_world \<Rightarrow> bool"
  for x :: "'p persisted_executor" and i :: string where
  external: "ea_effect (az_authorization command) = EXTERNAL_WRITE \<Longrightarrow> ea_permit_id (az_authorization command) = i \<Longrightarrow>
     persisted_execute x command w = (r, u) \<Longrightarrow> executor_step x i w u"
| other: "ea_effect (az_authorization command) \<noteq> EXTERNAL_WRITE \<Longrightarrow>
     persisted_execute x command w = (r, u) \<Longrightarrow> executor_step x i w u"
| service: "execution_step (xw_db w) s \<Longrightarrow> executor_step x i w (w\<lparr>xw_db := s\<rparr>)"
| recover: "recover_abandoned_executions age now (xw_db w) = (report, s) \<Longrightarrow> executor_step x i w (w\<lparr>xw_db := s\<rparr>)"

lemma executor_step_crossed:
  assumes "executor_step x i w u" and "counts_writes c x"
  shows "crossed c i w u"
  using assms(1)
proof (cases rule: executor_step.cases)
  case (external command r)
  with write_crosses [OF external(3,1) assms(2)] show ?thesis by simp
next
  case (other command r)
  then have "on_page (gr_execute (px_runtime x) command) w = (r, u)" by (simp add: persisted_execute_def)
  moreover have "quiet c (gr_execute (px_runtime x) command)" using other(1) assms(2) by (simp add: counts_writes_def)
  ultimately show ?thesis unfolding crossed_def by (blast dest: guaranteesD [OF unmoved_page])
qed (auto simp: crossed_def unmoved_def dest: service_stays_spent recover_stays_spent)



section \<open>What an execution leaves behind\<close>

text \<open>A checkpoint is the identity of a row.\<close>

definition identifies :: "execution_checkpoint \<Rightarrow> attempt_row \<Rightarrow> bool" where
  "identifies ck a = (ck_attempt_id ck = at_attempt_id a \<and> Some (ck_permit_id ck) = at_permit_id a \<and>
     ck_task_id ck = at_task_id a \<and> ck_step_id ck = at_step_id a \<and>
     ck_action_fingerprint ck = at_action_fingerprint a \<and> ck_observation_hash ck = at_observation_hash a \<and>
     Some (ck_idempotency_key_digest ck) = at_idempotency_key_digest a \<and>
     Some (ck_execution_effect ck) = at_execution_effect a \<and> Some (ck_result_probe_ref ck) = at_result_probe_ref a \<and>
     ck_attempt_status ck = attempt_status_value (at_status a))"

lemma contract_id: "attempt_to_contract a = Ok y \<Longrightarrow> xa_attempt_id y = at_attempt_id a"
  by (auto simp: attempt_to_contract_def res_bind_def split: if_splits option.splits sum.splits)

lemma checkpoint_identifies:
  assumes "attempt_to_contract a = Ok y" and "checkpoint_of y = Ok ck"
  shows "identifies ck a"
  using assms
  by (auto simp: attempt_to_contract_def res_bind_def checkpoint_of_def identifies_def Let_def truthy_def
      split: if_splits option.splits sum.splits dest!: effect_of_value_inv)

text \<open>The row of an attempt made for a command.\<close>

definition attempt_for :: "'p persisted_executor \<Rightarrow> authorized_action \<Rightarrow> attempt_row \<Rightarrow> bool" where
  "attempt_for x command a =
     (at_permit_id a = Some (ea_permit_id (az_authorization command)) \<and>
      at_action_fingerprint a = az_action_fingerprint command \<and> at_observation_hash a = az_observation_id command \<and>
      at_idempotency_key a = Some (ea_idempotency_key (az_authorization command)) \<and>
      at_idempotency_key_digest a = Some (sha256 (ea_idempotency_key (az_authorization command))) \<and>
      at_execution_effect a = Some (effect_value (ea_effect (az_authorization command))) \<and>
      at_result_probe_ref a = px_result_probe_ref x)"

lemma attempt_for_moved [simp]: "attempt_for x command (transitioned_row st t rp em a) = attempt_for x command a"
  by (simp add: attempt_for_def)

lemma authorize_leaves:
  assumes "authorize_execution_attempt new_id clock (ea_permit_id (az_authorization command))
      (az_action_fingerprint command) (az_observation_id command) (ea_idempotency_key (az_authorization command))
      (ea_effect (az_authorization command)) prf ev (px_result_probe_ref x) now s = (Ok y, t)"
  obtains a where "find_attempt (xa_attempt_id y) t = Some a" "at_status a = AUTHORIZED" "attempt_for x command a"
  using assms
proof (cases rule: authorize_cases)
  case (authorized m tm)
  let ?c = "m\<lparr>pm_status := Permit_consumed, pm_used_at := Some tm\<rparr>"
  let ?a = "authorized_row new_id (clock 2) ?c (ea_idempotency_key (az_authorization command))
      (ea_effect (az_authorization command)) (px_result_probe_ref x)"
  from authorized(9) have free: "\<not> attempt_conflicts ?a (write_permit ?c s)"
      and y: "attempt_to_contract ?a = Ok y" and t: "t = add_attempt ?a (write_permit ?c s)"
    by (simp_all add: Let_def)
  have "find_attempt (at_attempt_id ?a) (write_permit ?c s) = None"
    using free attempts.lookup_row attempts.lookup_key
    by (cases "find_attempt (at_attempt_id ?a) (write_permit ?c s)") (fastforce simp: attempt_conflicts_def)+
  then have "find_attempt (xa_attempt_id y) t = Some ?a"
    unfolding t contract_id [OF y] by (simp add: attempts.lookup_insert)
  then show ?thesis
  proof (rule that)
    show "at_status ?a = AUTHORIZED" by (simp add: authorized_row_def)
    show "attempt_for x command ?a"
      using authorized(5,6) permits.lookup_key [OF authorized(1)] by (simp add: attempt_for_def authorized_row_def)
  qed
qed simp_all

lemma transition_leaves:
  assumes "transition_attempt i f st rp em now s = (Ok y, t)"
  obtains a where "find_attempt i s = Some a" "at_status a = f" "xa_attempt_id y = i"
    "find_attempt i t = Some (transitioned_row st now rp em a)"
    "attempt_to_contract (transitioned_row st now rp em a) = Ok y"
  using assms
proof (cases rule: transition_attempt_cases)
  case (moved a)
  have key: "at_attempt_id a = i" using attempts.lookup_key [OF moved(1)] .
  with moved have "find_attempt i t = Some (transitioned_row st now rp em a)"
    by (simp add: attempts.store_found)
  with moved contract_id [OF moved(3) [symmetric]] key that show ?thesis by simp
qed simp

lemma on_page_db: "on_page m w = (r, u) \<Longrightarrow> xw_db u = xw_db w"
  by (auto simp: on_page_def split: prod.splits)

lemma inject_db: "inject_fault x st ck w = (r, u) \<Longrightarrow> xw_db u = xw_db w"
  by (auto simp: inject_fault_def lift_res_def split: option.splits dest: on_page_db)

lemma enter_leaves:
  assumes "enter_execution x new_id clock command w = (Ok (y, ck), u)"
  obtains a where "find_attempt (xa_attempt_id y) (xw_db u) = Some a" "at_status a = EXECUTING" "attempt_for x command a"
proof -
  from assms obtain y0 v where auth: "authorize_execution_attempt new_id clock (ea_permit_id (az_authorization command))
          (az_action_fingerprint command) (az_observation_id command) (ea_idempotency_key (az_authorization command))
          (ea_effect (az_authorization command)) (az_execution_profile command) None (px_result_probe_ref x)
          (Some (clock 0)) (xw_db w) = (Ok y0, xw_db v)" and rest: "start_execution x clock y0 v = (Ok (y, ck), u)"
    unfolding enter_parts prog_bind_ok transaction_ok on_tables_ok by blast
  obtain a0 where a0: "find_attempt (xa_attempt_id y0) (xw_db v) = Some a0" "at_status a0 = AUTHORIZED" "attempt_for x command a0"
    using authorize_leaves [OF auth] .
  from rest obtain ck0 v1 y1 v2 where v1: "inject_fault x After_AUTHORIZED ck0 v = (Ok (), v1)"
      and move: "transition_attempt (xa_attempt_id y0) AUTHORIZED EXECUTING None None (clock 3) (xw_db v1) = (Ok y1, xw_db v2)"
      and v3: "inject_fault x After_EXECUTING ck v2 = (Ok (), u)" and y: "y = y0"
    unfolding start_execution_def prog_bind_ok transaction_ok on_tables_ok mark_execution_attempt_executing_def lift_res_def
    by auto
  obtain a where "find_attempt (xa_attempt_id y0) (xw_db v1) = Some a"
      "find_attempt (xa_attempt_id y0) (xw_db v2) = Some (transitioned_row EXECUTING (clock 3) None None a)"
    using transition_leaves [OF move] .
  with a0 inject_db [OF v1] inject_db [OF v3] y that show ?thesis by simp
qed

text \<open>Leaving: the attempt is executing still, or unknown, and unknown with its checkpoint on a normal return.\<close>

lemma leave_leaves:
  fixes x :: "'p persisted_executor"
  assumes "leave_execution x clock i ck outcome w = (r, u)" and "find_attempt i (xw_db w) = Some a"
  obtains (open_still) e where "r = Inl e" "find_attempt i (xw_db u) = Some a"
    | (unknown) rp em t where "find_attempt i (xw_db u) = Some (transitioned_row UNKNOWN t rp em a)"
        "\<And>q. r = Ok q \<Longrightarrow> br_pending_result_probe q \<and> br_effect_may_have_started q \<and>
           br_completed q = (case outcome of Inl e \<Rightarrow> False | Inr y \<Rightarrow> br_completed y) \<and>
           (\<exists>ck'. br_execution_checkpoint q = Some ck' \<and> identifies ck' (transitioned_row UNKNOWN t rp em a))"
proof -
  define seen :: "('p execution_world, unit) prog" where
    "seen = (case outcome of Inl _ \<Rightarrow> lift_res (Ok ()) | Inr _ \<Rightarrow> inject_fault x After_BROWSER_RETURN ck)"
  have same: "xw_db v = xw_db w" if "seen w = (q, v)" for q v
    using that by (auto simp: seen_def lift_res_def split: sum.splits dest: inject_db)
  define em where "em = (case outcome of Inr _ \<Rightarrow> ''PENDING_AUTHORITATIVE_RESULT_PROBE''
       | Inl e \<Rightarrow> ''BROWSER_EXECUTION_AMBIGUOUS:'' @ exc_name (exc_of e))"
  define report where "report = (\<lambda>unknown. prog_bind (lift_res (checkpoint_of unknown)) (\<lambda>unknown_checkpoint.
     prog_bind (inject_fault x After_UNKNOWN unknown_checkpoint) (\<lambda>_.
     lift_res (Ok \<lparr>br_completed = (case outcome of Inl _ \<Rightarrow> False | Inr r \<Rightarrow> br_completed r),
       br_effect_may_have_started = True, br_detail_code = ''PENDING_RESULT_PROBE'', br_pending_result_probe = True,
       br_execution_checkpoint = Some unknown_checkpoint\<rparr>))))"
  have kept: "xw_db u' = xw_db v" if "report y v = (q, u')" for y :: execution_attempt and v u' q
    using that unfolding report_def
    by (elim prog_bind_cases) (auto simp: lift_res_def dest: inject_db)
  have whole: "prog_bind seen (\<lambda>_. prog_bind (transaction (on_tables
      (transition_attempt i EXECUTING UNKNOWN None (Some em) (clock 4)))) report) w = (r, u)"
    using assms(1) unfolding leave_execution_def mark_execution_attempt_unknown_def seen_def report_def em_def .
  from whole show ?thesis
  proof (cases rule: prog_bind_cases)
    case (raised e)
    with same that(1) assms(2) show ?thesis by simp
  next
    case first: (returned z v)
    from first(2) show ?thesis
    proof (cases rule: prog_bind_cases)
      case (raised e)
      with same [OF first(1)] that(1) assms(2) show ?thesis by (simp add: transaction_raise)
    next
      case (returned y v')
      then have "transition_attempt i EXECUTING UNKNOWN None (Some em) (clock 4) (xw_db v) = (Ok y, xw_db v')"
        by (simp add: transaction_ok on_tables_ok)
      then obtain b where b: "find_attempt i (xw_db v) = Some b"
          "find_attempt i (xw_db v') = Some (transitioned_row UNKNOWN (clock 4) None (Some em) b)"
          "attempt_to_contract (transitioned_row UNKNOWN (clock 4) None (Some em) b) = Ok y"
        by (rule transition_leaves)
      have b_a: "b = a" using b(1) same [OF first(1)] assms(2) by simp
      show ?thesis
      proof (rule that(2))
        show "find_attempt i (xw_db u) = Some (transitioned_row UNKNOWN (clock 4) None (Some em) a)"
          using b(2) kept [OF returned(2)] b_a by simp
        fix q assume "r = Ok q"
        with returned(2) obtain ck' where "checkpoint_of y = Ok ck'" and q: "q = \<lparr>br_completed =
            (case outcome of Inl _ \<Rightarrow> False | Inr r \<Rightarrow> br_completed r), br_effect_may_have_started = True,
            br_detail_code = ''PENDING_RESULT_PROBE'', br_pending_result_probe = True, br_execution_checkpoint = Some ck'\<rparr>"
          unfolding report_def by (auto simp: prog_bind_ok lift_res_def)
        with checkpoint_identifies [OF b(3)] b_a
        show "br_pending_result_probe q \<and> br_effect_may_have_started q \<and>
           br_completed q = (case outcome of Inl e \<Rightarrow> False | Inr y \<Rightarrow> br_completed y) \<and>
           (\<exists>ck'. br_execution_checkpoint q = Some ck' \<and> identifies ck' (transitioned_row UNKNOWN (clock 4) None (Some em) a))"
          by (simp split: sum.split)
      qed
    qed
  qed
qed

text \<open>
  C5. An external write that invokes the browser leaves, whatever happens
  next, the attempt it was authorized as, executing or unknown, for its action, observation, permit,
  key and probe, and its permit spent. When it returns a result, the attempt is unknown and the result
  asks for its probe, under a checkpoint that is the identity of that attempt.
\<close>

theorem reached_browser_is_recorded:
  assumes "persisted_execute x command w = (r, u)" and "ea_effect (az_authorization command) = EXTERNAL_WRITE"
    and "counts_writes c x" and "c (xw_page u) \<noteq> c (xw_page w) \<or> is_ok r"
  shows "spent (ea_permit_id (az_authorization command)) (xw_db u) \<and>
     (\<exists>a. find_attempt (at_attempt_id a) (xw_db u) = Some a \<and> attempt_for x command a \<and>
        at_status a \<in> {EXECUTING, UNKNOWN} \<and>
        (\<forall>q. r = Ok q \<longrightarrow> at_status a = UNKNOWN \<and> br_pending_result_probe q \<and> br_effect_may_have_started q \<and>
           (\<exists>ck. br_execution_checkpoint q = Some ck \<and> identifies ck a)))"
  using assms(1-3)
proof (cases rule: persisted_write_cases [where i = "ea_permit_id (az_authorization command)"])
  case (stopped e)
  with assms(4) show ?thesis by (simp add: unmoved_def)
next
  case (invoked v0 call y ck v outcome v')
  let ?i = "ea_permit_id (az_authorization command)"
  from enter_spends(2) [OF invoked(2) assms(3)] invoke_effect(1) [OF invoked(3)]
    guaranteesD [OF unmoved_leave [OF assms(3)] invoked(4), of ?i]
  have spent: "spent ?i (xw_db u)" by (simp add: unmoved_def)
  obtain a where "find_attempt (xa_attempt_id y) (xw_db v) = Some a" and a: "at_status a = EXECUTING" "attempt_for x command a"
    using enter_leaves [OF invoked(2)] .
  then have found: "find_attempt (xa_attempt_id y) (xw_db v') = Some a" using invoke_effect(1) [OF invoked(3)] by simp
  have id: "at_attempt_id a = xa_attempt_id y" using attempts.lookup_key [OF found] .
  from invoked(4) found show ?thesis
  proof (cases rule: leave_leaves)
    case (open_still e)
    with spent a id show ?thesis by (intro conjI exI [of _ a]) auto
  next
    case (unknown rp em t)
    with spent a id show ?thesis by (intro conjI exI [of _ "transitioned_row UNKNOWN t rp em a"]) auto
  qed
qed

section \<open>An execution on a small page\<close>

definition sample_guard :: "nat guarded_runtime" where
  "sample_guard = \<lparr>gr_observe = Pair (Ok sample_raw), gr_fresh_observation = None,
     gr_execute = (\<lambda>_. Pair (Raise ValueError [])), gr_preflight = (\<lambda>_. Pair (Ok ())),
     gr_execute_preflighted = (\<lambda>_ n. (Raise TimeoutError [], n + 1))\<rparr>"

definition sample_executor :: "nat persisted_executor" where
  "sample_executor = \<lparr>px_runtime = sample_guard, px_result_probe_ref = Some ''probe'', px_fault_hook = None,
     px_new_id = (\<lambda>_. ''a''), px_clock = (\<lambda>_ _. 5)\<rparr>"

definition sample_write :: authorized_action where
  "sample_write = \<lparr>az_action = sample_press, az_action_fingerprint = ''f'', az_observation_id = ''h'',
     az_expected_snapshot_hash = ''s'', az_authorization = \<lparr>ea_permit_id = ''p'', ea_action_fingerprint = ''f'',
       ea_observation_hash = ''h'', ea_idempotency_key = ''key'', ea_effect = EXTERNAL_WRITE\<rparr>,
     az_execution_profile = locator_profile\<rparr>"

definition sample_world :: "nat execution_world" where
  "sample_world = \<lparr>xw_db = issued_db, xw_page = 0, xw_calls = 0\<rparr>"

lemma sample_fields:
  "px_runtime sample_executor = sample_guard" "px_result_probe_ref sample_executor = Some ''probe''"
  "px_new_id sample_executor call = ''a''" "px_clock sample_executor call = (\<lambda>_. 5)"
  "gr_preflight sample_guard c = Pair (Ok ())" "ea_effect (az_authorization sample_write) = EXTERNAL_WRITE"
  "xw_calls sample_world = 0" "sample_world\<lparr>xw_page := 0\<rparr> = sample_world" "xw_page sample_world = 0"
  by (simp_all add: sample_executor_def sample_guard_def sample_write_def sample_world_def)

lemma sample_counts: "counts_writes id sample_executor"
  by (auto simp: counts_writes_def sample_executor_def sample_guard_def quiet_def)

definition sample_row :: attempt_row where
  "sample_row = authorized_row ''a'' 5 ((issued_row ''p'' 0 ''t'' ''s'' ''c'' ''f'' ''h'' allow_decision EXTERNAL_WRITE
     locator_profile None 60)\<lparr>pm_status := Permit_consumed, pm_used_at := Some 5\<rparr>) ''key'' EXTERNAL_WRITE (Some ''probe'')"

definition sample_authorized :: db where
  "sample_authorized = add_attempt sample_row (write_permit ((issued_row ''p'' 0 ''t'' ''s'' ''c'' ''f'' ''h'' allow_decision
     EXTERNAL_WRITE locator_profile None 60)\<lparr>pm_status := Permit_consumed, pm_used_at := Some 5\<rparr>) issued_db)"

lemma sample_authorizes:
  "\<exists>y. authorize_execution_attempt ''a'' (\<lambda>_. 5) ''p'' ''f'' ''h'' ''key'' EXTERNAL_WRITE locator_profile None
      (Some ''probe'') (Some 5) issued_db = (Ok y, sample_authorized) \<and> xa_attempt_id y = ''a'' \<and>
      attempt_to_contract sample_row = Ok y"
proof -
  let ?m = "issued_row ''p'' 0 ''t'' ''s'' ''c'' ''f'' ''h'' allow_decision EXTERNAL_WRITE locator_profile None 60"
  have m: "find_permit ''p'' issued_db = Some ?m"
    by (simp add: find_permit_def first_where_def issued_db_def add_permit_def empty_db_def issued_row_def)
  have ctx: "verify_permit_execution_context ?m EXTERNAL_WRITE locator_profile None ''f'' ''h'' 5 = Ok ()"
    by (simp add: verify_context_iff issued_row_def profile_valid_def locator_profile_def require_cua_execution_evidence_def)
  obtain y where run: "authorize_execution_attempt ''a'' (\<lambda>_. 5) ''p'' ''f'' ''h'' ''key'' EXTERNAL_WRITE locator_profile None
      (Some ''probe'') (Some 5) issued_db = (Ok y, sample_authorized)" and id: "xa_attempt_id y = ''a''"
    using authorize_succeeds [of "''key''" "''p''" issued_db ?m "''f''" "''h''" 5 EXTERNAL_WRITE locator_profile
        None "''a''" "\<lambda>_. 5" "Some ''probe''"] m ctx
    by (auto simp: issued_db_def empty_db_def issued_row_def find_attempt_by_key_def
          find_attempt_def first_where_def add_permit_def seconds_def sample_authorized_def sample_row_def)
  from run have "attempt_to_contract sample_row = Ok y"
    by (cases rule: authorize_cases) (auto simp: Let_def m sample_row_def sample_authorized_def add_attempt_def write_permit_def issued_db_def empty_db_def add_permit_def)
  with run id show ?thesis by blast
qed


lemma sample_checkpoint:
  assumes "attempt_to_contract (sample_row\<lparr>at_status := st, at_started_at := v, at_completed_at := b, at_error_message := em\<rparr>) = Ok y"
  shows "\<exists>ck. checkpoint_of y = Ok ck"
  using assms
  by (cases st) (auto simp: attempt_to_contract_def sample_row_def authorized_row_def issued_row_def effect_of_value_def
      checkpoint_of_def checkpoint_fields_ok_def hex_sha256 sha256_nonempty)

lemma sample_contract:
  "\<exists>y. attempt_to_contract (sample_row\<lparr>at_status := st, at_started_at := v, at_completed_at := b, at_error_message := em\<rparr>) = Ok y"
  by (simp add: attempt_to_contract_def sample_row_def authorized_row_def issued_row_def effect_of_value_def)

lemma sample_update: "sample_row = sample_row\<lparr>at_status := AUTHORIZED, at_started_at := None, at_completed_at := None, at_error_message := None\<rparr>"
  by (simp add: sample_row_def authorized_row_def)

definition sample_started :: db where
  "sample_started = write_attempt (sample_row\<lparr>at_status := EXECUTING, at_started_at := Some 5\<rparr>) sample_authorized"

lemma sample_lookup:
  "find_attempt ''a'' sample_authorized = Some sample_row"
  "find_attempt ''a'' sample_started = Some (sample_row\<lparr>at_status := EXECUTING, at_started_at := Some 5\<rparr>)"
proof -
  show "find_attempt ''a'' sample_authorized = Some sample_row"
    by (simp add: find_attempt_def first_where_def sample_authorized_def add_attempt_def write_permit_def issued_db_def
        add_permit_def empty_db_def sample_row_def authorized_row_def)
  then show "find_attempt ''a'' sample_started = Some (sample_row\<lparr>at_status := EXECUTING, at_started_at := Some 5\<rparr>)"
    unfolding sample_started_def
    by (rule attempts.store_found) simp
qed

lemma sample_enters:
  assumes "xw_db w = issued_db"
  shows "\<exists>y ck. enter_execution sample_executor ''a'' (\<lambda>_. 5) sample_write w =
     (Ok (y, ck), w\<lparr>xw_db := sample_started\<rparr>) \<and> xa_attempt_id y = ''a''"
proof -
  let ?e = "sample_row\<lparr>at_status := EXECUTING, at_started_at := Some 5\<rparr>"
  obtain y where y: "authorize_execution_attempt ''a'' (\<lambda>_. 5) ''p'' ''f'' ''h'' ''key'' EXTERNAL_WRITE locator_profile None
      (Some ''probe'') (Some 5) issued_db = (Ok y, sample_authorized)" "xa_attempt_id y = ''a''"
      "attempt_to_contract sample_row = Ok y" using sample_authorizes by blast
  from y(3) obtain ck where ck: "checkpoint_of y = Ok ck" by (subst (asm) sample_update) (blast dest: sample_checkpoint)
  have e: "?e = sample_row\<lparr>at_status := EXECUTING, at_started_at := Some 5, at_completed_at := None, at_error_message := None\<rparr>"
    by (simp add: sample_row_def authorized_row_def)
  obtain z ck' where z: "attempt_to_contract ?e = Ok z" "checkpoint_of z = Ok ck'"
    using sample_contract [where st = EXECUTING and v = "Some 5" and b = None and em = None] sample_checkpoint [where st = EXECUTING and v = "Some 5" and b = None and em = None]
    unfolding e [symmetric] by blast
  have move: "transition_attempt ''a'' AUTHORIZED EXECUTING None None 5 sample_authorized = (Ok z, sample_started)"
    using z(1) by (simp add: transition_attempt_def sample_lookup(1) transitioned_row_def sample_started_def)
      (simp add: sample_row_def authorized_row_def)
  have free: "inject_fault sample_executor st c = lift_res (Ok ())" for st c
    by (simp add: inject_fault_def sample_executor_def)
  have "start_execution sample_executor (\<lambda>_. 5) y (w\<lparr>xw_db := sample_authorized\<rparr>) =
      (Ok (y, ck'), w\<lparr>xw_db := sample_started\<rparr>)"
    using ck y(2) z(2) move
    by (simp add: start_execution_def prog_bind_def lift_res_def free transaction_def on_tables_def mark_execution_attempt_executing_def)
  moreover have "transaction (on_tables (authorize_execution_attempt ''a'' (\<lambda>_. 5) ''p'' ''f'' ''h'' ''key'' EXTERNAL_WRITE
      locator_profile None (Some ''probe'') (Some 5))) w = (Ok y, w\<lparr>xw_db := sample_authorized\<rparr>)"
    using y(1) assms by (simp add: transaction_def on_tables_def)
  ultimately have "enter_execution sample_executor ''a'' (\<lambda>_. 5) sample_write w =
     (Ok (y, ck'), w\<lparr>xw_db := sample_started\<rparr>)"
    by (simp add: enter_parts prog_bind_def sample_write_def) (simp add: sample_executor_def)
  with y(2) show ?thesis by blast
qed

definition sample_ended :: db where
  "sample_ended = write_attempt (sample_row\<lparr>at_status := UNKNOWN, at_started_at := Some 5, at_completed_at := Some 5,
     at_error_message := Some ''BROWSER_EXECUTION_AMBIGUOUS:TimeoutError''\<rparr>) sample_started"

lemma sample_leaves:
  assumes "xw_db w = sample_started"
  shows "\<exists>q. leave_execution sample_executor (\<lambda>_. 5) ''a'' ck (Raise TimeoutError []) w = (Ok q, w\<lparr>xw_db := sample_ended\<rparr>)"
proof -
  let ?u = "sample_row\<lparr>at_status := UNKNOWN, at_started_at := Some 5, at_completed_at := Some 5,
     at_error_message := Some ''BROWSER_EXECUTION_AMBIGUOUS:TimeoutError''\<rparr>"
  obtain z ck' where z: "attempt_to_contract ?u = Ok z" "checkpoint_of z = Ok ck'"
    using sample_contract sample_checkpoint by blast
  have row: "transitioned_row UNKNOWN 5 None (Some ''BROWSER_EXECUTION_AMBIGUOUS:TimeoutError'')
      (sample_row\<lparr>at_status := EXECUTING, at_started_at := Some 5\<rparr>) = ?u"
    by (simp add: transitioned_row_def) (simp add: sample_row_def authorized_row_def)
  have move: "transition_attempt ''a'' EXECUTING UNKNOWN None (Some ''BROWSER_EXECUTION_AMBIGUOUS:TimeoutError'') 5 sample_started
      = (Ok z, sample_ended)"
    using z(1) by (simp add: transition_attempt_def sample_lookup(2) row sample_ended_def)
  have free: "inject_fault sample_executor st c = lift_res (Ok ())" for st c
    by (simp add: inject_fault_def sample_executor_def)
  from move z(2) assms show ?thesis
    by (simp add: leave_execution_def prog_bind_def lift_res_def free transaction_def on_tables_def mark_execution_attempt_unknown_def)
qed

lemma sample_writes:
  "\<exists>q u. persisted_execute sample_executor sample_write sample_world = (Ok q, u) \<and> xw_page u = 1"
proof -
  let ?w = "sample_world\<lparr>xw_calls := 1\<rparr>"
  obtain y ck where enter: "enter_execution sample_executor ''a'' (\<lambda>_. 5) sample_write ?w = (Ok (y, ck), ?w\<lparr>xw_db := sample_started\<rparr>)"
      "xa_attempt_id y = ''a''" using sample_enters [of ?w] by (auto simp: sample_world_def)
  let ?v = "?w\<lparr>xw_db := sample_started, xw_page := 1\<rparr>"
  obtain q where leave: "leave_execution sample_executor (\<lambda>_. 5) ''a'' ck (Raise TimeoutError []) ?v = (Ok q, ?v\<lparr>xw_db := sample_ended\<rparr>)"
    using sample_leaves [of ?v] by auto
  have "invoke_browser sample_executor sample_write (?w\<lparr>xw_db := sample_started\<rparr>) = (Ok (Raise TimeoutError []), ?v)"
    by (simp add: invoke_browser_def trying_def on_page_def lift_res_def sample_executor_def sample_guard_def sample_world_def)
  with enter leave have "persisted_execute sample_executor sample_write sample_world = (Ok q, ?v\<lparr>xw_db := sample_ended\<rparr>)"
    by (simp add: persisted_execute_def prog_bind_def demand_def on_page_def sample_fields)
  then show ?thesis by simp
qed

theorem reached_browser_is_recorded_witness:
  "\<exists>q u a. persisted_execute sample_executor sample_write sample_world = (Ok q, u) \<and> at_status a = UNKNOWN \<and>
     find_attempt (at_attempt_id a) (xw_db u) = Some a \<and> br_pending_result_probe q"
proof -
  obtain q u where run: "persisted_execute sample_executor sample_write sample_world = (Ok q, u)" "xw_page u = 1"
    using sample_writes by blast
  have "ea_effect (az_authorization sample_write) = EXTERNAL_WRITE" by (simp add: sample_write_def)
  from reached_browser_is_recorded [OF run(1) this sample_counts] run show ?thesis by auto
qed



section \<open>Recovery settles every abandoned attempt\<close>

text \<open>The row an abandoned attempt becomes.\<close>

definition settled_row :: "time \<Rightarrow> attempt_row \<Rightarrow> attempt_row" where
  "settled_row now a = (if at_status a = AUTHORIZED
     then transitioned_row FAILED now None (Some default_abandon_message) a
     else transitioned_row UNKNOWN now None (Some ''ABANDONED_EXECUTING_REQUIRES_RESULT_PROBE'') a)"

definition reported :: "recovery_report \<Rightarrow> time \<Rightarrow> attempt_row \<Rightarrow> bool" where
  "reported q now a = (if at_status a = AUTHORIZED then at_attempt_id a \<in> set (ry_abandoned q)
     else (\<exists>ck \<in> set (ry_ambiguous q). identifies ck (settled_row now a)))"

lemma settled_id [simp]: "at_attempt_id (settled_row now a) = at_attempt_id a"
  by (simp add: settled_row_def)

lemma transition_found:
  assumes "transition_attempt i f st rp em now s = (Ok y, t)"
  shows "find_attempt j t = (if j = i then map_option (transitioned_row st now rp em) (find_attempt i s) else find_attempt j s)"
  using assms
proof (cases rule: transition_attempt_cases)
  case (moved m)
  then show ?thesis using attempts.lookup_key [OF moved(1)] by (simp add: attempts.lookup_store)
qed simp

text \<open>One round of the recovery.\<close>

lemma settle_step:
  assumes "settle_attempts now (a # rest) q s = (Ok q', u)" and "find_attempt (at_attempt_id a) s = Some a"
    and "at_status a \<in> {AUTHORIZED, EXECUTING}"
  obtains q1 t where "settle_attempts now rest q1 t = (Ok q', u)" "reported q1 now a"
    "\<And>j. find_attempt j t = (if j = at_attempt_id a then Some (settled_row now a) else find_attempt j s)"
    "set (ry_abandoned q) \<subseteq> set (ry_abandoned q1)" "set (ry_ambiguous q) \<subseteq> set (ry_ambiguous q1)"
proof (cases "at_status a = AUTHORIZED")
  case True
  with assms(1) obtain y t where y: "transition_attempt (at_attempt_id a) AUTHORIZED FAILED None (Some default_abandon_message) now s = (Ok y, t)"
      and rest: "settle_attempts now rest (q\<lparr>ry_abandoned := ry_abandoned q @ [xa_attempt_id y]\<rparr>) t = (Ok q', u)"
    by (auto simp: prog_bind_ok abandon_authorized_execution_attempt_def)
  have "xa_attempt_id y = at_attempt_id a" using transition_leaves [OF y] by metis
  with True have rep: "reported (q\<lparr>ry_abandoned := ry_abandoned q @ [xa_attempt_id y]\<rparr>) now a" by (simp add: reported_def)
  have found: "find_attempt j t = (if j = at_attempt_id a then Some (settled_row now a) else find_attempt j s)" for j
    using transition_found [OF y] True assms(2) by (simp add: settled_row_def)
  show ?thesis by (rule that [OF rest rep found]) auto
next
  case False
  with assms(3) have ex: "at_status a = EXECUTING" by simp
  with assms(1) obtain y t ck where y: "transition_attempt (at_attempt_id a) EXECUTING UNKNOWN None
      (Some ''ABANDONED_EXECUTING_REQUIRES_RESULT_PROBE'') now s = (Ok y, t)" and ck: "checkpoint_of y = Ok ck"
      and rest: "settle_attempts now rest (q\<lparr>ry_ambiguous := ry_ambiguous q @ [ck]\<rparr>) t = (Ok q', u)"
    by (auto simp: prog_bind_ok lift_res_def mark_execution_attempt_unknown_def)
  obtain b where "find_attempt (at_attempt_id a) s = Some b"
      "attempt_to_contract (transitioned_row UNKNOWN now None (Some ''ABANDONED_EXECUTING_REQUIRES_RESULT_PROBE'') b) = Ok y"
    using transition_leaves [OF y] .
  with assms(2) ex have "attempt_to_contract (settled_row now a) = Ok y" by (simp add: settled_row_def)
  from checkpoint_identifies [OF this ck] ex have rep: "reported (q\<lparr>ry_ambiguous := ry_ambiguous q @ [ck]\<rparr>) now a"
    by (simp add: reported_def)
  have found: "find_attempt j t = (if j = at_attempt_id a then Some (settled_row now a) else find_attempt j s)" for j
    using transition_found [OF y] ex assms(2) by (simp add: settled_row_def)
  show ?thesis by (rule that [OF rest rep found]) auto
qed

lemma reported_mono:
  "reported q now a \<Longrightarrow> set (ry_abandoned q) \<subseteq> set (ry_abandoned q') \<Longrightarrow> set (ry_ambiguous q) \<subseteq> set (ry_ambiguous q') \<Longrightarrow>
   reported q' now a"
  by (auto simp: reported_def split: if_splits)

lemma settle_outcome:
  assumes "settle_attempts now rows q s = (Ok q', t)" and "distinct (map at_attempt_id rows)"
    and "\<forall>a \<in> set rows. find_attempt (at_attempt_id a) s = Some a \<and> at_status a \<in> {AUTHORIZED, EXECUTING}"
  shows "(\<forall>a \<in> set rows. find_attempt (at_attempt_id a) t = Some (settled_row now a) \<and> reported q' now a) \<and>
     (\<forall>j. j \<notin> at_attempt_id ` set rows \<longrightarrow> find_attempt j t = find_attempt j s) \<and>
     set (ry_abandoned q) \<subseteq> set (ry_abandoned q') \<and> set (ry_ambiguous q) \<subseteq> set (ry_ambiguous q')"
  using assms
proof (induction rows arbitrary: q s)
  case Nil
  then show ?case by (simp add: lift_res_def)
next
  case (Cons a rows)
  have a: "find_attempt (at_attempt_id a) s = Some a" "at_status a \<in> {AUTHORIZED, EXECUTING}" using Cons.prems(3) by simp_all
  obtain q1 v where step: "settle_attempts now rows q1 v = (Ok q', t)" "reported q1 now a"
      "\<And>j. find_attempt j v = (if j = at_attempt_id a then Some (settled_row now a) else find_attempt j s)"
      "set (ry_abandoned q) \<subseteq> set (ry_abandoned q1)" "set (ry_ambiguous q) \<subseteq> set (ry_ambiguous q1)"
    by (rule settle_step [OF Cons.prems(1) a]) (rule that, assumption+)
  have "\<forall>b \<in> set rows. find_attempt (at_attempt_id b) v = Some b \<and> at_status b \<in> {AUTHORIZED, EXECUTING}"
  proof
    fix b assume b: "b \<in> set rows"
    with Cons.prems(2) have "at_attempt_id b \<noteq> at_attempt_id a" by (auto simp: image_iff)
    with b Cons.prems(3) show "find_attempt (at_attempt_id b) v = Some b \<and> at_status b \<in> {AUTHORIZED, EXECUTING}"
      by (simp add: step(3))
  qed
  from Cons.IH [OF step(1) _ this] Cons.prems(2)
  have rest: "\<forall>b \<in> set rows. find_attempt (at_attempt_id b) t = Some (settled_row now b) \<and> reported q' now b"
      "\<forall>j. j \<notin> at_attempt_id ` set rows \<longrightarrow> find_attempt j t = find_attempt j v"
      "set (ry_abandoned q1) \<subseteq> set (ry_abandoned q')" "set (ry_ambiguous q1) \<subseteq> set (ry_ambiguous q')" by simp_all
  from rest(2) Cons.prems(2) have first: "find_attempt (at_attempt_id a) t = Some (settled_row now a)" by (simp add: step(3))
  have other: "find_attempt j t = find_attempt j s" if "j \<notin> at_attempt_id ` set (a # rows)" for j
    using that rest(2) by (simp add: step(3))
  show ?case
  proof (intro conjI ballI allI impI)
    fix b assume "b \<in> set (a # rows)"
    with first rest(1) reported_mono [OF step(2) rest(3,4)]
    show "find_attempt (at_attempt_id b) t = Some (settled_row now b)" "reported q' now b" by auto
  next
    fix j assume "j \<notin> at_attempt_id ` set (a # rows)"
    then show "find_attempt j t = find_attempt j s" by (rule other)
  qed (use step(4,5) rest(3,4) in auto)
qed


text \<open>
  C6. A recovery either settles every attempt that is authorized or
  executing and old enough, or raises and changes nothing: one never invoked is failed and listed, one
  that may have been invoked becomes unknown and is listed under a checkpoint that is its identity,
  and every other attempt keeps its row; none of them is executing afterwards. It raises as soon as one
  attempt that was executing has no result probe.
\<close>

theorem abandoned_executions_settled:
  assumes "recover_abandoned_executions age now s = (r, t)" and "distinct (map at_attempt_id (execution_attempts s))"
  shows "(\<forall>e. r = Inl e \<longrightarrow> t = s) \<and>
     (\<forall>q. r = Ok q \<longrightarrow> (\<forall>a \<in> set (execution_attempts s).
        if abandoned_at (now - age) a
        then find_attempt (at_attempt_id a) t = Some (settled_row now a) \<and> reported q now a \<and>
          at_status (settled_row now a) = (if at_status a = AUTHORIZED then FAILED else UNKNOWN)
        else find_attempt (at_attempt_id a) t = Some a)) \<and>
     (\<forall>a \<in> set (execution_attempts s). abandoned_at (now - age) a \<and> at_status a = EXECUTING \<and>
        at_result_probe_ref a = None \<longrightarrow> \<not> is_ok r)"
proof -
  let ?rows = "sort_by older_attempt (filter (abandoned_at (now - age)) (execution_attempts s))"
  have mem: "a \<in> set ?rows \<longleftrightarrow> a \<in> set (execution_attempts s) \<and> abandoned_at (now - age) a" for a by auto
  have rows: "distinct (map at_attempt_id ?rows)"
    using assms(2) by (auto simp: distinct_map intro: inj_on_subset)
  have there: "\<forall>a \<in> set ?rows. find_attempt (at_attempt_id a) s = Some a \<and> at_status a \<in> {AUTHORIZED, EXECUTING}"
    using find_attempt_mem [OF assms(2)] by (simp add: abandoned_at_def)
  have settled: "(\<forall>a \<in> set ?rows. find_attempt (at_attempt_id a) t = Some (settled_row now a) \<and> reported q now a) \<and>
      (\<forall>j. j \<notin> at_attempt_id ` set ?rows \<longrightarrow> find_attempt j t = find_attempt j s)" if ok: "r = Ok q" for q
  proof -
    from assms(1) ok have "settle_attempts now ?rows \<lparr>ry_ambiguous = [], ry_abandoned = []\<rparr> s = (Ok q, t)"
      by (simp add: recover_abandoned_executions_def transaction_ok split: if_splits)
    from settle_outcome [OF this rows there] show ?thesis by blast
  qed
  have other: "find_attempt (at_attempt_id a) t = Some a"
    if ok: "r = Ok q" and a: "a \<in> set (execution_attempts s)" "\<not> abandoned_at (now - age) a" for q a
  proof -
    have "at_attempt_id a \<notin> at_attempt_id ` set ?rows"
      using assms(2) a by (auto simp: distinct_map dest: inj_onD)
    with settled [OF ok] find_attempt_mem [OF assms(2) a(1)] show ?thesis by simp
  qed
  have "\<not> is_ok r" if a: "a \<in> set (execution_attempts s)" "abandoned_at (now - age) a" "at_status a = EXECUTING"
      "at_result_probe_ref a = None" for a
  proof
    assume "is_ok r"
    then obtain q where "r = Ok q" by (cases r) auto
    with settled mem a(1,2) have "reported q now a" by blast
    with a(3,4) show False by (auto simp: reported_def identifies_def settled_row_def)
  qed
  moreover have "t = s" if "r = Inl e" for e
    using assms(1) that by (auto simp: recover_abandoned_executions_def transaction_raise split: if_splits)
  ultimately show ?thesis
    using settled other mem by (auto simp: settled_row_def abandoned_at_def)
qed

theorem abandoned_executions_settled_witness:
  "\<exists>q t b. recover_abandoned_executions 3 9 sample_started = (Ok q, t) \<and> find_attempt ''a'' t = Some b \<and>
     at_status b = UNKNOWN \<and> ry_ambiguous q \<noteq> []"
proof -
  let ?a = "sample_row\<lparr>at_status := EXECUTING, at_started_at := Some 5\<rparr>"
  let ?u = "transitioned_row UNKNOWN 9 None (Some ''ABANDONED_EXECUTING_REQUIRES_RESULT_PROBE'') ?a"
  have row: "?u = sample_row\<lparr>at_status := UNKNOWN, at_started_at := Some 5, at_completed_at := Some 9,
     at_error_message := Some ''ABANDONED_EXECUTING_REQUIRES_RESULT_PROBE''\<rparr>"
    by (simp add: transitioned_row_def) (simp add: sample_row_def authorized_row_def)
  obtain z ck where z: "attempt_to_contract ?u = Ok z" "checkpoint_of z = Ok ck"
    unfolding row using sample_contract sample_checkpoint by blast
  have rows: "execution_attempts sample_started = [?a]"
    by (simp add: sample_started_def sample_authorized_def write_attempt_def write_row_def add_attempt_def write_permit_def
        issued_db_def add_permit_def empty_db_def)
  have a: "at_attempt_id ?a = ''a''" "abandoned_at 6 ?a" by (simp_all add: abandoned_at_def sample_row_def authorized_row_def)
  have "recover_abandoned_executions 3 9 sample_started =
      (Ok \<lparr>ry_ambiguous = [ck], ry_abandoned = []\<rparr>, write_attempt ?u sample_started)"
    using a z by (simp add: recover_abandoned_executions_def rows sort_by_def transaction_def prog_bind_def lift_res_def
        mark_execution_attempt_unknown_def transition_attempt_def sample_lookup(2) Let_def)
  moreover from abandoned_executions_settled [OF this] a rows have "find_attempt ''a'' (write_attempt ?u sample_started) = Some (settled_row 9 ?a)"
    by simp
  ultimately show ?thesis by (force simp: settled_row_def)
qed


section \<open>The loop over the persisted executor\<close>

text \<open>Without a fault hook, what is raised after the browser was invoked ends the run.\<close>

lemma contract_raises: "attempt_to_contract a = Inl e \<Longrightarrow> exc_of e = ValueError"
  by (auto simp: attempt_to_contract_def res_bind_def effect_of_value_def split: if_splits option.splits sum.splits)

lemma checkpoint_raises: "checkpoint_of y = Inl e \<Longrightarrow> exc_of e \<in> {ValueError, PersistedExecutionError}"
  by (auto simp: checkpoint_of_def Let_def split: if_splits option.splits)

lemma transition_raises: "transition_attempt i f st rp em now s = (Inl e, t) \<Longrightarrow> exc_of e \<in> {ExecutionAttemptError, ValueError}"
  by (cases rule: transition_attempt_cases) (auto dest: contract_raises [OF sym])

lemma leave_raises:
  assumes "leave_execution x clock i ck outcome w = (Inl e, u)" and "px_fault_hook x = None"
  shows "exc_of e \<in> {ExecutionAttemptError, ValueError, PersistedExecutionError}"
proof -
  have quiet_hook: "inject_fault x st ck' = lift_res (Ok ())" for st ck'
    using assms(2) by (simp add: inject_fault_def)
  have first: "(case outcome of Inl _ \<Rightarrow> lift_res (Ok ()) | Inr _ \<Rightarrow> lift_res (Ok ())) = lift_res (Ok ())"
    by (cases outcome) simp_all
  from assms(1) show ?thesis
    unfolding leave_execution_def quiet_hook first mark_execution_attempt_unknown_def
    by (elim prog_bind_cases) (auto simp: lift_res_def transaction_raise on_tables_def split: prod.splits
      dest: transition_raises checkpoint_raises)
qed

lemma crossing_ends_the_run:
  assumes "persisted_execute x command w = (r, u)" and "px_fault_hook x = None" and "counts_writes c x"
  shows "if may_go_on (ea_effect (az_authorization command)) r then c (xw_page u) = c (xw_page w)
     else c (xw_page u) \<in> {c (xw_page w), c (xw_page w) + 1}"
proof (cases "ea_effect (az_authorization command) = EXTERNAL_WRITE")
  case False
  then have "quiet c (gr_execute (px_runtime x) command)" using assms(3) by (simp add: counts_writes_def)
  from guaranteesD [OF unmoved_page [OF this]] False assms(1) have "c (xw_page u) = c (xw_page w)"
    by (fastforce simp: persisted_execute_def unmoved_def)
  then show ?thesis by simp
next
  case True
  from write_crosses [OF assms(1) True assms(3)] have bound: "c (xw_page u) \<in> {c (xw_page w), c (xw_page w) + 1}"
    by (auto simp: crossed_def unmoved_def)
  from assms(1) True assms(3) show ?thesis
  proof (cases rule: persisted_write_cases [where i = "ea_permit_id (az_authorization command)"])
    case (stopped e)
    then show ?thesis by (simp add: unmoved_def)
  next
    case (invoked v0 call a ck v outcome v')
    have "\<not> may_go_on EXTERNAL_WRITE r"
    proof (cases r)
      case (Inl e)
      with leave_raises [of x _ _ _ outcome v' e u] invoked(4) assms(2) show ?thesis
        by (fastforce simp: may_go_on_def)
    next
      case (Inr q)
      with invoked(4) show ?thesis
        by (auto simp: may_go_on_def leave_execution_def prog_bind_ok lift_res_def)
    qed
    with bound True show ?thesis by simp
  qed
qed

lemma keeps_either: "keeps P m \<Longrightarrow> keeps Q m \<Longrightarrow> keeps (\<lambda>s. P s \<or> Q s) m"
  by (auto simp: keeps_def)

lemma ports_keep_either: "ports_keep P p \<Longrightarrow> ports_keep Q p \<Longrightarrow> ports_keep (\<lambda>s. P s \<or> Q s) p"
  by (auto simp: ports_keep_def intro!: keeps_either)

text \<open>
  C1. A run of the browser loop over the persisted executor, whose other
  ports make no external write, invokes the browser for an external write at most once, whatever
  decisions the model takes, whatever permits the policy names and whatever the browser raises.
\<close>

theorem one_external_write_per_run:
  assumes "pt_runtime p = persisted_runtime x" and "px_fault_hook x = None" and "counts_writes c x"
    and "\<And>n. ports_keep (\<lambda>w. c (xw_page w) = n) p"
  shows "c (xw_page (ls_world (snd (browser_loop_run p run w)))) \<le> c (xw_page w) + 1"
proof -
  let ?n = "c (xw_page w)"
  let ?J = "\<lambda>v. c (xw_page v) = ?n \<or> c (xw_page v) = ?n + 1"
  have "phase_laws (\<lambda>v. c (xw_page v) = ?n) ?J p run"
    unfolding phase_laws_def
  proof (intro conjI allI impI)
    show "ports_keep (\<lambda>v. c (xw_page v) = ?n) p" "ports_keep ?J p"
      using assms(4) ports_keep_either [OF assms(4) assms(4)] by blast+
    fix a v r u
    assume "c (xw_page v) = ?n" and "rt_execute (pt_runtime p) a v = (r, u)"
    with crossing_ends_the_run [of x a v r u c] assms(1-3)
    show "if may_go_on (ea_effect (az_authorization a)) r then c (xw_page u) = ?n else ?J u"
      by (simp add: persisted_runtime_def split: if_splits)
  qed simp_all
  from run_loop_world [OF this refl prod.collapse [symmetric]] show ?thesis by auto
qed

definition sample_persisted_ports :: "nat execution_world loop_ports" where
  "sample_persisted_ports =
     \<lparr>pt_runtime = persisted_runtime sample_executor,
      pt_model = (\<lambda>x. Pair (Ok \<lparr>dn_kind = Decide_ACTION, dn_observation_id = mi_observation_id x,
        dn_action = Some sample_press, dn_reason_code = ''NEXT''\<rparr>)),
      pt_prepare_input = (\<lambda>r o'. Pair (Ok \<lparr>mi_observation_id = lo_observation_id o', mi_goal = rc_goal r, mi_url = lo_url o',
        mi_dom = [], mi_screenshots = [], mi_iframes = [], mi_allowed_action_kinds = []\<rparr>)),
      pt_authorize = (\<lambda>r o' a f. Pair (Ok \<lparr>pz_disposition = Policy_ALLOW, pz_reason_code = ''OK'',
        pz_authorization = Some \<lparr>ea_permit_id = ''p'', ea_action_fingerprint = f,
          ea_observation_hash = lo_observation_id o', ea_idempotency_key = ''key'', ea_effect = EXTERNAL_WRITE\<rparr>,
        pz_execution_profile = Some locator_profile, pz_approval_ref = None\<rparr>)),
      pt_verify = (\<lambda>q. Pair (Ok \<lparr>vf_disposition = Verify_CONTINUE, vf_reason_code = ''MORE'', vf_evidence_refs = []\<rparr>)),
      pt_emit = (\<lambda>e. Pair (Ok ())), pt_domain = None, pt_clock = Pair 0, pt_secret = ''s'',
      pt_config = default_loop_config\<rparr>"

theorem one_external_write_per_run_witness:
  "xw_page (ls_world (snd (browser_loop_run sample_persisted_ports sample_loop_run sample_world))) \<le> 1"
proof -
  have keeps: "ports_keep (\<lambda>w. id (xw_page w) = n) sample_persisted_ports" for n
    by (simp add: ports_keep_def keeps_def sample_persisted_ports_def persisted_runtime_def on_page_def sample_executor_def
        sample_guard_def)
  have "px_fault_hook sample_executor = None" "pt_runtime sample_persisted_ports = persisted_runtime sample_executor"
    by (simp_all add: sample_executor_def sample_persisted_ports_def)
  from one_external_write_per_run [OF this(2,1) sample_counts keeps, of sample_loop_run sample_world] show ?thesis
    by (simp add: sample_world_def)
qed

end
