(* ===== verification/SyntheticPay.thy ===== *)
theory SyntheticPay
  imports Admission Pending
begin

text \<open>
  \<open>enterprise/domains/synthetic_payment/\<close>: the reference payment pack. Its business system and result
  probe (\<open>store.py\<close>), its fixed accounts and policy, its manifest, and the harness that takes one payment
  from a prepared challenge over an independent approval and a short-lived permit to a probed result.
  The clock and the random identifiers are functions of the number of earlier calls. An amount is a
  decimal of units and places; the ISO text of an instant is the instant.
\<close>

section \<open>Models and constants\<close>

definition synthetic_pack_id :: string where "synthetic_pack_id = ''synthetic.payment''"
definition synthetic_pack_version :: string where "synthetic_pack_version = ''1.0.0''"
definition synthetic_capability_id :: string where "synthetic_capability_id = ''synthetic.payment.submit''"
definition synthetic_policy_version :: string where "synthetic_policy_version = ''synthetic-payment-policy-v1''"
definition synthetic_probe_ref :: string where "synthetic_probe_ref = ''synthetic.payment.submit.result-probe.v1''"
definition synthetic_work_order_ref :: string where "synthetic_work_order_ref = ''synthetic.payment.submit.work-order.v1''"
definition synthetic_access_ref :: string where "synthetic_access_ref = ''synthetic.payment.submit.access.v1''"
definition synthetic_risk_ref :: string where "synthetic_risk_ref = ''synthetic.payment.submit.risk.v1''"
definition synthetic_tenant :: string where "synthetic_tenant = ''synthetic_finance_tenant''"
definition payments_department :: string where "payments_department = ''synthetic_payments''"
definition compliance_department :: string where "compliance_department = ''synthetic_compliance''"
definition treasury_line :: string where "treasury_line = ''synthetic_treasury''"

datatype payment_status = Payment_DRAFT | Payment_SUBMITTED

fun payment_status_value :: "payment_status \<Rightarrow> string" where
  "payment_status_value Payment_DRAFT = ''draft''"
| "payment_status_value Payment_SUBMITTED = ''submitted''"

datatype fault_mode = Fault_NONE | FAIL_BEFORE_COMMIT | COMMIT_THEN_TIMEOUT | COMMIT_THEN_INCONCLUSIVE

record decimal =
  dec_units :: int
  dec_places :: nat

definition decimal_text :: "decimal \<Rightarrow> string" where
  "decimal_text d =
     (if dec_places d = 0 then show_int (dec_units d)
      else show_int (dec_units d div 10 ^ dec_places d) @ ''.'' @ pad_int (dec_places d) (dec_units d mod 10 ^ dec_places d))"

record payment_facts =
  pf_payment_id :: string
  pf_beneficiary_id :: string
  pf_amount :: decimal
  pf_currency :: string
  pf_reference :: string
  pf_object_version :: int

definition payment_facts_ok :: "payment_facts \<Rightarrow> bool" where
  "payment_facts_ok f =
     (length (pf_payment_id f) \<in> {1..100} \<and> length (pf_beneficiary_id f) \<in> {1..100} \<and>
      0 < dec_units (pf_amount f) \<and> dec_places (pf_amount f) \<le> 2 \<and> dec_units (pf_amount f) < 10 ^ 18 \<and>
      pf_currency f \<in> {''CNY'', ''USD'', ''EUR''} \<and> length (pf_reference f) \<in> {1..200} \<and> 1 \<le> pf_object_version f)"

definition facts_dump :: "payment_facts \<Rightarrow> jobject" where
  "facts_dump f =
     [(''payment_id'', JStr (pf_payment_id f)), (''beneficiary_id'', JStr (pf_beneficiary_id f)),
      (''amount'', JStr (decimal_text (pf_amount f))), (''currency'', JStr (pf_currency f)),
      (''reference'', JStr (pf_reference f)), (''object_version'', JInt (pf_object_version f))]"

record payment_record =
  pr_facts :: payment_facts
  pr_status :: payment_status
  pr_requester_user_id :: string
  pr_approval_id :: "string option"
  pr_idempotency_key :: "string option"
  pr_confirmation_reference :: "string option"
  pr_commit_count :: nat

definition payment_record_dump :: "payment_record \<Rightarrow> jobject" where
  "payment_record_dump r =
     [(''facts'', JObj (facts_dump (pr_facts r))), (''status'', JStr (payment_status_value (pr_status r))),
      (''requester_user_id'', JStr (pr_requester_user_id r)), (''approval_id'', jstr_opt (pr_approval_id r)),
      (''idempotency_key'', jstr_opt (pr_idempotency_key r)),
      (''confirmation_reference'', jstr_opt (pr_confirmation_reference r)),
      (''commit_count'', JInt (int (pr_commit_count r)))]"

record submission_risk =
  sr_risk_level :: risk_level
  sr_approver_department_id :: string
  sr_reasons :: "string list"

definition is_payment_error :: "exn \<Rightarrow> bool" where
  "is_payment_error e = (exc_of e \<in> {SyntheticPaymentError, DefiniteSubmissionFailure, AmbiguousSubmissionFailure})"

section \<open>Accounts\<close>

definition synthetic_account :: "string \<Rightarrow> string \<Rightarrow> string \<Rightarrow> user_context" where
  "synthetic_account user_id department_id role =
     \<lparr>uc_user_id = user_id, uc_org_id = synthetic_tenant,
      uc_department_roles = [\<lparr>dr_department_id = department_id, dr_department_name = department_id, dr_role = role\<rparr>],
      uc_business_line_ids = [treasury_line], uc_has_cross_org_read = False, uc_has_cross_org_approve = False\<rparr>"

definition synthetic_accounts :: "(string \<times> user_context) list" where
  "synthetic_accounts =
     [(''operator'', synthetic_account ''synthetic_operator'' payments_department ''operator''),
      (''approver'', synthetic_account ''synthetic_approver'' payments_department ''approver''),
      (''compliance'', synthetic_account ''synthetic_compliance'' compliance_department ''approver''),
      (''viewer'', synthetic_account ''synthetic_viewer'' payments_department ''viewer'')]"

definition require_synthetic_account :: "string \<Rightarrow> user_context res" where
  "require_synthetic_account account_name = (case map_of synthetic_accounts account_name of
     None \<Rightarrow> Raise ValueError (''Unknown synthetic account: '' @ account_name) | Some u \<Rightarrow> Ok u)"

section \<open>Policy\<close>

text \<open>\<open>facts.amount >= Decimal("100000.00")\<close>\<close>

definition critical_amount :: "decimal \<Rightarrow> bool" where
  "critical_amount d = (100000 * 10 ^ dec_places d \<le> dec_units d)"

definition assess_submission :: "payment_facts \<Rightarrow> submission_risk" where
  "assess_submission facts =
     (if critical_amount (pf_amount facts)
      then \<lparr>sr_risk_level = Risk_critical, sr_approver_department_id = compliance_department,
            sr_reasons = [''Synthetic amount meets the critical approval threshold'']\<rparr>
      else \<lparr>sr_risk_level = Risk_high, sr_approver_department_id = payments_department,
            sr_reasons = [''Every synthetic payment submission requires dual control'']\<rparr>)"

text \<open>The decision ids end in a random number, the argument \<open>hex\<close>.\<close>

definition require_approval_decision :: "string \<Rightarrow> action_intent \<Rightarrow> payment_facts \<Rightarrow> policy_decision" where
  "require_approval_decision hex intent facts =
     (let risk = assess_submission facts in
      \<lparr>pd_decision_id = ''decision_'' @ hex, pd_intent_id = ai_intent_id intent, pd_outcome = REQUIRE_APPROVAL,
       pd_risk_level = sr_risk_level risk, pd_reasons = sr_reasons risk,
       pd_matched_rules = [''synthetic.payment.submit.always-approve'',
         ''synthetic.payment.'' @ risk_value (sr_risk_level risk)],
       pd_required_approver = Some [(''department_id'', JStr (sr_approver_department_id risk)),
         (''role'', JStr ''approver'')],
       pd_policy_version = synthetic_policy_version\<rparr>)"

definition synthetic_route :: "payment_facts \<Rightarrow> approval_route" where
  "synthetic_route facts =
     (let risk = assess_submission facts in
      \<lparr>rt_requires_approval = True, rt_approver_department_id = Some (sr_approver_department_id risk),
       rt_approver_role = ''approver'', rt_notify_department_ids = [], rt_notify_roles = [],
       rt_description = ''Synthetic '' @ risk_value (sr_risk_level risk) @ '' payment approval''\<rparr>)"

definition authorize_after_approval ::
  "string \<Rightarrow> action_intent \<Rightarrow> payment_facts \<Rightarrow> user_context \<Rightarrow> user_context \<Rightarrow> policy_decision res" where
  "authorize_after_approval hex intent facts requester approver =
     (let risk = assess_submission facts; role = get_role_in_department approver (sr_approver_department_id risk)
      in checks
       [(uc_user_id requester = uc_user_id approver,
         Exc SyntheticPaymentError ''Requester cannot approve the same synthetic payment''),
        (uc_org_id requester \<noteq> synthetic_tenant \<or> uc_org_id approver \<noteq> synthetic_tenant,
         Exc SyntheticPaymentError ''Synthetic identities must belong to the sandbox tenant''),
        (role \<notin> {Some ''approver'', Some ''org_admin'', Some ''super_admin''},
         Exc SyntheticPaymentError ''Approver lacks the required synthetic department role''),
        (\<not> is_org_admin approver \<and> \<not> has_business_line approver treasury_line,
         Exc SyntheticPaymentError ''Approver lacks the synthetic business-line scope'')]
       (Ok \<lparr>pd_decision_id = ''decision_'' @ hex, pd_intent_id = ai_intent_id intent, pd_outcome = ALLOW,
          pd_risk_level = sr_risk_level risk,
          pd_reasons = [''Independent synthetic approver accepted the current facts and observation''],
          pd_matched_rules = [''synthetic.payment.separation-of-duties'', ''synthetic.payment.approved''],
          pd_required_approver = None, pd_policy_version = synthetic_policy_version\<rparr>))"

section \<open>The pack\<close>

text \<open>\<open>PaymentFacts.model_json_schema()\<close> is generated; it is the argument.\<close>

definition synthetic_capability :: "jobject \<Rightarrow> capability_definition" where
  "synthetic_capability schema =
     \<lparr>cd_capability_id = synthetic_capability_id, cd_version = synthetic_pack_version, cd_domain = synthetic_pack_id,
      cd_display_name = ''Submit synthetic payment'', cd_intent_examples = [''Submit the synthetic payment draft''],
      cd_input_schema = schema,
      cd_state_transition = [(''from'', JStr ''draft''), (''to'', JStr ''submitted'')],
      cd_access_policy_ref = synthetic_access_ref, cd_risk_policy_ref = synthetic_risk_ref,
      cd_work_order_template_ref = synthetic_work_order_ref, cd_result_probe_ref = synthetic_probe_ref,
      cd_access_policy = \<lparr>ap_minimum_permission = Perm_OPERATE, ap_approval_request_minimum_permission = Perm_READ,
        ap_allow_request_approval = False, ap_required_scope_dimensions = {DEPARTMENT, BUSINESS_LINE},
        ap_role_dimensions = Some
          [(''operator'', {DISCOVER, READ_RECORD, REQUEST_TRANSITION, EXECUTE_TRANSITION, REQUEST_APPROVAL}),
           (''approver'', {DISCOVER, READ_RECORD, ADJUDICATE_APPROVAL})]\<rparr>\<rparr>"

definition synthetic_manifest :: "jobject \<Rightarrow> domain_pack_manifest" where
  "synthetic_manifest schema =
     \<lparr>dm_pack_id = synthetic_pack_id, dm_version = synthetic_pack_version, dm_kind = SYNTHETIC,
      dm_display_name = ''Synthetic Payment Sandbox'', dm_owner = ''FinRPA Phase 2 test harness'',
      dm_capabilities = [synthetic_capability schema], dm_canonical_fact_schema = schema,
      dm_state_transitions = [(''draft'', [''submitted'']), (''submitted'', [])],
      dm_policy_refs = {synthetic_access_ref, synthetic_risk_ref}, dm_result_probe_refs = {synthetic_probe_ref},
      dm_production_eligible = False\<rparr>"

section \<open>The business system and its probe\<close>

record payment_store =
  ps_records :: "string \<Rightarrow> payment_record option"
  ps_inconclusive :: "string set"

definition create_draft :: "payment_facts \<Rightarrow> string \<Rightarrow> (payment_store, payment_record) prog" where
  "create_draft facts requester s =
     (if ps_records s (pf_payment_id facts) \<noteq> None
      then (Raise SyntheticPaymentError ''Synthetic payment already exists'', s)
      else (let r = \<lparr>pr_facts = facts, pr_status = Payment_DRAFT, pr_requester_user_id = requester,
                pr_approval_id = None, pr_idempotency_key = None, pr_confirmation_reference = None, pr_commit_count = 0\<rparr>
            in (Ok r, s\<lparr>ps_records := (ps_records s)(pf_payment_id facts \<mapsto> r)\<rparr>)))"

definition require_payment :: "string \<Rightarrow> payment_store \<Rightarrow> payment_record res" where
  "require_payment payment_id s = (case ps_records s payment_id of
     None \<Rightarrow> Raise SyntheticPaymentError ''Synthetic payment does not exist'' | Some r \<Rightarrow> Ok r)"

definition submitted_record :: "string \<Rightarrow> int \<Rightarrow> string \<Rightarrow> string \<Rightarrow> payment_record \<Rightarrow> payment_record" where
  "submitted_record payment_id expected_version approval_id key r =
     r\<lparr>pr_status := Payment_SUBMITTED, pr_facts := (pr_facts r)\<lparr>pf_object_version := expected_version + 1\<rparr>,
       pr_approval_id := Some approval_id, pr_idempotency_key := Some key,
       pr_confirmation_reference := Some (''SYN-'' @ payment_id @ ''-'' @ show_int (expected_version + 1)),
       pr_commit_count := pr_commit_count r + 1\<rparr>"

definition submit_payment ::
  "string \<Rightarrow> int \<Rightarrow> string \<Rightarrow> string \<Rightarrow> fault_mode \<Rightarrow> (payment_store, payment_record) prog" where
  "submit_payment payment_id expected_version approval_id key fault s =
     (case ps_records s payment_id of
        None \<Rightarrow> (Raise SyntheticPaymentError ''Synthetic payment does not exist'', s)
      | Some r \<Rightarrow>
          if pr_idempotency_key r = Some key then (Ok r, s)
          else if pr_status r \<noteq> Payment_DRAFT
          then (Raise SyntheticPaymentError ''Synthetic payment is no longer a draft'', s)
          else if pf_object_version (pr_facts r) \<noteq> expected_version
          then (Raise SyntheticPaymentError ''Synthetic payment object version changed'', s)
          else if fault = FAIL_BEFORE_COMMIT
          then (Raise DefiniteSubmissionFailure ''Synthetic failure occurred before commit'', s)
          else (let done' = submitted_record payment_id expected_version approval_id key r;
                    t = s\<lparr>ps_records := (ps_records s)(payment_id \<mapsto> done')\<rparr>
                in case fault of
                  COMMIT_THEN_INCONCLUSIVE \<Rightarrow>
                    (Raise AmbiguousSubmissionFailure ''Synthetic commit response and result probe are unavailable'',
                     t\<lparr>ps_inconclusive := insert payment_id (ps_inconclusive t)\<rparr>)
                | COMMIT_THEN_TIMEOUT \<Rightarrow>
                    (Raise AmbiguousSubmissionFailure ''Synthetic commit completed before the response timed out'', t)
                | _ \<Rightarrow> (Ok done', t)))"

definition clear_probe_fault :: "string \<Rightarrow> payment_store \<Rightarrow> payment_store" where
  "clear_probe_fault payment_id s = s\<lparr>ps_inconclusive := ps_inconclusive s - {payment_id}\<rparr>"

definition facts_hash :: "payment_facts \<Rightarrow> string" where
  "facts_hash facts = sha256 (dumps True (JObj (facts_dump facts)))"

text \<open>\<open>SyntheticPaymentResultProbe.probe\<close>; it never changes the store.\<close>

definition probe_payment :: "time \<Rightarrow> string \<Rightarrow> string \<Rightarrow> payment_store \<Rightarrow> probe_evidence" where
  "probe_payment checked_at resource_id key s =
     (let base = \<lparr>pe_probe_ref = synthetic_probe_ref, pe_status = probe_status.Probe_UNKNOWN, pe_resource_id = resource_id,
            pe_checked_at = checked_at, pe_observed_version = None, pe_business_reference = None, pe_facts_hash = None,
            pe_reasons = [], pe_metadata = []\<rparr>
      in if resource_id \<in> ps_inconclusive s
      then base\<lparr>pe_reasons := [''Synthetic canonical state is temporarily unavailable'']\<rparr>
      else (case ps_records s resource_id of
        None \<Rightarrow> base\<lparr>pe_status := probe_status.Probe_NOT_CONFIRMED, pe_reasons := [''Synthetic payment does not exist'']\<rparr>
      | Some r \<Rightarrow>
          (let verdict =
             (if pr_status r = Payment_DRAFT
              then (probe_status.Probe_NOT_CONFIRMED, ''Synthetic payment remains in draft state'')
              else if pr_idempotency_key r = Some key
              then (probe_status.Probe_CONFIRMED, ''Canonical payment state and idempotency key confirm submission'')
              else (probe_status.Probe_UNKNOWN, ''Payment was submitted by a different idempotency key''))
           in base\<lparr>pe_status := fst verdict, pe_observed_version := Some (pf_object_version (pr_facts r)),
                pe_business_reference := pr_confirmation_reference r, pe_facts_hash := Some (facts_hash (pr_facts r)),
                pe_reasons := [snd verdict],
                pe_metadata := [(''status'', JStr (payment_status_value (pr_status r)))]\<rparr>)))"

definition evidence_dump :: "probe_evidence \<Rightarrow> jobject" where
  "evidence_dump e =
     [(''probe_ref'', JStr (pe_probe_ref e)), (''status'', JStr (probe_status_value (pe_status e))),
      (''resource_id'', JStr (pe_resource_id e)), (''checked_at'', JTime (pe_checked_at e)),
      (''observed_version'', case pe_observed_version e of None \<Rightarrow> JNull | Some v \<Rightarrow> JInt v),
      (''business_reference'', jstr_opt (pe_business_reference e)), (''facts_hash'', jstr_opt (pe_facts_hash e)),
      (''reasons'', JArr (map JStr (pe_reasons e))), (''metadata'', JObj (pe_metadata e))]"

section \<open>The harness\<close>

datatype challenge_state = Challenge_PENDING_APPROVAL | Challenge_REJECTED | Challenge_READY | Challenge_INVALIDATED
  | Challenge_CONFIRMED | Challenge_UNKNOWN | Challenge_FAILED

fun challenge_state_value :: "challenge_state \<Rightarrow> string" where
  "challenge_state_value Challenge_PENDING_APPROVAL = ''pending_approval''"
| "challenge_state_value Challenge_REJECTED = ''rejected''"
| "challenge_state_value Challenge_READY = ''ready''"
| "challenge_state_value Challenge_INVALIDATED = ''invalidated''"
| "challenge_state_value Challenge_CONFIRMED = ''confirmed''"
| "challenge_state_value Challenge_UNKNOWN = ''unknown''"
| "challenge_state_value Challenge_FAILED = ''failed''"

record synthetic_approval =
  sa_approval_id :: string
  sa_requester_user_id :: string
  sa_approver_user_id :: string
  sa_approved_at :: time

record challenge =
  ch_challenge_id :: string
  ch_state :: challenge_state
  ch_facts :: payment_facts
  ch_requester_user_id :: string
  ch_contract :: task_contract
  ch_plan :: business_plan
  ch_work_order :: execution_work_order
  ch_intent :: action_intent
  ch_observation_hash :: string
  ch_decision :: policy_decision
  ch_approval :: "synthetic_approval option"
  ch_permit :: "execution_permit option"
  ch_attempt :: "execution_attempt option"
  ch_result_probe :: "probe_evidence option"

record synthetic_event =
  se_event_type :: string
  se_challenge_id :: string
  se_payment_id :: string
  se_state :: challenge_state
  se_created_at :: time
  se_metadata :: jobject

record synthetic_env =
  sv_secret :: string
  sv_registry :: pack_registry
  sv_clock :: "nat \<Rightarrow> time"
  sv_hex :: "nat \<Rightarrow> string"
  sv_grant_id :: "nat \<Rightarrow> nat \<Rightarrow> string"

record harness_state =
  hs_store :: payment_store
  hs_challenges :: "string \<Rightarrow> challenge option"
  hs_audit :: "synthetic_event list"
  hs_reads :: nat
  hs_ids :: nat
  hs_resolutions :: nat

text \<open>\<open>__init__\<close>, with a store of its own.\<close>

definition make_synthetic_harness ::
  "string \<Rightarrow> jobject \<Rightarrow> (nat \<Rightarrow> time) \<Rightarrow> (nat \<Rightarrow> string) \<Rightarrow> (nat \<Rightarrow> nat \<Rightarrow> string) \<Rightarrow> (synthetic_env \<times> harness_state) res" where
  "make_synthetic_harness secret schema clock hex grant_id =
     (if secret = [] then Raise ValueError ''Synthetic enforce harness requires an HMAC secret''
      else res_bind (validate_manifest_boundary (synthetic_manifest schema)) (\<lambda>manifest.
        res_bind (pack_registry_of [manifest]) (\<lambda>registry_packs.
        Ok (\<lparr>sv_secret = secret, sv_registry = registry_packs, sv_clock = clock, sv_hex = hex, sv_grant_id = grant_id\<rparr>,
            \<lparr>hs_store = \<lparr>ps_records = Map.empty, ps_inconclusive = {}\<rparr>, hs_challenges = Map.empty, hs_audit = [],
             hs_reads = 0, hs_ids = 0, hs_resolutions = 0\<rparr>))))"

definition now_of :: "synthetic_env \<Rightarrow> (harness_state, time) prog" where
  "now_of env s = (Ok (sv_clock env (hs_reads s)), s\<lparr>hs_reads := hs_reads s + 1\<rparr>)"

definition new_id :: "synthetic_env \<Rightarrow> string \<Rightarrow> (harness_state, string) prog" where
  "new_id env prefix s = (Ok (prefix @ sv_hex env (hs_ids s)), s\<lparr>hs_ids := hs_ids s + 1\<rparr>)"

definition on_payments :: "(payment_store, 'a) prog \<Rightarrow> (harness_state, 'a) prog" where
  "on_payments m s = (case m (hs_store s) of (r, t) \<Rightarrow> (r, s\<lparr>hs_store := t\<rparr>))"

definition put_challenge :: "challenge \<Rightarrow> (harness_state, unit) prog" where
  "put_challenge c s = (Ok (), s\<lparr>hs_challenges := (hs_challenges s)(ch_challenge_id c \<mapsto> c)\<rparr>)"

text \<open>\<open>_audit\<close>; the challenge is in the table in the state it has.\<close>

definition audit_challenge :: "synthetic_env \<Rightarrow> challenge \<Rightarrow> string \<Rightarrow> jobject \<Rightarrow> (harness_state, unit) prog" where
  "audit_challenge env c event_type metadata =
     prog_bind (now_of env) (\<lambda>created s.
       (Ok (), s\<lparr>hs_audit := hs_audit s @ [\<lparr>se_event_type = event_type, se_challenge_id = ch_challenge_id c,
          se_payment_id = pf_payment_id (ch_facts c), se_state = ch_state c, se_created_at = created,
          se_metadata = metadata\<rparr>]\<rparr>))"

definition require_challenge :: "string \<Rightarrow> harness_state \<Rightarrow> challenge res" where
  "require_challenge challenge_id s = (case hs_challenges s challenge_id of
     None \<Rightarrow> Raise SyntheticPaymentError ''Synthetic challenge does not exist'' | Some c \<Rightarrow> Ok c)"

definition require_synthetic_operator :: "user_context \<Rightarrow> unit res" where
  "require_synthetic_operator requester = checks
     [(uc_org_id requester \<noteq> synthetic_tenant, Exc SyntheticPaymentError ''Requester is outside the synthetic tenant''),
      (get_role_in_department requester payments_department \<noteq> Some ''operator'',
       Exc SyntheticPaymentError ''Only the synthetic payments operator may request submission''),
      (\<not> has_business_line requester treasury_line,
       Exc SyntheticPaymentError ''Requester lacks the synthetic business-line scope'')]
     (Ok ())"

definition record_observation :: "synthetic_env \<Rightarrow> payment_record \<Rightarrow> string res" where
  "record_observation env r = hmac_fingerprint (dumps True (JObj (payment_record_dump r))) (sv_secret env)"

definition synthetic_action_payload :: "payment_record \<Rightarrow> jobject" where
  "synthetic_action_payload r =
     [(''operation'', JStr synthetic_capability_id), (''payment_id'', JStr (pf_payment_id (pr_facts r))),
      (''object_version'', JInt (pf_object_version (pr_facts r))), (''status'', JStr (payment_status_value (pr_status r)))]"

definition synthetic_scope :: "string \<Rightarrow> capability_data_scope" where
  "synthetic_scope payment_id =
     \<lparr>ds_department_id = Some payments_department, ds_business_line_id = Some treasury_line,
      ds_resource_ids = {payment_id}, ds_attributes = []\<rparr>"

text \<open>The grants of a requester at an instant.\<close>

definition current_grants ::
  "synthetic_env \<Rightarrow> user_context \<Rightarrow> string \<Rightarrow> time \<Rightarrow> (harness_state, capability_grant list) prog" where
  "current_grants env requester payment_id now s =
     (res_bind (pack_capability_registry (sv_registry env)) (\<lambda>r.
        resolve_grants (sv_grant_id env (hs_resolutions s)) r
          \<lparr>rc_user = requester, rc_tenant_id = synthetic_tenant, rc_data_scope = synthetic_scope payment_id,
           rc_installed_capability_ids = {synthetic_capability_id},
           rc_policy_snapshot_version = synthetic_policy_version, rc_resolved_at = now, rc_grant_ttl_seconds = 300,
           rc_workload_principal_id = None, rc_revocation_epoch = ''0'', rc_purpose = ''capability_request''\<rparr>),
      s\<lparr>hs_resolutions := hs_resolutions s + 1\<rparr>)"


text \<open>\<open>_require_current_authorization\<close>: the contract, the grant and the requester, once more.\<close>

definition current_authorization ::
  "synthetic_env \<Rightarrow> challenge \<Rightarrow> time \<Rightarrow> user_context option \<Rightarrow> (harness_state, unit) prog" where
  "current_authorization env c now requester =
     (let snapshot = tc_authorization_snapshot (ch_contract c);
          user = (case requester of Some u \<Rightarrow> Some u
            | None \<Rightarrow> List.find (\<lambda>u. uc_user_id u = ch_requester_user_id c) (map snd synthetic_accounts))
      in
      prog_bind (lift_res (checks
        [(case tc_expires_at (ch_contract c) of None \<Rightarrow> False | Some t \<Rightarrow> t \<le> now,
          Exc SyntheticPaymentError ''Synthetic task contract has expired; reauthorization is required'')]
        (case get_value snapshot ''grant_expires_at'' of
           JTime expires \<Rightarrow>
             if expires \<le> now
             then Raise SyntheticPaymentError ''Synthetic capability grant has expired; reauthorization is required''
             else Ok ()
         | JNull \<Rightarrow> Raise SyntheticPaymentError ''Synthetic authorization snapshot has no grant expiry''
         | _ \<Rightarrow> Raise SyntheticPaymentError ''Synthetic authorization snapshot has an invalid grant expiry''))) (\<lambda>_.
      case user of
        None \<Rightarrow> lift_res (Raise SyntheticPaymentError ''Synthetic requester identity is no longer available'')
      | Some u \<Rightarrow>
          prog_bind (lift_res (checks
            [(uc_user_id u \<noteq> ch_requester_user_id c,
              Exc SyntheticPaymentError ''Synthetic requester identity is no longer available''),
             (get_value snapshot ''principal_id'' \<noteq> JStr (uc_user_id u) \<or>
              get_value snapshot ''tenant_id'' \<noteq> JStr (uc_org_id u),
              Exc SyntheticPaymentError ''Synthetic authorization principal snapshot changed'')] (Ok ()))) (\<lambda>_.
          prog_bind (current_grants env u (pf_payment_id (ch_facts c)) now) (\<lambda>grants.
          lift_res (case List.find (\<lambda>g. cg_capability_id g = synthetic_capability_id) grants of
              None \<Rightarrow> Raise SyntheticPaymentError ''Synthetic capability is no longer installed''
            | Some g \<Rightarrow> (case require_executable grants synthetic_capability_id (cg_grant_id g) now of
                Inl e \<Rightarrow> if is_value_error e
                  then Raise SyntheticPaymentError ''Synthetic requester authorization is no longer executable''
                  else Inl e
              | Inr _ \<Rightarrow> Ok ()))))))"

definition current_bindings :: "synthetic_env \<Rightarrow> challenge \<Rightarrow> payment_record \<Rightarrow> unit res" where
  "current_bindings env c r =
     res_bind (record_observation env r) (\<lambda>observation.
     res_bind (action_fingerprint (tc_task_id (ch_contract c)) (ai_step_id (ch_intent c)) (synthetic_action_payload r)
       observation (sv_secret env)) (\<lambda>fingerprint.
     if observation \<noteq> ch_observation_hash c \<or> fingerprint \<noteq> ai_action_fingerprint (ch_intent c)
     then Raise SyntheticPaymentError ''Synthetic payment changed after authorization; replan is required'' else Ok ()))"

text \<open>The contract, the plan with its single step, the work order and the intent of a prepared challenge.\<close>

definition synthetic_contract ::
  "string \<Rightarrow> string \<Rightarrow> user_context \<Rightarrow> capability_data_scope \<Rightarrow> capability_grant \<Rightarrow> time \<Rightarrow> task_contract" where
  "synthetic_contract contract_id task_id requester scope grant now =
     \<lparr>tc_contract_id = contract_id, tc_task_id = task_id, tc_organization_id = synthetic_tenant,
      tc_initiator_id = Some (uc_user_id requester), tc_service_principal_id = None,
      tc_department_id = Some payments_department, tc_business_line_id = Some treasury_line,
      tc_goal = ''Submit one synthetic payment after independent approval'',
      tc_allowed_operations = {synthetic_capability_id}, tc_data_scope = scope_dump scope,
      tc_authorization_snapshot = [(''grant_id'', JStr (cg_grant_id grant)),
        (''grant_expires_at'', JTime (cg_expires_at grant)), (''principal_id'', JStr (uc_user_id requester)),
        (''tenant_id'', JStr synthetic_tenant), (''pack_id'', JStr synthetic_pack_id)],
      tc_policy_profile = synthetic_pack_id, tc_policy_version = synthetic_policy_version,
      tc_success_criteria = [''Canonical result probe confirms the submitted payment''],
      tc_expires_at = Some (now + seconds 900), tc_version = 1, tc_mode = GMode_ENFORCE\<rparr>"

definition synthetic_plan_step :: "string \<Rightarrow> capability_grant \<Rightarrow> task_contract \<Rightarrow> payment_facts \<Rightarrow> business_plan_step" where
  "synthetic_plan_step step_id grant contract facts =
     \<lparr>bs_step_id = step_id, bs_capability_id = synthetic_capability_id, bs_capability_version = None,
      bs_grant_id = cg_grant_id grant, bs_contract_id = tc_contract_id contract, bs_inputs = facts_dump facts,
      bs_expected_transition = [(''from'', JStr ''draft''), (''to'', JStr ''submitted''),
        (''version'', JInt (pf_object_version facts + 1))],
      bs_success_criteria = tc_success_criteria contract\<rparr>"

definition synthetic_plan :: "string \<Rightarrow> task_contract \<Rightarrow> capability_data_scope \<Rightarrow> business_plan_step \<Rightarrow> business_plan" where
  "synthetic_plan plan_id contract scope step =
     \<lparr>bp_plan_id = plan_id, bp_request_id = None, bp_task_id = tc_task_id contract,
      bp_contract_id = tc_contract_id contract, bp_data_scope = scope, bp_version = 1, bp_replan_reason = None,
      bp_steps = [step]\<rparr>"

definition synthetic_work_order :: "string \<Rightarrow> task_contract \<Rightarrow> business_plan_step \<Rightarrow> execution_work_order" where
  "synthetic_work_order order_id contract step =
     \<lparr>wo_work_order_id = order_id, wo_business_plan_step_id = bs_step_id step, wo_task_id = tc_task_id contract,
      wo_contract_id = tc_contract_id contract, wo_plan_task_id = None, wo_authority_contract_id = None,
      wo_grant_id = bs_grant_id step, wo_navigation_goal = ''Submit only the declared synthetic payment draft'',
      wo_allowed_operations = {''read'', ''input'', synthetic_capability_id},
      wo_prohibited_operations = {''delete'', ''change_beneficiary_after_approval''},
      wo_success_criteria = tc_success_criteria contract,
      wo_required_evidence = [''canonical_payment_version'', ''approval'', ''result_probe''],
      wo_max_recovery_level = L1, wo_result_probe_ref = synthetic_probe_ref\<rparr>"

definition synthetic_intent ::
  "string \<Rightarrow> task_contract \<Rightarrow> string \<Rightarrow> string \<Rightarrow> string \<Rightarrow> payment_record \<Rightarrow> action_intent" where
  "synthetic_intent intent_id contract step_id fingerprint observation r =
     \<lparr>ai_intent_id = intent_id, ai_task_id = tc_task_id contract, ai_step_id = step_id,
      ai_action_fingerprint = fingerprint, ai_observation_id = observation, ai_operation = synthetic_capability_id,
      ai_effect = EXTERNAL_WRITE, ai_target = [(''payment_id'', JStr (pf_payment_id (pr_facts r)))],
      ai_sensitive_data_types = {},
      ai_extracted_facts = [(''object_version'', JInt (pf_object_version (pr_facts r))),
        (''status'', JStr (payment_status_value (pr_status r)))],
      ai_confidence = 1, ai_evidence = [''trusted synthetic canonical state''],
      ai_expected_outcome = [(''status'', JStr ''submitted''), (''object_version'', JInt (pf_object_version (pr_facts r) + 1))]\<rparr>"

definition prepare_submission :: "synthetic_env \<Rightarrow> user_context \<Rightarrow> payment_facts \<Rightarrow> (harness_state, challenge) prog" where
  "prepare_submission env requester facts =
     (let scope = synthetic_scope (pf_payment_id facts) in
      prog_bind (now_of env) (\<lambda>now.
      prog_bind (lift_res (require_synthetic_operator requester)) (\<lambda>_.
      prog_bind (current_grants env requester (pf_payment_id facts) now) (\<lambda>grants.
      prog_bind (lift_res (case grants of [] \<Rightarrow> Raise IndexError ''list index out of range'' | g # _ \<Rightarrow> Ok g)) (\<lambda>grant.
      prog_bind (lift_res (require_executable grants synthetic_capability_id (cg_grant_id grant) now)) (\<lambda>_.
      prog_bind (on_payments (create_draft facts (uc_user_id requester))) (\<lambda>r.
      prog_bind (new_id env ''synthetic_task_'') (\<lambda>task_id.
      prog_bind (new_id env ''synthetic_step_'') (\<lambda>step_id.
      prog_bind (new_id env ''synthetic_contract_'') (\<lambda>contract_id.
      prog_bind (new_id env ''bpstep_'') (\<lambda>plan_step_id.
      prog_bind (new_id env ''businessplan_'') (\<lambda>plan_id.
      (let contract = synthetic_contract contract_id task_id requester scope grant now;
           step = synthetic_plan_step plan_step_id grant contract facts;
           plan = synthetic_plan plan_id contract scope step in
      prog_bind (lift_res (validate_business_plan plan grants now)) (\<lambda>_.
      prog_bind (new_id env ''workorder_'') (\<lambda>order_id.
      (let order = synthetic_work_order order_id contract step in
      prog_bind (lift_res (validate_work_order order plan step grants now)) (\<lambda>_.
      prog_bind (lift_res (record_observation env r)) (\<lambda>observation.
      prog_bind (lift_res (action_fingerprint task_id step_id (synthetic_action_payload r) observation (sv_secret env))) (\<lambda>fingerprint.
      prog_bind (new_id env ''synthetic_intent_'') (\<lambda>intent_id.
      (let intent = synthetic_intent intent_id contract step_id fingerprint observation r in
      prog_bind (new_id env []) (\<lambda>hex.
      prog_bind (new_id env ''synthetic_challenge_'') (\<lambda>challenge_id.
      (let c = \<lparr>ch_challenge_id = challenge_id, ch_state = Challenge_PENDING_APPROVAL, ch_facts = facts,
               ch_requester_user_id = uc_user_id requester, ch_contract = contract, ch_plan = plan,
               ch_work_order = order, ch_intent = intent, ch_observation_hash = observation,
               ch_decision = require_approval_decision hex intent facts, ch_approval = None, ch_permit = None,
               ch_attempt = None, ch_result_probe = None\<rparr> in
      prog_bind (put_challenge c) (\<lambda>_.
      prog_bind (audit_challenge env c ''approval_requested''
        [(''risk_level'', JStr (risk_value (pd_risk_level (ch_decision c))))]) (\<lambda>_.
      lift_res (Ok c)))))))))))))))))))))))))))"

text \<open>\<open>except SyntheticPaymentError: challenge.state = INVALIDATED; audit; raise\<close>\<close>

definition invalidating :: "synthetic_env \<Rightarrow> challenge \<Rightarrow> (harness_state, unit) prog \<Rightarrow> (harness_state, unit) prog" where
  "invalidating env c m = trying m
     (\<lambda>e. if is_payment_error e
        then (let c' = c\<lparr>ch_state := Challenge_INVALIDATED\<rparr> in
          prog_bind (put_challenge c') (\<lambda>_.
          prog_bind (audit_challenge env c' ''authorization_invalidated'' []) (\<lambda>_. lift_res (Inl e))))
        else lift_res (Inl e))
     (\<lambda>_. lift_res (Ok ()))"

definition payment_now :: "challenge \<Rightarrow> (harness_state, payment_record) prog" where
  "payment_now c = lift_read (\<lambda>s. require_payment (pf_payment_id (ch_facts c)) (hs_store s))"

definition decide_approval ::
  "synthetic_env \<Rightarrow> string \<Rightarrow> user_context \<Rightarrow> user_context \<Rightarrow> bool \<Rightarrow> (harness_state, challenge) prog" where
  "decide_approval env challenge_id requester approver approved =
     prog_bind (lift_read (require_challenge challenge_id)) (\<lambda>c.
     prog_bind (lift_res (checks
       [(ch_state c \<noteq> Challenge_PENDING_APPROVAL,
         Exc SyntheticPaymentError ''Synthetic challenge is not awaiting approval''),
        (uc_user_id requester \<noteq> ch_requester_user_id c,
         Exc SyntheticPaymentError ''Requester identity does not match the challenge snapshot'')] (Ok ()))) (\<lambda>_.
     if \<not> approved
     then (let c' = c\<lparr>ch_state := Challenge_REJECTED\<rparr> in
       prog_bind (put_challenge c') (\<lambda>_.
       prog_bind (audit_challenge env c' ''approval_rejected'' []) (\<lambda>_. lift_res (Ok c'))))
     else
       prog_bind (now_of env) (\<lambda>now.
       prog_bind (invalidating env c
         (prog_bind (current_authorization env c now (Some requester)) (\<lambda>_.
          prog_bind (payment_now c) (\<lambda>r. lift_res (current_bindings env c r))))) (\<lambda>_.
       prog_bind (new_id env []) (\<lambda>hex.
       prog_bind (lift_res (authorize_after_approval hex (ch_intent c) (ch_facts c) requester approver)) (\<lambda>decision.
       prog_bind (new_id env ''synthetic_approval_'') (\<lambda>approval_id.
       prog_bind (new_id env ''synthetic_permit_'') (\<lambda>permit_id.
       (let c' = c\<lparr>ch_approval := Some \<lparr>sa_approval_id = approval_id, sa_requester_user_id = uc_user_id requester,
                  sa_approver_user_id = uc_user_id approver, sa_approved_at = now\<rparr>,
                ch_decision := decision,
                ch_permit := Some \<lparr>ep_permit_id = permit_id, ep_task_id = tc_task_id (ch_contract c),
                  ep_step_id = ai_step_id (ch_intent c), ep_action_fingerprint = ai_action_fingerprint (ch_intent c),
                  ep_observation_id = ch_observation_hash c, ep_policy_decision_id = pd_decision_id decision,
                  ep_issued_at = now, ep_expires_at = now + seconds 60, ep_used_at = None\<rparr>,
                ch_state := Challenge_READY\<rparr> in
       prog_bind (put_challenge c') (\<lambda>_.
       prog_bind (audit_challenge env c' ''permit_issued'' []) (\<lambda>_. lift_res (Ok c'))))))))))))"

fun finish_status :: "challenge_state \<Rightarrow> attempt_status option" where
  "finish_status Challenge_CONFIRMED = Some CONFIRMED"
| "finish_status Challenge_FAILED = Some FAILED"
| "finish_status Challenge_UNKNOWN = Some UNKNOWN"
| "finish_status _ = None"

text \<open>\<open>_finish\<close>\<close>

definition finish_challenge ::
  "synthetic_env \<Rightarrow> challenge \<Rightarrow> challenge_state \<Rightarrow> probe_evidence \<Rightarrow> string option \<Rightarrow> (harness_state, challenge) prog" where
  "finish_challenge env c state evidence error_message =
     (case (ch_attempt c, finish_status state) of
        (None, _) \<Rightarrow> lift_res (Raise SyntheticPaymentError ''Synthetic attempt is missing'')
      | (Some _, None) \<Rightarrow> lift_res (Raise KeyError [])
      | (Some attempt, Some status) \<Rightarrow>
          prog_bind (put_challenge (c\<lparr>ch_state := state, ch_result_probe := Some evidence\<rparr>)) (\<lambda>_.
          prog_bind (now_of env) (\<lambda>completed.
          (let c' = c\<lparr>ch_state := state, ch_result_probe := Some evidence,
                 ch_attempt := Some (attempt\<lparr>xa_status := status, xa_completed_at := Some completed,
                   xa_result_probe := Some (evidence_dump evidence), xa_error_message := error_message\<rparr>)\<rparr> in
           prog_bind (put_challenge c') (\<lambda>_.
           prog_bind (audit_challenge env c' (''attempt_'' @ challenge_state_value state) []) (\<lambda>_. lift_res (Ok c')))))))"

definition probe_challenge :: "synthetic_env \<Rightarrow> challenge \<Rightarrow> string \<Rightarrow> (harness_state, probe_evidence) prog" where
  "probe_challenge env c key =
     prog_bind (now_of env) (\<lambda>checked_at. lift_read (\<lambda>s. Ok (probe_payment checked_at (pf_payment_id (ch_facts c)) key (hs_store s))))"

definition submission_key :: "challenge \<Rightarrow> string" where
  "submission_key c = ''synthetic:'' @ ch_challenge_id c"

text \<open>What follows the submission, by how it ended.\<close>

definition settle_submission ::
  "synthetic_env \<Rightarrow> challenge \<Rightarrow> payment_record res \<Rightarrow> (harness_state, challenge) prog" where
  "settle_submission env c outcome =
     (let probed = (\<lambda>text. prog_bind (probe_challenge env c (submission_key c)) (\<lambda>evidence.
        finish_challenge env c
          (if pe_status evidence = probe_status.Probe_CONFIRMED then Challenge_CONFIRMED else Challenge_UNKNOWN)
          evidence text))
      in case outcome of
        Inr _ \<Rightarrow> probed None
      | Inl e \<Rightarrow>
          if exc_of e = DefiniteSubmissionFailure
          then prog_bind (probe_challenge env c (submission_key c)) (\<lambda>evidence.
            finish_challenge env c Challenge_FAILED evidence (Some (message e)))
          else if exc_of e = AmbiguousSubmissionFailure then probed (Some (message e))
          else lift_res (Inl e))"

definition execute_submission :: "synthetic_env \<Rightarrow> string \<Rightarrow> fault_mode \<Rightarrow> (harness_state, challenge) prog" where
  "execute_submission env challenge_id fault =
     prog_bind (lift_read (require_challenge challenge_id)) (\<lambda>c.
     case (ch_state c, ch_permit c, ch_approval c) of
       (Challenge_READY, Some permit, Some approval) \<Rightarrow>
         prog_bind (now_of env) (\<lambda>now.
         prog_bind (payment_now c) (\<lambda>current.
         prog_bind (invalidating env c
           (prog_bind (current_authorization env c now None) (\<lambda>_. lift_res (current_bindings env c current)))) (\<lambda>_.
         if \<not> permit_matches permit (ai_action_fingerprint (ch_intent c)) (ch_observation_hash c) now
         then (let c' = c\<lparr>ch_state := Challenge_INVALIDATED\<rparr> in
           prog_bind (put_challenge c') (\<lambda>_.
           prog_bind (audit_challenge env c' ''permit_rejected'' []) (\<lambda>_.
           lift_res (Raise SyntheticPaymentError ''Synthetic permit is expired, consumed, or binding-mismatched''))))
         else
           prog_bind (new_id env ''synthetic_attempt_'') (\<lambda>attempt_id.
           (let c' = c\<lparr>ch_permit := Some (permit\<lparr>ep_used_at := Some now\<rparr>),
                  ch_attempt := Some \<lparr>xa_attempt_id = attempt_id, xa_task_id = tc_task_id (ch_contract c),
                    xa_step_id = ai_step_id (ch_intent c), xa_contract_id = tc_contract_id (ch_contract c),
                    xa_permit_id = None, xa_action_fingerprint = ai_action_fingerprint (ch_intent c),
                    xa_observation_hash = ch_observation_hash c, xa_idempotency_key = submission_key c,
                    xa_idempotency_key_digest = None, xa_execution_effect = None, xa_result_probe_ref = None,
                    xa_status = EXECUTING, xa_started_at = Some now, xa_completed_at = None,
                    xa_result_probe = None, xa_error_message = None\<rparr>\<rparr> in
           prog_bind (put_challenge c') (\<lambda>_.
           prog_bind (audit_challenge env c' ''attempt_executing'' []) (\<lambda>_.
           prog_bind (trying (on_payments (submit_payment (pf_payment_id (ch_facts c)) (pf_object_version (ch_facts c))
               (sa_approval_id approval) (submission_key c) fault)) (\<lambda>e. lift_res (Ok (Inl e))) (\<lambda>r. lift_res (Ok (Inr r)))) (\<lambda>outcome.
           settle_submission env c' outcome))))))))
     | _ \<Rightarrow> lift_res (Raise SyntheticPaymentError ''Synthetic challenge has no executable approval and permit''))"

definition resolve_unknown :: "synthetic_env \<Rightarrow> string \<Rightarrow> (harness_state, challenge) prog" where
  "resolve_unknown env challenge_id =
     prog_bind (lift_read (require_challenge challenge_id)) (\<lambda>c.
     case (ch_state c, ch_attempt c) of
       (Challenge_UNKNOWN, Some attempt) \<Rightarrow>
         prog_bind (probe_challenge env c (xa_idempotency_key attempt)) (\<lambda>evidence.
         case pe_status evidence of
           probe_status.Probe_CONFIRMED \<Rightarrow> finish_challenge env c Challenge_CONFIRMED evidence None
         | probe_status.Probe_NOT_CONFIRMED \<Rightarrow> finish_challenge env c Challenge_FAILED evidence
             (Some ''Result probe confirmed no submission'')
         | probe_status.Probe_UNKNOWN \<Rightarrow>
             (let c' = c\<lparr>ch_result_probe := Some evidence\<rparr> in
              prog_bind (put_challenge c') (\<lambda>_.
              prog_bind (audit_challenge env c' ''result_still_unknown'' []) (\<lambda>_. lift_res (Ok c')))))
     | _ \<Rightarrow> lift_res (Raise SyntheticPaymentError ''Only an unknown synthetic attempt can be probed''))"

definition get_challenge :: "string \<Rightarrow> (harness_state, challenge) prog" where
  "get_challenge challenge_id = lift_read (require_challenge challenge_id)"

end
