(* ===== verification/PaymentLaws.thy ===== *)
theory PaymentLaws
  imports SyntheticPay
begin

text \<open>
  What the payment harness guarantees over every sequence of its operations: a payment is committed at
  most once, only for an approved challenge, and the state of a challenge tells the truth about it. The
  proofs run the operations with a postcondition for the normal exit and the invariant for the others.
\<close>

section \<open>Running a program with an exceptional postcondition\<close>

definition leads :: "('s \<Rightarrow> bool) \<Rightarrow> ('s \<Rightarrow> bool) \<Rightarrow> ('s, 'a) prog \<Rightarrow> ('a \<Rightarrow> 's \<Rightarrow> bool) \<Rightarrow> bool" where
  "leads I P m Q = (\<forall>s r t. m s = (r, t) \<longrightarrow> P s \<longrightarrow> (case r of Inl e \<Rightarrow> I t | Inr x \<Rightarrow> Q x t))"

lemma leadsI: "(\<And>s r t. m s = (r, t) \<Longrightarrow> P s \<Longrightarrow> (case r of Inl e \<Rightarrow> I t | Inr x \<Rightarrow> Q x t)) \<Longrightarrow> leads I P m Q"
  unfolding leads_def by blast

lemma leadsD: "leads I P m Q \<Longrightarrow> m s = (r, t) \<Longrightarrow> P s \<Longrightarrow> (case r of Inl e \<Rightarrow> I t | Inr x \<Rightarrow> Q x t)"
  unfolding leads_def by blast

lemma leads_bind:
  assumes "leads I P m Q" and "\<And>x. leads I (Q x) (f x) R"
  shows "leads I P (prog_bind m f) R"
proof (rule leadsI)
  fix s r u assume "prog_bind m f s = (r, u)" and s: "P s"
  then show "case r of Inl e \<Rightarrow> I u | Inr x \<Rightarrow> R x u"
  proof (cases rule: prog_bind_cases)
    case (raised e)
    with leadsD [OF assms(1) raised(1) s] show ?thesis by simp
  next
    case (returned x t)
    from leadsD [OF assms(1) returned(1) s] have "Q x t" by simp
    from leadsD [OF assms(2) returned(2) this] show ?thesis .
  qed
qed

lemma leads_lift: "(\<And>s. P s \<Longrightarrow> I s) \<Longrightarrow> leads I P (lift_res r) (\<lambda>x s. P s \<and> r = Ok x)"
  by (auto simp: leads_def lift_res_def split: sum.split)

lemma leads_read: "(\<And>s. P s \<Longrightarrow> I s) \<Longrightarrow> leads I P (lift_read f) (\<lambda>x s. P s \<and> f s = Ok x)"
  by (auto simp: leads_def lift_read_def split: sum.split)

lemma leads_return: "(\<And>s. P s \<Longrightarrow> Q x s) \<Longrightarrow> leads I P (lift_res (Ok x)) Q"
  by (auto simp: leads_def lift_res_def)

lemma leads_raise: "(\<And>s. P s \<Longrightarrow> I s) \<Longrightarrow> leads I P (lift_res (Inl e)) Q"
  by (auto simp: leads_def lift_res_def)

lemma leads_pre: "leads I P m Q \<Longrightarrow> (\<And>s. P' s \<Longrightarrow> P s) \<Longrightarrow> leads I P' m Q"
  unfolding leads_def by blast

lemma leads_post: "leads I P m Q \<Longrightarrow> (\<And>x s. Q x s \<Longrightarrow> Q' x s) \<Longrightarrow> leads I P m Q'"
  unfolding leads_def by (fastforce split: sum.splits)

section \<open>Steps that leave payments and challenges alone\<close>

definition calm :: "harness_state \<Rightarrow> harness_state \<Rightarrow> bool" where
  "calm s t = (hs_store t = hs_store s \<and> hs_challenges t = hs_challenges s \<and> hs_ids s \<le> hs_ids t)"

lemma calm_trans: "transp calm"
  by (auto simp: transp_def calm_def)

lemma calm_bind: "guarantees calm m \<Longrightarrow> (\<And>x. guarantees calm (f x)) \<Longrightarrow> guarantees calm (prog_bind m f)"
  by (rule guarantees_bind [OF calm_trans])

lemma calm_free [simp]:
  "guarantees calm (lift_res r)" "guarantees calm (lift_read g)" "guarantees calm (now_of env)"
  "guarantees calm (new_id env p)" "guarantees calm (current_grants env u i now)"
  "guarantees calm (probe_challenge env c key)"
  by (simp_all add: guarantees_def calm_def lift_res_def lift_read_def now_of_def new_id_def current_grants_def
      probe_challenge_def prog_bind_def)

lemma calm_audit [simp]: "guarantees calm (audit_challenge env c ev md)"
  by (simp add: guarantees_def calm_def audit_challenge_def prog_bind_def now_of_def)

lemma calm_authorization [simp]: "guarantees calm (current_authorization env c now u)"
  by (auto simp: current_authorization_def Let_def intro!: calm_bind split: option.split)

definition stable :: "(harness_state \<Rightarrow> bool) \<Rightarrow> bool" where
  "stable P = (\<forall>s t. calm s t \<longrightarrow> P s \<longrightarrow> P t)"

lemma leads_calm: "guarantees calm m \<Longrightarrow> stable P \<Longrightarrow> (\<And>s. P s \<Longrightarrow> I s) \<Longrightarrow> leads I P m (\<lambda>_. P)"
  by (rule leadsI) (auto simp: stable_def dest: guaranteesD split: sum.split)

lemma leads_after_calm:
  "guarantees calm m \<Longrightarrow> stable P \<Longrightarrow> (\<And>s. P s \<Longrightarrow> I s) \<Longrightarrow> (\<And>x. leads I P (f x) R) \<Longrightarrow> leads I P (prog_bind m f) R"
  by (rule leads_bind [OF leads_calm])

section \<open>The invariant\<close>

text \<open>An approval by somebody else than the requester.\<close>

definition independently_approved :: "challenge \<Rightarrow> bool" where
  "independently_approved c = (\<exists>a p. ch_approval c = Some a \<and> ch_permit c = Some p \<and>
     sa_requester_user_id a = ch_requester_user_id c \<and> sa_approver_user_id a \<noteq> ch_requester_user_id c)"

definition untouched :: "challenge \<Rightarrow> payment_record \<Rightarrow> bool" where
  "untouched c r = (pr_status r = Payment_DRAFT \<and> pr_idempotency_key r = None \<and> pr_commit_count r = 0 \<and>
     pr_facts r = ch_facts c)"

definition committed_for :: "challenge \<Rightarrow> payment_record \<Rightarrow> bool" where
  "committed_for c r = (pr_status r = Payment_SUBMITTED \<and> pr_idempotency_key r = Some (submission_key c) \<and>
     pr_commit_count r = 1 \<and> pr_facts r = (ch_facts c)\<lparr>pf_object_version := pf_object_version (ch_facts c) + 1\<rparr> \<and>
     independently_approved c \<and> pr_approval_id r = map_option sa_approval_id (ch_approval c) \<and>
     (\<exists>p. ch_permit c = Some p \<and> ep_used_at p \<noteq> None) \<and>
     (\<exists>x. ch_attempt c = Some x \<and> xa_idempotency_key x = submission_key c))"

definition truthful :: "payment_store \<Rightarrow> challenge \<Rightarrow> bool" where
  "truthful st c = (\<exists>r. ps_records st (pf_payment_id (ch_facts c)) = Some r \<and>
     pr_requester_user_id r = ch_requester_user_id c \<and>
     (if ch_state c \<in> {Challenge_CONFIRMED, Challenge_UNKNOWN} then committed_for c r
      else untouched c r \<and> (ch_state c = Challenge_READY \<longrightarrow> independently_approved c)))"

definition harness_inv :: "synthetic_env \<Rightarrow> harness_state \<Rightarrow> bool" where
  "harness_inv env s =
     ((\<forall>i c. hs_challenges s i = Some c \<longrightarrow> ch_challenge_id c = i \<and> truthful (hs_store s) c \<and>
         (\<exists>k < hs_ids s. i = ''synthetic_challenge_'' @ sv_hex env k)) \<and>
      (\<forall>i j c d. hs_challenges s i = Some c \<longrightarrow> hs_challenges s j = Some d \<longrightarrow>
         pf_payment_id (ch_facts c) = pf_payment_id (ch_facts d) \<longrightarrow> i = j) \<and>
      (\<forall>p r. ps_records (hs_store s) p = Some r \<longrightarrow>
         (pr_status r = Payment_DRAFT \<and> pr_commit_count r = 0) \<or>
         (\<exists>i c. hs_challenges s i = Some c \<and> pf_payment_id (ch_facts c) = p \<and>
            ch_state c \<in> {Challenge_CONFIRMED, Challenge_UNKNOWN})))"

lemma inv_stable: "stable (harness_inv env)"
proof -
  have "harness_inv env t" if "calm s t" "harness_inv env s" for s t
  proof -
    from that(1) have t: "hs_store t = hs_store s" "hs_challenges t = hs_challenges s" "hs_ids s \<le> hs_ids t"
      by (simp_all add: calm_def)
    from that(2) t(3) show ?thesis unfolding harness_inv_def t(1,2) by (meson order.strict_trans2)
  qed
  then show ?thesis by (simp add: stable_def)
qed

text \<open>Replacing a challenge by one of the same payment that is truthful about the same store.\<close>

lemma inv_put:
  assumes "harness_inv env s" and "hs_challenges s (ch_challenge_id c') = Some c"
    and "pf_payment_id (ch_facts c') = pf_payment_id (ch_facts c)"
    and "truthful (hs_store s) c'"
    and "ch_state c \<in> {Challenge_CONFIRMED, Challenge_UNKNOWN} \<longrightarrow> ch_state c' \<in> {Challenge_CONFIRMED, Challenge_UNKNOWN}"
  shows "harness_inv env (s\<lparr>hs_challenges := (hs_challenges s)(ch_challenge_id c' \<mapsto> c')\<rparr>)"
proof -
  let ?m = "(hs_challenges s)(ch_challenge_id c' \<mapsto> c')"
  have one: "ch_challenge_id d = i \<and> truthful (hs_store s) d \<and> (\<exists>k < hs_ids s. i = ''synthetic_challenge_'' @ sv_hex env k)"
    if "?m i = Some d" for i d
    using that assms(1,2,4) unfolding harness_inv_def by (auto split: if_splits)
  have two: "i = j" if "?m i = Some d" "?m j = Some d'" "pf_payment_id (ch_facts d) = pf_payment_id (ch_facts d')" for i j d d'
    using that assms(1-3) unfolding harness_inv_def by (auto split: if_splits)
  have three: "(pr_status r = Payment_DRAFT \<and> pr_commit_count r = 0) \<or>
      (\<exists>i d. ?m i = Some d \<and> pf_payment_id (ch_facts d) = p \<and> ch_state d \<in> {Challenge_CONFIRMED, Challenge_UNKNOWN})"
    if r: "ps_records (hs_store s) p = Some r" for p r
  proof (cases "pr_status r = Payment_DRAFT \<and> pr_commit_count r = 0")
    case False
    with assms(1) r obtain i d where d: "hs_challenges s i = Some d" "pf_payment_id (ch_facts d) = p"
        "ch_state d \<in> {Challenge_CONFIRMED, Challenge_UNKNOWN}" unfolding harness_inv_def by blast
    show ?thesis
    proof (cases "i = ch_challenge_id c'")
      case True
      with d assms(2,3,5) have "?m i = Some c'" "pf_payment_id (ch_facts c') = p"
          "ch_state c' \<in> {Challenge_CONFIRMED, Challenge_UNKNOWN}" by simp_all
      then show ?thesis by blast
    next
      case False
      with d have "?m i = Some d" by simp
      with d show ?thesis by blast
    qed
  qed simp
  from one two three show ?thesis unfolding harness_inv_def by (simp del: fun_upd_apply)
qed

section \<open>Preparing\<close>

definition drafted :: "synthetic_env \<Rightarrow> payment_facts \<Rightarrow> string \<Rightarrow> harness_state \<Rightarrow> bool" where
  "drafted env facts user s =
     (harness_inv env s \<and> (\<forall>i c. hs_challenges s i = Some c \<longrightarrow> pf_payment_id (ch_facts c) \<noteq> pf_payment_id facts) \<and>
      (\<exists>r. ps_records (hs_store s) (pf_payment_id facts) = Some r \<and> pr_requester_user_id r = user \<and>
         pr_status r = Payment_DRAFT \<and> pr_idempotency_key r = None \<and> pr_commit_count r = 0 \<and> pr_facts r = facts))"

lemma drafted_stable: "stable (drafted env facts user)"
proof -
  have "drafted env facts user t" if "calm s t" "drafted env facts user s" for s t
  proof -
    from that(1) have t: "hs_store t = hs_store s" "hs_challenges t = hs_challenges s" by (simp_all add: calm_def)
    from that inv_stable have "harness_inv env t" unfolding stable_def drafted_def by blast
    with that(2) show ?thesis unfolding drafted_def t by blast
  qed
  then show ?thesis by (simp add: stable_def)
qed

lemma create_draft_leads:
  "leads (harness_inv env) (harness_inv env) (on_payments (create_draft facts user)) (\<lambda>_. drafted env facts user)"
proof (rule leadsI)
  fix s r t assume run: "on_payments (create_draft facts user) s = (r, t)" and inv: "harness_inv env s"
  let ?r = "\<lparr>pr_facts = facts, pr_status = Payment_DRAFT, pr_requester_user_id = user,
                pr_approval_id = None, pr_idempotency_key = None, pr_confirmation_reference = None, pr_commit_count = 0\<rparr>"
  show "case r of Inl e \<Rightarrow> harness_inv env t | Inr x \<Rightarrow> drafted env facts user t"
  proof (cases "ps_records (hs_store s) (pf_payment_id facts)")
    case None
    with run have t: "t = s\<lparr>hs_store := (hs_store s)\<lparr>ps_records := (ps_records (hs_store s))(pf_payment_id facts \<mapsto> ?r)\<rparr>\<rparr>" "r = Ok ?r"
      by (auto simp: on_payments_def create_draft_def Let_def)
    have none: "pf_payment_id (ch_facts c) \<noteq> pf_payment_id facts" if "hs_challenges s i = Some c" for i c
      using inv that None unfolding harness_inv_def truthful_def by fastforce
    have one: "ch_challenge_id c = i \<and> truthful (hs_store t) c \<and> (\<exists>k < hs_ids t. i = ''synthetic_challenge_'' @ sv_hex env k)"
      if "hs_challenges t i = Some c" for i c
    proof -
      from that have c: "hs_challenges s i = Some c" by (simp add: t(1))
      have "truthful (hs_store t) c = truthful (hs_store s) c" using none [OF c] by (simp add: truthful_def t(1))
      with inv c show ?thesis unfolding harness_inv_def by (simp add: t(1))
    qed
    have "harness_inv env t"
      using one inv unfolding harness_inv_def by (auto simp: t(1))
    with none show ?thesis by (auto simp: t drafted_def)
  next
    case (Some r0)
    with run inv show ?thesis by (auto simp: on_payments_def create_draft_def)
  qed
qed

text \<open>A fresh identifier and the challenge that gets it.\<close>

lemma put_new_leads:
  assumes "inj (sv_hex env)" and "\<And>i. ch_challenge_id (mk i) = i" and "\<And>i. ch_facts (mk i) = facts"
    and "\<And>i. ch_requester_user_id (mk i) = user" and "\<And>i. ch_state (mk i) = Challenge_PENDING_APPROVAL"
  shows "leads (harness_inv env) (drafted env facts user)
     (prog_bind (new_id env ''synthetic_challenge_'') (\<lambda>i. put_challenge (mk i))) (\<lambda>_. harness_inv env)"
proof (rule leadsI)
  fix s r t
  assume run: "prog_bind (new_id env ''synthetic_challenge_'') (\<lambda>i. put_challenge (mk i)) s = (r, t)"
    and draft: "drafted env facts user s"
  let ?i = "''synthetic_challenge_'' @ sv_hex env (hs_ids s)"
  from run have t: "r = Ok ()" "hs_store t = hs_store s" "hs_challenges t = (hs_challenges s)(?i \<mapsto> mk ?i)" "hs_ids t = hs_ids s + 1"
    by (auto simp: prog_bind_def new_id_def put_challenge_def assms(2))
  from draft have inv: "harness_inv env s" and none: "\<And>i c. hs_challenges s i = Some c \<Longrightarrow> pf_payment_id (ch_facts c) \<noteq> pf_payment_id facts"
    by (auto simp: drafted_def)
  have new: "truthful (hs_store s) (mk ?i)"
    using draft assms(3-5) by (auto simp: drafted_def truthful_def untouched_def)
  have fresh: "hs_challenges s ?i = None"
  proof (cases "hs_challenges s ?i")
    case (Some c)
    with inv obtain k where "k < hs_ids s" "?i = ''synthetic_challenge_'' @ sv_hex env k"
      unfolding harness_inv_def by blast
    with assms(1) show ?thesis by (simp add: inj_eq)
  qed
  have one: "ch_challenge_id c = i \<and> truthful (hs_store s) c \<and> (\<exists>k < hs_ids t. i = ''synthetic_challenge_'' @ sv_hex env k)"
    if "hs_challenges t i = Some c" for i c
  proof (cases "i = ?i")
    case True
    with that new assms(2) show ?thesis by (auto simp: t)
  next
    case False
    with that have "hs_challenges s i = Some c" by (simp add: t(3))
    with inv show ?thesis unfolding harness_inv_def t(4) by (meson less_add_one less_trans)
  qed
  have two: "i = j" if "hs_challenges t i = Some c" "hs_challenges t j = Some d"
      "pf_payment_id (ch_facts c) = pf_payment_id (ch_facts d)" for i j c d
  proof (cases "i = ?i"; cases "j = ?i")
    assume "i = ?i" "j = ?i"
    then show ?thesis by simp
  next
    assume ij: "i = ?i" "j \<noteq> ?i"
    with that(1,2) have "c = mk ?i" "hs_challenges s j = Some d" by (simp_all add: t(3))
    with none that(3) assms(3) show ?thesis by metis
  next
    assume ij: "i \<noteq> ?i" "j = ?i"
    with that(1,2) have "d = mk ?i" "hs_challenges s i = Some c" by (simp_all add: t(3))
    with none that(3) assms(3) show ?thesis by metis
  next
    assume "i \<noteq> ?i" "j \<noteq> ?i"
    with that(1,2) have "hs_challenges s i = Some c" "hs_challenges s j = Some d" by (simp_all add: t(3))
    with inv that(3) show ?thesis unfolding harness_inv_def by blast
  qed
  have three: "(pr_status p = Payment_DRAFT \<and> pr_commit_count p = 0) \<or>
      (\<exists>i c. hs_challenges t i = Some c \<and> pf_payment_id (ch_facts c) = k \<and> ch_state c \<in> {Challenge_CONFIRMED, Challenge_UNKNOWN})"
    if "ps_records (hs_store s) k = Some p" for k p
  proof (cases "pr_status p = Payment_DRAFT \<and> pr_commit_count p = 0")
    case False
    with inv that obtain i c where c: "hs_challenges s i = Some c" "pf_payment_id (ch_facts c) = k"
        "ch_state c \<in> {Challenge_CONFIRMED, Challenge_UNKNOWN}" unfolding harness_inv_def by blast
    with fresh have "i \<noteq> ?i" by auto
    with c(1) have "hs_challenges t i = Some c" by (simp add: t(3))
    with c show ?thesis by blast
  qed simp
  from one two three have "harness_inv env t" unfolding harness_inv_def t(2) by blast
  with t(1) show "case r of Inl e \<Rightarrow> harness_inv env t | Inr x \<Rightarrow> harness_inv env t" by simp
qed

lemmas inv_calm = leads_after_calm [OF _ inv_stable]
lemmas draft_calm = leads_after_calm [OF _ drafted_stable]

lemma leads_calm_return:
  "stable P \<Longrightarrow> (\<And>s. P s \<Longrightarrow> I s) \<Longrightarrow> leads I P (prog_bind (audit_challenge env c ev md) (\<lambda>_. lift_res (Ok x))) (\<lambda>_. P)"
  by (rule leads_after_calm) (simp_all add: leads_return)

lemma bind_assoc: "prog_bind (prog_bind m f) g = prog_bind m (\<lambda>x. prog_bind (f x) g)"
  by (rule ext) (simp add: prog_bind_def split: prod.split sum.split)

lemma prepare_keeps:
  assumes "inj (sv_hex env)"
  shows "leads (harness_inv env) (harness_inv env) (prepare_submission env user facts) (\<lambda>_. harness_inv env)"
proof -
  have put: "leads (harness_inv env) (drafted env facts u)
     (prog_bind (new_id env ''synthetic_challenge_'') (\<lambda>i. prog_bind (put_challenge (mk i)) (\<lambda>_.
        prog_bind (audit_challenge env (mk i) ev (md i)) (\<lambda>_. lift_res (Ok (mk i)))))) (\<lambda>_. harness_inv env)"
    if mk: "\<And>i. ch_challenge_id (mk i) = i" "\<And>i. ch_facts (mk i) = facts" "\<And>i. ch_requester_user_id (mk i) = u"
      "\<And>i. ch_state (mk i) = Challenge_PENDING_APPROVAL" for mk ev md u
  proof (rule leadsI)
    fix s r t
    let ?tail = "\<lambda>i. prog_bind (audit_challenge env (mk i) ev (md i)) (\<lambda>_. lift_res (Ok (mk i)))"
    assume run: "prog_bind (new_id env ''synthetic_challenge_'') (\<lambda>i. prog_bind (put_challenge (mk i)) (\<lambda>_. ?tail i)) s = (r, t)"
      and draft: "drafted env facts u s"
    obtain q v where first: "prog_bind (new_id env ''synthetic_challenge_'') (\<lambda>i. put_challenge (mk i)) s = (q, v)" by fastforce
    from leadsD [OF put_new_leads [OF assms mk] first draft] have v: "harness_inv env v" by (cases q) simp_all
    from run first obtain i where "?tail i v = (r, t)"
      by (auto simp: prog_bind_def new_id_def put_challenge_def)
    from leadsD [OF leads_calm_return [OF inv_stable, where I = "harness_inv env"] this v] show "case r of Inl e \<Rightarrow> harness_inv env t | Inr x \<Rightarrow> harness_inv env t"
      by simp
  qed
  have I: "drafted env facts u s \<Longrightarrow> harness_inv env s" for u s by (simp add: drafted_def)
  show ?thesis
    unfolding prepare_submission_def Let_def
    apply (rule inv_calm, simp, assumption)+
    apply (rule leads_bind [OF create_draft_leads])
    apply ((rule put; simp) | (rule draft_calm, simp, erule I))+
    done
qed


section \<open>Deciding\<close>

lemma leads_lift_bind:
  assumes "\<And>x. r = Ok x \<Longrightarrow> leads I P (f x) R" and "\<And>s. P s \<Longrightarrow> I s"
  shows "leads I P (prog_bind (lift_res r) f) R"
proof (rule leads_bind [OF leads_lift])
  fix x show "leads I (\<lambda>s. P s \<and> r = Ok x) (f x) R"
    by (cases "r = Ok x") (auto simp: leads_def dest: leadsD [OF assms(1)])
qed (rule assms(2))

text \<open>A challenge as it stands in the table.\<close>

definition holds :: "synthetic_env \<Rightarrow> challenge \<Rightarrow> harness_state \<Rightarrow> bool" where
  "holds env c s = (harness_inv env s \<and> hs_challenges s (ch_challenge_id c) = Some c)"

lemma holds_stable: "stable (holds env c)"
proof -
  have "holds env c t" if "calm s t" "holds env c s" for s t
    using that inv_stable unfolding stable_def holds_def by (metis calm_def)
  then show ?thesis by (simp add: stable_def)
qed

lemma holds_inv: "holds env c s \<Longrightarrow> harness_inv env s"
  by (simp add: holds_def)

lemma holds_truthful: "holds env c s \<Longrightarrow> truthful (hs_store s) c"
  unfolding holds_def harness_inv_def by blast

lemmas holds_calm = leads_after_calm [OF _ holds_stable]

lemma leads_find:
  assumes "\<And>c. leads (harness_inv env) (holds env c) (f c) R"
  shows "leads (harness_inv env) (harness_inv env) (prog_bind (lift_read (require_challenge i)) f) R"
proof (rule leads_bind [OF leads_read])
  fix c
  show "leads (harness_inv env) (\<lambda>s. harness_inv env s \<and> require_challenge i s = Ok c) (f c) R"
    by (rule leads_pre [OF assms])
      (auto simp: require_challenge_def holds_def harness_inv_def split: option.splits)
qed simp

text \<open>Replacing a challenge whose payment is untouched by another one of it.\<close>

lemma leads_put_open:
  assumes "ch_challenge_id c' = ch_challenge_id c" "ch_facts c' = ch_facts c" "ch_requester_user_id c' = ch_requester_user_id c"
    and "ch_state c \<notin> {Challenge_CONFIRMED, Challenge_UNKNOWN}" "ch_state c' \<notin> {Challenge_CONFIRMED, Challenge_UNKNOWN}"
    and "ch_state c' = Challenge_READY \<longrightarrow> independently_approved c'"
  shows "leads (harness_inv env) (holds env c) (put_challenge c') (\<lambda>_. holds env c')"
proof (rule leadsI)
  fix s r t assume run: "put_challenge c' s = (r, t)" and s: "holds env c s"
  then have t: "r = Ok ()" "t = s\<lparr>hs_challenges := (hs_challenges s)(ch_challenge_id c' \<mapsto> c')\<rparr>"
    by (auto simp: put_challenge_def)
  from s have found: "hs_challenges s (ch_challenge_id c') = Some c" and inv: "harness_inv env s"
    by (simp_all add: holds_def assms(1))
  then have "truthful (hs_store s) c" unfolding harness_inv_def by blast
  with assms have "truthful (hs_store s) c'" by (auto simp: truthful_def untouched_def)
  with inv_put [OF inv found] assms(2,4) have "harness_inv env t" unfolding t(2) by simp
  with t show "case r of Inl e \<Rightarrow> harness_inv env t | Inr x \<Rightarrow> holds env c' t" by (simp add: holds_def)
qed

lemma leads_invalidating:
  assumes "guarantees calm m" and "ch_state c \<notin> {Challenge_CONFIRMED, Challenge_UNKNOWN}"
  shows "leads (harness_inv env) (holds env c) (invalidating env c m) (\<lambda>_. holds env c)"
proof (rule leadsI)
  fix s r u assume run: "invalidating env c m s = (r, u)" and s: "holds env c s"
  let ?c = "c\<lparr>ch_state := Challenge_INVALIDATED\<rparr>"
  let ?handler = "\<lambda>e. if is_payment_error e
        then prog_bind (put_challenge ?c) (\<lambda>_.
          prog_bind (audit_challenge env ?c ''authorization_invalidated'' []) (\<lambda>_. lift_res (Inl e)))
        else lift_res (Inl e)"
  have handler: "leads (harness_inv env) (holds env c) (?handler e) (\<lambda>_. holds env c)" for e
    using assms(2)
    by (cases "is_payment_error e")
      (simp_all add: Let_def, (intro leads_bind [OF leads_put_open] holds_calm leads_raise; simp add: holds_inv), intro leads_raise holds_inv)
  from run have "trying m ?handler (\<lambda>_. lift_res (Ok ())) s = (r, u)" by (simp only: invalidating_def Let_def)
  then show "case r of Inl e \<Rightarrow> harness_inv env u | Inr x \<Rightarrow> holds env c u"
  proof (cases rule: trying_cases)
    case (raised e t)
    from guaranteesD [OF assms(1) raised(1)] holds_stable s have "holds env c t" unfolding stable_def by blast
    from leadsD [OF handler raised(2) this] show ?thesis .
  next
    case (returned x t)
    from guaranteesD [OF assms(1) returned(1)] holds_stable s have "holds env c t" unfolding stable_def by blast
    with returned(2) show ?thesis by (auto simp: lift_res_def)
  qed
qed

lemma leads_audited:
  "leads (harness_inv env) (holds env c') (prog_bind (audit_challenge env c' ev md) (\<lambda>_. lift_res (Ok c'))) (\<lambda>_. harness_inv env)"
  by (rule leads_post [OF leads_calm_return [OF holds_stable holds_inv]]) (simp_all add: holds_inv)

lemma authorized_apart:
  "authorize_after_approval hex intent facts requester approver = Ok d \<Longrightarrow> uc_user_id requester \<noteq> uc_user_id approver"
  by (auto simp: authorize_after_approval_def Let_def checks_ok)

lemma calm_payment [simp]: "guarantees calm (payment_now c)"
  by (simp add: payment_now_def)

lemma decide_keeps:
  "leads (harness_inv env) (harness_inv env) (decide_approval env i requester approver approved) (\<lambda>_. harness_inv env)"
  unfolding decide_approval_def Let_def
proof (rule leads_find, rule leads_lift_bind [OF _ holds_inv], goal_cases)
  case (1 c x)
  then have pending: "ch_state c = Challenge_PENDING_APPROVAL" and same: "uc_user_id requester = ch_requester_user_id c"
    unfolding checks_ok by auto
  have calm: "guarantees calm (prog_bind (current_authorization env c now (Some requester)) (\<lambda>_.
      prog_bind (payment_now c) (\<lambda>r. lift_res (current_bindings env c r))))" for now
    by (intro calm_bind) simp_all
  show ?case
  proof (cases approved)
    case False
    with pending show ?thesis
      by (simp, intro leads_bind [OF leads_put_open] leads_audited) simp_all
  next
    case True
    have put: "leads (harness_inv env) (holds env c) (prog_bind (put_challenge c') (\<lambda>_.
        prog_bind (audit_challenge env c' ev md) (\<lambda>_. lift_res (Ok c')))) (\<lambda>_. harness_inv env)"
      if "ch_challenge_id c' = ch_challenge_id c" "ch_facts c' = ch_facts c" "ch_requester_user_id c' = ch_requester_user_id c"
        "ch_state c' = Challenge_READY" "independently_approved c'" for c' ev md
      using that pending by (intro leads_bind [OF leads_put_open] leads_audited) simp_all
    show ?thesis
      apply (simp only: True not_True_eq_False if_False)
      apply (rule holds_calm, simp, erule holds_inv)
      apply (rule leads_bind [OF leads_invalidating [OF calm]], simp add: pending)
      apply (rule holds_calm, simp, erule holds_inv)
      apply (rule leads_lift_bind [OF _ holds_inv])
       apply (drule authorized_apart)
       apply (rule holds_calm, simp, erule holds_inv)
       apply (rule holds_calm, simp, erule holds_inv)
       apply (rule put; simp add: independently_approved_def same)
      apply assumption
      done
  qed
qed


section \<open>Executing\<close>

definition final_state :: "challenge_state \<Rightarrow> bool" where
  "final_state st = (st \<in> {Challenge_CONFIRMED, Challenge_UNKNOWN})"

text \<open>The payment of \<open>c\<close> has been committed and the challenge is not yet marked with it.\<close>

definition owed :: "synthetic_env \<Rightarrow> challenge \<Rightarrow> harness_state \<Rightarrow> bool" where
  "owed env c s = (\<exists>s0 r. holds env c s0 \<and> hs_challenges s = hs_challenges s0 \<and> hs_ids s0 \<le> hs_ids s \<and>
     ps_records (hs_store s) = (ps_records (hs_store s0))(pf_payment_id (ch_facts c) \<mapsto> r) \<and>
     pr_requester_user_id r = ch_requester_user_id c \<and> committed_for c r)"

lemma owed_calm: "calm s t \<Longrightarrow> owed env c s \<Longrightarrow> owed env c t"
  unfolding owed_def calm_def by (metis le_trans)

text \<open>What a finished challenge keeps of the one that was executed.\<close>

definition finishes :: "challenge \<Rightarrow> challenge \<Rightarrow> bool" where
  "finishes c c' = (ch_challenge_id c' = ch_challenge_id c \<and> ch_facts c' = ch_facts c \<and>
     ch_requester_user_id c' = ch_requester_user_id c \<and> ch_approval c' = ch_approval c \<and> ch_permit c' = ch_permit c \<and>
     map_option xa_idempotency_key (ch_attempt c') = map_option xa_idempotency_key (ch_attempt c))"

lemma committed_finishes: "finishes c c' \<Longrightarrow> committed_for c' r = committed_for c r"
proof -
  have key: "(\<exists>x. a = Some x \<and> xa_idempotency_key x = k) = (map_option xa_idempotency_key a = Some k)" for a k by auto
  show "finishes c c' \<Longrightarrow> committed_for c' r = committed_for c r"
    unfolding finishes_def committed_for_def independently_approved_def submission_key_def key by simp
qed

lemma finishes_trans: "finishes c d \<Longrightarrow> finishes d e \<Longrightarrow> finishes c e"
  by (simp add: finishes_def)

text \<open>The first write of the final state pays the debt.\<close>

lemma put_owed:
  assumes "finishes c c'" "final_state (ch_state c')" "owed env c s"
  shows "holds env c' (s\<lparr>hs_challenges := (hs_challenges s)(ch_challenge_id c' \<mapsto> c')\<rparr>)"
proof -
  let ?p = "pf_payment_id (ch_facts c)" and ?m = "(hs_challenges s)(ch_challenge_id c' \<mapsto> c')"
  let ?t = "s\<lparr>hs_challenges := ?m\<rparr>"
  from assms(3) obtain s0 r where s0: "holds env c s0" "hs_challenges s = hs_challenges s0" "hs_ids s0 \<le> hs_ids s"
      "ps_records (hs_store s) = (ps_records (hs_store s0))(?p \<mapsto> r)" "pr_requester_user_id r = ch_requester_user_id c"
      "committed_for c r"
    unfolding owed_def by blast
  from s0(1) have inv: "harness_inv env s0" and here: "hs_challenges s0 (ch_challenge_id c) = Some c"
    by (simp_all add: holds_def)
  from assms(1) have same: "ch_challenge_id c' = ch_challenge_id c" "ch_facts c' = ch_facts c"
      "ch_requester_user_id c' = ch_requester_user_id c" by (simp_all add: finishes_def)
  have new: "truthful (hs_store s) c'"
    using assms(2) s0(4-6) committed_finishes [OF assms(1)] same by (simp add: truthful_def final_state_def)
  have others: "truthful (hs_store s) d" if "hs_challenges s0 i = Some d" "i \<noteq> ch_challenge_id c" for i d
  proof -
    from inv here that have "pf_payment_id (ch_facts d) \<noteq> ?p" "truthful (hs_store s0) d"
      unfolding harness_inv_def by blast+
    then show ?thesis by (simp add: truthful_def s0(4))
  qed
  have one: "ch_challenge_id d = i \<and> truthful (hs_store s) d \<and> (\<exists>k < hs_ids s. i = ''synthetic_challenge_'' @ sv_hex env k)"
    if "?m i = Some d" for i d
  proof (cases "i = ch_challenge_id c")
    case True
    with that have "d = c'" by (simp add: same)
    moreover from inv here have "\<exists>k < hs_ids s0. ch_challenge_id c = ''synthetic_challenge_'' @ sv_hex env k"
      unfolding harness_inv_def by blast
    with s0(3) have "\<exists>k < hs_ids s. ch_challenge_id c = ''synthetic_challenge_'' @ sv_hex env k" by (meson order.strict_trans2)
    ultimately show ?thesis using new True same(1) by simp
  next
    case False
    with that have d: "hs_challenges s0 i = Some d" by (simp add: same s0(2))
    with inv have "ch_challenge_id d = i \<and> (\<exists>k < hs_ids s0. i = ''synthetic_challenge_'' @ sv_hex env k)"
      unfolding harness_inv_def by blast
    with s0(3) others [OF d False] show ?thesis by (meson order.strict_trans2)
  qed
  have two: "i = j" if "?m i = Some d" "?m j = Some d'" "pf_payment_id (ch_facts d) = pf_payment_id (ch_facts d')" for i j d d'
  proof -
    have old: "\<exists>e. hs_challenges s0 i = Some e \<and> pf_payment_id (ch_facts e) = pf_payment_id (ch_facts d)"
      if "?m i = Some d" for i d
      using that here same(1,2) by (cases "i = ch_challenge_id c") (auto simp: s0(2))
    from old [OF that(1)] old [OF that(2)] that(3) inv show ?thesis unfolding harness_inv_def by metis
  qed
  have three: "(pr_status p = Payment_DRAFT \<and> pr_commit_count p = 0) \<or>
      (\<exists>i d. ?m i = Some d \<and> pf_payment_id (ch_facts d) = q \<and> ch_state d \<in> {Challenge_CONFIRMED, Challenge_UNKNOWN})"
    if p: "ps_records (hs_store s) q = Some p" for q p
  proof (cases "q = ?p")
    case True
    with assms(2) same have "?m (ch_challenge_id c') = Some c'" "pf_payment_id (ch_facts c') = q"
        "ch_state c' \<in> {Challenge_CONFIRMED, Challenge_UNKNOWN}" by (simp_all add: final_state_def)
    then show ?thesis by blast
  next
    case False
    with p have p0: "ps_records (hs_store s0) q = Some p" by (simp add: s0(4))
    show ?thesis
    proof (cases "pr_status p = Payment_DRAFT \<and> pr_commit_count p = 0")
      case no: False
      with inv p0 obtain i d where d: "hs_challenges s0 i = Some d" "pf_payment_id (ch_facts d) = q"
          "ch_state d \<in> {Challenge_CONFIRMED, Challenge_UNKNOWN}" unfolding harness_inv_def by blast
      with here False have "i \<noteq> ch_challenge_id c" by auto
      with d(1) have "?m i = Some d" by (simp add: same s0(2))
      with d show ?thesis by blast
    qed simp
  qed
  from one two three have "harness_inv env ?t" unfolding harness_inv_def by (simp del: fun_upd_apply)
  then show ?thesis by (simp add: holds_def)
qed

text \<open>Replacing a challenge whose payment is committed.\<close>

lemma leads_put_final:
  assumes "finishes c c'" "final_state (ch_state c)" "final_state (ch_state c')"
  shows "leads (harness_inv env) (holds env c) (put_challenge c') (\<lambda>_. holds env c')"
proof (rule leadsI)
  fix s r t assume run: "put_challenge c' s = (r, t)" and s: "holds env c s"
  then have t: "r = Ok ()" "t = s\<lparr>hs_challenges := (hs_challenges s)(ch_challenge_id c' \<mapsto> c')\<rparr>"
    by (auto simp: put_challenge_def)
  from assms(1) have same: "ch_challenge_id c' = ch_challenge_id c" "ch_facts c' = ch_facts c"
      "ch_requester_user_id c' = ch_requester_user_id c" by (simp_all add: finishes_def)
  from s have found: "hs_challenges s (ch_challenge_id c') = Some c" and inv: "harness_inv env s"
    by (simp_all add: holds_def same)
  then have "truthful (hs_store s) c" unfolding harness_inv_def by blast
  with assms(2,3) committed_finishes [OF assms(1)] same have "truthful (hs_store s) c'"
    by (auto simp: truthful_def final_state_def)
  with inv_put [OF inv found] same(2) assms(3) have "harness_inv env t" unfolding t(2) final_state_def by simp
  with t show "case r of Inl e \<Rightarrow> harness_inv env t | Inr x \<Rightarrow> holds env c' t" by (simp add: holds_def)
qed


text \<open>Finishing: from a committed payment, or from an untouched one.\<close>

lemma finish_cases:
  assumes "ch_attempt c = Some attempt" "finish_status st = Some status"
    and "leads (harness_inv env) P (put_challenge (c\<lparr>ch_state := st, ch_result_probe := Some evidence\<rparr>))
      (\<lambda>_. holds env (c\<lparr>ch_state := st, ch_result_probe := Some evidence\<rparr>))"
    and "\<And>x. leads (harness_inv env) (holds env (c\<lparr>ch_state := st, ch_result_probe := Some evidence\<rparr>))
      (put_challenge (c\<lparr>ch_state := st, ch_result_probe := Some evidence, ch_attempt := Some (x::execution_attempt)\<rparr>))
      (\<lambda>_. holds env (c\<lparr>ch_state := st, ch_result_probe := Some evidence, ch_attempt := Some x\<rparr>))
      \<or> xa_idempotency_key x \<noteq> xa_idempotency_key attempt"
  shows "leads (harness_inv env) P (finish_challenge env c st evidence text) (\<lambda>_. harness_inv env)"
proof -
  have key: "xa_idempotency_key (attempt\<lparr>xa_status := status, xa_completed_at := Some completed,
      xa_result_probe := Some d, xa_error_message := text\<rparr>) = xa_idempotency_key attempt" for completed d by simp
  show ?thesis
    unfolding finish_challenge_def Let_def assms(1,2) prod.case option.case
    apply (rule leads_bind [OF assms(3)])
    apply (rule holds_calm, simp, erule holds_inv)
    apply (rule leads_bind)
     apply (rule assms(4) [THEN disjE], assumption)
     apply simp
    apply (rule leads_audited)
    done
qed

lemma finish_final:
  assumes "ch_attempt c = Some attempt" "final_state (ch_state c)" "final_state st"
  shows "leads (harness_inv env) (holds env c) (finish_challenge env c st evidence text) (\<lambda>_. harness_inv env)"
proof -
  from assms(3) obtain status where "finish_status st = Some status" by (auto simp: final_state_def)
  with assms show ?thesis
    by (intro finish_cases leads_put_final) (auto simp: finishes_def intro!: leads_put_final)
qed

lemma finish_owed:
  assumes "ch_attempt c = Some attempt" "final_state st"
  shows "leads (harness_inv env) (owed env c) (finish_challenge env c st evidence text) (\<lambda>_. harness_inv env)"
proof -
  from assms(2) obtain status where status: "finish_status st = Some status" by (auto simp: final_state_def)
  show ?thesis
  proof (rule finish_cases [OF assms(1) status])
    show "leads (harness_inv env) (owed env c) (put_challenge (c\<lparr>ch_state := st, ch_result_probe := Some evidence\<rparr>))
        (\<lambda>_. holds env (c\<lparr>ch_state := st, ch_result_probe := Some evidence\<rparr>))"
    proof (rule leadsI)
      fix s r t assume run: "put_challenge (c\<lparr>ch_state := st, ch_result_probe := Some evidence\<rparr>) s = (r, t)" and s: "owed env c s"
      have "finishes c (c\<lparr>ch_state := st, ch_result_probe := Some evidence\<rparr>)" by (simp add: finishes_def)
      from put_owed [OF this _ s] assms(2) run
      show "case r of Inl e \<Rightarrow> harness_inv env t | Inr x \<Rightarrow> holds env (c\<lparr>ch_state := st, ch_result_probe := Some evidence\<rparr>) t"
        by (auto simp: put_challenge_def)
    qed
  qed (use assms in \<open>auto simp: finishes_def intro!: leads_put_final\<close>)
qed

lemma finish_untouched:
  assumes "ch_attempt c = Some attempt" "\<not> final_state (ch_state c)"
  shows "leads (harness_inv env) (holds env c) (finish_challenge env c Challenge_FAILED evidence text) (\<lambda>_. harness_inv env)"
  using assms by (intro finish_cases leads_put_open) (auto simp: final_state_def intro!: leads_put_open)


lemma owed_probe:
  assumes "\<And>e. leads I (owed env c) (f e) R"
  shows "leads I (owed env c) (prog_bind (probe_challenge env c k) f) R"
proof (rule leadsI)
  fix s r u assume "prog_bind (probe_challenge env c k) f s = (r, u)" and s: "owed env c s"
  then obtain e t where t: "probe_challenge env c k s = (Ok e, t)" "f e t = (r, u)"
    by (auto simp: probe_challenge_def prog_bind_def now_of_def lift_read_def)
  have "guarantees calm (probe_challenge env c k)" by simp
  from guaranteesD [OF this t(1)] have "calm s t" .
  from leadsD [OF assms t(2) owed_calm [OF this s]] show "case r of Inl e \<Rightarrow> I u | Inr x \<Rightarrow> R x u" .
qed

text \<open>How the submission of an approved challenge ends: before the commit, or after it.\<close>

definition submitted :: "synthetic_env \<Rightarrow> challenge \<Rightarrow> payment_record res \<Rightarrow> harness_state \<Rightarrow> bool" where
  "submitted env c outcome s = (case outcome of
     Inl e \<Rightarrow> (exc_of e = DefiniteSubmissionFailure \<and> holds env c s) \<or> (exc_of e = AmbiguousSubmissionFailure \<and> owed env c s)
   | Inr r \<Rightarrow> owed env c s)"

lemma holds_record:
  assumes "holds env c s" "\<not> final_state (ch_state c)"
  obtains r where "ps_records (hs_store s) (pf_payment_id (ch_facts c)) = Some r" "untouched c r"
    "pr_requester_user_id r = ch_requester_user_id c"
proof -
  from assms(1) have "truthful (hs_store s) c" unfolding holds_def harness_inv_def by blast
  with assms(2) that show ?thesis unfolding truthful_def final_state_def by auto
qed

lemma submit_leads:
  assumes "independently_approved c" "ch_state c = Challenge_READY" "ch_approval c = Some approval"
    and "ch_permit c = Some p" "ep_used_at p \<noteq> None" "ch_attempt c = Some x" "xa_idempotency_key x = submission_key c"
  shows "leads (harness_inv env) (holds env c)
     (trying (on_payments (submit_payment (pf_payment_id (ch_facts c)) (pf_object_version (ch_facts c))
        (sa_approval_id approval) (submission_key c) fault)) (\<lambda>e. lift_res (Ok (Inl e))) (\<lambda>r. lift_res (Ok (Inr r))))
     (submitted env c)"
proof (rule leadsI)
  fix s q t
  let ?p = "pf_payment_id (ch_facts c)" and ?v = "pf_object_version (ch_facts c)"
  assume run: "trying (on_payments (submit_payment ?p ?v (sa_approval_id approval) (submission_key c) fault))
      (\<lambda>e. lift_res (Ok (Inl e))) (\<lambda>r. lift_res (Ok (Inr r))) s = (q, t)" and s: "holds env c s"
  from assms(2) have "\<not> final_state (ch_state c)" by (simp add: final_state_def)
  from holds_record [OF s this] obtain r where r: "ps_records (hs_store s) ?p = Some r" "untouched c r"
      "pr_requester_user_id r = ch_requester_user_id c" .
  let ?r = "submitted_record ?p ?v (sa_approval_id approval) (submission_key c) r"
  have owes: "owed env c (s\<lparr>hs_store := st\<rparr>)" if st: "ps_records st = (ps_records (hs_store s))(?p \<mapsto> ?r)" for st
  proof -
    from r(2,3) assms have "committed_for c ?r" "pr_requester_user_id ?r = ch_requester_user_id c"
      by (simp_all add: committed_for_def submitted_record_def untouched_def)
    with s st show ?thesis unfolding owed_def by (intro exI [of _ s] exI [of _ ?r]) simp
  qed
  have "submitted env c o' t \<and> q = Ok o'"
    if "submit_payment ?p ?v (sa_approval_id approval) (submission_key c) fault (hs_store s) = (o', st)"
      "t = s\<lparr>hs_store := st\<rparr>" "q = Ok o'" for o' st
    using that r s owes
    by (cases fault) (auto simp: submit_payment_def untouched_def Let_def submitted_def)
  moreover have "\<exists>o' st. submit_payment ?p ?v (sa_approval_id approval) (submission_key c) fault (hs_store s) = (o', st) \<and>
      t = s\<lparr>hs_store := st\<rparr> \<and> q = Ok o'"
    using run by (auto simp: trying_def on_payments_def lift_res_def split: prod.splits sum.splits)
  ultimately show "case q of Inl e \<Rightarrow> harness_inv env t | Inr x \<Rightarrow> submitted env c x t" by auto
qed

lemma settle_submission_keeps:
  assumes "ch_attempt c = Some x" "ch_state c = Challenge_READY"
  shows "leads (harness_inv env) (submitted env c outcome) (settle_submission env c outcome) (\<lambda>_. harness_inv env)"
proof -
  have open': "\<not> final_state (ch_state c)" using assms(2) by (simp add: final_state_def)
  have probed: "leads (harness_inv env) (owed env c) (prog_bind (probe_challenge env c (submission_key c)) (\<lambda>evidence.
        finish_challenge env c
          (if pe_status evidence = probe_status.Probe_CONFIRMED then Challenge_CONFIRMED else Challenge_UNKNOWN)
          evidence msg)) (\<lambda>_. harness_inv env)" for msg
    by (rule owed_probe, rule finish_owed [OF assms(1)]) (simp add: final_state_def)
  have failed: "leads (harness_inv env) (holds env c) (prog_bind (probe_challenge env c (submission_key c)) (\<lambda>evidence.
        finish_challenge env c Challenge_FAILED evidence msg)) (\<lambda>_. harness_inv env)" for msg
    by (rule holds_calm, simp, erule holds_inv, rule finish_untouched [OF assms(1) open'])
  show ?thesis
  proof (cases outcome)
    case (Inr r)
    then show ?thesis unfolding settle_submission_def Let_def Inr sum.case
      by (intro leads_pre [OF probed]) (simp add: submitted_def)
  next
    case (Inl e)
    consider "exc_of e = DefiniteSubmissionFailure" | "exc_of e = AmbiguousSubmissionFailure"
      | "exc_of e \<noteq> DefiniteSubmissionFailure" "exc_of e \<noteq> AmbiguousSubmissionFailure" by blast
    then show ?thesis
    proof cases
      case 1
      then show ?thesis unfolding settle_submission_def Let_def Inl
        by (simp, intro leads_pre [OF failed]) (simp add: submitted_def)
    next
      case 2
      then show ?thesis unfolding settle_submission_def Let_def Inl
        by (simp, intro leads_pre [OF probed]) (simp add: submitted_def)
    next
      case 3
      then show ?thesis unfolding settle_submission_def Let_def Inl
        by (simp, intro leads_raise) (simp add: submitted_def)
    qed
  qed
qed


lemma execute_keeps:
  "leads (harness_inv env) (harness_inv env) (execute_submission env i fault) (\<lambda>_. harness_inv env)"
  unfolding execute_submission_def Let_def
proof (rule leads_find, goal_cases)
  case (1 c)
  have stop: "leads (harness_inv env) (holds env c) (lift_res (Inl e)) R" for e R by (rule leads_raise) (rule holds_inv)
  show ?case
  proof (cases "ch_state c = Challenge_READY \<and> ch_permit c \<noteq> None \<and> ch_approval c \<noteq> None")
    case False
    then show ?thesis by (auto intro: stop split: challenge_state.split option.split)
  next
    case True
    then obtain permit approval where c: "ch_state c = Challenge_READY" "ch_permit c = Some permit" "ch_approval c = Some approval"
      by auto
    have calm: "guarantees calm (prog_bind (current_authorization env c now None) (\<lambda>_. lift_res (current_bindings env c r)))" for now r
      by (intro calm_bind) simp_all
    have bad: "leads (harness_inv env) (holds env c) (prog_bind (put_challenge (c\<lparr>ch_state := Challenge_INVALIDATED\<rparr>)) (\<lambda>_.
        prog_bind (audit_challenge env (c\<lparr>ch_state := Challenge_INVALIDATED\<rparr>) ev md) (\<lambda>_. lift_res (Inl e)))) (\<lambda>_. harness_inv env)" for ev md e
      using c(1) by (intro leads_bind [OF leads_put_open] holds_calm leads_raise; simp add: holds_inv)
    have ready: "leads (harness_inv env) (\<lambda>s. holds env c s \<and> independently_approved c) m R"
      if "independently_approved c \<Longrightarrow> leads (harness_inv env) (holds env c) m R" for m :: "(harness_state, challenge) prog" and R
      by (rule leadsI) (use that in \<open>auto dest: leadsD\<close>)
    have go: "leads (harness_inv env) (holds env c) (prog_bind (put_challenge c') (\<lambda>_.
        prog_bind (audit_challenge env c' ev md) (\<lambda>_.
        prog_bind (trying (on_payments (submit_payment (pf_payment_id (ch_facts c)) (pf_object_version (ch_facts c))
               (sa_approval_id approval) (submission_key c) fault)) (\<lambda>e. lift_res (Ok (Inl e))) (\<lambda>r. lift_res (Ok (Inr r)))) (\<lambda>outcome.
           settle_submission env c' outcome)))) (\<lambda>_. harness_inv env)"
      if c': "c' = c\<lparr>ch_permit := Some (permit\<lparr>ep_used_at := Some now\<rparr>), ch_attempt := Some attempt\<rparr>"
        "xa_idempotency_key attempt = submission_key c" and apart: "independently_approved c" for c' attempt now ev md
    proof -
      from apart have apart': "independently_approved c'" by (simp add: independently_approved_def c'(1) c(2,3))
      have same: "submission_key c' = submission_key c" "ch_facts c' = ch_facts c" by (simp_all add: submission_key_def c'(1))
      show ?thesis
        apply (rule leads_bind [OF leads_put_open])
              apply (simp_all add: c'(1) c(1))[6]
         using apart' apply (simp add: c'(1))
        apply (rule holds_calm, simp, erule holds_inv)
        apply (rule leads_bind)
         apply (rule submit_leads [OF apart', unfolded same, of approval "permit\<lparr>ep_used_at := Some now\<rparr>" attempt])
              apply (simp_all add: c' c)[6]
        apply (rule settle_submission_keeps [of _ attempt])
         apply (simp_all add: c'(1) c(1))
        done
    qed
    show ?thesis
      unfolding c prod.case option.case challenge_state.case
      apply (rule leads_pre [of _ "\<lambda>s. holds env c s \<and> independently_approved c"])
       apply (rule ready)
       apply (rule holds_calm, simp, erule holds_inv)
       apply (rule holds_calm, simp, erule holds_inv)
       apply (rule leads_bind [OF leads_invalidating [OF calm]], simp add: c)
       apply (split if_split, intro conjI impI)
        apply (rule bad)
       apply (rule holds_calm, simp, erule holds_inv)
       apply (rule go [OF refl]; simp)
      using c(1) apply (auto simp: truthful_def dest: holds_truthful)
      done
  qed
qed

lemma probe_final:
  assumes "final_state (ch_state c)"
  shows "leads (harness_inv env) (holds env c) (probe_challenge env c k)
    (\<lambda>e s. holds env c s \<and> pe_status e \<noteq> probe_status.Probe_NOT_CONFIRMED)"
proof (rule leadsI)
  fix s r t assume run: "probe_challenge env c k s = (r, t)" and s: "holds env c s"
  have "guarantees calm (probe_challenge env c k)" by simp
  from guaranteesD [OF this run] s holds_stable have t: "holds env c t" unfolding stable_def by blast
  then have "truthful (hs_store t) c" unfolding holds_def harness_inv_def by blast
  with assms obtain p where "ps_records (hs_store t) (pf_payment_id (ch_facts c)) = Some p" "pr_status p = Payment_SUBMITTED"
    unfolding truthful_def final_state_def committed_for_def by auto
  with run t show "case r of Inl e \<Rightarrow> harness_inv env t
      | Inr e \<Rightarrow> holds env c t \<and> pe_status e \<noteq> probe_status.Probe_NOT_CONFIRMED"
    by (auto simp: probe_challenge_def prog_bind_def now_of_def lift_read_def probe_payment_def Let_def)
qed

lemma resolve_unknown_keeps:
  "leads (harness_inv env) (harness_inv env) (resolve_unknown env i) (\<lambda>_. harness_inv env)"
  unfolding resolve_unknown_def Let_def
proof (rule leads_find, goal_cases)
  case (1 c)
  have stop: "leads (harness_inv env) (holds env c) (lift_res (Inl e)) R" for e R by (rule leads_raise) (rule holds_inv)
  show ?case
  proof (cases "ch_state c = Challenge_UNKNOWN \<and> ch_attempt c \<noteq> None")
    case False
    then show ?thesis by (auto intro: stop split: challenge_state.split option.split)
  next
    case True
    then obtain attempt where c: "ch_state c = Challenge_UNKNOWN" "ch_attempt c = Some attempt" by auto
    then have final: "final_state (ch_state c)" by (simp add: final_state_def)
    have still: "leads (harness_inv env) (holds env c) (prog_bind (put_challenge (c\<lparr>ch_result_probe := Some e\<rparr>)) (\<lambda>_.
        prog_bind (audit_challenge env (c\<lparr>ch_result_probe := Some e\<rparr>) ev md) (\<lambda>_.
          lift_res (Ok (c\<lparr>ch_result_probe := Some e\<rparr>))))) (\<lambda>_. harness_inv env)" for e ev md
      by (rule leads_bind [OF leads_put_final leads_audited]) (use final in \<open>simp_all add: finishes_def\<close>)
    show ?thesis
      unfolding c prod.case option.case challenge_state.case
    proof (rule leads_bind [OF probe_final [OF final]])
      fix e
      show "leads (harness_inv env) (\<lambda>s. holds env c s \<and> pe_status e \<noteq> probe_status.Probe_NOT_CONFIRMED)
         (case pe_status e of
           probe_status.Probe_CONFIRMED \<Rightarrow> finish_challenge env c Challenge_CONFIRMED e None
         | probe_status.Probe_NOT_CONFIRMED \<Rightarrow> finish_challenge env c Challenge_FAILED e
             (Some ''Result probe confirmed no submission'')
         | probe_status.Probe_UNKNOWN \<Rightarrow>
             prog_bind (put_challenge (c\<lparr>ch_result_probe := Some e\<rparr>)) (\<lambda>_.
              prog_bind (audit_challenge env (c\<lparr>ch_result_probe := Some e\<rparr>) ''result_still_unknown'' []) (\<lambda>_.
                lift_res (Ok (c\<lparr>ch_result_probe := Some e\<rparr>))))) (\<lambda>_. harness_inv env)"
        using final finish_final [OF c(2) final, of Challenge_CONFIRMED env e None] still
        by (cases "pe_status e") (auto simp: final_state_def intro: leads_pre leadsI)
    qed
  qed
qed

end
