(* ===== verification/PaymentHistories.thy ===== *)
theory PaymentHistories
  imports PaymentLaws
begin

text \<open>
  Every sequence of calls to the payment harness: the invariant of \<open>PaymentLaws\<close> holds in each state it
  reaches, and with it what a payment and a challenge say. One run is worked out, from the draft to a
  submission whose response and probe are both lost; the hashes in it stay symbolic.
\<close>

section \<open>Histories\<close>

text \<open>The calls of a user of the harness, and of a test that repairs the probe.\<close>

datatype harness_call =
    Prepare_call user_context payment_facts
  | Decide_call string user_context user_context bool
  | Execute_call string fault_mode
  | Resolve_call string
  | Get_call string
  | Clear_call string

fun run_harness_call :: "synthetic_env \<Rightarrow> harness_call \<Rightarrow> harness_state \<Rightarrow> harness_state" where
  "run_harness_call env (Prepare_call user facts) s = snd (prepare_submission env user facts s)"
| "run_harness_call env (Decide_call i requester approver approved) s = snd (decide_approval env i requester approver approved s)"
| "run_harness_call env (Execute_call i fault) s = snd (execute_submission env i fault s)"
| "run_harness_call env (Resolve_call i) s = snd (resolve_unknown env i s)"
| "run_harness_call env (Get_call i) s = snd (get_challenge i s)"
| "run_harness_call env (Clear_call p) s = s\<lparr>hs_store := clear_probe_fault p (hs_store s)\<rparr>"

definition harness_history :: "synthetic_env \<Rightarrow> harness_call list \<Rightarrow> harness_state \<Rightarrow> harness_state" where
  "harness_history env calls s = fold (run_harness_call env) calls s"

definition fresh_harness :: "harness_state \<Rightarrow> bool" where
  "fresh_harness s = (ps_records (hs_store s) = Map.empty \<and> hs_challenges s = Map.empty)"

lemma leads_snd:
  assumes "leads I I m (\<lambda>_. I)" "I s"
  shows "I (snd (m s))"
proof -
  obtain r t where "m s = (r, t)" by fastforce
  with leadsD [OF assms(1) this assms(2)] show ?thesis by (cases r) simp_all
qed

lemma clear_keeps: "harness_inv env s \<Longrightarrow> harness_inv env (s\<lparr>hs_store := clear_probe_fault p (hs_store s)\<rparr>)"
  unfolding harness_inv_def truthful_def by (simp add: clear_probe_fault_def)

lemma call_keeps:
  assumes "inj (sv_hex env)" and "harness_inv env s"
  shows "harness_inv env (run_harness_call env call s)"
  using assms(2) leads_snd [OF prepare_keeps [OF assms(1)]] leads_snd [OF decide_keeps] leads_snd [OF execute_keeps]
    leads_snd [OF resolve_unknown_keeps] clear_keeps
  by (cases call) (simp_all add: get_challenge_def lift_read_def)

lemma history_keeps: "inj (sv_hex env) \<Longrightarrow> harness_inv env s \<Longrightarrow> harness_inv env (harness_history env calls s)"
  unfolding harness_history_def by (induction calls arbitrary: s) (simp_all add: call_keeps)

lemma fresh_inv: "fresh_harness s \<Longrightarrow> harness_inv env s"
  by (simp add: fresh_harness_def harness_inv_def)

lemma made_fresh: "make_synthetic_harness secret schema clock hex grant_id = Ok (env, s) \<Longrightarrow> fresh_harness s \<and> sv_hex env = hex"
  by (auto simp: make_synthetic_harness_def fresh_harness_def res_bind_ok split: if_splits)

section \<open>A run\<close>

text \<open>One payment of the operator, approved by the approver, whose response and probe are lost.\<close>

definition demo_hex :: "nat \<Rightarrow> string" where "demo_hex n = replicate n CHR ''a''"

definition demo_facts :: payment_facts where
  "demo_facts = \<lparr>pf_payment_id = ''pay'', pf_beneficiary_id = ''ben'', pf_amount = \<lparr>dec_units = 10050, dec_places = 2\<rparr>,
     pf_currency = ''CNY'', pf_reference = ''invoice'', pf_object_version = 1\<rparr>"

definition demo_operator :: user_context where
  "demo_operator = synthetic_account ''synthetic_operator'' payments_department ''operator''"

definition demo_approver :: user_context where
  "demo_approver = synthetic_account ''synthetic_approver'' payments_department ''approver''"

definition demo_env :: synthetic_env where
  "demo_env = \<lparr>sv_secret = ''k'', sv_registry = [((synthetic_pack_id, synthetic_pack_version), synthetic_manifest [])],
     sv_clock = (\<lambda>_. 0), sv_hex = demo_hex, sv_grant_id = (\<lambda>_ _. ''g'')\<rparr>"

definition demo_start :: harness_state where
  "demo_start = \<lparr>hs_store = \<lparr>ps_records = Map.empty, ps_inconclusive = {}\<rparr>, hs_challenges = Map.empty, hs_audit = [],
     hs_reads = 0, hs_ids = 0, hs_resolutions = 0\<rparr>"

definition demo_grant :: capability_grant where
  "demo_grant = \<lparr>cg_grant_id = ''g'', cg_capability_id = synthetic_capability_id,
      cg_capability_version = synthetic_pack_version, cg_principal_id = ''synthetic_operator'',
      cg_business_principal_id = Some ''synthetic_operator'', cg_workload_principal_id = None,
      cg_tenant_id = synthetic_tenant, cg_data_scope = synthetic_scope ''pay'', cg_disposition = ALLOW_EXECUTE,
      cg_allowed_dimensions = {REQUEST_APPROVAL, EXECUTE_TRANSITION, REQUEST_TRANSITION, READ_RECORD, DISCOVER},
      cg_policy_snapshot_version = synthetic_policy_version, cg_revocation_epoch = ''0'',
      cg_purpose = ''capability_request'', cg_resolved_at = 0, cg_not_before = Some 0, cg_expires_at = 300000000,
      cg_reasons = [''Explicit role dimensions satisfy policy'']\<rparr>"

lemma demo_hex_inj: "inj demo_hex"
  by (rule injI) (metis demo_hex_def length_replicate)

lemma demo_manifest: "validate_manifest_boundary (synthetic_manifest []) = Ok (synthetic_manifest [])"
  by code_simp

lemma demo_packs:
  "pack_registry_of [synthetic_manifest []] = Ok [((synthetic_pack_id, synthetic_pack_version), synthetic_manifest [])]"
  by code_simp

lemma demo_made: "make_synthetic_harness ''k'' [] (\<lambda>_. 0) demo_hex (\<lambda>_ _. ''g'') = Ok (demo_env, demo_start)"
  by (simp add: make_synthetic_harness_def demo_manifest demo_packs demo_env_def demo_start_def res_bind_def)

lemma demo_resolved:
  "res_bind (pack_capability_registry [((synthetic_pack_id, synthetic_pack_version), synthetic_manifest [])]) (\<lambda>r.
     resolve_grants (\<lambda>_. ''g'') r
       \<lparr>rc_user = demo_operator, rc_tenant_id = synthetic_tenant, rc_data_scope = synthetic_scope ''pay'',
        rc_installed_capability_ids = {synthetic_capability_id}, rc_policy_snapshot_version = synthetic_policy_version,
        rc_resolved_at = 0, rc_grant_ttl_seconds = 300, rc_workload_principal_id = None, rc_revocation_epoch = ''0'',
        rc_purpose = ''capability_request''\<rparr>) = Ok [demo_grant]"
  by code_simp

lemma demo_grants:
  "current_grants demo_env demo_operator ''pay'' 0 s = (Ok [demo_grant], s\<lparr>hs_resolutions := hs_resolutions s + 1\<rparr>)"
  using demo_resolved by (simp add: current_grants_def demo_env_def)

lemma demo_executable:
  "is_ok (require_executable [demo_grant] synthetic_capability_id ''g'' 0)"
  by code_simp

definition demo_contract :: task_contract where
  "demo_contract = synthetic_contract (''synthetic_contract_'' @ demo_hex 2) (''synthetic_task_'' @ demo_hex 0) demo_operator
     (synthetic_scope ''pay'') demo_grant 0"

definition demo_step :: business_plan_step where
  "demo_step = synthetic_plan_step (''bpstep_'' @ demo_hex 3) demo_grant demo_contract demo_facts"

definition demo_plan :: business_plan where
  "demo_plan = synthetic_plan (''businessplan_'' @ demo_hex 4) demo_contract (synthetic_scope ''pay'') demo_step"

lemma demo_validated:
  "is_ok (validate_business_plan demo_plan [demo_grant] 0)"
  "is_ok (validate_work_order (synthetic_work_order (''workorder_'' @ demo_hex 5) demo_contract demo_step) demo_plan demo_step [demo_grant] 0)"
  by code_simp+

definition demo_draft :: payment_record where
  "demo_draft = \<lparr>pr_facts = demo_facts, pr_status = Payment_DRAFT, pr_requester_user_id = ''synthetic_operator'',
     pr_approval_id = None, pr_idempotency_key = None, pr_confirmation_reference = None, pr_commit_count = 0\<rparr>"

definition demo_observation :: string where
  "demo_observation = hmac_sha256 ''k'' (dumps True (JObj (payment_record_dump demo_draft)))"

definition demo_fingerprint :: string where
  "demo_fingerprint = hmac_sha256 ''k'' (dumps False (action_binding (''synthetic_task_'' @ demo_hex 0)
     (''synthetic_step_'' @ demo_hex 1) (synthetic_action_payload demo_draft) demo_observation))"

definition demo_id :: string where "demo_id = ''synthetic_challenge_'' @ demo_hex 8"

definition demo_intent :: action_intent where
  "demo_intent = synthetic_intent (''synthetic_intent_'' @ demo_hex 6) demo_contract (''synthetic_step_'' @ demo_hex 1)
     demo_fingerprint demo_observation demo_draft"

definition demo_challenge :: challenge where
  "demo_challenge = \<lparr>ch_challenge_id = demo_id, ch_state = Challenge_PENDING_APPROVAL, ch_facts = demo_facts,
     ch_requester_user_id = ''synthetic_operator'', ch_contract = demo_contract, ch_plan = demo_plan,
     ch_work_order = synthetic_work_order (''workorder_'' @ demo_hex 5) demo_contract demo_step, ch_intent = demo_intent,
     ch_observation_hash = demo_observation, ch_decision = require_approval_decision (demo_hex 7) demo_intent demo_facts,
     ch_approval = None, ch_permit = None, ch_attempt = None, ch_result_probe = None\<rparr>"

lemma is_okE: "is_ok r \<Longrightarrow> (\<And>x. r = Ok x \<Longrightarrow> thesis) \<Longrightarrow> thesis"
  by (cases r) simp_all

lemma demo_observed: "record_observation demo_env demo_draft = Ok demo_observation"
  by (simp add: record_observation_def hmac_fingerprint_def demo_env_def demo_observation_def)

lemma demo_printed: "action_fingerprint (''synthetic_task_'' @ demo_hex 0) (''synthetic_step_'' @ demo_hex 1)
    (synthetic_action_payload demo_draft) demo_observation ''k'' = Ok demo_fingerprint"
  by (simp add: action_fingerprint_def hmac_fingerprint_def demo_fingerprint_def)

lemma demo_operates: "require_synthetic_operator demo_operator = Ok ()"
  by code_simp

lemma demo_clock: "now_of demo_env s = (Ok 0, s\<lparr>hs_reads := hs_reads s + 1\<rparr>)"
  by (simp add: now_of_def demo_env_def)

lemma demo_ids: "new_id demo_env p s = (Ok (p @ demo_hex (hs_ids s)), s\<lparr>hs_ids := hs_ids s + 1\<rparr>)"
  by (simp add: new_id_def demo_env_def)

lemma demo_names: "uc_user_id demo_operator = ''synthetic_operator''" "pf_payment_id demo_facts = ''pay''"
    "cg_grant_id demo_grant = ''g''" "sv_secret demo_env = ''k''"
  by (simp_all add: demo_operator_def synthetic_account_def demo_facts_def demo_grant_def demo_env_def)

lemma demo_created: "on_payments (create_draft demo_facts ''synthetic_operator'') s =
   (if ps_records (hs_store s) ''pay'' \<noteq> None then (Raise SyntheticPaymentError ''Synthetic payment already exists'', s)
    else (Ok demo_draft, s\<lparr>hs_store := (hs_store s)\<lparr>ps_records := (ps_records (hs_store s))(''pay'' \<mapsto> demo_draft)\<rparr>\<rparr>))"
  by (simp add: on_payments_def create_draft_def demo_draft_def demo_names Let_def)

lemma demo_prepared:
  "\<exists>n q. prepare_submission demo_env demo_operator demo_facts demo_start =
     (Ok demo_challenge, \<lparr>hs_store = \<lparr>ps_records = [''pay'' \<mapsto> demo_draft], ps_inconclusive = {}\<rparr>,
        hs_challenges = [demo_id \<mapsto> demo_challenge], hs_audit = q, hs_reads = n, hs_ids = 9, hs_resolutions = 1\<rparr>)"
proof -
  from demo_executable obtain g where g: "require_executable [demo_grant] synthetic_capability_id ''g'' 0 = Ok g"
    by (rule is_okE)
  from demo_validated(1) obtain x where x: "validate_business_plan demo_plan [demo_grant] 0 = Ok x" by (rule is_okE)
  from demo_validated(2) obtain y where y: "validate_work_order (synthetic_work_order (''workorder_'' @ demo_hex 5)
      demo_contract demo_step) demo_plan demo_step [demo_grant] 0 = Ok y" by (rule is_okE)
  note [simp] = lift_res_def prog_bind_def demo_clock demo_ids eval_nat_numeral demo_contract_def demo_step_def demo_plan_def
  from x y demo_printed show ?thesis
    unfolding prepare_submission_def Let_def demo_names
    by (simp add: demo_operates demo_grants demo_names g demo_created demo_start_def demo_observed put_challenge_def
      audit_challenge_def demo_challenge_def demo_id_def demo_intent_def)
qed

lemma demo_authorized:
  "authorize_after_approval h demo_intent demo_facts demo_operator demo_approver =
     Ok ((require_approval_decision h demo_intent demo_facts)\<lparr>pd_outcome := ALLOW,
       pd_reasons := [''Independent synthetic approver accepted the current facts and observation''],
       pd_matched_rules := [''synthetic.payment.separation-of-duties'', ''synthetic.payment.approved''],
       pd_required_approver := None\<rparr>)"
proof -
  have "assess_submission demo_facts = \<lparr>sr_risk_level = Risk_high, sr_approver_department_id = payments_department,
      sr_reasons = [''Every synthetic payment submission requires dual control'']\<rparr>" by code_simp
  moreover have "get_role_in_department demo_approver payments_department = Some ''approver''"
    "uc_org_id demo_operator = synthetic_tenant" "uc_org_id demo_approver = synthetic_tenant"
    "has_business_line demo_approver treasury_line" "uc_user_id demo_operator \<noteq> uc_user_id demo_approver" by code_simp+
  ultimately show ?thesis by (simp add: authorize_after_approval_def require_approval_decision_def Let_def)
qed

lemma demo_snapshot:
  "tc_expires_at demo_contract = Some (seconds 900)"
  "get_value (tc_authorization_snapshot demo_contract) ''grant_expires_at'' = JTime 300000000"
  "get_value (tc_authorization_snapshot demo_contract) ''principal_id'' = JStr ''synthetic_operator''"
  "get_value (tc_authorization_snapshot demo_contract) ''tenant_id'' = JStr synthetic_tenant"
  "uc_org_id demo_operator = synthetic_tenant"
  "List.find (\<lambda>u. uc_user_id u = ''synthetic_operator'') (map snd synthetic_accounts) = Some demo_operator"
  "cg_capability_id demo_grant = synthetic_capability_id"
  "\<not> seconds 900 \<le> 0"
  "List.find (\<lambda>g. cg_capability_id g = synthetic_capability_id) [demo_grant] = Some demo_grant"
  "uc_user_id demo_approver = ''synthetic_approver''"
  by code_simp+

lemma demo_current:
  assumes "ch_contract c = demo_contract" "ch_facts c = demo_facts" "ch_requester_user_id c = ''synthetic_operator''"
    and "u = Some demo_operator \<or> u = None"
  shows "current_authorization demo_env c 0 u s = (Ok (), s\<lparr>hs_resolutions := hs_resolutions s + 1\<rparr>)"
proof -
  from demo_executable obtain g where g: "require_executable [demo_grant] synthetic_capability_id ''g'' 0 = Ok g"
    by (rule is_okE)
  from assms(4) show ?thesis
    unfolding current_authorization_def Let_def
    by (elim disjE)
      (simp_all add: assms(1-3) demo_snapshot demo_grants demo_names g prog_bind_def lift_res_def del: find.simps map_map)
qed

lemma demo_bound:
  assumes "ch_contract c = demo_contract" "ch_intent c = demo_intent" "ch_observation_hash c = demo_observation"
  shows "current_bindings demo_env c demo_draft = Ok ()"
proof -
  have "tc_task_id demo_contract = ''synthetic_task_'' @ demo_hex 0" "ai_step_id demo_intent = ''synthetic_step_'' @ demo_hex 1"
      "ai_action_fingerprint demo_intent = demo_fingerprint"
    by (simp_all add: demo_contract_def synthetic_contract_def demo_intent_def synthetic_intent_def)
  with assms show ?thesis using demo_printed
    by (simp add: current_bindings_def demo_observed demo_names res_bind_def del: append.simps)
qed

definition demo_ready :: challenge where
  "demo_ready = demo_challenge\<lparr>ch_state := Challenge_READY,
     ch_approval := Some \<lparr>sa_approval_id = ''synthetic_approval_'' @ demo_hex 10, sa_requester_user_id = ''synthetic_operator'',
       sa_approver_user_id = ''synthetic_approver'', sa_approved_at = 0\<rparr>,
     ch_decision := (require_approval_decision (demo_hex 9) demo_intent demo_facts)\<lparr>pd_outcome := ALLOW,
       pd_reasons := [''Independent synthetic approver accepted the current facts and observation''],
       pd_matched_rules := [''synthetic.payment.separation-of-duties'', ''synthetic.payment.approved''],
       pd_required_approver := None\<rparr>,
     ch_permit := Some \<lparr>ep_permit_id = ''synthetic_permit_'' @ demo_hex 11, ep_task_id = tc_task_id demo_contract,
       ep_step_id = ai_step_id demo_intent, ep_action_fingerprint = ai_action_fingerprint demo_intent,
       ep_observation_id = demo_observation, ep_policy_decision_id = ''decision_'' @ demo_hex 9,
       ep_issued_at = 0, ep_expires_at = seconds 60, ep_used_at = None\<rparr>\<rparr>"

lemmas demo_steps = lift_res_def lift_read_def prog_bind_def demo_clock demo_ids require_challenge_def demo_names
  put_challenge_def audit_challenge_def invalidating_def trying_def demo_current demo_bound payment_now_def require_payment_def

lemma demo_decided:
  "\<exists>q' n'. decide_approval demo_env demo_id demo_operator demo_approver True
     \<lparr>hs_store = \<lparr>ps_records = [''pay'' \<mapsto> demo_draft], ps_inconclusive = {}\<rparr>,
      hs_challenges = [demo_id \<mapsto> demo_challenge], hs_audit = q, hs_reads = n, hs_ids = 9, hs_resolutions = 1\<rparr> =
     (Ok demo_ready, \<lparr>hs_store = \<lparr>ps_records = [''pay'' \<mapsto> demo_draft], ps_inconclusive = {}\<rparr>,
      hs_challenges = [demo_id \<mapsto> demo_ready], hs_audit = q', hs_reads = n', hs_ids = 12, hs_resolutions = 2\<rparr>)"
  by (simp add: demo_steps decide_approval_def demo_challenge_def demo_authorized Let_def demo_ready_def
    demo_snapshot(10) require_approval_decision_def)

definition demo_calls :: "harness_call list" where
  "demo_calls = [Prepare_call demo_operator demo_facts, Decide_call demo_id demo_operator demo_approver True,
     Execute_call demo_id COMMIT_THEN_INCONCLUSIVE]"

lemma demo_executed:
  "\<exists>c r. hs_challenges (snd (execute_submission demo_env demo_id COMMIT_THEN_INCONCLUSIVE
     \<lparr>hs_store = \<lparr>ps_records = [''pay'' \<mapsto> demo_draft], ps_inconclusive = {}\<rparr>,
      hs_challenges = [demo_id \<mapsto> demo_ready], hs_audit = q, hs_reads = n, hs_ids = 12, hs_resolutions = 2\<rparr>)) demo_id = Some c \<and>
      ch_state c = Challenge_UNKNOWN \<and> ch_facts c = demo_facts \<and>
     ps_records (hs_store (snd (execute_submission demo_env demo_id COMMIT_THEN_INCONCLUSIVE
     \<lparr>hs_store = \<lparr>ps_records = [''pay'' \<mapsto> demo_draft], ps_inconclusive = {}\<rparr>,
      hs_challenges = [demo_id \<mapsto> demo_ready], hs_audit = q, hs_reads = n, hs_ids = 12, hs_resolutions = 2\<rparr>))) ''pay'' = Some r \<and>
     pr_status r = Payment_SUBMITTED"
proof -
  have permit: "ch_state demo_ready = Challenge_READY" "ch_permit demo_ready = Some p \<Longrightarrow>
      permit_matches p (ai_action_fingerprint demo_intent) demo_observation 0" "ch_permit demo_ready \<noteq> None"
      "ch_approval demo_ready \<noteq> None" "ch_contract demo_ready = demo_contract" "ch_facts demo_ready = demo_facts"
      "ch_requester_user_id demo_ready = ''synthetic_operator''" "ch_intent demo_ready = demo_intent"
      "ch_observation_hash demo_ready = demo_observation" "ch_challenge_id demo_ready = demo_id" for p
    by (auto simp: demo_ready_def demo_challenge_def permit_matches_def seconds_def)
  then obtain p a where "ch_permit demo_ready = Some p" "ch_approval demo_ready = Some a" by auto
  moreover have "pf_object_version demo_facts = 1" "pr_status demo_draft = Payment_DRAFT" "pr_idempotency_key demo_draft = None"
      "pr_facts demo_draft = demo_facts"
    by (simp_all add: demo_facts_def demo_draft_def)
  ultimately show ?thesis using permit
    by (simp add: demo_steps execute_submission_def Let_def on_payments_def submit_payment_def submitted_record_def
      settle_submission_def probe_challenge_def probe_payment_def finish_challenge_def)
qed

lemma demo_run:
  "\<exists>c r. hs_challenges (harness_history demo_env demo_calls demo_start) demo_id = Some c \<and> ch_state c = Challenge_UNKNOWN \<and>
     ch_facts c = demo_facts \<and>
     ps_records (hs_store (harness_history demo_env demo_calls demo_start)) ''pay'' = Some r \<and> pr_status r = Payment_SUBMITTED"
proof -
  obtain n q where s: "prepare_submission demo_env demo_operator demo_facts demo_start =
     (Ok demo_challenge, \<lparr>hs_store = \<lparr>ps_records = [''pay'' \<mapsto> demo_draft], ps_inconclusive = {}\<rparr>,
        hs_challenges = [demo_id \<mapsto> demo_challenge], hs_audit = q, hs_reads = n, hs_ids = 9, hs_resolutions = 1\<rparr>)"
    using demo_prepared by blast
  obtain n' q' where t: "decide_approval demo_env demo_id demo_operator demo_approver True
     \<lparr>hs_store = \<lparr>ps_records = [''pay'' \<mapsto> demo_draft], ps_inconclusive = {}\<rparr>,
      hs_challenges = [demo_id \<mapsto> demo_challenge], hs_audit = q, hs_reads = n, hs_ids = 9, hs_resolutions = 1\<rparr> =
     (Ok demo_ready, \<lparr>hs_store = \<lparr>ps_records = [''pay'' \<mapsto> demo_draft], ps_inconclusive = {}\<rparr>,
      hs_challenges = [demo_id \<mapsto> demo_ready], hs_audit = q', hs_reads = n', hs_ids = 12, hs_resolutions = 2\<rparr>)"
    using demo_decided by blast
  show ?thesis
    using demo_executed [of q' n'] unfolding harness_history_def demo_calls_def fold.simps run_harness_call.simps comp_apply id_apply s snd_conv t .
qed

section \<open>Properties\<close>

text \<open>
  C13. In a harness as it is built, with random identifiers that never repeat,
  after any sequence of calls and faults, a payment has been committed at most once; one that has been
  committed belongs to a challenge that was approved by somebody else than its requester and whose permit
  was consumed, carries that approval and that challenge's idempotency key, and its version is the
  approved one plus one.
\<close>

theorem synthetic_payment_once:
  assumes "make_synthetic_harness secret schema clock hex grant_id = Ok (env, s)" and "inj hex"
    and "ps_records (hs_store (harness_history env calls s)) p = Some r"
  shows "(pr_status r = Payment_DRAFT \<and> pr_commit_count r = 0) \<or>
    (pr_status r = Payment_SUBMITTED \<and> pr_commit_count r = 1 \<and>
     (\<exists>i c approval permit. hs_challenges (harness_history env calls s) i = Some c \<and> pf_payment_id (ch_facts c) = p \<and>
        ch_approval c = Some approval \<and> sa_requester_user_id approval = ch_requester_user_id c \<and>
        sa_approver_user_id approval \<noteq> ch_requester_user_id c \<and>
        ch_permit c = Some permit \<and> ep_used_at permit \<noteq> None \<and>
        pr_approval_id r = Some (sa_approval_id approval) \<and>
        pr_idempotency_key r = Some (''synthetic:'' @ ch_challenge_id c) \<and>
        pr_facts r = (ch_facts c)\<lparr>pf_object_version := pf_object_version (ch_facts c) + 1\<rparr>))"
proof -
  let ?s = "harness_history env calls s"
  from made_fresh [OF assms(1)] assms(2) have inv: "harness_inv env ?s"
    by (intro history_keeps fresh_inv) simp_all
  show ?thesis
  proof (cases "pr_status r = Payment_DRAFT \<and> pr_commit_count r = 0")
    case False
    with inv assms(3) obtain i c where c: "hs_challenges ?s i = Some c" "pf_payment_id (ch_facts c) = p"
        "ch_state c \<in> {Challenge_CONFIRMED, Challenge_UNKNOWN}" unfolding harness_inv_def by blast
    with inv have "truthful (hs_store ?s) c" unfolding harness_inv_def by blast
    with c(2,3) assms(3) have "committed_for c r" by (auto simp: truthful_def)
    with c(1,2) show ?thesis
      unfolding committed_for_def independently_approved_def submission_key_def by fastforce
  qed simp
qed

theorem synthetic_payment_once_witness:
  "\<exists>r i c. ps_records (hs_store (harness_history demo_env demo_calls demo_start)) ''pay'' = Some r \<and> pr_commit_count r = 1 \<and>
     hs_challenges (harness_history demo_env demo_calls demo_start) i = Some c \<and>
     pr_idempotency_key r = Some (''synthetic:'' @ ch_challenge_id c)"
proof -
  obtain r where r: "ps_records (hs_store (harness_history demo_env demo_calls demo_start)) ''pay'' = Some r"
    "pr_status r = Payment_SUBMITTED" using demo_run by blast
  from synthetic_payment_once [OF demo_made demo_hex_inj r(1)] r show ?thesis by auto
qed

text \<open>
  C14. Whatever calls and faults came before, a challenge is confirmed or unknown
  exactly when its payment has been committed under its own idempotency key; in every other state its
  payment is still the draft it was prepared with.
\<close>

theorem challenge_tells_truth:
  assumes "make_synthetic_harness secret schema clock hex grant_id = Ok (env, s)" and "inj hex"
    and "hs_challenges (harness_history env calls s) i = Some c"
  shows "\<exists>r. ps_records (hs_store (harness_history env calls s)) (pf_payment_id (ch_facts c)) = Some r \<and>
    (if ch_state c \<in> {Challenge_CONFIRMED, Challenge_UNKNOWN}
     then pr_status r = Payment_SUBMITTED \<and> pr_idempotency_key r = Some (''synthetic:'' @ i)
     else pr_status r = Payment_DRAFT \<and> pr_commit_count r = 0 \<and> pr_facts r = ch_facts c)"
proof -
  from made_fresh [OF assms(1)] assms(2) have "harness_inv env (harness_history env calls s)"
    by (intro history_keeps fresh_inv) simp_all
  with assms(3) have "ch_challenge_id c = i" "truthful (hs_store (harness_history env calls s)) c"
    unfolding harness_inv_def by blast+
  then show ?thesis
    by (auto simp: truthful_def committed_for_def untouched_def submission_key_def split: if_splits)
qed

theorem challenge_tells_truth_witness:
  "\<exists>r. ps_records (hs_store (harness_history demo_env demo_calls demo_start)) ''pay'' = Some r \<and>
     pr_idempotency_key r = Some (''synthetic:'' @ demo_id)"
proof -
  obtain c where c: "hs_challenges (harness_history demo_env demo_calls demo_start) demo_id = Some c"
    "ch_state c = Challenge_UNKNOWN" "ch_facts c = demo_facts" using demo_run by blast
  from challenge_tells_truth [OF demo_made demo_hex_inj c(1)] c(2,3) show ?thesis by (auto simp: demo_names)
qed

text \<open>
  A challenge left unknown by an ambiguous submission is settled: once the
  fault of the probe is cleared, one call of the resolution confirms it without touching the payment.
\<close>

theorem unknown_payment_settles:
  assumes "make_synthetic_harness secret schema clock hex grant_id = Ok (env, s)" and "inj hex"
    and "hs_challenges (harness_history env calls s) i = Some c" and "ch_state c = Challenge_UNKNOWN"
  shows "\<exists>c'. hs_challenges (harness_history env (calls @ [Clear_call (pf_payment_id (ch_facts c)), Resolve_call i]) s) i = Some c' \<and>
    ch_state c' = Challenge_CONFIRMED \<and>
    ps_records (hs_store (harness_history env (calls @ [Clear_call (pf_payment_id (ch_facts c)), Resolve_call i]) s)) =
      ps_records (hs_store (harness_history env calls s))"
proof -
  let ?s = "harness_history env calls s" and ?p = "pf_payment_id (ch_facts c)"
  from made_fresh [OF assms(1)] assms(2) have "harness_inv env ?s" by (intro history_keeps fresh_inv) simp_all
  with assms(3) have id: "ch_challenge_id c = i" and "truthful (hs_store ?s) c" unfolding harness_inv_def by blast+
  with assms(4) obtain r x where r: "ps_records (hs_store ?s) ?p = Some r" "pr_status r = Payment_SUBMITTED"
      "pr_idempotency_key r = Some (submission_key c)" "ch_attempt c = Some x" "xa_idempotency_key x = submission_key c"
    unfolding truthful_def committed_for_def by auto
  then show ?thesis using assms(3,4) id
    by (simp add: harness_history_def resolve_unknown_def require_challenge_def clear_probe_fault_def prog_bind_def
        lift_read_def probe_challenge_def now_of_def probe_payment_def Let_def finish_challenge_def put_challenge_def
        audit_challenge_def lift_res_def)
qed

theorem unknown_payment_settles_witness:
  "\<exists>c. hs_challenges (harness_history demo_env (demo_calls @ [Clear_call ''pay'', Resolve_call demo_id]) demo_start) demo_id = Some c \<and>
     ch_state c = Challenge_CONFIRMED"
proof -
  obtain c where c: "hs_challenges (harness_history demo_env demo_calls demo_start) demo_id = Some c"
    "ch_state c = Challenge_UNKNOWN" "ch_facts c = demo_facts" using demo_run by blast
  from unknown_payment_settles [OF demo_made demo_hex_inj c(1,2)] c(3) show ?thesis by (auto simp: demo_names)
qed

end
