(* ===== verification/LoopBridges.thy ===== *)
theory LoopBridges
  imports LoopLaws Journal Recovery
begin

text \<open>
  \<open>enterprise/browser_loop/integrations.py\<close>: the bridges of the browser loop to the governance of a run.
  The verifier asks the business result probe of a pack; the event sink writes every event of the loop as
  one row of the audit journal, in a transaction of its own. Locale \<open>event_trail\<close> says what a sink that
  records the events promises, and what follows for a whole run; the SQL sink is an instance of it.
\<close>

section \<open>The verifier\<close>

record probe_binding =
  bg_resource_id :: string
  bg_idempotency_key :: string

fun probe_verdict :: "probe_status \<Rightarrow> verification_disposition \<times> string" where
  "probe_verdict probe_status.Probe_CONFIRMED = (Verify_SUCCEEDED, ''BUSINESS_RESULT_CONFIRMED'')"
| "probe_verdict probe_status.Probe_NOT_CONFIRMED = (Verify_FAILED, ''BUSINESS_RESULT_NOT_CONFIRMED'')"
| "probe_verdict probe_status.Probe_UNKNOWN = (Verify_UNKNOWN, ''BUSINESS_RESULT_UNKNOWN'')"

text \<open>\<open>BusinessResultProbeVerifier.verify\<close>\<close>

definition verify_by_probe ::
  "(string \<Rightarrow> string \<Rightarrow> ('w, probe_evidence) prog) \<Rightarrow> (verification_request \<Rightarrow> ('w, probe_binding) prog) \<Rightarrow>
   verification_request \<Rightarrow> ('w, verification_result) prog" where
  "verify_by_probe probe resolve_binding request =
     prog_bind (resolve_binding request) (\<lambda>binding.
     prog_bind (probe (bg_resource_id binding) (bg_idempotency_key binding)) (\<lambda>evidence.
     lift_res (Ok \<lparr>vf_disposition = fst (probe_verdict (pe_status evidence)),
       vf_reason_code = snd (probe_verdict (pe_status evidence)),
       vf_evidence_refs = pe_probe_ref evidence #
         (case pe_facts_hash evidence of Some h \<Rightarrow> if h = [] then [] else [h] | None \<Rightarrow> [])\<rparr>)))"

section \<open>The event sink\<close>

record audit_sink =
  sk_organization_id :: string
  sk_contract_id :: string
  sk_mode :: string
  sk_policy_version :: "string option"

text \<open>\<open>event.model_dump(mode="json")\<close>\<close>

definition loop_event_dump :: "loop_event \<Rightarrow> jobject" where
  "loop_event_dump e =
     [(''sequence'', JInt (int (le_sequence e))), (''run_id'', JStr (le_run_id e)), (''task_id'', JStr (le_task_id e)),
      (''step_id'', JStr (le_step_id e)), (''stage'', JStr (loop_stage_value (le_stage e))), (''code'', JStr (le_code e)),
      (''occurred_at'', JTime (le_occurred_at e)), (''observation_id'', jstr_opt (le_observation_id e)),
      (''action_fingerprint'', jstr_opt (le_action_fingerprint e)), (''details'', JObj (le_details e))]"

definition loop_event_row :: "audit_sink \<Rightarrow> string \<Rightarrow> loop_event \<Rightarrow> audit_row" where
  "loop_event_row k event_id e =
     \<lparr>ga_event_id = event_id, ga_task_id = le_task_id e, ga_step_id = Some (le_step_id e),
      ga_contract_id = Some (sk_contract_id k), ga_organization_id = sk_organization_id k,
      ga_event_type = ''browser.loop.'' @ loop_stage_value (le_stage e), ga_mode = sk_mode k,
      ga_action_fingerprint = le_action_fingerprint e, ga_observation_hash = le_observation_id e,
      ga_policy_version = sk_policy_version k, ga_payload = JObj (loop_event_dump e), ga_created_at = le_occurred_at e\<rparr>"

text \<open>
  \<open>emit\<close>. The identifier of a row is random: \<open>new_id\<close> of the event and the table. The CHECK constraint of
  the mode is the table's.
\<close>

definition sink_emit ::
  "audit_sink \<Rightarrow> (loop_event \<Rightarrow> audit_row list \<Rightarrow> string) \<Rightarrow> loop_event \<Rightarrow> ('z journal_db_scheme, unit) prog" where
  "sink_emit k new_id e =
     transaction (\<lambda>s.
       if sk_mode k \<notin> {''off'', ''audit'', ''enforce''}
       then (Raise IntegrityError ''ck_governance_event_mode'', s)
       else add_audit_event (loop_event_row k (new_id e (governance_audit_events s)) e) s)"

text \<open>The rows without their random identifiers.\<close>

definition anonymous :: "audit_row \<Rightarrow> audit_row" where
  "anonymous r = r\<lparr>ga_event_id := []\<rparr>"

definition sink_trail :: "'z journal_db_scheme \<Rightarrow> audit_row list" where
  "sink_trail s = map anonymous (governance_audit_events s)"

lemma sink_records:
  assumes "sink_emit k new_id e w = (r, v)"
  shows "sink_trail v = sink_trail w @ (case r of Inl _ \<Rightarrow> [] | Inr _ \<Rightarrow> [loop_event_row k [] e])"
  using assms
  by (auto simp: sink_emit_def transaction_def add_audit_event_def sink_trail_def anonymous_def loop_event_row_def
      split: if_splits)

section \<open>What a recording sink gives a run\<close>

definition leaves :: "('w \<Rightarrow> 'r list) \<Rightarrow> ('w, 'a) prog \<Rightarrow> bool" where
  "leaves trail m = (\<forall>w. trail (snd (m w)) = trail w)"

text \<open>Every port but the sink leaves the trail alone.\<close>

definition trail_left :: "('w \<Rightarrow> 'r list) \<Rightarrow> 'w loop_ports \<Rightarrow> bool" where
  "trail_left trail p =
     (leaves trail (rt_observe (pt_runtime p)) \<and>
      (\<forall>m. rt_fresh_observation (pt_runtime p) = Some m \<longrightarrow> leaves trail m) \<and>
      (\<forall>c. leaves trail (rt_execute (pt_runtime p) c)) \<and> (\<forall>x. leaves trail (pt_model p x)) \<and>
      (\<forall>r o'. leaves trail (pt_prepare_input p r o')) \<and> (\<forall>r o' a f. leaves trail (pt_authorize p r o' a f)) \<and>
      (\<forall>x. leaves trail (pt_verify p x)) \<and>
      (\<forall>b f r o'. pt_domain p = Some (b, f) \<longrightarrow> leaves trail (f r o')) \<and>
      (\<forall>w. trail (snd (pt_clock p w)) = trail w))"

definition mirrored :: "('w \<Rightarrow> 'r list) \<Rightarrow> (loop_event \<Rightarrow> 'r) \<Rightarrow> 'r list \<Rightarrow> 'w loop_state \<Rightarrow> bool" where
  "mirrored trail row base s = (trail (ls_world s) = base @ map row (ls_events s))"

lemma keeps_runs: "(\<And>s r t. m s = (r, t) \<Longrightarrow> I s \<Longrightarrow> I t) \<Longrightarrow> keeps I m"
  unfolding keeps_def by (metis prod.collapse)

locale event_trail =
  fixes emit :: "loop_event \<Rightarrow> ('w, unit) prog" and trail :: "'w \<Rightarrow> 'r list" and row :: "loop_event \<Rightarrow> 'r"
  assumes recorded: "emit e w = (r, v) \<Longrightarrow> trail v = trail w @ (case r of Inl _ \<Rightarrow> [] | Inr _ \<Rightarrow> [row e])"
begin

text \<open>The ports of a run that sends its events to the sink, and no other port writes to it.\<close>

definition sends :: "'w loop_ports \<Rightarrow> bool" where
  "sends p = (pt_emit p = emit \<and> trail_left trail p)"

abbreviation same :: "'r list \<Rightarrow> ('w loop_state, 'a) prog \<Rightarrow> bool" where
  "same base m \<equiv> keeps (mirrored trail row base) m"

lemma same_world: "leaves trail m \<Longrightarrow> same base (on_world m)"
proof -
  assume m: "leaves trail m"
  have "mirrored trail row base (snd (on_world m s)) = mirrored trail row base s" for s
    using m [unfolded leaves_def, rule_format, of "ls_world s"]
    by (cases "m (ls_world s)") (simp add: mirrored_def on_world_def)
  then show ?thesis by (simp add: keeps_def)
qed

lemma same_update: "(\<And>s. ls_world (f s) = ls_world s \<and> ls_events (f s) = ls_events s) \<Longrightarrow> same base (update_state f)"
  by (simp add: keeps_def mirrored_def update_state_def)

lemma ports:
  assumes "sends p"
  shows "leaves trail (rt_observe (pt_runtime p))"
  "rt_fresh_observation (pt_runtime p) = Some m \<Longrightarrow> leaves trail m"
  "leaves trail (rt_execute (pt_runtime p) c)" "leaves trail (pt_model p x)"
  "leaves trail (pt_prepare_input p q o')" "leaves trail (pt_authorize p q o' a f)"
  "leaves trail (pt_verify p y)" "pt_domain p = Some (b, g) \<Longrightarrow> leaves trail (g q o')"
  "trail (snd (pt_clock p w)) = trail w"
  using assms unfolding sends_def trail_left_def by blast+

lemma same_clock:
  assumes p: "sends p"
  shows "same base (read_clock p)"
proof -
  have "leaves trail (\<lambda>w. case pt_clock p w of (now, v) \<Rightarrow> (Ok now, v))"
    unfolding leaves_def by (metis (no_types, lifting) ports(9) [OF p] prod.case_eq_if snd_conv)
  then show ?thesis unfolding read_clock_def by (rule same_world)
qed

lemma same_emit:
  assumes p: "sends p"
  shows "same base (emit_event p run stage c ob fp details)"
proof -
  have "mirrored trail row base u" if m: "mirrored trail row base s"
    and run: "prog_bind (on_world (pt_emit p e)) (\<lambda>_. update_state (\<lambda>s. s\<lparr>ls_events := ls_events s @ [e]\<rparr>)) s = (r, u)" for s r u e
  proof -
    obtain q v where sent: "emit e (ls_world s) = (q, v)" by force
    from p have "pt_emit p = emit" by (simp add: sends_def)
    with recorded [OF sent] m run sent show ?thesis
      by (cases q) (auto simp: mirrored_def prog_bind_def on_world_def update_state_def)
  qed
  then have send: "same base (prog_bind (on_world (pt_emit p e)) (\<lambda>_. update_state (\<lambda>s. s\<lparr>ls_events := ls_events s @ [e]\<rparr>)))" for e
    by (intro keeps_runs)
  show ?thesis
    unfolding emit_event_def by (rule keeps_bind [OF same_clock [OF p]], rule keeps_bind [OF keeps_lift(2)], rule send)
qed

lemma same_terminal:
  assumes p: "sends p"
  shows "same base (terminal_report p run status c ap ck)"
proof -
  have "mirrored trail row base u" if run: "terminal_report p run status c ap ck s = (r, u)" and m: "mirrored trail row base s" for s r u
  proof -
    from terminal_effect [OF run] obtain x where
      "emit_event p run Stage_terminal c (ls_last_observation_id s) None [(''status'', JStr (loop_status_value status))] s = (x, u)"
      by blast
    from keepsD [OF same_emit [OF p] this m] show ?thesis .
  qed
  then show ?thesis by (intro keeps_runs)
qed

lemma same_halt:
  assumes p: "sends p"
  shows "same base (halt_with p run status c)"
  unfolding halt_with_def by (intro keeps_bind same_terminal [OF p] keeps_lift)

lemma same_observe:
  assumes p: "sends p"
  shows "same base (observe_page p run)"
  unfolding observe_page_def
  by (intro keeps_bind same_world same_update keeps_lift same_emit [OF p]) (simp_all add: ports [OF p] split: option.split)

lemma same_consume: "same base (consume_retry p)"
  by (simp add: keeps_def mirrored_def consume_retry_def)

lemma same_reobserve:
  assumes p: "sends p"
  shows "same base (reobserve_or_halt p run)"
  unfolding reobserve_or_halt_def retry_reobserve_def
  by (intro keeps_bind same_consume)
    (auto simp: same_halt [OF p] split: option.split intro!: keeps_trying keeps_bind same_observe [OF p])

lemma same_verify:
  assumes p: "sends p"
  shows "same base (verify_outcome p run before after decision source result effect fp)"
  unfolding verify_outcome_def by (intro keeps_bind keeps_trying same_world keeps_lift same_emit [OF p] ports [OF p])

lemma same_decide:
  assumes p: "sends p"
  shows "same base (decide_next p run observation)"
proof -
  have model: "same base (decide_by_model p run observation)"
    unfolding decide_by_model_def by (intro keeps_bind same_world keeps_lift ports [OF p])
  then show ?thesis
    unfolding decide_next_def
    by (auto split: option.split intro!: keeps_bind same_world ports [OF p])
qed

lemma same_continue:
  assumes p: "sends p"
  shows "same base (continue_after p run effect after verdict)"
  unfolding continue_after_def
  by (auto simp: same_halt [OF p] split: option.split intro!: keeps_bind same_consume)

lemma same_after_action:
  assumes p: "sends p"
  shows "same base (after_action p run observation decision source command result)"
proof -
  have marks: "same base (update_state (count_action b))" "same base (update_state (\<lambda>s. s\<lparr>ls_effect_may_have_started := True\<rparr>))" for b
    by (intro same_update; simp add: count_action_def)+
  show ?thesis
    unfolding after_action_parts suspend_for_probe_def
    by (intro keeps_bind marks same_emit [OF p])
      (auto intro!: keeps_bind keeps_trying same_verify [OF p] same_terminal [OF p] same_observe [OF p] same_halt [OF p] same_continue [OF p] marks)
qed

lemma same_execute:
  assumes p: "sends p"
  shows "same base (execute_command p run observation decision source command)"
  unfolding execute_command_def Let_def
  by (intro keeps_bind keeps_trying same_emit [OF p] same_update same_world ports [OF p] same_after_action [OF p])
    (simp_all add: same_halt [OF p] same_reobserve [OF p] split: exc_class.split)

lemma same_act:
  assumes p: "sends p"
  shows "same base (act_on p run observation decision source)"
proof -
  have perform: "same base (perform_authorized p run observation decision source f policy)" for f policy
    unfolding perform_authorized_def
    by (auto simp: same_halt [OF p] same_reobserve [OF p] same_execute [OF p] split: sum.split intro!: keeps_bind same_clock [OF p])
  show ?thesis
    unfolding act_on_def
    by (auto simp: same_halt [OF p] same_reobserve [OF p] perform split: option.split policy_disposition.split
      intro!: keeps_bind keeps_trying same_world ports [OF p] same_emit [OF p] same_terminal [OF p])
qed

lemma same_claim:
  assumes p: "sends p"
  shows "same base (claim_success p run observation decision source)"
  unfolding claim_success_def
  by (auto simp: same_halt [OF p] same_reobserve [OF p] split: option.split intro!: keeps_bind keeps_trying same_verify [OF p] same_observe [OF p])

lemma same_pass:
  assumes p: "sends p"
  shows "same base (loop_pass p run observation)"
  unfolding loop_pass_def
  by (auto simp: same_halt [OF p] same_claim [OF p] same_act [OF p] split: decision_kind.split
    intro!: keeps_bind keeps_trying same_decide [OF p] same_emit [OF p])

lemma same_loop:
  assumes p: "sends p"
  shows "same base (loop_from p run left iteration observation)"
proof (induction left arbitrary: iteration observation)
  case 0
  show ?case by (simp add: same_terminal [OF p])
next
  case (Suc left)
  have "same base (update_state (\<lambda>s. s\<lparr>ls_iterations := iteration\<rparr>))" by (rule same_update) simp
  with Suc show ?case by (auto split: loop_flow.split intro!: keeps_bind same_pass [OF p])
qed

lemma trail_of_run:
  assumes p: "sends p" and run: "browser_loop_run p run w = (Ok q, t)"
  shows "trail (ls_world t) = trail w @ map row (lp_events q)"
proof -
  have late: "same (trail w) (\<lambda>s. terminal_report p run (f s) c ap ck s)" for f c ap ck
    by (rule keeps_runs) (rule keepsD [OF same_terminal [OF p]])
  have loop: "same (trail w) (run_loop p run)"
    unfolding run_loop_def by (intro keeps_trying same_observe [OF p] same_terminal [OF p] same_loop [OF p])
  have "mirrored trail row (trail w) (initial_loop_state w)"
    by (simp add: mirrored_def initial_loop_state_def)
  with keepsD [OF keeps_trying [OF loop late keeps_lift(1)] run [unfolded browser_loop_run_def]]
  have "mirrored trail row (trail w) t" .
  moreover from browser_loop_post [of p run w] run have "lp_events q = ls_events t"
    by (auto simp: report_post_def report_of_def)
  ultimately show ?thesis by (simp add: mirrored_def)
qed

end

text \<open>The SQL sink is one: its trail is the audit table without the random identifiers.\<close>

interpretation audit: event_trail "sink_emit k new_id" sink_trail "loop_event_row k []" for k new_id
  by unfold_locales (rule sink_records)

text \<open>
  C11. When a run sends its events to the audit sink and no other port writes the audit
  table, then at its end, whatever the run did and whether or not the sink failed on the way, the table
  holds the rows it had and after them one row for each event of the report, in the order of the report.
  Rows are compared without their random identifiers.
\<close>

theorem audit_trail_complete:
  assumes "pt_emit p = sink_emit k new_id" and "trail_left sink_trail p"
    and "browser_loop_run p run w = (Ok q, t)"
  shows "map anonymous (governance_audit_events (ls_world t)) =
    map anonymous (governance_audit_events w) @ map (loop_event_row k []) (lp_events q)"
proof -
  have "audit.sends k new_id p" using assms(1,2) by (simp add: audit.sends_def)
  from audit.trail_of_run [OF this assms(3)] show ?thesis by (simp add: sink_trail_def)
qed

text \<open>A run whose model says at once that it is done, over the audit table of one row.\<close>

definition sample_sink :: audit_sink where
  "sample_sink = \<lparr>sk_organization_id = ''o'', sk_contract_id = ''c'', sk_mode = ''audit'', sk_policy_version = None\<rparr>"

definition sample_row_id :: "loop_event \<Rightarrow> audit_row list \<Rightarrow> string" where
  "sample_row_id e rows = replicate (length rows) CHR ''a''"

definition sample_sink_ports :: "journal_db loop_ports" where
  "sample_sink_ports =
     \<lparr>pt_runtime = \<lparr>rt_observe = Pair (Ok sample_raw), rt_fresh_observation = None,
        rt_execute = (\<lambda>c. Pair (Raise StaleObservationError []))\<rparr>,
      pt_model = (\<lambda>x. Pair (Ok \<lparr>dn_kind = Decide_SUCCESS, dn_observation_id = mi_observation_id x, dn_action = None,
        dn_reason_code = ''NEXT''\<rparr>)),
      pt_prepare_input = (\<lambda>r o'. Pair (Ok \<lparr>mi_observation_id = lo_observation_id o', mi_goal = rc_goal r, mi_url = lo_url o',
        mi_dom = [], mi_screenshots = [], mi_iframes = [], mi_allowed_action_kinds = []\<rparr>)),
      pt_authorize = (\<lambda>r o' a f. Pair (Raise ValueError [])),
      pt_verify = (\<lambda>q. Pair (Ok \<lparr>vf_disposition = Verify_SUCCEEDED, vf_reason_code = ''DONE'', vf_evidence_refs = []\<rparr>)),
      pt_emit = sink_emit sample_sink sample_row_id, pt_domain = None, pt_clock = Pair 0, pt_secret = ''s'',
      pt_config = default_loop_config\<rparr>"

definition sample_audit_db :: journal_db where
  "sample_audit_db = \<lparr>execution_permits = [], execution_attempts = [], pending_actions = [], approval_requests = [], tasks = [], steps = [],
     governance_audit_events = []\<rparr>"

theorem audit_trail_complete_witness:
  "\<exists>q t. browser_loop_run sample_sink_ports sample_loop_run sample_audit_db = (Ok q, t) \<and>
     map anonymous (governance_audit_events (ls_world t)) = map (loop_event_row sample_sink []) (lp_events q)"
proof -
  obtain q t where run: "browser_loop_run sample_sink_ports sample_loop_run sample_audit_db = (Ok q, t)"
    using browser_loop_post [of sample_sink_ports sample_loop_run sample_audit_db] by blast
  have "pt_emit sample_sink_ports = sink_emit sample_sink sample_row_id" "trail_left sink_trail sample_sink_ports"
    by (simp_all add: sample_sink_ports_def trail_left_def leaves_def)
  from audit_trail_complete [OF this run] run show ?thesis by (simp add: sample_audit_db_def)
qed

end
