(* ===== verification/PageRuntime.thy ===== *)
theory PageRuntime
  imports PersistedExecution Analysis
begin

text \<open>
  \<open>enterprise/browser_loop/runtime.py\<close>: the runtime of the loop over an injected Playwright page, and the
  session that owns it. The methods of a page are programs on the world of the page; its interactables
  script returns a JSON value. A screenshot is its bytes. Creating a locator reaches nothing: its use does.
\<close>

section \<open>The page and the runtime\<close>

record page_frame =
  fm_identity :: nat
  fm_url :: string
  fm_name :: json
  fm_parent :: "nat option"

record 'p page_ops =
  pg_url :: "('p, string) prog"
  pg_title :: "('p, string) prog"
  pg_content :: "('p, string) prog"
  pg_screenshot :: "('p, string) prog"
  pg_frames :: "('p, page_frame list) prog"
  pg_main_frame :: "('p, page_frame option) prog"
  pg_interactables :: "('p, json) prog"
  pg_count :: "string \<Rightarrow> ('p, nat) prog"
  pg_click :: "string \<Rightarrow> ('p, unit) prog"
  pg_fill :: "string \<Rightarrow> string \<Rightarrow> ('p, unit) prog"
  pg_select_option :: "string \<Rightarrow> string option \<Rightarrow> ('p, unit) prog"
  pg_press :: "string \<Rightarrow> string \<Rightarrow> ('p, unit) prog"
  pg_goto :: "string option \<Rightarrow> ('p, unit) prog"
  pg_scroll_by :: "int \<Rightarrow> int \<Rightarrow> ('p, unit) prog"
  pg_wait :: "rat \<Rightarrow> ('p, unit) prog"
  pg_close :: "('p, unit) prog option"

record 'p page_runtime =
  pr_page :: "'p page_ops"
  pr_capture_screenshot :: bool
  pr_max_elements :: nat
  pr_clock :: "'p \<Rightarrow> time \<times> 'p"
  pr_close_page :: "('p, unit) prog option"

record 'p page_session =
  pgs_page :: 'p
  pgs_selectors :: "(string \<times> string) list"
  pgs_closed :: bool

definition make_page_runtime ::
  "'p page_ops \<Rightarrow> bool \<Rightarrow> nat \<Rightarrow> ('p \<Rightarrow> time \<times> 'p) \<Rightarrow> ('p, unit) prog option \<Rightarrow> 'p page_runtime res" where
  "make_page_runtime page capture_screenshot max_elements clock close_page =
     (if max_elements < 1 then Raise ValueError ''max_elements must be positive''
      else Ok \<lparr>pr_page = page, pr_capture_screenshot = capture_screenshot, pr_max_elements = max_elements,
              pr_clock = clock, pr_close_page = close_page\<rparr>)"

definition fresh_session :: "'p \<Rightarrow> 'p page_session" where
  "fresh_session p = \<lparr>pgs_page = p, pgs_selectors = [], pgs_closed = False\<rparr>"

definition at_page :: "('p, 'a) prog \<Rightarrow> ('p page_session, 'a) prog" where
  "at_page m s = (case m (pgs_page s) of (r, p) \<Rightarrow> (r, s\<lparr>pgs_page := p\<rparr>))"

definition no_effect :: "string \<Rightarrow> exn" where
  "no_effect text = Exc (BrowserRuntimeError False) text"

text \<open>\<open>except Exception as exc: raise BrowserRuntimeError(f"... failed: {type(exc).__name__}")\<close>\<close>

definition page_try :: "string \<Rightarrow> ('s, 'a) prog \<Rightarrow> ('s, 'a) prog" where
  "page_try what m = trying m
     (\<lambda>e. lift_res (Inl (no_effect (what @ '' failed: '' @ exc_name (exc_of e))))) (\<lambda>x. lift_res (Ok x))"

definition ensure_open :: "('p page_session, unit) prog" where
  "ensure_open = lift_read (\<lambda>s. if pgs_closed s then Inl (no_effect ''Browser runtime is closed'') else Ok ())"

section \<open>Observing\<close>

record page_state =
  ws_url :: string
  ws_title :: "string option"
  ws_page_html :: string

definition read_page_state :: "'p page_runtime \<Rightarrow> ('p page_session, page_state) prog" where
  "read_page_state r =
     prog_bind ensure_open (\<lambda>_.
     page_try ''Browser page state''
       (prog_bind (at_page (pg_url (pr_page r))) (\<lambda>url.
        prog_bind (at_page (pg_title (pr_page r))) (\<lambda>title.
        prog_bind (at_page (pg_content (pr_page r))) (\<lambda>page_html.
        lift_res (Ok \<lparr>ws_url = url, ws_title = Some title, ws_page_html = page_html\<rparr>))))))"

definition page_screenshot :: "'p page_runtime \<Rightarrow> ('p page_session, string) prog" where
  "page_screenshot r = prog_bind ensure_open (\<lambda>_. page_try ''Browser screenshot'' (at_page (pg_screenshot (pr_page r))))"

definition optional_string :: "json \<Rightarrow> string option" where
  "optional_string value =
     (if value = JNull then None else (let text = strip (py_str value) in if text = [] then None else Some text))"

text \<open>The names of the frames by identity: the main frame first, the others in order.\<close>

definition frame_names :: "page_frame \<Rightarrow> page_frame list \<Rightarrow> (nat \<times> string) list" where
  "frame_names main_frame frames = fold (\<lambda>f names.
     if fm_identity f \<noteq> fm_identity main_frame \<and> map_of names (fm_identity f) = None
     then names @ [(fm_identity f, ''frame-'' @ pad_int 4 (int (length names)))] else names)
   frames [(fm_identity main_frame, ''main'')]"

definition frame_metadata :: "(nat \<times> string) list \<Rightarrow> page_frame \<Rightarrow> browser_frame" where
  "frame_metadata names f =
     \<lparr>bf_frame_id = the (map_of names (fm_identity f)), bf_url = fm_url f, bf_name = optional_string (fm_name f),
      bf_parent_frame_id = (case fm_parent f of None \<Rightarrow> None | Some i \<Rightarrow> map_of names i)\<rparr>"

definition enumerate_iframes :: "'p page_runtime \<Rightarrow> ('p page_session, browser_frame list) prog" where
  "enumerate_iframes r =
     prog_bind ensure_open (\<lambda>_.
     prog_bind (page_try ''Browser frame enumeration'' (at_page (pg_frames (pr_page r)))) (\<lambda>frames.
     case frames of
       [] \<Rightarrow> lift_res (Ok [])
     | first # _ \<Rightarrow>
         prog_bind (at_page (pg_main_frame (pr_page r))) (\<lambda>main.
         (let main_frame = (case main of Some f \<Rightarrow> f | None \<Rightarrow> first);
              names = frame_names main_frame frames
          in lift_res (Ok (map (frame_metadata names)
               (filter (\<lambda>f. fm_identity f \<noteq> fm_identity main_frame) frames)))))))"

definition element_name :: "nat \<Rightarrow> string" where
  "element_name index = ''ap-'' @ pad_int 4 (int index)"

definition scraped_element :: "nat \<Rightarrow> jobject \<Rightarrow> browser_element" where
  "scraped_element index item =
     \<lparr>be_element_id = element_name index,
      be_tag_name = (let t = get_value item ''tag_name'' in if json_truthy t then py_str t else ''unknown''),
      be_role = optional_string (get_value item ''role''), be_name = optional_string (get_value item ''name''),
      be_text = optional_string (get_value item ''text''),
      be_enabled = (case map_of item ''enabled'' of None \<Rightarrow> True | Some v \<Rightarrow> json_truthy v)\<rparr>"

text \<open>An item without a selector is skipped and keeps its position.\<close>

fun scraped_item :: "nat \<times> json \<Rightarrow> (browser_element \<times> string) list" where
  "scraped_item (index, JObj item) =
     (case get_value item ''selector'' of JStr selector \<Rightarrow> [(scraped_element index item, selector)] | _ \<Rightarrow> [])"
| "scraped_item _ = []"

definition scraped_elements :: "nat \<Rightarrow> json list \<Rightarrow> (browser_element \<times> string) list" where
  "scraped_elements max_elements items =
     concat (map scraped_item (zip [0..<length items] (take max_elements items)))"

text \<open>\<open>json.dumps\<close> of the elements without \<open>None\<close>, in the order of their fields.\<close>

definition element_dump :: "browser_element \<Rightarrow> jobject" where
  "element_dump e =
     (let opt = (\<lambda>k v. case v of None \<Rightarrow> [] | Some x \<Rightarrow> [(k, JStr x)])
      in [(''element_id'', JStr (be_element_id e)), (''tag_name'', JStr (be_tag_name e))] @
         opt ''role'' (be_role e) @ opt ''name'' (be_name e) @ opt ''text'' (be_text e) @
         [(''enabled'', JBool (be_enabled e))])"

definition model_dom_text :: "browser_element list \<Rightarrow> string" where
  "model_dom_text elements =
     ''['' @ join_with '','' (map (\<lambda>e. CHR 0x7B # join_with '',''
        (map (\<lambda>(k, v). dump_string True k @ '':'' @ dumps True v) (element_dump e)) @ [CHR 0x7D]) elements) @ '']''"

definition capture_tree :: "'p page_runtime \<Rightarrow> ('p page_session, string \<times> browser_element list) prog" where
  "capture_tree r =
     prog_bind (page_try ''Browser interactable tree'' (at_page (pg_interactables (pr_page r)))) (\<lambda>raw.
     case raw of
       JArr items \<Rightarrow>
         (let scraped = scraped_elements (pr_max_elements r) items; elements = map fst scraped
          in (\<lambda>s. (Ok (model_dom_text elements, elements),
               s\<lparr>pgs_selectors := map (\<lambda>(e, selector). (be_element_id e, selector)) scraped\<rparr>)))
     | _ \<Rightarrow> lift_res (Inl (no_effect ''Browser returned an invalid interactable snapshot'')))"

definition normalized_tree :: "'p page_runtime \<Rightarrow> ('p page_session, string) prog" where
  "normalized_tree r = prog_bind ensure_open (\<lambda>_. prog_bind (capture_tree r) (\<lambda>x. lift_res (Ok (fst x))))"

definition runtime_observe :: "'p page_runtime \<Rightarrow> ('p page_session, raw_observation) prog" where
  "runtime_observe r =
     prog_bind ensure_open (\<lambda>_.
     prog_bind (read_page_state r) (\<lambda>state.
     prog_bind (capture_tree r) (\<lambda>tree.
     prog_bind (if pr_capture_screenshot r then prog_bind (page_screenshot r) (\<lambda>b. lift_res (Ok [b]))
                else lift_res (Ok [])) (\<lambda>screenshots.
     prog_bind (enumerate_iframes r) (\<lambda>iframes.
     prog_bind (at_page (\<lambda>p. case pr_clock r p of (now, q) \<Rightarrow> (Ok now, q))) (\<lambda>captured_at.
     lift_res (Ok \<lparr>ro_url = ws_url state, ro_title = ws_title state, ro_page_html = ws_page_html state,
       ro_model_dom = fst tree, ro_screenshots = screenshots, ro_elements = snd tree, ro_iframes = iframes,
       ro_captured_at = captured_at\<rparr>)))))))"

section \<open>Acting\<close>

definition snapshot_hash :: "string \<Rightarrow> string \<Rightarrow> string" where
  "snapshot_hash url html = sha256 (url @ [CHR 0x0A] @ html)"

definition validate_command :: "'p page_runtime \<Rightarrow> authorized_action \<Rightarrow> ('p page_session, unit) prog" where
  "validate_command r command =
     (let authorization = az_authorization command in
      prog_bind ensure_open (\<lambda>_.
      prog_bind (lift_res (res_bind (compare_digest (ea_action_fingerprint authorization) (az_action_fingerprint command))
        (\<lambda>same. if same then compare_digest (ea_observation_hash authorization) (az_observation_id command)
                else Ok False))) (\<lambda>bound.
      if \<not> bound then lift_res (Inl (no_effect ''Execution authorization binding mismatch''))
      else
        prog_bind (lift_res (require_allowed_profile (ea_effect authorization) (az_execution_profile command))) (\<lambda>_.
        prog_bind (at_page (pg_content (pr_page r))) (\<lambda>current_html.
        prog_bind (at_page (pg_url (pr_page r))) (\<lambda>url.
        prog_bind (lift_res (compare_digest (snapshot_hash url current_html) (az_expected_snapshot_hash command))) (\<lambda>same.
        if same then lift_res (Ok ())
        else lift_res (Raise StaleObservationError ''Browser page changed after observation''))))))))"

text \<open>\<open>self._selectors.get(command.action.element_id or "")\<close>\<close>

definition selector_of :: "browser_action \<Rightarrow> 'p page_session \<Rightarrow> string option" where
  "selector_of action s = map_of (pgs_selectors s) (case ac_element_id action of None \<Rightarrow> [] | Some i \<Rightarrow> i)"

definition runtime_preflight :: "'p page_runtime \<Rightarrow> authorized_action \<Rightarrow> ('p page_session, unit) prog" where
  "runtime_preflight r command =
     prog_bind (validate_command r command) (\<lambda>_.
     if ac_kind (az_action command) \<in> element_action_kinds then
       prog_bind (lift_read (\<lambda>s. Ok (selector_of (az_action command) s))) (\<lambda>found.
       case found of
         None \<Rightarrow> lift_res (Raise StaleObservationError ''Observed element is no longer addressable'')
       | Some selector \<Rightarrow>
           prog_bind (at_page (pg_count (pr_page r) selector)) (\<lambda>n.
           if n \<noteq> 1 then lift_res (Raise StaleObservationError ''Observed element is no longer unique'')
           else lift_res (Ok ())))
     else lift_res (Ok ()))"

fun press_keys :: "'p page_ops \<Rightarrow> string \<Rightarrow> string list \<Rightarrow> ('p, unit) prog" where
  "press_keys page selector [] = lift_res (Ok ())"
| "press_keys page selector (k # keys) = prog_bind (pg_press page selector k) (\<lambda>_. press_keys page selector keys)"

text \<open>The one call of the page an action makes, on the selector of its element.\<close>

definition page_call :: "'p page_ops \<Rightarrow> browser_action \<Rightarrow> string \<Rightarrow> ('p, unit) prog" where
  "page_call page action selector = (case ac_kind action of
     Kind_CLICK \<Rightarrow> pg_click page selector
   | Kind_INPUT_TEXT \<Rightarrow> pg_fill page selector (case ac_text action of None \<Rightarrow> [] | Some t \<Rightarrow> t)
   | Kind_SELECT_OPTION \<Rightarrow> pg_select_option page selector (ac_option_value action)
   | Kind_KEYPRESS \<Rightarrow> press_keys page selector (ac_keys action)
   | Kind_GOTO_URL \<Rightarrow> pg_goto page (ac_url action)
   | Kind_SCROLL \<Rightarrow> pg_scroll_by page (ac_scroll_x action) (ac_scroll_y action)
   | Kind_WAIT \<Rightarrow> pg_wait page (ac_wait_seconds action * 1000))"

definition is_runtime_error :: "exn \<Rightarrow> bool" where
  "is_runtime_error e = (exc_of e \<in> {StaleObservationError, BrowserRuntimeError True, BrowserRuntimeError False})"

definition action_failure :: "bool \<Rightarrow> exn \<Rightarrow> exn" where
  "action_failure effect_started e =
     (if is_runtime_error e then e
      else Exc (BrowserRuntimeError effect_started) (''Playwright action failed: '' @ exc_name (exc_of e)))"

definition runtime_execute_preflighted ::
  "'p page_runtime \<Rightarrow> authorized_action \<Rightarrow> ('p page_session, browser_result) prog" where
  "runtime_execute_preflighted r command =
     (let action = az_action command;
          invoke = (\<lambda>selector. trying (at_page (page_call (pr_page r) action selector))
            (\<lambda>e. lift_res (Inl (action_failure True e)))
            (\<lambda>_. lift_res (Ok \<lparr>br_completed = True, br_effect_may_have_started = True, br_detail_code = ''ACTION_COMPLETED'',
               br_pending_result_probe = False, br_execution_checkpoint = None\<rparr>)))
      in if ac_kind action \<in> element_action_kinds then
           (case require_execution_mechanism (Some (az_execution_profile command)) LOCATOR of
              Inl e \<Rightarrow> lift_res (Inl (action_failure False e))
            | Inr _ \<Rightarrow> prog_bind (lift_read (\<lambda>s. Ok (selector_of action s))) (\<lambda>found.
                case found of
                  None \<Rightarrow> lift_res (Raise StaleObservationError ''Observed element is no longer addressable'')
                | Some selector \<Rightarrow> invoke selector))
         else invoke [])"

definition runtime_execute :: "'p page_runtime \<Rightarrow> authorized_action \<Rightarrow> ('p page_session, browser_result) prog" where
  "runtime_execute r command = prog_bind (runtime_preflight r command) (\<lambda>_. runtime_execute_preflighted r command)"

text \<open>The runtime in the place of the runtime of a persisted executor.\<close>

definition page_guarded :: "'p page_runtime \<Rightarrow> 'p page_session guarded_runtime" where
  "page_guarded r =
     \<lparr>gr_observe = runtime_observe r, gr_fresh_observation = Some (runtime_observe r), gr_execute = runtime_execute r,
      gr_preflight = runtime_preflight r, gr_execute_preflighted = runtime_execute_preflighted r\<rparr>"

section \<open>Sessions\<close>

definition runtime_close :: "'p page_runtime \<Rightarrow> ('p page_session, unit) prog" where
  "runtime_close r s =
     (if pgs_closed s then (Ok (), s)
      else case pr_close_page r of
        None \<Rightarrow> (Inl (no_effect ''Browser runtime does not own the injected page session''), s)
      | Some close \<Rightarrow> prog_bind (page_try ''Browser runtime close'' (at_page close)) (\<lambda>_ t. (Ok (), t\<lparr>pgs_closed := True\<rparr>)) s)"

record 'p managed_session =
  mg_session_id :: string
  mg_runtime :: "'p page_runtime"
  mg_closed :: bool
  mg_session :: "'p page_session"

definition managed_close :: "('p managed_session, unit) prog" where
  "managed_close m =
     (if mg_closed m then (Ok (), m)
      else case runtime_close (mg_runtime m) (mg_session m) of
        (Inl e, s) \<Rightarrow> (Inl e, m\<lparr>mg_session := s\<rparr>)
      | (Inr _, s) \<Rightarrow> (Ok (), m\<lparr>mg_session := s, mg_closed := True\<rparr>))"

text \<open>
  \<open>PlaywrightBrowserSessionFactory.open\<close> with the options of its runtimes. The page \<open>open_page\<close> gives is
  the record of its methods; the identifier of a session without one asked for is \<open>agentpact-\<close> and a
  random number, the argument.
\<close>

definition open_session ::
  "(string option \<Rightarrow> ('p, 'p page_ops option) prog) \<Rightarrow> bool \<Rightarrow> nat \<Rightarrow> ('p \<Rightarrow> time \<times> 'p) \<Rightarrow> string \<Rightarrow>
   string option \<Rightarrow> 'p \<Rightarrow> 'p managed_session res \<times> 'p" where
  "open_session open_page capture_screenshot max_elements clock hex session_id p =
     (case open_page session_id p of
        (Inl e, q) \<Rightarrow> (Inl (if is_runtime_error e then e
           else no_effect (''Browser session open failed: '' @ exc_name (exc_of e))), q)
      | (Inr None, q) \<Rightarrow> (Inl (no_effect ''Browser session did not provide a page''), q)
      | (Inr (Some page), q) \<Rightarrow>
          (case pg_close page of
             None \<Rightarrow> (Inl (no_effect ''Browser page cannot be closed by the session owner''), q)
           | Some close \<Rightarrow>
               (res_bind (make_page_runtime page capture_screenshot max_elements clock (Some close)) (\<lambda>r.
                  let i = (case session_id of Some i \<Rightarrow> if i = [] then ''agentpact-'' @ hex else i
                            | None \<Rightarrow> ''agentpact-'' @ hex)
                  in Ok \<lparr>mg_session_id = i, mg_runtime = r, mg_closed = False, mg_session = fresh_session q\<rparr>), q)))"


section \<open>What an action does to the page\<close>

text \<open>Playwright raises errors of its own, never those of the runtime.\<close>

definition foreign_errors :: "'p page_ops \<Rightarrow> bool" where
  "foreign_errors page =
     (\<forall>a selector p e q. page_call page a selector p = (Inl e, q) \<longrightarrow> \<not> is_runtime_error e)"

lemma at_page_runs: "at_page m s = (r, t) \<longleftrightarrow> (\<exists>p. m (pgs_page s) = (r, p) \<and> t = s\<lparr>pgs_page := p\<rparr>)"
  by (auto simp: at_page_def split: prod.splits)

lemma execute_preflighted_cases:
  assumes "runtime_execute_preflighted r command s = (x, t)"
  obtains (refused) e where "x = Inl e" "t = s" "exc_of e \<in> {StaleObservationError, BrowserRuntimeError False}"
  | (called) selector y q where "page_call (pr_page r) (az_action command) selector (pgs_page s) = (y, q)" "t = s\<lparr>pgs_page := q\<rparr>"
      "ac_kind (az_action command) \<in> element_action_kinds \<longrightarrow> selector_of (az_action command) s = Some selector"
      "case y of Inl e \<Rightarrow> x = Inl (action_failure True e)
        | Inr _ \<Rightarrow> (\<exists>b. x = Ok b \<and> br_completed b \<and> br_effect_may_have_started b)"
proof -
  have invoke: thesis if "trying (at_page (page_call (pr_page r) (az_action command) selector))
      (\<lambda>e. lift_res (Inl (action_failure True e)))
      (\<lambda>_. lift_res (Ok \<lparr>br_completed = True, br_effect_may_have_started = True, br_detail_code = ''ACTION_COMPLETED'',
         br_pending_result_probe = False, br_execution_checkpoint = None\<rparr>)) s = (x, t)"
    "ac_kind (az_action command) \<in> element_action_kinds \<longrightarrow> selector_of (az_action command) s = Some selector" for selector
    using that(1)
  proof (cases rule: trying_cases)
    case (raised e u)
    then show ?thesis using called that(2) by (auto simp: at_page_runs lift_res_def)
  next
    case (returned y u)
    then show ?thesis using called that(2) by (auto simp: at_page_runs lift_res_def)
  qed
  show ?thesis
  proof (cases "ac_kind (az_action command) \<in> element_action_kinds")
    case False
    with assms invoke [of "[]"] show ?thesis by (simp add: runtime_execute_preflighted_def Let_def)
  next
    case True
    show ?thesis
    proof (cases "require_execution_mechanism (Some (az_execution_profile command)) LOCATOR")
      case (Inl e)
      then have "exc_of e = ExecutionProfileRejected"
        by (auto simp: require_execution_mechanism_def split: if_splits)
      with Inl True assms refused show ?thesis
        by (auto simp: runtime_execute_preflighted_def Let_def lift_res_def action_failure_def is_runtime_error_def)
    next
      case (Inr u)
      show ?thesis
      proof (cases "selector_of (az_action command) s")
        case None
        with Inr True assms refused show ?thesis
          by (auto simp: runtime_execute_preflighted_def Let_def lift_res_def lift_read_def prog_bind_def)
      next
        case (Some selector)
        with Inr True assms have "trying (at_page (page_call (pr_page r) (az_action command) selector))
          (\<lambda>e. lift_res (Inl (action_failure True e)))
          (\<lambda>_. lift_res (Ok \<lparr>br_completed = True, br_effect_may_have_started = True, br_detail_code = ''ACTION_COMPLETED'',
             br_pending_result_probe = False, br_execution_checkpoint = None\<rparr>)) s = (x, t)"
          by (simp add: runtime_execute_preflighted_def Let_def lift_read_def prog_bind_def)
        with invoke Some show ?thesis by blast
      qed
    qed
  qed
qed

text \<open>
  C10. The runtime says truly whether an action may have had an effect. When executing a
  command raises an error that denies an effect, or the page changed after its observation, the page has
  not been touched. Otherwise the page got exactly the one call of the action, on the selector its element
  was observed under; a result always admits an effect.
\<close>

theorem effect_flag_honest:
  assumes "foreign_errors (pr_page r)" and "runtime_execute_preflighted r command s = (x, t)"
  shows "if (case x of Inl e \<Rightarrow> exc_of e \<in> {StaleObservationError, BrowserRuntimeError False} | Inr _ \<Rightarrow> False) then t = s
    else (\<exists>selector y. page_call (pr_page r) (az_action command) selector (pgs_page s) = (y, pgs_page t) \<and>
      (ac_kind (az_action command) \<in> element_action_kinds \<longrightarrow> selector_of (az_action command) s = Some selector) \<and>
      (case x of Inl e \<Rightarrow> \<not> is_ok y \<and> exc_of e = BrowserRuntimeError True
       | Inr b \<Rightarrow> is_ok y \<and> br_effect_may_have_started b))"
  using assms(2)
proof (cases rule: execute_preflighted_cases)
  case (refused e)
  then show ?thesis by auto
next
  case (called selector y q)
  show ?thesis
  proof (cases y)
    case (Inl e)
    with called(1) assms(1) have "\<not> is_runtime_error e" unfolding foreign_errors_def by blast
    with called Inl have x: "x = Inl (action_failure True e)" "exc_of (action_failure True e) = BrowserRuntimeError True"
      by (simp_all add: action_failure_def)
    with called(1-3) Inl show ?thesis by (auto intro!: exI [of _ selector] exI [of _ y])
  next
    case (Inr u)
    with called(4) obtain b where "x = Ok b" "br_effect_may_have_started b" by auto
    with called(1-3) Inr show ?thesis by (auto intro!: exI [of _ selector] exI [of _ y])
  qed
qed

section \<open>What a preflight establishes\<close>

definition unchanging :: "('p, 'a) prog \<Rightarrow> bool" where
  "unchanging m = (\<forall>p. snd (m p) = p)"

definition reads_only :: "'p page_ops \<Rightarrow> bool" where
  "reads_only page = (unchanging (pg_url page) \<and> unchanging (pg_content page) \<and> (\<forall>selector. unchanging (pg_count page selector)))"

lemma at_page_reads: "unchanging m \<Longrightarrow> at_page m s = (r, t) \<Longrightarrow> t = s \<and> m (pgs_page s) = (r, pgs_page s)"
  by (auto simp: at_page_runs unchanging_def dest: spec [of _ "pgs_page s"])

text \<open>
  A preflight changes nothing, and it passes only on an open runtime, for a command whose
  authorization names its fingerprint and observation, under a profile its effect allows, while the page
  shows the URL and HTML the command was authorized on; the element of the action is then addressed by a
  selector that matches once.
\<close>

theorem preflight_checks:
  assumes "reads_only (pr_page r)" and "runtime_preflight r command s = (x, t)"
  shows "t = s \<and> (is_ok x \<longrightarrow> \<not> pgs_closed s \<and>
    ea_action_fingerprint (az_authorization command) = az_action_fingerprint command \<and>
    ea_observation_hash (az_authorization command) = az_observation_id command \<and>
    is_ok (require_allowed_profile (ea_effect (az_authorization command)) (az_execution_profile command)) \<and>
    (\<exists>url html. pg_url (pr_page r) (pgs_page s) = (Ok url, pgs_page s) \<and> pg_content (pr_page r) (pgs_page s) = (Ok html, pgs_page s) \<and>
       az_expected_snapshot_hash command = sha256 (url @ [CHR 0x0A] @ html)) \<and>
    (ac_kind (az_action command) \<in> element_action_kinds \<longrightarrow>
      (\<exists>selector. selector_of (az_action command) s = Some selector \<and>
        pg_count (pr_page r) selector (pgs_page s) = (Ok 1, pgs_page s))))"
proof -
  let ?a = "az_authorization command"
  from assms(1) have reads: "unchanging (pg_url (pr_page r))" "unchanging (pg_content (pr_page r))"
      "\<And>selector. unchanging (pg_count (pr_page r) selector)"
    by (simp_all add: reads_only_def)
  have validated: "u = s \<and> (is_ok y \<longrightarrow> \<not> pgs_closed s \<and> ea_action_fingerprint ?a = az_action_fingerprint command \<and>
      ea_observation_hash ?a = az_observation_id command \<and>
      is_ok (require_allowed_profile (ea_effect ?a) (az_execution_profile command)) \<and>
      (\<exists>url html. pg_url (pr_page r) (pgs_page s) = (Ok url, pgs_page s) \<and> pg_content (pr_page r) (pgs_page s) = (Ok html, pgs_page s) \<and>
         az_expected_snapshot_hash command = sha256 (url @ [CHR 0x0A] @ html)))"
    if run: "validate_command r command s = (y, u)" for y u
  proof -
    obtain html v where content: "at_page (pg_content (pr_page r)) s = (html, v)" by force
    from at_page_reads [OF reads(2) this] have html: "v = s" "pg_content (pr_page r) (pgs_page s) = (html, pgs_page s)" by simp_all
    obtain url w where address: "at_page (pg_url (pr_page r)) s = (url, w)" by force
    from at_page_reads [OF reads(1) this] have url: "w = s" "pg_url (pr_page r) (pgs_page s) = (url, pgs_page s)" by simp_all
    from run content address html url show ?thesis
      by (auto simp: validate_command_def Let_def prog_bind_def ensure_open_def lift_read_def lift_res_def res_bind_def
          snapshot_hash_def compare_digest_def split: if_splits sum.splits)
  qed
  obtain y u where v: "validate_command r command s = (y, u)" by force
  note u = validated [OF v]
  show ?thesis
  proof (cases "is_ok y \<and> ac_kind (az_action command) \<in> element_action_kinds \<and> selector_of (az_action command) s \<noteq> None")
    case False
    with assms(2) v u show ?thesis
      by (cases y) (auto simp: runtime_preflight_def prog_bind_def lift_read_def lift_res_def split: if_splits)
  next
    case True
    then obtain selector where selector: "selector_of (az_action command) s = Some selector" by blast
    obtain n w where count: "at_page (pg_count (pr_page r) selector) s = (n, w)" by force
    from at_page_reads [OF reads(3) this] have "w = s" "pg_count (pr_page r) selector (pgs_page s) = (n, pgs_page s)" by simp_all
    with assms(2) v u True selector count show ?thesis
      by (cases y; cases n) (auto simp: runtime_preflight_def prog_bind_def lift_read_def lift_res_def split: if_splits)
  qed
qed


section \<open>What an observation addresses\<close>

lemma parse_padded: "parse_nat (pad_int w (int i)) = i"
proof -
  have "parse_nat (replicate k CHR ''0'' @ s) = parse_nat s" for k s
    by (induction k) (simp_all add: parse_nat_def)
  then show ?thesis by (simp add: pad_int_def Let_def show_int_def parse_show_nat)
qed

lemma element_name_inject: "element_name i = element_name j \<longleftrightarrow> i = j"
  by (metis element_name_def parse_padded same_append_eq)

lemma scraped_item_name: "(e, selector) \<in> set (scraped_item (i, v)) \<longleftrightarrow>
   (\<exists>item. v = JObj item \<and> get_value item ''selector'' = JStr selector \<and> e = scraped_element i item)"
  by (cases v) (auto split: json.split)

lemma length_scraped_item: "length (scraped_item x) \<le> 1"
  by (cases x rule: scraped_item.cases) (auto split: json.split)

lemma scraped_sound:
  assumes "(e, selector) \<in> set (scraped_elements n items)"
  shows "\<exists>i item. i < length items \<and> items ! i = JObj item \<and> get_value item ''selector'' = JStr selector \<and> e = scraped_element i item"
proof -
  from assms obtain i v where "(i, v) \<in> set (zip [0..<length items] (take n items))" "(e, selector) \<in> set (scraped_item (i, v))"
    by (auto simp: scraped_elements_def)
  moreover from this(1) have "i < length items \<and> items ! i = v" by (auto simp: set_zip)
  ultimately show ?thesis using scraped_item_name by blast
qed

lemma scraped_distinct: "distinct (map be_element_id (map fst (concat (map scraped_item (zip [k..<k + length vs] vs)))))"
proof (induction vs arbitrary: k)
  case (Cons v vs)
  have later: "\<exists>i. k < i \<and> be_element_id e = element_name i"
    if "(e, sel) \<in> set (concat (map scraped_item (zip [Suc k..<Suc k + length vs] vs)))" for e sel
  proof -
    from that obtain i u where "(i, u) \<in> set (zip [Suc k..<Suc k + length vs] vs)" "(e, sel) \<in> set (scraped_item (i, u))"
      by (auto simp del: upt_Suc)
    moreover from this(1) have "k < i" by (auto dest!: set_zip_leftD simp del: upt_Suc)
    ultimately show ?thesis by (auto simp: scraped_item_name scraped_element_def)
  qed
  have first: "be_element_id e = element_name k" if "(e, sel) \<in> set (scraped_item (k, v))" for e sel
    using that by (auto simp: scraped_item_name scraped_element_def)
  have one: "distinct (map be_element_id (map fst (scraped_item (k, v))))"
    using length_scraped_item [of "(k, v)"] by (cases "scraped_item (k, v)") auto
  have "[k..<k + length (v # vs)] = k # [Suc k..<Suc k + length vs]" by (simp add: upt_rec)
  then have split: "concat (map scraped_item (zip [k..<k + length (v # vs)] (v # vs))) =
      scraped_item (k, v) @ concat (map scraped_item (zip [Suc k..<Suc k + length vs] vs))" by simp
  show ?case
    unfolding split map_append distinct_append
    using one Cons.IH [of "Suc k"] first later element_name_inject by (fastforce simp del: upt_Suc)
qed simp

lemma scraped_names:
  "distinct (map be_element_id (map fst (scraped_elements n items)))" "length (scraped_elements n items) \<le> n"
proof -
  have "zip [0..<length items] (take n items) = zip [0..<0 + length (take n items)] (take n items)"
    by (rule nth_equalityI) (auto simp: min_def)
  then show "distinct (map be_element_id (map fst (scraped_elements n items)))"
    unfolding scraped_elements_def by (simp only: scraped_distinct)
  have "length (concat (map scraped_item xs)) \<le> length xs" for xs
  proof (induction xs)
    case (Cons x xs)
    with length_scraped_item [of x] show ?case by simp
  qed simp
  from this [of "zip [0..<length items] (take n items)"] show "length (scraped_elements n items) \<le> n"
    by (simp add: scraped_elements_def)
qed


text \<open>After the interactables were captured the table of selectors is what they say.\<close>

definition keeps_selectors :: "('p page_session, 'a) prog \<Rightarrow> bool" where
  "keeps_selectors m = (\<forall>s. pgs_selectors (snd (m s)) = pgs_selectors s)"

lemma selectors_at_page [simp]: "keeps_selectors (at_page m)"
  by (auto simp: keeps_selectors_def at_page_def split: prod.split)

lemma selectors_lift [simp]: "keeps_selectors (lift_res r)" "keeps_selectors (lift_read f)" "keeps_selectors ensure_open"
  by (simp_all add: keeps_selectors_def lift_res_def lift_read_def ensure_open_def)

lemma selectorsD: "keeps_selectors m \<Longrightarrow> m s = (r, t) \<Longrightarrow> pgs_selectors t = pgs_selectors s"
  by (metis keeps_selectors_def snd_conv)

lemma selectorsI: "(\<And>s r t. m s = (r, t) \<Longrightarrow> pgs_selectors t = pgs_selectors s) \<Longrightarrow> keeps_selectors m"
  unfolding keeps_selectors_def by (metis prod.collapse)

lemma selectors_bind:
  assumes "keeps_selectors m" and "\<And>x. keeps_selectors (f x)"
  shows "keeps_selectors (prog_bind m f)"
proof (rule selectorsI)
  fix s r u assume "prog_bind m f s = (r, u)"
  then show "pgs_selectors u = pgs_selectors s"
  proof (cases rule: prog_bind_cases)
    case (raised e)
    from selectorsD [OF assms(1) raised(1)] show ?thesis .
  next
    case (returned x t)
    from selectorsD [OF assms(1) returned(1)] selectorsD [OF assms(2) returned(2)] show ?thesis by simp
  qed
qed

lemma selectors_try: "keeps_selectors m \<Longrightarrow> keeps_selectors (page_try what m)"
  unfolding page_try_def by (rule selectorsI) (auto simp: lift_res_def elim!: trying_cases dest: selectorsD)

lemma selectors_reads:
  "keeps_selectors (read_page_state r)" "keeps_selectors (page_screenshot r)" "keeps_selectors (enumerate_iframes r)"
proof -
  show "keeps_selectors (read_page_state r)" "keeps_selectors (page_screenshot r)"
    unfolding read_page_state_def page_screenshot_def by (intro selectors_bind selectors_try selectors_lift selectors_at_page)+
  have "keeps_selectors (case frames of [] \<Rightarrow> lift_res (Ok [])
     | first # _ \<Rightarrow> prog_bind (at_page (pg_main_frame (pr_page r))) (\<lambda>main. lift_res (Ok (f first main))))"
    for frames and f :: "page_frame \<Rightarrow> page_frame option \<Rightarrow> browser_frame list"
    by (cases frames) (auto intro!: selectors_bind)
  then show "keeps_selectors (enumerate_iframes r)"
    unfolding enumerate_iframes_def Let_def by (intro selectors_bind selectors_try selectors_lift selectors_at_page)
qed

lemma capture_tree_ok:
  assumes "capture_tree r s = (Ok (tree, elements), t)"
  obtains items q where "pg_interactables (pr_page r) (pgs_page s) = (Ok (JArr items), q)"
    "elements = map fst (scraped_elements (pr_max_elements r) items)"
    "pgs_selectors t = map (\<lambda>(e, selector). (be_element_id e, selector)) (scraped_elements (pr_max_elements r) items)"
  using assms that
  by (auto simp: capture_tree_def prog_bind_ok page_try_def trying_def at_page_def lift_res_def Let_def
      split: prod.splits sum.splits json.splits)

text \<open>
  C12. The elements of an observation come from the items the page gave, at
  most as many as allowed and under different identifiers; afterwards the identifier of each addresses
  exactly the selector of its own item.
\<close>

theorem observed_elements_addressable:
  assumes "runtime_observe r s = (Ok ob, t)"
  shows "distinct (map be_element_id (ro_elements ob)) \<and> length (ro_elements ob) \<le> pr_max_elements r \<and>
    (\<exists>items p q. pg_interactables (pr_page r) p = (Ok (JArr items), q) \<and>
      (\<forall>e \<in> set (ro_elements ob). \<exists>i item selector. i < length items \<and> items ! i = JObj item \<and>
        get_value item ''selector'' = JStr selector \<and> e = scraped_element i item \<and>
        map_of (pgs_selectors t) (be_element_id e) = Some selector))"
proof -
  define R where "R state tree = prog_bind (if pr_capture_screenshot r then prog_bind (page_screenshot r) (\<lambda>b. lift_res (Ok [b]))
                else lift_res (Ok [])) (\<lambda>screenshots.
     prog_bind (enumerate_iframes r) (\<lambda>iframes.
     prog_bind (at_page (\<lambda>p. case pr_clock r p of (now, q) \<Rightarrow> (Ok now, q))) (\<lambda>captured_at.
     lift_res (Ok \<lparr>ro_url = ws_url state, ro_title = ws_title state, ro_page_html = ws_page_html state,
       ro_model_dom = fst tree, ro_screenshots = screenshots, ro_elements = snd tree, ro_iframes = iframes,
       ro_captured_at = captured_at\<rparr>))))" for state :: page_state and tree :: "string \<times> browser_element list"
  have parts: "runtime_observe r = prog_bind ensure_open (\<lambda>_. prog_bind (read_page_state r) (\<lambda>state.
      prog_bind (capture_tree r) (R state)))"
    by (simp add: runtime_observe_def R_def [abs_def])
  from assms [unfolded parts prog_bind_ok] obtain state u captured v
    where tree: "capture_tree r u = (Ok captured, v)" and last: "R state captured v = (Ok ob, t)" by blast
  have "keeps_selectors (R state captured)"
    unfolding R_def by (auto intro!: selectors_bind selectors_reads)
  from selectorsD [OF this last] have t: "pgs_selectors t = pgs_selectors v" .
  from last have ob: "ro_elements ob = snd captured"
    by (auto simp: R_def prog_bind_ok lift_res_def)
  obtain shown elements where captured: "captured = (shown, elements)" by fastforce
  from capture_tree_ok [OF tree [unfolded captured]] obtain items q where given: "pg_interactables (pr_page r) (pgs_page u) = (Ok (JArr items), q)"
    and elements: "elements = map fst (scraped_elements (pr_max_elements r) items)"
    and table: "pgs_selectors v = map (\<lambda>(e, selector). (be_element_id e, selector)) (scraped_elements (pr_max_elements r) items)"
    by blast
  let ?scraped = "scraped_elements (pr_max_elements r) items"
  have keys: "map fst (pgs_selectors v) = map be_element_id elements"
    by (simp add: table elements case_prod_unfold comp_def)
  have "\<exists>i item selector. i < length items \<and> items ! i = JObj item \<and> get_value item ''selector'' = JStr selector \<and>
      e = scraped_element i item \<and> map_of (pgs_selectors t) (be_element_id e) = Some selector"
    if "e \<in> set elements" for e
  proof -
    from that obtain selector where mem: "(e, selector) \<in> set ?scraped" by (auto simp: elements)
    then have "(be_element_id e, selector) \<in> set (pgs_selectors v)" by (force simp: table)
    moreover have "distinct (map fst (pgs_selectors v))" using scraped_names(1) [of "pr_max_elements r" items] by (simp add: keys elements)
    ultimately have "map_of (pgs_selectors t) (be_element_id e) = Some selector" by (simp add: t)
    with scraped_sound [OF mem] show ?thesis by metis
  qed
  with given have "\<exists>items p q. pg_interactables (pr_page r) p = (Ok (JArr items), q) \<and>
      (\<forall>e \<in> set elements. \<exists>i item selector. i < length items \<and> items ! i = JObj item \<and>
        get_value item ''selector'' = JStr selector \<and> e = scraped_element i item \<and>
        map_of (pgs_selectors t) (be_element_id e) = Some selector)" by blast
  moreover have "ro_elements ob = elements" by (simp add: ob captured)
  moreover have "distinct (map be_element_id elements)" "length elements \<le> pr_max_elements r"
    using scraped_names [of "pr_max_elements r" items] by (simp_all add: elements)
  ultimately show ?thesis by simp
qed


section \<open>A page with a button that can disappear\<close>

record button_page =
  bp_shown :: bool
  bp_clicks :: "string list"

definition demo_button :: "string \<Rightarrow> string \<Rightarrow> json" where
  "demo_button selector name = JObj [(''selector'', JStr selector), (''tag_name'', JStr ''button''), (''name'', JStr name)]"

definition demo_page :: "button_page page_ops" where
  "demo_page =
     \<lparr>pg_url = Pair (Ok ''u''), pg_title = Pair (Ok ''t''), pg_content = Pair (Ok ''h''), pg_screenshot = Pair (Ok []),
      pg_frames = Pair (Ok []), pg_main_frame = Pair (Ok None),
      pg_interactables = (\<lambda>p. (Ok (JArr ((if bp_shown p then [demo_button ''#cancel'' ''Cancel''] else []) @
        [demo_button ''#pay'' ''Pay''])), p)),
      pg_count = (\<lambda>_. Pair (Ok 1)), pg_click = (\<lambda>selector p. (Ok (), p\<lparr>bp_clicks := bp_clicks p @ [selector]\<rparr>)),
      pg_fill = (\<lambda>_ _. Pair (Ok ())), pg_select_option = (\<lambda>_ _. Pair (Ok ())), pg_press = (\<lambda>_ _. Pair (Ok ())),
      pg_goto = (\<lambda>_. Pair (Ok ())), pg_scroll_by = (\<lambda>_ _. Pair (Ok ())), pg_wait = (\<lambda>_. Pair (Ok ())),
      pg_close = Some (Pair (Ok ()))\<rparr>"

definition demo_runtime :: "button_page page_runtime" where
  "demo_runtime = \<lparr>pr_page = demo_page, pr_capture_screenshot = False, pr_max_elements = 500, pr_clock = Pair 0,
     pr_close_page = Some (Pair (Ok ()))\<rparr>"

definition demo_session :: "bool \<Rightarrow> button_page page_session" where
  "demo_session shown = fresh_session \<lparr>bp_shown = shown, bp_clicks = []\<rparr>"

definition demo_click :: authorized_action where
  "demo_click =
     \<lparr>az_action = \<lparr>ac_kind = Kind_CLICK, ac_operation = ''press'', ac_element_id = Some ''ap-0000'', ac_text = None,
        ac_option_value = None, ac_url = None, ac_keys = [], ac_scroll_x = 0, ac_scroll_y = 0, ac_wait_seconds = 0\<rparr>,
      az_action_fingerprint = ''f'', az_observation_id = ''o'', az_expected_snapshot_hash = snapshot_hash ''u'' ''h'',
      az_authorization = \<lparr>ea_permit_id = ''p'', ea_action_fingerprint = ''f'', ea_observation_hash = ''o'',
        ea_idempotency_key = ''k'', ea_effect = EXTERNAL_WRITE\<rparr>,
      az_execution_profile = \<lparr>prf_mechanism = LOCATOR, prf_fallback_rank = 0, prf_evidence_refs = [''e'']\<rparr>\<rparr>"

lemma demo_names_of_elements: "element_name 0 = ''ap-0000''" "element_name (Suc 0) = ''ap-0001''"
  by code_simp+

lemma demo_scraped:
  "scraped_elements 500 [demo_button ''#pay'' ''Pay''] = [(scraped_element 0 [(''selector'', JStr ''#pay''),
     (''tag_name'', JStr ''button''), (''name'', JStr ''Pay'')], ''#pay'')]"
  "scraped_elements 500 [demo_button ''#cancel'' ''Cancel'', demo_button ''#pay'' ''Pay''] =
     [(scraped_element 0 [(''selector'', JStr ''#cancel''), (''tag_name'', JStr ''button''), (''name'', JStr ''Cancel'')], ''#cancel''),
      (scraped_element 1 [(''selector'', JStr ''#pay''), (''tag_name'', JStr ''button''), (''name'', JStr ''Pay'')], ''#pay'')]"
  by (simp_all add: scraped_elements_def demo_button_def get_value_def)

lemma demo_observes:
  "\<exists>ob. runtime_observe demo_runtime (demo_session shown) = (Ok ob, (demo_session shown)\<lparr>pgs_selectors :=
     (if shown then [(''ap-0000'', ''#cancel''), (''ap-0001'', ''#pay'')] else [(''ap-0000'', ''#pay'')])\<rparr>) \<and>
     ro_url ob = ''u'' \<and> ro_page_html ob = ''h'' \<and> ro_elements ob \<noteq> [] \<and> be_element_id (hd (ro_elements ob)) = ''ap-0000'' \<and>
     be_name (hd (ro_elements ob)) = Some (if shown then ''Cancel'' else ''Pay'')"
proof -
  have "optional_string (JStr ''Cancel'') = Some ''Cancel''" "optional_string (JStr ''Pay'') = Some ''Pay''" by code_simp+
  then show ?thesis
    by (cases shown) (simp_all add: runtime_observe_def demo_runtime_def demo_page_def demo_session_def fresh_session_def
      prog_bind_def ensure_open_def lift_read_def lift_res_def read_page_state_def page_try_def trying_def at_page_def
      capture_tree_def Let_def demo_scraped demo_scraped [unfolded One_nat_def] scraped_element_def demo_names_of_elements
      get_value_def enumerate_iframes_def)
qed

lemma demo_profile: "is_ok (require_allowed_profile EXTERNAL_WRITE \<lparr>prf_mechanism = LOCATOR, prf_fallback_rank = 0, prf_evidence_refs = [''e'']\<rparr>)"
  "require_execution_mechanism (Some \<lparr>prf_mechanism = LOCATOR, prf_fallback_rank = 0, prf_evidence_refs = [''e'']\<rparr>) LOCATOR = Ok ()"
  by code_simp+

lemma ascii_snapshot: "ascii_text (snapshot_hash url html)"
  by (simp add: snapshot_hash_def sha256_def ascii_hexdigest sha256_bytes_small)

lemma demo_executes:
  assumes "pgs_page s = \<lparr>bp_shown = b, bp_clicks = []\<rparr>" "\<not> pgs_closed s" "map_of (pgs_selectors s) ''ap-0000'' = Some selector"
  shows "\<exists>q. runtime_preflight demo_runtime demo_click s = (Ok (), s) \<and>
    runtime_execute_preflighted demo_runtime demo_click s = (Ok q, s\<lparr>pgs_page := \<lparr>bp_shown = b, bp_clicks = [selector]\<rparr>\<rparr>)"
proof -
  from demo_profile(1) obtain d where d: "require_allowed_profile EXTERNAL_WRITE
      \<lparr>prf_mechanism = LOCATOR, prf_fallback_rank = 0, prf_evidence_refs = [''e'']\<rparr> = Ok d" unfolding is_ok_iff by blast
  have same: "compare_digest (snapshot_hash ''u'' ''h'') (snapshot_hash ''u'' ''h'') = Ok True"
    "compare_digest ''f'' ''f'' = Ok True" "compare_digest ''o'' ''o'' = Ok True"
    by (simp add: compare_digest_def ascii_snapshot, code_simp, code_simp)
  from assms have s: "s = \<lparr>pgs_page = \<lparr>bp_shown = b, bp_clicks = []\<rparr>, pgs_selectors = pgs_selectors s, pgs_closed = False\<rparr>" by simp
  have table: "selector_of (az_action demo_click) s = Some selector" by (simp add: selector_of_def demo_click_def assms(3))
  show ?thesis
    using table assms
    by (simp add: runtime_preflight_def validate_command_def runtime_execute_preflighted_def Let_def demo_click_def demo_runtime_def
      demo_page_def prog_bind_def ensure_open_def lift_read_def lift_res_def d demo_profile(2) at_page_def same res_bind_def
      page_call_def element_action_kinds_def trying_def)
qed

definition demo_seen :: "bool \<Rightarrow> button_page page_session" where
  "demo_seen shown = (demo_session shown)\<lparr>pgs_selectors :=
     (if shown then [(''ap-0000'', ''#cancel''), (''ap-0001'', ''#pay'')] else [(''ap-0000'', ''#pay'')])\<rparr>"

lemma demo_seen_parts: "pgs_page (demo_seen shown) = \<lparr>bp_shown = shown, bp_clicks = []\<rparr>" "\<not> pgs_closed (demo_seen shown)"
    "map_of (pgs_selectors (demo_seen shown)) ''ap-0000'' = Some (if shown then ''#cancel'' else ''#pay'')"
  by (simp_all add: demo_seen_def demo_session_def fresh_session_def)

lemma demo_page_laws: "foreign_errors (pr_page demo_runtime)" "reads_only (pr_page demo_runtime)"
proof -
  have keys: "fst (press_keys demo_page selector keys p) = Ok ()" for selector keys p
    by (induction keys) (simp_all add: lift_res_def demo_page_def prog_bind_def)
  have "fst (page_call demo_page a selector p) = Ok ()" for a selector p
    using keys by (auto simp: page_call_def split: action_kind.split) (simp_all add: demo_page_def)
  then show "foreign_errors (pr_page demo_runtime)"
    unfolding foreign_errors_def by (auto simp: demo_runtime_def) (metis Inl_Inr_False fst_conv)
  show "reads_only (pr_page demo_runtime)"
    by (simp add: reads_only_def unchanging_def demo_runtime_def demo_page_def)
qed

theorem effect_flag_honest_witness:
  "\<exists>q t selector y. runtime_execute_preflighted demo_runtime demo_click (demo_seen True) = (Ok q, t) \<and> br_effect_may_have_started q \<and>
     page_call demo_page (az_action demo_click) selector (pgs_page (demo_seen True)) = (y, pgs_page t)"
proof -
  obtain q t where run: "runtime_execute_preflighted demo_runtime demo_click (demo_seen True) = (Ok q, t)"
    using demo_executes [OF demo_seen_parts] by blast
  from effect_flag_honest [OF demo_page_laws(1) run] run show ?thesis by (auto simp: demo_runtime_def)
qed

theorem preflight_checks_witness:
  "runtime_preflight demo_runtime demo_click (demo_seen True) = (Ok (), demo_seen True) \<and>
   az_expected_snapshot_hash demo_click = sha256 (''u'' @ [CHR 0x0A] @ ''h'')"
proof -
  obtain t where run: "runtime_preflight demo_runtime demo_click (demo_seen True) = (Ok (), t)"
    using demo_executes [OF demo_seen_parts] by blast
  from preflight_checks [OF demo_page_laws(2) run] run show ?thesis
    by (auto simp: demo_runtime_def demo_page_def)
qed

theorem observed_elements_addressable_witness:
  "\<exists>ob. runtime_observe demo_runtime (demo_session True) = (Ok ob, demo_seen True) \<and> distinct (map be_element_id (ro_elements ob))"
proof -
  obtain ob where run: "runtime_observe demo_runtime (demo_session True) = (Ok ob, demo_seen True)"
    using demo_observes [of True] by (auto simp: demo_seen_def)
  from observed_elements_addressable [OF this] run show ?thesis by blast
qed

text \<open>
  What the binding of an action does not cover. The identifier of an element is its position among the
  visible ones, while the observation and the freshness check hash the URL and the HTML only. A command
  authorized to press the first button of one observation passes its preflight on a page with the same URL
  and HTML where that button became invisible, and presses the next one.
\<close>

lemma approved_button_moves:
  "\<exists>before after q t.
     runtime_observe demo_runtime (demo_session True) = (Ok before, demo_seen True) \<and>
     be_element_id (hd (ro_elements before)) = ''ap-0000'' \<and> be_name (hd (ro_elements before)) = Some ''Cancel'' \<and>
     az_expected_snapshot_hash demo_click = snapshot_hash (ro_url before) (ro_page_html before) \<and>
     runtime_observe demo_runtime (demo_session False) = (Ok after, demo_seen False) \<and>
     ro_url after = ro_url before \<and> ro_page_html after = ro_page_html before \<and>
     runtime_preflight demo_runtime demo_click (demo_seen False) = (Ok (), demo_seen False) \<and>
     runtime_execute_preflighted demo_runtime demo_click (demo_seen False) = (Ok q, t) \<and> bp_clicks (pgs_page t) = [''#pay'']"
proof -
  obtain before where before: "runtime_observe demo_runtime (demo_session True) = (Ok before, demo_seen True)"
    "ro_url before = ''u''" "ro_page_html before = ''h''" "be_element_id (hd (ro_elements before)) = ''ap-0000''"
    "be_name (hd (ro_elements before)) = Some ''Cancel''"
    using demo_observes [of True] by (auto simp: demo_seen_def)
  obtain after where after: "runtime_observe demo_runtime (demo_session False) = (Ok after, demo_seen False)"
    "ro_url after = ''u''" "ro_page_html after = ''h''"
    using demo_observes [of False] by (auto simp: demo_seen_def)
  obtain q t where run: "runtime_preflight demo_runtime demo_click (demo_seen False) = (Ok (), demo_seen False)"
    "runtime_execute_preflighted demo_runtime demo_click (demo_seen False) = (Ok q, t)" "bp_clicks (pgs_page t) = [''#pay'']"
    using demo_executes [OF demo_seen_parts, of False] by auto
  have "az_expected_snapshot_hash demo_click = snapshot_hash ''u'' ''h''" by (simp add: demo_click_def)
  with before after run show ?thesis by metis
qed

text \<open>Closing a managed session closes its page at most once.\<close>

lemma managed_close_once:
  assumes "managed_close m = (Ok (), m')"
  shows "managed_close m' = (Ok (), m')"
  using assms by (auto simp: managed_close_def split: if_splits prod.splits sum.splits)

end
