(* ===== verification/Spec2Isabelle.thy ===== *)
theory Spec2Isabelle
  imports ExecutionSafety Analysis Recovery Tenant ApprovalLaws Installations Planner PackRuntime Coordinator RunAccess PersistedExecution PaymentHistories LoopBridges PageRuntime
begin

text \<open>
  \<^bold>\<open>What this development models.\<close> AgentPact lets an automated agent drive business applications
  through a browser under control: a user asks for a business capability, a planner turns the request into
  a plan within the grants of that user, the plan is admitted as a run, and each browser action passes
  analysis, policy, approval, a one-time permit and a recorded attempt before it may touch the page. What
  happened afterwards is settled by probes of the business system, never by trying again. The Python of
  that control plane (\<open>src/enterprise/\<close>) is translated here function by function: pydantic models as
  records, enums as datatypes with their wire values, services as programs on the state they change,
  exceptions as values of \<open>exn + 'a\<close>.

  \<^bold>\<open>How the program fits together.\<close>
  \<^item> A request. \<open>enterprise/auth\<close> says who asks, \<open>enterprise/tenant\<close> what that user may see,
    \<open>governance/capabilities.py\<close> which capabilities the user's roles grant, \<open>agent/interactions.py\<close> and
    \<open>agent/constrained_planner.py\<close> how a request becomes a proposal, \<open>agent/work_orders.py\<close> how the
    proposal becomes a plan and its work orders, \<open>governance/admission*.py\<close> how it is admitted, once.
  \<^item> A run. \<open>agent_runs/journal.py\<close> keeps its events in a digest chain, \<open>coordinator.py\<close> turns the closed
    results of a domain pack into the next checkpoint, \<open>service.py\<close> is what users call, and
    \<open>integrations/skyvern_agent_run_store.py\<close> compares every checkpoint with the native task, step,
    attempt and permit rows.
  \<^item> A pack. \<open>governance/domain_pack*.py\<close>, \<open>pack_sdk.py\<close> and \<open>pack_conformance.py\<close> say which packs a
    tenant may run, \<open>pack_runtime.py\<close> pins their adapters and checks their results;
    \<open>domains/synthetic_payment\<close> is the reference pack.
  \<^item> An action. \<open>browser_loop/loop.py\<close> observes, decides, enforces, acts and verifies;
    \<open>governance/analysis.py\<close>, \<open>governor.py\<close> and \<open>execution_guard.py\<close> judge one page of actions,
    \<open>permit_service.py\<close> and \<open>execution_attempt_service.py\<close> guard the write,
    \<open>browser_loop/persisted_executor.py\<close> performs it between two commits and recovers what was abandoned.
  \<^item> An approval. \<open>pending_action_service.py\<close>, \<open>approval/*.py\<close> and \<open>approval_pause_service.py\<close> stop the
    native task, \<open>resume_execution_service.py\<close> and the recovery services resume it, once.

  \<^bold>\<open>Theories.\<close> Foundations:
  \<^item> \<open>Prelude\<close>: JSON values, exceptions as values, the state-passing programs (\<open>prog\<close>) with
    \<open>transaction\<close> as commit or rollback, \<open>checks\<close> for validation chains, and the relations \<open>keeps\<close> and
    \<open>guarantees\<close> by which invariants are carried through programs. \<open>Strings\<close>, \<open>Hashing\<close>: the Python string,
    \<open>hashlib\<close>, \<open>hmac\<close>, \<open>uuid5\<close> and \<open>json.dumps\<close> operations the code uses.
  \<^item> \<open>Registry\<close>, \<open>Lifecycle\<close>: the interfaces (locales) several components share: a registry that refuses a
    second registration and finds what was registered; a status machine whose moves climb a rank.
  Contracts and stores:
  \<^item> \<open>Contracts\<close> (\<open>governance/contracts.py\<close>), \<open>Profiles\<close> (\<open>execution_profiles.py\<close>), \<open>Store\<close> (the tables of
    \<open>governance/models.py\<close>, \<open>approval/models.py\<close> and the native tasks and steps; locale \<open>row_store\<close>),
    \<open>Classification\<close> (\<open>classification.py\<close>, the redaction and fingerprints of \<open>audit.py\<close>).
  Governance of one action:
  \<^item> \<open>Permits\<close>, \<open>Attempts\<close>, \<open>ExecutionSafety\<close>: the permit and attempt services, each with its moves, and the
    invariant of both tables over every sequence of calls (\<open>execution_step\<close>, \<open>exec_inv\<close>).
  \<^item> \<open>Analysis\<close>: \<open>analysis.py\<close>, \<open>governor.py\<close>, \<open>execution_guard.py\<close>. \<open>Recovery\<close>: \<open>recovery.py\<close>,
    \<open>result_probes.py\<close>, \<open>observation_evidence.py\<close>.
  \<^item> \<open>Pending\<close>, \<open>Pauses\<close>, \<open>ApprovalLaws\<close>: pending actions, approval requests, the pauses that tie them to
    native tasks, and what holds over every sequence of these services (\<open>approval_step\<close>).
  \<^item> \<open>BrowserLoop\<close>, \<open>LoopLaws\<close>: the loop of \<open>browser_loop/contracts.py\<close>, \<open>ports.py\<close>, \<open>loop.py\<close> over any
    ports; a Hoare-style calculus for its flows (\<open>flow_post\<close>, \<open>report_post\<close>). \<open>PersistedExecution\<close>:
    \<open>persisted_executor.py\<close> as the runtime of that loop, its recovery, and every interleaving of them with
    the other services (\<open>executor_step\<close>). \<open>LoopBridges\<close>: \<open>integrations.py\<close>, the probe of a pack
    as the verifier and the audit table as the sink of the events (locale \<open>event_trail\<close>). \<open>PageRuntime\<close>:
    \<open>runtime.py\<close> over the methods of a Playwright page.
  Users, plans and packs:
  \<^item> \<open>Auth\<close>, \<open>Tenant\<close>, \<open>Capabilities\<close>, \<open>WorkOrders\<close>, \<open>Interactions\<close>, \<open>Planner\<close>, \<open>Admission\<close>.
  \<^item> \<open>Packs\<close>, \<open>Conformance\<close>, \<open>Installations\<close>, \<open>PackRuntime\<close>: manifests and offline contracts, the static
    conformance report, tenant installations, and the runtime registry (\<open>registry_step\<close>).
  \<^item> \<open>SyntheticPay\<close>, \<open>PaymentLaws\<close>, \<open>PaymentHistories\<close>: the reference payment pack, its invariant, and
    every sequence of its calls with one run worked out.
  Runs:
  \<^item> \<open>Journal\<close> (locale \<open>native_store\<close>), \<open>Inputs\<close>, \<open>NativeStore\<close> (which interprets it), \<open>Coordinator\<close>,
    \<open>RunViews\<close> and \<open>AgentRuns\<close> (the queries and the commands of \<open>agent_runs/service.py\<close>), \<open>RunLaws\<close> and
    \<open>RunAccess\<close> (what the commands do to a run and who may call them).

  \<^bold>\<open>How the state corresponds.\<close> A SQLAlchemy session is a \<open>db\<close> record of tables, each the list of its rows;
  \<open>session.begin\<close> is \<open>transaction\<close>, which restores the state when the program raises. Two sessions that
  interleave are two programs run one after the other, in any order: the step relations range over whole
  transactions, as the database serializes them by the row locks the code takes. Python dictionaries are
  association lists in insertion order where the order shows and maps elsewhere; a set is a set; an instant
  is an integer number of microseconds. Clock readings, random identifiers and primary keys are arguments,
  so a theorem holds for any of them; where the code relies on random identifiers not repeating, that is a
  hypothesis (\<open>inj\<close>). Operations the program receives from outside (the model, the browser, a pack,
  \<open>jose.jwt\<close>, \<open>bcrypt\<close>, pydantic's parsing of raw documents) are functions among the arguments, in general
  programs that may change the world they run on and raise anything.

  \<^bold>\<open>What the properties show.\<close> Each stands after a text block with its number, C1 the most important.
  \<^item> Writes: at most one per run reaches the browser, a permit lets at most one cross whatever
    interleaves, attempts are backed by permits and never replayed, a write that reached
    the browser is recorded as such and abandoned ones are settled.
  \<^item> The loop always ends in a report within its budgets, only governed commands reach the runtime,
    reports are grounded, the audit table holds the events of a run in order, and the page runtime says
    truly whether an action may have had an effect. The payment pack commits at most once and tells the truth.
  \<^item> Approvals are atomic, consumed once and never the requester's own; journals are chains, appended once;
    admissions happen exactly once; grants, tenants and packs confine what a user and a run can reach; the
    commands of a run are all or nothing.
  \<^item> Integrity theorems about digests conclude "equal, or here is a collision of SHA-256".

  \<^bold>\<open>Bounds.\<close> No definition uses fuel of its own. The browser loop recurses on the iterations its
  configuration grants, as the code's \<open>for\<close> does, so its totality is a theorem; the recursion of JSON
  printing, redaction and string matching is structural or by a measure proved at the definition.
  SHA-256 works on 32-bit words with wrap-around; it is never evaluated in a proof.

  \<^bold>\<open>Not modelled.\<close>
  \<^item> The vendored Skyvern engine (\<open>src/skyvern\<close>: agent, page scraping, workflows, generated API client, CLI)
    but for the status tables of its tasks and steps: network, browser and database calls over code of a
    third party. The web front end, the migrations and scripts, and the benchmarks.
  \<^item> The Stripe pack (\<open>domains/stripe_payment\<close>): calls of the Stripe sandbox, a local web application and a
    live browser. The temporary adapter around Skyvern's scraper in \<open>browser_loop/runtime.py\<close>.
  \<^item> HTTP routing and serialization (\<open>agent_runs/routes.py\<close>, FastAPI dependencies as functions only),
    logging, \<open>governance/browser_audit.py\<close>, \<open>audit_reporting.py\<close>, \<open>egress_shadow.py\<close>, \<open>dry_run.py\<close>,
    \<open>versioning.py\<close>: reports on data the modelled services wrote. The timer of the recovery scheduler: one
    cycle of it is modelled.
  \<^item> Advisory locks and lock waits: a transaction is one step. Columns no modelled code reads.
  \<^item> Parsing of raw documents by pydantic beyond what the code itself writes; the default values of ports
    and services that only bind objects together (\<open>applications/agent_runs.py\<close>).
\<close>

end
